(* ===== verification/Prelude.thy ===== *)
theory Prelude
  imports Main "HOL-Library.Word" "HOL-Library.List_Lexorder" "HOL-Library.Char_ord"
    "HOL-Library.Product_Lexorder"
begin

text \<open>
  The vocabulary every other theory of the development shares.

  \<^item> Strings. A Rust \<open>String\<close> is modelled by the list of its UTF-8 bytes, so that the
    byte-wise \<open>Ord\<close> of Rust is the lexicographic order of \<open>List_Lexorder\<close> over \<open>Char_ord\<close>.
    \<open>str::trim\<close> and \<open>str::split_whitespace\<close> recognise the 25 Unicode
    \<open>White_Space\<close> code points by their UTF-8 encodings.
  \<^item> Saturating arithmetic of \<open>u32\<close>, \<open>u64\<close> and \<open>usize\<close> counters, written out on \<open>nat\<close>.
  \<^item> \<open>BTreeMap\<close> and \<open>BTreeSet\<close> as sorted association lists and sorted distinct lists, with
    the interface their clients rely on as the locale \<open>ordered_map\<close>.
  \<^item> Fallible handlers: a handler returns \<open>(error + result) \<times> state\<close>; \<open>guard\<close> is the \<open>?\<close> of Rust.
\<close>

named_theorems handler_defs "unfolding equations of the reducer's handlers"
named_theorems step_facts "what every handler keeps of the reducer's invariants"

section \<open>Bounded counters\<close>

definition u32_max :: nat where "u32_max = 4294967295"
definition u64_max :: nat where "u64_max = 18446744073709551615"

definition sat_add32 :: "nat \<Rightarrow> nat \<Rightarrow> nat" where
  "sat_add32 a b = min (a + b) u32_max"

definition sat_add64 :: "nat \<Rightarrow> nat \<Rightarrow> nat" where
  "sat_add64 a b = min (a + b) u64_max"

lemma sat_add32_le: "sat_add32 a b \<le> a + b"
  by (simp add: sat_add32_def)

lemma sat_add32_bound [simp]: "sat_add32 a b \<le> u32_max"
  by (simp add: sat_add32_def)

lemma sat_add32_mono: "a \<le> u32_max \<Longrightarrow> a \<le> sat_add32 a b"
  by (simp add: sat_add32_def)

lemma sat_add32_exact: "a + b \<le> u32_max \<Longrightarrow> sat_add32 a b = a + b"
  by (simp add: sat_add32_def)

lemma sat_add64_bound [simp]: "sat_add64 a b \<le> u64_max"
  by (simp add: sat_add64_def)

section \<open>Text\<close>

definition strip_prefix :: "string \<Rightarrow> string \<Rightarrow> string option" where
  "strip_prefix p s = (if take (length p) s = p then Some (drop (length p) s) else None)"

lemma strip_prefix_append [simp]: "strip_prefix p (p @ s) = Some s"
  by (simp add: strip_prefix_def)

lemma strip_prefix_SomeD: "strip_prefix p s = Some r \<Longrightarrow> s = p @ r"
  by (auto simp: strip_prefix_def split: if_splits) (metis append_take_drop_id)

lemma strip_prefix_Nil [simp]: "p \<noteq> [] \<Longrightarrow> strip_prefix p [] = None"
  by (simp add: strip_prefix_def)

text \<open>The UTF-8 encodings of the Unicode \<open>White_Space\<close> code points, as \<open>char::is_whitespace\<close> has them.\<close>

definition ws_codes :: "string list" where
  "ws_codes =
    [[CHR 0x09], [CHR 0x0A], [CHR 0x0B], [CHR 0x0C], [CHR 0x0D], [CHR 0x20],
     [CHR 0xC2, CHR 0x85], [CHR 0xC2, CHR 0xA0], [CHR 0xE1, CHR 0x9A, CHR 0x80],
     [CHR 0xE2, CHR 0x80, CHR 0x80], [CHR 0xE2, CHR 0x80, CHR 0x81], [CHR 0xE2, CHR 0x80, CHR 0x82],
     [CHR 0xE2, CHR 0x80, CHR 0x83], [CHR 0xE2, CHR 0x80, CHR 0x84], [CHR 0xE2, CHR 0x80, CHR 0x85],
     [CHR 0xE2, CHR 0x80, CHR 0x86], [CHR 0xE2, CHR 0x80, CHR 0x87], [CHR 0xE2, CHR 0x80, CHR 0x88],
     [CHR 0xE2, CHR 0x80, CHR 0x89], [CHR 0xE2, CHR 0x80, CHR 0x8A], [CHR 0xE2, CHR 0x80, CHR 0xA8],
     [CHR 0xE2, CHR 0x80, CHR 0xA9], [CHR 0xE2, CHR 0x80, CHR 0xAF], [CHR 0xE2, CHR 0x81, CHR 0x9F],
     [CHR 0xE3, CHR 0x80, CHR 0x80]]"

fun strip_any :: "string list \<Rightarrow> string \<Rightarrow> string option" where
  "strip_any [] s = None"
| "strip_any (p # ps) s =
    (case strip_prefix p s of Some r \<Rightarrow> Some r | None \<Rightarrow> strip_any ps s)"

function trim_with :: "string list \<Rightarrow> string \<Rightarrow> string" where
  "trim_with codes s =
    (case strip_any codes s of
       None \<Rightarrow> s
     | Some r \<Rightarrow> if length r < length s then trim_with codes r else s)"
  by pat_completeness auto
termination by (relation "measure (length \<circ> snd)") auto

declare trim_with.simps [simp del]

definition trim_start :: "string \<Rightarrow> string" where
  "trim_start s = trim_with ws_codes s"

definition trim_end :: "string \<Rightarrow> string" where
  "trim_end s = rev (trim_with (map rev ws_codes) (rev s))"

definition trim :: "string \<Rightarrow> string" where
  "trim s = trim_end (trim_start s)"

lemma trim_with_idle: "strip_any codes s = None \<Longrightarrow> trim_with codes s = s"
  by (subst trim_with.simps) simp

lemma trim_with_stops: "\<forall>p \<in> set codes. p \<noteq> [] \<Longrightarrow> strip_any codes (trim_with codes s) = None"
proof (induction codes s rule: trim_with.induct)
  case (1 codes s)
  have shorter: "strip_any cs x = Some r \<Longrightarrow> \<forall>p \<in> set cs. p \<noteq> [] \<Longrightarrow> length r < length x" for cs x r
    by (induction cs) (auto split: option.splits dest!: strip_prefix_SomeD)
  show ?case
  proof (cases "strip_any codes s")
    case None
    then show ?thesis by (simp add: trim_with_idle)
  next
    case (Some r)
    with 1 shorter[OF Some] show ?thesis
      by (subst trim_with.simps) auto
  qed
qed

lemma strip_prefix_longer: "strip_prefix p xs = Some r \<Longrightarrow> strip_prefix p (xs @ ys) = Some (r @ ys)"
  by (auto dest!: strip_prefix_SomeD)

lemma strip_any_longer: "strip_any codes (xs @ ys) = None \<Longrightarrow> strip_any codes xs = None"
proof (induction codes)
  case (Cons p ps)
  then show ?case
    using strip_prefix_longer[of p xs _ ys] by (cases "strip_prefix p xs") (auto split: option.splits)
qed simp

lemma trim_with_suffix: "\<exists>pre. s = pre @ trim_with codes s"
proof (induction codes s rule: trim_with.induct)
  case (1 codes s)
  have part: "strip_any cs x = Some r \<Longrightarrow> \<exists>pre. x = pre @ r" for cs x r
    by (induction cs) (auto split: option.splits dest!: strip_prefix_SomeD)
  show ?case
  proof (cases "strip_any codes s")
    case None
    then show ?thesis by (simp add: trim_with_idle)
  next
    case (Some r)
    then obtain pre where "s = pre @ r" using part by blast
    then show ?thesis
      using 1[OF Some] Some by (subst trim_with.simps) (auto, metis append.assoc)
  qed
qed

lemma trim_trim [simp]: "trim (trim s) = trim s"
proof -
  let ?a = "trim_start s" and ?e = "trim_end (trim_start s)"
  have codes: "\<forall>p \<in> set ws_codes. p \<noteq> []" "\<forall>p \<in> set (map rev ws_codes). p \<noteq> []" by (auto simp: ws_codes_def)
  obtain pre where "rev ?a = pre @ rev ?e"
    using trim_with_suffix[of "rev ?a" "map rev ws_codes"] by (auto simp: trim_end_def)
  then have a: "?a = ?e @ rev pre" by (metis rev_append rev_rev_ident)
  have "strip_any ws_codes ?a = None" unfolding trim_start_def by (rule trim_with_stops[OF codes(1)])
  then have "strip_any ws_codes ?e = None" using a strip_any_longer by metis
  then have "trim_start ?e = ?e" by (simp add: trim_start_def trim_with_idle)
  moreover have "trim_end ?e = ?e"
    by (simp add: trim_end_def trim_with_idle[OF trim_with_stops[OF codes(2)]])
  ultimately show ?thesis by (simp add: trim_def)
qed

lemma trim_Nil [simp]: "trim [] = []"
  by (simp add: trim_def trim_start_def trim_end_def trim_with.simps ws_codes_def)

text \<open>Decimal rendering of \<open>nat\<close> (Rust \<open>Display\<close> of unsigned integers) and zero padding.\<close>

definition digit_char :: "nat \<Rightarrow> char" where
  "digit_char d = char_of (48 + d)"

fun show_nat_aux :: "nat \<Rightarrow> nat \<Rightarrow> string" where
  "show_nat_aux 0 n = []"
| "show_nat_aux (Suc k) n =
    (if n < 10 then [digit_char n] else show_nat_aux k (n div 10) @ [digit_char (n mod 10)])"

definition show_nat :: "nat \<Rightarrow> string" where
  "show_nat n = show_nat_aux (Suc n) n"

definition pad_left :: "nat \<Rightarrow> char \<Rightarrow> string \<Rightarrow> string" where
  "pad_left w c s = replicate (w - length s) c @ s"

definition is_digit :: "char \<Rightarrow> bool" where
  "is_digit c \<longleftrightarrow> 48 \<le> (of_char c :: nat) \<and> (of_char c :: nat) \<le> 57"

definition digit_val :: "char \<Rightarrow> nat" where
  "digit_val c = of_char c - 48"

definition digits_val :: "string \<Rightarrow> nat" where
  "digits_val s = foldl (\<lambda>acc c. acc * 10 + digit_val c) 0 s"

lemma is_digit_digit_char [simp]: "d < 10 \<Longrightarrow> is_digit (digit_char d)"
  by (simp add: is_digit_def digit_char_def)

lemma digit_val_digit_char [simp]: "d < 10 \<Longrightarrow> digit_val (digit_char d) = d"
  by (simp add: digit_val_def digit_char_def)

lemma digits_val_Nil [simp]: "digits_val [] = 0"
  by (simp add: digits_val_def)

lemma digits_val_snoc [simp]: "digits_val (s @ [c]) = digits_val s * 10 + digit_val c"
  by (simp add: digits_val_def)

lemma show_nat_aux_val: "n < k \<Longrightarrow> digits_val (show_nat_aux k n) = n"
proof (induction k n rule: show_nat_aux.induct)
  case (2 k n)
  show ?case
  proof (cases "n < 10")
    case True
    then show ?thesis using digits_val_snoc[of "[]" "digit_char n"] by simp
  next
    case False
    then have "n div 10 < k" using 2 by linarith
    with 2 False show ?thesis by simp
  qed
qed simp

lemma digits_val_show_nat [simp]: "digits_val (show_nat n) = n"
  unfolding show_nat_def by (rule show_nat_aux_val) simp

lemma show_nat_aux_digits: "\<forall>c \<in> set (show_nat_aux k n). is_digit c"
  by (induction k n rule: show_nat_aux.induct) auto

lemma show_nat_digits: "c \<in> set (show_nat n) \<Longrightarrow> is_digit c"
  unfolding show_nat_def using show_nat_aux_digits by blast

lemma show_nat_nonempty [simp]: "show_nat n \<noteq> []"
  by (simp add: show_nat_def)

lemma show_nat_inj [simp]: "show_nat a = show_nat b \<longleftrightarrow> a = b"
  by (metis digits_val_show_nat)

section \<open>Ordered maps and sets\<close>

text \<open>
  What the reducer relies on of \<open>BTreeMap<String, _>\<close>: lookup after insertion and removal, and
  iteration in key order.
\<close>

locale ordered_map =
  fixes look :: "'m \<Rightarrow> 'k::linorder \<Rightarrow> 'v option"
    and ins :: "'k \<Rightarrow> 'v \<Rightarrow> 'm \<Rightarrow> 'm"
    and del :: "'k \<Rightarrow> 'm \<Rightarrow> 'm"
    and keys :: "'m \<Rightarrow> 'k list"
    and invar :: "'m \<Rightarrow> bool"
  assumes look_ins: "invar m \<Longrightarrow> look (ins k v m) = (look m)(k \<mapsto> v)"
    and look_del: "invar m \<Longrightarrow> look (del k m) = (look m)(k := None)"
    and invar_ins: "invar m \<Longrightarrow> invar (ins k v m)"
    and invar_del: "invar m \<Longrightarrow> invar (del k m)"
    and keys_sorted: "invar m \<Longrightarrow> sorted (keys m) \<and> distinct (keys m)"
    and keys_dom: "invar m \<Longrightarrow> set (keys m) = dom (look m)"
begin

lemma look_ins_same: "invar m \<Longrightarrow> look (ins k v m) k = Some v"
  by (simp add: look_ins)

lemma look_ins_other: "invar m \<Longrightarrow> k \<noteq> k' \<Longrightarrow> look (ins k v m) k' = look m k'"
  by (simp add: look_ins)

lemma keys_ins: "invar m \<Longrightarrow> set (keys (ins k v m)) = insert k (set (keys m))"
  by (simp add: keys_dom invar_ins look_ins)

lemma keys_del: "invar m \<Longrightarrow> set (keys (del k m)) = set (keys m) - {k}"
  by (simp add: keys_dom invar_del look_del)

lemma fresh_iff: "invar m \<Longrightarrow> look m k = None \<longleftrightarrow> k \<notin> set (keys m)"
  by (auto simp: keys_dom)

end

type_synonym ('k, 'v) btmap = "('k \<times> 'v) list"

fun bt_insert :: "'k::linorder \<Rightarrow> 'v \<Rightarrow> ('k, 'v) btmap \<Rightarrow> ('k, 'v) btmap" where
  "bt_insert k v [] = [(k, v)]"
| "bt_insert k v ((k', v') # m) =
    (if k < k' then (k, v) # (k', v') # m
     else if k = k' then (k, v) # m
     else (k', v') # bt_insert k v m)"

fun bt_remove :: "'k \<Rightarrow> ('k, 'v) btmap \<Rightarrow> ('k, 'v) btmap" where
  "bt_remove k [] = []"
| "bt_remove k ((k', v') # m) = (if k = k' then m else (k', v') # bt_remove k m)"

text \<open>\<open>bt_set\<close> writes through the \<open>&mut\<close> that \<open>get_mut\<close> hands out: the entry must already exist.\<close>

fun bt_set :: "'k \<Rightarrow> 'v \<Rightarrow> ('k, 'v) btmap \<Rightarrow> ('k, 'v) btmap" where
  "bt_set k v [] = []"
| "bt_set k v ((k', v') # m) = (if k = k' then (k', v) # m else (k', v') # bt_set k v m)"

definition bt_keys :: "('k, 'v) btmap \<Rightarrow> 'k list" where
  "bt_keys m = map fst m"

definition bt_values :: "('k, 'v) btmap \<Rightarrow> 'v list" where
  "bt_values m = map snd m"

definition bt_invar :: "('k::linorder, 'v) btmap \<Rightarrow> bool" where
  "bt_invar m \<longleftrightarrow> sorted (map fst m) \<and> distinct (map fst m)"

lemma bt_keys_Nil [simp]: "bt_keys [] = []" by (simp add: bt_keys_def)

lemma bt_insert_keys: "set (map fst (bt_insert k v m)) = insert k (set (map fst m))"
  by (induction m rule: bt_insert.induct[where ?a0.0 = k and ?a1.0 = v]) auto

lemma bt_insert_invar: "bt_invar m \<Longrightarrow> bt_invar (bt_insert k v m)"
proof (induction k v m rule: bt_insert.induct)
  case (2 k v k' v' m)
  then show ?case using bt_insert_keys[of k v m] by (auto simp: bt_invar_def)
qed (simp add: bt_invar_def)

lemma bt_insert_look: "bt_invar m \<Longrightarrow> map_of (bt_insert k v m) = (map_of m)(k \<mapsto> v)"
  by (induction k v m rule: bt_insert.induct) (auto simp: bt_invar_def)

lemma bt_remove_keys: "set (map fst (bt_remove k m)) \<subseteq> set (map fst m)"
  by (induction k m rule: bt_remove.induct) auto

lemma bt_remove_invar: "bt_invar m \<Longrightarrow> bt_invar (bt_remove k m)"
proof (induction k m rule: bt_remove.induct)
  case (2 k k' v' m)
  then show ?case using bt_remove_keys[of k m]
    by (auto simp: bt_invar_def subset_iff) (metis fst_conv image_iff)
qed simp

lemma bt_remove_look: "bt_invar m \<Longrightarrow> map_of (bt_remove k m) = (map_of m)(k := None)"
proof (induction k m rule: bt_remove.induct)
  case (2 k k' v' m)
  then show ?case
    by (auto simp: bt_invar_def fun_eq_iff map_of_eq_None_iff)
qed simp

interpretation bt: ordered_map map_of bt_insert bt_remove bt_keys bt_invar
  by unfold_locales
    (simp_all add: bt_insert_look bt_remove_look bt_insert_invar bt_remove_invar
      bt_keys_def dom_map_of_conv_image_fst, simp_all add: bt_invar_def)

lemma bt_set_keys [simp]: "map fst (bt_set k v m) = map fst m"
  by (induction k v m rule: bt_set.induct) auto

lemma bt_set_invar [simp]: "bt_invar (bt_set k v m) = bt_invar m"
  by (simp add: bt_invar_def)

lemma bt_set_look: "map_of (bt_set k v m) = (if k \<in> dom (map_of m) then (map_of m)(k \<mapsto> v) else map_of m)"
  by (induction k v m rule: bt_set.induct) auto

lemma bt_set_look_same: "map_of m k = Some w \<Longrightarrow> map_of (bt_set k v m) k = Some v"
  by (auto simp: bt_set_look)

text \<open>\<open>BTreeSet<String>\<close> as a sorted distinct list.\<close>

fun bts_insert :: "'k::linorder \<Rightarrow> 'k list \<Rightarrow> 'k list" where
  "bts_insert k [] = [k]"
| "bts_insert k (x # xs) =
    (if k < x then k # x # xs else if k = x then x # xs else x # bts_insert k xs)"

definition bts_of :: "'k::linorder list \<Rightarrow> 'k list" where
  "bts_of xs = fold bts_insert xs []"

lemma bts_insert_set [simp]: "set (bts_insert k xs) = insert k (set xs)"
  by (induction k xs rule: bts_insert.induct) auto

lemma bts_insert_sorted: "sorted xs \<and> distinct xs \<Longrightarrow> sorted (bts_insert k xs) \<and> distinct (bts_insert k xs)"
  by (induction k xs rule: bts_insert.induct) auto

lemma bts_of_set [simp]: "set (bts_of xs) = set xs"
proof -
  have "set (fold bts_insert xs ys) = set xs \<union> set ys" for ys
    by (induction xs arbitrary: ys) auto
  then show ?thesis by (simp add: bts_of_def)
qed

lemma bts_of_sorted: "sorted (bts_of xs) \<and> distinct (bts_of xs)"
proof -
  have "sorted ys \<and> distinct ys \<Longrightarrow> sorted (fold bts_insert xs ys) \<and> distinct (fold bts_insert xs ys)" for ys
    by (induction xs arbitrary: ys) (simp_all add: bts_insert_sorted)
  then show ?thesis by (simp add: bts_of_def)
qed

section \<open>Relations between two versions of a map\<close>

text \<open>\<open>entries_rel R m m'\<close>: the same keys in the same order, related values.\<close>

definition entries_rel :: "('v \<Rightarrow> 'v \<Rightarrow> bool) \<Rightarrow> ('k, 'v) btmap \<Rightarrow> ('k, 'v) btmap \<Rightarrow> bool" where
  "entries_rel R m m' \<longleftrightarrow> list_all2 (\<lambda>e e'. fst e = fst e' \<and> R (snd e) (snd e')) m m'"

lemma entries_rel_refl: "(\<And>v. R v v) \<Longrightarrow> entries_rel R m m"
  by (simp add: entries_rel_def list_all2_same)

lemma entries_rel_keys: "entries_rel R m m' \<Longrightarrow> map fst m' = map fst m"
  by (auto simp: entries_rel_def list_all2_conv_all_nth intro: nth_equalityI)

lemma entries_rel_trans:
  assumes "\<And>a b c. R a b \<Longrightarrow> R b c \<Longrightarrow> R a c" "entries_rel R m m'" "entries_rel R m' m''"
  shows "entries_rel R m m''"
  using assms unfolding entries_rel_def list_all2_conv_all_nth by (metis (no_types, lifting))

lemma entries_rel_set:
  assumes "\<And>v. R v v" "map_of m k = Some v" "R v w"
  shows "entries_rel R m (bt_set k w m)"
  using assms(2)
proof (induction m)
  case (Cons e m)
  then show ?case
    using assms(1,3) entries_rel_refl[of R m]
    by (cases e) (auto simp: entries_rel_def split: if_splits)
qed simp

lemma entries_rel_look:
  assumes "entries_rel R m m'"
  shows "rel_option R (map_of m k) (map_of m' k)"
  using assms unfolding entries_rel_def
proof (induction rule: list_all2_induct)
  case (Cons e m e' m')
  then show ?case by (cases e; cases e') auto
qed simp

lemma entries_rel_map: "(\<And>k v. (k, v) \<in> set m \<Longrightarrow> R v (f k v)) \<Longrightarrow>
    entries_rel R m (map (\<lambda>(k, v). (k, f k v)) m)"
  by (induction m) (auto simp: entries_rel_def)

section \<open>Fallible handlers\<close>

text \<open>
  A handler of the reducer runs on \<open>&mut self\<close>: it returns the state it reached even when it
  returns an error. \<open>guard r s k\<close> is \<open>r?\<close> followed by \<open>k\<close>.
\<close>

type_synonym ('e, 'a, 's) outcome = "('e + 'a) \<times> 's"

definition guard :: "'e + 'b \<Rightarrow> 's \<Rightarrow> ('b \<Rightarrow> ('e, 'a, 's) outcome) \<Rightarrow> ('e, 'a, 's) outcome" where
  "guard r s k = (case r of Inl e \<Rightarrow> (Inl e, s) | Inr b \<Rightarrow> k b)"

lemma guard_Inl [simp]: "guard (Inl e) s k = (Inl e, s)"
  by (simp add: guard_def)

lemma guard_Inr [simp]: "guard (Inr b) s k = k b"
  by (simp add: guard_def)

lemma guard_eq_Inr [simp]:
  "guard r s k = (Inr a, s') \<longleftrightarrow> (\<exists>b. r = Inr b \<and> k b = (Inr a, s'))"
  by (cases r) auto

definition ensure :: "bool \<Rightarrow> 'e \<Rightarrow> 'e + unit" where
  "ensure b e = (if b then Inr () else Inl e)"

lemma ensure_Inr [simp]: "ensure b e = Inr u \<longleftrightarrow> b"
  by (simp add: ensure_def)

lemma ensure_eq_Inl [simp]: "ensure b e = Inl e' \<longleftrightarrow> \<not> b \<and> e' = e"
  by (auto simp: ensure_def)

definition bind_res :: "'e + 'a \<Rightarrow> ('a \<Rightarrow> 'e + 'b) \<Rightarrow> 'e + 'b" where
  "bind_res r k = (case r of Inl e \<Rightarrow> Inl e | Inr a \<Rightarrow> k a)"

lemma bind_res_Inr [simp]: "bind_res r k = Inr b \<longleftrightarrow> (\<exists>a. r = Inr a \<and> k a = Inr b)"
  by (simp add: bind_res_def split: sum.splits)

fun each_res :: "('a \<Rightarrow> 'e + unit) \<Rightarrow> 'a list \<Rightarrow> 'e + unit" where
  "each_res f [] = Inr ()"
| "each_res f (x # xs) = (case f x of Inl e \<Rightarrow> Inl e | Inr _ \<Rightarrow> each_res f xs)"

lemma each_res_Inr: "each_res f xs = Inr u \<longleftrightarrow> (\<forall>x \<in> set xs. f x = Inr ())"
  by (induction xs) (auto split: sum.splits)

fun pref_find :: "('a \<Rightarrow> bool) \<Rightarrow> 'a list \<Rightarrow> 'a option" where
  "pref_find P [] = None"
| "pref_find P (x # xs) = (if P x then Some x else pref_find P xs)"

end
