(* ===== verification/Vocab.thy ===== *)
theory Vocab
  imports Prelude
begin

text \<open>
  \<open>src/engine/src/task_id.rs\<close>, \<open>resolvers/vocab.rs\<close> and \<open>resolvers/tiering.rs\<close>: the task
  identifier validator, the shared vocabulary of the resolvers (executor level, risk, author of a
  range, base reviewer) with its literals, and the base reviewer tier.
\<close>

section \<open>Task identifiers\<close>

definition is_task_id :: "string \<Rightarrow> bool" where
  "is_task_id s =
    (case strip_prefix ''T-'' s of
       None \<Rightarrow> False
     | Some ds \<Rightarrow> ds \<noteq> [] \<and> list_all is_digit ds)"

section \<open>The literal vocabulary\<close>

datatype level = CoderFast | Coder | CoderDeep

definition level_as_str :: "level \<Rightarrow> string" where
  "level_as_str l =
    (case l of CoderFast \<Rightarrow> ''coder_fast'' | Coder \<Rightarrow> ''coder'' | CoderDeep \<Rightarrow> ''coder_deep'')"

definition level_from_field :: "string \<Rightarrow> level option" where
  "level_from_field literal =
    (let s = trim literal in
     if s = ''coder_fast'' then Some CoderFast
     else if s = ''coder'' then Some Coder
     else if s = ''coder_deep'' then Some CoderDeep
     else None)"

datatype risk = Low | Medium | High

fun risk_rank :: "risk \<Rightarrow> nat" where
  "risk_rank Low = 0" | "risk_rank Medium = 1" | "risk_rank High = 2"

text \<open>The derived \<open>PartialOrd\<close>/\<open>Ord\<close> of \<open>Risk\<close>: declaration order.\<close>

instantiation risk :: linorder
begin

definition less_eq_risk :: "risk \<Rightarrow> risk \<Rightarrow> bool" where
  "less_eq_risk a b \<longleftrightarrow> risk_rank a \<le> risk_rank b"

definition less_risk :: "risk \<Rightarrow> risk \<Rightarrow> bool" where
  "less_risk a b \<longleftrightarrow> risk_rank a < risk_rank b"

instance
proof
  fix a b :: risk
  show "a \<le> b \<Longrightarrow> b \<le> a \<Longrightarrow> a = b"
    by (cases a; cases b) (simp_all add: less_eq_risk_def)
qed (auto simp: less_eq_risk_def less_risk_def)

end

definition risk_as_str :: "risk \<Rightarrow> string" where
  "risk_as_str r = (case r of Low \<Rightarrow> ''low'' | Medium \<Rightarrow> ''medium'' | High \<Rightarrow> ''high'')"

definition risk_from_token :: "string \<Rightarrow> risk option" where
  "risk_from_token token =
    (let s = trim token in
     if s = ''low'' then Some Low
     else if s = ''medium'' then Some Medium
     else if s = ''high'' then Some High
     else None)"

text \<open>The first item of \<open>split_whitespace\<close>: the bytes before the next white-space character.\<close>

fun until_ws :: "string \<Rightarrow> string" where
  "until_ws [] = []"
| "until_ws (c # cs) = (if strip_any ws_codes (c # cs) = None then c # until_ws cs else [])"

definition first_word :: "string \<Rightarrow> string option" where
  "first_word s = (let t = trim_start s in if t = [] then None else Some (until_ws t))"

definition risk_from_field :: "string \<Rightarrow> risk option" where
  "risk_from_field literal =
    (case first_word literal of None \<Rightarrow> None | Some token \<Rightarrow> risk_from_token token)"

datatype impl_by = Claude | Codex

definition impl_as_str :: "impl_by \<Rightarrow> string" where
  "impl_as_str i = (case i of Claude \<Rightarrow> ''Claude'' | Codex \<Rightarrow> ''codex'')"

definition impl_parse :: "string \<Rightarrow> impl_by option" where
  "impl_parse token =
    (let s = trim token in
     if s = ''Claude'' then Some Claude else if s = ''codex'' then Some Codex else None)"

text \<open>\<open>str::split(c)\<close>: the fields between the separators, always at least one.\<close>

fun split_on :: "char \<Rightarrow> string \<Rightarrow> string list" where
  "split_on c [] = [[]]"
| "split_on c (x # xs) =
    (if x = c then [] # split_on c xs
     else (case split_on c xs of [] \<Rightarrow> [[x]] | w # ws \<Rightarrow> (x # w) # ws))"

definition parse_impl_history :: "string \<Rightarrow> impl_by list" where
  "parse_impl_history value = List.map_filter impl_parse (split_on (CHR '','') value)"

definition last_impl :: "string \<Rightarrow> impl_by option" where
  "last_impl value =
    (let h = parse_impl_history value in if h = [] then None else Some (last h))"

datatype base_reviewer_tier = ReviewerStd | Reviewer

definition base_reviewer_as_str :: "base_reviewer_tier \<Rightarrow> string" where
  "base_reviewer_as_str b = (case b of ReviewerStd \<Rightarrow> ''reviewer_std'' | Reviewer \<Rightarrow> ''reviewer'')"

section \<open>Review tier\<close>

definition base_reviewer :: "bool \<Rightarrow> level \<Rightarrow> base_reviewer_tier" where
  "base_reviewer tiering_enabled l =
    (if \<not> tiering_enabled then Reviewer
     else (case l of CoderFast \<Rightarrow> ReviewerStd | Coder \<Rightarrow> Reviewer | CoderDeep \<Rightarrow> Reviewer))"

definition base_reviewers_for_dimensions ::
    "bool \<Rightarrow> level \<Rightarrow> string list \<Rightarrow> (string \<times> base_reviewer_tier) list" where
  "base_reviewers_for_dimensions tiering_enabled l dimensions =
    (let base = base_reviewer tiering_enabled l in map (\<lambda>dimension. (dimension, base)) dimensions)"

section \<open>Round trips\<close>

lemma split_on_nonempty [simp]: "split_on c s \<noteq> []"
  by (induction c s rule: split_on.induct) (auto split: list.splits)

lemma split_on_append_sep: "c \<notin> set w \<Longrightarrow> split_on c (w @ c # s) = w # split_on c s"
  by (induction w) auto

lemma split_on_no_sep: "c \<notin> set w \<Longrightarrow> split_on c w = [w]"
  by (induction w) auto

text \<open>\<open>join sep ws\<close> is \<open>[String]::join\<close>.\<close>

fun join :: "string \<Rightarrow> string list \<Rightarrow> string" where
  "join sep [] = []"
| "join sep [w] = w"
| "join sep (w # ws) = w @ sep @ join sep ws"

lemma split_on_join:
  "ws \<noteq> [] \<Longrightarrow> \<forall>w \<in> set ws. c \<notin> set w \<Longrightarrow> split_on c (join [c] ws) = ws"
  by (induction "[c]" ws rule: join.induct) (simp_all add: split_on_append_sep split_on_no_sep)

lemma trim_idle:
  "strip_any ws_codes s = None \<Longrightarrow> strip_any (map rev ws_codes) (rev s) = None \<Longrightarrow> trim s = s"
  by (simp add: trim_def trim_start_def trim_end_def trim_with_idle)

lemmas trim_literal = trim_idle ws_codes_def strip_prefix_def

lemma level_parse_print: "level_from_field (level_as_str l) = Some l"
  by (cases l) (simp_all add: level_as_str_def level_from_field_def trim_literal)

lemma risk_token_round_trip: "risk_from_token (risk_as_str r) = Some r"
  by (cases r) (simp_all add: risk_as_str_def risk_from_token_def trim_literal)

lemma impl_parse_print: "impl_parse (impl_as_str i) = Some i"
  by (cases i) (simp_all add: impl_as_str_def impl_parse_def trim_literal)

lemma risk_field_with_suffix:
  assumes "strip_any ws_codes sfx \<noteq> None \<or> sfx = []"
  shows "risk_from_field (risk_as_str r @ sfx) = Some r"
proof -
  have "until_ws sfx = []" using assms by (cases sfx) auto
  then have "first_word (risk_as_str r @ sfx) = Some (risk_as_str r)"
    by (cases r) (simp_all add: first_word_def trim_start_def trim_with_idle risk_as_str_def
        ws_codes_def strip_prefix_def)
  then show ?thesis by (simp add: risk_from_field_def risk_token_round_trip)
qed

lemma impl_history_of_join:
  assumes "hs \<noteq> []"
  shows "parse_impl_history (join '','' (map impl_as_str hs)) = hs"
proof -
  have "CHR '','' \<notin> set (impl_as_str h)" for h by (cases h) (simp_all add: impl_as_str_def)
  then have "split_on (CHR '','') (join '','' (map impl_as_str hs)) = map impl_as_str hs"
    using assms by (intro split_on_join) auto
  then show ?thesis
    by (simp add: parse_impl_history_def List.map_filter_def impl_parse_print comp_def)
qed

lemma last_impl_of_join:
  "hs \<noteq> [] \<Longrightarrow> last_impl (join '','' (map impl_as_str hs)) = Some (last hs)"
  by (simp add: last_impl_def impl_history_of_join)

end
