(* ===== verification/Cycles.thy ===== *)
theory Cycles
  imports Vocab
begin

text \<open>
  \<open>src/engine/src/resolvers/cycles.rs\<close>: the review-cycle limit, the normalised fingerprint of
  one attempt (timestamps masked, case folded, white space collapsed, FNV-1a on a \<open>64 word\<close>), the
  stagnation detector and the empty-fixed-set detector. The full Unicode \<open>to_lowercase\<close> table is a
  parameter \<open>lc\<close>; everything else of the normalisation is computed here on UTF-8 bytes.
\<close>

unbundle bit_operations_syntax

section \<open>Cycle limit\<close>

datatype cycle_decision = Proceed | Escalate nat

definition cycle_escalation_reason :: "cycle_decision \<Rightarrow> string option" where
  "cycle_escalation_reason d =
    (case d of
       Escalate after_cycles \<Rightarrow> Some ([CHR 0xD0, CHR 0xBD, CHR 0xD0, CHR 0xB5, CHR 0x20, CHR 0xD1, CHR 0x81, CHR 0xD1, CHR 0x85,
      CHR 0xD0, CHR 0xBE, CHR 0xD0, CHR 0xB4, CHR 0xD0, CHR 0xB8, CHR 0xD1, CHR 0x82, CHR 0xD1,
      CHR 0x81, CHR 0xD1, CHR 0x8F, CHR 0x20, CHR 0xD1, CHR 0x80, CHR 0xD0, CHR 0xB5, CHR 0xD0,
      CHR 0xB2, CHR 0xD1, CHR 0x8C, CHR 0xD1, CHR 0x8E, CHR 0x20, CHR 0xD0, CHR 0xBF, CHR 0xD0,
      CHR 0xBE, CHR 0xD1, CHR 0x81, CHR 0xD0, CHR 0xBB, CHR 0xD0, CHR 0xB5, CHR 0x20] @ show_nat after_cycles @ [CHR 0x20, CHR 0xD1, CHR 0x86, CHR 0xD0, CHR 0xB8, CHR 0xD0, CHR 0xBA, CHR 0xD0, CHR 0xBB,
      CHR 0xD0, CHR 0xBE, CHR 0xD0, CHR 0xB2])
     | Proceed \<Rightarrow> None)"

definition review_cycle_decision :: "nat \<Rightarrow> nat \<Rightarrow> cycle_decision" where
  "review_cycle_decision cyc limit = (if cyc > limit then Escalate (cyc - 1) else Proceed)"

section \<open>Attempt signatures\<close>

definition byte_is :: "string \<Rightarrow> nat \<Rightarrow> char set \<Rightarrow> bool" where
  "byte_is b i cs \<longleftrightarrow> i < length b \<and> b ! i \<in> cs"

definition digit_byte :: "string \<Rightarrow> nat \<Rightarrow> bool" where
  "digit_byte b i \<longleftrightarrow> i < length b \<and> is_digit (b ! i)"

fun take_digits :: "string \<Rightarrow> nat \<Rightarrow> nat \<Rightarrow> nat option" where
  "take_digits b i 0 = Some i"
| "take_digits b i (Suc n) = (if digit_byte b i then take_digits b (i + 1) n else None)"

definition clock_core :: "string \<Rightarrow> nat \<Rightarrow> nat option" where
  "clock_core b start =
    (case take_digits b start 2 of None \<Rightarrow> None | Some i1 \<Rightarrow>
     if \<not> byte_is b i1 {CHR '':''} then None else
    (case take_digits b (i1 + 1) 2 of None \<Rightarrow> None | Some i2 \<Rightarrow>
     if \<not> byte_is b i2 {CHR '':''} then None else
    (case take_digits b (i2 + 1) 2 of None \<Rightarrow> None | Some i \<Rightarrow>
     if byte_is b i {CHR ''.''}
     then (let j = i + 1 + length (takeWhile is_digit (drop (i + 1) b))
           in Some (if j > i + 1 then j else i))
     else Some i)))"

definition zone_end :: "string \<Rightarrow> nat \<Rightarrow> nat" where
  "zone_end b start =
    (if byte_is b start {CHR ''Z'', CHR ''z''} then start + 1
     else if byte_is b start {CHR ''+'', CHR ''-''} then
       (case take_digits b (start + 1) 2 of
          None \<Rightarrow> start
        | Some i \<Rightarrow>
            (if byte_is b i {CHR '':''}
             then (case take_digits b (i + 1) 2 of Some j \<Rightarrow> j | None \<Rightarrow> start)
             else (case take_digits b i 2 of Some j \<Rightarrow> j | None \<Rightarrow> start)))
     else start)"

definition iso_datetime_len :: "string \<Rightarrow> nat \<Rightarrow> nat option" where
  "iso_datetime_len b start =
    (case take_digits b start 4 of None \<Rightarrow> None | Some i1 \<Rightarrow>
     if \<not> byte_is b i1 {CHR ''-''} then None else
    (case take_digits b (i1 + 1) 2 of None \<Rightarrow> None | Some i2 \<Rightarrow>
     if \<not> byte_is b i2 {CHR ''-''} then None else
    (case take_digits b (i2 + 1) 2 of None \<Rightarrow> None | Some i3 \<Rightarrow>
     if \<not> byte_is b i3 {CHR ''T'', CHR ''t'', CHR '' ''} then None else
    (case clock_core b (i3 + 1) of None \<Rightarrow> None | Some i \<Rightarrow> Some (zone_end b i - start)))))"

definition clock_len :: "string \<Rightarrow> nat \<Rightarrow> nat option" where
  "clock_len b start = map_option (\<lambda>e. e - start) (clock_core b start)"

definition timestamp_len :: "string \<Rightarrow> nat \<Rightarrow> nat option" where
  "timestamp_len b start =
    (case iso_datetime_len b start of Some n \<Rightarrow> Some n | None \<Rightarrow> clock_len b start)"

lemma take_digits_end: "take_digits b i n = Some j \<Longrightarrow> j = i + n \<and> (n > 0 \<longrightarrow> j \<le> length b)"
  by (induction b i n rule: take_digits.induct) (auto simp: digit_byte_def split: if_splits)

lemma clock_core_end: "clock_core b s = Some j \<Longrightarrow> s + 8 \<le> j"
  by (auto simp: clock_core_def Let_def split: option.splits if_splits dest!: take_digits_end)

lemma zone_end_ge: "s \<le> zone_end b s"
  by (auto simp: zone_end_def split: option.splits dest!: take_digits_end)

lemma timestamp_len_pos: "timestamp_len b s = Some n \<Longrightarrow> 8 \<le> n"
proof -
  assume a: "timestamp_len b s = Some n"
  show ?thesis
  proof (cases "iso_datetime_len b s")
    case None
    with a show ?thesis
      by (auto simp: timestamp_len_def clock_len_def dest!: clock_core_end)
  next
    case (Some m)
    with a have m: "iso_datetime_len b s = Some n" by (simp add: timestamp_len_def)
    have "s + 8 \<le> zone_end b j" if "clock_core b (i + 1) = Some j" "s \<le> i" for i j
      using clock_core_end[OF that(1)] zone_end_ge[of j b] that(2) by simp
    with m show ?thesis
      by (fastforce simp: iso_datetime_len_def split: option.splits if_splits dest: take_digits_end)
  qed
qed

text \<open>
  The masking loop of \<open>normalize_signature_text\<close>. It copies byte by byte where the source copies
  one UTF-8 character: the bytes of a multi-byte character are never ASCII digits, so
  \<open>prev_is_digit\<close> and every decision are the same.
\<close>

function mask_from :: "string \<Rightarrow> nat \<Rightarrow> bool \<Rightarrow> string" where
  "mask_from b idx prev_is_digit =
    (if idx < length b then
       (case (if is_digit (b ! idx) \<and> \<not> prev_is_digit then timestamp_len b idx else None) of
          Some len \<Rightarrow>
            (if length b \<le> idx + len \<or> \<not> is_digit (b ! (idx + len))
             then ''<ts>'' @ mask_from b (idx + len) False
             else b ! idx # mask_from b (idx + 1) (is_digit (b ! idx)))
        | None \<Rightarrow> b ! idx # mask_from b (idx + 1) (is_digit (b ! idx)))
     else [])"
  by pat_completeness auto
termination
  by (relation "measure (\<lambda>(b, idx, p). length b - idx)")
    (auto split: if_splits dest!: timestamp_len_pos)

declare mask_from.simps [simp del]

lemma until_ws_step:
  assumes "strip_any ws_codes t = None" "t \<noteq> []"
  shows "length (drop (length (until_ws t)) t) < length t"
  using assms by (cases t) simp_all

lemma trim_start_no_ws: "strip_any ws_codes (trim_start s) = None"
  unfolding trim_start_def by (rule trim_with_stops) (simp add: ws_codes_def)

lemma trim_with_length: "length (trim_with codes s) \<le> length s"
proof (induction codes s rule: trim_with.induct)
  case (1 codes s)
  show ?case by (subst trim_with.simps) (auto split: option.splits dest: 1)
qed

function split_whitespace :: "string \<Rightarrow> string list" where
  "split_whitespace s =
    (let t = trim_start s in
     if t = [] then [] else until_ws t # split_whitespace (drop (length (until_ws t)) t))"
  by pat_completeness auto
termination
proof (relation "measure length")
  fix s t :: string
  assume t: "t = trim_start s" "t \<noteq> []"
  then have "length (drop (length (until_ws t)) t) < length t"
    by (intro until_ws_step) (simp_all add: trim_start_no_ws)
  also have "length t \<le> length s" using t trim_with_length by (simp add: trim_start_def)
  finally show "(drop (length (until_ws t)) t, s) \<in> measure length" by simp
qed simp

declare split_whitespace.simps [simp del]

definition normalize_signature_text :: "(string \<Rightarrow> string) \<Rightarrow> string \<Rightarrow> string" where
  "normalize_signature_text lc text =
    join '' '' (split_whitespace (lc (mask_from text 0 False)))"

definition fnv1a_64 :: "string \<Rightarrow> 64 word" where
  "fnv1a_64 bytes =
    foldl (\<lambda>hash b. (hash XOR of_nat (of_char b)) * 0x00000100000001b3) 0xcbf29ce484222325 bytes"

definition hex_digit :: "nat \<Rightarrow> char" where
  "hex_digit n = (if n < 10 then char_of (48 + n) else char_of (87 + n))"

definition hex16 :: "64 word \<Rightarrow> string" where
  "hex16 w = map (\<lambda>i. hex_digit (unat (drop_bit (4 * i) w AND 15))) (rev [0..<16])"

type_synonym attempt_signature = string

definition signature_of_finding :: "(string \<Rightarrow> string) \<Rightarrow> string \<Rightarrow> string \<Rightarrow> attempt_signature" where
  "signature_of_finding lc text evidence =
    hex16 (fnv1a_64 (normalize_signature_text lc text @ [CHR 0x00] @ normalize_signature_text lc evidence))"

definition signature_of :: "(string \<Rightarrow> string) \<Rightarrow> string \<Rightarrow> attempt_signature" where
  "signature_of lc text = signature_of_finding lc text []"

section \<open>Stagnation\<close>

datatype stagnation_decision = Progressing | Stagnated nat

definition stagnation_escalation_reason :: "stagnation_decision \<Rightarrow> string option" where
  "stagnation_escalation_reason d =
    (case d of
       Stagnated repeats \<Rightarrow>
         Some ([CHR 0xD1, CHR 0x81, CHR 0xD1, CHR 0x82, CHR 0xD0, CHR 0xB0, CHR 0xD0, CHR 0xB3, CHR 0xD0,
      CHR 0xBD, CHR 0xD0, CHR 0xB0, CHR 0xD1, CHR 0x86, CHR 0xD0, CHR 0xB8, CHR 0xD1, CHR 0x8F,
      CHR 0x3A, CHR 0x20, CHR 0xD1, CHR 0x82, CHR 0xD0, CHR 0xB0, CHR 0x20, CHR 0xD0, CHR 0xB6,
      CHR 0xD0, CHR 0xB5, CHR 0x20, CHR 0xD0, CHR 0xBD, CHR 0xD0, CHR 0xB0, CHR 0xD1, CHR 0x85,
      CHR 0xD0, CHR 0xBE, CHR 0xD0, CHR 0xB4, CHR 0xD0, CHR 0xBA, CHR 0xD0, CHR 0xB0, CHR 0x20,
      CHR 0xD0, CHR 0xB1, CHR 0xD0, CHR 0xB5, CHR 0xD0, CHR 0xB7, CHR 0x20, CHR 0xD0, CHR 0xBF,
      CHR 0xD1, CHR 0x80, CHR 0xD0, CHR 0xBE, CHR 0xD0, CHR 0xB3, CHR 0xD1, CHR 0x80, CHR 0xD0,
      CHR 0xB5, CHR 0xD1, CHR 0x81, CHR 0xD1, CHR 0x81, CHR 0xD0, CHR 0xB0, CHR 0x20, CHR 0x28,
      CHR 0xD0, CHR 0xBF, CHR 0xD0, CHR 0xBE, CHR 0xD0, CHR 0xB2, CHR 0xD1, CHR 0x82, CHR 0xD0,
      CHR 0xBE, CHR 0xD1, CHR 0x80, CHR 0xD0, CHR 0xBE, CHR 0xD0, CHR 0xB2, CHR 0x20, CHR 0xD0,
      CHR 0xBF, CHR 0xD0, CHR 0xBE, CHR 0xD0, CHR 0xB4, CHR 0xD1, CHR 0x80, CHR 0xD1, CHR 0x8F,
      CHR 0xD0, CHR 0xB4, CHR 0x3A, CHR 0x20] @ show_nat repeats @ '')'')
     | Progressing \<Rightarrow> None)"

definition stagnation_decide :: "attempt_signature list \<Rightarrow> nat \<Rightarrow> stagnation_decision" where
  "stagnation_decide sigs limit =
    (if limit = 0 then Progressing
     else if sigs = [] then Progressing
     else
       (let run = length (takeWhile (\<lambda>s. s = last sigs) (rev sigs));
            repeats = (if run \<le> u32_max then run else u32_max)
        in if repeats \<ge> limit then Stagnated repeats else Progressing))"

section \<open>Empty fixed set\<close>

datatype empty_fixed_set_decision = FixProgressing | FixEmpty nat nat

definition empty_fixed_escalation_reason :: "empty_fixed_set_decision \<Rightarrow> string option" where
  "empty_fixed_escalation_reason d =
    (case d of
       FixEmpty wont_fixed open_findings \<Rightarrow>
         Some ([CHR 0xD0, CHR 0xBF, CHR 0xD1, CHR 0x83, CHR 0xD1, CHR 0x81, CHR 0xD1, CHR 0x82, CHR 0xD0,
      CHR 0xBE, CHR 0xD0, CHR 0xB9, CHR 0x20, CHR 0x66, CHR 0x69, CHR 0x78, CHR 0x65, CHR 0x64,
      CHR 0x2D, CHR 0xD0, CHR 0xBD, CHR 0xD0, CHR 0xB0, CHR 0xD0, CHR 0xB1, CHR 0xD0, CHR 0xBE,
      CHR 0xD1, CHR 0x80, CHR 0x3A, CHR 0x20, CHR 0xD1, CHR 0x84, CHR 0xD0, CHR 0xB8, CHR 0xD0,
      CHR 0xBA, CHR 0xD1, CHR 0x81, CHR 0xD0, CHR 0xB5, CHR 0xD1, CHR 0x80, CHR 0x20, CHR 0xD0,
      CHR 0xBD, CHR 0xD0, CHR 0xB5, CHR 0x20, CHR 0xD0, CHR 0xB8, CHR 0xD1, CHR 0x81, CHR 0xD0,
      CHR 0xBF, CHR 0xD1, CHR 0x80, CHR 0xD0, CHR 0xB0, CHR 0xD0, CHR 0xB2, CHR 0xD0, CHR 0xB8,
      CHR 0xD0, CHR 0xBB, CHR 0x20, CHR 0xD0, CHR 0xBD, CHR 0xD0, CHR 0xB8, CHR 0x20, CHR 0xD0,
      CHR 0xBE, CHR 0xD0, CHR 0xB4, CHR 0xD0, CHR 0xBD, CHR 0xD0, CHR 0xBE, CHR 0xD0, CHR 0xB9,
      CHR 0x20, CHR 0xD0, CHR 0xBD, CHR 0xD0, CHR 0xB0, CHR 0xD1, CHR 0x85, CHR 0xD0, CHR 0xBE,
      CHR 0xD0, CHR 0xB4, CHR 0xD0, CHR 0xBA, CHR 0xD0, CHR 0xB8, CHR 0x20, CHR 0xD0, CHR 0xB2,
      CHR 0x20, CHR 0xD1, CHR 0x80, CHR 0xD0, CHR 0xB0, CHR 0xD1, CHR 0x83, CHR 0xD0, CHR 0xBD,
      CHR 0xD0, CHR 0xB4, CHR 0xD0, CHR 0xB5, CHR 0x20, CHR 0x28, CHR 0xD0, CHR 0xBD, CHR 0xD0,
      CHR 0xB5, CHR 0x20, CHR 0xD0, CHR 0xB8, CHR 0xD1, CHR 0x81, CHR 0xD0, CHR 0xBF, CHR 0xD1,
      CHR 0x80, CHR 0xD0, CHR 0xB0, CHR 0xD0, CHR 0xB2, CHR 0xD0, CHR 0xBB, CHR 0xD0, CHR 0xB5,
      CHR 0xD0, CHR 0xBD, CHR 0xD0, CHR 0xBE, CHR 0x3A, CHR 0x20]
               @ show_nat wont_fixed @ [CHR 0x20, CHR 0xD0, CHR 0xB8, CHR 0xD0, CHR 0xB7, CHR 0x20] @ show_nat open_findings @ '')'')
     | FixProgressing \<Rightarrow> None)"

definition empty_fixed_set_decide :: "nat \<Rightarrow> nat \<Rightarrow> empty_fixed_set_decision" where
  "empty_fixed_set_decide wont_fixed open_findings =
    (if open_findings > 0 \<and> wont_fixed \<ge> open_findings then FixEmpty wont_fixed open_findings
     else FixProgressing)"

section \<open>Facts\<close>

lemma takeWhile_rev_ge:
  "n \<le> length (takeWhile P (rev xs)) \<longleftrightarrow> n \<le> length xs \<and> (\<forall>x \<in> set (drop (length xs - n) xs). P x)"
proof
  assume a: "n \<le> length (takeWhile P (rev xs))"
  then have n: "n \<le> length xs" using length_takeWhile_le[of P "rev xs"] by simp
  have "take n (rev xs) = take n (takeWhile P (rev xs))"
    using a by (metis takeWhile_eq_take min.absorb1 take_take)
  then have "\<forall>x \<in> set (take n (rev xs)). P x" by (metis in_set_takeD set_takeWhileD)
  then show "n \<le> length xs \<and> (\<forall>x \<in> set (drop (length xs - n) xs). P x)"
    using n by (simp add: take_rev)
next
  assume a: "n \<le> length xs \<and> (\<forall>x \<in> set (drop (length xs - n) xs). P x)"
  then have all: "\<forall>x \<in> set (take n (rev xs)). P x" by (simp add: take_rev)
  have "takeWhile P (rev xs) = take n (rev xs) @ takeWhile P (drop n (rev xs))"
    using all by (metis append_take_drop_id takeWhile_append2)
  then show "n \<le> length (takeWhile P (rev xs))" using a by simp
qed

lemma stagnation_decide_iff:
  assumes "limit \<le> u32_max"
  shows "(\<exists>r. stagnation_decide sigs limit = Stagnated r) \<longleftrightarrow>
    0 < limit \<and> sigs \<noteq> [] \<and> limit \<le> length sigs
    \<and> (\<forall>s \<in> set (drop (length sigs - limit) sigs). s = last sigs)"
  using assms takeWhile_rev_ge[of limit "\<lambda>s. s = last sigs" sigs]
  by (auto simp: stagnation_decide_def Let_def)

end
