(* ===== verification/Admission.thy ===== *)
theory Admission
  imports Vocab "HOL-Library.Sublist"
begin

text \<open>
  \<open>src/engine/src/resolvers/admission.rs\<close> and \<open>resolvers/budget.rs\<close>: readiness by
  prerequisites, conflict domains with the conservative overlap test, the packing of a round, the
  reasons of an empty round and the size/age/budget gate. \<open>unmet_prerequisites\<close> and the
  planner are proved against declarative specifications.
\<close>

section \<open>State-layer vocabulary\<close>

datatype delivery_target = Current | NextMajor

datatype task_state =
  NotStarted | Working | InReview | Ready | Merged | Published | Done | Escalated | Conflict

section \<open>Readiness\<close>

text \<open>\<open>seen.insert\<close> as a filter: keep the first occurrence of each unmet prerequisite.\<close>

fun dedup_unmet :: "string list \<Rightarrow> string list \<Rightarrow> string list \<Rightarrow> string list" where
  "dedup_unmet completed seen [] = []"
| "dedup_unmet completed seen (p # ps) =
    (if p \<in> set completed then dedup_unmet completed seen ps
     else if p \<in> set seen then dedup_unmet completed seen ps
     else p # dedup_unmet completed (bts_insert p seen) ps)"

definition unmet_prerequisites :: "string list \<Rightarrow> string list \<Rightarrow> string list" where
  "unmet_prerequisites prerequisites completed = dedup_unmet completed [] prerequisites"

definition is_ready :: "string list \<Rightarrow> string list \<Rightarrow> bool" where
  "is_ready prerequisites completed = list_all (\<lambda>p. p \<in> set completed) prerequisites"

section \<open>Conflict domains\<close>

fun split_chars :: "char set \<Rightarrow> string \<Rightarrow> string list" where
  "split_chars cs [] = [[]]"
| "split_chars cs (x # xs) =
    (if x \<in> cs then [] # split_chars cs xs
     else (case split_chars cs xs of [] \<Rightarrow> [[x]] | w # ws \<Rightarrow> (x # w) # ws))"

definition domain_tokens :: "string \<Rightarrow> string list" where
  "domain_tokens spec =
    filter (\<lambda>token. token \<noteq> [])
      (map trim (split_chars {CHR '','', CHR '' '', CHR 0x09, CHR 0x0A, CHR 0x0D} spec))"

datatype matcher = Exact string | Prefix string

definition glob_char :: "char \<Rightarrow> bool" where
  "glob_char c \<longleftrightarrow> c \<in> {CHR ''*'', CHR ''?'', CHR ''[''}"

definition matcher_of :: "string \<Rightarrow> matcher" where
  "matcher_of pattern =
    (let p = trim pattern in
     if list_ex glob_char p then Prefix (takeWhile (\<lambda>c. \<not> glob_char c) p) else Exact p)"

definition starts_with :: "string \<Rightarrow> string \<Rightarrow> bool" where
  "starts_with s p \<longleftrightarrow> take (length p) s = p"

definition is_path_ancestor_or_same :: "string \<Rightarrow> string \<Rightarrow> bool" where
  "is_path_ancestor_or_same ancestor path \<longleftrightarrow>
    path = ancestor
    \<or> (case strip_prefix ancestor path of Some rest \<Rightarrow> starts_with rest ''/'' | None \<Rightarrow> False)"

fun matchers_overlap :: "matcher \<Rightarrow> matcher \<Rightarrow> bool" where
  "matchers_overlap (Exact x) (Exact y) =
    (is_path_ancestor_or_same x y \<or> is_path_ancestor_or_same y x)"
| "matchers_overlap (Exact x) (Prefix p) = (starts_with x p \<or> is_path_ancestor_or_same x p)"
| "matchers_overlap (Prefix p) (Exact x) = (starts_with x p \<or> is_path_ancestor_or_same x p)"
| "matchers_overlap (Prefix x) (Prefix y) = (starts_with x y \<or> starts_with y x)"

record domain =
  d_matchers :: "matcher list"
  d_unknown :: bool

definition domain_parse :: "string \<Rightarrow> domain" where
  "domain_parse spec = \<lparr>d_matchers = map matcher_of (domain_tokens spec), d_unknown = False\<rparr>"

definition domain_from_globs :: "string list \<Rightarrow> domain" where
  "domain_from_globs globs = \<lparr>d_matchers = map matcher_of globs, d_unknown = False\<rparr>"

definition domain_unknown :: domain where
  "domain_unknown = \<lparr>d_matchers = [], d_unknown = True\<rparr>"

definition intersects :: "domain \<Rightarrow> domain \<Rightarrow> bool" where
  "intersects a b \<longleftrightarrow>
    d_unknown a \<or> d_unknown b
    \<or> list_ex (\<lambda>x. list_ex (matchers_overlap x) (d_matchers b)) (d_matchers a)"

definition domain_is_empty :: "domain \<Rightarrow> bool" where
  "domain_is_empty d \<longleftrightarrow> \<not> d_unknown d \<and> d_matchers d = []"

section \<open>Planning a round\<close>

datatype active_class = Active | Terminal

definition active_class_from_state :: "task_state \<Rightarrow> active_class option" where
  "active_class_from_state s =
    (case s of
       Working \<Rightarrow> Some Active | InReview \<Rightarrow> Some Active
     | Ready \<Rightarrow> Some Terminal | Escalated \<Rightarrow> Some Terminal | Conflict \<Rightarrow> Some Terminal
     | _ \<Rightarrow> None)"

record active_task =
  at_domain :: domain
  at_class :: active_class

record candidate =
  ca_id :: string
  ca_ready :: bool
  ca_domain :: domain
  ca_delivery :: delivery_target

definition candidate_new ::
    "string \<Rightarrow> string list \<Rightarrow> string list \<Rightarrow> domain \<Rightarrow> delivery_target \<Rightarrow> candidate" where
  "candidate_new i prerequisites completed d delivery =
    \<lparr>ca_id = i, ca_ready = is_ready prerequisites completed, ca_domain = d, ca_delivery = delivery\<rparr>"

definition admissible_to_current_lane :: "candidate \<Rightarrow> bool" where
  "admissible_to_current_lane c \<longleftrightarrow> ca_ready c \<and> ca_delivery c = Current"

datatype close_reason =
  CohortSize | CohortMaxAge | CohortTokenBudget | QueueEmpty | OnlyConflictsWithReady

datatype empty_reason = EmptyQueue | OnlyConflictsWithActive | OnlyReadyConflicts

definition empty_reason_as_str :: "empty_reason \<Rightarrow> string" where
  "empty_reason_as_str r =
    (case r of
       EmptyQueue \<Rightarrow> [CHR 0xD0, CHR 0xBE, CHR 0xD1, CHR 0x87, CHR 0xD0, CHR 0xB5, CHR 0xD1, CHR 0x80, CHR 0xD0,
      CHR 0xB5, CHR 0xD0, CHR 0xB4, CHR 0xD1, CHR 0x8C, CHR 0x2D, CHR 0xD0, CHR 0xBF, CHR 0xD1,
      CHR 0x83, CHR 0xD1, CHR 0x81, CHR 0xD1, CHR 0x82, CHR 0xD0, CHR 0xB0]
     | OnlyConflictsWithActive \<Rightarrow> [CHR 0xD1, CHR 0x82, CHR 0xD0, CHR 0xBE, CHR 0xD0, CHR 0xBB, CHR 0xD1, CHR 0x8C, CHR 0xD0,
      CHR 0xBA, CHR 0xD0, CHR 0xBE, CHR 0x2D, CHR 0xD0, CHR 0xBA, CHR 0xD0, CHR 0xBE, CHR 0xD0,
      CHR 0xBD, CHR 0xD1, CHR 0x84, CHR 0xD0, CHR 0xBB, CHR 0xD0, CHR 0xB8, CHR 0xD0, CHR 0xBA,
      CHR 0xD1, CHR 0x82, CHR 0xD1, CHR 0x8B, CHR 0x2D, CHR 0xD1, CHR 0x81, CHR 0x2D, CHR 0xD0,
      CHR 0xB0, CHR 0xD0, CHR 0xBA, CHR 0xD1, CHR 0x82, CHR 0xD0, CHR 0xB8, CHR 0xD0, CHR 0xB2,
      CHR 0xD0, CHR 0xBD, CHR 0xD1, CHR 0x8B, CHR 0xD0, CHR 0xBC, CHR 0xD0, CHR 0xB8]
     | OnlyReadyConflicts \<Rightarrow> [CHR 0xD1, CHR 0x82, CHR 0xD0, CHR 0xBE, CHR 0xD0, CHR 0xBB, CHR 0xD1, CHR 0x8C, CHR 0xD0,
      CHR 0xBA, CHR 0xD0, CHR 0xBE, CHR 0x2D, CHR 0xD0, CHR 0xBA, CHR 0xD0, CHR 0xBE, CHR 0xD0,
      CHR 0xBD, CHR 0xD1, CHR 0x84, CHR 0xD0, CHR 0xBB, CHR 0xD0, CHR 0xB8, CHR 0xD0, CHR 0xBA,
      CHR 0xD1, CHR 0x82, CHR 0xD1, CHR 0x8B, CHR 0x2D, CHR 0xD1, CHR 0x81, CHR 0x2D, CHR 0xD0,
      CHR 0xB3, CHR 0xD0, CHR 0xBE, CHR 0xD1, CHR 0x82, CHR 0xD0, CHR 0xBE, CHR 0xD0, CHR 0xB2,
      CHR 0xD1, CHR 0x8B, CHR 0xD0, CHR 0xBC, CHR 0xD0, CHR 0xB8])"

definition to_close_reason :: "empty_reason \<Rightarrow> close_reason option" where
  "to_close_reason r =
    (case r of
       EmptyQueue \<Rightarrow> Some QueueEmpty
     | OnlyReadyConflicts \<Rightarrow> Some OnlyConflictsWithReady
     | OnlyConflictsWithActive \<Rightarrow> None)"

definition close_reason_as_str :: "close_reason \<Rightarrow> string" where
  "close_reason_as_str r =
    (case r of
       CohortSize \<Rightarrow> ''COHORT_SIZE''
     | CohortMaxAge \<Rightarrow> ''COHORT_MAX_AGE''
     | CohortTokenBudget \<Rightarrow> ''COHORT_TOKEN_BUDGET''
     | QueueEmpty \<Rightarrow> [CHR 0xD0, CHR 0xBE, CHR 0xD1, CHR 0x87, CHR 0xD0, CHR 0xB5, CHR 0xD1, CHR 0x80, CHR 0xD0,
      CHR 0xB5, CHR 0xD0, CHR 0xB4, CHR 0xD1, CHR 0x8C, CHR 0x2D, CHR 0xD0, CHR 0xBF, CHR 0xD1,
      CHR 0x83, CHR 0xD1, CHR 0x81, CHR 0xD1, CHR 0x82, CHR 0xD0, CHR 0xB0]
     | OnlyConflictsWithReady \<Rightarrow> [CHR 0xD1, CHR 0x82, CHR 0xD0, CHR 0xBE, CHR 0xD0, CHR 0xBB, CHR 0xD1, CHR 0x8C, CHR 0xD0,
      CHR 0xBA, CHR 0xD0, CHR 0xBE, CHR 0x2D, CHR 0xD0, CHR 0xBA, CHR 0xD0, CHR 0xBE, CHR 0xD0,
      CHR 0xBD, CHR 0xD1, CHR 0x84, CHR 0xD0, CHR 0xBB, CHR 0xD0, CHR 0xB8, CHR 0xD0, CHR 0xBA,
      CHR 0xD1, CHR 0x82, CHR 0xD1, CHR 0x8B, CHR 0x2D, CHR 0xD1, CHR 0x81, CHR 0x2D, CHR 0xD0,
      CHR 0xB3, CHR 0xD0, CHR 0xBE, CHR 0xD1, CHR 0x82, CHR 0xD0, CHR 0xBE, CHR 0xD0, CHR 0xB2,
      CHR 0xD1, CHR 0x8B, CHR 0xD0, CHR 0xBC, CHR 0xD0, CHR 0xB8])"

datatype admission_outcome = Admitted "string list" | EmptyRound empty_reason

fun plan_loop ::
    "active_task list \<Rightarrow> nat \<Rightarrow> candidate list \<Rightarrow> string list \<Rightarrow> domain list \<Rightarrow> string list \<times> domain list" where
  "plan_loop active capacity [] admitted doms = (admitted, doms)"
| "plan_loop active capacity (c # cs) admitted doms =
    (if length admitted \<ge> capacity then (admitted, doms)
     else if \<not> ca_ready c then plan_loop active capacity cs admitted doms
     else if ca_delivery c = NextMajor then plan_loop active capacity cs admitted doms
     else if list_ex (\<lambda>d. intersects d (ca_domain c)) doms then plan_loop active capacity cs admitted doms
     else if list_ex (\<lambda>a. intersects (at_domain a) (ca_domain c)) active
       then plan_loop active capacity cs admitted doms
     else plan_loop active capacity cs (admitted @ [ca_id c]) (doms @ [ca_domain c]))"

definition hits :: "active_class \<Rightarrow> active_task list \<Rightarrow> candidate \<Rightarrow> bool" where
  "hits k active c \<longleftrightarrow> list_ex (\<lambda>a. at_class a = k \<and> intersects (at_domain a) (ca_domain c)) active"

definition empty_reason_of :: "candidate list \<Rightarrow> active_task list \<Rightarrow> empty_reason" where
  "empty_reason_of candidates active =
    (if candidates = [] then EmptyQueue
     else
       (let lane = filter admissible_to_current_lane candidates;
            blocked_exclusively_by_active =
              list_ex (\<lambda>c. hits Active active c \<and> \<not> hits Terminal active c) lane;
            blocked_by_terminal = list_ex (hits Terminal active) lane
        in if blocked_exclusively_by_active then OnlyConflictsWithActive
           else if blocked_by_terminal then OnlyReadyConflicts
           else EmptyQueue))"

definition plan_admission :: "candidate list \<Rightarrow> active_task list \<Rightarrow> nat \<Rightarrow> admission_outcome" where
  "plan_admission candidates active capacity =
    (let admitted = fst (plan_loop active capacity candidates [] []) in
     if admitted \<noteq> [] then Admitted admitted else EmptyRound (empty_reason_of candidates active))"

section \<open>Budget gate\<close>

record cohort_thresholds =
  ct_size :: nat
  ct_max_age_minutes :: nat
  ct_budget_sec :: "nat option"

record cohort_counters =
  cc_admitted_total :: nat
  cc_age_minutes :: nat
  cc_elapsed_sec :: nat

datatype admission_gate = Continue | Close close_reason

definition admission_gate_of :: "cohort_counters \<Rightarrow> cohort_thresholds \<Rightarrow> admission_gate" where
  "admission_gate_of counters thresholds =
    (if cc_admitted_total counters \<ge> ct_size thresholds then Close CohortSize
     else if cc_age_minutes counters \<ge> ct_max_age_minutes thresholds then Close CohortMaxAge
     else if (case ct_budget_sec thresholds of Some b \<Rightarrow> cc_elapsed_sec counters \<ge> b | None \<Rightarrow> False)
       then Close CohortMaxAge
     else Continue)"

section \<open>Facts\<close>

lemma dedup_unmet_set:
  "set (dedup_unmet completed seen ps) = set ps - set completed - set seen
   \<and> distinct (dedup_unmet completed seen ps)"
  by (induction completed seen ps rule: dedup_unmet.induct) auto

lemma unmet_prerequisites_set: "set (unmet_prerequisites ps completed) = set ps - set completed"
  by (simp add: unmet_prerequisites_def dedup_unmet_set)

lemma is_ready_iff: "is_ready ps completed \<longleftrightarrow> unmet_prerequisites ps completed = []"
proof -
  have "is_ready ps completed \<longleftrightarrow> set (unmet_prerequisites ps completed) = {}"
    by (auto simp: is_ready_def list_all_iff unmet_prerequisites_set)
  then show ?thesis by simp
qed

lemma matchers_overlap_sym: "matchers_overlap a b = matchers_overlap b a"
  by (cases a; cases b) auto

lemma intersects_sym: "intersects a b = intersects b a"
  unfolding intersects_def list_ex_iff using matchers_overlap_sym by blast

text \<open>What a round may admit next to what is already chosen or active.\<close>

definition conflict_free :: "active_task list \<Rightarrow> domain list \<Rightarrow> candidate list \<Rightarrow> bool" where
  "conflict_free active doms chosen \<longleftrightarrow>
    list_all admissible_to_current_lane chosen
    \<and> list_all (\<lambda>c. list_all (\<lambda>d. \<not> intersects d (ca_domain c)) (doms @ map at_domain active)) chosen
    \<and> sorted_wrt (\<lambda>a b. \<not> intersects (ca_domain a) (ca_domain b)) chosen"

definition accounted :: "active_task list \<Rightarrow> domain list \<Rightarrow> candidate list \<Rightarrow> candidate \<Rightarrow> bool" where
  "accounted active doms chosen c \<longleftrightarrow>
    \<not> admissible_to_current_lane c \<or> c \<in> set chosen
    \<or> list_ex (\<lambda>d. intersects d (ca_domain c)) (doms @ map ca_domain chosen @ map at_domain active)"

lemma conflict_free_Cons:
  "conflict_free active doms (c # chosen) \<longleftrightarrow>
     admissible_to_current_lane c
     \<and> list_all (\<lambda>d. \<not> intersects d (ca_domain c)) (doms @ map at_domain active)
     \<and> conflict_free active (doms @ [ca_domain c]) chosen"
  by (auto simp: conflict_free_def list_all_iff)

lemma plan_loop_spec:
  assumes "plan_loop active capacity cs admitted doms = (ids, ds)"
  shows "\<exists>chosen. ids = admitted @ map ca_id chosen \<and> subseq chosen cs
     \<and> length ids \<le> max capacity (length admitted)
     \<and> conflict_free active doms chosen
     \<and> (length ids < capacity \<longrightarrow> list_all (accounted active doms chosen) cs)"
  using assms
proof (induction active capacity cs admitted doms rule: plan_loop.induct)
  case (1 active capacity admitted doms)
  then show ?case by (intro exI[of _ "[]"]) (simp add: conflict_free_def)
next
  case (2 active capacity c cs admitted doms)
  have skip: ?case if r: "plan_loop active capacity cs admitted doms = (ids, ds)"
      and s: "\<And>chosen. accounted active doms chosen c"
      and IH: "\<exists>chosen. ids = admitted @ map ca_id chosen \<and> subseq chosen cs
        \<and> length ids \<le> max capacity (length admitted) \<and> conflict_free active doms chosen
        \<and> (length ids < capacity \<longrightarrow> list_all (accounted active doms chosen) cs)"
  proof -
    obtain chosen where "ids = admitted @ map ca_id chosen" "subseq chosen cs"
        "length ids \<le> max capacity (length admitted)" "conflict_free active doms chosen"
        "length ids < capacity \<longrightarrow> list_all (accounted active doms chosen) cs"
      using IH by blast
    then show ?thesis using s by (intro exI[of _ chosen]) auto
  qed
  show ?case
  proof (cases "length admitted \<ge> capacity")
    case True
    then show ?thesis using 2(6) by (intro exI[of _ "[]"]) (auto simp: conflict_free_def)
  next
    case room: False
    show ?thesis
    proof (cases "ca_ready c \<and> ca_delivery c \<noteq> NextMajor
        \<and> \<not> list_ex (\<lambda>d. intersects d (ca_domain c)) doms
        \<and> \<not> list_ex (\<lambda>a. intersects (at_domain a) (ca_domain c)) active")
      case False
      then have r: "plan_loop active capacity cs admitted doms = (ids, ds)"
        using 2(6) room by (auto split: if_splits)
      have "\<And>chosen. accounted active doms chosen c"
        using False by (auto simp: accounted_def admissible_to_current_lane_def list_ex_iff)
      then show ?thesis using False room 2(1-4) r by (intro skip) blast+
    next
      case True
      then have r: "plan_loop active capacity cs (admitted @ [ca_id c]) (doms @ [ca_domain c]) = (ids, ds)"
        using 2(6) room by simp
      then obtain chosen where ch: "ids = (admitted @ [ca_id c]) @ map ca_id chosen" "subseq chosen cs"
          "length ids \<le> max capacity (length (admitted @ [ca_id c]))"
          "conflict_free active (doms @ [ca_domain c]) chosen"
          "length ids < capacity \<longrightarrow> list_all (accounted active (doms @ [ca_domain c]) chosen) cs"
        using 2(5) room True by blast
      have lane: "admissible_to_current_lane c"
        using True by (cases "ca_delivery c") (simp_all add: admissible_to_current_lane_def)
      have "conflict_free active doms (c # chosen)"
        using ch(4) lane True by (auto simp: conflict_free_Cons list_all_iff list_ex_iff)
      moreover have "accounted active (doms @ [ca_domain c]) chosen x \<Longrightarrow>
          accounted active doms (c # chosen) x" for x
        by (auto simp: accounted_def)
      ultimately show ?thesis using ch room
        by (intro exI[of _ "c # chosen"]) (auto simp: list_all_iff accounted_def)
    qed
  qed
qed

lemma empty_reason_cases:
  "empty_reason_of cs active = OnlyConflictsWithActive \<longleftrightarrow>
     list_ex (\<lambda>c. admissible_to_current_lane c \<and> hits Active active c \<and> \<not> hits Terminal active c) cs"
  "empty_reason_of cs active = OnlyReadyConflicts \<longleftrightarrow>
     list_ex (\<lambda>c. admissible_to_current_lane c \<and> hits Terminal active c) cs
     \<and> \<not> list_ex (\<lambda>c. admissible_to_current_lane c \<and> hits Active active c \<and> \<not> hits Terminal active c) cs"
  by (auto simp: empty_reason_of_def Let_def list_ex_iff)

end
