(* ===== verification/Routing.thy ===== *)
theory Routing
  imports Vocab
begin

text \<open>
  \<open>src/engine/src/resolvers/coder.rs\<close> and \<open>resolvers/reviewer.rs\<close>: where a task's
  implementation goes (the three-stage Codex coder routing) and who reviews a range (the
  independence rule, re-election after a fix, and the roster with its selective repeat).
\<close>

section \<open>Coder routing\<close>

datatype codex_coder = Off | Fast | FastStd

definition codex_coder_parse :: "string \<Rightarrow> codex_coder option" where
  "codex_coder_parse value =
    (let s = trim value in
     if s = ''off'' then Some codex_coder.Off
     else if s = ''fast'' then Some codex_coder.Fast
     else if s = ''fast+std'' then Some codex_coder.FastStd
     else None)"

datatype ecosystem = Managed | Other

definition ecosystem_parse :: "string \<Rightarrow> ecosystem" where
  "ecosystem_parse value =
    (if trim value \<in> {''cargo'', ''npm'', ''pip'', ''uv'', ''nuget''} then Managed else Other)"

definition path_available :: "ecosystem \<Rightarrow> bool \<Rightarrow> bool" where
  "path_available eco codex_network = (case eco of Managed \<Rightarrow> True | Other \<Rightarrow> codex_network)"

record network_need =
  nn_ecosystem :: ecosystem

text \<open>The descriptor literal of the network field that declares a network requirement, in UTF-8.\<close>

definition required_literal :: string where
  "required_literal =
    [CHR 0xD1, CHR 0x82, CHR 0xD1, CHR 0x80, CHR 0xD0, CHR 0xB5, CHR 0xD0, CHR 0xB1, CHR 0xD1,
     CHR 0x83, CHR 0xD0, CHR 0xB5, CHR 0xD1, CHR 0x82, CHR 0xD1, CHR 0x81, CHR 0xD1, CHR 0x8F]"

definition network_need_of :: "string option \<Rightarrow> string option \<Rightarrow> network_need option" where
  "network_need_of set_literal eco_literal =
    (case map_option trim set_literal of
       None \<Rightarrow> None
     | Some s \<Rightarrow>
         (if s = required_literal
          then Some \<lparr>nn_ecosystem = (case map_option ecosystem_parse eco_literal of
                                        Some e \<Rightarrow> e | None \<Rightarrow> Other)\<rparr>
          else None))"

datatype env_limit_class =
  VcsWrite | Network | TlsSchannel | ProfileDenied | SandboxInitWorktree | Unknown

definition env_limit_parse :: "string \<Rightarrow> env_limit_class" where
  "env_limit_parse class =
    (let s = trim class in
     if s = ''vcs-write'' then VcsWrite
     else if s = ''network'' then Network
     else if s = ''tls-schannel'' then TlsSchannel
     else if s = ''profile-denied'' then ProfileDenied
     else if s = ''sandbox-init-worktree'' then SandboxInitWorktree
     else Unknown)"

record coder_route_input =
  cri_codex_coder :: codex_coder
  cri_level :: level
  cri_codex_network :: bool
  cri_network :: "network_need option"
  cri_kb_pitfall :: "env_limit_class option"

datatype stay_claude = CodexOff | LevelExcluded | NetworkGate | KbPitfall env_limit_class

datatype coder_route = ToCodex | StayOnClaude stay_claude

definition pitfall_blocks :: "env_limit_class \<Rightarrow> network_need option \<Rightarrow> bool \<Rightarrow> bool" where
  "pitfall_blocks class network codex_network =
    (case class of
       VcsWrite \<Rightarrow> True | ProfileDenied \<Rightarrow> True | Unknown \<Rightarrow> True
     | SandboxInitWorktree \<Rightarrow> False
     | _ \<Rightarrow>
         (let eco = (case network of Some n \<Rightarrow> nn_ecosystem n | None \<Rightarrow> Other)
          in \<not> path_available eco codex_network))"

definition level_stage :: "codex_coder \<Rightarrow> level \<Rightarrow> stay_claude option" where
  "level_stage flag l =
    (case flag of
       codex_coder.Off \<Rightarrow> Some CodexOff
     | codex_coder.Fast \<Rightarrow> (if l \<noteq> CoderFast then Some LevelExcluded else None)
     | codex_coder.FastStd \<Rightarrow> (if l \<notin> {CoderFast, Coder} then Some LevelExcluded else None))"

definition route_coder :: "coder_route_input \<Rightarrow> coder_route" where
  "route_coder inp =
    (case level_stage (cri_codex_coder inp) (cri_level inp) of
       Some why \<Rightarrow> StayOnClaude why
     | None \<Rightarrow>
         (if (case cri_network inp of
                Some need \<Rightarrow> \<not> path_available (nn_ecosystem need) (cri_codex_network inp)
              | None \<Rightarrow> False)
          then StayOnClaude NetworkGate
          else (case cri_kb_pitfall inp of
                  Some class \<Rightarrow>
                    (if pitfall_blocks class (cri_network inp) (cri_codex_network inp)
                     then StayOnClaude (KbPitfall class) else ToCodex)
                | None \<Rightarrow> ToCodex)))"

section \<open>Reviewer routing\<close>

datatype codex_reviewer = Off | Fast | FastStd | Deep

definition codex_reviewer_parse :: "string \<Rightarrow> codex_reviewer option" where
  "codex_reviewer_parse value =
    (let s = trim value in
     if s = ''off'' then Some codex_reviewer.Off
     else if s = ''fast'' then Some codex_reviewer.Fast
     else if s = ''fast+std'' then Some codex_reviewer.FastStd
     else if s = ''deep'' then Some codex_reviewer.Deep
     else None)"

record reviewer_route_input =
  rri_codex_reviewer :: codex_reviewer
  rri_base :: base_reviewer_tier
  rri_level :: level
  rri_impl_by :: impl_by

datatype reviewer_route =
  ByClaude base_reviewer_tier | CodexFull | Augment base_reviewer_tier

definition route_reviewer :: "reviewer_route_input \<Rightarrow> reviewer_route" where
  "route_reviewer inp =
    (if rri_codex_reviewer inp = codex_reviewer.Off then ByClaude (rri_base inp)
     else if rri_impl_by inp = Codex then ByClaude (rri_base inp)
     else (case rri_codex_reviewer inp of
             codex_reviewer.Off \<Rightarrow> ByClaude (rri_base inp)
           | codex_reviewer.Fast \<Rightarrow>
               (case rri_level inp of CoderFast \<Rightarrow> CodexFull | _ \<Rightarrow> ByClaude (rri_base inp))
           | codex_reviewer.FastStd \<Rightarrow>
               (case rri_level inp of CoderDeep \<Rightarrow> ByClaude (rri_base inp) | _ \<Rightarrow> CodexFull)
           | codex_reviewer.Deep \<Rightarrow>
               (case rri_level inp of CoderDeep \<Rightarrow> Augment (rri_base inp) | _ \<Rightarrow> CodexFull)))"

definition reelect_reviewer ::
    "codex_reviewer \<Rightarrow> base_reviewer_tier \<Rightarrow> level \<Rightarrow> impl_by list \<Rightarrow> reviewer_route" where
  "reelect_reviewer flag base l impl_history =
    (if impl_history = [] then ByClaude base
     else route_reviewer \<lparr>rri_codex_reviewer = flag, rri_base = base, rri_level = l,
                          rri_impl_by = last impl_history\<rparr>)"

definition whole_diff_dimension :: string where
  "whole_diff_dimension = ''whole-diff''"

record review_dimension =
  rd_name :: string
  rd_route :: reviewer_route

type_synonym reviewer_roster = "review_dimension list"

definition roster_single :: "reviewer_route \<Rightarrow> reviewer_roster" where
  "roster_single route = [\<lparr>rd_name = whole_diff_dimension, rd_route = route\<rparr>]"

definition route_reviewer_roster :: "reviewer_route_input \<Rightarrow> reviewer_roster" where
  "route_reviewer_roster inp = roster_single (route_reviewer inp)"

definition reelect_reviewer_roster ::
    "codex_reviewer \<Rightarrow> base_reviewer_tier \<Rightarrow> level \<Rightarrow> impl_by list \<Rightarrow> reviewer_roster" where
  "reelect_reviewer_roster flag base l impl_history =
    roster_single (reelect_reviewer flag base l impl_history)"

definition narrow_roster :: "reviewer_roster \<Rightarrow> string list \<Rightarrow> reviewer_roster" where
  "narrow_roster roster previous_round =
    (if previous_round = [] then roster
     else
       (let narrowed = filter (\<lambda>d. list_ex (\<lambda>name. name = rd_name d) previous_round) roster
        in if narrowed = [] then roster else narrowed))"

section \<open>Facts\<close>

definition uses_codex :: "reviewer_route \<Rightarrow> bool" where
  "uses_codex r = (case r of ByClaude _ \<Rightarrow> False | CodexFull \<Rightarrow> True | Augment _ \<Rightarrow> True)"

lemma route_reviewer_codex_range:
  "rri_impl_by inp = Codex \<Longrightarrow> route_reviewer inp = ByClaude (rri_base inp)"
  by (simp add: route_reviewer_def)

lemma route_reviewer_uses_codex:
  "uses_codex (route_reviewer inp) \<Longrightarrow> rri_impl_by inp = Claude \<and> rri_codex_reviewer inp \<noteq> codex_reviewer.Off"
  by (cases "rri_impl_by inp") (auto simp: route_reviewer_def uses_codex_def split: if_splits)

lemma narrow_roster_subset: "set (narrow_roster roster prev) \<subseteq> set roster"
  by (auto simp: narrow_roster_def Let_def)

lemma narrow_roster_nonempty: "narrow_roster roster prev = [] \<longleftrightarrow> roster = []"
  by (auto simp: narrow_roster_def Let_def)

lemma narrow_roster_keeps_reporters:
  "d \<in> set roster \<Longrightarrow> rd_name d \<in> set prev \<Longrightarrow> d \<in> set (narrow_roster roster prev)"
  by (auto simp: narrow_roster_def Let_def list_ex_iff filter_empty_conv)

lemma route_coder_codex_iff:
  "route_coder inp = ToCodex \<longleftrightarrow>
     (cri_codex_coder inp = codex_coder.Fast \<and> cri_level inp = CoderFast
      \<or> cri_codex_coder inp = codex_coder.FastStd \<and> cri_level inp \<noteq> CoderDeep)
     \<and> (\<forall>need. cri_network inp = Some need \<longrightarrow> path_available (nn_ecosystem need) (cri_codex_network inp))
     \<and> (\<forall>class. cri_kb_pitfall inp = Some class \<longrightarrow>
           \<not> pitfall_blocks class (cri_network inp) (cri_codex_network inp))"
  by (cases "cri_codex_coder inp"; cases "cri_level inp"; cases "cri_network inp"; cases "cri_kb_pitfall inp")
    (simp_all add: route_coder_def level_stage_def)

end
