(* ===== verification/ProcessorTypes.thy ===== *)
theory ProcessorTypes
  imports Cycles Admission Routing
begin

text \<open>
  The data model of the reducer in \<open>src/engine/src/processor.rs\<close>: configuration, cohort, task and
  integration records, outcomes, commands, effects and errors, with the small functions declared
  beside them. A record field keeps the source's name behind a prefix (\<open>cf_\<close> configuration, \<open>tr_\<close>
  task, \<open>co_\<close> cohort, \<open>ig_\<close> integration, \<open>st_\<close> reducer state, \<open>pr_\<close> processor); a constructor
  keeps the source's name, qualified by its type where two types share it.

  Error messages keep their format template and its arguments unrendered (\<open>fmt_arg\<close>); texts that
  the reducer stores durably (reasons, degradations) are concatenated for real.
\<close>

section \<open>Neighbouring vocabulary\<close>

text \<open>\<open>dependency_graph::RefreshBoundary\<close>, \<open>notification::NotificationEvent\<close> and
  \<open>session.rs\<close>.\<close>

datatype refresh_boundary = CohortOpen | PostArchive

definition refresh_boundary_as_str :: "refresh_boundary \<Rightarrow> string" where
  "refresh_boundary_as_str b =
    (case b of CohortOpen \<Rightarrow> ''cohort-open'' | PostArchive \<Rightarrow> ''post-archive'')"

datatype notification_event = NotifyTaskEscalated | ApprovalPending | PublishCiFailed

datatype session_provider = ClaudeProvider | CodexProvider

definition provider_as_str :: "session_provider \<Rightarrow> string" where
  "provider_as_str p = (case p of ClaudeProvider \<Rightarrow> ''claude'' | CodexProvider \<Rightarrow> ''codex'')"

definition provider_other :: "session_provider \<Rightarrow> session_provider" where
  "provider_other p = (case p of ClaudeProvider \<Rightarrow> CodexProvider | CodexProvider \<Rightarrow> ClaudeProvider)"

datatype session_lineage = CoderLineage | ReviewerLineage

definition lineage_as_str :: "session_lineage \<Rightarrow> string" where
  "lineage_as_str l = (case l of CoderLineage \<Rightarrow> ''coder'' | ReviewerLineage \<Rightarrow> ''reviewer'')"

record leaf_session_key =
  lsk_provider :: session_provider
  lsk_lineage :: session_lineage

definition as_durable_key :: "leaf_session_key \<Rightarrow> string" where
  "as_durable_key k = provider_as_str (lsk_provider k) @ '':'' @ lineage_as_str (lsk_lineage k)"

definition session_peer :: "leaf_session_key \<Rightarrow> leaf_session_key" where
  "session_peer k = \<lparr>lsk_provider = provider_other (lsk_provider k), lsk_lineage = lsk_lineage k\<rparr>"

datatype leaf_session_update =
  Observed leaf_session_key string
| Invalidated leaf_session_key

definition ascii_alnum :: "char \<Rightarrow> bool" where
  "ascii_alnum c \<longleftrightarrow>
    is_digit c
    \<or> (65 \<le> (of_char c :: nat) \<and> (of_char c :: nat) \<le> 90)
    \<or> (97 \<le> (of_char c :: nat) \<and> (of_char c :: nat) \<le> 122)"

definition is_valid_session_id :: "string \<Rightarrow> bool" where
  "is_valid_session_id i \<longleftrightarrow>
    i \<noteq> [] \<and> length i \<le> 128 \<and> \<not> starts_with i ''-''
    \<and> list_all (\<lambda>c. ascii_alnum c \<or> c \<in> {CHR ''-'', CHR ''_''}) i"

section \<open>Configuration\<close>

record processor_config =
  cf_max_parallel :: nat
  cf_cohort_size :: nat
  cf_cohort_max_age_minutes :: nat
  cf_cohort_budget_secs :: "nat option"
  cf_cohort_token_budget :: "nat option"
  cf_cohort_token_budget_strict :: bool
  cf_events_outbox_enabled :: bool
  cf_review_loop_max :: nat
  cf_integration_loop_max :: nat
  cf_ci_fix_max :: nat
  cf_stagnation_limit :: nat
  cf_leaf_max_attempts :: nat

definition default_config :: processor_config where
  "default_config =
    \<lparr>cf_max_parallel = 3, cf_cohort_size = 9, cf_cohort_max_age_minutes = 90,
     cf_cohort_budget_secs = None, cf_cohort_token_budget = None,
     cf_cohort_token_budget_strict = False, cf_events_outbox_enabled = True,
     cf_review_loop_max = 8, cf_integration_loop_max = 8, cf_ci_fix_max = 3,
     cf_stagnation_limit = 2, cf_leaf_max_attempts = 2\<rparr>"

section \<open>Phases\<close>

datatype phase =
  Recovery | Opening | Rolling | Joining | Publishing | Cleaning | Idle | Paused | Blocked

datatype task_phase =
  Capturing | Implementing | Committing | Reviewing | Fixing | Ready | ResolvingMerge
| Merged | Published | Done | Conflict | Escalated

datatype imported_recovery_intent =
  EnsureWorkspace | EnsureWorkspaceForReview | DispatchImplementation | DispatchReview
| ReturnConflictToQueue

definition is_active :: "task_phase \<Rightarrow> bool" where
  "is_active p \<longleftrightarrow> p \<in> {Capturing, Implementing, Committing, Reviewing, Fixing}"

definition blocks_admission :: "task_phase \<Rightarrow> active_class option" where
  "blocks_admission p =
    (case p of
       Capturing \<Rightarrow> Some Active | Implementing \<Rightarrow> Some Active | Committing \<Rightarrow> Some Active
     | Reviewing \<Rightarrow> Some Active | Fixing \<Rightarrow> Some Active
     | task_phase.Ready \<Rightarrow> Some Terminal | ResolvingMerge \<Rightarrow> Some Terminal
     | task_phase.Escalated \<Rightarrow> Some Terminal | task_phase.Conflict \<Rightarrow> Some Terminal
     | task_phase.Merged \<Rightarrow> None | task_phase.Published \<Rightarrow> None | task_phase.Done \<Rightarrow> None)"

datatype leaf_kind =
  Implement | Review | Fix | Merger | IntegrationReview | IntegrationFix | CiFix | KnowledgeCurator

definition leaf_kind_as_str :: "leaf_kind \<Rightarrow> string" where
  "leaf_kind_as_str k =
    (case k of
       Implement \<Rightarrow> ''implement'' | Review \<Rightarrow> ''review'' | Fix \<Rightarrow> ''fix'' | Merger \<Rightarrow> ''merger''
     | IntegrationReview \<Rightarrow> ''integration-review'' | IntegrationFix \<Rightarrow> ''integration-fix''
     | CiFix \<Rightarrow> ''ci-fix'' | KnowledgeCurator \<Rightarrow> ''knowledge-curator'')"

definition lineage_for_leaf :: "leaf_kind \<Rightarrow> session_lineage option" where
  "lineage_for_leaf k =
    (case k of
       Implement \<Rightarrow> Some CoderLineage | Fix \<Rightarrow> Some CoderLineage | Review \<Rightarrow> Some ReviewerLineage
     | _ \<Rightarrow> None)"

datatype inbox_curation_mode = Intake | Finalize

definition inbox_curation_key :: "inbox_curation_mode \<Rightarrow> string" where
  "inbox_curation_key m = (case m of Intake \<Rightarrow> ''intake'' | Finalize \<Rightarrow> ''finalize'')"

section \<open>Errors\<close>

datatype 'e fmt_arg =
  ArgStr string | ArgDbg string | ArgDbgOpt "string option" | ArgNat nat | ArgPhase phase
| ArgTaskPhase task_phase | ArgErr 'e

datatype processor_error =
  InvalidConfig string
| InvalidCommand string "processor_error fmt_arg list"
| MissingTask string
| UnexpectedTaskPhase string string task_phase
| CorruptCheckpoint string "processor_error fmt_arg list"

definition validate_config :: "processor_config \<Rightarrow> processor_error + unit" where
  "validate_config cfg =
    (if cf_max_parallel cfg = 0 then Inl (InvalidConfig ''MAX_PARALLEL must be at least 1'')
     else if cf_cohort_size cfg = 0 then Inl (InvalidConfig ''COHORT_SIZE must be at least 1'')
     else if cf_cohort_max_age_minutes cfg = 0
       then Inl (InvalidConfig ''COHORT_MAX_AGE must be at least one minute'')
     else if cf_stagnation_limit cfg < 2
       then Inl (InvalidConfig ''STAGNATION_LIMIT must be at least 2'')
     else if cf_review_loop_max cfg = 0 \<or> cf_integration_loop_max cfg = 0
         \<or> cf_ci_fix_max cfg = 0 \<or> cf_leaf_max_attempts cfg = 0
       then Inl (InvalidConfig ''review, integration, CI, and leaf-attempt limits must be at least 1'')
     else Inr ())"

section \<open>Tasks\<close>

record admission_candidate =
  ac_id :: string
  ac_conflict_domain :: string
  ac_level :: level
  ac_risk :: risk
  ac_ready :: bool
  ac_current_delivery_lane :: bool

record task_runtime =
  tr_id :: string
  tr_conflict_domain :: string
  tr_level :: "level option"
  tr_risk :: "risk option"
  tr_wave :: nat
  tr_phase :: task_phase
  tr_leaf_attempts :: "(string, nat) btmap"
  tr_review_cycles :: nat
  tr_review_signatures :: "string list"
  tr_pending_fix_open_findings :: "nat option"
  tr_pending_fix_open_finding_ids :: "string list option"
  tr_dimensions_with_findings_last_round :: "string list"
  tr_implementation_author :: "string option"
  tr_previous_review_sha :: "string option"
  tr_review_sha :: "string option"
  tr_reason :: "string option"
  tr_imported_recovery_intent :: "imported_recovery_intent option"
  tr_leaf_sessions :: "(string, string) btmap"

definition task_new :: "admission_candidate \<Rightarrow> nat \<Rightarrow> task_runtime" where
  "task_new c wave =
    \<lparr>tr_id = ac_id c, tr_conflict_domain = ac_conflict_domain c, tr_level = Some (ac_level c),
     tr_risk = Some (ac_risk c), tr_wave = wave, tr_phase = Capturing, tr_leaf_attempts = [],
     tr_review_cycles = 0, tr_review_signatures = [], tr_pending_fix_open_findings = None,
     tr_pending_fix_open_finding_ids = None, tr_dimensions_with_findings_last_round = [],
     tr_implementation_author = None, tr_previous_review_sha = None, tr_review_sha = None,
     tr_reason = None, tr_imported_recovery_intent = None, tr_leaf_sessions = []\<rparr>"

text \<open>The attempt counter behind both \<open>leaf_attempt\<close> methods: \<open>entry().or_default()\<close>, then a
  saturating increment.\<close>

definition bump_attempt :: "leaf_kind \<Rightarrow> (string, nat) btmap \<Rightarrow> nat \<times> (string, nat) btmap" where
  "bump_attempt k m =
    (let key = leaf_kind_as_str k;
         n = sat_add32 (case map_of m key of Some v \<Rightarrow> v | None \<Rightarrow> 0) 1
     in (n, bt_insert key n m))"

definition task_leaf_attempt :: "leaf_kind \<Rightarrow> task_runtime \<Rightarrow> nat \<times> task_runtime" where
  "task_leaf_attempt k t =
    (case bump_attempt k (tr_leaf_attempts t) of (n, m) \<Rightarrow> (n, t\<lparr>tr_leaf_attempts := m\<rparr>))"

definition leaf_session :: "task_runtime \<Rightarrow> leaf_session_key \<Rightarrow> string option" where
  "leaf_session t key = map_of (tr_leaf_sessions t) (as_durable_key key)"

definition validate_task_risk_elevation :: "risk option \<Rightarrow> risk \<Rightarrow> string + unit" where
  "validate_task_risk_elevation current reported =
    (case current of
       None \<Rightarrow>
         Inl ([CHR 0x63, CHR 0x6F, CHR 0x64, CHR 0x65, CHR 0x72, CHR 0x20, CHR 0x72, CHR 0x65, CHR 0x70,
      CHR 0x6F, CHR 0x72, CHR 0x74, CHR 0x65, CHR 0x64, CHR 0x20, CHR 0xD1, CHR 0x80, CHR 0xD0,
      CHR 0xB8, CHR 0xD1, CHR 0x81, CHR 0xD0, CHR 0xBA, CHR 0x3D] @ risk_as_str reported
              @ '' but the task has no durable planner risk; cannot prove a strictly higher classification'')
     | Some cur \<Rightarrow>
         (if reported \<le> cur then
            Inl ([CHR 0x63, CHR 0x6F, CHR 0x64, CHR 0x65, CHR 0x72, CHR 0x20, CHR 0x72, CHR 0x65, CHR 0x70,
      CHR 0x6F, CHR 0x72, CHR 0x74, CHR 0x65, CHR 0x64, CHR 0x20, CHR 0xD1, CHR 0x80, CHR 0xD0,
      CHR 0xB8, CHR 0xD1, CHR 0x81, CHR 0xD0, CHR 0xBA, CHR 0x3D] @ risk_as_str reported
                 @ '' but the durable task risk is '' @ risk_as_str cur
                 @ ''; only a strictly higher risk may be reported'')
          else Inr ()))"

definition raise_task_risk :: "risk \<Rightarrow> task_runtime \<Rightarrow> string + task_runtime" where
  "raise_task_risk reported t =
    (case validate_task_risk_elevation (tr_risk t) reported of
       Inl why \<Rightarrow> Inl why
     | Inr _ \<Rightarrow> Inr (t\<lparr>tr_risk := Some reported\<rparr>))"

section \<open>Outcomes\<close>

datatype leaf_outcome =
  Completed "string option"
| RiskElevated "string option" risk "nat option"
| CompletedWithWontFix "string option" nat
| RetryableFailure string
| Escalated string

definition non_success_leaf_reason :: "leaf_outcome \<Rightarrow> string \<Rightarrow> string option" where
  "non_success_leaf_reason outcome role =
    (case outcome of
       Completed _ \<Rightarrow> None
     | RetryableFailure reason \<Rightarrow> Some reason
     | leaf_outcome.Escalated reason \<Rightarrow> Some reason
     | RiskElevated _ r _ \<Rightarrow>
         Some (role @ '' reported unsupported task risk elevation '' @ risk_as_str r)
     | CompletedWithWontFix _ _ \<Rightarrow>
         Some (role @ '' reported unsupported fix-cycle won'' @ [CHR 0x27] @ ''t-fix metadata''))"

datatype review_outcome =
  Clean string
| CleanRiskElevated string risk
| Findings string nat "string list"
| FindingsRiskElevated string risk nat "string list"
| Incomplete
| Escalated string

record merge_path_fingerprint =
  mpf_path :: string
  mpf_sha256 :: "string option"

datatype merge_outcome =
  Merged string
| NeedsResolution string "string list" "string list" "merge_path_fingerprint list"
| Quarantined string
| Failed string

datatype ci_disposition = Confirmed | Disabled | UnconfirmedDegraded

datatype archive_ci_gate = Skipped | Confirmed

datatype ci_outcome =
  Passed | LocalOnly | Disabled | BestEffortDegraded string | RequiredUnconfirmed string
| Failed string string

datatype publication_reanchor_target = RemotePublication | LocalPrimary

datatype codex_sandbox_downgrade = Host | Worktree

definition degradation :: "codex_sandbox_downgrade \<Rightarrow> string" where
  "degradation d =
    (case d of
       Host \<Rightarrow> ''Codex sandbox-init preflight: live host limit; Codex routing downgraded for this session''
     | Worktree \<Rightarrow> ''Codex sandbox-init-worktree preflight: live task-worktree limit; Codex coder routing downgraded for this session'')"

datatype ci_fix_preparation_outcome =
  Skipped | Completed | Fallback | SandboxDowngraded codex_sandbox_downgrade | Escalated string

datatype knowledge_preparation_outcome = Required | AlreadyCompleted | Skipped

datatype archival_preparation_outcome = ReconfirmRequired "string list" | Skipped

datatype task_leaf_preparation_outcome =
  Skipped | Completed | CompletedWithWontFix nat | RiskElevated risk "nat option" | Fallback
| SandboxDowngraded codex_sandbox_downgrade | Escalated string

datatype task_review_preparation_outcome =
  DispatchClaude | SandboxDowngraded codex_sandbox_downgrade | Completed review_outcome

datatype verification_outcome =
  Passed | Exempt string | Failed string string | Blocked string

end
