(* ===== verification/ProcessorBase.thy ===== *)
theory ProcessorBase
  imports ProcessorTypes
begin

text \<open>
  The rest of the data model of \<open>src/engine/src/processor.rs\<close> (model calls, cohort and integration
  runtime, the reducer's state, commands and effects) and the private helpers every handler
  uses: validators, phase guards, retry budget, admission gate, cleanup plan.
\<close>

section \<open>Model calls, effects and commands\<close>

datatype model_call =
  Planner nat
| InboxCurator nat inbox_curation_mode
| DependencyCurator refresh_boundary
| TaskReviewPreparation string
| TaskLeafPreparation string leaf_kind
| CiFixPreparation
| TaskCall string leaf_kind
| IntegrationCall leaf_kind

datatype effect =
  PersistCheckpoint
| Reconcile string
| ReconcileInbox nat
| ReconcileInboxFinalization
| DispatchDependencyCurator refresh_boundary
| DispatchInboxCurator nat inbox_curation_mode
| DrainQueueInbox nat
| PlanNextWave nat
| CheckTokenBudget model_call
| CheckCohortBudget model_call
| EnsureTaskWorkspace string string
| PrepareTaskReview string
| PrepareTaskLeaf string leaf_kind
| DispatchTask string leaf_kind
| CommitTask string
| PrepareIntegrationWorkspace string
| MergeTask string
| FinalizeMergeResolution string
| AbortMergeResolution string string
| VerifyIntegration string
| DispatchIntegration leaf_kind
| CommitIntegrationFix
| Publish string
| ReanchorPublication string
| VerifyCi string
| Notify notification_event string
| PrepareCiFix
| CommitCiFix
| PrepareKnowledgeCuration
| PrepareArchival
| ReconfirmCiBeforeArchive string "string list"
| ReturnTask string string
| EscalateTask string string
| ArchiveTask string
| CleanupTaskWorkspace string
| CleanupIntegrationWorkspace
| CleanupCohortControlPlane
| WriteJournalAndStatus
| ReleaseLease
| WaitForOperator string

definition from_effect :: "effect \<Rightarrow> model_call option" where
  "from_effect e =
    (case e of
       PlanNextWave n \<Rightarrow> Some (Planner n)
     | DispatchInboxCurator n m \<Rightarrow> Some (InboxCurator n m)
     | DispatchDependencyCurator b \<Rightarrow> Some (DependencyCurator b)
     | PrepareTaskReview i \<Rightarrow> Some (TaskReviewPreparation i)
     | PrepareTaskLeaf i k \<Rightarrow> Some (TaskLeafPreparation i k)
     | PrepareCiFix \<Rightarrow> Some CiFixPreparation
     | DispatchTask i k \<Rightarrow>
         (if k \<in> {Implement, Review, Fix} then Some (TaskCall i k) else None)
     | DispatchIntegration k \<Rightarrow>
         (if k \<in> {Merger, IntegrationReview, IntegrationFix, CiFix}
          then Some (IntegrationCall k) else None)
     | _ \<Rightarrow> None)"

definition into_effect :: "model_call \<Rightarrow> effect" where
  "into_effect c =
    (case c of
       Planner n \<Rightarrow> PlanNextWave n
     | InboxCurator n m \<Rightarrow> DispatchInboxCurator n m
     | DependencyCurator b \<Rightarrow> DispatchDependencyCurator b
     | TaskReviewPreparation i \<Rightarrow> PrepareTaskReview i
     | TaskLeafPreparation i k \<Rightarrow> PrepareTaskLeaf i k
     | CiFixPreparation \<Rightarrow> PrepareCiFix
     | TaskCall i k \<Rightarrow> DispatchTask i k
     | IntegrationCall k \<Rightarrow> DispatchIntegration k)"

definition ledger_key :: "model_call \<Rightarrow> string" where
  "ledger_key c =
    (case c of
       Planner _ \<Rightarrow> ''check-token-budget:planner''
     | InboxCurator _ m \<Rightarrow> ''check-token-budget:inbox-curator:'' @ inbox_curation_key m
     | DependencyCurator b \<Rightarrow> ''check-token-budget:dependency-curator:'' @ refresh_boundary_as_str b
     | TaskReviewPreparation i \<Rightarrow> ''check-token-budget:task:'' @ i @ '':review-augment''
     | TaskLeafPreparation i k \<Rightarrow>
         ''check-token-budget:task:'' @ i @ '':'' @ leaf_kind_as_str k @ ''-codex''
     | CiFixPreparation \<Rightarrow> ''check-token-budget:integration:ci-fix-codex''
     | TaskCall i k \<Rightarrow> ''check-token-budget:task:'' @ i @ '':'' @ leaf_kind_as_str k
     | IntegrationCall k \<Rightarrow> ''check-token-budget:integration:'' @ leaf_kind_as_str k)"

text \<open>\<open>replacen\<close> of a prefix every ledger key starts with.\<close>

definition cohort_budget_ledger_key :: "model_call \<Rightarrow> string" where
  "cohort_budget_ledger_key c =
    (case strip_prefix ''check-token-budget:'' (ledger_key c) of
       Some rest \<Rightarrow> ''check-cohort-budget:'' @ rest
     | None \<Rightarrow> ledger_key c)"

datatype token_budget_observation = Actual nat | Unavailable

datatype processor_command =
  Open string string nat
| Recover "string list"
| Admit "admission_candidate list" nat
| InboxReconciled nat bool
| InboxFinalizationReconciled bool
| DependencyGraphRefreshed refresh_boundary leaf_outcome
| InboxCurated nat inbox_curation_mode leaf_outcome
| InboxDrained nat
| TokenBudgetChecked model_call token_budget_observation
| CohortBudgetChecked model_call nat
| WorkspaceReady string
| WorkspaceFailed string string
| TaskLeafPrepared string task_leaf_preparation_outcome
| TaskLeaf string leaf_outcome
| TaskCommitted string string
| TaskReviewPrepared string task_review_preparation_outcome
| TaskReview string review_outcome
| Advance nat
| IntegrationWorkspaceReady
| TaskMerged string merge_outcome
| MergeResolution string leaf_outcome
| MergeResolutionFinalized string merge_outcome
| MergeResolutionAborted string string
| IntegrationVerified string verification_outcome
| IntegrationReviewed review_outcome
| IntegrationFixed leaf_outcome
| IntegrationFixCommitted string
| Published string bool
| PublicationRejected string
| PublicationAwaitingApproval string
| PublicationReanchorRequired string publication_reanchor_target
| PublicationReanchored
| CiVerified ci_outcome
| CiFixed leaf_outcome
| CiFixPrepared ci_fix_preparation_outcome
| CiFixCommitted string
| KnowledgeCurationPrepared knowledge_preparation_outcome
| KnowledgeCurated leaf_outcome
| ArchivalPrepared archival_preparation_outcome
| ArchiveCiReconfirmed string ci_outcome
| CleanupComplete
| Pause
| Resume
| Block string

section \<open>The reducer's state\<close>

datatype close_reason_wire =
  CohortSize | CohortMaxAge | CohortTokenBudget | LegacyCohortStateAbsent | QueueEmpty
| OnlyConflictsWithReady

definition close_reason_wire_of :: "close_reason \<Rightarrow> close_reason_wire" where
  "close_reason_wire_of r =
    (case r of
       close_reason.CohortSize \<Rightarrow> close_reason_wire.CohortSize
     | close_reason.CohortMaxAge \<Rightarrow> close_reason_wire.CohortMaxAge
     | close_reason.CohortTokenBudget \<Rightarrow> close_reason_wire.CohortTokenBudget
     | close_reason.QueueEmpty \<Rightarrow> close_reason_wire.QueueEmpty
     | close_reason.OnlyConflictsWithReady \<Rightarrow> close_reason_wire.OnlyConflictsWithReady)"

record cohort_runtime =
  co_id :: string
  co_base :: string
  co_started_at_secs :: nat
  co_wave :: nat
  co_admitted_total :: nat
  co_admission_closed :: "close_reason_wire option"
  co_cohort_budget_secs :: "nat option"
  co_cohort_token_budget :: "nat option"
  co_cohort_token_budget_strict :: bool
  co_token_budget_actual_tokens :: "nat option"
  co_events_outbox_enabled :: bool

record pending_knowledge_curation =
  pk_base :: string
  pk_published_head :: string
  pk_merged_tasks :: "string list"
  pk_fixed_task_findings :: nat
  pk_integration_or_ci_signatures :: nat
  pk_ci_failure_cycles :: nat
  pk_quarantined_tasks :: "string list"
  pk_escalated_tasks :: "string list"
  pk_degradations :: nat

record merge_resolution_runtime =
  mr_task_id :: string
  mr_pre_merge_head :: string
  mr_merge_paths :: "string list"
  mr_paths :: "string list"
  mr_protected_paths :: "merge_path_fingerprint list"

record integration_runtime =
  ig_workspace_prepared :: bool
  ig_imported_workspace_restore_pending :: bool
  ig_merged_tasks :: "string list"
  ig_f_cycles :: nat
  ig_ci_cycles :: nat
  ig_ci_fix_provider_fallback :: bool
  ig_ci_disposition :: "ci_disposition option"
  ig_leaf_attempts :: "(string, nat) btmap"
  ig_verification_attempts :: nat
  ig_publish_attempts :: nat
  ig_ci_wait_attempts :: nat
  ig_archive_ci_wait_attempts :: nat
  ig_pending_merge_resolution :: "merge_resolution_runtime option"
  ig_signatures :: "string list"
  ig_integration_head :: "string option"
  ig_review_sha :: "string option"
  ig_verification_head :: "string option"
  ig_published_head :: "string option"
  ig_publication_pushed :: "bool option"
  ig_publication_reanchor_reason :: "string option"
  ig_publication_reanchor_target :: "publication_reanchor_target option"
  ig_publication_reanchor_cycles :: nat
  ig_cleanup_journaled :: bool
  ig_archive_ci_gate :: "archive_ci_gate option"
  ig_dependency_graph_refreshed_open :: bool
  ig_dependency_graph_refreshed_post_archive :: bool
  ig_pending_knowledge_curations :: "(string, pending_knowledge_curation) btmap"
  ig_failed_reason :: "string option"
  ig_degradations :: "string list"

definition integration_default :: integration_runtime where
  "integration_default =
    \<lparr>ig_workspace_prepared = False, ig_imported_workspace_restore_pending = False,
     ig_merged_tasks = [], ig_f_cycles = 0, ig_ci_cycles = 0, ig_ci_fix_provider_fallback = False,
     ig_ci_disposition = None, ig_leaf_attempts = [], ig_verification_attempts = 0,
     ig_publish_attempts = 0, ig_ci_wait_attempts = 0, ig_archive_ci_wait_attempts = 0,
     ig_pending_merge_resolution = None, ig_signatures = [], ig_integration_head = None,
     ig_review_sha = None, ig_verification_head = None, ig_published_head = None,
     ig_publication_pushed = None, ig_publication_reanchor_reason = None,
     ig_publication_reanchor_target = None, ig_publication_reanchor_cycles = 0,
     ig_cleanup_journaled = False, ig_archive_ci_gate = None,
     ig_dependency_graph_refreshed_open = False, ig_dependency_graph_refreshed_post_archive = False,
     ig_pending_knowledge_curations = [], ig_failed_reason = None, ig_degradations = []\<rparr>"

record processor_state =
  st_schema_version :: nat
  st_phase :: phase
  st_paused_from :: "phase option"
  st_batch :: "cohort_runtime option"
  st_tasks :: "(string, task_runtime) btmap"
  st_integration :: integration_runtime
  st_blocked_reason :: "string option"

definition processor_state_default :: processor_state where
  "processor_state_default =
    \<lparr>st_schema_version = 1, st_phase = Recovery, st_paused_from = None, st_batch = None,
     st_tasks = [], st_integration = integration_default, st_blocked_reason = None\<rparr>"

record processor =
  pr_config :: processor_config
  pr_state :: processor_state
  pr_recovery_target :: "phase option"

definition processor_new :: "processor_config \<Rightarrow> processor_error + processor" where
  "processor_new cfg =
    (case validate_config cfg of
       Inl e \<Rightarrow> Inl e
     | Inr _ \<Rightarrow> Inr \<lparr>pr_config = cfg, pr_state = processor_state_default, pr_recovery_target = None\<rparr>)"

type_synonym 'a reduction = "(processor_error, 'a, processor_state) outcome"

abbreviation ig_set :: "(integration_runtime \<Rightarrow> integration_runtime) \<Rightarrow> processor_state \<Rightarrow> processor_state" where
  "ig_set f s \<equiv> s\<lparr>st_integration := f (st_integration s)\<rparr>"

abbreviation invalid :: "string \<Rightarrow> processor_error" where
  "invalid m \<equiv> InvalidCommand m []"

definition or_default :: "'a \<Rightarrow> 'a option \<Rightarrow> 'a" where
  "or_default d o' = (case o' of Some x \<Rightarrow> x | None \<Rightarrow> d)"

lemma or_default_simps [simp]: "or_default d None = d" "or_default d (Some x) = x"
  by (simp_all add: or_default_def)

definition ok_or :: "'e \<Rightarrow> 'a option \<Rightarrow> 'e + 'a" where
  "ok_or e o' = (case o' of Some x \<Rightarrow> Inr x | None \<Rightarrow> Inl e)"

lemma ok_or_Inr [simp]: "ok_or e o' = Inr x \<longleftrightarrow> o' = Some x"
  by (cases o') (simp_all add: ok_or_def)

definition and_then :: "'a reduction \<Rightarrow> ('a \<Rightarrow> processor_state \<Rightarrow> 'b reduction) \<Rightarrow> 'b reduction" where
  "and_then r k = (case r of (Inl e, s) \<Rightarrow> (Inl e, s) | (Inr a, s) \<Rightarrow> k a s)"

lemma and_then_Inr [simp]:
  "and_then r k = (Inr b, s') \<longleftrightarrow> (\<exists>a s. r = (Inr a, s) \<and> k a s = (Inr b, s'))"
  by (cases r; cases "fst r") (auto simp: and_then_def)

section \<open>Access to tasks and phase guards\<close>

definition task_mut :: "processor_state \<Rightarrow> string \<Rightarrow> processor_error + task_runtime" where
  "task_mut s i = ok_or (MissingTask i) (map_of (st_tasks s) i)"

definition put_task :: "string \<Rightarrow> task_runtime \<Rightarrow> processor_state \<Rightarrow> processor_state" where
  "put_task i t s = s\<lparr>st_tasks := bt_set i t (st_tasks s)\<rparr>"

definition require_phase :: "processor_state \<Rightarrow> phase \<Rightarrow> string \<Rightarrow> processor_error + unit" where
  "require_phase s expected operation =
    ensure (st_phase s = expected)
      (InvalidCommand ''{} requires {}, current phase is {}''
        [ArgStr operation, ArgPhase expected, ArgPhase (st_phase s)])"

definition expect_task_phase :: "task_runtime \<Rightarrow> task_phase \<Rightarrow> string \<Rightarrow> processor_error + unit" where
  "expect_task_phase t expected operation =
    ensure (tr_phase t = expected) (UnexpectedTaskPhase (tr_id t) operation (tr_phase t))"

definition batch_id :: "processor_state \<Rightarrow> processor_error + string" where
  "batch_id s = ok_or (invalid ''active cohort is missing'') (map_option co_id (st_batch s))"

definition integration_branch :: "processor_state \<Rightarrow> processor_error + string" where
  "integration_branch s = bind_res (batch_id s) (\<lambda>i. Inr (''integration/'' @ i))"

section \<open>Retry budget\<close>

definition can_schedule_leaf :: "task_runtime \<Rightarrow> leaf_kind \<Rightarrow> nat \<Rightarrow> bool" where
  "can_schedule_leaf t k max_attempts \<longleftrightarrow>
    or_default 0 (map_of (tr_leaf_attempts t) (leaf_kind_as_str k)) < max_attempts"

definition schedule_leaf_retry :: "task_runtime \<Rightarrow> leaf_kind \<Rightarrow> nat \<Rightarrow> bool \<times> task_runtime" where
  "schedule_leaf_retry t k max_attempts =
    (if \<not> can_schedule_leaf t k max_attempts then (False, t)
     else (True, snd (task_leaf_attempt k t)))"

definition dispatch_integration :: "leaf_kind \<Rightarrow> processor_state \<Rightarrow> effect \<times> processor_state" where
  "dispatch_integration k s =
    (DispatchIntegration k,
     ig_set (\<lambda>i. i\<lparr>ig_leaf_attempts := snd (bump_attempt k (ig_leaf_attempts i))\<rparr>) s)"

definition push_unique_effect :: "effect list \<Rightarrow> effect \<Rightarrow> effect list" where
  "push_unique_effect effects e = (if e \<in> set effects then effects else effects @ [e])"

section \<open>Signatures\<close>

definition signatures_from :: "(string \<Rightarrow> string) \<Rightarrow> string list \<Rightarrow> attempt_signature list" where
  "signatures_from lc raw = map (signature_of lc) raw"

definition stagnation_reason :: "attempt_signature list \<Rightarrow> nat \<Rightarrow> string option" where
  "stagnation_reason sigs limit =
    (case stagnation_decide sigs limit of
       Stagnated _ \<Rightarrow> stagnation_escalation_reason (stagnation_decide sigs limit)
     | Progressing \<Rightarrow> None)"

section \<open>Validators\<close>

definition nul :: char where "nul = CHR 0x00"

definition backslash :: char where "backslash = CHR 0x5C"

fun has_ws :: "string \<Rightarrow> bool" where
  "has_ws [] = False"
| "has_ws (c # cs) = (strip_any ws_codes (c # cs) \<noteq> None \<or> has_ws cs)"

definition validate_task_id :: "string \<Rightarrow> processor_error + unit" where
  "validate_task_id i =
    ensure (is_task_id i)
      (InvalidCommand ''invalid task id {}; expected T- followed by ASCII digits'' [ArgDbg i])"

text \<open>\<open>state::descriptor::parse_conflict_domain\<close>.\<close>

definition parse_conflict_domain :: "string \<Rightarrow> string list option" where
  "parse_conflict_domain value =
    (let globs = domain_tokens value in
     if globs \<noteq> []
        \<and> list_all (\<lambda>glob.
             \<not> (starts_with glob ''/'' \<or> starts_with glob [backslash])
             \<and> CHR '':'' \<notin> set glob
             \<and> CHR ''<'' \<notin> set glob \<and> CHR ''>'' \<notin> set glob
             \<and> \<not> list_ex (\<lambda>part. part = ''..'') (split_chars {CHR ''/'', backslash} glob)) globs
     then Some globs else None)"

definition validate_conflict_domain :: "string \<Rightarrow> processor_error + unit" where
  "validate_conflict_domain value =
    ensure (parse_conflict_domain value \<noteq> None)
      (InvalidCommand ''invalid conflict domain {}; expected non-empty repository-relative path globs''
        [ArgDbg value])"

definition validate_batch_id :: "string \<Rightarrow> processor_error + unit" where
  "validate_batch_id i =
    (let valid = (case strip_prefix ''B-'' i of
                    Some sfx \<Rightarrow> sfx \<noteq> [] \<and> \<not> has_ws sfx | None \<Rightarrow> False)
     in ensure (valid \<and> \<not> starts_with i ''-'' \<and> nul \<notin> set i)
          (InvalidCommand ''invalid batch id {}'' [ArgDbg i]))"

definition validate_ref :: "string \<Rightarrow> string \<Rightarrow> processor_error + unit" where
  "validate_ref value what =
    ensure (\<not> (trim value = [] \<or> starts_with value ''-'' \<or> nul \<in> set value))
      (InvalidCommand ''invalid {} {}'' [ArgStr what, ArgDbg value])"

fun check_names_ok :: "string list \<Rightarrow> string list \<Rightarrow> bool" where
  "check_names_ok seen [] = True"
| "check_names_ok seen (check # checks) =
    (if trim check \<noteq> check \<or> check = []
        \<or> list_ex (\<lambda>c. c \<in> {nul, CHR 0x0D, CHR 0x0A}) check \<or> check \<in> set seen
     then False else check_names_ok (bts_insert check seen) checks)"

definition validate_required_ci_check_names :: "string list \<Rightarrow> processor_error + unit" where
  "validate_required_ci_check_names checks =
    (if checks = [] then Inl (invalid ''archive CI reconfirmation requires at least one check name'')
     else ensure (check_names_ok [] checks)
       (invalid ''archive CI reconfirmation contains an invalid or duplicate check name''))"

definition validate_ci_observation_reason :: "string \<Rightarrow> processor_error + unit" where
  "validate_ci_observation_reason reason =
    ensure (\<not> (trim reason = [] \<or> nul \<in> set reason))
      (invalid ''CI observation must carry a non-empty safe reason'')"

definition ascii_alpha :: "char \<Rightarrow> bool" where
  "ascii_alpha c \<longleftrightarrow> ascii_alnum c \<and> \<not> is_digit c"

definition windows_prefix :: "string \<Rightarrow> bool" where
  "windows_prefix p \<longleftrightarrow> length p \<ge> 2 \<and> ascii_alpha (p ! 0) \<and> p ! 1 = CHR '':''"

definition safe_relative_path :: "string \<Rightarrow> bool" where
  "safe_relative_path p \<longleftrightarrow>
    \<not> (p = [] \<or> starts_with p ''/'' \<or> starts_with p [backslash] \<or> nul \<in> set p \<or> windows_prefix p
       \<or> list_ex (\<lambda>part. part = [] \<or> part = ''.'' \<or> part = ''..'' \<or> part = ''.git'' \<or> part = ''.jj'')
           (split_chars {CHR ''/'', backslash} p))"

definition validate_merge_conflict_paths :: "string list \<Rightarrow> processor_error + unit" where
  "validate_merge_conflict_paths paths =
    (if paths = [] then Inl (invalid ''merge conflict must include at least one relative path'')
     else each_res (\<lambda>p. ensure (safe_relative_path p)
       (InvalidCommand ''merge conflict path is not a safe repository-relative path: {}'' [ArgDbg p])) paths)"

definition hex_digit_char :: "char \<Rightarrow> bool" where
  "hex_digit_char c \<longleftrightarrow>
    is_digit c
    \<or> (65 \<le> (of_char c :: nat) \<and> (of_char c :: nat) \<le> 70)
    \<or> (97 \<le> (of_char c :: nat) \<and> (of_char c :: nat) \<le> 102)"

definition sha256_hex :: "string \<Rightarrow> bool" where
  "sha256_hex d \<longleftrightarrow> length d = 64 \<and> list_all hex_digit_char d"

fun collect_protected ::
    "string list \<Rightarrow> merge_path_fingerprint list \<Rightarrow> processor_error + string list" where
  "collect_protected actual [] = Inr actual"
| "collect_protected actual (p # ps) =
    bind_res (validate_merge_conflict_paths [mpf_path p]) (\<lambda>_.
    bind_res (ensure (case mpf_sha256 p of None \<Rightarrow> True | Some d \<Rightarrow> sha256_hex d)
       (InvalidCommand ''merge-path fingerprint for {} is not a SHA-256 digest'' [ArgDbg (mpf_path p)])) (\<lambda>_.
    bind_res (ensure (mpf_path p \<notin> set actual)
       (InvalidCommand ''merge-path fingerprint repeats {}'' [ArgDbg (mpf_path p)])) (\<lambda>_.
    collect_protected (bts_insert (mpf_path p) actual) ps)))"

definition validate_merge_protected_paths ::
    "string list \<Rightarrow> string list \<Rightarrow> merge_path_fingerprint list \<Rightarrow> processor_error + unit" where
  "validate_merge_protected_paths merge_paths conflict_paths protected =
    (let expected = bts_of (filter (\<lambda>p. p \<notin> set conflict_paths) merge_paths) in
     bind_res (collect_protected [] protected) (\<lambda>actual.
       ensure (actual = expected)
         (invalid ''merge-path fingerprints do not cover exactly the clean portion of the typed merge surface'')))"

definition validate_signature :: "string \<Rightarrow> processor_error + unit" where
  "validate_signature value =
    ensure (length value = 16 \<and> list_all hex_digit_char value)
      (invalid ''finding/error signature must be 16 ASCII hex characters'')"

section \<open>Admission, capacity and cleanup plans\<close>

definition close_admission :: "close_reason \<Rightarrow> processor_state \<Rightarrow> processor_state" where
  "close_admission r s =
    s\<lparr>st_batch := map_option (\<lambda>b. b\<lparr>co_admission_closed := Some (close_reason_wire_of r)\<rparr>) (st_batch s)\<rparr>"

definition close_for_budget_if_needed :: "processor_config \<Rightarrow> nat \<Rightarrow> processor_state \<Rightarrow> processor_state" where
  "close_for_budget_if_needed cfg now_secs s =
    (case st_batch s of
       None \<Rightarrow> s
     | Some batch \<Rightarrow>
         (if co_admission_closed batch \<noteq> None then s
          else
            (let elapsed = now_secs - co_started_at_secs batch;
                 counters = \<lparr>cc_admitted_total = co_admitted_total batch,
                             cc_age_minutes = elapsed div 60, cc_elapsed_sec = elapsed\<rparr>;
                 thresholds = \<lparr>ct_size = cf_cohort_size cfg,
                               ct_max_age_minutes = cf_cohort_max_age_minutes cfg,
                               ct_budget_sec = cf_cohort_budget_secs cfg\<rparr>
             in case admission_gate_of counters thresholds of
                  Close r \<Rightarrow> close_admission r s
                | Continue \<Rightarrow> s)))"

definition active_tasks :: "processor_state \<Rightarrow> active_task list" where
  "active_tasks s =
    List.map_filter
      (\<lambda>t. map_option (\<lambda>c. \<lparr>at_domain = domain_parse (tr_conflict_domain t), at_class = c\<rparr>)
             (blocks_admission (tr_phase t)))
      (bt_values (st_tasks s))"

definition active_count :: "processor_state \<Rightarrow> nat" where
  "active_count s = length (filter (\<lambda>t. is_active (tr_phase t)) (bt_values (st_tasks s)))"

definition free_slots :: "processor_config \<Rightarrow> processor_state \<Rightarrow> nat" where
  "free_slots cfg s = cf_max_parallel cfg - active_count s"

definition tasks_ready_to_merge :: "processor_state \<Rightarrow> task_runtime list" where
  "tasks_ready_to_merge s = filter (\<lambda>t. tr_phase t = task_phase.Ready) (bt_values (st_tasks s))"

definition task_cleanup_effects :: "task_runtime \<Rightarrow> effect list" where
  "task_cleanup_effects t =
    (if tr_phase t \<in> {task_phase.Published, Done}
     then [ArchiveTask (tr_id t), CleanupTaskWorkspace (tr_id t)]
     else if tr_phase t \<in> {task_phase.Conflict, task_phase.Escalated}
     then [CleanupTaskWorkspace (tr_id t)]
     else [])"

definition cleanup_effects :: "processor_state \<Rightarrow> effect list" where
  "cleanup_effects s =
    (let journal = (if \<not> ig_cleanup_journaled (st_integration s) then [WriteJournalAndStatus] else [])
     in if ig_archive_ci_gate (st_integration s) = None then journal @ [PrepareArchival]
        else journal @ concat (map task_cleanup_effects (bt_values (st_tasks s)))
             @ [CleanupIntegrationWorkspace, CleanupCohortControlPlane])"

text \<open>A clean-up plan that starts with the journal boundary, without that boundary.\<close>

definition split_journal :: "effect list \<Rightarrow> effect list option" where
  "split_journal effects =
    (case effects of [] \<Rightarrow> None | e # rest \<Rightarrow> if e = WriteJournalAndStatus then Some rest else None)"

lemma split_journal_Some: "split_journal es = Some rest \<longleftrightarrow> es = WriteJournalAndStatus # rest"
  by (auto simp: split_journal_def split: list.splits)

definition fail_integration :: "string \<Rightarrow> processor_state \<Rightarrow> effect list reduction" where
  "fail_integration reason s =
    (let blocked = ''integration failed: '' @ reason;
         s = s\<lparr>st_integration := (st_integration s)\<lparr>ig_failed_reason := Some reason\<rparr>,
               st_blocked_reason := Some blocked, st_phase := phase.Blocked\<rparr>
     in (Inr [WriteJournalAndStatus, WaitForOperator blocked], s))"

definition publishing_resume_effect :: "processor_config \<Rightarrow> processor_state \<Rightarrow> effect reduction" where
  "publishing_resume_effect cfg s =
    (let ig = st_integration s in
     if ig_publication_reanchor_reason ig \<noteq> None then
       guard (batch_id s) s (\<lambda>i. (Inr (ReanchorPublication i), s))
     else
       (case ig_published_head ig of
          Some head \<Rightarrow> (Inr (VerifyCi head), s)
        | None \<Rightarrow>
            (if ig_integration_head ig \<noteq> None \<and> ig_integration_head ig = ig_verification_head ig then
               guard (batch_id s) s (\<lambda>i. (Inr (Publish i), s))
             else if ig_f_cycles ig \<ge> cf_integration_loop_max cfg then
               (let reason = [CHR 0xD0, CHR 0xBD, CHR 0xD0, CHR 0xB5, CHR 0x20, CHR 0xD1, CHR 0x81, CHR 0xD1, CHR 0x85,
      CHR 0xD0, CHR 0xBE, CHR 0xD0, CHR 0xB4, CHR 0xD0, CHR 0xB8, CHR 0xD1, CHR 0x82, CHR 0xD1,
      CHR 0x81, CHR 0xD1, CHR 0x8F, CHR 0x20, CHR 0xD1, CHR 0x80, CHR 0xD0, CHR 0xB5, CHR 0xD0,
      CHR 0xB2, CHR 0xD1, CHR 0x8C, CHR 0xD1, CHR 0x8E, CHR 0x20, CHR 0xD0, CHR 0xBF, CHR 0xD0,
      CHR 0xBE, CHR 0xD1, CHR 0x81, CHR 0xD0, CHR 0xBB, CHR 0xD0, CHR 0xB5, CHR 0x20] @ show_nat (ig_f_cycles ig) @ [CHR 0x20, CHR 0xD1, CHR 0x86, CHR 0xD0, CHR 0xB8, CHR 0xD0, CHR 0xBA, CHR 0xD0, CHR 0xBB,
      CHR 0xD0, CHR 0xBE, CHR 0xD0, CHR 0xB2]
                in (Inr (WaitForOperator reason),
                    s\<lparr>st_phase := phase.Blocked,
                      st_blocked_reason := Some (''integration review failed: '' @ reason)\<rparr>))
             else
               (case dispatch_integration IntegrationReview s of (e, s) \<Rightarrow> (Inr e, s)))))"

lemma put_task_look: "map_of (st_tasks (put_task i t s)) =
    (if i \<in> dom (map_of (st_tasks s)) then (map_of (st_tasks s))(i \<mapsto> t) else map_of (st_tasks s))"
  by (simp add: put_task_def bt_set_look)

lemma task_mut_Inr [simp]: "task_mut s i = Inr t \<longleftrightarrow> map_of (st_tasks s) i = Some t"
  by (simp add: task_mut_def)

lemma require_phase_Inr [simp]: "require_phase s p op = Inr u \<longleftrightarrow> st_phase s = p"
  by (simp add: require_phase_def)

lemma expect_task_phase_Inr [simp]: "expect_task_phase t p op = Inr u \<longleftrightarrow> tr_phase t = p"
  by (simp add: expect_task_phase_def)

lemma batch_id_Inr [simp]: "batch_id s = Inr i \<longleftrightarrow> (\<exists>b. st_batch s = Some b \<and> co_id b = i)"
  by (auto simp: batch_id_def)

lemma integration_branch_Inr [simp]:
  "integration_branch s = Inr r \<longleftrightarrow> (\<exists>b. st_batch s = Some b \<and> r = ''integration/'' @ co_id b)"
  by (auto simp: integration_branch_def)

end
