(* ===== verification/ProcessorRolling.thy ===== *)
theory ProcessorRolling
  imports ProcessorBase
begin

text \<open>
  The opening and rolling handlers of \<open>src/engine/src/processor.rs\<close>: cohort opening, inbox
  and dependency curation, rolling admission, the per-task pipeline (workspace, leaf, commit,
  review) and the closing of admission. A handler takes the configuration and its arguments before
  the state and returns the result together with the state it reached, also on an error.
\<close>

section \<open>Opening a cohort\<close>

definition open_cohort ::
    "processor_config \<Rightarrow> string \<Rightarrow> string \<Rightarrow> nat \<Rightarrow> processor_state \<Rightarrow> effect list reduction" where
  "open_cohort cfg bid base now_secs s =
    guard (ensure (st_phase s \<in> {Idle, Opening} \<and> st_batch s = None)
             (invalid ''open requires an idle processor with no existing cohort'')) s (\<lambda>_.
    guard (validate_batch_id bid) s (\<lambda>_.
    guard (validate_ref base ''base'') s (\<lambda>_.
      (Inr [DispatchDependencyCurator refresh_boundary.CohortOpen],
       s\<lparr>st_batch := Some
            \<lparr>co_id = bid, co_base = base, co_started_at_secs = now_secs, co_wave = 1,
             co_admitted_total = 0, co_admission_closed = None,
             co_cohort_budget_secs = cf_cohort_budget_secs cfg,
             co_cohort_token_budget = cf_cohort_token_budget cfg,
             co_cohort_token_budget_strict = cf_cohort_token_budget_strict cfg,
             co_token_budget_actual_tokens = None,
             co_events_outbox_enabled = cf_events_outbox_enabled cfg\<rparr>,
         st_integration := integration_default
            \<lparr>ig_pending_knowledge_curations := ig_pending_knowledge_curations (st_integration s)\<rparr>,
         st_tasks := [],
         st_phase := Rolling\<rparr>))))"

section \<open>Inbox and dependency curation\<close>

definition inbox_reconciliation_effect :: "processor_config \<Rightarrow> processor_state \<Rightarrow> effect" where
  "inbox_reconciliation_effect cfg s = ReconcileInbox (free_slots cfg s)"

definition rolling_boundary_effect :: "processor_config \<Rightarrow> processor_state \<Rightarrow> effect" where
  "rolling_boundary_effect cfg s =
    (if ig_dependency_graph_refreshed_open (st_integration s) then inbox_reconciliation_effect cfg s
     else DispatchDependencyCurator refresh_boundary.CohortOpen)"

definition add_degradation :: "string \<Rightarrow> processor_state \<Rightarrow> processor_state" where
  "add_degradation d s = ig_set (\<lambda>i. i\<lparr>ig_degradations := ig_degradations i @ [d]\<rparr>) s"

definition dependency_graph_refreshed ::
    "processor_config \<Rightarrow> refresh_boundary \<Rightarrow> leaf_outcome \<Rightarrow> processor_state \<Rightarrow> effect list reduction" where
  "dependency_graph_refreshed cfg boundary outcome s =
    (case boundary of
       refresh_boundary.CohortOpen \<Rightarrow>
         guard (require_phase s Rolling ''opening dependency graph refresh'') s (\<lambda>_.
         guard (ensure (\<not> ig_dependency_graph_refreshed_open (st_integration s))
                  (invalid ''opening dependency graph refresh was already acknowledged'')) s (\<lambda>_.
         (let s = ig_set (\<lambda>i. i\<lparr>ig_dependency_graph_refreshed_open := True\<rparr>) s in
          case non_success_leaf_reason outcome ''dependency graph curator'' of
            Some reason \<Rightarrow>
              (let s = add_degradation (''dependency graph refresh at cohort open failed: '' @ reason) s
               in (Inr [WriteJournalAndStatus, inbox_reconciliation_effect cfg s], s))
          | None \<Rightarrow> (Inr [inbox_reconciliation_effect cfg s], s))))
     | PostArchive \<Rightarrow>
         guard (require_phase s Cleaning ''post-archive dependency graph refresh'') s (\<lambda>_.
         guard (ensure (\<not> ig_dependency_graph_refreshed_post_archive (st_integration s))
                  (invalid ''post-archive dependency graph refresh was already acknowledged'')) s (\<lambda>_.
         (let s = ig_set (\<lambda>i. i\<lparr>ig_dependency_graph_refreshed_post_archive := True\<rparr>) s in
          case non_success_leaf_reason outcome ''dependency graph curator'' of
            Some reason \<Rightarrow>
              (Inr [WriteJournalAndStatus, ReconcileInboxFinalization],
               add_degradation (''dependency graph refresh after archive failed: '' @ reason) s)
          | None \<Rightarrow> (Inr [ReconcileInboxFinalization], s)))))"

definition validate_inbox_wave ::
    "processor_config \<Rightarrow> processor_state \<Rightarrow> nat \<Rightarrow> string \<Rightarrow> processor_error + unit" where
  "validate_inbox_wave cfg s slots operation =
    bind_res (require_phase s Rolling operation) (\<lambda>_.
      ensure (slots = free_slots cfg s)
        (InvalidCommand ''{} free_slots={} does not match the current deterministic capacity {}''
          [ArgStr operation, ArgNat slots, ArgNat (free_slots cfg s)]))"

definition inbox_reconciled ::
    "processor_config \<Rightarrow> nat \<Rightarrow> bool \<Rightarrow> processor_state \<Rightarrow> effect list reduction" where
  "inbox_reconciled cfg slots curation_required s =
    guard (validate_inbox_wave cfg s slots ''inbox reconciliation'') s (\<lambda>_.
      (Inr [if curation_required then DispatchInboxCurator slots Intake else DrainQueueInbox slots], s))"

definition block_with :: "string \<Rightarrow> processor_state \<Rightarrow> effect list reduction" where
  "block_with reason s =
    (Inr [WaitForOperator reason], s\<lparr>st_phase := phase.Blocked, st_blocked_reason := Some reason\<rparr>)"

definition inbox_curated ::
    "processor_config \<Rightarrow> nat \<Rightarrow> inbox_curation_mode \<Rightarrow> leaf_outcome \<Rightarrow> processor_state \<Rightarrow> effect list reduction" where
  "inbox_curated cfg slots mode outcome s =
    guard (case mode of
             Intake \<Rightarrow> validate_inbox_wave cfg s slots ''inbox curation''
           | Finalize \<Rightarrow>
               bind_res (require_phase s Cleaning ''post-archive inbox finalization'') (\<lambda>_.
                 ensure (slots = 0)
                   (InvalidCommand ''inbox finalization free_slots={} must be zero'' [ArgNat slots]))) s (\<lambda>_.
    (let mode_name = (case mode of Intake \<Rightarrow> ''Intake'' | Finalize \<Rightarrow> ''Finalize'') in
     case outcome of
       leaf_outcome.Completed _ \<Rightarrow>
         (case mode of Intake \<Rightarrow> (Inr [DrainQueueInbox slots], s) | Finalize \<Rightarrow> (Inr [], s))
     | RetryableFailure reason \<Rightarrow> block_with (''inbox curator '' @ mode_name @ '': '' @ reason) s
     | leaf_outcome.Escalated reason \<Rightarrow> block_with (''inbox curator '' @ mode_name @ '': '' @ reason) s
     | leaf_outcome.RiskElevated _ r _ \<Rightarrow>
         block_with (''inbox curator reported unsupported task risk elevation '' @ risk_as_str r) s
     | leaf_outcome.CompletedWithWontFix _ _ \<Rightarrow>
         block_with ((''inbox curator reported unsupported fix-cycle won'' @ [CHR 0x27] @ ''t-fix metadata'')) s))"

definition inbox_drained :: "processor_config \<Rightarrow> nat \<Rightarrow> processor_state \<Rightarrow> effect list reduction" where
  "inbox_drained cfg slots s =
    guard (validate_inbox_wave cfg s slots ''queue inbox drain'') s (\<lambda>_. (Inr [PlanNextWave slots], s))"

definition inbox_finalization_reconciled :: "bool \<Rightarrow> processor_state \<Rightarrow> effect list reduction" where
  "inbox_finalization_reconciled curation_required s =
    guard (require_phase s Cleaning ''post-archive inbox reconciliation'') s (\<lambda>_.
      (Inr (if curation_required then [DispatchInboxCurator 0 Finalize] else []), s))"

section \<open>Closing admission\<close>

definition after_admission_closed :: "processor_state \<Rightarrow> effect list reduction" where
  "after_admission_closed s =
    (if list_ex (\<lambda>t. is_active (tr_phase t)) (bt_values (st_tasks s)) then (Inr [], s)
     else if tasks_ready_to_merge s \<noteq> [] then
       (let s = s\<lparr>st_phase := Joining\<rparr>
        in guard (integration_branch s) s (\<lambda>branch. (Inr [PrepareIntegrationWorkspace branch], s)))
     else (let s = s\<lparr>st_phase := Cleaning\<rparr> in (Inr (cleanup_effects s), s)))"

fun escalate_each :: "string \<Rightarrow> string list \<Rightarrow> effect list \<Rightarrow> processor_state \<Rightarrow> effect list reduction" where
  "escalate_each reason [] effects s = (Inr effects, s)"
| "escalate_each reason (i # ids) effects s =
    guard (task_mut s i) s (\<lambda>t.
      escalate_each reason ids (effects @ [EscalateTask i reason])
        (put_task i (t\<lparr>tr_phase := task_phase.Escalated, tr_reason := Some reason\<rparr>) s))"

definition active_ids :: "processor_state \<Rightarrow> string list" where
  "active_ids s = map tr_id (filter (\<lambda>t. is_active (tr_phase t)) (bt_values (st_tasks s)))"

definition halt_for :: "close_reason \<Rightarrow> string \<Rightarrow> processor_state \<Rightarrow> effect list reduction" where
  "halt_for close reason s =
    (let s = (case st_batch s of
                Some batch \<Rightarrow> (if co_admission_closed batch = None then close_admission close s else s)
              | None \<Rightarrow> s)
     in and_then (escalate_each reason (active_ids s) [] s) (\<lambda>effects s.
        and_then (after_admission_closed s) (\<lambda>more s. (Inr (effects @ more), s))))"

definition halt_for_token_budget :: "string \<Rightarrow> processor_state \<Rightarrow> effect list reduction" where
  "halt_for_token_budget reason s = halt_for close_reason.CohortTokenBudget reason s"

definition halt_for_cohort_budget :: "string \<Rightarrow> processor_state \<Rightarrow> effect list reduction" where
  "halt_for_cohort_budget reason s = halt_for close_reason.CohortMaxAge reason s"

definition cohort_budget_checked ::
    "processor_config \<Rightarrow> model_call \<Rightarrow> nat \<Rightarrow> processor_state \<Rightarrow> effect list reduction" where
  "cohort_budget_checked cfg call now_secs s =
    guard (ok_or (invalid ''received cohort-budget check while COHORT_BUDGET_SEC is disabled'')
             (cf_cohort_budget_secs cfg)) s (\<lambda>limit.
    guard (ok_or (invalid ''cohort-budget check requires an active cohort'') (st_batch s)) s (\<lambda>batch.
    guard (ensure (co_cohort_budget_secs batch = Some limit)
             (CorruptCheckpoint
               ''active cohort wall-clock budget snapshot differs from processor configuration'' [])) s (\<lambda>_.
    (let elapsed = now_secs - co_started_at_secs batch in
     if elapsed \<ge> limit then
       halt_for_cohort_budget
         (''COHORT_BUDGET_SEC elapsed='' @ show_nat elapsed @ '' limit='' @ show_nat limit) s
     else
       (Inr [if cf_cohort_token_budget cfg \<noteq> None then CheckTokenBudget call else into_effect call], s)))))"

definition token_budget_checked ::
    "processor_config \<Rightarrow> model_call \<Rightarrow> token_budget_observation \<Rightarrow> processor_state \<Rightarrow> effect list reduction" where
  "token_budget_checked cfg call observation s =
    guard (ok_or (invalid ''received token-budget check while COHORT_TOKEN_BUDGET is disabled'')
             (cf_cohort_token_budget cfg)) s (\<lambda>limit.
    guard (ok_or (invalid ''token-budget check requires an active cohort'') (st_batch s)) s (\<lambda>batch.
    guard (ensure (co_cohort_token_budget batch = Some limit)
             (CorruptCheckpoint
               ''active cohort token-budget snapshot differs from processor configuration'' [])) s (\<lambda>_.
    (let note = (\<lambda>v. s\<lparr>st_batch := Some (batch\<lparr>co_token_budget_actual_tokens := v\<rparr>)\<rparr>) in
     case observation of
       Actual tokens \<Rightarrow>
         (if tokens < limit then (Inr [into_effect call], note (Some tokens))
          else halt_for_token_budget
            (''COHORT_TOKEN_BUDGET actual='' @ show_nat tokens @ '' limit='' @ show_nat limit)
            (note (Some tokens)))
     | Unavailable \<Rightarrow>
         halt_for_token_budget ''COHORT_TOKEN_BUDGET telemetry-unavailable'' (note None)))))"

section \<open>Rolling admission\<close>

definition resolver_candidate :: "admission_candidate \<Rightarrow> candidate" where
  "resolver_candidate c =
    \<lparr>ca_id = ac_id c, ca_ready = ac_ready c, ca_domain = domain_parse (ac_conflict_domain c),
     ca_delivery = (if ac_current_delivery_lane c then Current else NextMajor)\<rparr>"

fun admit_loop ::
    "nat \<Rightarrow> admission_candidate list \<Rightarrow> effect list \<Rightarrow> processor_state \<Rightarrow> effect list reduction" where
  "admit_loop wave [] effects s = (Inr effects, s)"
| "admit_loop wave (c # cs) effects s =
    guard (validate_task_id (ac_id c)) s (\<lambda>_.
    guard (ensure (map_of (st_tasks s) (ac_id c) = None)
             (InvalidCommand ''task {} was admitted twice in one cohort'' [ArgStr (ac_id c)])) s (\<lambda>_.
      admit_loop wave cs (effects @ [EnsureTaskWorkspace (ac_id c) (''task/'' @ ac_id c)])
        (s\<lparr>st_tasks := bt_insert (ac_id c) (task_new c wave) (st_tasks s)\<rparr>)))"

definition count_admitted :: "nat \<Rightarrow> processor_state \<Rightarrow> processor_state" where
  "count_admitted n s =
    s\<lparr>st_batch := map_option
        (\<lambda>b. b\<lparr>co_admitted_total := sat_add32 (co_admitted_total b) (n mod 4294967296),
              co_wave := sat_add32 (co_wave b) 1\<rparr>) (st_batch s)\<rparr>"

definition admit ::
    "processor_config \<Rightarrow> admission_candidate list \<Rightarrow> nat \<Rightarrow> processor_state \<Rightarrow> effect list reduction" where
  "admit cfg candidates now_secs s =
    guard (require_phase s Rolling ''rolling admission'') s (\<lambda>_.
    guard (each_res (\<lambda>c. validate_conflict_domain (ac_conflict_domain c)) candidates) s (\<lambda>_.
    (let s = close_for_budget_if_needed cfg now_secs s in
     guard (ok_or (invalid ''rolling requires a cohort'') (st_batch s)) s (\<lambda>batch.
     if co_admission_closed batch \<noteq> None then after_admission_closed s
     else
       (let capacity = min (free_slots cfg s) (cf_cohort_size cfg - co_admitted_total batch) in
        case plan_admission (map resolver_candidate candidates) (active_tasks s) capacity of
          Admitted ids \<Rightarrow>
            and_then (admit_loop (co_wave batch) (filter (\<lambda>c. ac_id c \<in> set ids) candidates) [] s)
              (\<lambda>effects s.
                (Inr effects, close_for_budget_if_needed cfg now_secs (count_admitted (length ids) s)))
        | EmptyRound reason \<Rightarrow>
            (case to_close_reason reason of
               Some close \<Rightarrow> after_admission_closed (close_admission close s)
             | None \<Rightarrow> (Inr [], s)))))))"

definition advance :: "processor_config \<Rightarrow> nat \<Rightarrow> processor_state \<Rightarrow> effect list reduction" where
  "advance cfg now_secs s =
    guard (require_phase s Rolling ''advance'') s (\<lambda>_.
    (let s = close_for_budget_if_needed cfg now_secs s in
     if (case st_batch s of Some b \<Rightarrow> co_admission_closed b = None | None \<Rightarrow> False)
     then (Inr [inbox_reconciliation_effect cfg s], s)
     else after_admission_closed s))"

section \<open>The per-task pipeline\<close>

definition escalate_task :: "string \<Rightarrow> string \<Rightarrow> task_runtime \<Rightarrow> processor_state \<Rightarrow> effect list reduction" where
  "escalate_task i reason t s =
    (Inr [EscalateTask i reason],
     put_task i (t\<lparr>tr_phase := task_phase.Escalated, tr_reason := Some reason\<rparr>) s)"

definition not_converging :: "nat \<Rightarrow> string" where
  "not_converging n = [CHR 0xD0, CHR 0xBD, CHR 0xD0, CHR 0xB5, CHR 0x20, CHR 0xD1, CHR 0x81, CHR 0xD1, CHR 0x85,
      CHR 0xD0, CHR 0xBE, CHR 0xD0, CHR 0xB4, CHR 0xD0, CHR 0xB8, CHR 0xD1, CHR 0x82, CHR 0xD1,
      CHR 0x81, CHR 0xD1, CHR 0x8F, CHR 0x20, CHR 0xD1, CHR 0x80, CHR 0xD0, CHR 0xB5, CHR 0xD0,
      CHR 0xB2, CHR 0xD1, CHR 0x8C, CHR 0xD1, CHR 0x8E, CHR 0x20, CHR 0xD0, CHR 0xBF, CHR 0xD0,
      CHR 0xBE, CHR 0xD1, CHR 0x81, CHR 0xD0, CHR 0xBB, CHR 0xD0, CHR 0xB5, CHR 0x20] @ show_nat n @ [CHR 0x20, CHR 0xD1, CHR 0x86, CHR 0xD0, CHR 0xB8, CHR 0xD0, CHR 0xBA, CHR 0xD0, CHR 0xBB,
      CHR 0xD0, CHR 0xBE, CHR 0xD0, CHR 0xB2]"

definition workspace_ready :: "string \<Rightarrow> processor_state \<Rightarrow> effect list reduction" where
  "workspace_ready i s =
    guard (require_phase s Rolling ''task workspace completion'') s (\<lambda>_.
    guard (task_mut s i) s (\<lambda>t.
      if tr_imported_recovery_intent t = Some EnsureWorkspaceForReview then
        guard (expect_task_phase t Reviewing ''review workspace creation'') s (\<lambda>_.
          (Inr [PrepareTaskReview i],
           put_task i (snd (task_leaf_attempt Review (t\<lparr>tr_imported_recovery_intent := None\<rparr>))) s))
      else if tr_imported_recovery_intent t \<in> {Some EnsureWorkspace, None} then
        guard (expect_task_phase t Capturing ''workspace creation'') s (\<lambda>_.
          (Inr [PrepareTaskLeaf i Implement],
           put_task i (snd (task_leaf_attempt Implement
             (t\<lparr>tr_imported_recovery_intent := None, tr_phase := Implementing\<rparr>))) s))
      else
        (Inl (CorruptCheckpoint
           ''task {} received WorkspaceReady for an incompatible legacy recovery intent'' [ArgStr i]), s)))"

definition workspace_failed :: "string \<Rightarrow> string \<Rightarrow> processor_state \<Rightarrow> effect list reduction" where
  "workspace_failed i reason s =
    guard (task_mut s i) s (\<lambda>t.
    guard (expect_task_phase t Capturing ''workspace failure'') s (\<lambda>_. escalate_task i reason t s))"

definition leaf_kind_of_phase :: "string \<Rightarrow> string \<Rightarrow> task_runtime \<Rightarrow> processor_error + leaf_kind" where
  "leaf_kind_of_phase i expected t =
    (case tr_phase t of
       Implementing \<Rightarrow> Inr Implement
     | Fixing \<Rightarrow> Inr Fix
     | actual \<Rightarrow> Inl (UnexpectedTaskPhase i expected actual))"

definition clear_pending_fix :: "task_runtime \<Rightarrow> task_runtime" where
  "clear_pending_fix t =
    t\<lparr>tr_pending_fix_open_findings := None, tr_pending_fix_open_finding_ids := None\<rparr>"

definition set_author :: "string option \<Rightarrow> task_runtime \<Rightarrow> task_runtime" where
  "set_author author t = (if author \<noteq> None then t\<lparr>tr_implementation_author := author\<rparr> else t)"

definition commit_leaf :: "string \<Rightarrow> string option \<Rightarrow> task_runtime \<Rightarrow> processor_state \<Rightarrow> effect list reduction" where
  "commit_leaf i author t s =
    (Inr [CommitTask i], put_task i ((set_author author t)\<lparr>tr_phase := Committing\<rparr>) s)"

definition wont_fix_outside_fix :: "string \<Rightarrow> processor_error" where
  "wont_fix_outside_fix i =
    InvalidCommand (''task {} reported fix-cycle won'' @ [CHR 0x27] @ ''t-fix metadata outside a fix leaf'') [ArgStr i]"

text \<open>The won't-fix accounting both leaf handlers share: an empty fixed set escalates.\<close>

definition fixed_set_reason :: "nat \<Rightarrow> nat option \<Rightarrow> string option" where
  "fixed_set_reason wont_fixed open_findings =
    (case open_findings of
       None \<Rightarrow> None
     | Some n \<Rightarrow> empty_fixed_escalation_reason (empty_fixed_set_decide wont_fixed n))"

definition leaf_wont_fix ::
    "string \<Rightarrow> string option \<Rightarrow> nat \<Rightarrow> task_runtime \<Rightarrow> processor_state \<Rightarrow> effect list reduction" where
  "leaf_wont_fix i author wont_fixed t s =
    (let open_findings = tr_pending_fix_open_findings t; t = clear_pending_fix t in
     case fixed_set_reason wont_fixed open_findings of
       Some reason \<Rightarrow> escalate_task i reason t s
     | None \<Rightarrow> commit_leaf i author t s)"

definition leaf_risk_elevated ::
    "string \<Rightarrow> leaf_kind \<Rightarrow> string option \<Rightarrow> risk \<Rightarrow> nat option \<Rightarrow> task_runtime \<Rightarrow> processor_state
     \<Rightarrow> effect list reduction" where
  "leaf_risk_elevated i kind author r wont_fixed t s =
    (case raise_task_risk r t of
       Inl reason \<Rightarrow> escalate_task i reason t s
     | Inr t \<Rightarrow>
         (case wont_fixed of
            None \<Rightarrow> commit_leaf i author (clear_pending_fix t) s
          | Some n \<Rightarrow>
              (if kind \<noteq> Fix
               then (Inl (wont_fix_outside_fix i), put_task i (clear_pending_fix t) s)
               else leaf_wont_fix i author n t s)))"

definition task_leaf ::
    "processor_config \<Rightarrow> string \<Rightarrow> leaf_outcome \<Rightarrow> processor_state \<Rightarrow> effect list reduction" where
  "task_leaf cfg i outcome s =
    guard (require_phase s Rolling ''task leaf result'') s (\<lambda>_.
    guard (task_mut s i) s (\<lambda>t.
    guard (leaf_kind_of_phase i ''implementation or fix leaf'' t) s (\<lambda>kind.
      (case outcome of
         leaf_outcome.Completed author \<Rightarrow> commit_leaf i author (clear_pending_fix t) s
       | leaf_outcome.RiskElevated author r wont_fixed \<Rightarrow> leaf_risk_elevated i kind author r wont_fixed t s
       | leaf_outcome.CompletedWithWontFix author wont_fixed \<Rightarrow>
           guard (ensure (kind = Fix) (wont_fix_outside_fix i)) s (\<lambda>_.
             leaf_wont_fix i author wont_fixed t s)
       | RetryableFailure reason \<Rightarrow>
           (case schedule_leaf_retry t kind (cf_leaf_max_attempts cfg) of
              (True, t) \<Rightarrow> (Inr [PrepareTaskLeaf i kind], put_task i t s)
            | (False, t) \<Rightarrow> escalate_task i (reason @ ''; retry limit exhausted'') t s)
       | leaf_outcome.Escalated reason \<Rightarrow> escalate_task i reason t s))))"

definition note_sandbox_downgrade :: "codex_sandbox_downgrade \<Rightarrow> processor_state \<Rightarrow> processor_state" where
  "note_sandbox_downgrade scope s =
    (if degradation scope \<in> set (ig_degradations (st_integration s)) then s
     else add_degradation (degradation scope) s)"

definition codex_author :: "string option" where
  "codex_author = Some ''coder_codex''"

definition task_leaf_prepared ::
    "string \<Rightarrow> task_leaf_preparation_outcome \<Rightarrow> processor_state \<Rightarrow> effect list reduction" where
  "task_leaf_prepared i outcome s =
    guard (require_phase s Rolling ''Codex task leaf preparation'') s (\<lambda>_.
    (let s = (case outcome of
                task_leaf_preparation_outcome.SandboxDowngraded scope \<Rightarrow> note_sandbox_downgrade scope s
              | _ \<Rightarrow> s) in
     guard (task_mut s i) s (\<lambda>t.
     guard (leaf_kind_of_phase i ''implementation or fix Codex preparation'' t) s (\<lambda>kind.
       (case outcome of
          task_leaf_preparation_outcome.Completed \<Rightarrow> commit_leaf i codex_author (clear_pending_fix t) s
        | task_leaf_preparation_outcome.CompletedWithWontFix wont_fixed \<Rightarrow>
            guard (ensure (kind = Fix) (wont_fix_outside_fix i)) s (\<lambda>_.
              leaf_wont_fix i codex_author wont_fixed t s)
        | task_leaf_preparation_outcome.RiskElevated r wont_fixed \<Rightarrow>
            leaf_risk_elevated i kind codex_author r wont_fixed t s
        | task_leaf_preparation_outcome.Skipped \<Rightarrow> (Inr [DispatchTask i kind], s)
        | task_leaf_preparation_outcome.Fallback \<Rightarrow> (Inr [DispatchTask i kind], s)
        | task_leaf_preparation_outcome.SandboxDowngraded _ \<Rightarrow>
            (Inr [WriteJournalAndStatus, DispatchTask i kind], s)
        | task_leaf_preparation_outcome.Escalated reason \<Rightarrow> escalate_task i reason t s)))))"

definition task_committed ::
    "processor_config \<Rightarrow> string \<Rightarrow> string \<Rightarrow> processor_state \<Rightarrow> effect list reduction" where
  "task_committed cfg i commit s =
    guard (validate_ref commit ''task commit'') s (\<lambda>_.
    guard (task_mut s i) s (\<lambda>t.
    guard (expect_task_phase t Committing ''task commit'') s (\<lambda>_.
    (let t = t\<lparr>tr_phase := Reviewing, tr_previous_review_sha := tr_review_sha t,
              tr_review_sha := Some commit\<rparr> in
     if tr_review_cycles t \<ge> cf_review_loop_max cfg
     then escalate_task i (not_converging (tr_review_cycles t)) t s
     else (Inr [PrepareTaskReview i], put_task i (snd (task_leaf_attempt Review t)) s)))))"

definition review_clean ::
    "processor_config \<Rightarrow> string \<Rightarrow> string \<Rightarrow> task_runtime \<Rightarrow> processor_state \<Rightarrow> effect list reduction" where
  "review_clean cfg i sha t s =
    (let t = t\<lparr>tr_review_cycles := sat_add32 (tr_review_cycles t) 1\<rparr> in
     if tr_review_cycles t > cf_review_loop_max cfg
     then escalate_task i (not_converging (cf_review_loop_max cfg)) t s
     else (Inr [], put_task i (t\<lparr>tr_phase := task_phase.Ready, tr_review_sha := Some sha\<rparr>) s))"

definition check_review_tip :: "string \<Rightarrow> string \<Rightarrow> task_runtime \<Rightarrow> processor_error + unit" where
  "check_review_tip i sha t =
    bind_res (validate_ref sha ''review SHA'') (\<lambda>_.
      ensure (tr_review_sha t = Some sha)
        (InvalidCommand ''task {} review belongs to {}, not committed tip {}''
          [ArgStr i, ArgDbg sha, ArgDbgOpt (tr_review_sha t)]))"

definition review_findings ::
    "(string \<Rightarrow> string) \<Rightarrow> processor_config \<Rightarrow> string \<Rightarrow> string \<Rightarrow> nat \<Rightarrow> string list \<Rightarrow> task_runtime
     \<Rightarrow> processor_state \<Rightarrow> effect list reduction" where
  "review_findings lc cfg i sig open_findings ids t s =
    (let t = t\<lparr>tr_review_cycles := sat_add32 (tr_review_cycles t) 1,
              tr_review_signatures := tr_review_signatures t @ [sig]\<rparr> in
     case cycle_escalation_reason (review_cycle_decision (tr_review_cycles t) (cf_review_loop_max cfg)) of
       Some reason \<Rightarrow> escalate_task i reason t s
     | None \<Rightarrow>
         (case stagnation_reason (signatures_from lc (tr_review_signatures t)) (cf_stagnation_limit cfg) of
            Some reason \<Rightarrow> escalate_task i reason t s
          | None \<Rightarrow>
              (Inr [PrepareTaskLeaf i Fix],
               put_task i (snd (task_leaf_attempt Fix
                 (t\<lparr>tr_pending_fix_open_findings := Some open_findings,
                    tr_pending_fix_open_finding_ids := Some ids, tr_phase := Fixing\<rparr>))) s)))"

definition task_review ::
    "(string \<Rightarrow> string) \<Rightarrow> processor_config \<Rightarrow> string \<Rightarrow> review_outcome \<Rightarrow> processor_state \<Rightarrow> effect list reduction" where
  "task_review lc cfg i outcome s =
    guard (require_phase s Rolling ''task review'') s (\<lambda>_.
    guard (task_mut s i) s (\<lambda>t.
    guard (expect_task_phase t Reviewing ''task review'') s (\<lambda>_.
      (case outcome of
         Clean sha \<Rightarrow> guard (check_review_tip i sha t) s (\<lambda>_. review_clean cfg i sha t s)
       | CleanRiskElevated sha r \<Rightarrow>
           guard (check_review_tip i sha t) s (\<lambda>_.
             (case raise_task_risk r t of
                Inl reason \<Rightarrow> escalate_task i reason t s
              | Inr t \<Rightarrow> review_clean cfg i sha t s))
       | Findings sig open_findings ids \<Rightarrow>
           guard (validate_signature sig) s (\<lambda>_. review_findings lc cfg i sig open_findings ids t s)
       | FindingsRiskElevated sig r open_findings ids \<Rightarrow>
           guard (validate_signature sig) s (\<lambda>_.
             (case raise_task_risk r t of
                Inl reason \<Rightarrow> escalate_task i reason t s
              | Inr t \<Rightarrow> review_findings lc cfg i sig open_findings ids t s))
       | Incomplete \<Rightarrow>
           (let t = t\<lparr>tr_review_cycles := sat_add32 (tr_review_cycles t) 1\<rparr> in
            if tr_review_cycles t \<ge> cf_review_loop_max cfg
            then escalate_task i (not_converging (tr_review_cycles t)) t s
            else (Inr [PrepareTaskReview i], put_task i (snd (task_leaf_attempt Review t)) s))
       | review_outcome.Escalated reason \<Rightarrow>
           escalate_task i reason (t\<lparr>tr_review_cycles := sat_add32 (tr_review_cycles t) 1\<rparr>) s))))"

definition task_review_prepared ::
    "(string \<Rightarrow> string) \<Rightarrow> processor_config \<Rightarrow> string \<Rightarrow> task_review_preparation_outcome \<Rightarrow> processor_state
     \<Rightarrow> effect list reduction" where
  "task_review_prepared lc cfg i outcome s =
    guard (require_phase s Rolling ''task review preparation'') s (\<lambda>_.
    guard (task_mut s i) s (\<lambda>t.
    guard (expect_task_phase t Reviewing ''task review preparation'') s (\<lambda>_.
      if tr_review_cycles t \<ge> cf_review_loop_max cfg
      then escalate_task i (not_converging (tr_review_cycles t)) t s
      else
        (let s = (if or_default 0 (map_of (tr_leaf_attempts t) (leaf_kind_as_str Review)) = 0
                  then put_task i (snd (task_leaf_attempt Review t)) s else s) in
         (case outcome of
            task_review_preparation_outcome.Completed r \<Rightarrow> task_review lc cfg i r s
          | DispatchClaude \<Rightarrow> (Inr [DispatchTask i Review], s)
          | task_review_preparation_outcome.SandboxDowngraded scope \<Rightarrow>
              (Inr [WriteJournalAndStatus, DispatchTask i Review], note_sandbox_downgrade scope s))))))"

end
