(* ===== verification/ProcessorJoin.thy ===== *)
theory ProcessorJoin
  imports ProcessorRolling
begin

text \<open>
  The joining and publishing handlers of \<open>src/engine/src/processor.rs\<close>: merging and merge
  resolution, integration review, verification and repair, publication with its re-anchoring, and
  the CI loop with its repair and hold.
\<close>

section \<open>Merging\<close>

definition next_merge_or_review :: "processor_state \<Rightarrow> effect list reduction" where
  "next_merge_or_review s =
    (if \<not> ig_workspace_prepared (st_integration s) then
       guard (integration_branch s) s (\<lambda>branch. (Inr [PrepareIntegrationWorkspace branch], s))
     else if ig_pending_merge_resolution (st_integration s) \<noteq> None then
       (case dispatch_integration Merger s of (e, s) \<Rightarrow> (Inr [e], s))
     else
       (case tasks_ready_to_merge s of
          t # _ \<Rightarrow> (Inr [MergeTask (tr_id t)], s)
        | [] \<Rightarrow>
            (if ig_merged_tasks (st_integration s) = [] then
               (Inr [WriteJournalAndStatus], s\<lparr>st_phase := Cleaning\<rparr>)
             else
               (case dispatch_integration IntegrationReview (s\<lparr>st_phase := Publishing\<rparr>) of
                  (e, s) \<Rightarrow> (Inr [e], s)))))"

definition integration_workspace_ready :: "processor_state \<Rightarrow> effect list reduction" where
  "integration_workspace_ready s =
    guard (require_phase s Joining ''integration workspace'') s (\<lambda>_.
      next_merge_or_review
        (ig_set (\<lambda>i. i\<lparr>ig_workspace_prepared := True, ig_imported_workspace_restore_pending := False\<rparr>) s))"

definition record_merged_task :: "string \<Rightarrow> string \<Rightarrow> processor_state \<Rightarrow> effect list reduction" where
  "record_merged_task i sha s =
    guard (validate_ref sha ''integration SHA'') s (\<lambda>_.
    guard (task_mut s i) s (\<lambda>t.
      next_merge_or_review
        (ig_set (\<lambda>g. g\<lparr>ig_integration_head := Some sha, ig_verification_head := None,
                      ig_merged_tasks := bts_insert i (ig_merged_tasks g)\<rparr>)
          (put_task i (t\<lparr>tr_phase := task_phase.Merged, tr_review_sha := Some sha\<rparr>) s))))"

definition quarantine_merged_task :: "string \<Rightarrow> string \<Rightarrow> processor_state \<Rightarrow> effect list reduction" where
  "quarantine_merged_task i reason s =
    guard (task_mut s i) s (\<lambda>t.
      and_then (next_merge_or_review
                 (put_task i (t\<lparr>tr_phase := task_phase.Conflict, tr_reason := Some reason\<rparr>) s))
        (\<lambda>more s. (Inr (ReturnTask i reason # more), s)))"

definition durable_tip :: "processor_state \<Rightarrow> string option" where
  "durable_tip s =
    (case ig_integration_head (st_integration s) of
       Some h \<Rightarrow> Some h
     | None \<Rightarrow> map_option co_base (st_batch s))"

definition start_merge_resolution ::
    "string \<Rightarrow> string \<Rightarrow> string list \<Rightarrow> string list \<Rightarrow> merge_path_fingerprint list \<Rightarrow> processor_state
     \<Rightarrow> effect list reduction" where
  "start_merge_resolution i pre_merge_head merge_paths paths protected s =
    guard (validate_ref pre_merge_head ''pre-merge integration SHA'') s (\<lambda>_.
    guard (validate_merge_conflict_paths merge_paths) s (\<lambda>_.
    guard (validate_merge_conflict_paths paths) s (\<lambda>_.
    guard (ensure (list_all (\<lambda>p. p \<in> set merge_paths) paths)
             (invalid ''merge conflict paths are not contained in the typed merge surface'')) s (\<lambda>_.
    guard (validate_merge_protected_paths merge_paths paths protected) s (\<lambda>_.
    guard (ok_or (invalid ''merge conflict has no durable cohort base'') (durable_tip s)) s (\<lambda>expected.
    guard (ensure (expected = pre_merge_head)
             (InvalidCommand ''merge conflict pre-merge SHA {} differs from durable integration tip {}''
               [ArgDbg pre_merge_head, ArgDbg expected])) s (\<lambda>_.
    guard (ensure (ig_pending_merge_resolution (st_integration s) = None)
             (invalid ''another merge resolution is already pending'')) s (\<lambda>_.
    guard (task_mut s i) s (\<lambda>t.
      (case dispatch_integration Merger
              (ig_set (\<lambda>g. g\<lparr>ig_pending_merge_resolution := Some
                  \<lparr>mr_task_id = i, mr_pre_merge_head = pre_merge_head, mr_merge_paths = merge_paths,
                   mr_paths = paths, mr_protected_paths = protected\<rparr>\<rparr>)
                (put_task i (t\<lparr>tr_phase := ResolvingMerge\<rparr>) s)) of
         (e, s) \<Rightarrow> (Inr [e], s)))))))))))"

definition task_merged :: "string \<Rightarrow> merge_outcome \<Rightarrow> processor_state \<Rightarrow> effect list reduction" where
  "task_merged i outcome s =
    guard (require_phase s Joining ''merger result'') s (\<lambda>_.
    guard (task_mut s i) s (\<lambda>t.
    guard (expect_task_phase t task_phase.Ready ''merger result'') s (\<lambda>_.
      (case outcome of
         merge_outcome.Merged sha \<Rightarrow> record_merged_task i sha s
       | NeedsResolution pre_merge_head merge_paths paths protected \<Rightarrow>
           start_merge_resolution i pre_merge_head merge_paths paths protected s
       | Quarantined reason \<Rightarrow> quarantine_merged_task i reason s
       | merge_outcome.Failed reason \<Rightarrow>
           fail_integration
             (''merger did not produce a reliable result for '' @ i @ '': '' @ reason) s))))"

definition require_pending_merge_resolution :: "processor_state \<Rightarrow> string \<Rightarrow> processor_error + unit" where
  "require_pending_merge_resolution s i =
    bind_res (ok_or (invalid ''no merge resolution is pending'')
                (ig_pending_merge_resolution (st_integration s))) (\<lambda>pending.
      ensure (mr_task_id pending = i)
        (InvalidCommand ''merge resolution for {} does not match pending task {}''
          [ArgStr i, ArgStr (mr_task_id pending)]))"

definition merge_resolution :: "string \<Rightarrow> leaf_outcome \<Rightarrow> processor_state \<Rightarrow> effect list reduction" where
  "merge_resolution i outcome s =
    guard (require_phase s Joining ''merge resolution'') s (\<lambda>_.
    guard (require_pending_merge_resolution s i) s (\<lambda>_.
    guard (task_mut s i) s (\<lambda>t.
    guard (expect_task_phase t ResolvingMerge ''merge resolution'') s (\<lambda>_.
      (Inr [case outcome of
              leaf_outcome.Completed _ \<Rightarrow> FinalizeMergeResolution i
            | RetryableFailure reason \<Rightarrow>
                AbortMergeResolution i (''merger could not resolve conflict: '' @ reason)
            | leaf_outcome.Escalated reason \<Rightarrow>
                AbortMergeResolution i (''merger could not resolve conflict: '' @ reason)
            | leaf_outcome.RiskElevated _ r _ \<Rightarrow>
                AbortMergeResolution i
                  (''merger reported unsupported task risk elevation '' @ risk_as_str r)
            | leaf_outcome.CompletedWithWontFix _ _ \<Rightarrow>
                AbortMergeResolution i (''merger reported unsupported fix-cycle won'' @ [CHR 0x27] @ ''t-fix metadata'')], s)))))"

definition clear_pending_merge :: "processor_state \<Rightarrow> processor_state" where
  "clear_pending_merge s = ig_set (\<lambda>g. g\<lparr>ig_pending_merge_resolution := None\<rparr>) s"

definition merge_resolution_finalized :: "string \<Rightarrow> merge_outcome \<Rightarrow> processor_state \<Rightarrow> effect list reduction" where
  "merge_resolution_finalized i outcome s =
    guard (require_phase s Joining ''resolved merger result'') s (\<lambda>_.
    guard (require_pending_merge_resolution s i) s (\<lambda>_.
    guard (task_mut s i) s (\<lambda>t.
    guard (expect_task_phase t ResolvingMerge ''resolved merger result'') s (\<lambda>_.
      (case outcome of
         merge_outcome.Merged sha \<Rightarrow> record_merged_task i sha (clear_pending_merge s)
       | Quarantined reason \<Rightarrow> quarantine_merged_task i reason (clear_pending_merge s)
       | merge_outcome.Failed reason \<Rightarrow>
           fail_integration
             (''resolved merger did not produce a reliable result for '' @ i @ '': '' @ reason) s
       | NeedsResolution _ _ _ _ \<Rightarrow>
           (Inl (invalid ''resolved merger cannot request another conflict resolution''), s))))))"

definition merge_resolution_aborted :: "string \<Rightarrow> string \<Rightarrow> processor_state \<Rightarrow> effect list reduction" where
  "merge_resolution_aborted i reason s =
    guard (require_phase s Joining ''merge resolution abort'') s (\<lambda>_.
    guard (require_pending_merge_resolution s i) s (\<lambda>_.
    guard (task_mut s i) s (\<lambda>t.
    guard (expect_task_phase t ResolvingMerge ''merge resolution abort'') s (\<lambda>_.
      quarantine_merged_task i reason (clear_pending_merge s)))))"

section \<open>Integration review, repair and verification\<close>

definition integration_verified :: "string \<Rightarrow> verification_outcome \<Rightarrow> processor_state \<Rightarrow> effect list reduction" where
  "integration_verified head outcome s =
    guard (require_phase s Publishing ''integration verification'') s (\<lambda>_.
    guard (validate_ref head ''integration verification head'') s (\<lambda>_.
    guard (ensure (ig_integration_head (st_integration s) = Some head)
             (InvalidCommand ''integration verification belongs to {}, not current tip {}''
               [ArgDbg head, ArgDbgOpt (ig_integration_head (st_integration s))])) s (\<lambda>_.
    guard (case outcome of verification_outcome.Failed sig _ \<Rightarrow> validate_signature sig | _ \<Rightarrow> Inr ()) s (\<lambda>_.
    (let s = ig_set (\<lambda>g. g\<lparr>ig_verification_attempts := sat_add32 (ig_verification_attempts g) 1\<rparr>) s;
         passed = (let s = ig_set (\<lambda>g. g\<lparr>ig_verification_head := Some head\<rparr>) s
                   in guard (batch_id s) s (\<lambda>i. (Inr [Publish i], s)))
     in case outcome of
          verification_outcome.Passed \<Rightarrow> passed
        | Exempt _ \<Rightarrow> passed
        | verification_outcome.Failed sig reason \<Rightarrow>
            fail_integration (''integration verification failed ('' @ sig @ ''): '' @ reason) s
        | verification_outcome.Blocked reason \<Rightarrow>
            (Inr [WaitForOperator reason],
             s\<lparr>st_phase := phase.Blocked,
               st_blocked_reason := Some (''integration verification blocked: '' @ reason)\<rparr>))))))"

definition bump_f_cycles :: "processor_state \<Rightarrow> processor_state" where
  "bump_f_cycles s = ig_set (\<lambda>g. g\<lparr>ig_f_cycles := sat_add32 (ig_f_cycles g) 1\<rparr>) s"

definition integration_review ::
    "(string \<Rightarrow> string) \<Rightarrow> processor_config \<Rightarrow> review_outcome \<Rightarrow> processor_state \<Rightarrow> effect list reduction" where
  "integration_review lc cfg outcome s =
    guard (require_phase s Publishing ''integration review'') s (\<lambda>_.
      (case outcome of
         Clean sha \<Rightarrow>
           guard (validate_ref sha ''integration review SHA'') s (\<lambda>_.
           guard (ensure (ig_integration_head (st_integration s) = Some sha)
                    (InvalidCommand ''integration review belongs to {}, not current tip {}''
                      [ArgDbg sha, ArgDbgOpt (ig_integration_head (st_integration s))])) s (\<lambda>_.
           (let s = bump_f_cycles s in
            if ig_f_cycles (st_integration s) > cf_integration_loop_max cfg
            then fail_integration (not_converging (cf_integration_loop_max cfg)) s
            else
              (let s = ig_set (\<lambda>g. g\<lparr>ig_review_sha := Some sha, ig_verification_head := None\<rparr>) s
               in guard (ok_or (invalid ''clean integration review has no exact integration tip to verify'')
                           (ig_integration_head (st_integration s))) s (\<lambda>head.
                    (Inr [VerifyIntegration head], s))))))
       | Findings sig _ _ \<Rightarrow>
           guard (validate_signature sig) s (\<lambda>_.
           (let s = bump_f_cycles (ig_set (\<lambda>g. g\<lparr>ig_verification_head := None\<rparr>) s) in
            if ig_f_cycles (st_integration s) > cf_integration_loop_max cfg
            then fail_integration (not_converging (cf_integration_loop_max cfg)) s
            else
              (let s = ig_set (\<lambda>g. g\<lparr>ig_signatures := ig_signatures g @ [sig]\<rparr>) s in
               case stagnation_reason (signatures_from lc (ig_signatures (st_integration s)))
                      (cf_stagnation_limit cfg) of
                 Some reason \<Rightarrow> fail_integration reason s
               | None \<Rightarrow> (case dispatch_integration IntegrationFix s of (e, s) \<Rightarrow> (Inr [e], s)))))
       | Incomplete \<Rightarrow>
           (let s = bump_f_cycles s in
            if ig_f_cycles (st_integration s) \<ge> cf_integration_loop_max cfg
            then fail_integration (not_converging (ig_f_cycles (st_integration s))) s
            else (case dispatch_integration IntegrationReview s of (e, s) \<Rightarrow> (Inr [e], s)))
       | review_outcome.Escalated reason \<Rightarrow> fail_integration reason s
       | CleanRiskElevated _ r \<Rightarrow>
           fail_integration
             (''integration reviewer reported unsupported task risk elevation '' @ risk_as_str r) s
       | FindingsRiskElevated _ r _ _ \<Rightarrow>
           fail_integration
             (''integration reviewer reported unsupported task risk elevation '' @ risk_as_str r) s))"

definition integration_fix :: "leaf_outcome \<Rightarrow> processor_state \<Rightarrow> effect list reduction" where
  "integration_fix outcome s =
    guard (require_phase s Publishing ''integration fix'') s (\<lambda>_.
      (case outcome of
         leaf_outcome.Completed _ \<Rightarrow> (Inr [CommitIntegrationFix], s)
       | leaf_outcome.CompletedWithWontFix _ _ \<Rightarrow> (Inr [CommitIntegrationFix], s)
       | RetryableFailure reason \<Rightarrow> fail_integration (''integration fix failed: '' @ reason) s
       | leaf_outcome.Escalated reason \<Rightarrow> fail_integration (''integration fix failed: '' @ reason) s
       | leaf_outcome.RiskElevated _ r _ \<Rightarrow>
           fail_integration
             (''integration fix reported unsupported task risk elevation '' @ risk_as_str r) s))"

definition integration_fix_committed ::
    "processor_config \<Rightarrow> string \<Rightarrow> processor_state \<Rightarrow> effect list reduction" where
  "integration_fix_committed cfg head s =
    guard (require_phase s Publishing ''integration fix commit'') s (\<lambda>_.
    guard (validate_ref head ''integration fix head'') s (\<lambda>_.
    (let s = ig_set (\<lambda>g. g\<lparr>ig_integration_head := Some head, ig_verification_head := None\<rparr>) s in
     if ig_f_cycles (st_integration s) \<ge> cf_integration_loop_max cfg
     then fail_integration (not_converging (ig_f_cycles (st_integration s))) s
     else (case dispatch_integration IntegrationReview s of (e, s) \<Rightarrow> (Inr [e], s)))))"

section \<open>Publication\<close>

text \<open>The loop over \<open>merged_tasks\<close> of the publication handlers: every task must be \<open>Merged\<close>, and
  is moved by \<open>f\<close>.\<close>

fun move_merged ::
    "(task_runtime \<Rightarrow> task_runtime) \<Rightarrow> string \<Rightarrow> string list \<Rightarrow> processor_state \<Rightarrow> unit reduction" where
  "move_merged f operation [] s = (Inr (), s)"
| "move_merged f operation (i # ids) s =
    guard (task_mut s i) s (\<lambda>t.
    guard (expect_task_phase t task_phase.Merged operation) s (\<lambda>_.
      move_merged f operation ids (put_task i (f t) s)))"

definition published :: "string \<Rightarrow> bool \<Rightarrow> processor_state \<Rightarrow> effect list reduction" where
  "published head pushed s =
    guard (require_phase s Publishing ''publication result'') s (\<lambda>_.
    guard (validate_ref head ''published head'') s (\<lambda>_.
    guard (ensure (ig_merged_tasks (st_integration s) \<noteq> [])
             (invalid ''cannot publish a batch with no merged tasks'')) s (\<lambda>_.
    guard (ensure (ig_integration_head (st_integration s) = Some head
                   \<and> ig_verification_head (st_integration s) = Some head)
             (InvalidCommand ''publication head {} lacks matching final verification for integration tip {}''
               [ArgDbg head, ArgDbgOpt (ig_integration_head (st_integration s))])) s (\<lambda>_.
    (let s = ig_set (\<lambda>g. g\<lparr>ig_publish_attempts := sat_add32 (ig_publish_attempts g) 1,
                         ig_publication_reanchor_reason := None,
                         ig_publication_reanchor_target := None\<rparr>) s
     in and_then (move_merged (\<lambda>t. t\<lparr>tr_phase := task_phase.Published\<rparr>) ''publication''
                   (ig_merged_tasks (st_integration s)) s)
          (\<lambda>_ s. (Inr [VerifyCi head],
             ig_set (\<lambda>g. g\<lparr>ig_published_head := Some head, ig_publication_pushed := Some pushed,
                          ig_ci_disposition := None, ig_archive_ci_gate := None\<rparr>) s)))))))"

definition safe_reason :: "string \<Rightarrow> bool" where
  "safe_reason reason \<longleftrightarrow> \<not> (trim reason = [] \<or> nul \<in> set reason)"

definition publication_rejected :: "string \<Rightarrow> processor_state \<Rightarrow> effect list reduction" where
  "publication_rejected reason s =
    guard (require_phase s Publishing ''publication rejection'') s (\<lambda>_.
    guard (ensure (safe_reason reason)
             (invalid ''publication rejection must carry a non-empty safe reason'')) s (\<lambda>_.
    (let merged = ig_merged_tasks (st_integration s) in
     guard (ensure (merged \<noteq> [])
              (invalid ''cannot reject publication for a batch with no merged tasks'')) s (\<lambda>_.
     and_then (move_merged (\<lambda>t. t\<lparr>tr_phase := task_phase.Escalated, tr_reason := Some reason\<rparr>)
                 ''publication rejection'' merged s) (\<lambda>_ s.
     (let escalations = map (\<lambda>i. EscalateTask i reason) merged;
          s = (ig_set (\<lambda>g. g\<lparr>ig_merged_tasks := [], ig_failed_reason := Some reason\<rparr>) s)\<lparr>st_phase := Cleaning\<rparr>
      in (case split_journal (cleanup_effects s) of
            Some cleanup \<Rightarrow> (Inr (WriteJournalAndStatus # escalations @ cleanup), s)
          | None \<Rightarrow>
              (Inl (invalid ''publication rejection cleanup must start with a journal boundary''), s))))))))"

definition publication_awaiting_approval :: "string \<Rightarrow> processor_state \<Rightarrow> effect list reduction" where
  "publication_awaiting_approval reason s =
    guard (require_phase s Publishing ''publication approval hold'') s (\<lambda>_.
    guard (ensure (safe_reason reason)
             (invalid ''publication approval hold must carry a non-empty safe reason'')) s (\<lambda>_.
    guard (ensure (\<not> (ig_merged_tasks (st_integration s) = [] \<or> ig_published_head (st_integration s) \<noteq> None))
             (invalid ''publication approval hold requires a verified but unpublished merged batch'')) s (\<lambda>_.
      (Inr [WaitForOperator reason], s))))"

definition publication_reanchor_required ::
    "processor_config \<Rightarrow> string \<Rightarrow> publication_reanchor_target \<Rightarrow> processor_state \<Rightarrow> effect list reduction" where
  "publication_reanchor_required cfg reason target s =
    guard (require_phase s Publishing ''publication re-anchor requirement'') s (\<lambda>_.
    guard (ensure (safe_reason reason)
             (invalid ''publication re-anchor must carry a non-empty safe reason'')) s (\<lambda>_.
    guard (ensure (\<not> (ig_merged_tasks (st_integration s) = []
                      \<or> ig_published_head (st_integration s) \<noteq> None
                      \<or> ig_integration_head (st_integration s) = None
                      \<or> ig_verification_head (st_integration s) \<noteq> ig_integration_head (st_integration s)))
             (invalid ''publication re-anchor requires a verified but unpublished merged batch'')) s (\<lambda>_.
    (let s = ig_set (\<lambda>g. g\<lparr>ig_publish_attempts := sat_add32 (ig_publish_attempts g) 1\<rparr>) s;
         cycles = ig_publication_reanchor_cycles (st_integration s)
     in if cycles \<ge> cf_integration_loop_max cfg then
          (let blocked = ''publication re-anchor did not converge after '' @ show_nat cycles
                 @ '' attempts; manual intervention is required''
           in (Inr [WriteJournalAndStatus, WaitForOperator blocked],
               s\<lparr>st_phase := phase.Blocked, st_blocked_reason := Some blocked\<rparr>))
        else
          (let s = ig_set (\<lambda>g. g\<lparr>ig_publication_reanchor_cycles := ig_publication_reanchor_cycles g + 1,
                               ig_publication_reanchor_reason := Some reason,
                               ig_publication_reanchor_target := Some target\<rparr>) s
           in guard (batch_id s) s (\<lambda>i. (Inr [ReanchorPublication i], s)))))))"

definition publication_reanchored :: "processor_state \<Rightarrow> effect list reduction" where
  "publication_reanchored s =
    guard (require_phase s Publishing ''publication re-anchor completion'') s (\<lambda>_.
    guard (ensure (ig_publication_reanchor_reason (st_integration s) \<noteq> None)
             (invalid ''publication re-anchor completed without a durable requirement'')) s (\<lambda>_.
    guard (ensure (ig_merged_tasks (st_integration s) \<noteq> [])
             (invalid ''cannot re-anchor a batch with no merged tasks'')) s (\<lambda>_.
    and_then (move_merged (\<lambda>t. t\<lparr>tr_phase := task_phase.Ready, tr_reason := None\<rparr>)
                ''publication re-anchor'' (ig_merged_tasks (st_integration s)) s) (\<lambda>_ s.
    (let s = (ig_set (\<lambda>g. g\<lparr>ig_workspace_prepared := False,
                 ig_imported_workspace_restore_pending := False,
                 ig_merged_tasks := [], ig_f_cycles := 0, ig_ci_cycles := 0,
                 ig_ci_disposition := None, ig_pending_merge_resolution := None,
                 ig_signatures := [], ig_integration_head := None, ig_review_sha := None,
                 ig_verification_head := None, ig_published_head := None,
                 ig_publication_pushed := None, ig_publication_reanchor_reason := None,
                 ig_publication_reanchor_target := None, ig_failed_reason := None\<rparr>) s)
               \<lparr>st_phase := Joining\<rparr>
     in guard (integration_branch s) s (\<lambda>branch. (Inr [PrepareIntegrationWorkspace branch], s)))))))"

section \<open>CI\<close>

definition push_degradation :: "string \<Rightarrow> processor_state \<Rightarrow> processor_state" where
  "push_degradation d s =
    (if d \<in> set (ig_degradations (st_integration s)) then s else add_degradation d s)"

definition hold_failed_published_ci :: "string \<Rightarrow> processor_state \<Rightarrow> effect list reduction" where
  "hold_failed_published_ci reason s =
    guard (validate_ci_observation_reason reason) s (\<lambda>_.
    guard (ensure (\<not> (ig_published_head (st_integration s) = None
                      \<or> ig_publication_pushed (st_integration s) \<noteq> Some True))
             (invalid ''terminal CI repair failure requires a remotely published head'')) s (\<lambda>_.
    (let s = ig_set (\<lambda>g. g\<lparr>ig_ci_disposition := Some UnconfirmedDegraded\<rparr>) s;
         s = push_degradation (''required publication CI remains unconfirmed: '' @ reason) s;
         blocked = ''published CI requires manual intervention: '' @ reason
     in (Inr [WriteJournalAndStatus, WaitForOperator blocked],
         s\<lparr>st_blocked_reason := Some blocked, st_phase := phase.Blocked\<rparr>))))"

definition validate_ci_outcome :: "ci_outcome \<Rightarrow> processor_error + unit" where
  "validate_ci_outcome outcome =
    (case outcome of
       BestEffortDegraded reason \<Rightarrow> validate_ci_observation_reason reason
     | RequiredUnconfirmed reason \<Rightarrow> validate_ci_observation_reason reason
     | ci_outcome.Failed sig _ \<Rightarrow> validate_signature sig
     | _ \<Rightarrow> Inr ())"

definition clean_after_ci :: "ci_disposition \<Rightarrow> processor_state \<Rightarrow> processor_state" where
  "clean_after_ci d s = (ig_set (\<lambda>g. g\<lparr>ig_ci_disposition := Some d\<rparr>) s)\<lparr>st_phase := Cleaning\<rparr>"

definition ci_failed ::
    "(string \<Rightarrow> string) \<Rightarrow> processor_config \<Rightarrow> string \<Rightarrow> processor_state \<Rightarrow> effect list reduction" where
  "ci_failed lc cfg sig s =
    (let s = ig_set (\<lambda>g. g\<lparr>ig_ci_disposition := None\<rparr>) s in
     guard (ok_or (invalid ''CI failure arrived without a durable published head'')
              (ig_published_head (st_integration s))) s (\<lambda>head.
     guard (validate_ref head ''published CI head'') s (\<lambda>_.
     (let note = Notify PublishCiFailed head;
          s = ig_set (\<lambda>g. g\<lparr>ig_ci_cycles := sat_add32 (ig_ci_cycles g) 1,
                          ig_signatures := ig_signatures g @ [sig]\<rparr>) s
      in case cycle_escalation_reason
                (review_cycle_decision (ig_ci_cycles (st_integration s)) (cf_ci_fix_max cfg)) of
           Some cap \<Rightarrow>
             and_then (hold_failed_published_ci (''required CI repair limit reached: '' @ cap) s)
               (\<lambda>effects s. (Inr (note # effects), s))
         | None \<Rightarrow>
             (case stagnation_reason (signatures_from lc (ig_signatures (st_integration s)))
                     (cf_stagnation_limit cfg) of
                Some stuck \<Rightarrow>
                  and_then (hold_failed_published_ci (''required CI repair stagnated: '' @ stuck) s)
                    (\<lambda>effects s. (Inr (note # effects), s))
              | None \<Rightarrow> (Inr [note, PrepareCiFix], s))))))"

definition ci_verified ::
    "(string \<Rightarrow> string) \<Rightarrow> processor_config \<Rightarrow> ci_outcome \<Rightarrow> processor_state \<Rightarrow> effect list reduction" where
  "ci_verified lc cfg outcome s =
    guard (require_phase s Publishing ''CI result'') s (\<lambda>_.
    guard (ok_or (invalid ''CI result arrived without a durable published head'')
             (ig_published_head (st_integration s))) s (\<lambda>head.
    guard (validate_ref head ''published CI head'') s (\<lambda>_.
    guard (validate_ci_outcome outcome) s (\<lambda>_.
    (let inferred = (outcome \<noteq> LocalOnly);
         pushed = or_default inferred (ig_publication_pushed (st_integration s))
     in guard (ensure (\<not> ((\<not> pushed \<and> outcome \<noteq> LocalOnly) \<or> (pushed \<and> outcome = LocalOnly)))
                 (invalid ''CI disposition contradicts the durable local/remote publication route'')) s (\<lambda>_.
     (let s = ig_set (\<lambda>g. g\<lparr>ig_publication_pushed :=
                 (if ig_publication_pushed g = None then Some inferred else ig_publication_pushed g),
                 ig_ci_wait_attempts := sat_add32 (ig_ci_wait_attempts g) 1\<rparr>) s
      in case outcome of
           ci_outcome.Passed \<Rightarrow> (Inr [PrepareKnowledgeCuration], clean_after_ci ci_disposition.Confirmed s)
         | LocalOnly \<Rightarrow> (Inr [PrepareKnowledgeCuration], clean_after_ci ci_disposition.Disabled s)
         | ci_outcome.Disabled \<Rightarrow> (Inr [PrepareKnowledgeCuration], clean_after_ci ci_disposition.Disabled s)
         | BestEffortDegraded reason \<Rightarrow>
             (Inr [PrepareKnowledgeCuration],
              clean_after_ci UnconfirmedDegraded
                (push_degradation (''publication CI was not confirmed: '' @ reason) s))
         | RequiredUnconfirmed reason \<Rightarrow>
             (Inr [WriteJournalAndStatus,
                   WaitForOperator (''published CI requires manual confirmation: '' @ reason)],
              push_degradation (''required publication CI is unconfirmed: '' @ reason)
                (ig_set (\<lambda>g. g\<lparr>ig_ci_disposition := Some UnconfirmedDegraded\<rparr>) s))
         | ci_outcome.Failed sig _ \<Rightarrow> ci_failed lc cfg sig s)))))))"

definition set_ci_fallback :: "bool \<Rightarrow> processor_state \<Rightarrow> processor_state" where
  "set_ci_fallback b s = ig_set (\<lambda>g. g\<lparr>ig_ci_fix_provider_fallback := b\<rparr>) s"

definition ci_fix_prepared :: "ci_fix_preparation_outcome \<Rightarrow> processor_state \<Rightarrow> effect list reduction" where
  "ci_fix_prepared outcome s =
    guard (require_phase s Publishing ''Codex CI fix preparation'') s (\<lambda>_.
      (case outcome of
         ci_fix_preparation_outcome.Completed \<Rightarrow> (Inr [CommitCiFix], set_ci_fallback False s)
       | ci_fix_preparation_outcome.Skipped \<Rightarrow>
           (case dispatch_integration CiFix (set_ci_fallback False s) of (e, s) \<Rightarrow> (Inr [e], s))
       | ci_fix_preparation_outcome.Fallback \<Rightarrow>
           (case dispatch_integration CiFix (set_ci_fallback True s) of (e, s) \<Rightarrow> (Inr [e], s))
       | ci_fix_preparation_outcome.SandboxDowngraded scope \<Rightarrow>
           (case dispatch_integration CiFix (note_sandbox_downgrade scope (set_ci_fallback False s)) of
              (e, s) \<Rightarrow> (Inr [WriteJournalAndStatus, e], s))
       | ci_fix_preparation_outcome.Escalated reason \<Rightarrow>
           hold_failed_published_ci (''Codex CI fix failed: '' @ reason) (set_ci_fallback False s)))"

definition ci_fix :: "leaf_outcome \<Rightarrow> processor_state \<Rightarrow> effect list reduction" where
  "ci_fix outcome s =
    guard (require_phase s Publishing ''CI fix'') s (\<lambda>_.
      (case (case outcome of
               leaf_outcome.Completed _ \<Rightarrow> (Inr [CommitCiFix], s)
             | RetryableFailure reason \<Rightarrow> hold_failed_published_ci (''CI fix failed: '' @ reason) s
             | leaf_outcome.Escalated reason \<Rightarrow> hold_failed_published_ci (''CI fix failed: '' @ reason) s
             | leaf_outcome.RiskElevated _ r _ \<Rightarrow>
                 hold_failed_published_ci
                   (''CI fix reported unsupported task risk elevation '' @ risk_as_str r) s
             | leaf_outcome.CompletedWithWontFix _ _ \<Rightarrow>
                 hold_failed_published_ci
                   (''CI fix reported unsupported fix-cycle won'' @ [CHR 0x27] @ ''t-fix metadata'') s) of
         (effects, s) \<Rightarrow> (effects, set_ci_fallback False s)))"

definition ci_fix_committed :: "string \<Rightarrow> processor_state \<Rightarrow> effect list reduction" where
  "ci_fix_committed head s =
    guard (require_phase s Publishing ''CI fix commit'') s (\<lambda>_.
    guard (validate_ref head ''CI fix head'') s (\<lambda>_.
      (Inr [VerifyCi head],
       ig_set (\<lambda>g. g\<lparr>ig_published_head := Some head, ig_ci_disposition := None,
                    ig_archive_ci_gate := None\<rparr>) s)))"

end
