(* ===== verification/ProcessorClean.thy ===== *)
theory ProcessorClean
  imports ProcessorJoin
begin

text \<open>
  The cleaning handlers of \<open>src/engine/src/processor.rs\<close> (knowledge curation, archive
  preflight, archive CI, completion), checkpoint validation, recovery after a restart, pause and
  resume, and the two non-command entry points (leaf sessions, acknowledgement of plain effects).
\<close>

section \<open>Knowledge curation\<close>

definition u32_len :: "'a list \<Rightarrow> nat" where
  "u32_len xs = min (length xs) u32_max"

fun count_fixed_findings :: "processor_state \<Rightarrow> string list \<Rightarrow> nat \<Rightarrow> processor_error + nat" where
  "count_fixed_findings s [] n = Inr n"
| "count_fixed_findings s (i # ids) n =
    bind_res (task_mut s i) (\<lambda>t.
    bind_res (expect_task_phase t task_phase.Published ''knowledge curation'') (\<lambda>_.
      count_fixed_findings s ids (sat_add32 n (u32_len (tr_review_signatures t)))))"

definition ids_in_phase :: "task_phase \<Rightarrow> processor_state \<Rightarrow> string list" where
  "ids_in_phase p s = bts_of (map tr_id (filter (\<lambda>t. tr_phase t = p) (bt_values (st_tasks s))))"

definition current_knowledge_curation_retry ::
    "processor_state \<Rightarrow> processor_error + (string \<times> pending_knowledge_curation)" where
  "current_knowledge_curation_retry s =
    (let g = st_integration s in
     bind_res (ok_or (invalid ''knowledge curation retry requires an active batch'') (st_batch s)) (\<lambda>batch.
     bind_res (validate_batch_id (co_id batch)) (\<lambda>_.
     bind_res (validate_ref (co_base batch) ''knowledge curation base'') (\<lambda>_.
     bind_res (ok_or (invalid ''knowledge curation retry requires a published head'')
                 (ig_published_head g)) (\<lambda>head.
     bind_res (validate_ref head ''knowledge curation published head'') (\<lambda>_.
     bind_res (count_fixed_findings s (ig_merged_tasks g) 0) (\<lambda>fixed.
       Inr (co_id batch,
            \<lparr>pk_base = co_base batch, pk_published_head = head, pk_merged_tasks = ig_merged_tasks g,
             pk_fixed_task_findings = fixed,
             pk_integration_or_ci_signatures = u32_len (ig_signatures g),
             pk_ci_failure_cycles = ig_ci_cycles g,
             pk_quarantined_tasks = ids_in_phase task_phase.Conflict s,
             pk_escalated_tasks = ids_in_phase task_phase.Escalated s,
             pk_degradations = u32_len (ig_degradations g)\<rparr>))))))))"

definition defer_knowledge ::
    "string \<Rightarrow> pending_knowledge_curation \<Rightarrow> string \<Rightarrow> processor_state \<Rightarrow> effect list reduction" where
  "defer_knowledge bid pending why s =
    (let pending = pending\<lparr>pk_degradations := sat_add32 (pk_degradations pending) 1\<rparr>;
         s = ig_set (\<lambda>g. g\<lparr>ig_degradations := ig_degradations g @ [why],
                         ig_pending_knowledge_curations :=
                           bt_insert bid pending (ig_pending_knowledge_curations g)\<rparr>) s
     in (Inr (cleanup_effects s), s))"

definition knowledge_curated :: "leaf_outcome \<Rightarrow> processor_state \<Rightarrow> effect list reduction" where
  "knowledge_curated outcome s =
    guard (require_phase s Cleaning ''knowledge curation'') s (\<lambda>_.
    guard (current_knowledge_curation_retry s) s (\<lambda>(bid, pending).
      (case outcome of
         leaf_outcome.Completed _ \<Rightarrow>
           (let s = ig_set (\<lambda>g. g\<lparr>ig_pending_knowledge_curations := []\<rparr>) s in (Inr (cleanup_effects s), s))
       | RetryableFailure reason \<Rightarrow>
           defer_knowledge bid pending (''knowledge curation failed: '' @ reason) s
       | leaf_outcome.Escalated reason \<Rightarrow>
           defer_knowledge bid pending (''knowledge curation failed: '' @ reason) s
       | leaf_outcome.RiskElevated _ r _ \<Rightarrow>
           defer_knowledge bid pending
             (''knowledge curator reported unsupported task risk elevation '' @ risk_as_str r) s
       | leaf_outcome.CompletedWithWontFix _ _ \<Rightarrow>
           defer_knowledge bid pending
             
      (''knowledge curator reported unsupported fix-cycle won'' @ [CHR 0x27] @ ''t-fix metadata'') s)))"

definition knowledge_curation_prepared :: "knowledge_preparation_outcome \<Rightarrow> processor_state \<Rightarrow> effect list reduction" where
  "knowledge_curation_prepared outcome s =
    guard (require_phase s Cleaning ''knowledge curation preflight'') s (\<lambda>_.
    guard (current_knowledge_curation_retry s) s (\<lambda>_.
      (case outcome of
         Required \<Rightarrow> (case dispatch_integration KnowledgeCurator s of (e, s) \<Rightarrow> (Inr [e], s))
       | AlreadyCompleted \<Rightarrow>
           (let s = ig_set (\<lambda>g. g\<lparr>ig_pending_knowledge_curations := []\<rparr>) s in (Inr (cleanup_effects s), s))
       | knowledge_preparation_outcome.Skipped \<Rightarrow> (Inr (cleanup_effects s), s))))"

section \<open>Archive preflight\<close>

definition tasks_where :: "(task_runtime \<Rightarrow> bool) \<Rightarrow> processor_state \<Rightarrow> task_runtime option" where
  "tasks_where P s = pref_find P (bt_values (st_tasks s))"

definition archive_cohort_check :: "processor_state \<Rightarrow> processor_error + unit" where
  "archive_cohort_check s =
    (let g = st_integration s in
     bind_res (ensure (ig_cleanup_journaled g)
        (invalid ''archive preflight requires the Phase-6 journal acknowledgement'')) (\<lambda>_.
     bind_res (ok_or (invalid ''archive preflight requires an active batch'') (st_batch s)) (\<lambda>batch.
     bind_res (validate_batch_id (co_id batch)) (\<lambda>_.
     bind_res (validate_ref (co_base batch) ''archive preflight base'') (\<lambda>_.
     bind_res (case tasks_where (\<lambda>t. tr_phase t = task_phase.Merged) s of
         Some t \<Rightarrow> Inl (InvalidCommand ''cannot prepare archive while {} is merged but not published''
                          [ArgStr (tr_id t)])
       | None \<Rightarrow> Inr ()) (\<lambda>_.
     bind_res (each_res (\<lambda>i. bind_res (task_mut s i) (\<lambda>t.
          ensure (tr_phase t \<in> {task_phase.Published, Done})
            (InvalidCommand ''archive preflight requires {} to be published or terminal-recovery done, found {}''
              [ArgStr (tr_id t), ArgTaskPhase (tr_phase t)]))) (ig_merged_tasks g)) (\<lambda>_.
     bind_res (case tasks_where (\<lambda>t. tr_phase t = task_phase.Published \<and> tr_id t \<notin> set (ig_merged_tasks g)) s of
         Some t \<Rightarrow> Inl (InvalidCommand ''published task {} is absent from the archive cohort'' [ArgStr (tr_id t)])
       | None \<Rightarrow> Inr ()) (\<lambda>_.
     bind_res (if ig_merged_tasks g \<noteq> [] then
          bind_res (ok_or (invalid ''published archive cohort requires an exact head'') (ig_published_head g)) (\<lambda>head.
          bind_res (validate_ref head ''archive preflight published head'') (\<lambda>_.
            ensure (\<not> (ig_publication_pushed g = None \<or> ig_ci_disposition g = None))
              (invalid ''published archive cohort lacks its terminal publication/CI disposition'')))
        else Inr ()) (\<lambda>_.
     ensure (ig_archive_ci_gate g = None)
       (invalid ''archive preflight was already completed for this published head''))))))))))"

definition archival_prepared :: "archival_preparation_outcome \<Rightarrow> processor_state \<Rightarrow> effect list reduction" where
  "archival_prepared outcome s =
    guard (require_phase s Cleaning ''archive preflight'') s (\<lambda>_.
    guard (archive_cohort_check s) s (\<lambda>_.
      (case outcome of
         archival_preparation_outcome.Skipped \<Rightarrow>
           (let s = ig_set (\<lambda>g. g\<lparr>ig_archive_ci_gate := Some archive_ci_gate.Skipped\<rparr>) s
            in (Inr (cleanup_effects s), s))
       | ReconfirmRequired checks \<Rightarrow>
           guard (validate_required_ci_check_names checks) s (\<lambda>_.
           guard (ensure (\<not> (ig_publication_pushed (st_integration s) \<noteq> Some True
                             \<or> ig_ci_disposition (st_integration s) \<noteq> Some ci_disposition.Confirmed))
                    (invalid ''required archive CI reconfirmation needs a remotely published head with confirmed Phase-5.4 CI'')) s (\<lambda>_.
           guard (ok_or (invalid ''archive CI reconfirmation requires a published head'')
                    (ig_published_head (st_integration s))) s (\<lambda>head.
           guard (validate_ref head ''archive CI head'') s (\<lambda>_.
             (Inr [ReconfirmCiBeforeArchive head checks], s))))))))"

definition archive_ci_reconfirmed ::
    "(string \<Rightarrow> string) \<Rightarrow> processor_config \<Rightarrow> string \<Rightarrow> ci_outcome \<Rightarrow> processor_state \<Rightarrow> effect list reduction" where
  "archive_ci_reconfirmed lc cfg head outcome s =
    guard (require_phase s Cleaning ''archive CI reconfirmation'') s (\<lambda>_.
    guard (ok_or (invalid ''archive CI result arrived without a durable published head'')
             (ig_published_head (st_integration s))) s (\<lambda>durable.
    guard (validate_ref head ''archive CI result head'') s (\<lambda>_.
    guard (ensure (head = durable)
             (InvalidCommand ''archive CI result names stale head {}, expected {}''
               [ArgStr head, ArgStr durable])) s (\<lambda>_.
    guard (ensure (ig_archive_ci_gate (st_integration s) = None)
             (invalid ''archive CI gate was already completed for this published head'')) s (\<lambda>_.
    guard (ensure (\<not> (\<not> ig_cleanup_journaled (st_integration s)
                      \<or> ig_publication_pushed (st_integration s) \<noteq> Some True
                      \<or> ig_ci_disposition (st_integration s) \<noteq> Some ci_disposition.Confirmed))
             (invalid ''archive CI result requires a journaled remotely published head with confirmed Phase-5.4 CI'')) s (\<lambda>_.
    guard (case outcome of
             RequiredUnconfirmed reason \<Rightarrow> validate_ci_observation_reason reason
           | ci_outcome.Failed sig _ \<Rightarrow> validate_signature sig
           | ci_outcome.Passed \<Rightarrow> Inr ()
           | _ \<Rightarrow> Inl (invalid ''required archive CI reconfirmation returned a non-required disposition'')) s (\<lambda>_.
    (let s = ig_set (\<lambda>g. g\<lparr>ig_archive_ci_wait_attempts := sat_add32 (ig_archive_ci_wait_attempts g) 1\<rparr>) s in
     if outcome = ci_outcome.Passed then
       (let s = ig_set (\<lambda>g. g\<lparr>ig_archive_ci_gate := Some archive_ci_gate.Confirmed\<rparr>) s
        in (Inr (cleanup_effects s), s))
     else
       ci_verified lc cfg outcome
         ((ig_set (\<lambda>g. g\<lparr>ig_cleanup_journaled := False\<rparr>) s)\<lparr>st_phase := Publishing\<rparr>)))))))))"

section \<open>Completion\<close>

definition finish_published :: "task_runtime \<Rightarrow> task_runtime" where
  "finish_published t = (if tr_phase t = task_phase.Published then t\<lparr>tr_phase := Done\<rparr> else t)"

definition cleanup_complete :: "processor_state \<Rightarrow> effect list reduction" where
  "cleanup_complete s =
    guard (require_phase s Cleaning ''cleanup'') s (\<lambda>_.
    guard (case tasks_where (\<lambda>t. tr_phase t = task_phase.Merged) s of
             Some t \<Rightarrow> Inl (InvalidCommand ''cannot clean batch while {} is merged but not published''
                              [ArgStr (tr_id t)])
           | None \<Rightarrow> Inr ()) s (\<lambda>_.
    guard (ensure (ig_archive_ci_gate (st_integration s) \<noteq> None)
             (invalid ''cannot complete cleanup before the archive CI preflight'')) s (\<lambda>_.
      if \<not> ig_dependency_graph_refreshed_post_archive (st_integration s) then
        (Inr [DispatchDependencyCurator PostArchive], s)
      else
        (Inr [WriteJournalAndStatus, ReleaseLease],
         s\<lparr>st_tasks := map (\<lambda>(k, t). (k, finish_published t)) (st_tasks s),
           st_phase := Idle, st_batch := None,
           st_integration := integration_default
             \<lparr>ig_pending_knowledge_curations := ig_pending_knowledge_curations (st_integration s)\<rparr>\<rparr>))))"

section \<open>Pause and resume\<close>

definition pause :: "processor_state \<Rightarrow> effect list reduction" where
  "pause s =
    (if st_phase s = Paused then (Inr [WaitForOperator ''PAUSE is already active''], s)
     else (Inr [WriteJournalAndStatus], s\<lparr>st_paused_from := Some (st_phase s), st_phase := Paused\<rparr>))"

definition singleton_effect :: "effect reduction \<Rightarrow> effect list reduction" where
  "singleton_effect r = and_then r (\<lambda>e s. (Inr [e], s))"

definition resume :: "processor_config \<Rightarrow> processor_state \<Rightarrow> effect list reduction" where
  "resume cfg s =
    guard (ensure (st_phase s = Paused) (invalid ''resume requires PAUSE'')) s (\<lambda>_.
    (let s = s\<lparr>st_phase := or_default Recovery (st_paused_from s), st_paused_from := None\<rparr> in
     case st_phase s of
       Rolling \<Rightarrow> (Inr [rolling_boundary_effect cfg s], s)
     | Joining \<Rightarrow> next_merge_or_review s
     | Publishing \<Rightarrow> singleton_effect (publishing_resume_effect cfg s)
     | _ \<Rightarrow> (Inr [WriteJournalAndStatus], s)))"

section \<open>Recovery\<close>

text \<open>One task of the recovery scan: an error, a hold with its reason, or the effects to emit.\<close>

type_synonym recovery_scan = "processor_error + (string + effect list)"

definition recover_task :: "string list \<Rightarrow> task_runtime \<Rightarrow> recovery_scan \<times> task_runtime" where
  "recover_task present t =
    (let here = (tr_id t \<in> set present);
         wrong = (\<lambda>name. Inl (CorruptCheckpoint (''legacy recovery intent for {} requires '' @ name @ '', found {}'')
                            [ArgStr (tr_id t), ArgTaskPhase (tr_phase t)]));
         ensure_ws = Inr (Inr [EnsureTaskWorkspace (tr_id t) (''task/'' @ tr_id t)])
     in case tr_imported_recovery_intent t of
          Some EnsureWorkspace \<Rightarrow>
            (if tr_phase t \<noteq> Capturing then (wrong ''Capturing'', t) else (ensure_ws, t))
        | Some EnsureWorkspaceForReview \<Rightarrow>
            (if tr_phase t \<noteq> Reviewing then (wrong ''Reviewing'', t) else (ensure_ws, t))
        | Some DispatchImplementation \<Rightarrow>
            (if tr_phase t \<noteq> Implementing \<or> \<not> here
             then (Inr (Inl (''recovery: imported implementation '' @ tr_id t @ '' has no verified managed workspace'')), t)
             else (Inr (Inr [PrepareTaskLeaf (tr_id t) Implement]),
                   snd (task_leaf_attempt Implement (t\<lparr>tr_imported_recovery_intent := None\<rparr>))))
        | Some DispatchReview \<Rightarrow>
            (if tr_phase t \<noteq> Reviewing \<or> \<not> here
             then (Inr (Inl (''recovery: imported review '' @ tr_id t @ '' has no verified managed workspace'')), t)
             else (Inr (Inr [PrepareTaskReview (tr_id t)]),
                   snd (task_leaf_attempt Review (t\<lparr>tr_imported_recovery_intent := None\<rparr>))))
        | Some ReturnConflictToQueue \<Rightarrow>
            (if tr_phase t \<noteq> task_phase.Conflict then (wrong ''Conflict'', t)
             else (case tr_reason t of
                     None \<Rightarrow> (Inl (CorruptCheckpoint ''legacy conflict {} has no quarantine reason''
                               [ArgStr (tr_id t)]), t)
                   | Some reason \<Rightarrow> (Inr (Inr [ReturnTask (tr_id t) reason]), t)))
        | None \<Rightarrow>
            (if is_active (tr_phase t) \<and> \<not> here
             then (Inr (Inl (''recovery: active task '' @ tr_id t @ '' has no verified managed workspace'')), t)
             else if tr_phase t \<notin> {Done, task_phase.Conflict, task_phase.Escalated} \<and> here
             then (Inr (Inr [Reconcile (tr_id t)]), t)
             else (Inr (Inr []), t)))"

fun recover_tasks ::
    "string list \<Rightarrow> (string, task_runtime) btmap \<Rightarrow> recovery_scan \<times> (string, task_runtime) btmap" where
  "recover_tasks present [] = (Inr (Inr []), [])"
| "recover_tasks present ((k, t) # m) =
    (case recover_task present t of
       (Inr (Inr es), t') \<Rightarrow>
         (case recover_tasks present m of
            (Inr (Inr es'), m') \<Rightarrow> (Inr (Inr (es @ es')), (k, t') # m')
          | (r, m') \<Rightarrow> (r, (k, t') # m'))
     | (r, t') \<Rightarrow> (r, (k, t') # m))"

definition recovery_phase :: "phase option \<Rightarrow> processor_state \<Rightarrow> phase" where
  "recovery_phase target s =
    (let restore = (target = Some Publishing \<and> ig_imported_workspace_restore_pending (st_integration s)) in
     if st_batch s = None then Idle
     else if target = Some Paused then Paused
     else if target = Some Cleaning then Cleaning
     else if target = Some Publishing then (if \<not> restore then Publishing else Joining)
     else if ig_workspace_prepared (st_integration s) \<or> tasks_ready_to_merge s \<noteq> [] then Joining
     else Rolling)"

definition merge_cleanup_order :: "effect list \<Rightarrow> effect list \<Rightarrow> effect list" where
  "merge_cleanup_order cleanup effects =
    (let (ordered, rest) = (case split_journal cleanup of
           Some r \<Rightarrow> ([WriteJournalAndStatus], r) | None \<Rightarrow> ([], cleanup));
         ordered = foldl (\<lambda>o' e. if e \<notin> set cleanup then push_unique_effect o' e else o') ordered effects
     in foldl push_unique_effect ordered rest)"

definition recover_finish ::
    "processor_config \<Rightarrow> phase option \<Rightarrow> effect list \<Rightarrow> processor_state \<Rightarrow> effect list reduction" where
  "recover_finish cfg target effects s =
    (let restore = (target = Some Publishing \<and> ig_imported_workspace_restore_pending (st_integration s));
         s = s\<lparr>st_phase := recovery_phase target s\<rparr>
     in if st_phase s = Cleaning then (Inr (merge_cleanup_order (cleanup_effects s) effects), s)
        else if restore then and_then (next_merge_or_review s) (\<lambda>more s. (Inr (effects @ more), s))
        else if effects = [] then
          (case st_phase s of
             Idle \<Rightarrow> (Inr [WriteJournalAndStatus], s)
           | Rolling \<Rightarrow> (Inr [rolling_boundary_effect cfg s], s)
           | Joining \<Rightarrow> next_merge_or_review s
           | Publishing \<Rightarrow> singleton_effect (publishing_resume_effect cfg s)
           | _ \<Rightarrow> (Inr [WriteJournalAndStatus], s))
        else if st_phase s = Publishing then
          and_then (publishing_resume_effect cfg s) (\<lambda>e s. (Inr (effects @ [e]), s))
        else (Inr effects, s))"

definition recover :: "string list \<Rightarrow> processor \<Rightarrow> (processor_error + effect list) \<times> processor" where
  "recover present p =
    (let s = pr_state p in
     if st_phase s \<noteq> Recovery then (Inl (invalid ''recovery is allowed only in phase 0''), p)
     else if pr_recovery_target p = Some phase.Blocked then
       (Inr [WaitForOperator (or_default ''processor is blocked'' (st_blocked_reason s))],
        p\<lparr>pr_recovery_target := None, pr_state := s\<lparr>st_phase := phase.Blocked\<rparr>\<rparr>)
     else
       (case recover_tasks present (st_tasks s) of
          (Inl e, m) \<Rightarrow> (Inl e, p\<lparr>pr_state := s\<lparr>st_tasks := m\<rparr>\<rparr>)
        | (Inr (Inl reason), m) \<Rightarrow>
            (Inr [WaitForOperator reason],
             p\<lparr>pr_state := s\<lparr>st_tasks := m, st_phase := phase.Blocked, st_blocked_reason := Some reason\<rparr>\<rparr>)
        | (Inr (Inr effects), m) \<Rightarrow>
            (case recover_finish (pr_config p) (pr_recovery_target p) effects (s\<lparr>st_tasks := m\<rparr>) of
               (r, s) \<Rightarrow> (r, p\<lparr>pr_recovery_target := None, pr_state := s\<rparr>))))"

section \<open>Checkpoint validation\<close>

definition corrupt :: "string \<Rightarrow> processor_error fmt_arg list \<Rightarrow> processor_error + unit \<Rightarrow> processor_error + unit" where
  "corrupt template args r =
    (case r of Inl e \<Rightarrow> Inl (CorruptCheckpoint template (args @ [ArgErr e])) | Inr _ \<Rightarrow> Inr ())"

definition check_batch :: "cohort_runtime \<Rightarrow> processor_error + unit" where
  "check_batch b =
    bind_res (corrupt ''invalid active batch id {}: {}'' [ArgDbg (co_id b)] (validate_batch_id (co_id b))) (\<lambda>_.
    bind_res (corrupt ''invalid active batch {}: {}'' [ArgStr (co_id b)]
                (validate_ref (co_base b) ''active batch base'')) (\<lambda>_.
      ensure (co_wave b \<noteq> 0) (CorruptCheckpoint ''active batch {} has zero wave'' [ArgStr (co_id b)])))"

definition check_coordinate :: "string \<Rightarrow> string \<Rightarrow> processor_error fmt_arg list \<Rightarrow> string option \<Rightarrow> processor_error + unit" where
  "check_coordinate template label args coordinate =
    (case coordinate of
       None \<Rightarrow> Inr ()
     | Some c \<Rightarrow> corrupt template (ArgStr label # args) (validate_ref c label))"

definition check_task_entry :: "string \<times> task_runtime \<Rightarrow> processor_error + unit" where
  "check_task_entry e =
    (case e of (stored, t) \<Rightarrow>
       bind_res (corrupt ''invalid task map key {}: {}'' [ArgDbg stored] (validate_task_id stored)) (\<lambda>_.
       bind_res (corrupt ''invalid task id {}: {}'' [ArgDbg (tr_id t)] (validate_task_id (tr_id t))) (\<lambda>_.
       bind_res (ensure (stored = tr_id t)
                   (CorruptCheckpoint ''task map key {} does not match embedded id {}''
                     [ArgDbg stored, ArgDbg (tr_id t)])) (\<lambda>_.
       bind_res (ensure (tr_wave t \<noteq> 0)
                   (CorruptCheckpoint ''task {} has zero admission wave'' [ArgStr (tr_id t)])) (\<lambda>_.
       bind_res (ensure (trim (tr_conflict_domain t) \<noteq> [])
                   (CorruptCheckpoint ''task {} has an empty conflict domain'' [ArgStr (tr_id t)])) (\<lambda>_.
       bind_res (check_coordinate ''invalid {} coordinate for {}: {}'' ''previous review'' [ArgStr (tr_id t)] (tr_previous_review_sha t)) (\<lambda>_.
         check_coordinate ''invalid {} coordinate for {}: {}'' ''review'' [ArgStr (tr_id t)] (tr_review_sha t))))))))"

definition check_pending_merge :: "processor_state \<Rightarrow> processor_error + unit" where
  "check_pending_merge s =
    (case ig_pending_merge_resolution (st_integration s) of
       None \<Rightarrow> Inr ()
     | Some pending \<Rightarrow>
         bind_res (corrupt ''invalid pending merge task {}: {}'' [ArgDbg (mr_task_id pending)]
                     (validate_task_id (mr_task_id pending))) (\<lambda>_.
         bind_res (corrupt ''invalid pending merge for {}: {}'' [ArgStr (mr_task_id pending)]
                     (validate_ref (mr_pre_merge_head pending) ''pending merge base'')) (\<lambda>_.
         bind_res (ok_or (CorruptCheckpoint ''pending merge references missing task {}''
                            [ArgStr (mr_task_id pending)])
                     (map_of (st_tasks s) (mr_task_id pending))) (\<lambda>t.
           ensure (tr_phase t = ResolvingMerge)
             (CorruptCheckpoint ''pending merge task {} is {}, not ResolvingMerge''
               [ArgStr (mr_task_id pending), ArgTaskPhase (tr_phase t)])))))"

definition check_pending_knowledge :: "string \<times> pending_knowledge_curation \<Rightarrow> processor_error + unit" where
  "check_pending_knowledge e =
    (case e of (bid, pending) \<Rightarrow>
       bind_res (corrupt ''invalid deferred knowledge batch {}: {}'' [ArgDbg bid] (validate_batch_id bid)) (\<lambda>_.
       bind_res (corrupt ''invalid deferred knowledge batch {}: {}'' [ArgStr bid]
                   (validate_ref (pk_base pending) ''deferred knowledge base'')) (\<lambda>_.
       bind_res (corrupt ''invalid deferred knowledge batch {}: {}'' [ArgStr bid]
                   (validate_ref (pk_published_head pending) ''deferred knowledge head'')) (\<lambda>_.
         each_res (\<lambda>i. corrupt ''invalid deferred knowledge task {} in {}: {}'' [ArgDbg i, ArgStr bid]
                         (validate_task_id i))
           (pk_merged_tasks pending @ pk_quarantined_tasks pending @ pk_escalated_tasks pending)))))"

definition check_archive_gate :: "processor_state \<Rightarrow> processor_error + unit" where
  "check_archive_gate s =
    (let g = st_integration s in
     case ig_archive_ci_gate g of
       None \<Rightarrow> Inr ()
     | Some gate \<Rightarrow>
         (let cleaning = (st_phase s = Cleaning \<or> (st_phase s = Paused \<and> st_paused_from s = Some Cleaning)) in
          bind_res (ensure (\<not> (\<not> cleaning \<or> st_batch s = None \<or> \<not> ig_cleanup_journaled g))
            (CorruptCheckpoint ''archive CI gate exists outside a journaled active cleaning boundary'' [])) (\<lambda>_.
          bind_res (ensure (\<not> list_ex (\<lambda>t. tr_phase t = task_phase.Merged) (bt_values (st_tasks s)))
            (CorruptCheckpoint ''archive CI gate exists while merged work is still unpublished'' [])) (\<lambda>_.
          bind_res (each_res (\<lambda>i.
              bind_res (ok_or (CorruptCheckpoint ''archive CI gate references missing task {}'' [ArgStr i])
                          (map_of (st_tasks s) i)) (\<lambda>t.
                ensure (tr_phase t = task_phase.Published)
                  (CorruptCheckpoint ''archive CI gate references {} in {}, not Published''
                    [ArgStr i, ArgTaskPhase (tr_phase t)]))) (ig_merged_tasks g)) (\<lambda>_.
          bind_res (case tasks_where (\<lambda>t. tr_phase t = task_phase.Published
                        \<and> tr_id t \<notin> set (ig_merged_tasks g)) s of
              Some t \<Rightarrow> Inl (CorruptCheckpoint ''archive CI gate omits published task {}'' [ArgStr (tr_id t)])
            | None \<Rightarrow> Inr ()) (\<lambda>_.
          bind_res (ensure (\<not> (ig_merged_tasks g \<noteq> []
                \<and> (ig_published_head g = None \<or> ig_publication_pushed g = None \<or> ig_ci_disposition g = None)))
            (CorruptCheckpoint ''archive CI gate lacks its terminal publication context'' [])) (\<lambda>_.
          bind_res (ensure (\<not> (gate = archive_ci_gate.Confirmed
                \<and> (ig_publication_pushed g \<noteq> Some True
                   \<or> ig_ci_disposition g \<noteq> Some ci_disposition.Confirmed \<or> ig_published_head g = None)))
            (CorruptCheckpoint ''confirmed archive CI gate lacks its exact remote publication evidence'' [])) (\<lambda>_.
            if gate = archive_ci_gate.Confirmed
            then corrupt ''invalid confirmed archive CI evidence: {}'' []
                   (validate_ref (or_default [] (ig_published_head g)) ''confirmed archive CI head'')
            else Inr ()))))))))"

definition check_checkpoint :: "processor_config \<Rightarrow> processor_state \<Rightarrow> processor_error + unit" where
  "check_checkpoint cfg s =
    (let g = st_integration s in
     bind_res (validate_config cfg) (\<lambda>_.
     bind_res (ensure (st_schema_version s = 1)
       (CorruptCheckpoint ''unsupported processor checkpoint version {}'' [ArgNat (st_schema_version s)])) (\<lambda>_.
     bind_res (case st_batch s of Some b \<Rightarrow> check_batch b | None \<Rightarrow> Inr ()) (\<lambda>_.
     bind_res (each_res check_task_entry (st_tasks s)) (\<lambda>_.
     bind_res (check_coordinate ''invalid {} coordinate: {}'' ''integration'' [] (ig_integration_head g)) (\<lambda>_.
     bind_res (check_coordinate ''invalid {} coordinate: {}'' ''integration review'' [] (ig_review_sha g)) (\<lambda>_.
     bind_res (check_coordinate ''invalid {} coordinate: {}'' ''integration verification'' [] (ig_verification_head g)) (\<lambda>_.
     bind_res (check_coordinate ''invalid {} coordinate: {}'' ''publication'' [] (ig_published_head g)) (\<lambda>_.
     bind_res (each_res (\<lambda>i.
         bind_res (corrupt ''invalid merged task id {}: {}'' [ArgDbg i] (validate_task_id i)) (\<lambda>_.
           ensure (map_of (st_tasks s) i \<noteq> None)
             (CorruptCheckpoint ''merged task set references missing task {}'' [ArgStr i])))
         (ig_merged_tasks g)) (\<lambda>_.
     bind_res (check_pending_merge s) (\<lambda>_.
     bind_res (case st_batch s of
         None \<Rightarrow> Inr ()
       | Some b \<Rightarrow>
           ensure (\<not> (co_cohort_budget_secs b \<noteq> cf_cohort_budget_secs cfg
                      \<or> co_cohort_token_budget b \<noteq> cf_cohort_token_budget cfg
                      \<or> co_cohort_token_budget_strict b \<noteq> cf_cohort_token_budget_strict cfg
                      \<or> co_events_outbox_enabled b \<noteq> cf_events_outbox_enabled cfg))
             (CorruptCheckpoint ''processor configuration affecting cohort safety differs from the active cohort snapshot'' [])) (\<lambda>_.
     bind_res (each_res check_pending_knowledge (ig_pending_knowledge_curations g)) (\<lambda>_.
       check_archive_gate s)))))))))))))"

definition from_checkpoint :: "processor_config \<Rightarrow> processor_state \<Rightarrow> processor_error + processor" where
  "from_checkpoint cfg s =
    bind_res (check_checkpoint cfg s) (\<lambda>_.
      Inr \<lparr>pr_config = cfg, pr_state = s\<lparr>st_phase := Recovery\<rparr>, pr_recovery_target = Some (st_phase s)\<rparr>)"

section \<open>Entry points outside the command stream\<close>

definition update_key :: "leaf_session_update \<Rightarrow> leaf_session_key" where
  "update_key u = (case u of Observed k _ \<Rightarrow> k | Invalidated k \<Rightarrow> k)"

definition record_leaf_session :: "string \<Rightarrow> leaf_session_update \<Rightarrow> processor_state \<Rightarrow> unit reduction" where
  "record_leaf_session i u s =
    (let key = as_durable_key (update_key u); peer = as_durable_key (session_peer (update_key u)) in
     guard (task_mut s i) s (\<lambda>t.
       (case u of
          Observed _ sid \<Rightarrow>
            guard (ensure (is_valid_session_id sid)
                     (InvalidCommand ''task {} reported a malformed provider session id for {}''
                       [ArgStr i, ArgStr key])) s (\<lambda>_.
              (Inr (), put_task i
                (t\<lparr>tr_leaf_sessions := bt_insert key sid (bt_remove peer (tr_leaf_sessions t))\<rparr>) s))
        | Invalidated _ \<Rightarrow>
            (Inr (), put_task i
              (t\<lparr>tr_leaf_sessions := bt_remove key (bt_remove peer (tr_leaf_sessions t))\<rparr>) s))))"

definition acknowledge_non_command_effect :: "effect \<Rightarrow> processor_state \<Rightarrow> unit reduction" where
  "acknowledge_non_command_effect e s =
    (case e of
       WriteJournalAndStatus \<Rightarrow>
         (Inr (), if st_phase s = Cleaning then ig_set (\<lambda>g. g\<lparr>ig_cleanup_journaled := True\<rparr>) s else s)
     | ReturnTask i _ \<Rightarrow>
         guard (task_mut s i) s (\<lambda>t.
           if tr_imported_recovery_intent t = Some ReturnConflictToQueue then
             guard (ensure (tr_phase t = task_phase.Conflict)
                      (CorruptCheckpoint ''legacy conflict return for {} was acknowledged from {}''
                        [ArgStr i, ArgTaskPhase (tr_phase t)])) s (\<lambda>_.
               (Inr (), put_task i (t\<lparr>tr_imported_recovery_intent := None\<rparr>) s))
           else (Inr (), s))
     | _ \<Rightarrow> (Inr (), s))"

end
