(* ===== verification/Processor.thy ===== *)
theory Processor
  imports ProcessorClean
begin

text \<open>
  \<open>Processor::apply\<close> of \<open>src/engine/src/processor.rs\<close>: the command dispatch with the
  \<open>Blocked\<close> and \<open>Paused\<close> interception, the budget guard on model-bearing effects and the
  durability prefix. \<open>accept\<close> is the reducer as its runtime uses it: the state of a command that
  returned an error is discarded.
\<close>

definition guard_model_effect :: "processor_config \<Rightarrow> effect \<Rightarrow> effect" where
  "guard_model_effect cfg e =
    (case from_effect e of
       None \<Rightarrow> e
     | Some call \<Rightarrow>
         (if cf_cohort_budget_secs cfg \<noteq> None then CheckCohortBudget call
          else if cf_cohort_token_budget cfg \<noteq> None then CheckTokenBudget call
          else e))"

definition guard_model_effects :: "processor_config \<Rightarrow> effect list \<Rightarrow> effect list" where
  "guard_model_effects cfg effects = map (guard_model_effect cfg) effects"

definition dispatch ::
    "(string \<Rightarrow> string) \<Rightarrow> processor_config \<Rightarrow> processor_command \<Rightarrow> processor_state \<Rightarrow> effect list reduction" where
  "dispatch lc cfg command s =
    (case command of
       Pause \<Rightarrow> pause s
     | Resume \<Rightarrow> resume cfg s
     | Block reason \<Rightarrow> block_with reason s
     | Recover present \<Rightarrow> (Inl (invalid ''recovery is allowed only in phase 0''), s)
     | Open bid base now_secs \<Rightarrow> open_cohort cfg bid base now_secs s
     | Admit candidates now_secs \<Rightarrow> admit cfg candidates now_secs s
     | InboxReconciled slots curation_required \<Rightarrow> inbox_reconciled cfg slots curation_required s
     | InboxFinalizationReconciled curation_required \<Rightarrow> inbox_finalization_reconciled curation_required s
     | DependencyGraphRefreshed boundary outcome \<Rightarrow> dependency_graph_refreshed cfg boundary outcome s
     | InboxCurated slots mode outcome \<Rightarrow> inbox_curated cfg slots mode outcome s
     | InboxDrained slots \<Rightarrow> inbox_drained cfg slots s
     | TokenBudgetChecked call observation \<Rightarrow> token_budget_checked cfg call observation s
     | CohortBudgetChecked call now_secs \<Rightarrow> cohort_budget_checked cfg call now_secs s
     | WorkspaceReady i \<Rightarrow> workspace_ready i s
     | WorkspaceFailed i reason \<Rightarrow> workspace_failed i reason s
     | TaskLeafPrepared i outcome \<Rightarrow> task_leaf_prepared i outcome s
     | TaskLeaf i outcome \<Rightarrow> task_leaf cfg i outcome s
     | TaskCommitted i commit \<Rightarrow> task_committed cfg i commit s
     | TaskReviewPrepared i outcome \<Rightarrow> task_review_prepared lc cfg i outcome s
     | TaskReview i outcome \<Rightarrow> task_review lc cfg i outcome s
     | Advance now_secs \<Rightarrow> advance cfg now_secs s
     | IntegrationWorkspaceReady \<Rightarrow> integration_workspace_ready s
     | TaskMerged i outcome \<Rightarrow> task_merged i outcome s
     | MergeResolution i outcome \<Rightarrow> merge_resolution i outcome s
     | MergeResolutionFinalized i outcome \<Rightarrow> merge_resolution_finalized i outcome s
     | MergeResolutionAborted i reason \<Rightarrow> merge_resolution_aborted i reason s
     | IntegrationVerified head outcome \<Rightarrow> integration_verified head outcome s
     | IntegrationReviewed outcome \<Rightarrow> integration_review lc cfg outcome s
     | IntegrationFixed outcome \<Rightarrow> integration_fix outcome s
     | IntegrationFixCommitted head \<Rightarrow> integration_fix_committed cfg head s
     | processor_command.Published head pushed \<Rightarrow> published head pushed s
     | PublicationRejected reason \<Rightarrow> publication_rejected reason s
     | PublicationAwaitingApproval reason \<Rightarrow> publication_awaiting_approval reason s
     | PublicationReanchorRequired reason target \<Rightarrow> publication_reanchor_required cfg reason target s
     | PublicationReanchored \<Rightarrow> publication_reanchored s
     | CiVerified outcome \<Rightarrow> ci_verified lc cfg outcome s
     | CiFixed outcome \<Rightarrow> ci_fix outcome s
     | CiFixPrepared outcome \<Rightarrow> ci_fix_prepared outcome s
     | CiFixCommitted head \<Rightarrow> ci_fix_committed head s
     | KnowledgeCurationPrepared outcome \<Rightarrow> knowledge_curation_prepared outcome s
     | KnowledgeCurated outcome \<Rightarrow> knowledge_curated outcome s
     | ArchivalPrepared outcome \<Rightarrow> archival_prepared outcome s
     | ArchiveCiReconfirmed head outcome \<Rightarrow> archive_ci_reconfirmed lc cfg head outcome s
     | CleanupComplete \<Rightarrow> cleanup_complete s)"

text \<open>The whole \<open>match\<close> of \<open>apply\<close>; \<open>Recover\<close> also reads and takes the recovery target.\<close>

definition run_command ::
    "(string \<Rightarrow> string) \<Rightarrow> processor_command \<Rightarrow> processor \<Rightarrow> (processor_error + effect list) \<times> processor" where
  "run_command lc command p =
    (case command of
       Recover present \<Rightarrow> recover present p
     | _ \<Rightarrow> (case dispatch lc (pr_config p) command (pr_state p) of
              (r, s) \<Rightarrow> (r, p\<lparr>pr_state := s\<rparr>)))"

definition is_budget_check :: "processor_command \<Rightarrow> bool" where
  "is_budget_check c =
    (case c of TokenBudgetChecked _ _ \<Rightarrow> True | CohortBudgetChecked _ _ \<Rightarrow> True | _ \<Rightarrow> False)"

definition is_recover :: "processor_command \<Rightarrow> bool" where
  "is_recover c = (case c of Recover _ \<Rightarrow> True | _ \<Rightarrow> False)"

definition passes_pause :: "processor_command \<Rightarrow> bool" where
  "passes_pause c = (case c of Resume \<Rightarrow> True | Block _ \<Rightarrow> True | _ \<Rightarrow> False)"

definition is_wait :: "effect \<Rightarrow> bool" where
  "is_wait e = (case e of WaitForOperator _ \<Rightarrow> True | _ \<Rightarrow> False)"

definition with_checkpoint :: "effect list \<Rightarrow> effect list" where
  "with_checkpoint effects =
    (case effects of [] \<Rightarrow> [] | e # _ \<Rightarrow> if is_wait e then effects else PersistCheckpoint # effects)"

definition apply_command ::
    "(string \<Rightarrow> string) \<Rightarrow> processor_command \<Rightarrow> processor \<Rightarrow> (processor_error + effect list) \<times> processor" where
  "apply_command lc command p =
    (if st_phase (pr_state p) = phase.Blocked \<and> \<not> is_recover command then
       (Inr [WaitForOperator (or_default ''processor is blocked'' (st_blocked_reason (pr_state p)))], p)
     else if st_phase (pr_state p) = Paused \<and> \<not> passes_pause command then
       (Inr [WaitForOperator ''PAUSE is active''], p)
     else
       (case run_command lc command p of
          (Inl e, p) \<Rightarrow> (Inl e, p)
        | (Inr effects, p) \<Rightarrow>
            (Inr (with_checkpoint
                    (if is_budget_check command then effects
                     else guard_model_effects (pr_config p) effects)), p)))"

text \<open>\<open>ProcessorRuntime::apply_internal\<close> runs a command on a clone and adopts it only on \<open>Ok\<close>.\<close>

definition accept ::
    "(string \<Rightarrow> string) \<Rightarrow> processor_command \<Rightarrow> processor \<Rightarrow> (processor_error + effect list) \<times> processor" where
  "accept lc command p =
    (case apply_command lc command p of
       (Inl e, _) \<Rightarrow> (Inl e, p)
     | (Inr effects, p') \<Rightarrow> (Inr effects, p'))"

end
