(* ===== verification/ProcessorKeeps.thy ===== *)
theory ProcessorKeeps
  imports Processor
begin

text \<open>
  The invariants of the reducer. \<open>keeps\<close> relates the states around one handler that neither opens
  a cohort nor admits tasks: every task evolves along its lifecycle and the bounds of the cohort are
  kept. \<open>effects_ok\<close> states what holds in the resulting state for the effects that publish, destroy
  or release. One lemma per handler feeds the two collections; the theorems about
  \<open>apply_command\<close> combine them.
\<close>

section \<open>The lifecycle of a task\<close>

inductive task_phase_step :: "task_phase \<Rightarrow> task_phase \<Rightarrow> bool" where
  workspace: "task_phase_step Capturing Implementing"
| implemented: "task_phase_step Implementing Committing"
| fixed: "task_phase_step Fixing Committing"
| committed: "task_phase_step Committing Reviewing"
| clean: "task_phase_step Reviewing task_phase.Ready"
| findings: "task_phase_step Reviewing Fixing"
| merge_conflict: "task_phase_step task_phase.Ready ResolvingMerge"
| merged: "task_phase_step task_phase.Ready task_phase.Merged"
| resolved: "task_phase_step ResolvingMerge task_phase.Merged"
| quarantined: "task_phase_step task_phase.Ready task_phase.Conflict"
| unresolved: "task_phase_step ResolvingMerge task_phase.Conflict"
| publication: "task_phase_step task_phase.Merged task_phase.Published"
| reanchored: "task_phase_step task_phase.Merged task_phase.Ready"
| rejected: "task_phase_step task_phase.Merged task_phase.Escalated"
| archived: "task_phase_step task_phase.Published Done"
| escalated: "is_active p \<Longrightarrow> task_phase_step p task_phase.Escalated"

inductive_simps task_phase_step_simps [simp]: "task_phase_step p q"

definition phase_moves :: "task_phase \<Rightarrow> task_phase \<Rightarrow> bool" where
  "phase_moves p q \<longleftrightarrow> q = p \<or> task_phase_step p q"

lemma phase_moves_active: "phase_moves p q \<Longrightarrow> is_active q \<Longrightarrow> is_active p"
  by (auto simp: phase_moves_def is_active_def)

definition risk_raised :: "risk option \<Rightarrow> risk option \<Rightarrow> bool" where
  "risk_raised a b \<longleftrightarrow> b = a \<or> (\<exists>x y. a = Some x \<and> b = Some y \<and> x < y)"

definition review_ok :: "processor_config \<Rightarrow> task_runtime \<Rightarrow> bool" where
  "review_ok cfg t \<longleftrightarrow>
    tr_review_cycles t \<le> cf_review_loop_max cfg
    \<and> (if tr_phase t = Reviewing then tr_review_cycles t < cf_review_loop_max cfg else True)"

definition task_evolves :: "processor_config \<Rightarrow> task_runtime \<Rightarrow> task_runtime \<Rightarrow> bool" where
  "task_evolves cfg t t' \<longleftrightarrow>
    tr_id t' = tr_id t \<and> tr_conflict_domain t' = tr_conflict_domain t \<and> tr_level t' = tr_level t
    \<and> tr_wave t' = tr_wave t
    \<and> phase_moves (tr_phase t) (tr_phase t')
    \<and> risk_raised (tr_risk t) (tr_risk t')
    \<and> min u32_max (tr_review_cycles t) \<le> tr_review_cycles t'
    \<and> (review_ok cfg t \<longrightarrow> review_ok cfg t')"

lemma task_evolves_refl [simp]: "task_evolves cfg t t"
  by (simp add: task_evolves_def phase_moves_def risk_raised_def)

section \<open>What a handler keeps\<close>

definition batch_kept :: "cohort_runtime option \<Rightarrow> cohort_runtime option \<Rightarrow> bool" where
  "batch_kept b b' \<longleftrightarrow>
    rel_option (\<lambda>x y. co_id y = co_id x \<and> co_base y = co_base x
      \<and> co_started_at_secs y = co_started_at_secs x
      \<and> co_admitted_total y = co_admitted_total x) b b' \<or> b' = None"

definition tip_verified :: "processor_state \<Rightarrow> bool" where
  "tip_verified s \<longleftrightarrow>
    ig_verification_head (st_integration s) = None
    \<or> ig_verification_head (st_integration s) = ig_integration_head (st_integration s)"

definition reanchor_bounded :: "processor_config \<Rightarrow> processor_state \<Rightarrow> bool" where
  "reanchor_bounded cfg s \<longleftrightarrow>
    ig_publication_reanchor_cycles (st_integration s) \<le> cf_integration_loop_max cfg"

definition keeps :: "processor_config \<Rightarrow> processor_state \<Rightarrow> processor_state \<Rightarrow> bool" where
  "keeps cfg s s' \<longleftrightarrow>
    entries_rel (task_evolves cfg) (st_tasks s) (st_tasks s')
    \<and> batch_kept (st_batch s) (st_batch s')
    \<and> (tip_verified s \<longrightarrow> tip_verified s')
    \<and> (reanchor_bounded cfg s \<longrightarrow> reanchor_bounded cfg s')"

text \<open>The parts of the state the relation reads are untouched.\<close>

definition same_core :: "processor_state \<Rightarrow> processor_state \<Rightarrow> bool" where
  "same_core s s' \<longleftrightarrow>
    st_tasks s' = st_tasks s \<and> batch_kept (st_batch s) (st_batch s')
    \<and> ig_verification_head (st_integration s') = ig_verification_head (st_integration s)
    \<and> ig_integration_head (st_integration s') = ig_integration_head (st_integration s)
    \<and> ig_publication_reanchor_cycles (st_integration s')
        = ig_publication_reanchor_cycles (st_integration s)"

lemma batch_kept_refl [simp]: "batch_kept b b"
  by (cases b) (simp_all add: batch_kept_def)

lemma batch_kept_trans: "batch_kept a b \<Longrightarrow> batch_kept b c \<Longrightarrow> batch_kept a c"
  by (cases a; cases b; cases c) (auto simp: batch_kept_def)

lemma same_core_refl [simp]: "same_core s s"
  by (simp add: same_core_def)

lemma same_core_trans: "same_core a b \<Longrightarrow> same_core b c \<Longrightarrow> same_core a c"
  by (auto simp: same_core_def intro: batch_kept_trans)

lemma keeps_same: "same_core s s' \<Longrightarrow> keeps cfg s s'"
  by (simp add: keeps_def same_core_def tip_verified_def reanchor_bounded_def entries_rel_refl)

lemma keeps_then_same: "keeps cfg a b \<Longrightarrow> same_core b c \<Longrightarrow> keeps cfg a c"
  by (auto simp: keeps_def same_core_def tip_verified_def reanchor_bounded_def intro: batch_kept_trans)

lemma same_then_keeps: "same_core a b \<Longrightarrow> keeps cfg b c \<Longrightarrow> keeps cfg a c"
  by (auto simp: keeps_def same_core_def tip_verified_def reanchor_bounded_def intro: batch_kept_trans)

lemma keeps_put:
  "map_of (st_tasks s) i = Some t \<Longrightarrow> task_evolves cfg t t' \<Longrightarrow> keeps cfg s (put_task i t' s)"
  by (simp add: keeps_def put_task_def tip_verified_def reanchor_bounded_def entries_rel_set)

section \<open>What holds when an effect is emitted\<close>

definition ready_to_merge :: "processor_state \<Rightarrow> string \<Rightarrow> bool" where
  "ready_to_merge s i \<longleftrightarrow>
    list_ex (\<lambda>t. tr_id t = i \<and> tr_phase t = task_phase.Ready) (bt_values (st_tasks s))"

definition effect_ok :: "processor_state \<Rightarrow> effect \<Rightarrow> bool" where
  "effect_ok s e =
    (let g = st_integration s in
     case e of
       Publish i \<Rightarrow>
         st_phase s = Publishing \<and> map_option co_id (st_batch s) = Some i
         \<and> ig_integration_head g \<noteq> None \<and> ig_verification_head g = ig_integration_head g
     | VerifyIntegration head \<Rightarrow> st_phase s = Publishing \<and> ig_integration_head g = Some head
     | VerifyCi head \<Rightarrow> st_phase s = Publishing \<and> ig_published_head g = Some head
     | MergeTask i \<Rightarrow>
         ig_workspace_prepared g \<and> ig_pending_merge_resolution g = None \<and> ready_to_merge s i
     | ArchiveTask i \<Rightarrow> st_phase s = Cleaning \<and> ig_archive_ci_gate g \<noteq> None
     | CleanupTaskWorkspace i \<Rightarrow> st_phase s = Cleaning \<and> ig_archive_ci_gate g \<noteq> None
     | CleanupIntegrationWorkspace \<Rightarrow> st_phase s = Cleaning \<and> ig_archive_ci_gate g \<noteq> None
     | CleanupCohortControlPlane \<Rightarrow> st_phase s = Cleaning \<and> ig_archive_ci_gate g \<noteq> None
     | ReleaseLease \<Rightarrow> st_phase s = Idle \<and> st_batch s = None
     | _ \<Rightarrow> True)"

definition effects_ok :: "processor_state \<Rightarrow> effect list \<Rightarrow> bool" where
  "effects_ok s es \<longleftrightarrow> list_all (effect_ok s) es"

lemma effects_ok_simps [simp]:
  "effects_ok s []" "effects_ok s (e # es) \<longleftrightarrow> effect_ok s e \<and> effects_ok s es"
  "effects_ok s (es @ es') \<longleftrightarrow> effects_ok s es \<and> effects_ok s es'"
  by (simp_all add: effects_ok_def)

lemma effect_ok_plain [simp]:
  "effect_ok s PersistCheckpoint" "effect_ok s (Reconcile i)" "effect_ok s (ReconcileInbox n)"
  "effect_ok s ReconcileInboxFinalization" "effect_ok s (DispatchDependencyCurator b)"
  "effect_ok s (DispatchInboxCurator n m)" "effect_ok s (DrainQueueInbox n)"
  "effect_ok s (PlanNextWave n)" "effect_ok s (CheckTokenBudget c)" "effect_ok s (CheckCohortBudget c)"
  "effect_ok s (EnsureTaskWorkspace i j)" "effect_ok s (PrepareTaskReview i)"
  "effect_ok s (PrepareTaskLeaf i k)" "effect_ok s (DispatchTask i k)" "effect_ok s (CommitTask i)"
  "effect_ok s (PrepareIntegrationWorkspace i)" "effect_ok s (FinalizeMergeResolution i)"
  "effect_ok s (AbortMergeResolution i j)" "effect_ok s (DispatchIntegration k)"
  "effect_ok s CommitIntegrationFix" "effect_ok s (ReanchorPublication i)" "effect_ok s (Notify v i)"
  "effect_ok s PrepareCiFix" "effect_ok s CommitCiFix" "effect_ok s PrepareKnowledgeCuration"
  "effect_ok s PrepareArchival" "effect_ok s (ReconfirmCiBeforeArchive i l)"
  "effect_ok s (ReturnTask i j)" "effect_ok s (EscalateTask i j)" "effect_ok s WriteJournalAndStatus"
  "effect_ok s (WaitForOperator i)"
  by (simp_all add: effect_ok_def)

lemma cleanup_effects_ok: "st_phase s = Cleaning \<Longrightarrow> effects_ok s (cleanup_effects s)"
proof -
  assume c: "st_phase s = Cleaning"
  have "ig_archive_ci_gate (st_integration s) \<noteq> None \<Longrightarrow> effects_ok s (task_cleanup_effects t)" for t
    using c by (simp add: task_cleanup_effects_def effect_ok_def)
  then have "ig_archive_ci_gate (st_integration s) \<noteq> None \<Longrightarrow>
      effects_ok s (concat (map task_cleanup_effects ts))" for ts
    by (induction ts) simp_all
  then show ?thesis using c by (auto simp: cleanup_effects_def Let_def effect_ok_def)
qed


section \<open>Subroutines\<close>

lemma same_core_phase [simp]: "same_core s (s\<lparr>st_phase := p\<rparr>)"
  by (simp add: same_core_def)

lemma same_core_blocked [simp]: "same_core s (s\<lparr>st_phase := p, st_blocked_reason := r\<rparr>)"
  "same_core s (s\<lparr>st_blocked_reason := r, st_phase := p\<rparr>)"
  by (simp_all add: same_core_def)

lemma dispatch_integration_same:
  "dispatch_integration k s = (e, s') \<Longrightarrow> same_core s s' \<and> e = DispatchIntegration k"
  by (auto simp: dispatch_integration_def same_core_def)

lemma close_admission_same [simp]: "same_core s (close_admission r s)"
  by (cases "st_batch s") (simp_all add: close_admission_def same_core_def batch_kept_def)

lemma close_for_budget_same [simp]: "same_core s (close_for_budget_if_needed cfg n s)"
  by (auto simp: close_for_budget_if_needed_def Let_def split: option.splits admission_gate.splits)

lemma add_degradation_same [simp]: "same_core s (add_degradation d s)"
  by (simp add: add_degradation_def same_core_def)

lemma note_sandbox_downgrade_same [simp]: "same_core s (note_sandbox_downgrade d s)"
  by (simp add: note_sandbox_downgrade_def)

lemma push_degradation_same [simp]: "same_core s (push_degradation d s)"
  by (simp add: push_degradation_def)

lemma after_admission_closed_same:
  assumes "after_admission_closed s = (Inr es, s')"
  shows "same_core s s'" "effects_ok s' es"
  using assms cleanup_effects_ok[of "s\<lparr>st_phase := Cleaning\<rparr>"]
  by (auto simp: after_admission_closed_def Let_def split: if_splits)

lemma ready_to_mergeI: "tasks_ready_to_merge s = t # ts \<Longrightarrow> ready_to_merge s (tr_id t)"
proof -
  assume "tasks_ready_to_merge s = t # ts"
  then have "t \<in> set (tasks_ready_to_merge s)" by simp
  then show ?thesis by (auto simp: tasks_ready_to_merge_def ready_to_merge_def list_ex_iff)
qed

lemma next_merge_or_review_same:
  assumes "next_merge_or_review s = (Inr es, s')"
  shows "same_core s s'" "effects_ok s' es"
proof -
  show "same_core s s'"
    using assms
    by (auto simp: next_merge_or_review_def dispatch_integration_def same_core_def
        split: if_splits list.splits)
  show "effects_ok s' es"
    using assms ready_to_mergeI[of s]
    by (auto simp: next_merge_or_review_def dispatch_integration_def effect_ok_def
        split: if_splits list.splits)
qed

lemma fail_integration_same:
  assumes "fail_integration r s = (Inr es, s')"
  shows "same_core s s'" "effects_ok s' es"
  using assms by (auto simp: fail_integration_def Let_def same_core_def)

lemma block_with_same:
  assumes "block_with r s = (Inr es, s')"
  shows "same_core s s'" "effects_ok s' es"
  using assms by (auto simp: block_with_def)

lemma publishing_resume_same:
  assumes "publishing_resume_effect cfg s = (Inr e, s')" "st_phase s = Publishing"
  shows "same_core s s'" "effect_ok s' e"
proof -
  show "same_core s s'"
    using assms
    by (auto simp: publishing_resume_effect_def Let_def dispatch_integration_def same_core_def
        split: if_splits option.splits)
  show "effect_ok s' e"
    using assms
    by (auto simp: publishing_resume_effect_def Let_def dispatch_integration_def effect_ok_def
        split: if_splits option.splits)
qed

lemma hold_ci_same:
  assumes "hold_failed_published_ci r s = (Inr es, s')"
  shows "same_core s s'" "effects_ok s' es"
proof -
  show "same_core s s'"
    using assms
    by (auto simp: hold_failed_published_ci_def Let_def push_degradation_def add_degradation_def same_core_def)
  show "effects_ok s' es"
    using assms by (auto simp: hold_failed_published_ci_def Let_def)
qed

section \<open>Moves of one task\<close>

definition well_keyed :: "processor_state \<Rightarrow> bool" where
  "well_keyed s \<longleftrightarrow> bt_invar (st_tasks s) \<and> list_all (\<lambda>(k, t). tr_id t = k) (st_tasks s)"

lemma escalate_task_keeps:
  assumes "escalate_task i r t s = (Inr es, s')" "map_of (st_tasks s) i = Some t0"
    and "task_evolves cfg t0 (t\<lparr>tr_phase := task_phase.Escalated, tr_reason := Some r\<rparr>)"
  shows "keeps cfg s s'" "effects_ok s' es"
  using assms keeps_put by (auto simp: escalate_task_def)

lemma task_leaf_attempt_fields [simp]:
  "tr_id (snd (task_leaf_attempt k t)) = tr_id t"
  "tr_conflict_domain (snd (task_leaf_attempt k t)) = tr_conflict_domain t"
  "tr_level (snd (task_leaf_attempt k t)) = tr_level t"
  "tr_wave (snd (task_leaf_attempt k t)) = tr_wave t"
  "tr_phase (snd (task_leaf_attempt k t)) = tr_phase t"
  "tr_risk (snd (task_leaf_attempt k t)) = tr_risk t"
  "tr_review_cycles (snd (task_leaf_attempt k t)) = tr_review_cycles t"
  "tr_review_sha (snd (task_leaf_attempt k t)) = tr_review_sha t"
  by (simp_all add: task_leaf_attempt_def bump_attempt_def Let_def)

lemmas evolves_defs =
  task_evolves_def phase_moves_def risk_raised_def review_ok_def is_active_def

lemma workspace_ready_ok:
  assumes "workspace_ready i s = (Inr es, s')"
  shows "keeps cfg s s'" "effects_ok s' es"
  using assms
  by (auto simp: workspace_ready_def evolves_defs intro!: keeps_put split: if_splits)

lemma workspace_failed_ok:
  assumes "workspace_failed i r s = (Inr es, s')"
  shows "keeps cfg s s'" "effects_ok s' es"
proof -
  obtain t where t: "map_of (st_tasks s) i = Some t" "tr_phase t = Capturing"
      "escalate_task i r t s = (Inr es, s')"
    using assms by (auto simp: workspace_failed_def)
  then show "keeps cfg s s'" "effects_ok s' es"
    using escalate_task_keeps[OF t(3,1), of cfg] by (auto simp: evolves_defs)
qed


lemma raise_task_risk_Inr:
  "raise_task_risk r t = Inr t' \<longleftrightarrow> (\<exists>a. tr_risk t = Some a \<and> a < r \<and> t' = t\<lparr>tr_risk := Some r\<rparr>)"
  by (auto simp: raise_task_risk_def validate_task_risk_elevation_def split: option.splits)

lemma clear_pending_fix_fields [simp]:
  "tr_id (clear_pending_fix t) = tr_id t" "tr_conflict_domain (clear_pending_fix t) = tr_conflict_domain t"
  "tr_level (clear_pending_fix t) = tr_level t" "tr_wave (clear_pending_fix t) = tr_wave t"
  "tr_phase (clear_pending_fix t) = tr_phase t" "tr_risk (clear_pending_fix t) = tr_risk t"
  "tr_review_cycles (clear_pending_fix t) = tr_review_cycles t"
  by (simp_all add: clear_pending_fix_def)

lemma set_author_fields [simp]:
  "tr_id (set_author a t) = tr_id t" "tr_conflict_domain (set_author a t) = tr_conflict_domain t"
  "tr_level (set_author a t) = tr_level t" "tr_wave (set_author a t) = tr_wave t"
  "tr_risk (set_author a t) = tr_risk t" "tr_review_cycles (set_author a t) = tr_review_cycles t"
  by (simp_all add: set_author_def)

text \<open>A leaf result touches the pending-fix record, the author, the risk and the phase only.\<close>

definition leaf_variant :: "task_runtime \<Rightarrow> task_runtime \<Rightarrow> bool" where
  "leaf_variant t t' \<longleftrightarrow>
    tr_id t' = tr_id t \<and> tr_conflict_domain t' = tr_conflict_domain t \<and> tr_level t' = tr_level t
    \<and> tr_wave t' = tr_wave t \<and> tr_phase t' = tr_phase t \<and> risk_raised (tr_risk t) (tr_risk t')
    \<and> tr_review_cycles t' = tr_review_cycles t"

lemma leaf_variant_refl [simp]: "leaf_variant t t"
  by (simp add: leaf_variant_def risk_raised_def)

lemma leaf_variant_clear [simp]: "leaf_variant t t' \<Longrightarrow> leaf_variant t (clear_pending_fix t')"
  by (simp add: leaf_variant_def)

lemma commit_leaf_keeps:
  assumes "commit_leaf i a t' s = (Inr es, s')" "map_of (st_tasks s) i = Some t"
    "leaf_variant t t'" "tr_phase t \<in> {Implementing, Fixing}"
  shows "keeps cfg s s'" "effects_ok s' es"
  using assms
  by (auto simp: commit_leaf_def leaf_variant_def task_evolves_def phase_moves_def review_ok_def
      intro!: keeps_put)

lemma escalate_leaf_keeps:
  assumes "escalate_task i r t' s = (Inr es, s')" "map_of (st_tasks s) i = Some t"
    "leaf_variant t t'" "is_active (tr_phase t)"
  shows "keeps cfg s s'" "effects_ok s' es"
  using assms
  by (auto simp: escalate_task_def leaf_variant_def task_evolves_def phase_moves_def review_ok_def
      intro!: keeps_put)

lemma leaf_wont_fix_keeps:
  assumes "leaf_wont_fix i a n t' s = (Inr es, s')" "map_of (st_tasks s) i = Some t"
    "leaf_variant t t'" "tr_phase t \<in> {Implementing, Fixing}"
  shows "keeps cfg s s'" "effects_ok s' es"
proof -
  have act: "is_active (tr_phase t)" using assms(4) by (auto simp: is_active_def)
  have v: "leaf_variant t (clear_pending_fix t')" using assms(3) by simp
  show "keeps cfg s s'" "effects_ok s' es"
    using assms(1) commit_leaf_keeps[OF _ assms(2) v assms(4)] escalate_leaf_keeps[OF _ assms(2) v act]
    by (auto simp: leaf_wont_fix_def Let_def split: option.splits)
qed

lemma leaf_risk_elevated_keeps:
  assumes "leaf_risk_elevated i k a r n t s = (Inr es, s')" "map_of (st_tasks s) i = Some t"
    "tr_phase t \<in> {Implementing, Fixing}"
  shows "keeps cfg s s'" "effects_ok s' es"
proof -
  have act: "is_active (tr_phase t)" using assms(3) by (auto simp: is_active_def)
  have v: "raise_task_risk r t = Inr t' \<Longrightarrow> leaf_variant t t'" for t'
    by (auto simp: raise_task_risk_Inr leaf_variant_def risk_raised_def)
  show "keeps cfg s s'" "effects_ok s' es"
    using assms(1) escalate_leaf_keeps[OF _ assms(2) leaf_variant_refl act]
      commit_leaf_keeps[OF _ assms(2) leaf_variant_clear[OF v] assms(3)]
      leaf_wont_fix_keeps[OF _ assms(2) v assms(3)]
    by (auto simp: leaf_risk_elevated_def split: sum.splits option.splits if_splits)
qed

lemma leaf_kind_of_phase_Inr:
  "leaf_kind_of_phase i x t = Inr k \<longleftrightarrow>
     (tr_phase t = Implementing \<and> k = Implement) \<or> (tr_phase t = Fixing \<and> k = Fix)"
  by (auto simp: leaf_kind_of_phase_def split: task_phase.splits)

lemma task_leaf_ok:
  assumes "task_leaf cfg i out s = (Inr es, s')"
  shows "keeps cfg s s'" "effects_ok s' es"
proof -
  obtain t k where t: "map_of (st_tasks s) i = Some t" and k: "leaf_kind_of_phase i ''implementation or fix leaf'' t = Inr k"
    using assms by (auto simp: task_leaf_def)
  have ph: "tr_phase t \<in> {Implementing, Fixing}" using k by (auto simp: leaf_kind_of_phase_Inr)
  have act: "is_active (tr_phase t)" using ph by (auto simp: is_active_def)
  note rules = commit_leaf_keeps[OF _ t leaf_variant_clear[OF leaf_variant_refl] ph]
    leaf_wont_fix_keeps[OF _ t leaf_variant_refl ph] leaf_risk_elevated_keeps[OF _ t ph]
    escalate_leaf_keeps[OF _ t leaf_variant_refl act]
  have retry: "keeps cfg s (put_task i (snd (task_leaf_attempt k t)) s)"
    using t by (intro keeps_put) (auto simp: evolves_defs)
  show "keeps cfg s s'" "effects_ok s' es"
    using assms t k rules retry
    by (auto simp: task_leaf_def schedule_leaf_retry_def split: leaf_outcome.splits if_splits)
qed

lemma task_leaf_prepared_ok:
  assumes "task_leaf_prepared i out s = (Inr es, s')"
  shows "keeps cfg s s'" "effects_ok s' es"
proof -
  define s0 where "s0 = (case out of
      task_leaf_preparation_outcome.SandboxDowngraded scope \<Rightarrow> note_sandbox_downgrade scope s | _ \<Rightarrow> s)"
  have s0: "same_core s s0" by (auto simp: s0_def split: task_leaf_preparation_outcome.splits)
  obtain t k where t: "map_of (st_tasks s0) i = Some t"
    and k: "leaf_kind_of_phase i ''implementation or fix Codex preparation'' t = Inr k"
    using assms by (auto simp: task_leaf_prepared_def s0_def[symmetric] Let_def)
  have ph: "tr_phase t \<in> {Implementing, Fixing}" using k by (auto simp: leaf_kind_of_phase_Inr)
  have act: "is_active (tr_phase t)" using ph by (auto simp: is_active_def)
  note rules = commit_leaf_keeps[OF _ t leaf_variant_clear[OF leaf_variant_refl] ph]
    leaf_wont_fix_keeps[OF _ t leaf_variant_refl ph] leaf_risk_elevated_keeps[OF _ t ph]
    escalate_leaf_keeps[OF _ t leaf_variant_refl act]
  have "keeps cfg s0 s' \<and> effects_ok s' es"
    using assms t k rules
    by (auto simp: task_leaf_prepared_def s0_def[symmetric] Let_def keeps_same
        split: task_leaf_preparation_outcome.splits if_splits)
  then show "keeps cfg s s'" "effects_ok s' es" using s0 same_then_keeps by blast+
qed

lemma task_committed_ok:
  assumes "task_committed cfg i c s = (Inr es, s')"
  shows "keeps cfg s s'" "effects_ok s' es"
  using assms
  by (auto simp: task_committed_def Let_def escalate_task_def evolves_defs intro!: keeps_put
      split: if_splits)


lemma put_put [simp]: "put_task i t (put_task i u s) = put_task i t s"
proof -
  have "bt_set i t (bt_set i u m) = bt_set i t m" for m :: "(string, task_runtime) btmap"
    by (induction m) auto
  then show ?thesis by (simp add: put_task_def)
qed

lemma sat_bump_le: "c < m \<Longrightarrow> sat_add32 c (Suc 0) \<le> m"
  using sat_add32_le[of c "Suc 0"] by simp

lemma sat_bump_mono [simp]: "min u32_max c \<le> sat_add32 c (Suc 0)"
  by (simp add: sat_add32_def)

text \<open>A review result on a task under review, with its counter bumped.\<close>

definition review_variant :: "task_runtime \<Rightarrow> task_runtime \<Rightarrow> bool" where
  "review_variant t t' \<longleftrightarrow>
    tr_id t' = tr_id t \<and> tr_conflict_domain t' = tr_conflict_domain t \<and> tr_level t' = tr_level t
    \<and> tr_wave t' = tr_wave t \<and> risk_raised (tr_risk t) (tr_risk t')
    \<and> tr_review_cycles t' = sat_add32 (tr_review_cycles t) 1"

lemma review_variant_evolves:
  assumes "review_variant t t'" "tr_phase t = Reviewing"
    "tr_phase t' \<in> {task_phase.Ready, Fixing, task_phase.Escalated}
     \<or> (tr_phase t' = Reviewing \<and> tr_review_cycles t' < cf_review_loop_max cfg)"
  shows "task_evolves cfg t t'"
  using assms sat_bump_le[of "tr_review_cycles t" "cf_review_loop_max cfg"]
  by (auto simp: review_variant_def task_evolves_def phase_moves_def review_ok_def is_active_def)

definition task_moved ::
    "processor_config \<Rightarrow> string \<Rightarrow> task_runtime \<Rightarrow> processor_state \<Rightarrow> processor_state \<Rightarrow> bool" where
  "task_moved cfg i t s s' \<longleftrightarrow> (\<exists>t'. task_evolves cfg t t' \<and> s' = put_task i t' s)"

lemma task_moved_keeps: "task_moved cfg i t s s' \<Longrightarrow> map_of (st_tasks s) i = Some t \<Longrightarrow> keeps cfg s s'"
  by (auto simp: task_moved_def intro: keeps_put)

lemma task_movedI: "task_evolves cfg t t' \<Longrightarrow> task_moved cfg i t s (put_task i t' s)"
  by (auto simp: task_moved_def)

lemma review_clean_moved:
  assumes "review_clean cfg i sha t1 s = (Inr es, s')" "tr_phase t = Reviewing"
    "leaf_variant t t1"
  shows "task_moved cfg i t s s' \<and> effects_ok s' es"
  using assms
  by (auto simp: review_clean_def Let_def escalate_task_def review_variant_def
      leaf_variant_def intro!: task_movedI review_variant_evolves split: if_splits)

lemma review_findings_moved:
  assumes "review_findings lc cfg i sg n ids t1 s = (Inr es, s')" "tr_phase t = Reviewing"
    "leaf_variant t t1"
  shows "task_moved cfg i t s s' \<and> effects_ok s' es"
  using assms
  by (auto simp: review_findings_def Let_def escalate_task_def review_variant_def
      leaf_variant_def intro!: task_movedI review_variant_evolves split: option.splits)

lemma escalate_review_moved:
  assumes "escalate_task i r t s = (Inr es, s')" "tr_phase t = Reviewing"
  shows "task_moved cfg i t s s' \<and> effects_ok s' es"
  using assms
  by (auto simp: escalate_task_def evolves_defs intro!: task_movedI)

lemma raise_variant: "raise_task_risk r t = Inr t' \<Longrightarrow> leaf_variant t t'"
  by (auto simp: raise_task_risk_Inr leaf_variant_def risk_raised_def)

lemma task_review_moved:
  assumes "task_review lc cfg i out s = (Inr es, s')"
  obtains t where "map_of (st_tasks s) i = Some t" "tr_phase t = Reviewing"
    "task_moved cfg i t s s'" "effects_ok s' es"
proof -
  obtain t where t: "map_of (st_tasks s) i = Some t" "tr_phase t = Reviewing"
    using assms by (auto simp: task_review_def)
  have inc: "sat_add32 (tr_review_cycles t) 1 < cf_review_loop_max cfg \<Longrightarrow>
      task_evolves cfg t (snd (task_leaf_attempt Review (t\<lparr>tr_review_cycles := sat_add32 (tr_review_cycles t) 1\<rparr>)))"
    using t by (intro review_variant_evolves) (auto simp: review_variant_def risk_raised_def)
  have esc: "task_evolves cfg t (t\<lparr>tr_review_cycles := sat_add32 (tr_review_cycles t) (Suc 0),
      tr_phase := task_phase.Escalated, tr_reason := Some r\<rparr>)" for r
    using t by (intro review_variant_evolves) (auto simp: review_variant_def risk_raised_def)
  have "task_moved cfg i t s s' \<and> effects_ok s' es"
  proof (cases out)
    case Incomplete
    then show ?thesis using assms t inc esc
      by (auto simp: task_review_def Let_def escalate_task_def intro!: task_movedI split: if_splits)
  next
    case (Escalated r)
    then show ?thesis using assms t esc
      by (auto simp: task_review_def Let_def escalate_task_def intro!: task_movedI)
  qed (use assms t review_clean_moved[OF _ t(2)] review_findings_moved[OF _ t(2)]
        escalate_review_moved[OF _ t(2)] raise_variant[of _ t] in
        \<open>auto simp: task_review_def split: sum.splits\<close>)
  with t that show ?thesis by blast
qed

lemma task_review_ok:
  assumes "task_review lc cfg i out s = (Inr es, s')"
  shows "keeps cfg s s'" "effects_ok s' es"
proof -
  obtain t where "map_of (st_tasks s) i = Some t" "task_moved cfg i t s s'" "effects_ok s' es"
    using task_review_moved[OF assms] by metis
  then show "keeps cfg s s'" "effects_ok s' es" using task_moved_keeps by simp_all
qed

lemma task_review_prepared_ok:
  assumes "task_review_prepared lc cfg i out s = (Inr es, s')"
  shows "keeps cfg s s'" "effects_ok s' es"
proof -
  obtain t where t: "map_of (st_tasks s) i = Some t" "tr_phase t = Reviewing"
    using assms by (auto simp: task_review_prepared_def)
  define t1 where "t1 = (if or_default 0 (map_of (tr_leaf_attempts t) (leaf_kind_as_str Review)) = 0
      then snd (task_leaf_attempt Review t) else t)"
  define s1 where "s1 = (if or_default 0 (map_of (tr_leaf_attempts t) (leaf_kind_as_str Review)) = 0
      then put_task i (snd (task_leaf_attempt Review t)) s else s)"
  have "tr_id t1 = tr_id t" "tr_conflict_domain t1 = tr_conflict_domain t" "tr_level t1 = tr_level t"
    "tr_wave t1 = tr_wave t" "tr_phase t1 = tr_phase t" "tr_risk t1 = tr_risk t"
    "tr_review_cycles t1 = tr_review_cycles t" by (simp_all add: t1_def)
  then have same: "task_evolves cfg t1 u = task_evolves cfg t u" for u
    by (simp add: task_evolves_def review_ok_def)
  have ev: "task_evolves cfg t t1" using same[of t1] by simp
  have look: "map_of (st_tasks s1) i = Some t1" and put: "put_task i u s1 = put_task i u s" for u
    using t by (auto simp: s1_def t1_def put_task_look)
  have k1: "keeps cfg s s1"
    using keeps_put[OF t(1) ev] by (simp add: s1_def t1_def keeps_same split: if_splits)
  have rev: "keeps cfg s s' \<and> effects_ok s' es" if r: "task_review lc cfg i r s1 = (Inr es, s')" for r
  proof -
    obtain u where "map_of (st_tasks s1) i = Some u" "task_moved cfg i u s1 s'" "effects_ok s' es"
      using task_review_moved[OF r] by metis
    then show ?thesis using look put same by (auto simp: task_moved_def intro: keeps_put[OF t(1)])
  qed
  have "keeps cfg s s' \<and> effects_ok s' es"
  proof (cases "tr_review_cycles t \<ge> cf_review_loop_max cfg")
    case True
    then have "escalate_task i (not_converging (tr_review_cycles t)) t s = (Inr es, s')"
      using assms t by (simp add: task_review_prepared_def)
    then show ?thesis using escalate_review_moved[OF _ t(2)] task_moved_keeps[OF _ t(1)] by blast
  next
    case False
    then show ?thesis
      using assms t k1 rev keeps_then_same[OF k1 note_sandbox_downgrade_same]
      by (auto simp: task_review_prepared_def s1_def[symmetric] Let_def
          split: task_review_preparation_outcome.splits)
  qed
  then show "keeps cfg s s'" "effects_ok s' es" by blast+
qed

section \<open>Rolling handlers\<close>

lemma ig_set_same:
  "(\<And>g. ig_verification_head (f g) = ig_verification_head g \<and> ig_integration_head (f g) = ig_integration_head g
     \<and> ig_publication_reanchor_cycles (f g) = ig_publication_reanchor_cycles g) \<Longrightarrow> same_core s (ig_set f s)"
  by (simp add: same_core_def)

lemma dependency_graph_refreshed_ok:
  assumes "dependency_graph_refreshed cfg b out s = (Inr es, s')"
  shows "keeps cfg s s'" "effects_ok s' es"
  using assms
  by (auto simp: dependency_graph_refreshed_def Let_def inbox_reconciliation_effect_def
      add_degradation_def same_core_def intro!: keeps_same
      split: refresh_boundary.splits option.splits)

lemma inbox_ok:
  shows "inbox_reconciled cfg n c s = (Inr es, s') \<Longrightarrow> keeps cfg s s' \<and> effects_ok s' es"
    and "inbox_drained cfg n s = (Inr es, s') \<Longrightarrow> keeps cfg s s' \<and> effects_ok s' es"
    and "inbox_finalization_reconciled c s = (Inr es, s') \<Longrightarrow> keeps cfg s s' \<and> effects_ok s' es"
  by (auto simp: inbox_reconciled_def inbox_drained_def inbox_finalization_reconciled_def keeps_same)

lemma inbox_curated_ok:
  assumes "inbox_curated cfg n m out s = (Inr es, s')"
  shows "keeps cfg s s'" "effects_ok s' es"
  using assms
  by (auto simp: inbox_curated_def Let_def block_with_def intro!: keeps_same
      split: leaf_outcome.splits inbox_curation_mode.splits)

lemma advance_ok:
  assumes "advance cfg n s = (Inr es, s')"
  shows "keeps cfg s s'" "effects_ok s' es"
proof -
  let ?s = "close_for_budget_if_needed cfg n s"
  have "after_admission_closed ?s = (Inr es, s') \<or> (es = [inbox_reconciliation_effect cfg ?s] \<and> s' = ?s)"
    using assms by (auto simp: advance_def Let_def split: if_splits)
  then have "same_core ?s s' \<and> effects_ok s' es"
    using after_admission_closed_same[of ?s es s'] by (auto simp: inbox_reconciliation_effect_def)
  then show "keeps cfg s s'" "effects_ok s' es"
    using keeps_same[OF same_core_trans[OF close_for_budget_same]] by blast+
qed


section \<open>Budget halts\<close>

definition esc :: "string \<Rightarrow> task_runtime \<Rightarrow> task_runtime" where
  "esc r t = t\<lparr>tr_phase := task_phase.Escalated, tr_reason := Some r\<rparr>"

definition halted :: "string \<Rightarrow> task_runtime \<Rightarrow> task_runtime \<Rightarrow> bool" where
  "halted r t t' \<longleftrightarrow> t' = t \<or> (is_active (tr_phase t) \<and> t' = esc r t)"

lemma esc_inactive [simp]: "\<not> is_active (tr_phase (esc r t))"
  by (simp add: esc_def is_active_def)

lemma halted_trans: "halted r a b \<Longrightarrow> halted r b c \<Longrightarrow> halted r a c"
  unfolding halted_def by auto

lemma esc_evolves: "is_active (tr_phase t) \<Longrightarrow> task_evolves cfg t (esc r t)"
  by (simp add: task_evolves_def phase_moves_def risk_raised_def review_ok_def esc_def)

lemma halted_evolves: "halted r t t' \<Longrightarrow> task_evolves cfg t t'"
  unfolding halted_def by (elim disjE conjE) (simp_all add: esc_evolves)

lemma escalate_each_spec:
  assumes "escalate_each r ids effs s = (Inr es, s')"
    "\<forall>i \<in> set ids. \<forall>t. map_of (st_tasks s) i = Some t \<longrightarrow> is_active (tr_phase t) \<or> t = esc r t"
  shows "entries_rel (halted r) (st_tasks s) (st_tasks s')
    \<and> s' = s\<lparr>st_tasks := st_tasks s'\<rparr> \<and> es = effs @ map (\<lambda>i. EscalateTask i r) ids"
  using assms
proof (induction ids arbitrary: effs s)
  case Nil
  then show ?case by (simp add: entries_rel_refl halted_def)
next
  case (Cons i ids)
  obtain t where t: "map_of (st_tasks s) i = Some t"
      "escalate_each r ids (effs @ [EscalateTask i r]) (put_task i (esc r t) s) = (Inr es, s')"
    using Cons.prems(1) by (auto simp: esc_def)
  let ?s = "put_task i (esc r t) s"
  have step: "entries_rel (halted r) (st_tasks s) (st_tasks ?s)"
    using Cons.prems(2) t(1) by (auto simp: put_task_def halted_def intro!: entries_rel_set)
  have "\<forall>j \<in> set ids. \<forall>u. map_of (st_tasks ?s) j = Some u \<longrightarrow> is_active (tr_phase u) \<or> u = esc r u"
    using Cons.prems(2) by (auto simp: put_task_look esc_def)
  from Cons.IH[OF t(2) this] have IH: "entries_rel (halted r) (st_tasks ?s) (st_tasks s')"
      "s' = ?s\<lparr>st_tasks := st_tasks s'\<rparr>" "es = effs @ map (\<lambda>i. EscalateTask i r) (i # ids)" by simp_all
  have "entries_rel (halted r) (st_tasks s) (st_tasks s')"
    by (rule entries_rel_trans[OF halted_trans step IH(1)])
  then show ?case using IH(2,3) by (simp add: put_task_def)
qed

lemma active_ids_active:
  assumes "well_keyed s" "i \<in> set (active_ids s)" "map_of (st_tasks s) i = Some t"
  shows "is_active (tr_phase t)"
proof -
  obtain u where u: "u \<in> set (map snd (st_tasks s))" "tr_id u = i" "is_active (tr_phase u)"
    using assms(2) by (auto simp: active_ids_def bt_values_def)
  then obtain k where k: "(k, u) \<in> set (st_tasks s)" by auto
  then have "k = i" using assms(1) u(2) by (auto simp: well_keyed_def list_all_iff)
  then have "map_of (st_tasks s) i = Some u"
    using k assms(1) by (simp add: well_keyed_def bt_invar_def)
  then show ?thesis using assms(3) u(3) by simp
qed

lemma halt_for_ok:
  assumes "halt_for c r s = (Inr es, s')" "well_keyed s"
  shows "keeps cfg s s'" "effects_ok s' es"
proof -
  define s0 where "s0 = (case st_batch s of
      Some batch \<Rightarrow> (if co_admission_closed batch = None then close_admission c s else s) | None \<Rightarrow> s)"
  have s0: "same_core s s0" "st_tasks s0 = st_tasks s"
    using close_admission_same[of s c] by (auto simp: s0_def close_admission_def split: option.splits)
  obtain e1 s1 e2 where e: "escalate_each r (active_ids s0) [] s0 = (Inr e1, s1)"
      "after_admission_closed s1 = (Inr e2, s')" "es = e1 @ e2"
    using assms(1) by (auto simp: halt_for_def Let_def s0_def[symmetric])
  have wk: "well_keyed s0" using assms(2) s0(2) by (simp add: well_keyed_def)
  have sp: "entries_rel (halted r) (st_tasks s0) (st_tasks s1)" "s1 = s0\<lparr>st_tasks := st_tasks s1\<rparr>"
      "e1 = map (\<lambda>i. EscalateTask i r) (active_ids s0)"
    using escalate_each_spec[OF e(1)] active_ids_active[OF wk] by auto
  have "entries_rel (task_evolves cfg) (st_tasks s0) (st_tasks s1)"
    using sp(1) halted_evolves unfolding entries_rel_def by (auto elim: list_all2_mono)
  then have "keeps cfg s0 s1"
    by (subst sp(2)) (simp add: keeps_def tip_verified_def reanchor_bounded_def)
  moreover note after_admission_closed_same[OF e(2)]
  ultimately show "keeps cfg s s'" using s0(1) same_then_keeps keeps_then_same by blast
  have "effects_ok s' (map (\<lambda>i. EscalateTask i r) ids)" for ids by (induction ids) simp_all
  then show "effects_ok s' es" using after_admission_closed_same(2)[OF e(2)] e(3) sp(3) by simp
qed

text \<open>The effect a budget check releases is a model call, never a publication or a clean-up.\<close>

lemma into_effect_ok [simp]: "effect_ok s (into_effect c)"
  by (cases c) (simp_all add: into_effect_def)

lemma cohort_budget_checked_ok:
  assumes "cohort_budget_checked cfg c n s = (Inr es, s')" "well_keyed s"
  shows "keeps cfg s s'" "effects_ok s' es"
  using assms halt_for_ok[of close_reason.CohortMaxAge _ s es s']
  by (auto simp: cohort_budget_checked_def halt_for_cohort_budget_def Let_def keeps_same split: if_splits)

lemma token_budget_checked_ok:
  assumes "token_budget_checked cfg c obs s = (Inr es, s')" "well_keyed s"
  shows "keeps cfg s s'" "effects_ok s' es"
proof -
  obtain b where b: "st_batch s = Some b" using assms(1) by (auto simp: token_budget_checked_def)
  define nt where "nt = (\<lambda>v. s\<lparr>st_batch := Some (b\<lparr>co_token_budget_actual_tokens := v\<rparr>)\<rparr>)"
  have nt: "same_core s (nt v)" "well_keyed (nt v)" for v
    using b assms(2) by (simp_all add: nt_def same_core_def batch_kept_def well_keyed_def)
  have "(\<exists>v r. halt_for close_reason.CohortTokenBudget r (nt v) = (Inr es, s'))
      \<or> (\<exists>v. s' = nt v \<and> es = [into_effect c])"
  proof (cases obs)
    case (Actual n)
    show ?thesis
    proof (cases "n < the (cf_cohort_token_budget cfg)")
      case True
      then have "s' = nt (Some n) \<and> es = [into_effect c]"
        using assms(1) b Actual by (auto simp: token_budget_checked_def Let_def nt_def)
      then show ?thesis by blast
    next
      case False
      then show ?thesis
        using assms(1) b Actual
        by (auto simp: token_budget_checked_def halt_for_token_budget_def Let_def nt_def)
    qed
  qed (use assms(1) b in
        \<open>auto simp: token_budget_checked_def halt_for_token_budget_def Let_def nt_def\<close>)
  then have "\<exists>v. keeps cfg (nt v) s' \<and> effects_ok s' es"
    using halt_for_ok nt(2) keeps_same[OF same_core_refl] by fastforce
  then show "keeps cfg s s'" "effects_ok s' es" using nt(1) same_then_keeps by blast+
qed


section \<open>Joining and publishing handlers\<close>

lemma integration_workspace_ready_ok:
  assumes "integration_workspace_ready s = (Inr es, s')"
  shows "keeps cfg s s'" "effects_ok s' es"
proof -
  let ?s = "ig_set (\<lambda>i. i\<lparr>ig_workspace_prepared := True, ig_imported_workspace_restore_pending := False\<rparr>) s"
  have n: "next_merge_or_review ?s = (Inr es, s')"
    using assms by (auto simp: integration_workspace_ready_def)
  have "same_core s ?s" by (simp add: same_core_def)
  then show "keeps cfg s s'" "effects_ok s' es"
    using next_merge_or_review_same[OF n] by (auto intro: keeps_same same_core_trans)
qed

lemma record_merged_task_ok:
  assumes "record_merged_task i sha s = (Inr es, s')" "map_of (st_tasks s) i = Some t"
    "tr_phase t \<in> {task_phase.Ready, ResolvingMerge}"
  shows "keeps cfg s s'" "effects_ok s' es"
proof -
  let ?t = "t\<lparr>tr_phase := task_phase.Merged, tr_review_sha := Some sha\<rparr>"
  let ?s = "ig_set (\<lambda>g. g\<lparr>ig_integration_head := Some sha, ig_verification_head := None,
      ig_merged_tasks := bts_insert i (ig_merged_tasks g)\<rparr>) (put_task i ?t s)"
  have n: "next_merge_or_review ?s = (Inr es, s')"
    using assms(1,2) by (auto simp: record_merged_task_def)
  have "task_evolves cfg t ?t" using assms(3) by (auto simp: evolves_defs)
  then have "keeps cfg s ?s"
    using keeps_put[OF assms(2)] by (simp add: keeps_def tip_verified_def reanchor_bounded_def put_task_def)
  then show "keeps cfg s s'" "effects_ok s' es"
    using next_merge_or_review_same[OF n] by (auto intro: keeps_then_same)
qed

lemma quarantine_ok:
  assumes "quarantine_merged_task i r s = (Inr es, s')" "map_of (st_tasks s) i = Some t"
    "tr_phase t \<in> {task_phase.Ready, ResolvingMerge}"
  shows "keeps cfg s s'" "effects_ok s' es"
proof -
  let ?t = "t\<lparr>tr_phase := task_phase.Conflict, tr_reason := Some r\<rparr>"
  obtain more where n: "next_merge_or_review (put_task i ?t s) = (Inr more, s')" "es = ReturnTask i r # more"
    using assms(1,2) by (auto simp: quarantine_merged_task_def)
  have "task_evolves cfg t ?t" using assms(3) by (auto simp: evolves_defs)
  then show "keeps cfg s s'" "effects_ok s' es"
    using next_merge_or_review_same[OF n(1)] keeps_put[OF assms(2)] n(2) by (auto intro: keeps_then_same)
qed

lemma start_merge_resolution_ok:
  assumes "start_merge_resolution i h mp ps pr s = (Inr es, s')" "map_of (st_tasks s) i = Some t"
    "tr_phase t = task_phase.Ready"
  shows "keeps cfg s s'" "effects_ok s' es"
proof -
  let ?t = "t\<lparr>tr_phase := ResolvingMerge\<rparr>"
  let ?m = "\<lparr>mr_task_id = i, mr_pre_merge_head = h, mr_merge_paths = mp, mr_paths = ps, mr_protected_paths = pr\<rparr>"
  let ?s = "ig_set (\<lambda>g. g\<lparr>ig_pending_merge_resolution := Some ?m\<rparr>) (put_task i ?t s)"
  have d: "dispatch_integration Merger ?s = (DispatchIntegration Merger, s')" "es = [DispatchIntegration Merger]"
    using assms(1,2) by (auto simp: start_merge_resolution_def dispatch_integration_def)
  have "task_evolves cfg t ?t" using assms(3) by (auto simp: evolves_defs)
  then have "keeps cfg s ?s"
    using keeps_put[OF assms(2)] by (simp add: keeps_def tip_verified_def reanchor_bounded_def put_task_def)
  then show "keeps cfg s s'" "effects_ok s' es"
    using dispatch_integration_same[OF d(1)] d(2) by (auto intro: keeps_then_same)
qed

lemma task_merged_ok:
  assumes "task_merged i out s = (Inr es, s')"
  shows "keeps cfg s s'" "effects_ok s' es"
proof -
  obtain t where t: "map_of (st_tasks s) i = Some t" "tr_phase t = task_phase.Ready"
    using assms by (auto simp: task_merged_def)
  then have p: "tr_phase t \<in> {task_phase.Ready, ResolvingMerge}" by simp
  show "keeps cfg s s'" "effects_ok s' es"
    using assms t record_merged_task_ok[OF _ t(1) p] quarantine_ok[OF _ t(1) p]
      start_merge_resolution_ok[OF _ t] fail_integration_same keeps_same
    by (auto simp: task_merged_def split: merge_outcome.splits)
qed

lemma merge_resolution_ok:
  assumes "merge_resolution i out s = (Inr es, s')"
  shows "keeps cfg s s'" "effects_ok s' es"
  using assms by (auto simp: merge_resolution_def keeps_same split: leaf_outcome.splits)

lemma clear_pending_merge_same [simp]: "same_core s (clear_pending_merge s)"
  "st_tasks (clear_pending_merge s) = st_tasks s"
  by (simp_all add: clear_pending_merge_def same_core_def)

lemma merge_resolution_finalized_ok:
  assumes "merge_resolution_finalized i out s = (Inr es, s')"
  shows "keeps cfg s s'" "effects_ok s' es"
proof -
  obtain t where t: "map_of (st_tasks (clear_pending_merge s)) i = Some t" "tr_phase t = ResolvingMerge"
    using assms by (auto simp: merge_resolution_finalized_def)
  then have p: "tr_phase t \<in> {task_phase.Ready, ResolvingMerge}" by simp
  note c = same_then_keeps[OF clear_pending_merge_same(1)]
  show "keeps cfg s s'" "effects_ok s' es"
    using assms t c[OF record_merged_task_ok(1)[OF _ t(1) p]] record_merged_task_ok(2)[OF _ t(1) p]
      c[OF quarantine_ok(1)[OF _ t(1) p]] quarantine_ok(2)[OF _ t(1) p] fail_integration_same keeps_same
    by (auto simp: merge_resolution_finalized_def split: merge_outcome.splits)
qed

lemma merge_resolution_aborted_ok:
  assumes "merge_resolution_aborted i r s = (Inr es, s')"
  shows "keeps cfg s s'" "effects_ok s' es"
proof -
  obtain t where t: "map_of (st_tasks (clear_pending_merge s)) i = Some t" "tr_phase t = ResolvingMerge"
    and q: "quarantine_merged_task i r (clear_pending_merge s) = (Inr es, s')"
    using assms by (auto simp: merge_resolution_aborted_def)
  then have p: "tr_phase t \<in> {task_phase.Ready, ResolvingMerge}" by simp
  show "keeps cfg s s'" "effects_ok s' es"
    using same_then_keeps[OF clear_pending_merge_same(1) quarantine_ok(1)[OF q t(1) p]]
      quarantine_ok(2)[OF q t(1) p] by simp_all
qed

lemma keeps_ig:
  assumes "\<And>g. ig_publication_reanchor_cycles (f g) = ig_publication_reanchor_cycles g"
    "tip_verified s \<Longrightarrow> tip_verified (ig_set f s)"
  shows "keeps cfg s (ig_set f s)"
  using assms by (simp add: keeps_def entries_rel_refl reanchor_bounded_def)

lemma integration_verified_ok:
  assumes "integration_verified h out s = (Inr es, s')"
  shows "keeps cfg s s'" "effects_ok s' es"
proof -
  have base: "same_core s (ig_set (\<lambda>g. g\<lparr>ig_verification_attempts := n g\<rparr>) s)" for n
    by (simp add: same_core_def)
  have fail: "fail_integration r (ig_set (\<lambda>g. g\<lparr>ig_verification_attempts := n g\<rparr>) s) = (Inr es, s') \<Longrightarrow>
      keeps cfg s s' \<and> effects_ok s' es" for r n
    using fail_integration_same keeps_same same_core_trans[OF base] by metis
  show "keeps cfg s s'"
    using assms fail
    by (auto simp: integration_verified_def Let_def keeps_def entries_rel_refl tip_verified_def
        reanchor_bounded_def split: verification_outcome.splits)
  show "effects_ok s' es"
    using assms fail
    by (auto simp: integration_verified_def Let_def effect_ok_def split: verification_outcome.splits)
qed


lemma integration_review_ok:
  assumes "integration_review lc cfg out s = (Inr es, s')"
  shows "keeps cfg s s'" "effects_ok s' es"
proof -
  let ?b = "bump_f_cycles s"
  let ?c = "bump_f_cycles (ig_set (\<lambda>g. g\<lparr>ig_verification_head := None\<rparr>) s)"
  have b: "keeps cfg s ?b" by (intro keeps_same) (simp add: bump_f_cycles_def same_core_def)
  have c: "keeps cfg s ?c"
    by (simp add: bump_f_cycles_def keeps_def entries_rel_refl tip_verified_def reanchor_bounded_def)
  have fail: "keeps cfg s u \<Longrightarrow> fail_integration r u = (Inr es, s') \<Longrightarrow> keeps cfg s s' \<and> effects_ok s' es"
    for u r using fail_integration_same keeps_then_same by blast
  have disp: "keeps cfg s u \<Longrightarrow> dispatch_integration k u = (e, s') \<Longrightarrow> keeps cfg s s' \<and> effect_ok s' e"
    for u k e using dispatch_integration_same[of k u e s'] keeps_then_same[of cfg s u s'] by auto
  have "keeps cfg s s' \<and> effects_ok s' es"
  proof (cases out)
    case (Clean sha)
    have v: "keeps cfg s (ig_set (\<lambda>g. g\<lparr>ig_review_sha := Some sha, ig_verification_head := None\<rparr>) ?b)"
      using b by (simp add: keeps_def tip_verified_def reanchor_bounded_def)
    show ?thesis using assms Clean fail[OF b] v
      by (auto simp: integration_review_def Let_def effect_ok_def bump_f_cycles_def split: if_splits)
  next
    case (Findings sg n ids)
    let ?d = "ig_set (\<lambda>g. g\<lparr>ig_signatures := ig_signatures g @ [sg]\<rparr>) ?c"
    have d: "keeps cfg s ?d" using c by (simp add: keeps_def tip_verified_def reanchor_bounded_def)
    show ?thesis using assms Findings fail[OF c] fail[OF d] disp[OF d]
      by (auto simp: integration_review_def Let_def split: if_splits option.splits prod.splits)
  next
    case Incomplete
    then show ?thesis using assms fail[OF b] disp[OF b]
      by (auto simp: integration_review_def Let_def split: if_splits prod.splits)
  qed (use assms fail[OF keeps_same[OF same_core_refl]] in \<open>auto simp: integration_review_def\<close>)
  then show "keeps cfg s s'" "effects_ok s' es" by blast+
qed

lemma integration_fix_ok:
  assumes "integration_fix out s = (Inr es, s')"
  shows "keeps cfg s s'" "effects_ok s' es"
  using assms fail_integration_same keeps_same
  by (auto simp: integration_fix_def split: leaf_outcome.splits)

lemma integration_fix_committed_ok:
  assumes "integration_fix_committed cfg h s = (Inr es, s')"
  shows "keeps cfg s s'" "effects_ok s' es"
proof -
  let ?s = "ig_set (\<lambda>g. g\<lparr>ig_integration_head := Some h, ig_verification_head := None\<rparr>) s"
  have k: "keeps cfg s ?s" by (simp add: keeps_def entries_rel_refl tip_verified_def reanchor_bounded_def)
  have "same_core ?s s' \<and> effects_ok s' es"
    using assms fail_integration_same[of _ ?s es s'] dispatch_integration_same[of IntegrationReview ?s _ s']
    by (auto simp: integration_fix_committed_def Let_def split: if_splits prod.splits)
  then show "keeps cfg s s'" "effects_ok s' es" using k keeps_then_same by blast+
qed

definition moved :: "(task_runtime \<Rightarrow> task_runtime) \<Rightarrow> task_runtime \<Rightarrow> task_runtime \<Rightarrow> bool" where
  "moved f t t' \<longleftrightarrow> t' = t \<or> (tr_phase t = task_phase.Merged \<and> t' = f t)"

lemma move_merged_spec:
  assumes "move_merged f op ids s = (Inr u, s')" "\<And>t. tr_phase (f t) \<noteq> task_phase.Merged"
  shows "entries_rel (moved f) (st_tasks s) (st_tasks s') \<and> s' = s\<lparr>st_tasks := st_tasks s'\<rparr>"
  using assms(1)
proof (induction ids arbitrary: s)
  case Nil
  then show ?case by (simp add: entries_rel_refl moved_def)
next
  case (Cons i ids)
  obtain t where t: "map_of (st_tasks s) i = Some t" "tr_phase t = task_phase.Merged"
      "move_merged f op ids (put_task i (f t) s) = (Inr u, s')"
    using Cons.prems by auto
  let ?s = "put_task i (f t) s"
  have step: "entries_rel (moved f) (st_tasks s) (st_tasks ?s)"
    using t by (auto simp: put_task_def moved_def intro!: entries_rel_set)
  have tr: "moved f a b \<Longrightarrow> moved f b c \<Longrightarrow> moved f a c" for a b c
    using assms(2) unfolding moved_def by auto
  note IH = Cons.IH[OF t(3)]
  have "entries_rel (moved f) (st_tasks s) (st_tasks s')"
    by (rule entries_rel_trans[OF tr step conjunct1[OF IH]])
  moreover have "s' = s\<lparr>st_tasks := st_tasks s'\<rparr>"
    using IH by (metis (no_types, lifting) put_task_def processor_state.surjective processor_state.update_convs(5))
  ultimately show ?case by blast
qed

lemma move_merged_keeps:
  assumes "move_merged f op ids s = (Inr u, s')" "\<And>t. tr_phase (f t) \<noteq> task_phase.Merged"
    "\<And>t. tr_phase t = task_phase.Merged \<Longrightarrow> task_evolves cfg t (f t)"
  shows "keeps cfg s s'" "st_integration s' = st_integration s" "st_batch s' = st_batch s"
    "st_phase s' = st_phase s"
proof -
  note sp = move_merged_spec[OF assms(1,2)]
  have "moved f t t' \<Longrightarrow> task_evolves cfg t t'" for t t'
    using assms(3) unfolding moved_def by auto
  then have "entries_rel (task_evolves cfg) (st_tasks s) (st_tasks s')"
    using sp unfolding entries_rel_def by (auto elim: list_all2_mono)
  then show "keeps cfg s s'"
    using sp by (metis (no_types, lifting) batch_kept_refl keeps_def processor_state.select_convs(4,6)
        processor_state.surjective processor_state.update_convs(5) reanchor_bounded_def tip_verified_def)
  show "st_integration s' = st_integration s" "st_batch s' = st_batch s" "st_phase s' = st_phase s"
    using sp by (metis processor_state.select_convs(2,4,6) processor_state.surjective processor_state.update_convs(5))+
qed

lemma published_ok:
  assumes "published h pushed s = (Inr es, s')"
  shows "keeps cfg s s'" "effects_ok s' es"
proof -
  let ?s = "ig_set (\<lambda>g. g\<lparr>ig_publish_attempts := sat_add32 (ig_publish_attempts g) 1,
      ig_publication_reanchor_reason := None, ig_publication_reanchor_target := None\<rparr>) s"
  let ?f = "\<lambda>t :: task_runtime. t\<lparr>tr_phase := task_phase.Published\<rparr>"
  obtain u s1 where m: "move_merged ?f ''publication'' (ig_merged_tasks (st_integration ?s)) ?s = (Inr u, s1)"
    and s': "s' = ig_set (\<lambda>g. g\<lparr>ig_published_head := Some h, ig_publication_pushed := Some pushed,
          ig_ci_disposition := None, ig_archive_ci_gate := None\<rparr>) s1" "es = [VerifyCi h]"
    and ph: "st_phase s = Publishing"
    using assms by (auto simp: published_def Let_def)
  note k = move_merged_keeps[OF m, of cfg]
  have "keeps cfg ?s s1" by (rule k(1)) (auto simp: evolves_defs)
  moreover have "same_core s ?s" "same_core s1 s'" by (simp_all add: same_core_def s'(1))
  ultimately show "keeps cfg s s'" using same_then_keeps keeps_then_same by blast
  have "st_phase s1 = Publishing" using k(4) ph by (simp add: evolves_defs)
  then show "effects_ok s' es" by (simp add: s' effect_ok_def)
qed

lemma publication_rejected_ok:
  assumes "publication_rejected r s = (Inr es, s')"
  shows "keeps cfg s s'" "effects_ok s' es"
proof -
  let ?f = "\<lambda>t :: task_runtime. t\<lparr>tr_phase := task_phase.Escalated, tr_reason := Some r\<rparr>"
  obtain u s1 cl where m: "move_merged ?f ''publication rejection'' (ig_merged_tasks (st_integration s)) s = (Inr u, s1)"
    and s': "s' = (ig_set (\<lambda>g. g\<lparr>ig_merged_tasks := [], ig_failed_reason := Some r\<rparr>) s1)\<lparr>st_phase := Cleaning\<rparr>"
    and cl: "cleanup_effects s' = WriteJournalAndStatus # cl"
    and es: "es = WriteJournalAndStatus # map (\<lambda>i. EscalateTask i r) (ig_merged_tasks (st_integration s)) @ cl"
    using assms by (auto simp: publication_rejected_def Let_def split_journal_Some split: option.splits)
  have "keeps cfg s s1" by (rule move_merged_keeps(1)[OF m]) (auto simp: evolves_defs)
  moreover have "same_core s1 s'" by (simp add: same_core_def s')
  ultimately show "keeps cfg s s'" using keeps_then_same by blast
  have "effects_ok s' (cleanup_effects s')" by (rule cleanup_effects_ok) (simp add: s')
  moreover have "effects_ok s' (map (\<lambda>i. EscalateTask i r) ids)" for ids by (induction ids) simp_all
  ultimately show "effects_ok s' es" using cl es by simp
qed

lemma publication_awaiting_approval_ok:
  assumes "publication_awaiting_approval r s = (Inr es, s')"
  shows "keeps cfg s s'" "effects_ok s' es"
  using assms by (auto simp: publication_awaiting_approval_def keeps_same)

lemma publication_reanchor_required_ok:
  assumes "publication_reanchor_required cfg r tg s = (Inr es, s')"
  shows "keeps cfg s s'" "effects_ok s' es"
proof -
  show "keeps cfg s s'"
    using assms
    by (auto simp: publication_reanchor_required_def Let_def keeps_def entries_rel_refl tip_verified_def
        reanchor_bounded_def split: if_splits)
  show "effects_ok s' es"
    using assms by (auto simp: publication_reanchor_required_def Let_def split: if_splits)
qed

lemma publication_reanchored_ok:
  assumes "publication_reanchored s = (Inr es, s')"
  shows "keeps cfg s s'" "effects_ok s' es"
proof -
  let ?f = "\<lambda>t :: task_runtime. t\<lparr>tr_phase := task_phase.Ready, tr_reason := None\<rparr>"
  obtain s1 where m: "move_merged ?f ''publication re-anchor'' (ig_merged_tasks (st_integration s)) s = (Inr (), s1)"
    and s': "st_tasks s' = st_tasks s1" "st_batch s' = st_batch s1"
      "ig_verification_head (st_integration s') = None"
      "ig_publication_reanchor_cycles (st_integration s') = ig_publication_reanchor_cycles (st_integration s1)"
    and ok: "effects_ok s' es"
    using assms by (fastforce simp: publication_reanchored_def Let_def)
  have "keeps cfg s s1" by (rule move_merged_keeps(1)[OF m]) (auto simp: evolves_defs)
  then show "keeps cfg s s'" using s' by (simp add: keeps_def tip_verified_def reanchor_bounded_def)
  show "effects_ok s' es" by (rule ok)
qed


section \<open>CI and cleaning handlers\<close>

lemma clean_after_ci_same [simp]: "same_core s (clean_after_ci d u) = same_core s u"
  by (simp add: clean_after_ci_def same_core_def)

lemma set_ci_fallback_same [simp]: "same_core s (set_ci_fallback b s)"
  by (simp add: set_ci_fallback_def same_core_def)

lemma ci_failed_same:
  assumes "ci_failed lc cfg sg s = (Inr es, s')"
  shows "same_core s s'" "effects_ok s' es"
proof -
  let ?a = "ig_set (\<lambda>g. g\<lparr>ig_ci_disposition := None\<rparr>) s"
  let ?s = "ig_set (\<lambda>g. g\<lparr>ig_ci_cycles := sat_add32 (ig_ci_cycles g) 1,
      ig_signatures := ig_signatures g @ [sg]\<rparr>) ?a"
  have "(\<exists>h r es'. hold_failed_published_ci r ?s = (Inr es', s') \<and> es = Notify PublishCiFailed h # es')
      \<or> (\<exists>h. s' = ?s \<and> es = [Notify PublishCiFailed h, PrepareCiFix])"
    using assms by (auto simp: ci_failed_def Let_def split: option.splits)
  moreover have "same_core s ?s" by (simp add: same_core_def)
  ultimately show "same_core s s'" "effects_ok s' es"
    using hold_ci_same[of _ ?s _ s'] by (auto intro: same_core_trans)
qed

lemma push_degradation_core [simp]: "same_core s (push_degradation d u) = same_core s u"
  by (simp add: push_degradation_def add_degradation_def same_core_def)

lemma ci_verified_same:
  assumes "ci_verified lc cfg out s = (Inr es, s')"
  shows "same_core s s'" "effects_ok s' es"
proof -
  have failed: "same_core s s' \<and> effects_ok s' es"
    if "ci_failed lc cfg sg u = (Inr es, s')" "same_core s u" for sg u
    using ci_failed_same[OF that(1)] same_core_trans[OF that(2)] by blast
  have "same_core s s' \<and> effects_ok s' es"
  proof (cases out)
    case (Failed sg r)
    then show ?thesis using assms
      by (auto simp: ci_verified_def Let_def dest!: failed) (simp_all add: same_core_def)
  qed (use assms in \<open>auto simp: ci_verified_def Let_def\<close>, simp_all add: same_core_def)
  then show "same_core s s'" "effects_ok s' es" by blast+
qed

lemma ci_fix_prepared_ok:
  assumes "ci_fix_prepared out s = (Inr es, s')"
  shows "keeps cfg s s'" "effects_ok s' es"
proof -
  have disp: "dispatch_integration k u = (e, s') \<Longrightarrow> same_core s u \<Longrightarrow> same_core s s' \<and> effect_ok s' e" for k u e
    using dispatch_integration_same[of k u e s'] same_core_trans by auto
  have hold: "hold_failed_published_ci r u = (Inr es, s') \<Longrightarrow> same_core s u \<Longrightarrow> same_core s s' \<and> effects_ok s' es" for r u
    using hold_ci_same same_core_trans by blast
  have "same_core s s' \<and> effects_ok s' es"
    using assms disp hold same_core_trans[OF set_ci_fallback_same note_sandbox_downgrade_same]
    by (auto simp: ci_fix_prepared_def split: ci_fix_preparation_outcome.splits prod.splits)
  then show "keeps cfg s s'" "effects_ok s' es" by (simp_all add: keeps_same)
qed

lemma effect_ok_ci_fallback [simp]: "effect_ok (set_ci_fallback b s) e = effect_ok s e"
  by (cases e) (simp_all add: effect_ok_def set_ci_fallback_def ready_to_merge_def Let_def)

lemma effects_ok_ci_fallback [simp]: "effects_ok (set_ci_fallback b s) es = effects_ok s es"
  unfolding effects_ok_def list_all_iff by simp

lemma ci_fix_ok:
  assumes "ci_fix out s = (Inr es, s')"
  shows "keeps cfg s s'" "effects_ok s' es"
proof -
  obtain s1 where s': "s' = set_ci_fallback False s1" and
    s1: "(\<exists>r. hold_failed_published_ci r s = (Inr es, s1)) \<or> (es = [CommitCiFix] \<and> s1 = s)"
    using assms by (cases out) (auto simp: ci_fix_def split: prod.splits)
  then have "same_core s s1 \<and> effects_ok s1 es" using hold_ci_same by auto
  then show "keeps cfg s s'" "effects_ok s' es"
    using same_core_trans[OF _ set_ci_fallback_same] s' by (auto intro: keeps_same)
qed

lemma ci_fix_committed_ok:
  assumes "ci_fix_committed h s = (Inr es, s')"
  shows "keeps cfg s s'" "effects_ok s' es"
  using assms by (auto simp: ci_fix_committed_def same_core_def effect_ok_def intro!: keeps_same)

lemma defer_knowledge_same:
  assumes "defer_knowledge b p w s = (Inr es, s')" "st_phase s = Cleaning"
  shows "same_core s s' \<and> effects_ok s' es"
  using assms by (auto simp: defer_knowledge_def Let_def same_core_def intro!: cleanup_effects_ok)

lemma knowledge_curated_ok:
  assumes "knowledge_curated out s = (Inr es, s')"
  shows "keeps cfg s s'" "effects_ok s' es"
proof -
  have ph: "st_phase s = Cleaning" using assms by (auto simp: knowledge_curated_def)
  have "same_core s s' \<and> effects_ok s' es"
  proof (cases out)
    case (Completed a)
    then show ?thesis using assms
      by (auto simp: knowledge_curated_def Let_def same_core_def intro!: cleanup_effects_ok)
  qed (use assms defer_knowledge_same[OF _ ph] in \<open>auto simp: knowledge_curated_def\<close>)
  then show "keeps cfg s s'" "effects_ok s' es" by (simp_all add: keeps_same)
qed

lemma knowledge_curation_prepared_ok:
  assumes "knowledge_curation_prepared out s = (Inr es, s')"
  shows "keeps cfg s s'" "effects_ok s' es"
  using assms
  by (auto simp: knowledge_curation_prepared_def dispatch_integration_def Let_def same_core_def
      intro!: keeps_same cleanup_effects_ok split: knowledge_preparation_outcome.splits)

lemma archival_prepared_ok:
  assumes "archival_prepared out s = (Inr es, s')"
  shows "keeps cfg s s'" "effects_ok s' es"
  using assms
  by (auto simp: archival_prepared_def Let_def same_core_def
      intro!: keeps_same cleanup_effects_ok split: archival_preparation_outcome.splits)

lemma archive_ci_reconfirmed_ok:
  assumes "archive_ci_reconfirmed lc cfg h out s = (Inr es, s')"
  shows "keeps cfg s s'" "effects_ok s' es"
proof -
  let ?a = "ig_set (\<lambda>g. g\<lparr>ig_archive_ci_wait_attempts := sat_add32 (ig_archive_ci_wait_attempts g) 1\<rparr>) s"
  let ?b = "ig_set (\<lambda>g. g\<lparr>ig_archive_ci_gate := Some archive_ci_gate.Confirmed\<rparr>) ?a"
  let ?c = "(ig_set (\<lambda>g. g\<lparr>ig_cleanup_journaled := False\<rparr>) ?a)\<lparr>st_phase := Publishing\<rparr>"
  have ph: "st_phase s = Cleaning" using assms by (auto simp: archive_ci_reconfirmed_def)
  have "(es = cleanup_effects ?b \<and> s' = ?b) \<or> ci_verified lc cfg out ?c = (Inr es, s')"
    using assms by (auto simp: archive_ci_reconfirmed_def Let_def split: if_splits)
  moreover have "same_core s ?b" "same_core s ?c" by (simp_all add: same_core_def)
  moreover have "effects_ok ?b (cleanup_effects ?b)" by (rule cleanup_effects_ok) (simp add: ph)
  ultimately show "keeps cfg s s'" "effects_ok s' es"
    using ci_verified_same[of lc cfg out ?c es s'] by (auto intro: keeps_same same_core_trans)
qed

lemma cleanup_complete_ok:
  assumes "cleanup_complete s = (Inr es, s')"
  shows "keeps cfg s s'" "effects_ok s' es"
proof -
  have "task_evolves cfg t (finish_published t)" for t
    by (auto simp: finish_published_def evolves_defs)
  then have "entries_rel (task_evolves cfg) m (map (\<lambda>(k, t). (k, finish_published t)) m)" for m :: "(string, task_runtime) btmap"
    by (intro entries_rel_map) simp
  then show "keeps cfg s s'"
    using assms
    by (auto simp: cleanup_complete_def keeps_def entries_rel_refl batch_kept_def tip_verified_def
        reanchor_bounded_def integration_default_def split: if_splits option.splits)
  show "effects_ok s' es"
    using assms by (auto simp: cleanup_complete_def effect_ok_def split: if_splits option.splits)
qed

lemma pause_ok:
  assumes "pause s = (Inr es, s')"
  shows "keeps cfg s s'" "effects_ok s' es"
  using assms by (auto simp: pause_def same_core_def intro!: keeps_same split: if_splits)

lemma resume_ok:
  assumes "resume cfg s = (Inr es, s')"
  shows "keeps cfg s s'" "effects_ok s' es"
proof -
  let ?s = "s\<lparr>st_phase := or_default Recovery (st_paused_from s), st_paused_from := None\<rparr>"
  have s: "same_core s ?s" by (simp add: same_core_def)
  have "same_core ?s s' \<and> effects_ok s' es"
    using assms next_merge_or_review_same[of ?s es s'] publishing_resume_same[of cfg ?s _ s']
    by (auto simp: resume_def Let_def singleton_effect_def rolling_boundary_effect_def
        inbox_reconciliation_effect_def split: phase.splits)
  then show "keeps cfg s s'" "effects_ok s' es" using s by (auto intro: keeps_same same_core_trans)
qed


section \<open>Recovery and the entry points outside the command stream\<close>

lemma recover_task_ok:
  assumes "recover_task present t = (r, t')"
  shows "task_evolves cfg t t'" "r = Inr (Inr es) \<Longrightarrow> effects_ok s es"
proof -
  have same: "tr_id u = tr_id t \<Longrightarrow> tr_conflict_domain u = tr_conflict_domain t \<Longrightarrow> tr_level u = tr_level t
      \<Longrightarrow> tr_wave u = tr_wave t \<Longrightarrow> tr_phase u = tr_phase t \<Longrightarrow> tr_risk u = tr_risk t
      \<Longrightarrow> tr_review_cycles u = tr_review_cycles t \<Longrightarrow> task_evolves cfg t u" for u
    by (simp add: task_evolves_def phase_moves_def risk_raised_def review_ok_def)
  show "task_evolves cfg t t'"
    using assms
    by (auto simp: recover_task_def Let_def intro!: same
        split: option.splits imported_recovery_intent.splits if_splits)
  show "r = Inr (Inr es) \<Longrightarrow> effects_ok s es"
    using assms
    by (auto simp: recover_task_def Let_def split: option.splits imported_recovery_intent.splits if_splits)
qed

lemma recover_tasks_ok:
  assumes "recover_tasks present m = (r, m')"
  shows "entries_rel (task_evolves cfg) m m' \<and> (\<forall>es. r = Inr (Inr es) \<longrightarrow> effects_ok s es)"
  using assms
proof (induction present m arbitrary: r m' rule: recover_tasks.induct)
  case (1 present)
  then have "r = Inr (Inr [])" "m' = []" by simp_all
  then show ?case by (simp add: entries_rel_def)
next
  case (2 present k t m)
  obtain r1 t1 where h: "recover_task present t = (r1, t1)" by fastforce
  obtain r2 m2 where tl: "recover_tasks present m = (r2, m2)" by fastforce
  note hd = recover_task_ok[OF h]
  have cons: "entries_rel (task_evolves cfg) ((k, t) # m) ((k, t1) # x)"
    if "entries_rel (task_evolves cfg) m x" for x
    using that hd(1)[of cfg] by (simp add: entries_rel_def)
  show ?case
  proof (cases "\<exists>es. r1 = Inr (Inr es)")
    case True
    then obtain es1 where r1: "r1 = Inr (Inr es1)" by blast
    have IH: "entries_rel (task_evolves cfg) m m2 \<and> (\<forall>es. r2 = Inr (Inr es) \<longrightarrow> effects_ok s es)"
      by (rule 2(1)[OF h[symmetric] r1 refl tl])
    show ?thesis
      using 2(2) h r1 tl IH cons hd(2)[OF r1]
      by (auto split: sum.splits)
  next
    case False
    then have "r = r1" "m' = (k, t1) # m" using 2(2) h by (auto split: sum.splits)
    then show ?thesis using False cons[OF entries_rel_refl] by auto
  qed
qed

lemma push_unique_subset: "set (push_unique_effect es e) \<subseteq> insert e (set es)"
  by (auto simp: push_unique_effect_def)

lemma effects_ok_set: "effects_ok s es \<longleftrightarrow> (\<forall>e \<in> set es. effect_ok s e)"
  by (simp add: effects_ok_def list_all_iff)

lemma merge_cleanup_order_ok:
  assumes "effects_ok s cleanup" "effects_ok s effects"
  shows "effects_ok s (merge_cleanup_order cleanup effects)"
proof -
  have push: "effects_ok s o' \<Longrightarrow> effects_ok s es \<Longrightarrow> effects_ok s (foldl push_unique_effect o' es)" for o' es
    by (induction es arbitrary: o') (auto simp: push_unique_effect_def)
  have filt: "effects_ok s o' \<Longrightarrow> effects_ok s es \<Longrightarrow>
      effects_ok s (foldl (\<lambda>o' e. if P e then push_unique_effect o' e else o') o' es)" for P o' es
    by (induction es arbitrary: o') (auto simp: push_unique_effect_def)
  show ?thesis
    using assms by (auto simp: merge_cleanup_order_def split_journal_Some intro!: push filt split: option.splits)
qed

lemma recover_finish_ok:
  assumes "recover_finish cfg target effects s = (Inr es, s')" "\<And>u. effects_ok u effects"
  shows "same_core s s'" "effects_ok s' es"
proof -
  let ?s = "s\<lparr>st_phase := recovery_phase target s\<rparr>"
  have s: "same_core s ?s" by simp
  have clean: "st_phase ?s = Cleaning \<Longrightarrow> effects_ok ?s (merge_cleanup_order (cleanup_effects ?s) effects)"
    using assms(2) by (intro merge_cleanup_order_ok cleanup_effects_ok)
  have "same_core ?s s' \<and> effects_ok s' es"
    using assms next_merge_or_review_same[of ?s _ s'] publishing_resume_same[of cfg ?s _ s'] clean
    by (auto simp: recover_finish_def Let_def singleton_effect_def rolling_boundary_effect_def
        inbox_reconciliation_effect_def split: phase.splits if_splits)
  then show "same_core s s'" "effects_ok s' es" using same_core_trans[OF s] by blast+
qed

lemma recover_ok:
  assumes "recover present p = (Inr es, p')"
  shows "keeps cfg (pr_state p) (pr_state p')" "effects_ok (pr_state p') es" "pr_config p' = pr_config p"
proof -
  let ?s = "pr_state p"
  obtain r m where rt: "recover_tasks present (st_tasks ?s) = (r, m)" by fastforce
  note ev = recover_tasks_ok[OF rt, of cfg]
  have k: "keeps cfg ?s (?s\<lparr>st_tasks := m\<rparr>)" "keeps cfg ?s (?s\<lparr>st_tasks := m, st_phase := x, st_blocked_reason := y\<rparr>)" for x y
    using ev by (simp_all add: keeps_def tip_verified_def reanchor_bounded_def)
  have fin: "keeps cfg ?s s'' \<and> effects_ok s'' es"
    if "recover_finish (pr_config p) (pr_recovery_target p) effs (?s\<lparr>st_tasks := m\<rparr>) = (Inr es, s'')"
      "r = Inr (Inr effs)" for effs s''
    using recover_finish_ok[OF that(1)] recover_tasks_ok[OF rt, of cfg] that(2) keeps_then_same[OF k(1)] by blast
  show "keeps cfg (pr_state p) (pr_state p')" "effects_ok (pr_state p') es" "pr_config p' = pr_config p"
    using assms rt k(2) fin
    by (auto simp: recover_def Let_def keeps_same split: if_splits sum.splits prod.splits)
qed

lemma record_leaf_session_ok:
  assumes "record_leaf_session i u s = (Inr x, s')"
  shows "keeps cfg s s'"
  using assms
  by (cases u) (auto simp: record_leaf_session_def Let_def task_evolves_def phase_moves_def risk_raised_def
      review_ok_def intro!: keeps_put)

lemma acknowledge_ok:
  assumes "acknowledge_non_command_effect e s = (Inr x, s')"
  shows "keeps cfg s s'"
proof (cases e)
  case (ReturnTask i r)
  then show ?thesis
    using assms
    by (auto simp: acknowledge_non_command_effect_def task_evolves_def phase_moves_def risk_raised_def
        review_ok_def keeps_same intro!: keeps_put split: if_splits)
next
  case WriteJournalAndStatus
  have "same_core s (ig_set (\<lambda>g. g\<lparr>ig_cleanup_journaled := True\<rparr>) s)" by (simp add: same_core_def)
  then show ?thesis
    using assms WriteJournalAndStatus keeps_same
    by (auto simp: acknowledge_non_command_effect_def split: if_splits)
qed (use assms in \<open>auto simp: acknowledge_non_command_effect_def intro!: keeps_same\<close>)

section \<open>Admission\<close>

definition admitted_tasks :: "nat \<Rightarrow> admission_candidate list \<Rightarrow> (string, task_runtime) btmap \<Rightarrow> (string, task_runtime) btmap" where
  "admitted_tasks wave cs m = fold (\<lambda>c. bt_insert (ac_id c) (task_new c wave)) cs m"

lemma filter_bt_insert:
  "k \<notin> set (map fst m) \<Longrightarrow>
     length (filter P (map snd (bt_insert k v m))) = (if P v then 1 else 0) + length (filter P (map snd m))"
  by (induction k v m rule: bt_insert.induct) auto

lemma set_bt_insert: "k \<notin> set (map fst m) \<Longrightarrow> set (bt_insert k v m) = insert (k, v) (set m)"
  by (induction k v m rule: bt_insert.induct) auto

lemma admit_loop_spec:
  assumes "admit_loop w cs effs s = (Inr es, s')" "well_keyed s"
  shows "s' = s\<lparr>st_tasks := admitted_tasks w cs (st_tasks s)\<rparr>
    \<and> es = effs @ map (\<lambda>c. EnsureTaskWorkspace (ac_id c) (''task/'' @ ac_id c)) cs
    \<and> well_keyed s' \<and> active_count s' = active_count s + length cs
    \<and> distinct (map ac_id cs) \<and> set (map ac_id cs) \<inter> set (map fst (st_tasks s)) = {}
    \<and> set (st_tasks s') = set (st_tasks s) \<union> (\<lambda>c. (ac_id c, task_new c w)) ` set cs"
  using assms
proof (induction cs arbitrary: effs s)
  case Nil
  then show ?case by (auto simp: admitted_tasks_def)
next
  case (Cons c cs)
  define s1 where "s1 = s\<lparr>st_tasks := bt_insert (ac_id c) (task_new c w) (st_tasks s)\<rparr>"
  have loop: "admit_loop w cs (effs @ [EnsureTaskWorkspace (ac_id c) (''task/'' @ ac_id c)]) s1 = (Inr es, s')"
    using Cons.prems(1) by (auto simp: s1_def)
  have fresh: "ac_id c \<notin> set (map fst (st_tasks s))"
    using Cons.prems(1) by (auto simp: map_of_eq_None_iff)
  have ent: "set (st_tasks s1) = insert (ac_id c, task_new c w) (set (st_tasks s))"
    using set_bt_insert[OF fresh] by (simp add: s1_def)
  have wk: "well_keyed s1"
    using Cons.prems(2) bt_insert_invar[of "st_tasks s"] ent
    by (auto simp: well_keyed_def s1_def list_all_iff task_new_def)
  have act: "active_count s1 = active_count s + 1"
    using filter_bt_insert[OF fresh, of "\<lambda>t. is_active (tr_phase t)" "task_new c w"]
    by (simp add: s1_def active_count_def bt_values_def task_new_def is_active_def)
  have tasks: "admitted_tasks w cs (st_tasks s1) = admitted_tasks w (c # cs) (st_tasks s)"
    by (simp add: s1_def admitted_tasks_def)
  have upd: "s1\<lparr>st_tasks := m\<rparr> = s\<lparr>st_tasks := m\<rparr>" for m by (simp add: s1_def)
  show ?case
    using Cons.IH[OF loop wk] ent act fresh tasks upd by auto
qed

end
