(* ===== verification/ProcessorInv.thy ===== *)
theory ProcessorInv
  imports ProcessorKeeps
begin

text \<open>
  The invariant of the reducer and its reachable states. \<open>reducer_inv\<close> collects the bounds and
  the exclusion properties of the state; \<open>dispatch_inv\<close> shows that every command of \<open>apply\<close> keeps
  it and emits only effects that are justified in the state it leaves, \<open>reducer_run\<close> closes the
  commands and the two side entry points under composition.
\<close>

section \<open>Exclusion\<close>

text \<open>Two tasks that are being worked on have disjoint conflict domains.\<close>

definition excludes :: "task_runtime \<Rightarrow> task_runtime \<Rightarrow> bool" where
  "excludes t u \<longleftrightarrow>
    (if is_active (tr_phase t) \<and> is_active (tr_phase u)
     then \<not> intersects (domain_parse (tr_conflict_domain t)) (domain_parse (tr_conflict_domain u))
     else True)"

definition active_disjoint :: "processor_state \<Rightarrow> bool" where
  "active_disjoint s \<longleftrightarrow>
    list_all (\<lambda>(k, t). list_all (\<lambda>(k', u). k = k' \<or> excludes t u) (st_tasks s)) (st_tasks s)"

definition reducer_inv :: "processor_config \<Rightarrow> processor_state \<Rightarrow> bool" where
  "reducer_inv cfg s \<longleftrightarrow>
    well_keyed s
    \<and> list_all (\<lambda>(k, t). review_ok cfg t) (st_tasks s)
    \<and> active_count s \<le> cf_max_parallel cfg
    \<and> (case st_batch s of None \<Rightarrow> True | Some b \<Rightarrow> co_admitted_total b \<le> cf_cohort_size cfg)
    \<and> active_disjoint s
    \<and> tip_verified s
    \<and> reanchor_bounded cfg s"

section \<open>Steps that neither open nor admit\<close>

lemma entries_rel_mem:
  assumes "entries_rel R m m'" "(k, v') \<in> set m'"
  shows "\<exists>v. (k, v) \<in> set m \<and> R v v'"
  using assms unfolding entries_rel_def
proof (induction rule: list_all2_induct)
  case (Cons e m e' m')
  then show ?case by (cases e; cases e') auto
qed simp

lemma active_count_entries:
  assumes "entries_rel (task_evolves cfg) m m'"
  shows "length (filter (\<lambda>t. is_active (tr_phase t)) (map snd m'))
     \<le> length (filter (\<lambda>t. is_active (tr_phase t)) (map snd m))"
  using assms unfolding entries_rel_def
proof (induction rule: list_all2_induct)
  case (Cons e m e' m')
  then have "is_active (tr_phase (snd e')) \<Longrightarrow> is_active (tr_phase (snd e))"
    using phase_moves_active by (auto simp: task_evolves_def)
  then show ?case using Cons by auto
qed simp

lemma keeps_inv:
  assumes "keeps cfg s s'" "reducer_inv cfg s"
  shows "reducer_inv cfg s'"
proof -
  have ev: "entries_rel (task_evolves cfg) (st_tasks s) (st_tasks s')"
    using assms(1) by (simp add: keeps_def)
  have mem: "\<exists>t. (k, t) \<in> set (st_tasks s) \<and> task_evolves cfg t t'" if "(k, t') \<in> set (st_tasks s')" for k t'
    using entries_rel_mem[OF ev that] .
  have wk: "well_keyed s'"
    using assms(2) entries_rel_keys[OF ev] mem
    by (fastforce simp: reducer_inv_def well_keyed_def bt_invar_def list_all_iff task_evolves_def)
  have rv: "list_all (\<lambda>(k, t). review_ok cfg t) (st_tasks s')"
    using assms(2) mem by (fastforce simp: reducer_inv_def list_all_iff task_evolves_def)
  have act: "active_count s' \<le> active_count s"
    using active_count_entries[OF ev] by (simp add: active_count_def bt_values_def)
  have ex: "excludes t' u'" if "excludes t u" "task_evolves cfg t t'" "task_evolves cfg u u'" for t u t' u'
    using that phase_moves_active by (auto simp: excludes_def task_evolves_def)
  have dis: "active_disjoint s'"
    unfolding active_disjoint_def list_all_iff
  proof (safe)
    fix k t' k' u'
    assume m: "(k, t') \<in> set (st_tasks s')" "(k', u') \<in> set (st_tasks s')" and "\<not> excludes t' u'"
    moreover obtain t u where "(k, t) \<in> set (st_tasks s)" "task_evolves cfg t t'"
        "(k', u) \<in> set (st_tasks s)" "task_evolves cfg u u'"
      using mem[OF m(1)] mem[OF m(2)] by blast
    ultimately show "k = k'"
      using assms(2) ex by (fastforce simp: reducer_inv_def active_disjoint_def list_all_iff)
  qed
  show ?thesis
    using assms wk rv act dis
    by (auto simp: reducer_inv_def keeps_def batch_kept_def split: option.splits)
qed

lemma open_cohort_ok:
  assumes "open_cohort cfg i base now s = (Inr es, s')"
  shows "reducer_inv cfg s'" "effects_ok s' es"
  using assms
  by (auto simp: open_cohort_def reducer_inv_def well_keyed_def bt_invar_def active_count_def bt_values_def
      active_disjoint_def tip_verified_def reanchor_bounded_def integration_default_def)


section \<open>Admission\<close>

lemma plan_admission_spec:
  assumes "plan_admission cs active capacity = Admitted ids"
  shows "\<exists>chosen. ids = map ca_id chosen \<and> subseq chosen cs \<and> length ids \<le> capacity
    \<and> conflict_free active [] chosen \<and> chosen \<noteq> []"
proof -
  obtain ids' ds where loop: "plan_loop active capacity cs [] [] = (ids', ds)" by fastforce
  then have "ids' = ids" "ids \<noteq> []" using assms by (auto simp: plan_admission_def Let_def split: if_splits)
  then show ?thesis using plan_loop_spec[OF loop] by auto
qed

lemma subseq_filter_distinct:
  assumes "subseq xs ys" "distinct (map f (filter (\<lambda>y. f y \<in> f ` set xs) ys))"
  shows "xs = filter (\<lambda>y. f y \<in> f ` set xs) ys"
proof -
  let ?P = "\<lambda>y. f y \<in> f ` set xs"
  have sub: "subseq xs (filter ?P ys)"
    using subseq_filter[OF assms(1), of ?P] by (simp add: filter_id_conv[THEN iffD2])
  have "length (filter ?P ys) = card (set (map f (filter ?P ys)))"
    using distinct_card[OF assms(2)] by simp
  also have "\<dots> \<le> card (f ` set xs)" by (intro card_mono) auto
  also have "\<dots> \<le> length xs" using card_image_le[of "set xs" f] card_length[of xs] by simp
  finally show ?thesis using sub by (metis subseq_same_length list_emb_length le_antisym)
qed

lemma active_in_active_tasks:
  assumes "(k, t) \<in> set (st_tasks s)" "is_active (tr_phase t)"
  shows "domain_parse (tr_conflict_domain t) \<in> at_domain ` set (active_tasks s)"
proof -
  have "blocks_admission (tr_phase t) = Some Active"
    using assms(2) by (auto simp: is_active_def blocks_admission_def)
  moreover have "t \<in> set (bt_values (st_tasks s))" using assms(1) by (force simp: bt_values_def)
  ultimately have "\<lparr>at_domain = domain_parse (tr_conflict_domain t), at_class = Active\<rparr> \<in> set (active_tasks s)"
    by (force simp: active_tasks_def List.map_filter_def)
  then show ?thesis by (force simp: image_iff)
qed

lemma sorted_wrt_sym_mem:
  assumes "sorted_wrt R xs" "\<And>x y. R x y \<Longrightarrow> R y x" "x \<in> set xs" "y \<in> set xs" "x \<noteq> y"
  shows "R x y"
proof -
  obtain i j where "i < length xs" "j < length xs" "xs ! i = x" "xs ! j = y" "i \<noteq> j"
    using assms(3,4,5) by (auto simp: in_set_conv_nth)
  then show ?thesis using assms(1,2) by (metis linorder_neqE_nat sorted_wrt_nth_less)
qed

text \<open>The state of a successful round, with what the resolver guarantees of it.\<close>

definition round_ok :: "processor_state \<Rightarrow> admission_candidate list \<Rightarrow> bool" where
  "round_ok s cs \<longleftrightarrow>
    list_all (\<lambda>c. \<not> list_ex (\<lambda>a. intersects (at_domain a) (domain_parse (ac_conflict_domain c)))
      (active_tasks s)) cs
    \<and> list_all (\<lambda>c. ac_ready c \<and> ac_current_delivery_lane c) cs
    \<and> sorted_wrt (\<lambda>c d. \<not> intersects (domain_parse (ac_conflict_domain c)) (domain_parse (ac_conflict_domain d))) cs"

lemma admitted_round:
  assumes plan: "plan_admission (map resolver_candidate candidates) (active_tasks s) capacity = Admitted ids"
    and loop: "admit_loop w (filter (\<lambda>c. ac_id c \<in> set ids) candidates) [] s = (Inr es, s')"
    and wk: "well_keyed s"
  shows "round_ok s (filter (\<lambda>c. ac_id c \<in> set ids) candidates)
    \<and> map ac_id (filter (\<lambda>c. ac_id c \<in> set ids) candidates) = ids \<and> length ids \<le> capacity"
proof -
  let ?fs = "filter (\<lambda>c. ac_id c \<in> set ids) candidates"
  obtain chosen where ch: "ids = map ca_id chosen" "subseq chosen (map resolver_candidate candidates)"
      "length ids \<le> capacity" "conflict_free (active_tasks s) [] chosen"
    using plan_admission_spec[OF plan] by blast
  have id: "ca_id (resolver_candidate c) = ac_id c" for c by (simp add: resolver_candidate_def)
  have fm: "filter (\<lambda>y. ca_id y \<in> ca_id ` set chosen) (map resolver_candidate candidates) = map resolver_candidate ?fs"
    by (simp add: filter_map o_def id ch(1))
  have "chosen = map resolver_candidate ?fs"
    using subseq_filter_distinct[OF ch(2), of ca_id] admit_loop_spec[OF loop wk]
    by (simp add: fm o_def id ch(1))
  then obtain fs where fs: "fs = ?fs" "chosen = map resolver_candidate fs" by blast
  have ids: "map ac_id fs = ids" using ch(1) fs(2) by (simp add: o_def id)
  have "round_ok s fs"
    using ch(4) fs(2)
    by (auto simp: round_ok_def conflict_free_def list_all_iff list_ex_iff sorted_wrt_map
        resolver_candidate_def admissible_to_current_lane_def split: if_splits)
  then show ?thesis using ids ch(3) fs(1) by simp
qed

lemma round_ok_excludes:
  assumes "round_ok s cs" "(k, t) \<in> set (st_tasks s)" "c \<in> set cs"
  shows "excludes t (task_new c w)"
proof (cases "is_active (tr_phase t)")
  case True
  then obtain a where "a \<in> set (active_tasks s)" "at_domain a = domain_parse (tr_conflict_domain t)"
    using active_in_active_tasks[OF assms(2)] by auto
  moreover have "\<forall>a \<in> set (active_tasks s). \<not> intersects (at_domain a) (domain_parse (ac_conflict_domain c))"
    using assms(1,3) by (simp add: round_ok_def list_all_iff list_ex_iff)
  ultimately show ?thesis by (auto simp: excludes_def task_new_def)
qed (simp add: excludes_def)

lemma excludes_sym: "excludes t u = excludes u t"
  using intersects_sym by (auto simp: excludes_def)

lemma admitted_inv:
  assumes inv: "reducer_inv cfg s" and rd: "round_ok s cs"
    and loop: "admit_loop w cs [] s = (Inr es, s')"
    and cap: "active_count s + length cs \<le> cf_max_parallel cfg"
  shows "reducer_inv cfg s'" "effects_ok u es"
proof -
  have wk: "well_keyed s" using inv by (simp add: reducer_inv_def)
  note sp = admit_loop_spec[OF loop wk]
  then have ent: "set (st_tasks s') = set (st_tasks s) \<union> (\<lambda>c. (ac_id c, task_new c w)) ` set cs" by blast
  have new: "excludes t (task_new c w)" "excludes (task_new c w) t"
    if "(k, t) \<in> set (st_tasks s)" "c \<in> set cs" for k t c
    using round_ok_excludes[OF rd that] excludes_sym by blast+
  have new2: "excludes (task_new c w) (task_new d w)" if "c \<in> set cs" "d \<in> set cs" "c \<noteq> d" for c d
  proof -
    let ?R = "\<lambda>c d. \<not> intersects (domain_parse (ac_conflict_domain c)) (domain_parse (ac_conflict_domain d))"
    have "sorted_wrt ?R cs" using rd by (simp add: round_ok_def)
    then have "?R c d" by (rule sorted_wrt_sym_mem) (use that intersects_sym in auto)
    then show ?thesis by (simp add: excludes_def task_new_def)
  qed
  have "k = k' \<or> excludes t u" if m: "(k, t) \<in> set (st_tasks s')" "(k', u) \<in> set (st_tasks s')" for k t k' u
  proof -
    consider "(k, t) \<in> set (st_tasks s)" "(k', u) \<in> set (st_tasks s)"
      | c where "(k, t) \<in> set (st_tasks s)" "c \<in> set cs" "u = task_new c w"
      | c where "c \<in> set cs" "t = task_new c w" "(k', u) \<in> set (st_tasks s)"
      | c d where "c \<in> set cs" "k = ac_id c" "t = task_new c w" "d \<in> set cs" "k' = ac_id d" "u = task_new d w"
      using m unfolding ent by blast
    then show ?thesis
    proof cases
      case 1
      then show ?thesis using inv by (fastforce simp: reducer_inv_def active_disjoint_def list_all_iff)
    next
      case 4
      then show ?thesis using new2 by (cases "c = d") auto
    qed (use new in blast)+
  qed
  then have "active_disjoint s'" by (auto simp: active_disjoint_def list_all_iff)
  moreover have "list_all (\<lambda>(k, t). review_ok cfg t) (st_tasks s')"
  proof -
    have "review_ok cfg (task_new c w)" for c by (simp add: review_ok_def task_new_def)
    then show ?thesis using inv unfolding reducer_inv_def list_all_iff ent by fastforce
  qed
  ultimately show "reducer_inv cfg s'"
    using inv sp cap by (auto simp: reducer_inv_def tip_verified_def reanchor_bounded_def)
  show "effects_ok u es" using sp by (simp add: effects_ok_def list_all_iff)
qed

lemma count_admitted_inv:
  assumes "reducer_inv cfg s" "st_batch s = Some b" "co_admitted_total b + n \<le> cf_cohort_size cfg"
  shows "reducer_inv cfg (count_admitted n s)"
proof -
  have "sat_add32 (co_admitted_total b) (n mod 4294967296) \<le> co_admitted_total b + n"
    using mod_less_eq_dividend[of n 4294967296] by (simp add: sat_add32_def)
  then show ?thesis
    using assms
    by (auto simp: reducer_inv_def count_admitted_def well_keyed_def active_count_def active_disjoint_def
        tip_verified_def reanchor_bounded_def)
qed

lemma admit_ok:
  assumes "admit cfg candidates now s = (Inr es, s')" and inv: "reducer_inv cfg s"
  shows "reducer_inv cfg s'" "effects_ok s' es"
proof -
  let ?s = "close_for_budget_if_needed cfg now s"
  obtain b where b: "st_batch ?s = Some b" using assms(1) by (auto simp: admit_def Let_def)
  have inv0: "reducer_inv cfg ?s" using keeps_inv[OF keeps_same inv] by simp
  let ?cap = "min (free_slots cfg ?s) (cf_cohort_size cfg - co_admitted_total b)"
  let ?plan = "plan_admission (map resolver_candidate candidates) (active_tasks ?s) ?cap"
  have closed: "reducer_inv cfg s' \<and> effects_ok s' es"
    if "after_admission_closed u = (Inr es, s')" "same_core ?s u" for u
    using after_admission_closed_same[OF that(1)] keeps_inv[OF keeps_same inv0] same_core_trans[OF that(2)] by blast
  have round: "reducer_inv cfg s' \<and> effects_ok s' es"
    if p: "?plan = Admitted ids"
      and l: "admit_loop (co_wave b) (filter (\<lambda>c. ac_id c \<in> set ids) candidates) [] ?s = (Inr es, u)"
      and s': "s' = close_for_budget_if_needed cfg now (count_admitted (length ids) u)" for ids u
  proof -
    have wk: "well_keyed ?s" using inv0 by (simp add: reducer_inv_def)
    note ar = admitted_round[OF p l wk]
    have len: "length (filter (\<lambda>c. ac_id c \<in> set ids) candidates) = length ids"
      using ar by (metis length_map)
    have "active_count ?s + length ids \<le> cf_max_parallel cfg" "co_admitted_total b + length ids \<le> cf_cohort_size cfg"
      using ar inv0 b by (auto simp: free_slots_def reducer_inv_def)
    then have u: "reducer_inv cfg u" "\<And>v. effects_ok v es"
      using admitted_inv[OF inv0 _ l] ar len by auto
    have "st_batch u = Some b" using admit_loop_spec[OF l wk] b by simp
    then have "reducer_inv cfg (count_admitted (length ids) u)"
      using count_admitted_inv[OF u(1)] \<open>co_admitted_total b + length ids \<le> cf_cohort_size cfg\<close> by blast
    then show ?thesis using keeps_inv[OF keeps_same[OF close_for_budget_same]] s' u(2) by blast
  qed
  have "reducer_inv cfg s' \<and> effects_ok s' es"
    using assms(1) b closed[of ?s] closed[OF _ close_admission_same] round inv0
    by (auto simp: admit_def Let_def split: admission_outcome.splits option.splits if_splits)
  then show "reducer_inv cfg s'" "effects_ok s' es" by simp_all
qed


section \<open>Every command\<close>

definition opens_or_admits :: "processor_command \<Rightarrow> bool" where
  "opens_or_admits c = (case c of Open _ _ _ \<Rightarrow> True | Admit _ _ \<Rightarrow> True | _ \<Rightarrow> False)"

text \<open>One elimination rule per handler.\<close>

lemmas handler_oks =
  inbox_ok conjI[OF workspace_ready_ok] conjI[OF workspace_failed_ok] conjI[OF task_leaf_ok]
  conjI[OF task_leaf_prepared_ok] conjI[OF task_committed_ok] conjI[OF task_review_ok]
  conjI[OF task_review_prepared_ok] conjI[OF dependency_graph_refreshed_ok]
  conjI[OF inbox_curated_ok] conjI[OF advance_ok] conjI[OF cohort_budget_checked_ok]
  conjI[OF token_budget_checked_ok] conjI[OF integration_workspace_ready_ok]
  conjI[OF task_merged_ok] conjI[OF merge_resolution_ok] conjI[OF merge_resolution_finalized_ok]
  conjI[OF merge_resolution_aborted_ok] conjI[OF integration_verified_ok]
  conjI[OF integration_review_ok] conjI[OF integration_fix_ok]
  conjI[OF integration_fix_committed_ok] conjI[OF published_ok] conjI[OF publication_rejected_ok]
  conjI[OF publication_awaiting_approval_ok] conjI[OF publication_reanchor_required_ok]
  conjI[OF publication_reanchored_ok] conjI[OF ci_fix_prepared_ok] conjI[OF ci_fix_ok]
  conjI[OF ci_fix_committed_ok] conjI[OF knowledge_curated_ok]
  conjI[OF knowledge_curation_prepared_ok] conjI[OF archival_prepared_ok]
  conjI[OF archive_ci_reconfirmed_ok] conjI[OF cleanup_complete_ok] conjI[OF pause_ok]
  conjI[OF resume_ok]
  conjI[OF keeps_same[OF block_with_same(1)] block_with_same(2)]
  conjI[OF keeps_same[OF ci_verified_same(1)] ci_verified_same(2)]

lemma dispatch_keeps:
  assumes "dispatch lc cfg c s = (Inr es, s')" "well_keyed s" "\<not> opens_or_admits c"
  shows "keeps cfg s s' \<and> effects_ok s' es"
  using assms
  by (cases c; simp only: dispatch_def opens_or_admits_def processor_command.case not_True_eq_False prod.inject sum.simps simp_thms)
    (rule handler_oks; assumption)+


lemma dispatch_inv:
  assumes "dispatch lc cfg c s = (Inr es, s')" "reducer_inv cfg s"
  shows "reducer_inv cfg s' \<and> effects_ok s' es"
proof (cases "opens_or_admits c")
  case True
  then consider i base now where "open_cohort cfg i base now s = (Inr es, s')"
    | cs now where "admit cfg cs now s = (Inr es, s')"
    using assms(1) by (cases c) (simp_all add: dispatch_def opens_or_admits_def)
  then show ?thesis
    by cases (simp_all add: open_cohort_ok admit_ok[OF _ assms(2)])
next
  case False
  then show ?thesis
    using dispatch_keeps[OF assms(1)] keeps_inv assms(2) by (simp add: reducer_inv_def, blast)
qed

text \<open>The invariant of the whole reducer value.\<close>

definition proc_inv :: "processor \<Rightarrow> bool" where
  "proc_inv p \<longleftrightarrow> reducer_inv (pr_config p) (pr_state p)"

lemma run_command_inv:
  assumes "run_command lc c p = (Inr es, p')" "proc_inv p"
  shows "proc_inv p' \<and> pr_config p' = pr_config p \<and> effects_ok (pr_state p') es"
proof (cases "\<exists>present. c = Recover present")
  case True
  then obtain present where r: "recover present p = (Inr es, p')"
    using assms(1) by (auto simp: run_command_def)
  show ?thesis
    using keeps_inv[OF recover_ok(1)[OF r]] recover_ok(2,3)[OF r] assms(2) by (simp add: proc_inv_def)
next
  case False
  then have run: "run_command lc c p = (case dispatch lc (pr_config p) c (pr_state p) of (r, s) \<Rightarrow> (r, p\<lparr>pr_state := s\<rparr>))"
    by (cases c) (simp_all add: run_command_def)
  obtain s' where d: "dispatch lc (pr_config p) c (pr_state p) = (Inr es, s')" and p': "p' = p\<lparr>pr_state := s'\<rparr>"
    using assms(1) unfolding run by (cases "dispatch lc (pr_config p) c (pr_state p)") auto
  show ?thesis using dispatch_inv[OF d] assms(2) p' by (simp add: proc_inv_def)
qed

lemma apply_cases:
  assumes "apply_command lc c p = (Inr es, p')"
  obtains (wait) r where "es = [WaitForOperator r]" "p' = p" "st_phase (pr_state p) \<in> {phase.Blocked, Paused}"
  | (ran) fs where "run_command lc c p = (Inr fs, p')"
      "es = with_checkpoint (if is_budget_check c then fs else guard_model_effects (pr_config p') fs)"
proof -
  show thesis
    using assms that unfolding apply_command_def
    by (auto split: if_splits prod.splits sum.splits)
qed

lemma effect_ok_budgeted [simp]: "effect_ok s e \<Longrightarrow> effect_ok s (guard_model_effect cfg e)"
  by (auto simp: guard_model_effect_def split: option.splits)

lemma effects_ok_budgeted: "effects_ok s es \<Longrightarrow> effects_ok s (guard_model_effects cfg es)"
  by (simp add: effects_ok_def guard_model_effects_def list_all_iff)

lemma effects_ok_checkpoint: "effects_ok s es \<Longrightarrow> effects_ok s (with_checkpoint es)"
  by (cases es) (simp_all add: with_checkpoint_def)

lemma apply_inv:
  assumes "apply_command lc c p = (Inr es, p')" "proc_inv p"
  shows "proc_inv p' \<and> pr_config p' = pr_config p \<and> effects_ok (pr_state p') es"
  using assms(1)
proof (cases rule: apply_cases)
  case (ran fs)
  then show ?thesis
    using run_command_inv[OF ran(1) assms(2)] effects_ok_budgeted effects_ok_checkpoint by simp
qed (use assms(2) in simp)

section \<open>Runs\<close>

inductive reducer_run :: "(string \<Rightarrow> string) \<Rightarrow> processor \<Rightarrow> processor \<Rightarrow> bool" for lc where
  start: "reducer_run lc p p"
| command: "reducer_run lc p q \<Longrightarrow> accept lc c q = (r, q') \<Longrightarrow> reducer_run lc p q'"
| session: "reducer_run lc p q \<Longrightarrow> record_leaf_session i u (pr_state q) = (Inr x, s')
    \<Longrightarrow> reducer_run lc p (q\<lparr>pr_state := s'\<rparr>)"
| acknowledged: "reducer_run lc p q \<Longrightarrow> acknowledge_non_command_effect e (pr_state q) = (Inr x, s')
    \<Longrightarrow> reducer_run lc p (q\<lparr>pr_state := s'\<rparr>)"

lemma accept_cases:
  assumes "accept lc c p = (r, p')"
  obtains (refused) e where "r = Inl e" "p' = p"
  | (accepted) es where "r = Inr es" "apply_command lc c p = (Inr es, p')"
proof -
  show thesis
    using assms that unfolding accept_def
    by (cases "apply_command lc c p"; cases "fst (apply_command lc c p)") auto
qed

lemma accept_inv:
  assumes "accept lc c p = (r, p')" "proc_inv p"
  shows "proc_inv p' \<and> pr_config p' = pr_config p"
  using assms(1) by (cases rule: accept_cases) (use assms(2) apply_inv in blast)+

lemma run_inv: "reducer_run lc p q \<Longrightarrow> proc_inv p \<Longrightarrow> proc_inv q \<and> pr_config q = pr_config p"
proof (induction rule: reducer_run.induct)
  case (command p q c r q')
  then show ?case using accept_inv[OF command(2)] by simp
next
  case (session p q i u x s')
  then show ?case using keeps_inv[OF record_leaf_session_ok[OF session(2)]] by (auto simp: proc_inv_def)
next
  case (acknowledged p q e x s')
  then show ?case using keeps_inv[OF acknowledge_ok[OF acknowledged(2)]] by (auto simp: proc_inv_def)
qed simp

lemma new_inv:
  assumes "processor_new cfg = Inr p"
  shows "proc_inv p \<and> pr_config p = cfg"
  using assms
  by (auto simp: processor_new_def proc_inv_def reducer_inv_def processor_state_default_def well_keyed_def
      bt_invar_def active_count_def bt_values_def active_disjoint_def tip_verified_def reanchor_bounded_def
      integration_default_def split: sum.splits)

text \<open>Steps that neither open nor admit, seen from outside.\<close>

lemma accept_keeps:
  assumes "accept lc c p = (r, p')" "well_keyed (pr_state p)" "\<not> opens_or_admits c"
  shows "keeps (pr_config p) (pr_state p) (pr_state p')"
  using assms(1)
proof (cases rule: accept_cases)
  case (accepted es)
  show ?thesis using accepted(2)
  proof (cases rule: apply_cases)
    case (ran fs)
    show ?thesis
    proof (cases "\<exists>present. c = Recover present")
      case True
      then show ?thesis using ran(1) recover_ok(1) by (auto simp: run_command_def)
    next
      case False
      then obtain s' where "dispatch lc (pr_config p) c (pr_state p) = (Inr fs, s')" "p' = p\<lparr>pr_state := s'\<rparr>"
        using ran(1) by (cases c; cases "dispatch lc (pr_config p) c (pr_state p)") (simp_all add: run_command_def)
      then show ?thesis using dispatch_keeps assms(2,3) by fastforce
    qed
  qed (simp add: keeps_same)
qed (simp add: keeps_same)

end
