(* ===== verification/Scenario.thy ===== *)
theory Scenario
  imports ProcessorInv
begin

text \<open>
  A cohort of two tasks, command by command: one task is implemented, reviewed, merged, published
  and archived, the other fails before its workspace exists. Every \<open>demo<n>\<close> is the reducer after the
  n-th step, written as the change of its predecessor; the steps are evaluated by the simplifier
  with the definitions of the reducer. The states are the concrete inputs of the examples.
\<close>

section \<open>Evaluation\<close>

text \<open>Arguments before continuations.\<close>

lemma guard_weak: "r = r' \<Longrightarrow> guard r s k = guard r' s k" by simp
lemma and_then_weak: "r = r' \<Longrightarrow> and_then r k = and_then r' k" by simp
lemma bind_res_weak: "r = r' \<Longrightarrow> bind_res r k = bind_res r' k" by simp

lemmas eval_congs = guard_weak and_then_weak bind_res_weak let_weak_cong

lemmas eval_defs =
  refresh_boundary_as_str_def provider_as_str_def provider_other_def lineage_as_str_def
  as_durable_key_def session_peer_def ascii_alnum_def is_valid_session_id_def default_config_def
  is_active_def blocks_admission_def leaf_kind_as_str_def lineage_for_leaf_def
  inbox_curation_key_def validate_config_def task_new_def bump_attempt_def task_leaf_attempt_def
  leaf_session_def validate_task_risk_elevation_def raise_task_risk_def non_success_leaf_reason_def
  from_effect_def into_effect_def ledger_key_def cohort_budget_ledger_key_def
  close_reason_wire_of_def integration_default_def processor_state_default_def processor_new_def
  or_default_def ok_or_def and_then_def task_mut_def put_task_def require_phase_def
  expect_task_phase_def batch_id_def integration_branch_def can_schedule_leaf_def
  schedule_leaf_retry_def dispatch_integration_def push_unique_effect_def signatures_from_def
  stagnation_reason_def validate_required_ci_check_names_def validate_ci_observation_reason_def
  validate_merge_conflict_paths_def validate_merge_protected_paths_def close_admission_def
  close_for_budget_if_needed_def active_tasks_def active_count_def free_slots_def
  tasks_ready_to_merge_def task_cleanup_effects_def cleanup_effects_def split_journal_def
  fail_integration_def publishing_resume_effect_def open_cohort_def inbox_reconciliation_effect_def
  rolling_boundary_effect_def add_degradation_def dependency_graph_refreshed_def
  validate_inbox_wave_def inbox_reconciled_def block_with_def inbox_curated_def inbox_drained_def
  inbox_finalization_reconciled_def after_admission_closed_def active_ids_def halt_for_def
  halt_for_token_budget_def halt_for_cohort_budget_def cohort_budget_checked_def
  token_budget_checked_def count_admitted_def admit_def advance_def escalate_task_def
  workspace_ready_def workspace_failed_def leaf_kind_of_phase_def clear_pending_fix_def
  set_author_def commit_leaf_def wont_fix_outside_fix_def fixed_set_reason_def leaf_wont_fix_def
  leaf_risk_elevated_def task_leaf_def note_sandbox_downgrade_def codex_author_def
  task_leaf_prepared_def task_committed_def review_clean_def check_review_tip_def
  review_findings_def task_review_def task_review_prepared_def next_merge_or_review_def
  integration_workspace_ready_def record_merged_task_def quarantine_merged_task_def durable_tip_def
  start_merge_resolution_def task_merged_def require_pending_merge_resolution_def
  merge_resolution_def clear_pending_merge_def merge_resolution_finalized_def
  merge_resolution_aborted_def integration_verified_def bump_f_cycles_def integration_review_def
  integration_fix_def integration_fix_committed_def published_def publication_rejected_def
  publication_awaiting_approval_def publication_reanchor_required_def publication_reanchored_def
  push_degradation_def hold_failed_published_ci_def validate_ci_outcome_def clean_after_ci_def
  ci_failed_def ci_verified_def set_ci_fallback_def ci_fix_prepared_def ci_fix_def
  ci_fix_committed_def u32_len_def ids_in_phase_def current_knowledge_curation_retry_def
  defer_knowledge_def knowledge_curated_def knowledge_curation_prepared_def tasks_where_def
  archive_cohort_check_def archival_prepared_def archive_ci_reconfirmed_def finish_published_def
  cleanup_complete_def pause_def singleton_effect_def resume_def recover_task_def
  recovery_phase_def merge_cleanup_order_def recover_finish_def recover_def corrupt_def
  check_batch_def check_coordinate_def check_task_entry_def check_pending_merge_def
  check_pending_knowledge_def check_archive_gate_def check_checkpoint_def from_checkpoint_def
  update_key_def record_leaf_session_def acknowledge_non_command_effect_def guard_model_effect_def
  guard_model_effects_def dispatch_def run_command_def is_budget_check_def is_wait_def
  with_checkpoint_def apply_command_def accept_def Let_def ensure_def bind_res_def bt_values_def
  sat_add32_def u32_max_def admission_gate_of_def empty_reason_of_def review_cycle_decision_def
  cycle_escalation_reason_def close_reason_as_str_def empty_reason_as_str_def to_close_reason_def
  is_recover_def passes_pause_def

section \<open>The states\<close>

definition on_state :: "(processor_state \<Rightarrow> processor_state) \<Rightarrow> processor \<Rightarrow> processor" where
  "on_state f p = p\<lparr>pr_state := f (pr_state p)\<rparr>"

definition on_ig :: "(integration_runtime \<Rightarrow> integration_runtime) \<Rightarrow> processor \<Rightarrow> processor" where
  "on_ig f = on_state (\<lambda>s. s\<lparr>st_integration := f (st_integration s)\<rparr>)"

definition on_task :: "string \<Rightarrow> (task_runtime \<Rightarrow> task_runtime) \<Rightarrow> processor \<Rightarrow> processor" where
  "on_task i f = on_state (\<lambda>s. s\<lparr>st_tasks := map (\<lambda>(k, t). (k, if k = i then f t else t)) (st_tasks s)\<rparr>)"

definition demo_task :: admission_candidate where
  "demo_task = \<lparr>ac_id = ''T-1'', ac_conflict_domain = ''src/a/**'', ac_level = Coder,
     ac_risk = risk.Medium, ac_ready = True, ac_current_delivery_lane = True\<rparr>"

definition demo_task2 :: admission_candidate where
  "demo_task2 = demo_task\<lparr>ac_id := ''T-2'', ac_conflict_domain := ''docs/**''\<rparr>"

definition demo_task3 :: admission_candidate where
  "demo_task3 = demo_task\<lparr>ac_id := ''T-3'', ac_conflict_domain := ''src/a/b.rs''\<rparr>"

definition demo_queue :: "admission_candidate list" where
  "demo_queue = [demo_task, demo_task2, demo_task3]"

definition demo_cohort :: cohort_runtime where
  "demo_cohort = \<lparr>co_id = ''B-1'', co_base = ''main'', co_started_at_secs = 1000, co_wave = 1,
     co_admitted_total = 0, co_admission_closed = None, co_cohort_budget_secs = None,
     co_cohort_token_budget = None, co_cohort_token_budget_strict = False,
     co_token_budget_actual_tokens = None, co_events_outbox_enabled = True\<rparr>"

definition demo0 :: processor where
  "demo0 = \<lparr>pr_config = default_config, pr_state = processor_state_default, pr_recovery_target = None\<rparr>"

definition demo1 :: processor where
  "demo1 = on_state (\<lambda>s. s\<lparr>st_phase := Idle\<rparr>) demo0"

definition demo2 :: processor where
  "demo2 = on_state (\<lambda>s. s\<lparr>st_phase := Rolling, st_batch := Some demo_cohort\<rparr>) demo1"

definition demo3 :: processor where
  "demo3 = on_ig (\<lambda>g. g\<lparr>ig_dependency_graph_refreshed_open := True\<rparr>) demo2"

definition demo4 :: processor where
  "demo4 = on_state (\<lambda>s. s\<lparr>st_batch := Some (demo_cohort\<lparr>co_wave := 2, co_admitted_total := 2\<rparr>),
      st_tasks := [(''T-1'', task_new demo_task 1), (''T-2'', task_new demo_task2 1)]\<rparr>) demo3"

definition demo5 :: processor where
  "demo5 = on_task ''T-1'' (\<lambda>t. t\<lparr>tr_phase := Implementing, tr_leaf_attempts := [(''implement'', 1)]\<rparr>) demo4"

definition demo6 :: processor where
  "demo6 = on_task ''T-1'' (\<lambda>t. t\<lparr>tr_phase := Committing\<rparr>) demo5"

definition demo7 :: processor where
  "demo7 = on_task ''T-1'' (\<lambda>t. t\<lparr>tr_phase := Reviewing, tr_review_sha := Some ''c1'',
      tr_leaf_attempts := [(''implement'', 1), (''review'', 1)]\<rparr>) demo6"

definition demo8 :: processor where
  "demo8 = on_task ''T-1'' (\<lambda>t. t\<lparr>tr_phase := task_phase.Ready, tr_review_cycles := 1\<rparr>) demo7"

definition demo9 :: processor where
  "demo9 = on_task ''T-2'' (\<lambda>t. t\<lparr>tr_phase := task_phase.Escalated, tr_reason := Some ''disk full''\<rparr>) demo8"

definition demo10 :: processor where
  "demo10 = on_state (\<lambda>s. s\<lparr>st_phase := Joining,
      st_batch := Some (demo_cohort\<lparr>co_wave := 2, co_admitted_total := 2,
        co_admission_closed := Some close_reason_wire.CohortMaxAge\<rparr>)\<rparr>) demo9"

definition demo11 :: processor where
  "demo11 = on_ig (\<lambda>g. g\<lparr>ig_workspace_prepared := True\<rparr>) demo10"

definition demo12 :: processor where
  "demo12 = on_task ''T-1'' (\<lambda>t. t\<lparr>tr_phase := task_phase.Merged, tr_review_sha := Some ''m1''\<rparr>) (on_ig (\<lambda>g. g\<lparr>ig_integration_head := Some ''m1'', ig_merged_tasks := [''T-1''],
      ig_leaf_attempts := [(''integration-review'', 1)]\<rparr>) (on_state (\<lambda>s. s\<lparr>st_phase := Publishing\<rparr>) demo11))"

definition demo13 :: processor where
  "demo13 = on_ig (\<lambda>g. g\<lparr>ig_f_cycles := 1, ig_review_sha := Some ''m1''\<rparr>) demo12"

definition demo14 :: processor where
  "demo14 = on_ig (\<lambda>g. g\<lparr>ig_verification_attempts := 1, ig_verification_head := Some ''m1''\<rparr>) demo13"

definition demo15 :: processor where
  "demo15 = on_task ''T-1'' (\<lambda>t. t\<lparr>tr_phase := task_phase.Published\<rparr>) (on_ig (\<lambda>g. g\<lparr>ig_publish_attempts := 1, ig_published_head := Some ''m1'',
      ig_publication_pushed := Some True\<rparr>) demo14)"

definition demo16 :: processor where
  "demo16 = on_ig (\<lambda>g. g\<lparr>ig_ci_wait_attempts := 1, ig_ci_disposition := Some ci_disposition.Confirmed\<rparr>) (on_state (\<lambda>s. s\<lparr>st_phase := Cleaning\<rparr>) demo15)"

definition demo17 :: processor where
  "demo17 = demo16"

definition demo18 :: processor where
  "demo18 = on_ig (\<lambda>g. g\<lparr>ig_cleanup_journaled := True\<rparr>) demo17"

definition demo19 :: processor where
  "demo19 = on_ig (\<lambda>g. g\<lparr>ig_archive_ci_gate := Some archive_ci_gate.Skipped\<rparr>) demo18"

definition demo20 :: processor where
  "demo20 = demo19"

definition demo21 :: processor where
  "demo21 = on_ig (\<lambda>g. g\<lparr>ig_dependency_graph_refreshed_post_archive := True\<rparr>) demo20"

definition demo22 :: processor where
  "demo22 = on_task ''T-1'' (\<lambda>t. t\<lparr>tr_phase := Done\<rparr>) (on_state (\<lambda>s. s\<lparr>st_phase := Idle, st_batch := None, st_integration := integration_default\<rparr>) demo21)"

lemmas demo_defs =
  on_state_def on_ig_def on_task_def demo_cohort_def demo0_def demo_queue_def demo_task_def
  demo_task2_def demo_task3_def demo1_def demo2_def demo3_def demo4_def demo5_def demo6_def
  demo7_def demo8_def demo9_def demo10_def demo11_def demo12_def demo13_def demo14_def demo15_def
  demo16_def demo17_def demo18_def demo19_def demo20_def demo21_def demo22_def

section \<open>The steps\<close>

lemma demo_strings [simp]:
  "validate_task_id ''T-1'' = Inr ()" "validate_task_id ''T-2'' = Inr ()"
  "validate_conflict_domain ''src/a/**'' = Inr ()" "validate_conflict_domain ''docs/**'' = Inr ()"
  "validate_conflict_domain ''src/a/b.rs'' = Inr ()"
  "validate_batch_id ''B-1'' = Inr ()" "validate_ref ''main'' x = Inr ()" "validate_ref ''c1'' x = Inr ()"
  "validate_ref ''m1'' x = Inr ()"
  by code_simp+

lemma demo_round: "plan_admission (map resolver_candidate demo_queue) [] 3 = Admitted [''T-1'', ''T-2'']"
  by code_simp

lemmas demo_round_eval [simp] = demo_round[unfolded demo_queue_def demo_task_def demo_task2_def demo_task3_def, simplified]

lemma demo_step1:
  "accept id (Recover []) demo0 =
    (Inr [PersistCheckpoint, WriteJournalAndStatus], demo1)"
  by (simp add: demo_defs eval_defs cong: eval_congs)

lemma demo_step2:
  "accept id (Open ''B-1'' ''main'' 1000) demo1 =
    (Inr [PersistCheckpoint, DispatchDependencyCurator refresh_boundary.CohortOpen], demo2)"
  by (simp add: demo_defs eval_defs cong: eval_congs)

lemma demo_step3:
  "accept id (DependencyGraphRefreshed refresh_boundary.CohortOpen (leaf_outcome.Completed None)) demo2 =
    (Inr [PersistCheckpoint, ReconcileInbox 3], demo3)"
  by (simp add: demo_defs eval_defs cong: eval_congs)

lemma demo_step4:
  "accept id (Admit demo_queue 1001) demo3 =
    (Inr [PersistCheckpoint, EnsureTaskWorkspace ''T-1'' ''task/T-1'', EnsureTaskWorkspace ''T-2'' ''task/T-2''], demo4)"
  by (simp add: demo_defs eval_defs cong: eval_congs)

lemma demo_step5:
  "accept id (WorkspaceReady ''T-1'') demo4 =
    (Inr [PersistCheckpoint, PrepareTaskLeaf ''T-1'' Implement], demo5)"
  by (simp add: demo_defs eval_defs cong: eval_congs)

lemma demo_step6:
  "accept id (TaskLeaf ''T-1'' (leaf_outcome.Completed None)) demo5 =
    (Inr [PersistCheckpoint, CommitTask ''T-1''], demo6)"
  by (simp add: demo_defs eval_defs cong: eval_congs)

lemma demo_step7:
  "accept id (TaskCommitted ''T-1'' ''c1'') demo6 =
    (Inr [PersistCheckpoint, PrepareTaskReview ''T-1''], demo7)"
  by (simp add: demo_defs eval_defs cong: eval_congs)

lemma demo_step8:
  "accept id (TaskReview ''T-1'' (Clean ''c1'')) demo7 =
    (Inr [], demo8)"
  by (simp add: demo_defs eval_defs cong: eval_congs)

lemma demo_step9:
  "accept id (WorkspaceFailed ''T-2'' ''disk full'') demo8 =
    (Inr [PersistCheckpoint, EscalateTask ''T-2'' ''disk full''], demo9)"
  by (simp add: demo_defs eval_defs cong: eval_congs)

lemma demo_step10:
  "accept id (Advance 10000) demo9 =
    (Inr [PersistCheckpoint, PrepareIntegrationWorkspace ''integration/B-1''], demo10)"
  by (simp add: demo_defs eval_defs cong: eval_congs)

lemma demo_step11:
  "accept id (IntegrationWorkspaceReady) demo10 =
    (Inr [PersistCheckpoint, MergeTask ''T-1''], demo11)"
  by (simp add: demo_defs eval_defs cong: eval_congs)

lemma demo_step12:
  "accept id (TaskMerged ''T-1'' (merge_outcome.Merged ''m1'')) demo11 =
    (Inr [PersistCheckpoint, DispatchIntegration IntegrationReview], demo12)"
  by (simp add: demo_defs eval_defs cong: eval_congs)

lemma demo_step13:
  "accept id (IntegrationReviewed (Clean ''m1'')) demo12 =
    (Inr [PersistCheckpoint, VerifyIntegration ''m1''], demo13)"
  by (simp add: demo_defs eval_defs cong: eval_congs)

lemma demo_step14:
  "accept id (IntegrationVerified ''m1'' verification_outcome.Passed) demo13 =
    (Inr [PersistCheckpoint, Publish ''B-1''], demo14)"
  by (simp add: demo_defs eval_defs cong: eval_congs)

lemma demo_step15:
  "accept id (processor_command.Published ''m1'' True) demo14 =
    (Inr [PersistCheckpoint, VerifyCi ''m1''], demo15)"
  by (simp add: demo_defs eval_defs cong: eval_congs)

lemma demo_step16:
  "accept id (CiVerified ci_outcome.Passed) demo15 =
    (Inr [PersistCheckpoint, PrepareKnowledgeCuration], demo16)"
  by (simp add: demo_defs eval_defs cong: eval_congs)

lemma demo_step17:
  "accept id (KnowledgeCurationPrepared knowledge_preparation_outcome.Skipped) demo16 =
    (Inr [PersistCheckpoint, WriteJournalAndStatus, PrepareArchival], demo17)"
  by (simp add: demo_defs eval_defs cong: eval_congs)

lemma demo_step18:
  "acknowledge_non_command_effect WriteJournalAndStatus (pr_state demo17) = (Inr (), pr_state demo18)"
  by (simp add: demo_defs eval_defs cong: eval_congs)

lemma demo_step19:
  "accept id (ArchivalPrepared archival_preparation_outcome.Skipped) demo18 =
    (Inr [PersistCheckpoint, ArchiveTask ''T-1'', CleanupTaskWorkspace ''T-1'',
      CleanupTaskWorkspace ''T-2'', CleanupIntegrationWorkspace, CleanupCohortControlPlane], demo19)"
  by (simp add: demo_defs eval_defs cong: eval_congs)

lemma demo_step20:
  "accept id (CleanupComplete) demo19 =
    (Inr [PersistCheckpoint, DispatchDependencyCurator PostArchive], demo20)"
  by (simp add: demo_defs eval_defs cong: eval_congs)

lemma demo_step21:
  "accept id (DependencyGraphRefreshed PostArchive (leaf_outcome.Completed None)) demo20 =
    (Inr [PersistCheckpoint, ReconcileInboxFinalization], demo21)"
  by (simp add: demo_defs eval_defs cong: eval_congs)

lemma demo_step22:
  "accept id (CleanupComplete) demo21 =
    (Inr [PersistCheckpoint, WriteJournalAndStatus, ReleaseLease], demo22)"
  by (simp add: demo_defs eval_defs cong: eval_congs)

section \<open>The run\<close>

lemma demo_new: "processor_new default_config = Inr demo0"
  by (simp add: processor_new_def validate_config_def default_config_def demo0_def)

lemma on_state_config [simp]: "pr_config (on_state f p) = pr_config p" "pr_config (on_ig g p) = pr_config p"
  "pr_config (on_task i h p) = pr_config p"
  by (simp_all add: on_state_def on_ig_def on_task_def)

lemma demo_run0: "reducer_run id demo0 demo0"
  by (rule reducer_run.start)

lemma demo_run1: "reducer_run id demo0 demo1"
  by (rule reducer_run.command[OF demo_run0 demo_step1])

lemma demo_run2: "reducer_run id demo0 demo2"
  by (rule reducer_run.command[OF demo_run1 demo_step2])

lemma demo_run3: "reducer_run id demo0 demo3"
  by (rule reducer_run.command[OF demo_run2 demo_step3])

lemma demo_run4: "reducer_run id demo0 demo4"
  by (rule reducer_run.command[OF demo_run3 demo_step4])

lemma demo_run5: "reducer_run id demo0 demo5"
  by (rule reducer_run.command[OF demo_run4 demo_step5])

lemma demo_run6: "reducer_run id demo0 demo6"
  by (rule reducer_run.command[OF demo_run5 demo_step6])

lemma demo_run7: "reducer_run id demo0 demo7"
  by (rule reducer_run.command[OF demo_run6 demo_step7])

lemma demo_run8: "reducer_run id demo0 demo8"
  by (rule reducer_run.command[OF demo_run7 demo_step8])

lemma demo_run9: "reducer_run id demo0 demo9"
  by (rule reducer_run.command[OF demo_run8 demo_step9])

lemma demo_run10: "reducer_run id demo0 demo10"
  by (rule reducer_run.command[OF demo_run9 demo_step10])

lemma demo_run11: "reducer_run id demo0 demo11"
  by (rule reducer_run.command[OF demo_run10 demo_step11])

lemma demo_run12: "reducer_run id demo0 demo12"
  by (rule reducer_run.command[OF demo_run11 demo_step12])

lemma demo_run13: "reducer_run id demo0 demo13"
  by (rule reducer_run.command[OF demo_run12 demo_step13])

lemma demo_run14: "reducer_run id demo0 demo14"
  by (rule reducer_run.command[OF demo_run13 demo_step14])

lemma demo_run15: "reducer_run id demo0 demo15"
  by (rule reducer_run.command[OF demo_run14 demo_step15])

lemma demo_run16: "reducer_run id demo0 demo16"
  by (rule reducer_run.command[OF demo_run15 demo_step16])

lemma demo_run17: "reducer_run id demo0 demo17"
  by (rule reducer_run.command[OF demo_run16 demo_step17])

lemma demo_run18: "reducer_run id demo0 demo18"
  using reducer_run.acknowledged[OF demo_run17 demo_step18] by (simp add: demo18_def on_ig_def on_state_def)

lemma demo_run19: "reducer_run id demo0 demo19"
  by (rule reducer_run.command[OF demo_run18 demo_step19])

lemma demo_run20: "reducer_run id demo0 demo20"
  by (rule reducer_run.command[OF demo_run19 demo_step20])

lemma demo_run21: "reducer_run id demo0 demo21"
  by (rule reducer_run.command[OF demo_run20 demo_step21])

lemma demo_run22: "reducer_run id demo0 demo22"
  by (rule reducer_run.command[OF demo_run21 demo_step22])

end
