(* ===== verification/ReducerProps.thy ===== *)
theory ReducerProps
  imports Scenario
begin

text \<open>
  What the reducer promises to its runtime, for every processor reachable from a fresh one: bounds,
  exclusion, publication safety, cleanup safety, holds, budgets and recovery. Each theorem is
  followed by its instance on a state of the worked cohort.
\<close>

section \<open>Reachable states\<close>

lemma reached:
  assumes "processor_new cfg = Inr p0" "reducer_run lc p0 p"
  shows "proc_inv p \<and> pr_config p = cfg"
  using run_inv[OF assms(2)] new_inv[OF assms(1)] by simp

lemma emitted_ok:
  assumes "processor_new cfg = Inr p0" "reducer_run lc p0 p" "accept lc c p = (Inr es, p')"
  shows "effects_ok (pr_state p') es"
  using assms(3) by (cases rule: accept_cases) (use apply_inv reached[OF assms(1,2)] in blast)+

lemma emitted_effect_ok:
  assumes "processor_new cfg = Inr p0" "reducer_run lc p0 p" "accept lc c p = (Inr es, p')" "e \<in> set es"
  shows "effect_ok (pr_state p') e"
  using emitted_ok[OF assms(1-3)] assms(4) by (simp add: effects_ok_set)

lemma pref_find_None: "pref_find P xs = None \<longleftrightarrow> \<not> list_ex P xs"
  by (induction xs) simp_all

section \<open>Publication\<close>

lemma bt_set_phase:
  "map_option tr_phase (map_of (bt_set k t m) i)
    = (if i = k \<and> map_of m k \<noteq> None then Some (tr_phase t) else map_option tr_phase (map_of m i))"
  by (auto simp: bt_set_look dom_def)

lemma move_merged_published:
  assumes "move_merged (\<lambda>t. t\<lparr>tr_phase := task_phase.Published\<rparr>) op ids s = (Inr u, s')"
  shows "(\<forall>i. i \<notin> set ids \<longrightarrow> map_of (st_tasks s') i = map_of (st_tasks s) i)
    \<and> list_all (\<lambda>i. map_option tr_phase (map_of (st_tasks s) i) = Some task_phase.Merged
        \<and> map_option tr_phase (map_of (st_tasks s') i) = Some task_phase.Published) ids"
  using assms
proof (induction ids arbitrary: s)
  case (Cons i ids)
  obtain t where t: "map_of (st_tasks s) i = Some t" "tr_phase t = task_phase.Merged"
    and rest: "move_merged (\<lambda>t. t\<lparr>tr_phase := task_phase.Published\<rparr>) op ids
      (put_task i (t\<lparr>tr_phase := task_phase.Published\<rparr>) s) = (Inr u, s')"
    using Cons.prems by (auto simp: task_mut_def expect_task_phase_def)
  note IH = Cons.IH[OF rest]
  have "i \<notin> set ids" using IH t by (auto simp: list_all_iff put_task_def bt_set_phase)
  then show ?case
    using IH t by (auto simp: list_all_iff put_task_def bt_set_phase bt_set_look split: if_splits)
qed simp

text \<open>
  C1. Publication safety: a reachable processor asks for the publication of a cohort only in the
  publishing phase, for its own cohort, and only while the verified head is the current, existing
  integration tip.
\<close>

theorem publish_only_verified_tip:
  assumes "processor_new cfg = Inr p0" "reducer_run lc p0 p" "accept lc c p = (Inr es, p')"
    and "Publish i \<in> set es"
  shows "st_phase (pr_state p') = Publishing
    \<and> map_option co_id (st_batch (pr_state p')) = Some i
    \<and> ig_integration_head (st_integration (pr_state p')) \<noteq> None
    \<and> ig_verification_head (st_integration (pr_state p')) = ig_integration_head (st_integration (pr_state p'))"
  using emitted_effect_ok[OF assms] by (simp add: effect_ok_def Let_def)

theorem publish_only_verified_tip_witness:
  "st_phase (pr_state demo14) = Publishing
    \<and> map_option co_id (st_batch (pr_state demo14)) = Some ''B-1''
    \<and> ig_integration_head (st_integration (pr_state demo14)) \<noteq> None
    \<and> ig_verification_head (st_integration (pr_state demo14)) = ig_integration_head (st_integration (pr_state demo14))"
  by (rule publish_only_verified_tip[OF demo_new demo_run13 demo_step14]) simp


text \<open>
  The publication acknowledgement is refused unless it names the exact head that is both the
  integration tip and the verified head; when accepted, the head is recorded as published and every
  merged task of the cohort has moved from merged to published.
\<close>

lemma published_exact_tip:
  assumes "accept lc (processor_command.Published head pushed) p = (Inr es, p')"
    and "st_phase (pr_state p) \<notin> {phase.Blocked, Paused}"
  shows "st_phase (pr_state p) = Publishing
    \<and> ig_integration_head (st_integration (pr_state p)) = Some head
    \<and> ig_verification_head (st_integration (pr_state p)) = Some head
    \<and> ig_merged_tasks (st_integration (pr_state p)) \<noteq> []
    \<and> ig_published_head (st_integration (pr_state p')) = Some head
    \<and> es = [PersistCheckpoint, VerifyCi head]
    \<and> list_all (\<lambda>i. map_option tr_phase (map_of (st_tasks (pr_state p)) i) = Some task_phase.Merged
        \<and> map_option tr_phase (map_of (st_tasks (pr_state p')) i) = Some task_phase.Published)
      (ig_merged_tasks (st_integration (pr_state p)))"
proof -
  obtain fs s' where run: "published head pushed (pr_state p) = (Inr fs, s')" and p': "p' = p\<lparr>pr_state := s'\<rparr>"
    and es: "es = with_checkpoint (guard_model_effects (pr_config p') fs)"
    using assms unfolding accept_def apply_command_def run_command_def
    by (auto simp: is_budget_check_def is_recover_def passes_pause_def dispatch_def split: prod.splits sum.splits)
  have fs: "fs = [VerifyCi head]" using run by (auto simp: published_def Let_def)
  have "list_all (\<lambda>i. map_option tr_phase (map_of (st_tasks (pr_state p)) i) = Some task_phase.Merged
        \<and> map_option tr_phase (map_of (st_tasks s') i) = Some task_phase.Published)
      (ig_merged_tasks (st_integration (pr_state p)))"
    using run by (auto simp: published_def Let_def dest: move_merged_published)
  then show ?thesis
    using run es fs p'
    by (auto simp: published_def Let_def guard_model_effects_def guard_model_effect_def from_effect_def
        with_checkpoint_def is_wait_def)
qed

lemma published_exact_tip_witness:
  "ig_published_head (st_integration (pr_state demo15)) = Some ''m1''"
  using published_exact_tip[OF demo_step15] by (simp add: demo_defs eval_defs)

section \<open>Cleanup and merging\<close>

definition destructive :: "effect \<Rightarrow> bool" where
  "destructive e =
    (case e of
       ArchiveTask _ \<Rightarrow> True | CleanupTaskWorkspace _ \<Rightarrow> True
     | CleanupIntegrationWorkspace \<Rightarrow> True | CleanupCohortControlPlane \<Rightarrow> True | _ \<Rightarrow> False)"

lemma destructive_ok:
  "effect_ok s e \<Longrightarrow> destructive e \<Longrightarrow> st_phase s = Cleaning \<and> ig_archive_ci_gate (st_integration s) \<noteq> None"
  by (cases e) (simp_all add: destructive_def effect_ok_def Let_def)

text \<open>
  C2. Destructive effects come after the archive gate: whenever a reachable processor emits an effect
  that archives a task, removes a workspace or removes the control plane of the cohort, it is in
  the cleaning phase and the archive CI gate of the cohort has been decided.
\<close>

theorem destruction_after_archive_gate:
  assumes "processor_new cfg = Inr p0" "reducer_run lc p0 p" "accept lc c p = (Inr es, p')"
  shows "list_all (\<lambda>e. if destructive e
      then st_phase (pr_state p') = Cleaning \<and> ig_archive_ci_gate (st_integration (pr_state p')) \<noteq> None
      else True) es"
  using emitted_ok[OF assms] destructive_ok by (auto simp: effects_ok_def list_all_iff)

theorem destruction_after_archive_gate_witness:
  "st_phase (pr_state demo19) = Cleaning"
  using destruction_after_archive_gate[OF demo_new demo_run18 demo_step19] by (simp add: destructive_def)

text \<open>
  C3. Only a reviewed task is merged: the merge of a task is requested only for a task that is in the
  ready phase, with the integration workspace prepared and no merge conflict awaiting resolution.
\<close>

theorem merge_only_ready_tasks:
  assumes "processor_new cfg = Inr p0" "reducer_run lc p0 p" "accept lc c p = (Inr es, p')"
    and "MergeTask i \<in> set es"
  shows "map_option tr_phase (map_of (st_tasks (pr_state p')) i) = Some task_phase.Ready
    \<and> ig_workspace_prepared (st_integration (pr_state p'))
    \<and> ig_pending_merge_resolution (st_integration (pr_state p')) = None"
proof -
  have ok: "effect_ok (pr_state p') (MergeTask i)" by (rule emitted_effect_ok[OF assms])
  then obtain k t where m: "(k, t) \<in> set (st_tasks (pr_state p'))" "tr_id t = i" "tr_phase t = task_phase.Ready"
    by (auto simp: effect_ok_def ready_to_merge_def list_ex_iff bt_values_def Let_def)
  have "proc_inv p'" using accept_inv[OF assms(3)] reached[OF assms(1,2)] by blast
  then have "k = i" "distinct (map fst (st_tasks (pr_state p')))"
    using m by (auto simp: proc_inv_def reducer_inv_def well_keyed_def list_all_iff bt_invar_def)
  then show ?thesis using ok m by (auto simp: effect_ok_def Let_def)
qed

theorem merge_only_ready_tasks_witness:
  "map_option tr_phase (map_of (st_tasks (pr_state demo11)) ''T-1'') = Some task_phase.Ready"
  using merge_only_ready_tasks[OF demo_new demo_run10 demo_step11, of "''T-1''"] by simp

text \<open>
  Completion of the clean-up: from the cleaning phase the reducer lets go of the cohort exactly
  when no task is merged but unpublished, the archive gate is decided and the dependency graph was
  refreshed after the archive; it then releases the lease, is idle without a cohort, every published
  task is done and the deferred knowledge curations survive. Before the refresh it asks for the
  refresh instead and changes nothing.
\<close>

lemma cleanup_completes:
  assumes "st_phase (pr_state p) = Cleaning"
  shows "accept lc CleanupComplete p =
    (let s = pr_state p; g = st_integration s in
     if list_ex (\<lambda>t. tr_phase t = task_phase.Merged) (bt_values (st_tasks s)) \<or> ig_archive_ci_gate g = None
     then (Inl (if list_ex (\<lambda>t. tr_phase t = task_phase.Merged) (bt_values (st_tasks s))
                then InvalidCommand ''cannot clean batch while {} is merged but not published''
                  [ArgStr (tr_id (the (tasks_where (\<lambda>t. tr_phase t = task_phase.Merged) s)))]
                else InvalidCommand ''cannot complete cleanup before the archive CI preflight'' []), p)
     else if \<not> ig_dependency_graph_refreshed_post_archive g
     then (Inr [PersistCheckpoint, guard_model_effect (pr_config p) (DispatchDependencyCurator PostArchive)], p)
     else (Inr [PersistCheckpoint, WriteJournalAndStatus, ReleaseLease],
           p\<lparr>pr_state := s\<lparr>st_tasks := map (\<lambda>(k, t). (k, finish_published t)) (st_tasks s),
                st_phase := Idle, st_batch := None,
                st_integration := integration_default
                  \<lparr>ig_pending_knowledge_curations := ig_pending_knowledge_curations g\<rparr>\<rparr>\<rparr>))"
proof -
  let ?s = "pr_state p"
  have none: "tasks_where P ?s = None \<longleftrightarrow> \<not> list_ex P (bt_values (st_tasks ?s))" for P
    by (simp add: tasks_where_def pref_find_None)
  have wait: "\<not> is_wait (guard_model_effect cfg (DispatchDependencyCurator b))" for cfg b
    by (simp add: guard_model_effect_def from_effect_def is_wait_def)
  have acc: "accept lc CleanupComplete p =
    (case cleanup_complete ?s of
       (Inl e, _) \<Rightarrow> (Inl e, p)
     | (Inr es, s') \<Rightarrow> (Inr (with_checkpoint (guard_model_effects (pr_config p) es)), p\<lparr>pr_state := s'\<rparr>))"
    using assms
    by (simp add: accept_def apply_command_def run_command_def is_recover_def passes_pause_def
        is_budget_check_def dispatch_def split: prod.splits sum.splits)
  show ?thesis
  proof (cases "tasks_where (\<lambda>t. tr_phase t = task_phase.Merged) ?s")
    case (Some t)
    then show ?thesis
      using assms none[of "\<lambda>t. tr_phase t = task_phase.Merged"]
      by (simp add: acc cleanup_complete_def require_phase_def Let_def ensure_def)
  next
    case None
    then have none': "\<not> list_ex (\<lambda>t. tr_phase t = task_phase.Merged) (bt_values (st_tasks ?s))"
      using none by blast
    show ?thesis
    proof (cases "ig_archive_ci_gate (st_integration ?s)")
      case gate: None
      then show ?thesis
        using assms None none' by (simp add: acc cleanup_complete_def require_phase_def Let_def ensure_def)
    next
      case (Some g)
      then show ?thesis
        using assms None none' wait
        by (simp add: acc cleanup_complete_def require_phase_def Let_def ensure_def guard_model_effects_def
            with_checkpoint_def is_wait_def guard_model_effect_def[of _ WriteJournalAndStatus]
            guard_model_effect_def[of _ ReleaseLease] from_effect_def)
    qed
  qed
qed

lemma cleanup_completes_witness:
  "accept id CleanupComplete demo21 = (Inr [PersistCheckpoint, WriteJournalAndStatus, ReleaseLease], demo22)"
  by (subst cleanup_completes) (simp_all add: demo_defs eval_defs)

section \<open>Bounds and exclusion\<close>

text \<open>
  C6. Bounded concurrency: no reachable processor has more tasks being worked on than the configured
  parallelism, and the cohort never admits more tasks in total than its configured size.
\<close>

theorem concurrency_bounded:
  assumes "processor_new cfg = Inr p0" "reducer_run lc p0 p"
  shows "active_count (pr_state p) \<le> cf_max_parallel cfg
    \<and> (case st_batch (pr_state p) of None \<Rightarrow> True | Some b \<Rightarrow> co_admitted_total b \<le> cf_cohort_size cfg)"
  using reached[OF assms] by (auto simp: proc_inv_def reducer_inv_def)

theorem concurrency_bounded_witness:
  "active_count (pr_state demo4) \<le> cf_max_parallel default_config"
  using concurrency_bounded[OF demo_new demo_run4] by blast

text \<open>
  C5. Isolation of concurrent work: in a reachable processor two different tasks that are both being
  worked on never have intersecting conflict domains.
\<close>

theorem concurrent_tasks_disjoint:
  assumes "processor_new cfg = Inr p0" "reducer_run lc p0 p"
    and "map_of (st_tasks (pr_state p)) i = Some t" "map_of (st_tasks (pr_state p)) j = Some u" "i \<noteq> j"
    and "is_active (tr_phase t)" "is_active (tr_phase u)"
  shows "\<not> intersects (domain_parse (tr_conflict_domain t)) (domain_parse (tr_conflict_domain u))"
proof -
  have "active_disjoint (pr_state p)" using reached[OF assms(1,2)] by (simp add: proc_inv_def reducer_inv_def)
  then have "i = j \<or> excludes t u"
    using assms(3,4)[THEN map_of_SomeD] unfolding active_disjoint_def list_all_iff by fastforce
  then show ?thesis using assms(5-7) by (simp add: excludes_def)
qed

theorem concurrent_tasks_disjoint_witness:
  "\<not> intersects (domain_parse ''src/a/**'') (domain_parse ''docs/**'')"
  using concurrent_tasks_disjoint[OF demo_new demo_run4, of "''T-1''" "task_new demo_task 1" "''T-2''" "task_new demo_task2 1"]
  by (simp add: demo_defs eval_defs)

text \<open>
  C7. Bounded review: a task of a reachable processor has completed at most the configured number of
  review cycles, and strictly fewer while a review is running.
\<close>

theorem review_cycles_bounded:
  assumes "processor_new cfg = Inr p0" "reducer_run lc p0 p"
    and "map_of (st_tasks (pr_state p)) i = Some t"
  shows "tr_review_cycles t \<le> cf_review_loop_max cfg
    \<and> (if tr_phase t = Reviewing then tr_review_cycles t < cf_review_loop_max cfg else True)"
  using reached[OF assms(1,2)] map_of_SomeD[OF assms(3)]
  by (fastforce simp: proc_inv_def reducer_inv_def list_all_iff review_ok_def)

theorem review_cycles_bounded_witness:
  "tr_review_cycles (the (map_of (st_tasks (pr_state demo8)) ''T-1'')) \<le> cf_review_loop_max default_config"
  using review_cycles_bounded[OF demo_new demo_run8, of "''T-1''"] by (simp add: demo_defs eval_defs)

text \<open>
  The verified head is never stale: in a reachable processor the verified head of the integration
  is absent or equal to the current integration tip, and the number of publication re-anchors stays
  within the integration loop limit.
\<close>

lemma verified_head_current:
  assumes "processor_new cfg = Inr p0" "reducer_run lc p0 p"
  shows "ig_verification_head (st_integration (pr_state p))
      \<in> {None, ig_integration_head (st_integration (pr_state p))}
    \<and> ig_publication_reanchor_cycles (st_integration (pr_state p)) \<le> cf_integration_loop_max cfg"
  using reached[OF assms] by (auto simp: proc_inv_def reducer_inv_def tip_verified_def reanchor_bounded_def)

lemma verified_head_current_witness:
  "ig_verification_head (st_integration (pr_state demo15))
      \<in> {None, ig_integration_head (st_integration (pr_state demo15))}"
  using verified_head_current[OF demo_new demo_run15] by blast

section \<open>The lifecycle of a task\<close>

lemma accept_task:
  assumes "processor_new cfg = Inr p0" "reducer_run lc p0 p" "accept lc c p = (r, p')"
    and "\<not> opens_or_admits c" "map_of (st_tasks (pr_state p)) i = Some t"
  shows "\<exists>t'. map_of (st_tasks (pr_state p')) i = Some t' \<and> task_evolves (pr_config p) t t'"
proof -
  have "well_keyed (pr_state p)" using reached[OF assms(1,2)] by (simp add: proc_inv_def reducer_inv_def)
  then have "keeps (pr_config p) (pr_state p) (pr_state p')" using accept_keeps assms(3,4) by blast
  then have "rel_option (task_evolves (pr_config p)) (Some t) (map_of (st_tasks (pr_state p')) i)"
    using assms(5) by (metis keeps_def entries_rel_look)
  then show ?thesis by (cases "map_of (st_tasks (pr_state p')) i") auto
qed

text \<open>
  C31. Tasks move only along their lifecycle: a command other than opening a cohort or admitting
  tasks keeps every task with its conflict domain, leaves its phase or moves it along one edge of the
  lifecycle, and never lowers its risk class.
\<close>

theorem task_lifecycle:
  assumes "processor_new cfg = Inr p0" "reducer_run lc p0 p" "accept lc c p = (r, p')"
    and "\<not> opens_or_admits c" "map_of (st_tasks (pr_state p)) i = Some t"
  shows "case map_of (st_tasks (pr_state p')) i of
      None \<Rightarrow> False
    | Some t' \<Rightarrow> tr_conflict_domain t' = tr_conflict_domain t
        \<and> (tr_phase t' = tr_phase t \<or> task_phase_step (tr_phase t) (tr_phase t'))
        \<and> (tr_risk t' = tr_risk t \<or> the (tr_risk t) < the (tr_risk t'))"
  using accept_task[OF assms] by (auto simp: task_evolves_def phase_moves_def risk_raised_def)

theorem task_lifecycle_witness:
  "tr_phase (the (map_of (st_tasks (pr_state demo7)) ''T-1'')) = Reviewing
    \<and> task_phase_step Committing Reviewing"
  using task_lifecycle[OF demo_new demo_run6 demo_step7, of "''T-1''"]
  by (simp add: demo_defs eval_defs opens_or_admits_def)

text \<open>
  Settled tasks stay settled: within a cohort a task that was quarantined, escalated or finished
  keeps that phase under every command.
\<close>

lemma settled_tasks_stay:
  assumes "processor_new cfg = Inr p0" "reducer_run lc p0 p" "accept lc c p = (r, p')"
    and "\<not> opens_or_admits c" "map_of (st_tasks (pr_state p)) i = Some t"
    and "tr_phase t \<in> {task_phase.Conflict, task_phase.Escalated, Done}"
  shows "map_option tr_phase (map_of (st_tasks (pr_state p')) i) = Some (tr_phase t)"
  using accept_task[OF assms(1-5)] assms(6) by (auto simp: task_evolves_def phase_moves_def is_active_def)

lemma settled_tasks_stay_witness:
  "map_option tr_phase (map_of (st_tasks (pr_state demo10)) ''T-2'') = Some task_phase.Escalated"
  using settled_tasks_stay[OF demo_new demo_run9 demo_step10, of "''T-2''"]
  by (simp add: demo_defs eval_defs opens_or_admits_def)

section \<open>Holds and recovery\<close>

lemma accept_blocked:
  assumes "st_phase (pr_state p) = phase.Blocked"
  shows "snd (accept lc c p) = p"
  using assms
  by (cases c) (simp_all add: accept_def apply_command_def run_command_def is_recover_def recover_def)

text \<open>
  A blocked processor stays blocked: no sequence of commands, session notes and acknowledgements
  takes it out of that phase or changes its cohort or its reason; only a restart from a checkpoint
  can look at it again.
\<close>

lemma blocked_is_absorbing:
  assumes "reducer_run lc p q" "st_phase (pr_state p) = phase.Blocked"
  shows "st_phase (pr_state q) = phase.Blocked \<and> st_batch (pr_state q) = st_batch (pr_state p)
    \<and> st_blocked_reason (pr_state q) = st_blocked_reason (pr_state p)"
  using assms
proof (induction rule: reducer_run.induct)
  case (command p q c r q')
  then show ?case using accept_blocked[of q lc c] by simp
next
  case (session p q i u x s')
  then show ?case
    by (cases u) (auto simp: record_leaf_session_def Let_def put_task_def)
next
  case (acknowledged p q e x s')
  then show ?case
    by (cases e) (auto simp: acknowledge_non_command_effect_def put_task_def split: if_splits)
qed simp

lemma blocked_is_absorbing_witness:
  "st_phase (pr_state (snd (accept id Resume (on_state (\<lambda>s. s\<lparr>st_phase := phase.Blocked\<rparr>) demo12)))) = phase.Blocked"
proof -
  let ?p = "on_state (\<lambda>s. s\<lparr>st_phase := phase.Blocked\<rparr>) demo12"
  have "reducer_run id ?p (snd (accept id Resume ?p))"
    by (rule reducer_run.command[OF reducer_run.start, where c = Resume]) (rule surjective_pairing)
  from blocked_is_absorbing[OF this] show ?thesis by (simp add: on_state_def)
qed

text \<open>
  A restart does not lift a block: a processor restored from a blocked checkpoint answers
  the recovery command by waiting for the operator with the stored reason, and is blocked again with
  its tasks, cohort and integration untouched, whatever workspaces exist.
\<close>

lemma block_survives_restart:
  assumes "from_checkpoint cfg s = Inr p" "st_phase s = phase.Blocked"
  shows "accept lc (Recover present) p =
    (Inr [WaitForOperator (or_default ''processor is blocked'' (st_blocked_reason s))],
     \<lparr>pr_config = cfg, pr_state = s, pr_recovery_target = None\<rparr>)"
proof -
  have "p = \<lparr>pr_config = cfg, pr_state = s\<lparr>st_phase := Recovery\<rparr>, pr_recovery_target = Some phase.Blocked\<rparr>"
    using assms by (simp add: from_checkpoint_def)
  moreover have "s\<lparr>st_phase := phase.Blocked\<rparr> = s" using assms(2) by simp
  ultimately show ?thesis
    by (simp add: accept_def apply_command_def run_command_def is_recover_def recover_def is_budget_check_def
        guard_model_effects_def guard_model_effect_def from_effect_def with_checkpoint_def is_wait_def)
qed

lemma block_survives_restart_witness:
  "let s = pr_state (on_state (\<lambda>s. s\<lparr>st_phase := phase.Blocked\<rparr>) demo2) in
   snd (accept id (Recover []) \<lparr>pr_config = default_config, pr_state = s\<lparr>st_phase := Recovery\<rparr>,
          pr_recovery_target = Some phase.Blocked\<rparr>)
     = \<lparr>pr_config = default_config, pr_state = s, pr_recovery_target = None\<rparr>"
proof -
  let ?s = "pr_state (on_state (\<lambda>s. s\<lparr>st_phase := phase.Blocked\<rparr>) demo2)"
  have "from_checkpoint default_config ?s = Inr \<lparr>pr_config = default_config, pr_state = ?s\<lparr>st_phase := Recovery\<rparr>,
          pr_recovery_target = Some phase.Blocked\<rparr>"
    by (simp add: demo_defs eval_defs from_checkpoint_def cong: eval_congs)
  from block_survives_restart[OF this, of id "[]"] show ?thesis by (simp add: on_state_def)
qed

lemma recover_tasks_missing:
  assumes "recover_tasks present m = (x, m')" "(k, t) \<in> set m" "is_active (tr_phase t)"
    and "tr_imported_recovery_intent t \<notin> {Some EnsureWorkspace, Some EnsureWorkspaceForReview}" "tr_id t \<notin> set present"
  shows "\<nexists>es. x = Inr (Inr es)"
  using assms(1,2)
proof (induction m arbitrary: x m')
  case (Cons e m)
  obtain k' u where e: "e = (k', u)" by fastforce
  show ?case
  proof (cases "(k', u) = (k, t)")
    case True
    then have "\<nexists>es. fst (recover_task present u) = Inr (Inr es)"
      using assms(3-5) by (auto simp: recover_task_def Let_def is_active_def split: option.splits imported_recovery_intent.splits)
    then show ?thesis using Cons.prems e by (auto split: prod.splits sum.splits)
  next
    case False
    then show ?thesis using Cons e by (auto split: prod.splits sum.splits)
  qed
qed simp

text \<open>
  C32. Recovery fails closed: when some task of the restored cohort was being worked on and has no
  verified workspace, the recovery command is either refused as corrupt or blocks the processor and
  emits nothing but a request for the operator; it does not continue the cohort. The hypothesis on the
  intent leaves out the tasks that the import of a legacy cohort marked as having their workspace
  still to be made: for those the recovery asks for the workspace and goes on.
\<close>

theorem recovery_fails_closed:
  assumes "accept lc (Recover present) p = (r, p')" "st_phase (pr_state p) = Recovery"
    and "(k, t) \<in> set (st_tasks (pr_state p))" "is_active (tr_phase t)"
    and "tr_imported_recovery_intent t \<notin> {Some EnsureWorkspace, Some EnsureWorkspaceForReview}"
    and "tr_id t \<notin> set present"
  shows "(case r of Inl _ \<Rightarrow> p' = p
      | Inr es \<Rightarrow> st_phase (pr_state p') = phase.Blocked \<and> length es = 1 \<and> list_all is_wait es)"
proof (cases "pr_recovery_target p = Some phase.Blocked")
  case True
  then show ?thesis
    using assms(1,2)
    by (auto simp: accept_def apply_command_def run_command_def is_recover_def recover_def is_budget_check_def
        guard_model_effects_def guard_model_effect_def from_effect_def with_checkpoint_def is_wait_def Let_def)
next
  case False
  obtain x m where x: "recover_tasks present (st_tasks (pr_state p)) = (x, m)" by fastforce
  then have "\<nexists>es. x = Inr (Inr es)" using recover_tasks_missing[OF _ assms(3-6)] by blast
  then show ?thesis
    using assms(1,2) False x
    by (cases x; cases "projr x")
      (auto simp: accept_def apply_command_def run_command_def is_recover_def recover_def is_budget_check_def
        guard_model_effects_def guard_model_effect_def from_effect_def with_checkpoint_def is_wait_def Let_def)
qed

theorem recovery_fails_closed_witness:
  "let p = on_state (\<lambda>s. s\<lparr>st_phase := Recovery\<rparr>) demo5 in
   case fst (accept id (Recover [''T-2'']) p) of
     Inl _ \<Rightarrow> snd (accept id (Recover [''T-2'']) p) = p
   | Inr es \<Rightarrow> st_phase (pr_state (snd (accept id (Recover [''T-2'']) p))) = phase.Blocked
       \<and> length es = 1 \<and> list_all is_wait es"
proof -
  let ?p = "on_state (\<lambda>s. s\<lparr>st_phase := Recovery\<rparr>) demo5"
  have "accept id (Recover [''T-2'']) ?p = (fst (accept id (Recover [''T-2'']) ?p), snd (accept id (Recover [''T-2'']) ?p))"
    by simp
  from recovery_fails_closed[OF this, of "''T-1''" "snd (hd (st_tasks (pr_state demo5)))"] show ?thesis
    by (simp add: demo_defs eval_defs)
qed

text \<open>
  Pause is transparent: outside the joining and publishing phases, whose continuation is
  computed anew, a pause followed by a resume restores exactly the processor that was paused, and
  while the pause lasts every command except resume and block is answered by waiting for the
  operator without any change.
\<close>

lemma pause_resume_round_trip:
  assumes "st_phase (pr_state p) \<in> {Recovery, Idle, Opening, Rolling, Cleaning}"
    and "st_paused_from (pr_state p) = None"
  shows "(let q = snd (accept lc Pause p) in
      st_phase (pr_state q) = Paused \<and> snd (accept lc Resume q) = p
      \<and> (if passes_pause c then True else accept lc c q = (Inr [WaitForOperator ''PAUSE is active''], q)))"
proof -
  let ?s = "pr_state p"
  have q: "accept lc Pause p = (Inr [PersistCheckpoint, WriteJournalAndStatus],
      p\<lparr>pr_state := ?s\<lparr>st_paused_from := Some (st_phase ?s), st_phase := Paused\<rparr>\<rparr>)"
    using assms(1)
    by (auto simp: accept_def apply_command_def run_command_def is_recover_def passes_pause_def pause_def
        is_budget_check_def dispatch_def guard_model_effects_def guard_model_effect_def from_effect_def
        with_checkpoint_def is_wait_def)
  have restore: "?s\<lparr>st_paused_from := Some x, st_phase := Paused, st_phase := st_phase ?s, st_paused_from := None\<rparr> = ?s" for x
    using assms(2) by (cases ?s) simp
  have "snd (accept lc Resume (p\<lparr>pr_state := ?s\<lparr>st_paused_from := Some (st_phase ?s), st_phase := Paused\<rparr>\<rparr>)) = p"
    using assms
    by (cases ?s; cases p)
      (auto simp: accept_def apply_command_def run_command_def is_recover_def passes_pause_def resume_def
        is_budget_check_def dispatch_def Let_def ensure_def)
  then show ?thesis
    unfolding q Let_def
    by (auto simp: accept_def apply_command_def is_recover_def passes_pause_def)
qed

lemma pause_resume_round_trip_witness:
  "snd (accept id Resume (snd (accept id Pause demo4))) = demo4"
  using pause_resume_round_trip[of demo4 id Pause] by (simp add: demo_defs eval_defs Let_def)

section \<open>Durability and budgets\<close>

text \<open>
  Durability first: every accepted command whose effects are not empty starts them with the
  checkpoint, except when it only waits for the operator; a refused command leaves the processor
  exactly as it was.
\<close>

lemma checkpoint_before_effects:
  "(case accept lc c p of
      (Inl _, p') \<Rightarrow> p' = p
    | (Inr [], _) \<Rightarrow> True
    | (Inr (e # es), _) \<Rightarrow> e = PersistCheckpoint \<or> is_wait e)"
proof -
  have w: "case with_checkpoint fs of [] \<Rightarrow> True | e # es \<Rightarrow> e = PersistCheckpoint \<or> is_wait e" for fs
    by (cases fs) (simp_all add: with_checkpoint_def)
  show ?thesis
  proof (cases "accept lc c p")
    case (Pair r p')
    then show ?thesis
    proof (cases rule: accept_cases)
      case (accepted es)
      show ?thesis using accepted(2)
      proof (cases rule: apply_cases)
        case (ran fs)
        then show ?thesis using Pair accepted w by simp
      qed (use Pair accepted in \<open>simp add: is_wait_def\<close>)
    qed (use Pair in simp)
  qed
qed

lemma guarded_effects_free:
  "cf_cohort_budget_secs cfg \<noteq> None \<or> cf_cohort_token_budget cfg \<noteq> None \<Longrightarrow>
     list_all (\<lambda>e. from_effect e = None) (guard_model_effects cfg es)"
  by (auto simp: guard_model_effects_def guard_model_effect_def list_all_iff from_effect_def[of "CheckTokenBudget _"]
      from_effect_def[of "CheckCohortBudget _"] split: option.splits)

lemma with_checkpoint_free:
  "list_all (\<lambda>e. from_effect e = None) (with_checkpoint es) \<longleftrightarrow> list_all (\<lambda>e. from_effect e = None) es"
  by (cases es) (auto simp: with_checkpoint_def from_effect_def[of PersistCheckpoint])

lemma unchecked_free:
  assumes "accept lc c p = (Inr es, p')" "\<not> is_budget_check c"
    and "cf_cohort_budget_secs (pr_config p) \<noteq> None \<or> cf_cohort_token_budget (pr_config p) \<noteq> None"
    and "proc_inv p"
  shows "list_all (\<lambda>e. from_effect e = None) es"
proof -
  have "apply_command lc c p = (Inr es, p')" using assms(1) by (cases rule: accept_cases) auto
  then show ?thesis
  proof (cases rule: apply_cases)
    case (ran fs)
    have "pr_config p' = pr_config p" using run_command_inv[OF ran(1) assms(4)] by simp
    then have "list_all (\<lambda>e. from_effect e = None) (guard_model_effects (pr_config p') fs)"
      using assms(3) by (simp add: guarded_effects_free)
    then show ?thesis using ran(2) assms(2) by (simp add: with_checkpoint_free)
  qed (simp add: from_effect_def)
qed

lemma cleanup_effects_free: "list_all (\<lambda>e. from_effect e = None) (cleanup_effects s)"
proof -
  have "list_all (\<lambda>e. from_effect e = None) (task_cleanup_effects t)" for t
    by (simp add: task_cleanup_effects_def from_effect_def)
  then have "list_all (\<lambda>e. from_effect e = None) (concat (map task_cleanup_effects ts))" for ts
    by (induction ts) simp_all
  then show ?thesis by (simp add: cleanup_effects_def Let_def from_effect_def)
qed

lemma escalate_each_free:
  "escalate_each r ids fs s = (Inr es, s') \<Longrightarrow> list_all (\<lambda>e. from_effect e = None) fs
     \<Longrightarrow> list_all (\<lambda>e. from_effect e = None) es"
  by (induction ids arbitrary: fs s) (auto simp: from_effect_def[of "EscalateTask _ _"])

lemma halt_for_free:
  assumes "halt_for c r s = (Inr es, s')"
  shows "list_all (\<lambda>e. from_effect e = None) es"
proof -
  have closed: "after_admission_closed u = (Inr fs, s'') \<Longrightarrow> list_all (\<lambda>e. from_effect e = None) fs" for u fs s''
    using cleanup_effects_free by (auto simp: after_admission_closed_def Let_def from_effect_def split: if_splits)
  show ?thesis
    using assms escalate_each_free closed by (fastforce simp: halt_for_def Let_def)
qed

lemma accept_checked:
  assumes "accept lc c p = (Inr es, p')" "e \<in> set es" "from_effect e \<noteq> None" "is_budget_check c"
  shows "\<exists>fs s'. dispatch lc (pr_config p) c (pr_state p) = (Inr fs, s') \<and> e \<in> set fs"
proof -
  have "apply_command lc c p = (Inr es, p')" using assms(1) by (cases rule: accept_cases) auto
  then show ?thesis
  proof (cases rule: apply_cases)
    case (ran fs)
    then have "e \<in> set fs"
      using assms(2-4) by (cases fs) (auto simp: with_checkpoint_def from_effect_def[of PersistCheckpoint] split: if_splits)
    moreover have "\<exists>s'. dispatch lc (pr_config p) c (pr_state p) = (Inr fs, s')"
      using ran(1) assms(4) by (cases c) (auto simp: run_command_def is_budget_check_def split: prod.splits)
    ultimately show ?thesis by blast
  qed (use assms(2,3) in \<open>simp add: from_effect_def\<close>)
qed

text \<open>
  C4. Budget gate: with a wall-clock or token budget configured, a command other than the two budget
  checks emits, behind the checkpoint, exactly what its handler asked for in the same order, with every effect that
  \<open>ModelCall::from_effect\<close> recognises replaced by the request to check a budget for that very call: the
  wall-clock budget when there is one, otherwise the token budget (a blocked or paused processor only
  waits for the operator). So no recognised model call is released. The knowledge curator is the one
  model call that \<open>from_effect\<close> does not recognise; it passes unchanged.
\<close>

theorem model_calls_wait_for_budget:
  assumes "accept lc c p = (Inr es, p')" "\<not> is_budget_check c"
    and "cf_cohort_budget_secs (pr_config p) \<noteq> None \<or> cf_cohort_token_budget (pr_config p) \<noteq> None"
    and "proc_inv p"
  shows "list_all (\<lambda>e. from_effect e = None) es
    \<and> ((\<exists>raw. run_command lc c p = (Inr raw, p')
          \<and> es = with_checkpoint (map (\<lambda>e.
              case from_effect e of
                None \<Rightarrow> e
              | Some call \<Rightarrow>
                  if cf_cohort_budget_secs (pr_config p) \<noteq> None then CheckCohortBudget call else CheckTokenBudget call) raw))
      \<or> p' = p \<and> (\<exists>m. es = [WaitForOperator m]))"
proof
  show "list_all (\<lambda>e. from_effect e = None) es" using assms by (rule unchecked_free)
  have "apply_command lc c p = (Inr es, p')" using assms(1) by (cases rule: accept_cases) auto
  then show "(\<exists>raw. run_command lc c p = (Inr raw, p')
          \<and> es = with_checkpoint (map (\<lambda>e.
              case from_effect e of
                None \<Rightarrow> e
              | Some call \<Rightarrow>
                  if cf_cohort_budget_secs (pr_config p) \<noteq> None then CheckCohortBudget call else CheckTokenBudget call) raw))
      \<or> p' = p \<and> (\<exists>m. es = [WaitForOperator m])"
  proof (cases rule: apply_cases)
    case (ran fs)
    have "pr_config p' = pr_config p" using run_command_inv[OF ran(1) assms(4)] by simp
    moreover have "guard_model_effect (pr_config p) = (\<lambda>e.
              case from_effect e of
                None \<Rightarrow> e
              | Some call \<Rightarrow>
                  if cf_cohort_budget_secs (pr_config p) \<noteq> None then CheckCohortBudget call else CheckTokenBudget call)"
      using assms(3) by (auto simp: guard_model_effect_def fun_eq_iff split: option.splits)
    ultimately show ?thesis using ran assms(2) by (auto simp: guard_model_effects_def)
  qed auto
qed

theorem model_calls_wait_for_budget_witness:
  "let p = demo4\<lparr>pr_config := default_config\<lparr>cf_cohort_token_budget := Some 100\<rparr>\<rparr> in
   fst (accept id (WorkspaceReady ''T-1'') p)
     = Inr [PersistCheckpoint, CheckTokenBudget (TaskLeafPreparation ''T-1'' Implement)]
   \<and> list_all (\<lambda>e. from_effect e = None) (projr (fst (accept id (WorkspaceReady ''T-1'') p)))"
proof -
  let ?p = "demo4\<lparr>pr_config := default_config\<lparr>cf_cohort_token_budget := Some 100\<rparr>\<rparr>"
  let ?q = "snd (accept id (WorkspaceReady ''T-1'') ?p)"
  have run: "accept id (WorkspaceReady ''T-1'') ?p
    = (Inr [PersistCheckpoint, CheckTokenBudget (TaskLeafPreparation ''T-1'' Implement)], ?q)"
    by (simp add: demo_defs eval_defs cong: eval_congs)
  have "proc_inv demo4" using reached[OF demo_new demo_run4] by simp
  then have "proc_inv ?p"
    by (simp add: proc_inv_def reducer_inv_def review_ok_def reanchor_bounded_def demo_defs eval_defs)
  from model_calls_wait_for_budget[OF run _ _ this, THEN conjunct1]
  have "list_all (\<lambda>e. from_effect e = None) [PersistCheckpoint, CheckTokenBudget (TaskLeafPreparation ''T-1'' Implement)]"
    by (simp add: is_budget_check_def)
  moreover have "fst (accept id (WorkspaceReady ''T-1'') ?p)
      = Inr [PersistCheckpoint, CheckTokenBudget (TaskLeafPreparation ''T-1'' Implement)]"
    by (subst run) simp
  ultimately show ?thesis by (simp only: Let_def sum.sel simp_thms)
qed

text \<open>
  A budget check releases at most the call it was asked about: the only model-bearing effect of a
  successful token check is the checked call itself, and then the observed usage is known and below
  the limit; a successful wall-clock check releases the call only when no token budget is configured
  and the elapsed time is below the limit.
\<close>

lemma budget_check_releases_only_its_call:
  assumes "accept lc c p = (Inr es, p')" "proc_inv p" "e \<in> set es" "from_effect e \<noteq> None"
  shows "(case c of
      TokenBudgetChecked call obs \<Rightarrow>
        e = into_effect call
        \<and> (case (obs, cf_cohort_token_budget (pr_config p)) of (Actual n, Some limit) \<Rightarrow> n < limit | _ \<Rightarrow> False)
    | CohortBudgetChecked call now \<Rightarrow>
        e = into_effect call \<and> cf_cohort_token_budget (pr_config p) = None
        \<and> (case (st_batch (pr_state p), cf_cohort_budget_secs (pr_config p)) of
             (Some b, Some limit) \<Rightarrow> now - co_started_at_secs b < limit | _ \<Rightarrow> False)
    | _ \<Rightarrow> cf_cohort_budget_secs (pr_config p) = None \<and> cf_cohort_token_budget (pr_config p) = None)"
proof (cases "is_budget_check c")
  case False
  have "\<not> list_all (\<lambda>e. from_effect e = None) es" using assms(3,4) by (auto simp: list_all_iff)
  then have "cf_cohort_budget_secs (pr_config p) = None \<and> cf_cohort_token_budget (pr_config p) = None"
    using unchecked_free[OF assms(1) False _ assms(2)] by blast
  then show ?thesis using False by (simp add: is_budget_check_def split: processor_command.splits)
next
  case True
  obtain fs s' where d: "dispatch lc (pr_config p) c (pr_state p) = (Inr fs, s')" "e \<in> set fs"
    using accept_checked[OF assms(1,3,4) True] by blast
  have no: "\<not> list_all (\<lambda>e. from_effect e = None) fs" using d(2) assms(4) by (auto simp: list_all_iff)
  show ?thesis
  proof (cases c)
    case (TokenBudgetChecked call obs)
    then show ?thesis
      using d no
      by (auto simp: dispatch_def token_budget_checked_def Let_def halt_for_token_budget_def
          dest!: halt_for_free split: token_budget_observation.splits if_splits)
  next
    case (CohortBudgetChecked call now)
    then show ?thesis
      using d no assms(4)
      by (auto simp: dispatch_def cohort_budget_checked_def Let_def halt_for_cohort_budget_def
          from_effect_def[of "CheckTokenBudget _"] dest!: halt_for_free split: if_splits)
  qed (use True in \<open>simp_all add: is_budget_check_def\<close>)
qed

lemma budget_check_releases_only_its_call_witness:
  "PrepareTaskLeaf ''T-1'' Implement = into_effect (TaskLeafPreparation ''T-1'' Implement) \<and> (5 :: nat) < 100"
proof -
  let ?call = "TaskLeafPreparation ''T-1'' Implement"
  let ?p = "on_state (\<lambda>s. s\<lparr>st_batch := map_option (\<lambda>b. b\<lparr>co_cohort_token_budget := Some 100\<rparr>) (st_batch s)\<rparr>)
    demo5\<lparr>pr_config := default_config\<lparr>cf_cohort_token_budget := Some 100\<rparr>\<rparr>"
  let ?q = "snd (accept id (TokenBudgetChecked ?call (Actual 5)) ?p)"
  have run: "accept id (TokenBudgetChecked ?call (Actual 5)) ?p = (Inr [PersistCheckpoint, PrepareTaskLeaf ''T-1'' Implement], ?q)"
    by (simp add: demo_defs eval_defs cong: eval_congs)
  have "proc_inv demo5" using reached[OF demo_new demo_run5] by simp
  then have "proc_inv ?p"
    by (simp add: proc_inv_def reducer_inv_def review_ok_def reanchor_bounded_def demo_defs eval_defs well_keyed_def
        active_count_def active_disjoint_def tip_verified_def)
  from budget_check_releases_only_its_call[OF run this, of "PrepareTaskLeaf ''T-1'' Implement"] show ?thesis
    by (simp add: from_effect_def on_state_def)
qed

text \<open>
  Model calls round-trip: turning a model call into its effect and back is the identity for
  every call a handler can produce, and an effect recognised as a model call is rebuilt exactly; calls
  for leaf kinds that do not belong to a task or to the integration are not model calls.
\<close>

lemma model_call_round_trip:
  "from_effect (into_effect call) =
     (case call of
        TaskCall i k \<Rightarrow> if k \<in> {Implement, Review, Fix} then Some call else None
      | IntegrationCall k \<Rightarrow> if k \<in> {Merger, IntegrationReview, IntegrationFix, CiFix} then Some call else None
      | _ \<Rightarrow> Some call)
   \<and> (case from_effect e of None \<Rightarrow> True | Some c \<Rightarrow> into_effect c = e)"
proof
  show "from_effect (into_effect call) =
     (case call of
        TaskCall i k \<Rightarrow> if k \<in> {Implement, Review, Fix} then Some call else None
      | IntegrationCall k \<Rightarrow> if k \<in> {Merger, IntegrationReview, IntegrationFix, CiFix} then Some call else None
      | _ \<Rightarrow> Some call)"
    by (cases call) (simp_all add: from_effect_def into_effect_def)
  show "case from_effect e of None \<Rightarrow> True | Some c \<Rightarrow> into_effect c = e"
    by (cases e) (simp_all add: from_effect_def into_effect_def)
qed

section \<open>Retries\<close>

definition commands :: "(string \<Rightarrow> string) \<Rightarrow> processor_command list \<Rightarrow> processor \<Rightarrow> processor" where
  "commands lc cs p = fold (\<lambda>c p. snd (accept lc c p)) cs p"

lemma commands_simps [simp]:
  "commands lc [] p = p" "commands lc (c # cs) p = commands lc cs (snd (accept lc c p))"
  "commands lc (cs @ ds) p = commands lc ds (commands lc cs p)"
  by (simp_all add: commands_def)

lemma failing_leaf_step:
  assumes "st_phase (pr_state p) = Rolling" "map_of (st_tasks (pr_state p)) i = Some t"
    and "tr_phase t = Implementing" "bt_invar (tr_leaf_attempts t)"
    and "map_of (tr_leaf_attempts t) ''implement'' = Some a"
  shows "snd (accept lc (TaskLeaf i (RetryableFailure r)) p) =
    (if a < cf_leaf_max_attempts (pr_config p)
     then p\<lparr>pr_state := put_task i (snd (task_leaf_attempt Implement t)) (pr_state p)\<rparr>
     else p\<lparr>pr_state := put_task i (t\<lparr>tr_phase := task_phase.Escalated,
            tr_reason := Some (r @ ''; retry limit exhausted'')\<rparr>) (pr_state p)\<rparr>)"
  using assms
  by (simp add: accept_def apply_command_def run_command_def dispatch_def is_recover_def passes_pause_def
      task_leaf_def require_phase_def task_mut_def ok_or_def ensure_def leaf_kind_of_phase_def
      schedule_leaf_retry_def can_schedule_leaf_def leaf_kind_as_str_def escalate_task_def)

lemma attempt_fields:
  assumes "bt_invar (tr_leaf_attempts t)" "map_of (tr_leaf_attempts t) ''implement'' = Some a" "a < u32_max"
  shows "bt_invar (tr_leaf_attempts (snd (task_leaf_attempt Implement t)))"
    "map_of (tr_leaf_attempts (snd (task_leaf_attempt Implement t))) ''implement'' = Some (Suc a)"
  using assms by (simp_all add: task_leaf_attempt_def bump_attempt_def Let_def leaf_kind_as_str_def
      bt_insert_invar bt_insert_look sat_add32_def)

lemma escalated_leaf_stays:
  assumes "st_phase (pr_state p) = Rolling" "map_of (st_tasks (pr_state p)) i = Some t" "tr_phase t = task_phase.Escalated"
  shows "commands lc (replicate n (TaskLeaf i (RetryableFailure r))) p = p"
proof -
  have "snd (accept lc (TaskLeaf i (RetryableFailure r)) p) = p"
    using assms
    by (simp add: accept_def apply_command_def run_command_def dispatch_def is_recover_def passes_pause_def
        task_leaf_def require_phase_def task_mut_def ok_or_def ensure_def leaf_kind_of_phase_def)
  then show ?thesis by (induction n) simp_all
qed

text \<open>
  C33. A leaf that keeps failing is escalated after exactly the configured number of launches: with
  \<open>a\<close> launches already counted, the task is still being implemented after \<open>n\<close> further retryable
  failures precisely while \<open>a + n\<close> is within the limit, and is escalated from then on.
\<close>

theorem failing_leaf_escalates:
  assumes "st_phase (pr_state p) = Rolling" "map_of (st_tasks (pr_state p)) i = Some t"
    and "tr_phase t = Implementing" "bt_invar (tr_leaf_attempts t)"
    and "map_of (tr_leaf_attempts t) ''implement'' = Some a" "a \<le> cf_leaf_max_attempts (pr_config p)"
    and "cf_leaf_max_attempts (pr_config p) \<le> u32_max"
  shows "map_option tr_phase (map_of (st_tasks (pr_state
      (commands lc (replicate n (TaskLeaf i (RetryableFailure r))) p))) i)
    = Some (if a + n \<le> cf_leaf_max_attempts (pr_config p) then Implementing else task_phase.Escalated)"
  using assms
proof (induction n arbitrary: p t a)
  case (Suc n)
  show ?case
  proof (cases "a < cf_leaf_max_attempts (pr_config p)")
    case True
    let ?t = "snd (task_leaf_attempt Implement t)"
    let ?p = "p\<lparr>pr_state := put_task i ?t (pr_state p)\<rparr>"
    have "map_of (st_tasks (pr_state ?p)) i = Some ?t"
      using Suc.prems(2) by (simp add: put_task_def bt_set_look_same)
    from Suc.IH[of ?p, OF _ this] show ?thesis
      using failing_leaf_step[OF Suc.prems(1-5)] attempt_fields[OF Suc.prems(4,5)] True Suc.prems
      by (simp add: put_task_def)
  next
    case False
    let ?t = "t\<lparr>tr_phase := task_phase.Escalated, tr_reason := Some (r @ ''; retry limit exhausted'')\<rparr>"
    let ?p = "p\<lparr>pr_state := put_task i ?t (pr_state p)\<rparr>"
    have "map_of (st_tasks (pr_state ?p)) i = Some ?t"
      using Suc.prems(2) by (simp add: put_task_def bt_set_look_same)
    then show ?thesis
      using failing_leaf_step[OF Suc.prems(1-5)] False Suc.prems(1,6) escalated_leaf_stays[of ?p i ?t]
      by (simp add: put_task_def)
  qed
qed simp

theorem failing_leaf_escalates_witness:
  "map_option tr_phase (map_of (st_tasks (pr_state
      (commands id (replicate 2 (TaskLeaf ''T-1'' (RetryableFailure ''flaky''))) demo5))) ''T-1'')
    = Some task_phase.Escalated"
  using failing_leaf_escalates[of demo5 "''T-1''" "snd (hd (st_tasks (pr_state demo5)))" 1 id 2 "''flaky''"]
  by (simp add: demo_defs eval_defs bt_invar_def)

section \<open>Checkpoints\<close>

lemma demo_domains [simp]: "trim ''docs/**'' \<noteq> []" "trim ''src/a/**'' \<noteq> []"
  by code_simp+

lemma corrupt_Inr: "corrupt m args r = Inr u \<longleftrightarrow> (\<exists>v. r = Inr v)"
  by (cases r) (simp_all add: corrupt_def)

text \<open>
  A checkpoint is restored only when it is coherent: the restored processor starts in recovery
  with the stored phase as its target and the stored data otherwise unchanged; every task is stored
  under its own well-formed id with a positive wave, every merged task exists, the budget settings of
  an active cohort are those of the configuration, and an archive gate is only present in a
  journaled clean-up without unpublished merges.
\<close>

lemma checkpoint_is_coherent:
  assumes "from_checkpoint cfg s = Inr p"
  shows "p = \<lparr>pr_config = cfg, pr_state = s\<lparr>st_phase := Recovery\<rparr>, pr_recovery_target = Some (st_phase s)\<rparr>
    \<and> list_all (\<lambda>(k, t). tr_id t = k \<and> is_task_id k \<and> tr_wave t \<noteq> 0) (st_tasks s)
    \<and> list_all (\<lambda>i. map_of (st_tasks s) i \<noteq> None) (ig_merged_tasks (st_integration s))
    \<and> (case st_batch s of None \<Rightarrow> True
        | Some b \<Rightarrow> co_cohort_budget_secs b = cf_cohort_budget_secs cfg
            \<and> co_cohort_token_budget b = cf_cohort_token_budget cfg)
    \<and> (if ig_archive_ci_gate (st_integration s) = None then True
       else (st_phase s = Cleaning \<or> st_paused_from s = Some Cleaning) \<and> st_batch s \<noteq> None
          \<and> ig_cleanup_journaled (st_integration s)
          \<and> \<not> list_ex (\<lambda>t. tr_phase t = task_phase.Merged) (bt_values (st_tasks s)))"
proof -
  have chk: "check_checkpoint cfg s = Inr ()" using assms by (simp add: from_checkpoint_def)
  have entries: "list_all (\<lambda>(k, t). tr_id t = k \<and> is_task_id k \<and> tr_wave t \<noteq> 0) (st_tasks s)"
    using chk
    by (auto simp: check_checkpoint_def Let_def each_res_Inr list_all_iff check_task_entry_def corrupt_Inr
        validate_task_id_def)
  have merged: "list_all (\<lambda>i. map_of (st_tasks s) i \<noteq> None) (ig_merged_tasks (st_integration s))"
    using chk by (simp add: check_checkpoint_def Let_def each_res_Inr list_all_iff)
  have budgets: "case st_batch s of None \<Rightarrow> True
        | Some b \<Rightarrow> co_cohort_budget_secs b = cf_cohort_budget_secs cfg
            \<and> co_cohort_token_budget b = cf_cohort_token_budget cfg"
    using chk by (auto simp: check_checkpoint_def Let_def split: option.splits)
  have gate: "check_archive_gate s = Inr ()" using chk by (simp add: check_checkpoint_def Let_def)
  show ?thesis
    using assms entries merged budgets gate
    by (auto simp: from_checkpoint_def check_archive_gate_def Let_def split: option.splits)
qed

lemma checkpoint_is_coherent_witness:
  "list_all (\<lambda>(k, t). tr_id t = k) (st_tasks (pr_state demo8))"
proof -
  have "from_checkpoint default_config (pr_state demo8)
    = Inr (demo8\<lparr>pr_state := (pr_state demo8)\<lparr>st_phase := Recovery\<rparr>, pr_recovery_target := Some Rolling\<rparr>)"
    by (simp add: demo_defs eval_defs from_checkpoint_def cong: eval_congs)
  from checkpoint_is_coherent[OF this] show ?thesis unfolding list_all_iff by fastforce
qed

text \<open>
  A restart preserves the invariant: restoring the checkpoint of a reachable processor under the
  same configuration gives a processor in which all the bounds and exclusions above still hold.
\<close>

lemma restart_keeps_invariant:
  assumes "processor_new cfg = Inr p0" "reducer_run lc p0 p" "from_checkpoint cfg (pr_state p) = Inr q"
  shows "proc_inv q \<and> st_tasks (pr_state q) = st_tasks (pr_state p) \<and> st_phase (pr_state q) = Recovery"
  using reached[OF assms(1,2)] assms(3)
  by (cases "st_batch (pr_state p)")
    (auto simp: from_checkpoint_def proc_inv_def reducer_inv_def well_keyed_def active_count_def
      active_disjoint_def tip_verified_def reanchor_bounded_def)

lemma restart_keeps_invariant_witness:
  "proc_inv (demo8\<lparr>pr_state := (pr_state demo8)\<lparr>st_phase := Recovery\<rparr>, pr_recovery_target := Some Rolling\<rparr>)"
proof -
  have "from_checkpoint default_config (pr_state demo8)
    = Inr (demo8\<lparr>pr_state := (pr_state demo8)\<lparr>st_phase := Recovery\<rparr>, pr_recovery_target := Some Rolling\<rparr>)"
    by (simp add: demo_defs eval_defs from_checkpoint_def cong: eval_congs)
  from restart_keeps_invariant[OF demo_new demo_run8 this] show ?thesis by blast
qed

section \<open>Two dead ends\<close>

lemma push_unique_keeps: "set es \<subseteq> set (foldl push_unique_effect es fs) \<and> set fs \<subseteq> set (foldl push_unique_effect es fs)"
  by (induction fs arbitrary: es) (simp, force simp: push_unique_effect_def)

lemma cleaning_without_gate_prepares:
  assumes "ig_archive_ci_gate (st_integration s) = None"
  shows "PrepareArchival \<in> set (merge_cleanup_order (cleanup_effects s) es)"
  using assms push_unique_keeps
  by (cases "ig_cleanup_journaled (st_integration s)")
    (auto simp: merge_cleanup_order_def cleanup_effects_def split_journal_def Let_def push_unique_effect_def subset_iff)


lemma recovered_cleaning_prepares:
  assumes "from_checkpoint cfg s = Inr p" "st_phase s = Cleaning" "ig_archive_ci_gate (st_integration s) = None"
    and "accept lc (Recover present) p = (Inr es, p')" "st_phase (pr_state p') = Cleaning"
  shows "PrepareArchival \<in> set es"
proof -
  have p: "p = \<lparr>pr_config = cfg, pr_state = s\<lparr>st_phase := Recovery\<rparr>, pr_recovery_target = Some (st_phase s)\<rparr>"
    using assms(1) by (simp add: from_checkpoint_def)
  have target: "recovery_phase (Some Cleaning) u = (if st_batch u = None then Idle else Cleaning)" for u by (simp add: recovery_phase_def)
  have "apply_command lc (Recover present) p = (Inr es, p')" using assms(4) by (cases rule: accept_cases) auto
  then show ?thesis
  proof (cases rule: apply_cases)
    case (ran fs)
    have "PrepareArchival \<in> set fs"
      using ran(1) assms(2,3,5) cleaning_without_gate_prepares
      by (auto simp: p target run_command_def recover_def recover_finish_def Let_def
          split: prod.splits sum.splits if_splits phase.splits)
    moreover have "from_effect PrepareArchival = None" by (simp add: from_effect_def)
    ultimately have "PrepareArchival \<in> set (guard_model_effects (pr_config p') fs)"
      by (force simp: guard_model_effects_def guard_model_effect_def image_iff)
    then show ?thesis using ran(2)
      by (cases "guard_model_effects (pr_config p') fs") (auto simp: is_budget_check_def with_checkpoint_def)
  qed (use p in \<open>simp_all add: is_recover_def passes_pause_def\<close>)
qed

text \<open>
  C34. A cohort whose every merge is quarantined waits for a restart: the last quarantine takes the
  processor to cleaning with only the return of the task and a journal effect, so nothing asks for
  the archive preflight; the completion of the clean-up is then refused without any change, and pausing
  and resuming asks for nothing but the journal again. The recovery of a restarted processor that goes
  on in the cleaning phase does ask for the archive preflight.
\<close>

theorem quarantined_cohort_waits_for_restart:
  assumes "tasks_ready_to_merge (put_task i (t\<lparr>tr_phase := task_phase.Conflict, tr_reason := Some r\<rparr>) s) = []"
    and "map_of (st_tasks s) i = Some t" "tr_phase t = task_phase.Ready" "st_phase s = Joining"
    and "ig_workspace_prepared (st_integration s)" "ig_pending_merge_resolution (st_integration s) = None"
    and "ig_merged_tasks (st_integration s) = []" "ig_archive_ci_gate (st_integration s) = None"
    and "pr_state p = s"
  shows "(let (res, q) = accept lc (TaskMerged i (Quarantined r)) p in
      res = Inr [PersistCheckpoint, ReturnTask i r, WriteJournalAndStatus]
      \<and> st_phase (pr_state q) = Cleaning
      \<and> (case accept lc CleanupComplete q of (Inl _, q') \<Rightarrow> q' = q | _ \<Rightarrow> False)
      \<and> fst (accept lc Resume (snd (accept lc Pause q))) = Inr [PersistCheckpoint, WriteJournalAndStatus]
      \<and> (\<forall>cfg restored present es p'.
          from_checkpoint cfg (pr_state q) = Inr restored \<and> accept lc (Recover present) restored = (Inr es, p')
          \<and> st_phase (pr_state p') = Cleaning \<longrightarrow> PrepareArchival \<in> set es))"
proof -
  let ?s = "(put_task i (t\<lparr>tr_phase := task_phase.Conflict, tr_reason := Some r\<rparr>) s)\<lparr>st_phase := Cleaning\<rparr>"
  let ?q = "p\<lparr>pr_state := ?s\<rparr>"
  have run: "accept lc (TaskMerged i (Quarantined r)) p =
      (Inr [PersistCheckpoint, ReturnTask i r, WriteJournalAndStatus], ?q)"
    using assms
    by (simp add: accept_def apply_command_def run_command_def dispatch_def is_recover_def passes_pause_def
        is_budget_check_def task_merged_def require_phase_def task_mut_def ok_or_def ensure_def expect_task_phase_def
        quarantine_merged_task_def next_merge_or_review_def and_then_def put_task_def guard_model_effects_def
        guard_model_effect_def from_effect_def with_checkpoint_def is_wait_def)
  have refused: "\<exists>e. accept lc CleanupComplete ?q = (Inl e, ?q)"
    using assms
    by (cases "tasks_where (\<lambda>t. tr_phase t = task_phase.Merged) ?s")
      (simp_all add: accept_def apply_command_def run_command_def dispatch_def is_recover_def passes_pause_def
        cleanup_complete_def require_phase_def ensure_def put_task_def)
  have resumed: "fst (accept lc Resume (snd (accept lc Pause ?q))) = Inr [PersistCheckpoint, WriteJournalAndStatus]"
    by (simp add: accept_def apply_command_def run_command_def dispatch_def is_recover_def passes_pause_def pause_def
        resume_def ensure_def is_budget_check_def guard_model_effects_def guard_model_effect_def from_effect_def
        with_checkpoint_def is_wait_def)
  have "ig_archive_ci_gate (st_integration (pr_state ?q)) = None" using assms(8) by (simp add: put_task_def)
  then show ?thesis
    unfolding run Let_def prod.case using refused resumed recovered_cleaning_prepares by fastforce
qed

theorem quarantined_cohort_waits_for_restart_witness:
  "(let q = snd (accept id (TaskMerged ''T-1'' (Quarantined ''conflict'')) demo11) in
    \<exists>restored es p'. from_checkpoint default_config (pr_state q) = Inr restored
      \<and> accept id (Recover []) restored = (Inr es, p') \<and> PrepareArchival \<in> set es)"
proof -
  let ?q = "snd (accept id (TaskMerged ''T-1'' (Quarantined ''conflict'')) demo11)"
  let ?r = "\<lparr>pr_config = default_config, pr_state = (pr_state ?q)\<lparr>st_phase := Recovery\<rparr>, pr_recovery_target = Some Cleaning\<rparr>"
  have 1: "from_checkpoint default_config (pr_state ?q) = Inr ?r"
    by (simp add: demo_defs eval_defs from_checkpoint_def cong: eval_congs)
  have 2: "accept id (Recover []) ?r = (Inr [PersistCheckpoint, WriteJournalAndStatus, PrepareArchival], snd (accept id (Recover []) ?r))"
    by (simp add: demo_defs eval_defs cong: eval_congs)
  have 3: "st_phase (pr_state (snd (accept id (Recover []) ?r))) = Cleaning"
    by (simp add: demo_defs eval_defs cong: eval_congs)
  have "\<forall>cfg restored present es p'.
      from_checkpoint cfg (pr_state ?q) = Inr restored \<and> accept id (Recover present) restored = (Inr es, p')
      \<and> st_phase (pr_state p') = Cleaning \<longrightarrow> PrepareArchival \<in> set es"
    using quarantined_cohort_waits_for_restart[where i = "''T-1''" and t = "snd (hd (st_tasks (pr_state demo11)))"
        and r = "''conflict''" and s = "pr_state demo11" and p = demo11 and lc = id,
        unfolded Let_def split_beta]
    by (simp add: demo_defs eval_defs cong: eval_congs)
  then show ?thesis unfolding Let_def using 1 2 3 by blast
qed
definition budget_halted :: "nat \<Rightarrow> nat \<Rightarrow> processor \<Rightarrow> bool" where
  "budget_halted limit now p \<longleftrightarrow>
    (let s = pr_state p in
     st_phase s = Cleaning \<and> cf_cohort_budget_secs (pr_config p) = Some limit
     \<and> (case st_batch s of None \<Rightarrow> False
         | Some b \<Rightarrow> co_cohort_budget_secs b = Some limit \<and> limit \<le> now - co_started_at_secs b)
     \<and> ig_archive_ci_gate (st_integration s) \<noteq> None
     \<and> \<not> ig_dependency_graph_refreshed_post_archive (st_integration s)
     \<and> list_all (\<lambda>t. tr_phase t \<in> {task_phase.Published, Done, task_phase.Conflict, task_phase.Escalated})
          (bt_values (st_tasks s)))"

lemma budget_halted_refresh:
  assumes "budget_halted limit now p"
  shows "accept lc CleanupComplete p
    = (Inr [PersistCheckpoint, CheckCohortBudget (DependencyCurator PostArchive)], p)"
proof -
  have "tasks_where (\<lambda>t. tr_phase t = task_phase.Merged) (pr_state p) = None"
    using assms by (auto simp: budget_halted_def Let_def tasks_where_def pref_find_None list_all_iff list_ex_iff)
  then show ?thesis
    using assms
    by (simp add: budget_halted_def Let_def accept_def apply_command_def run_command_def dispatch_def is_recover_def
        passes_pause_def is_budget_check_def cleanup_complete_def require_phase_def ensure_def
        guard_model_effects_def guard_model_effect_def from_effect_def with_checkpoint_def is_wait_def)
qed

lemma budget_halted_halt:
  assumes "budget_halted limit now p"
  shows "budget_halted limit now (snd (accept lc (CohortBudgetChecked (DependencyCurator PostArchive) now) p))"
proof -
  let ?s = "pr_state p"
  obtain b where b: "st_batch ?s = Some b" "co_cohort_budget_secs b = Some limit"
      "limit \<le> now - co_started_at_secs b"
    using assms by (auto simp: budget_halted_def Let_def split: option.splits)
  let ?b = "if co_admission_closed b = None
    then b\<lparr>co_admission_closed := Some close_reason_wire.CohortMaxAge\<rparr> else b"
  have none: "active_ids (?s\<lparr>st_batch := x\<rparr>) = []" "tasks_ready_to_merge (?s\<lparr>st_batch := x\<rparr>) = []"
    "active_ids ?s = []" "tasks_ready_to_merge ?s = []"
    "\<not> list_ex (\<lambda>t. is_active (tr_phase t)) (bt_values (st_tasks ?s))" for x
    using assms
    by (auto simp: budget_halted_def Let_def active_ids_def tasks_ready_to_merge_def filter_empty_conv
        list_all_iff list_ex_iff is_active_def)
  have same: "?s\<lparr>st_batch := Some b\<rparr> = ?s" using b(1) by simp
  have "snd (accept lc (CohortBudgetChecked (DependencyCurator PostArchive) now) p)
      = p\<lparr>pr_state := ?s\<lparr>st_batch := Some ?b, st_phase := Cleaning\<rparr>\<rparr>"
    using assms b
    by (simp add: none budget_halted_def Let_def accept_def apply_command_def run_command_def dispatch_def
        is_recover_def passes_pause_def is_budget_check_def cohort_budget_checked_def ok_or_def ensure_def
        halt_for_cohort_budget_def halt_for_def close_admission_def close_reason_wire_of_def and_then_def
        after_admission_closed_def same)
  then show ?thesis using assms b by (simp add: budget_halted_def Let_def)
qed

text \<open>
  C35. An exhausted wall-clock budget keeps a cohort from being completed: once a cohort that only
  awaits its post-archive dependency refresh is past its budget, completing the clean-up asks for the
  budget check, the check halts back into cleaning without recording the refresh, and no number of
  rounds reaches the idle phase.
\<close>

theorem exhausted_budget_never_idle:
  assumes "budget_halted limit now p"
  shows "(let q = commands lc (concat (replicate n
        [CleanupComplete, CohortBudgetChecked (DependencyCurator PostArchive) now])) p in
      st_phase (pr_state q) = Cleaning \<and> st_batch (pr_state q) \<noteq> None
      \<and> fst (accept lc CleanupComplete q)
        = Inr [PersistCheckpoint, CheckCohortBudget (DependencyCurator PostArchive)])"
proof -
  have "budget_halted limit now (commands lc (concat (replicate n
        [CleanupComplete, CohortBudgetChecked (DependencyCurator PostArchive) now])) p)"
    using assms
    by (induction n arbitrary: p) (simp_all add: budget_halted_refresh budget_halted_halt)
  then show ?thesis
    using budget_halted_refresh by (auto simp: budget_halted_def Let_def split: option.splits)
qed

theorem exhausted_budget_never_idle_witness:
  "let p = on_state (\<lambda>s. s\<lparr>st_batch := map_option (\<lambda>b. b\<lparr>co_cohort_budget_secs := Some 60\<rparr>) (st_batch s)\<rparr>)
      demo19\<lparr>pr_config := default_config\<lparr>cf_cohort_budget_secs := Some 60\<rparr>\<rparr> in
    st_phase (pr_state (commands id (concat (replicate 5
        [CleanupComplete, CohortBudgetChecked (DependencyCurator PostArchive) 2000])) p)) = Cleaning"
proof -
  let ?p = "on_state (\<lambda>s. s\<lparr>st_batch := map_option (\<lambda>b. b\<lparr>co_cohort_budget_secs := Some 60\<rparr>) (st_batch s)\<rparr>)
      demo19\<lparr>pr_config := default_config\<lparr>cf_cohort_budget_secs := Some 60\<rparr>\<rparr>"
  have "budget_halted 60 2000 ?p" by (simp add: budget_halted_def demo_defs eval_defs)
  from exhausted_budget_never_idle[OF this, of id 5] show ?thesis by (simp only: Let_def)
qed

end
