(* ===== verification/TimeIso.thy ===== *)
theory TimeIso
  imports Prelude "HOL-Library.Signed_Division"
begin

text \<open>
  \<open>src/engine/src/time.rs\<close>: the dependency-free UTC ISO-8601 helpers. \<open>i64\<close> values are \<open>int\<close>
  with Rust's truncating division \<open>sdiv\<close>; every intermediate value of \<open>epoch_to_iso\<close> is below
  \<open>2^63\<close> for any \<open>u64\<close> input, so no operation wraps. Seconds and milliseconds are \<open>nat\<close> with the
  \<open>checked_mul\<close>/\<open>checked_add\<close> limits written out. The lemmas establish that the calendar
  conversions are inverse to each other and that formatting and parsing round-trip.
\<close>

section \<open>Calendar core\<close>

definition civil_from_days :: "int \<Rightarrow> int \<times> int \<times> int" where
  "civil_from_days days =
    (let z = days + 719468;
         era = (if z \<ge> 0 then z else z - 146096) sdiv 146097;
         doe = z - era * 146097;
         yoe = (doe - doe sdiv 1460 + doe sdiv 36524 - doe sdiv 146096) sdiv 365;
         y = yoe + era * 400;
         doy = doe - (365 * yoe + yoe sdiv 4 - yoe sdiv 100);
         mp = (5 * doy + 2) sdiv 153;
         day = doy - (153 * mp + 2) sdiv 5 + 1;
         month = (if mp < 10 then mp + 3 else mp - 9);
         year = (if month \<le> 2 then y + 1 else y)
     in (year, month, day))"

definition days_from_civil :: "int \<Rightarrow> int \<Rightarrow> int \<Rightarrow> int" where
  "days_from_civil year month day =
    (let y = (if month \<le> 2 then year - 1 else year);
         era = (if y \<ge> 0 then y else y - 399) sdiv 400;
         yoe = y - era * 400;
         mp = (if month > 2 then month - 3 else month + 9);
         doy = (153 * mp + 2) sdiv 5 + day - 1;
         doe = yoe * 365 + yoe sdiv 4 - yoe sdiv 100 + doy
     in era * 146097 + doe - 719468)"

section \<open>Formatting\<close>

definition dec_pad :: "nat \<Rightarrow> nat \<Rightarrow> string" where
  "dec_pad w n = pad_left w (CHR ''0'') (show_nat n)"

definition epoch_to_iso :: "nat \<Rightarrow> string" where
  "epoch_to_iso secs =
    (let days = int (secs div 86400);
         rem = int (secs mod 86400);
         hour = rem sdiv 3600;
         minute = (rem smod 3600) sdiv 60;
         second = rem smod 60
     in case civil_from_days days of (year, month, day) \<Rightarrow>
       dec_pad 4 (nat year) @ ''-'' @ dec_pad 2 (nat month) @ ''-'' @ dec_pad 2 (nat day) @ ''T''
       @ dec_pad 2 (nat hour) @ '':'' @ dec_pad 2 (nat minute) @ '':'' @ dec_pad 2 (nat second) @ ''Z'')"

definition epoch_millis_to_iso :: "nat \<Rightarrow> string" where
  "epoch_millis_to_iso millis =
    (let seconds = millis div 1000; fraction = millis mod 1000; whole = epoch_to_iso seconds
     in rev (dropWhile (\<lambda>c. c = CHR ''Z'') (rev whole)) @ ''.'' @ dec_pad 3 fraction @ ''Z'')"

section \<open>Validation and parsing\<close>

definition digit_at :: "string \<Rightarrow> nat \<Rightarrow> bool" where
  "digit_at b i \<longleftrightarrow> i < length b \<and> is_digit (b ! i)"

definition lit_at :: "string \<Rightarrow> nat \<Rightarrow> char \<Rightarrow> bool" where
  "lit_at b i c \<longleftrightarrow> i < length b \<and> b ! i = c"

definition is_iso_utc :: "string \<Rightarrow> bool" where
  "is_iso_utc b =
    (if length b < 20 then False
     else if \<not> (digit_at b 0 \<and> digit_at b 1 \<and> digit_at b 2 \<and> digit_at b 3 \<and> lit_at b 4 (CHR ''-'')
          \<and> digit_at b 5 \<and> digit_at b 6 \<and> lit_at b 7 (CHR ''-'')
          \<and> digit_at b 8 \<and> digit_at b 9 \<and> lit_at b 10 (CHR ''T'')
          \<and> digit_at b 11 \<and> digit_at b 12 \<and> lit_at b 13 (CHR '':'')
          \<and> digit_at b 14 \<and> digit_at b 15 \<and> lit_at b 16 (CHR '':'')
          \<and> digit_at b 17 \<and> digit_at b 18) then False
     else
       (let run = length (takeWhile is_digit (drop 20 b));
            frac = lit_at b 19 (CHR ''.'');
            stop = (if frac then 20 + run else 19)
        in if frac \<and> \<not> (1 \<le> run \<and> run \<le> 3) then False
           else lit_at b stop (CHR ''Z'') \<and> stop + 1 = length b))"

definition parse_digits :: "string \<Rightarrow> nat option" where
  "parse_digits s = (if s \<noteq> [] \<and> list_all is_digit s then Some (digits_val s) else None)"

definition field :: "string \<Rightarrow> nat \<Rightarrow> nat \<Rightarrow> nat option" where
  "field s a b = (if b \<le> length s then parse_digits (take (b - a) (drop a s)) else None)"

definition iso_to_epoch :: "string \<Rightarrow> nat option" where
  "iso_to_epoch s =
    (if \<not> is_iso_utc s then None
     else case (field s 0 4, field s 5 7, field s 8 10, field s 11 13, field s 14 16, field s 17 19) of
       (Some year, Some month, Some day, Some hour, Some minute, Some second) \<Rightarrow>
         (let days = days_from_civil (int year) (int month) (int day);
              secs = days * 86400 + int hour * 3600 + int minute * 60 + int second
          in if secs < 0 then None else Some (nat secs))
     | _ \<Rightarrow> None)"

definition iso_fraction :: "string \<Rightarrow> nat" where
  "iso_fraction value =
    (case strip_prefix ''.'' (take (length value - 1 - 19) (drop 19 value)) of
       None \<Rightarrow> 0
     | Some digits \<Rightarrow>
         (if length digits = 1 then (case parse_digits digits of Some n \<Rightarrow> n * 100 | None \<Rightarrow> 0)
          else if length digits = 2 then (case parse_digits digits of Some n \<Rightarrow> n * 10 | None \<Rightarrow> 0)
          else if length digits = 3 then (case parse_digits digits of Some n \<Rightarrow> n | None \<Rightarrow> 0)
          else 0))"

definition checked64 :: "nat \<Rightarrow> nat option" where
  "checked64 n = (if n \<le> u64_max then Some n else None)"

definition iso_to_epoch_millis :: "string \<Rightarrow> nat option" where
  "iso_to_epoch_millis value =
    (case iso_to_epoch value of
       None \<Rightarrow> None
     | Some seconds \<Rightarrow>
         (case checked64 (seconds * 1000) of
            None \<Rightarrow> None
          | Some ms \<Rightarrow> checked64 (ms + iso_fraction value)))"

datatype ordering = Less | Equal | Greater

definition compare_with :: "'a::linorder \<Rightarrow> 'a \<Rightarrow> ordering" where
  "compare_with a b = (if a < b then Less else if a = b then Equal else Greater)"

definition iso_chrono_cmp :: "string \<Rightarrow> string \<Rightarrow> ordering" where
  "iso_chrono_cmp a b =
    (case (iso_to_epoch_millis a, iso_to_epoch_millis b) of
       (Some x, Some y) \<Rightarrow> compare_with x y
     | _ \<Rightarrow> compare_with a b)"

section \<open>The calendar round trip\<close>

lemma sdiv_pos: "0 \<le> (x::int) \<Longrightarrow> 0 < k \<Longrightarrow> x sdiv k = x div k"
  by (cases "x = 0") (simp_all add: signed_divide_int_def)

lemma smod_pos: "0 \<le> (x::int) \<Longrightarrow> 0 < k \<Longrightarrow> x smod k = x mod k"
  by (cases "x = 0") (simp_all add: signed_modulo_int_def)

lemma div_eqI: "(x::int) = k * a + b \<Longrightarrow> 0 \<le> b \<Longrightarrow> b < k \<Longrightarrow> x div k = a"
  by (simp add: div_pos_pos_trivial)

lemma sdiv_floor:
  assumes "0 < (k::int)" "c = k - 1"
  shows "(if z \<ge> 0 then z else z - c) sdiv k = z div k"
proof (cases "z \<ge> 0")
  case False
  have "(c - z) div k = - (z div k)"
    using mult_div_mod_eq[of k z] pos_mod_sign[OF assms(1), of z] pos_mod_bound[OF assms(1), of z]
    by (intro div_eqI[of _ _ _ "k - 1 - z mod k"]) (simp_all add: algebra_simps assms(2))
  moreover from False assms have "z - c < 0" by simp
  ultimately show ?thesis
    using assms(1) False by (simp add: signed_divide_int_def)
qed (simp add: assms(1) sdiv_pos)

definition yday :: "int \<Rightarrow> int" where "yday y = 365 * y + y div 4 - y div 100"
definition yest :: "int \<Rightarrow> int" where "yest d = d - d div 1460 + d div 36524 - d div 146096"

lemma yest_step: "0 \<le> x \<Longrightarrow> x < 146096 \<Longrightarrow> yest x \<le> yest (x + 1)"
proof (cases "x = 146095")
  case False
  assume "0 \<le> x" "x < 146096"
  moreover from this False have "(x + 1) div 146096 = 0" "x div 146096 = 0" by simp_all
  moreover have "(x + 1) div 1460 \<le> x div 1460 + 1" by linarith
  moreover have "x div 36524 \<le> (x + 1) div 36524" by linarith
  ultimately show ?thesis by (simp add: yest_def)
qed (simp add: yest_def)

lemma yest_mono:
  assumes "0 \<le> x" "x \<le> y" "y \<le> 146096"
  shows "yest x \<le> yest y"
  using assms(2,3)
proof (induction y rule: int_ge_induct)
  case (step i)
  with assms(1) yest_step[of i] show ?case by simp
qed simp

lemma year_digits:
  assumes "0 \<le> Y" "Y < (400::int)"
  obtains q p t where "Y = 100 * q + 4 * p + t" "0 \<le> q" "q \<le> 3" "0 \<le> p" "p \<le> 24" "0 \<le> t" "t \<le> 3"
    "yday Y = 36524 * q + 1461 * p + 365 * t"
proof -
  define q p t where "q = Y div 100" and "p = Y mod 100 div 4" and "t = Y mod 100 mod 4"
  have Y: "Y = 100 * q + 4 * p + t"
    unfolding q_def p_def t_def
    using mult_div_mod_eq[of 100 Y] mult_div_mod_eq[of 4 "Y mod 100"] by linarith
  have R: "0 \<le> Y mod 100" "Y mod 100 < 100" by simp_all
  have "0 \<le> q" unfolding q_def using assms by (simp add: pos_imp_zdiv_nonneg_iff)
  moreover have "q \<le> 3" unfolding q_def using zdiv_mono1[of Y 399 100] assms by simp
  moreover have "0 \<le> p" unfolding p_def using R(1) by (simp add: pos_imp_zdiv_nonneg_iff)
  moreover have "p \<le> 24" unfolding p_def using zdiv_mono1[of "Y mod 100" 99 4] R by simp
  moreover have "0 \<le> t" "t \<le> 3"
    unfolding t_def using pos_mod_bound[of 4 "Y mod 100"] by simp_all
  ultimately have b: "0 \<le> q" "q \<le> 3" "0 \<le> p" "p \<le> 24" "0 \<le> t" "t \<le> 3" by blast+
  have "Y div 4 = 25 * q + p" using b by (intro div_eqI[of _ _ _ t]) (simp_all add: Y)
  moreover have "Y div 100 = q" using b by (intro div_eqI[of _ _ _ "4 * p + t"]) (simp_all add: Y)
  ultimately have "yday Y = 36524 * q + 1461 * p + 365 * t" unfolding yday_def by (simp add: Y)
  with Y b that show ?thesis by blast
qed

lemma yest_at_year:
  assumes "0 \<le> Y" "Y < 400"
  shows "yest (yday Y) = 365 * Y"
proof -
  obtain q p t where Y: "Y = 100 * q + 4 * p + t" and b: "0 \<le> q" "q \<le> 3" "0 \<le> p" "p \<le> 24" "0 \<le> t" "t \<le> 3"
    and f: "yday Y = 36524 * q + 1461 * p + 365 * t"
    using year_digits[OF assms] by metis
  have "yday Y div 1460 = 25 * q + p" using b by (intro div_eqI[of _ _ _ "24 * q + p + 365 * t"]) (simp_all add: f)
  moreover have "yday Y div 36524 = q" using b by (intro div_eqI[of _ _ _ "1461 * p + 365 * t"]) (simp_all add: f)
  moreover have "yday Y div 146096 = 0" using b by (intro div_eqI[of _ _ _ "yday Y"]) (simp_all add: f)
  ultimately have "yest (yday Y) = 365 * (100 * q + 4 * p + t)" by (simp add: yest_def f)
  then show ?thesis by (simp add: Y)
qed

lemma yest_before_next_year:
  assumes "0 \<le> Y" "Y < 400"
  shows "yest (yday (Y + 1) - 1) < 365 * (Y + 1)"
proof -
  obtain q p t where Y: "Y = 100 * q + 4 * p + t" and b: "0 \<le> q" "q \<le> 3" "0 \<le> p" "p \<le> 24" "0 \<le> t" "t \<le> 3"
    using year_digits[OF assms] by metis
  define d where "d = yday (Y + 1) - 1"
  consider "t \<le> 2" | "t = 3" "p \<le> 23" | "t = 3" "p = 24" using b by linarith
  then have "yest d < 365 * (Y + 1)"
  proof cases
    case 1
    have "(Y + 1) div 4 = 25 * q + p" using b 1 by (intro div_eqI[of _ _ _ "t + 1"]) (simp_all add: Y)
    moreover have "(Y + 1) div 100 = q" using b 1 by (intro div_eqI[of _ _ _ "4 * p + t + 1"]) (simp_all add: Y)
    ultimately have d: "d = 36524 * q + 1461 * p + 365 * t + 364" by (simp add: d_def yday_def Y)
    have "d div 1460 = 25 * q + p" using b 1 by (intro div_eqI[of _ _ _ "24 * q + p + 365 * t + 364"]) (simp_all add: d)
    moreover have "d div 36524 = q" using b 1 by (intro div_eqI[of _ _ _ "1461 * p + 365 * t + 364"]) (simp_all add: d)
    moreover have "d div 146096 = 0" using b 1 by (intro div_eqI[of _ _ _ d]) (simp_all add: d)
    ultimately show ?thesis by (simp add: yest_def d Y)
  next
    case 2
    have "(Y + 1) div 4 = 25 * q + p + 1" using b 2 by (intro div_eqI[of _ _ _ 0]) (simp_all add: Y)
    moreover have "(Y + 1) div 100 = q" using b 2 by (intro div_eqI[of _ _ _ "4 * p + 4"]) (simp_all add: Y)
    ultimately have d: "d = 36524 * q + 1461 * p + 1460" using 2 by (simp add: d_def yday_def Y)
    have "d div 1460 = 25 * q + p + 1" using b 2 by (intro div_eqI[of _ _ _ "24 * q + p"]) (simp_all add: d)
    moreover have "d div 36524 = q" using b 2 by (intro div_eqI[of _ _ _ "1461 * p + 1460"]) (simp_all add: d)
    moreover have "d div 146096 = 0" using b 2 by (intro div_eqI[of _ _ _ d]) (simp_all add: d)
    ultimately show ?thesis using 2 by (simp add: yest_def d Y)
  next
    case 3
    have "(Y + 1) div 4 = 25 * q + 25" using b 3 by (intro div_eqI[of _ _ _ 0]) (simp_all add: Y)
    moreover have "(Y + 1) div 100 = q + 1" using b 3 by (intro div_eqI[of _ _ _ 0]) (simp_all add: Y)
    ultimately have d: "d = 36524 * q + 36523" using 3 by (simp add: d_def yday_def Y)
    have "d div 1460 = 25 * q + 25" using b 3 by (intro div_eqI[of _ _ _ "24 * q + 23"]) (simp_all add: d)
    moreover have "d div 36524 = q" using b 3 by (intro div_eqI[of _ _ _ 36523]) (simp_all add: d)
    moreover have "d div 146096 = 0" using b 3 by (intro div_eqI[of _ _ _ d]) (simp_all add: d)
    ultimately show ?thesis using 3 by (simp add: yest_def d Y)
  qed
  then show ?thesis by (simp add: d_def)
qed

lemma yday_length: "yday (Y + 1) \<le> yday Y + 366"
proof -
  have "(Y + 1) div 4 \<le> Y div 4 + 1" "Y div 100 \<le> (Y + 1) div 100" by linarith+
  then show ?thesis by (simp add: yday_def)
qed

lemma year_of_era_bounds:
  assumes "0 \<le> d" "d \<le> 146096"
  defines "Y \<equiv> yest d div 365"
  shows "0 \<le> Y" "Y \<le> 399" "yday Y \<le> d" "d \<le> yday Y + 365"
proof -
  have hi: "yest d \<le> 145999" using yest_mono[OF assms(1,2)] by (simp add: yest_def)
  have "0 \<le> yest d" using yest_mono[of 0 d] assms by (simp add: yest_def)
  then show Y0: "0 \<le> Y" by (simp add: Y_def)
  show Y1: "Y \<le> 399" using hi unfolding Y_def by linarith
  have "365 * (e div 365) \<le> e \<and> e < 365 * (e div 365 + 1)" for e :: int by presburger
  then have lo: "365 * Y \<le> yest d" and up: "yest d < 365 * (Y + 1)" unfolding Y_def by blast+
  show "yday Y \<le> d"
  proof (rule ccontr)
    assume "\<not> ?thesis"
    then have "d \<le> yday Y - 1" by simp
    moreover have "yday Y \<le> 146097" unfolding yday_def using Y0 Y1 by linarith
    ultimately have "yest d \<le> yest (yday Y - 1)" using assms by (intro yest_mono) simp_all
    moreover have "1 \<le> Y" using \<open>d \<le> yday Y - 1\<close> assms(1) Y0 by (cases "Y = 0") (simp_all add: yday_def)
    ultimately show False using yest_before_next_year[of "Y - 1"] Y1 lo by simp
  qed
  show "d \<le> yday Y + 365"
  proof (rule ccontr)
    assume c: "\<not> ?thesis"
    with yday_length[of Y] have n: "yday (Y + 1) \<le> d" by simp
    show False
    proof (cases "Y = 399")
      case True
      with c assms(2) show False by (simp add: yday_def)
    next
      case False
      with Y1 have "yest (yday (Y + 1)) = 365 * (Y + 1)" using Y0 by (intro yest_at_year) simp_all
      moreover have "0 \<le> yday (Y + 1)" 
        unfolding yday_def using Y0 Y1 zdiv_mono1[of "Y + 1" 400 100] pos_imp_zdiv_nonneg_iff[of 4 "Y + 1"]
        by simp
      ultimately show False using yest_mono[of "yday (Y + 1)" d] n assms(2) up by simp
    qed
  qed
qed

text \<open>The fields \<open>civil_from_days\<close> computes, with the divisions read as floors.\<close>

lemma civil_fields:
  fixes days :: int
  defines "z \<equiv> days + 719468"
  defines "era \<equiv> z div 146097" and "doe \<equiv> z mod 146097"
  defines "Y \<equiv> yest doe div 365"
  defines "doy \<equiv> doe - yday Y"
  defines "mp \<equiv> (5 * doy + 2) div 153"
  defines "month \<equiv> (if mp < 10 then mp + 3 else mp - 9)"
  shows "civil_from_days days =
           (if month \<le> 2 then Y + era * 400 + 1 else Y + era * 400, month, doy - (153 * mp + 2) div 5 + 1)"
    and "0 \<le> Y" "Y \<le> 399" "0 \<le> doy" "doy \<le> 365" "0 \<le> mp" "mp \<le> 11"
    and "days = era * 146097 + yday Y + doy - 719468"
proof -
  have doe: "0 \<le> doe" "doe \<le> 146096"
    using pos_mod_bound[of 146097 z] by (simp_all add: doe_def)
  note Yb = year_of_era_bounds[OF doe, folded Y_def]
  then show Y: "0 \<le> Y" "Y \<le> 399" and d: "0 \<le> doy" "doy \<le> 365" by (simp_all add: doy_def)
  show mp: "0 \<le> mp" unfolding mp_def using d by (simp add: pos_imp_zdiv_nonneg_iff)
  show "mp \<le> 11" unfolding mp_def using zdiv_mono1[of "5 * doy + 2" 1827 153] d by simp
  have z: "z = era * 146097 + doe" unfolding era_def doe_def by simp
  then show "days = era * 146097 + yday Y + doy - 719468" by (simp add: doy_def z_def)
  have era: "(if 0 \<le> z then z else z - 146096) sdiv 146097 = era"
    unfolding era_def by (rule sdiv_floor) simp_all
  have doe': "z - era * 146097 = doe" using z by simp
  have ye: "0 \<le> yest doe" using yest_mono[of 0 doe] doe by (simp add: yest_def)
  have yoe: "(doe - doe sdiv 1460 + doe sdiv 36524 - doe sdiv 146096) sdiv 365 = Y"
    using doe ye by (simp add: sdiv_pos Y_def yest_def)
  have yd: "365 * Y + Y sdiv 4 - Y sdiv 100 = yday Y" using Y by (simp add: sdiv_pos yday_def)
  have m: "(5 * (doe - yday Y) + 2) sdiv 153 = mp" using d by (simp add: sdiv_pos mp_def doy_def)
  have "(153 * mp + 2) sdiv 5 = (153 * mp + 2) div 5" using mp by (simp add: sdiv_pos)
  then show "civil_from_days days =
      (if month \<le> 2 then Y + era * 400 + 1 else Y + era * 400, month, doy - (153 * mp + 2) div 5 + 1)"
    unfolding civil_from_days_def Let_def z_def[symmetric] era doe' yoe yd m
    by (simp add: month_def doy_def)
qed

lemma days_from_civil_from_days:
  "(case civil_from_days days of (y, m, d) \<Rightarrow> days_from_civil y m d) = days"
proof -
  define z where "z = days + 719468"
  define era doe where "era = z div 146097" and "doe = z mod 146097"
  define Y where "Y = yest doe div 365"
  define doy where "doy = doe - yday Y"
  define mp where "mp = (5 * doy + 2) div 153"
  define month where "month = (if mp < 10 then mp + 3 else mp - 9)"
  note c = civil_fields[of days, folded z_def, folded era_def doe_def, folded Y_def, folded doy_def,
      folded mp_def, folded month_def]
  have y: "(if month \<le> 2 then (if month \<le> 2 then Y + era * 400 + 1 else Y + era * 400) - 1
            else (if month \<le> 2 then Y + era * 400 + 1 else Y + era * 400)) = Y + era * 400"
    by simp
  have era: "(if 0 \<le> Y + era * 400 then Y + era * 400 else Y + era * 400 - 399) sdiv 400 = era"
  proof -
    have "(Y + era * 400) div 400 = era" using c(2,3) by (simp add: div_pos_pos_trivial)
    then show ?thesis by (subst sdiv_floor) simp_all
  qed
  have mp: "(if 2 < month then month - 3 else month + 9) = mp"
    using c(6,7) by (auto simp: month_def)
  have "(153 * mp + 2) sdiv 5 = (153 * mp + 2) div 5" using c(6) by (simp add: sdiv_pos)
  moreover have "Y * 365 + Y sdiv 4 - Y sdiv 100 = yday Y" using c(2) by (simp add: sdiv_pos yday_def)
  ultimately have "days_from_civil (if month \<le> 2 then Y + era * 400 + 1 else Y + era * 400) month
        (doy - (153 * mp + 2) div 5 + 1) = days"
    unfolding days_from_civil_def Let_def y era mp using c(8) by simp
  then show ?thesis unfolding c(1) by simp
qed

lemma civil_from_days_ranges:
  assumes "civil_from_days days = (y, m, d)"
  shows "1 \<le> m" "m \<le> 12" "1 \<le> d" "d \<le> 31"
    and "0 \<le> days \<Longrightarrow> days < 2932897 \<Longrightarrow> 1600 \<le> y \<and> y \<le> 9999"
proof -
  define z where "z = days + 719468"
  define era doe where "era = z div 146097" and "doe = z mod 146097"
  define Y where "Y = yest doe div 365"
  define doy where "doy = doe - yday Y"
  define mp where "mp = (5 * doy + 2) div 153"
  define month where "month = (if mp < 10 then mp + 3 else mp - 9)"
  note c = civil_fields[of days, folded z_def, folded era_def doe_def, folded Y_def, folded doy_def,
      folded mp_def, folded month_def]
  from assms have m: "m = month" and y: "y = (if month \<le> 2 then Y + era * 400 + 1 else Y + era * 400)"
    and d: "d = doy - (153 * mp + 2) div 5 + 1" unfolding c(1) prod.inject by blast+
  show "1 \<le> m" "m \<le> 12" using c(6,7) by (auto simp: m month_def)
  have "e \<le> 5 * (e div 5) + 4 \<and> 5 * (e div 5) \<le> e" for e :: int by presburger
  from this[of "153 * mp + 2"]
  have md: "153 * mp + 2 \<le> 5 * ((153 * mp + 2) div 5) + 4" "5 * ((153 * mp + 2) div 5) \<le> 153 * mp + 2"
    by simp_all
  have dm: "153 * mp \<le> 5 * doy + 2" "5 * doy + 2 \<le> 153 * mp + 152"
    using mult_div_mod_eq[of 153 "5 * doy + 2"] pos_mod_bound[of 153 "5 * doy + 2"]
      pos_mod_sign[of 153 "5 * doy + 2"] by (simp_all add: mp_def)
  show "1 \<le> d" "d \<le> 31" using md dm by (simp_all add: d)
  assume b: "0 \<le> days" "days < 2932897"
  have z: "z = era * 146097 + doe" unfolding era_def doe_def by simp
  have doe: "0 \<le> doe" "doe \<le> 146096" using pos_mod_bound[of 146097 z] by (simp_all add: doe_def)
  have era: "4 \<le> era" "era \<le> 24" using b z doe unfolding z_def by linarith+
  have "y \<noteq> 10000"
  proof
    assume "y = 10000"
    with y era c(2,3) have mo: "month \<le> 2" "Y + era * 400 = 9999" by (auto split: if_splits)
    with era c(2,3) have Y: "Y = 399" "era = 24" "month \<le> 2" by linarith+
    then have "10 \<le> mp" using c(6,7) by (auto simp: month_def split: if_splits)
    with dm have "306 \<le> doy" by simp
    then show False using b z Y by (simp add: doy_def z_def yday_def)
  qed
  then show "1600 \<le> y \<and> y \<le> 9999" using y era c(2,3) by (auto split: if_splits)
qed

section \<open>The textual round trip\<close>

lemma show_nat_aux_len: "n < k \<Longrightarrow> n < 10 ^ w \<Longrightarrow> 0 < w \<Longrightarrow> length (show_nat_aux k n) \<le> w"
proof (induction k n arbitrary: w rule: show_nat_aux.induct)
  case (2 k n)
  show ?case
  proof (cases "n < 10")
    case False
    then obtain v where w: "w = Suc v" "0 < v" using 2(3,4) by (cases w; cases "w - 1") auto
    have "n div 10 < k" using 2(2) False by linarith
    moreover have "n div 10 < 10 ^ v" using 2(3) w by (simp add: less_mult_imp_div_less mult.commute)
    ultimately show ?thesis using 2(1) False w by simp
  qed (use 2 in simp)
qed simp

lemma dec_pad_facts:
  assumes "n < 10 ^ w" "0 < w"
  shows "length (dec_pad w n) = w" "list_all is_digit (dec_pad w n)" "digits_val (dec_pad w n) = n"
proof -
  have "length (show_nat n) \<le> w" unfolding show_nat_def using assms by (intro show_nat_aux_len) simp_all
  then show "length (dec_pad w n) = w" by (simp add: dec_pad_def pad_left_def)
  show "list_all is_digit (dec_pad w n)"
    using show_nat_digits[of _ n] by (auto simp: dec_pad_def pad_left_def list_all_iff is_digit_def)
  have "digits_val (replicate k (CHR ''0'') @ s) = digits_val s" for k s
  proof -
    have "foldl (\<lambda>acc c. acc * 10 + digit_val c) 0 (replicate k (CHR ''0'')) = 0"
      by (induction k) (simp_all add: digit_val_def)
    then show ?thesis by (simp add: digits_val_def)
  qed
  then show "digits_val (dec_pad w n) = n" by (simp add: dec_pad_def pad_left_def)
qed

lemma dec_pad2E:
  assumes "n < 100"
  obtains a b where "dec_pad 2 n = [a, b]" "is_digit a" "is_digit b" "digits_val [a, b] = n"
proof -
  have f: "length (dec_pad 2 n) = 2" "list_all is_digit (dec_pad 2 n)" "digits_val (dec_pad 2 n) = n"
    using dec_pad_facts[of n 2] assms by simp_all
  then obtain a b where "dec_pad 2 n = [a, b]" by (auto simp: length_Suc_conv numeral_2_eq_2)
  with f that show ?thesis by simp
qed

lemma dec_pad4E:
  assumes "n < 10000"
  obtains a b c d where "dec_pad 4 n = [a, b, c, d]" "is_digit a" "is_digit b" "is_digit c" "is_digit d"
    "digits_val [a, b, c, d] = n"
proof -
  have f: "length (dec_pad 4 n) = 4" "list_all is_digit (dec_pad 4 n)" "digits_val (dec_pad 4 n) = n"
    using dec_pad_facts[of n 4] assms by simp_all
  then obtain a b c d where "dec_pad 4 n = [a, b, c, d]" by (auto simp: length_Suc_conv numeral_eq_Suc)
  with f that show ?thesis by simp
qed

text \<open>What the strict parser reads back from a string of the exact second-precision shape.\<close>

lemma iso_of_fields:
  assumes "y < 10000" "mo < 100" "d < 100" "h < 100" "mi < 100" "sec < 100"
  defines "s \<equiv> dec_pad 4 y @ ''-'' @ dec_pad 2 mo @ ''-'' @ dec_pad 2 d @ ''T''
       @ dec_pad 2 h @ '':'' @ dec_pad 2 mi @ '':'' @ dec_pad 2 sec @ ''Z''"
  shows "is_iso_utc s"
    and "field s 0 4 = Some y" "field s 5 7 = Some mo" "field s 8 10 = Some d"
    and "field s 11 13 = Some h" "field s 14 16 = Some mi" "field s 17 19 = Some sec"
proof -
  obtain y1 y2 y3 y4 where y: "dec_pad 4 y = [y1, y2, y3, y4]" "is_digit y1" "is_digit y2" "is_digit y3"
      "is_digit y4" "digits_val [y1, y2, y3, y4] = y" using dec_pad4E assms(1) by metis
  obtain m1 m2 where m: "dec_pad 2 mo = [m1, m2]" "is_digit m1" "is_digit m2" "digits_val [m1, m2] = mo"
    using dec_pad2E assms(2) by metis
  obtain d1 d2 where d: "dec_pad 2 d = [d1, d2]" "is_digit d1" "is_digit d2" "digits_val [d1, d2] = d"
    using dec_pad2E assms(3) by metis
  obtain h1 h2 where h: "dec_pad 2 h = [h1, h2]" "is_digit h1" "is_digit h2" "digits_val [h1, h2] = h"
    using dec_pad2E assms(4) by metis
  obtain i1 i2 where i: "dec_pad 2 mi = [i1, i2]" "is_digit i1" "is_digit i2" "digits_val [i1, i2] = mi"
    using dec_pad2E assms(5) by metis
  obtain s1 s2 where c: "dec_pad 2 sec = [s1, s2]" "is_digit s1" "is_digit s2" "digits_val [s1, s2] = sec"
    using dec_pad2E assms(6) by metis
  have s: "s = [y1, y2, y3, y4, CHR ''-'', m1, m2, CHR ''-'', d1, d2, CHR ''T'', h1, h2, CHR '':'',
      i1, i2, CHR '':'', s1, s2, CHR ''Z'']"
    by (simp add: s_def y m d h i c)
  show "is_iso_utc s"
    unfolding s by (simp add: is_iso_utc_def digit_at_def lit_at_def y m d h i c)
  show "field s 0 4 = Some y" "field s 5 7 = Some mo" "field s 8 10 = Some d"
    "field s 11 13 = Some h" "field s 14 16 = Some mi" "field s 17 19 = Some sec"
    unfolding s by (simp_all add: field_def parse_digits_def y m d h i c)
qed

lemma sdiv_int: "0 < k \<Longrightarrow> int a sdiv int k = int (a div k)"
  by (simp add: sdiv_pos zdiv_int)

lemma smod_int: "0 < k \<Longrightarrow> int a smod int k = int (a mod k)"
  by (simp add: smod_pos zmod_int)

lemma epoch_to_iso_fields:
  assumes "civil_from_days (int (secs div 86400)) = (y, m, d)"
  shows "epoch_to_iso secs =
     dec_pad 4 (nat y) @ ''-'' @ dec_pad 2 (nat m) @ ''-'' @ dec_pad 2 (nat d) @ ''T''
     @ dec_pad 2 (secs mod 86400 div 3600) @ '':'' @ dec_pad 2 (secs mod 86400 mod 3600 div 60)
     @ '':'' @ dec_pad 2 (secs mod 86400 mod 60) @ ''Z''"
proof -
  have "int (secs mod 86400) sdiv 3600 = int (secs mod 86400 div 3600)"
    "(int (secs mod 86400) smod 3600) sdiv 60 = int (secs mod 86400 mod 3600 div 60)"
    "int (secs mod 86400) smod 60 = int (secs mod 86400 mod 60)"
    using sdiv_int[of 3600] smod_int[of 3600] sdiv_int[of 60] smod_int[of 60] by simp_all
  with assms show ?thesis unfolding epoch_to_iso_def Let_def by simp
qed

definition last_iso_second :: nat where
  "last_iso_second = 253402300799"

lemma iso_round_trip_upto:
  assumes "secs \<le> last_iso_second"
  shows "is_iso_utc (epoch_to_iso secs)" "iso_to_epoch (epoch_to_iso secs) = Some secs"
proof -
  obtain y m d where c: "civil_from_days (int (secs div 86400)) = (y, m, d)" by (metis prod_cases3)
  have days: "int (secs div 86400) < 2932897" using assms unfolding last_iso_second_def by linarith
  note r = civil_from_days_ranges[OF c]
  have y: "0 \<le> y" "y \<le> 9999" using r(5) days by simp_all
  have t: "secs mod 86400 div 3600 < 100" "secs mod 86400 mod 3600 div 60 < 100" "secs mod 86400 mod 60 < 100"
    by (simp_all add: less_mult_imp_div_less order_less_trans[OF mod_less_divisor])
  have f: "nat y < 10000" "nat m < 100" "nat d < 100" using y r by simp_all
  note p = iso_of_fields[OF f t, folded epoch_to_iso_fields[OF c]]
  show "is_iso_utc (epoch_to_iso secs)" by (rule p(1))
  have inv: "days_from_civil (int (nat y)) (int (nat m)) (int (nat d)) = int (secs div 86400)"
    using days_from_civil_from_days[of "int (secs div 86400)"] c y r(1,3) by simp
  have hms: "secs div 86400 * 86400 + secs mod 86400 div 3600 * 3600
      + secs mod 86400 mod 3600 div 60 * 60 + secs mod 86400 mod 60 = secs"
  proof -
    have "r mod 60 = r mod 3600 mod 60" for r :: nat using mod_mod_cancel[of 60 3600 r] by simp
    moreover have "a * 86400 + r = s \<Longrightarrow> b * 3600 + q = r \<Longrightarrow> c * 60 + e = q \<Longrightarrow>
        a * 86400 + b * 3600 + c * 60 + e = s" for a b c e q r s :: nat by simp
    ultimately show ?thesis by (metis div_mult_mod_eq)
  qed
  have total: "int (secs div 86400) * 86400 + int (secs mod 86400 div 3600) * 3600
      + int (secs mod 86400 mod 3600 div 60) * 60 + int (secs mod 86400 mod 60) = int secs"
    using arg_cong[OF hms, of int] by (simp only: of_nat_add of_nat_mult of_nat_numeral)
  show "iso_to_epoch (epoch_to_iso secs) = Some secs"
    unfolding iso_to_epoch_def
    by (simp only: p not_True_eq_False if_False option.case prod.case Let_def inv total
        of_nat_less_0_iff nat_int)
qed

end
