(* ===== verification/ResolverProps.thy ===== *)
theory ResolverProps
  imports ProcessorBase TimeIso
begin

text \<open>
  What the pure resolvers promise to the reducer and the engine: admission rounds, conflict domains,
  routing, stagnation and signatures, the textual vocabulary and the time helpers.
\<close>

section \<open>Admission rounds\<close>

text \<open>One round, with the candidates behind the ids it admits.\<close>

lemma round_cases:
  obtains ids chosen where
    "plan_admission candidates active capacity =
       (if ids \<noteq> [] then Admitted ids else EmptyRound (empty_reason_of candidates active))"
    "ids = map ca_id chosen" "subseq chosen candidates" "length chosen \<le> capacity"
    "conflict_free active [] chosen"
    "length chosen < capacity \<Longrightarrow> list_all (accounted active [] chosen) candidates"
proof -
  obtain ids ds where loop: "plan_loop active capacity candidates [] [] = (ids, ds)" by fastforce
  obtain chosen where ch: "ids = [] @ map ca_id chosen" "subseq chosen candidates"
      "length ids \<le> max capacity (length [])" "conflict_free active [] chosen"
      "length ids < capacity \<longrightarrow> list_all (accounted active [] chosen) candidates"
    using plan_loop_spec[OF loop] by (elim exE conjE) simp
  have "plan_admission candidates active capacity =
       (if ids \<noteq> [] then Admitted ids else EmptyRound (empty_reason_of candidates active))"
    by (simp add: plan_admission_def loop)
  then show thesis by (rule that[where chosen = chosen]) (use ch in simp_all)
qed

lemma accounted_active:
  "accounted active [] [] = (\<lambda>c. \<not> admissible_to_current_lane c
      \<or> list_ex (\<lambda>a. intersects (at_domain a) (ca_domain c)) active)"
  by (rule ext) (simp add: accounted_def list_ex_iff)

text \<open>
  Safety of an admission round: the ids a round admits are those of candidates taken in queue
  order, at most as many as the capacity, each ready and on the current delivery lane, with conflict
  domains disjoint from every active task and from each other.
\<close>

lemma admission_round_safe:
  assumes "plan_admission candidates active capacity = Admitted ids"
  shows "\<exists>chosen. ids = map ca_id chosen \<and> subseq chosen candidates \<and> chosen \<noteq> [] \<and> length chosen \<le> capacity
    \<and> list_all (\<lambda>c. ca_ready c \<and> ca_delivery c = Current) chosen
    \<and> list_all (\<lambda>c. \<not> list_ex (\<lambda>a. intersects (at_domain a) (ca_domain c)) active) chosen
    \<and> sorted_wrt (\<lambda>c d. \<not> intersects (ca_domain c) (ca_domain d)) chosen"
proof (rule round_cases[of candidates active capacity])
  fix ids' chosen
  assume r: "plan_admission candidates active capacity =
       (if ids' \<noteq> [] then Admitted ids' else EmptyRound (empty_reason_of candidates active))"
    and ch: "ids' = map ca_id chosen" "subseq chosen candidates" "length chosen \<le> capacity"
    "conflict_free active [] chosen"
  have "ids = ids'" "ids \<noteq> []" using r assms by (simp_all split: if_splits)
  then show ?thesis using ch
    by (intro exI[of _ chosen])
      (simp add: conflict_free_def list_all_iff list_ex_iff admissible_to_current_lane_def)
qed

definition example_candidate :: "string \<Rightarrow> string \<Rightarrow> candidate" where
  "example_candidate i d = \<lparr>ca_id = i, ca_ready = True, ca_domain = domain_parse d, ca_delivery = Current\<rparr>"

lemma example_round:
  "plan_admission [example_candidate ''T-1'' ''src/a/*'', example_candidate ''T-2'' ''src/a/b.rs'',
      example_candidate ''T-3'' ''docs''] [] 3 = Admitted [''T-1'', ''T-3'']"
  by code_simp

lemma admission_round_safe_witness:
  "\<exists>chosen :: candidate list. [''T-1'', ''T-3''] = map ca_id chosen \<and> length chosen \<le> 3
    \<and> sorted_wrt (\<lambda>c d. \<not> intersects (ca_domain c) (ca_domain d)) chosen"
  by (rule ex_forward[OF admission_round_safe[OF example_round]]) (elim conjE, intro conjI)

text \<open>
  Maximality of an admission round: a round that leaves capacity unused has passed over no
  candidate it could have admitted; every candidate it skipped is not admissible or conflicts with an
  active task or with an admitted candidate.
\<close>

lemma admission_round_maximal:
  assumes "plan_admission candidates active capacity = Admitted ids" "length ids < capacity"
  shows "\<exists>chosen. ids = map ca_id chosen \<and> subseq chosen candidates
    \<and> list_all (\<lambda>c. \<not> admissible_to_current_lane c \<or> c \<in> set chosen
        \<or> list_ex (\<lambda>d. intersects d (ca_domain c)) (map ca_domain chosen @ map at_domain active)) candidates"
proof (rule round_cases[of candidates active capacity])
  fix ids' chosen
  assume r: "plan_admission candidates active capacity =
       (if ids' \<noteq> [] then Admitted ids' else EmptyRound (empty_reason_of candidates active))"
    and ch: "ids' = map ca_id chosen" "subseq chosen candidates"
    "length chosen < capacity \<Longrightarrow> list_all (accounted active [] chosen) candidates"
  have ids: "ids = ids'" using r assms(1) by (simp split: if_splits)
  then have "list_all (accounted active [] chosen) candidates" using ch(1,3) assms(2) by simp
  then show ?thesis using ids ch(1,2) by (intro exI[of _ chosen]) (simp add: accounted_def[abs_def])
qed

lemma admission_round_maximal_witness:
  "\<exists>chosen :: candidate list. [''T-1'', ''T-3''] = map ca_id chosen
    \<and> subseq chosen [example_candidate ''T-1'' ''src/a/*'', example_candidate ''T-2'' ''src/a/b.rs'',
      example_candidate ''T-3'' ''docs'']"
  by (rule ex_forward[OF admission_round_maximal[OF example_round]]) (simp, elim conjE, intro conjI)

text \<open>
  Empty rounds: a round admits nothing exactly when there is no capacity or every admissible
  candidate conflicts with an active task, and the reason it reports is the planner's classification:
  waiting for tasks at work outranks conflicts with finished ones, and the queue counts as empty when
  no admissible candidate conflicts with anything.
\<close>

lemma empty_round_iff:
  "plan_admission candidates active capacity = EmptyRound r \<longleftrightarrow>
    (capacity = 0 \<or> list_all (\<lambda>c. \<not> admissible_to_current_lane c
        \<or> list_ex (\<lambda>a. intersects (at_domain a) (ca_domain c)) active) candidates)
    \<and> r = (if list_ex (\<lambda>c. admissible_to_current_lane c \<and> hits Active active c \<and> \<not> hits Terminal active c) candidates
           then OnlyConflictsWithActive
           else if list_ex (\<lambda>c. admissible_to_current_lane c \<and> hits Terminal active c) candidates
           then OnlyReadyConflicts else EmptyQueue)"
proof (rule round_cases[of candidates active capacity])
  fix ids chosen
  let ?none = "list_all (\<lambda>c. \<not> admissible_to_current_lane c
        \<or> list_ex (\<lambda>a. intersects (at_domain a) (ca_domain c)) active) candidates"
  assume r: "plan_admission candidates active capacity =
       (if ids \<noteq> [] then Admitted ids else EmptyRound (empty_reason_of candidates active))"
    and ch: "ids = map ca_id chosen" "subseq chosen candidates" "length chosen \<le> capacity"
    "conflict_free active [] chosen"
    "length chosen < capacity \<Longrightarrow> list_all (accounted active [] chosen) candidates"
  have "chosen = [] \<longleftrightarrow> capacity = 0 \<or> ?none"
  proof
    assume "chosen = []"
    then show "capacity = 0 \<or> ?none"
      using ch(5) by (cases "capacity = 0") (simp_all add: accounted_active)
  next
    assume a: "capacity = 0 \<or> ?none"
    show "chosen = []"
    proof (cases chosen)
      case (Cons c cs)
      then have "c \<in> set candidates" using ch(2) by (elim list_emb_set[where x = c]) simp_all
      moreover have "admissible_to_current_lane c"
          "\<not> list_ex (\<lambda>a. intersects (at_domain a) (ca_domain c)) active"
        using ch(4) Cons by (auto simp: conflict_free_def list_ex_iff list_all_iff)
      ultimately show ?thesis using a ch(3) Cons by (auto simp: list_all_iff)
    qed
  qed
  moreover have "empty_reason_of candidates active =
      (if list_ex (\<lambda>c. admissible_to_current_lane c \<and> hits Active active c \<and> \<not> hits Terminal active c) candidates
       then OnlyConflictsWithActive
       else if list_ex (\<lambda>c. admissible_to_current_lane c \<and> hits Terminal active c) candidates
       then OnlyReadyConflicts else EmptyQueue)"
    using empty_reason_cases[of candidates active] by (cases "empty_reason_of candidates active") (simp_all split: if_splits)
  moreover have "plan_admission candidates active capacity = EmptyRound r \<longleftrightarrow>
      chosen = [] \<and> r = empty_reason_of candidates active"
    unfolding r ch(1) by (cases chosen) auto
  ultimately show ?thesis by (simp only:)
qed

lemma empty_round_iff_witness:
  "plan_admission [example_candidate ''T-1'' ''src''] [] 0 = EmptyRound EmptyQueue"
  by (subst empty_round_iff) (simp add: example_candidate_def hits_def)

section \<open>Conflict domains\<close>

text \<open>
  The paths a pattern can touch: the file or the subtree of a literal path, and every path that starts
  with the literal part of a glob. A domain that is not known can touch every path.
\<close>

fun covers :: "matcher \<Rightarrow> string \<Rightarrow> bool" where
  "covers (Exact x) path = is_path_ancestor_or_same x path"
| "covers (Prefix p) path = starts_with path p"

definition domain_covers :: "domain \<Rightarrow> string \<Rightarrow> bool" where
  "domain_covers d path \<longleftrightarrow> d_unknown d \<or> list_ex (\<lambda>m. covers m path) (d_matchers d)"

lemma starts_with_iff: "starts_with s p \<longleftrightarrow> (\<exists>r. s = p @ r)"
  by (metis append_eq_conv_conj append_take_drop_id starts_with_def)

lemma ancestor_iff: "is_path_ancestor_or_same x path \<longleftrightarrow> path = x \<or> (\<exists>r. path = x @ ''/'' @ r)"
  by (auto simp: is_path_ancestor_or_same_def starts_with_iff split: option.splits
      dest: strip_prefix_SomeD)

lemma shared_path_overlap:
  assumes "covers a path" "covers b path"
  shows "matchers_overlap a b"
proof -
  have exact: "is_path_ancestor_or_same x p \<or> starts_with x p"
    if anc: "is_path_ancestor_or_same x path" and pre: "starts_with path p" for x p
  proof -
    obtain t where t: "path = p @ t" using pre by (auto simp: starts_with_iff)
    from anc consider "path = x" | r where "path = x @ ''/'' @ r" by (auto simp: ancestor_iff)
    then show ?thesis
    proof cases
      case 1
      then show ?thesis using t by (auto simp: starts_with_iff)
    next
      case (2 r)
      then have "x @ ''/'' @ r = p @ t" using t by simp
      then have "\<exists>us. (x = p @ us \<and> us @ ''/'' @ r = t) \<or> (x @ us = p \<and> ''/'' @ r = us @ t)"
        unfolding append_eq_append_conv2 .
      then show ?thesis
        by (auto simp: starts_with_iff ancestor_iff Cons_eq_append_conv)
    qed
  qed
  have sym: "starts_with p q \<or> starts_with q p" if "starts_with path p" "starts_with path q" for p q
    using that by (auto simp: starts_with_iff append_eq_append_conv2)
  have sub: "starts_with path x" if "is_path_ancestor_or_same x path" for x
    using that by (auto simp: starts_with_iff ancestor_iff)
  have both: "is_path_ancestor_or_same x y \<or> is_path_ancestor_or_same y x"
    if "is_path_ancestor_or_same x path" "is_path_ancestor_or_same y path" for x y
    using exact[OF that(1) sub[OF that(2)]] exact[OF that(2) sub[OF that(1)]]
    by (auto simp: starts_with_iff ancestor_iff)
  show ?thesis
    using assms exact sym both by (cases a; cases b) fastforce+
qed

text \<open>
  Soundness of conflict detection: two declared domains that both cover some path are reported as
  intersecting, so tasks the planner holds to be disjoint cannot both be entitled to one path. The
  converse may fail: the check is conservative.
\<close>

lemma shared_path_intersects:
  assumes "domain_covers a path" "domain_covers b path"
  shows "intersects a b"
proof -
  have "\<exists>x \<in> set (d_matchers a). \<exists>y \<in> set (d_matchers b). matchers_overlap x y"
    if "\<not> d_unknown a" "\<not> d_unknown b"
    using assms that shared_path_overlap unfolding domain_covers_def list_ex_iff by blast
  then show ?thesis unfolding intersects_def list_ex_iff by blast
qed

lemma shared_path_intersects_witness:
  "intersects (domain_parse ''src/a'') (domain_parse ''docs, src/a/*.rs'')"
proof (rule shared_path_intersects[where path = "''src/a/x.rs''"])
  show "domain_covers (domain_parse ''src/a'') ''src/a/x.rs''" by code_simp
  show "domain_covers (domain_parse ''docs, src/a/*.rs'') ''src/a/x.rs''" by code_simp
qed

text \<open>
  Readiness: a candidate is ready exactly when its list of unmet prerequisites is empty, and that
  list holds each prerequisite that has not completed exactly once.
\<close>

theorem readiness_is_no_unmet:
  "ca_ready (candidate_new i ps completed d lane) = (unmet_prerequisites ps completed = [])
   \<and> set (unmet_prerequisites ps completed) = set ps - set completed
   \<and> distinct (unmet_prerequisites ps completed)"
  by (simp add: candidate_new_def is_ready_iff unmet_prerequisites_set)
     (simp add: unmet_prerequisites_def dedup_unmet_set)

text \<open>
  The admission gate closes for good: once a cohort's counters have closed admission, larger
  counters close it too.
\<close>

theorem admission_gate_stays_closed:
  assumes "admission_gate_of c t \<noteq> Continue"
    and "cc_admitted_total c \<le> cc_admitted_total c'" "cc_age_minutes c \<le> cc_age_minutes c'"
    and "cc_elapsed_sec c \<le> cc_elapsed_sec c'"
  shows "admission_gate_of c' t \<noteq> Continue"
  using assms by (auto simp: admission_gate_of_def split: if_splits option.splits)

section \<open>Routing\<close>

text \<open>
  Coder routing: a task goes to the Codex coder exactly when the flag covers its level, its
  declared network need can be met and no known environment pitfall blocks it.
\<close>

lemma coder_route_iff:
  "route_coder inp = ToCodex \<longleftrightarrow>
     (cri_codex_coder inp = codex_coder.Fast \<and> cri_level inp = CoderFast
      \<or> cri_codex_coder inp = codex_coder.FastStd \<and> cri_level inp \<noteq> CoderDeep)
     \<and> (case cri_network inp of None \<Rightarrow> True
        | Some need \<Rightarrow> nn_ecosystem need = Managed \<or> cri_codex_network inp)
     \<and> (case cri_kb_pitfall inp of None \<Rightarrow> True
        | Some class \<Rightarrow> \<not> pitfall_blocks class (cri_network inp) (cri_codex_network inp))"
  unfolding route_coder_codex_iff by (simp add: path_available_def split: option.splits ecosystem.splits)

text \<open>
  Reviewer independence: whatever the recorded history of implementors, a reviewer election that
  puts Codex on the review, alone or as an augmentation, does so only with the flag on and only when
  the latest recorded author of the change is Claude.
\<close>

lemma codex_never_reviews_codex:
  assumes "uses_codex (reelect_reviewer flag base l (parse_impl_history history))"
  shows "last_impl history = Some Claude \<and> flag \<noteq> codex_reviewer.Off"
  using assms route_reviewer_uses_codex
  by (fastforce simp: reelect_reviewer_def last_impl_def uses_codex_def split: if_splits)

lemma codex_never_reviews_codex_witness:
  "last_impl ''codex, Claude'' = Some Claude \<and> codex_reviewer.Deep \<noteq> codex_reviewer.Off"
  by (rule codex_never_reviews_codex[where base = Reviewer and l = CoderDeep]) code_simp

text \<open>
  Narrowing a review roster to the dimensions that reported in the previous round never empties a
  roster, never adds a dimension and keeps every dimension of the roster that reported.
\<close>

lemma narrowing_is_safe:
  "(narrow_roster roster prev = [] \<longleftrightarrow> roster = [])
   \<and> set (narrow_roster roster prev) \<subseteq> set roster
   \<and> set (filter (\<lambda>d. rd_name d \<in> set prev) roster) \<subseteq> set (narrow_roster roster prev)"
  using narrow_roster_keeps_reporters by (auto simp: narrow_roster_nonempty dest: narrow_roster_subset[THEN subsetD])

section \<open>Review cycles\<close>

text \<open>
  Stagnation: with a limit that fits the counter, a task counts as stagnated exactly when the
  limit is positive and its last \<open>limit\<close> signatures are all equal.
\<close>

lemma stagnation_iff_repeats:
  assumes "limit \<le> u32_max"
  shows "stagnation_decide sigs limit \<noteq> Progressing \<longleftrightarrow>
    0 < limit \<and> limit \<le> length sigs
    \<and> list_all (\<lambda>s. s = last sigs) (drop (length sigs - limit) sigs)"
proof -
  have "stagnation_decide sigs limit \<noteq> Progressing \<longleftrightarrow> (\<exists>r. stagnation_decide sigs limit = Stagnated r)"
    by (cases "stagnation_decide sigs limit") simp_all
  then show ?thesis unfolding stagnation_decide_iff[OF assms] list_all_iff by auto
qed

lemma stagnation_iff_repeats_witness:
  "stagnation_decide [''a'', ''b'', ''b''] 2 \<noteq> Progressing"
  by (subst stagnation_iff_repeats) (simp_all add: u32_max_def)

lemma hex_digit_char_nibble: "unat (drop_bit k (w :: 64 word) AND 15) < 16"
proof -
  have "drop_bit k w AND 15 \<le> 15" by (rule word_and_le1)
  then have "unat (drop_bit k w AND 15) \<le> unat (15 :: 64 word)" by (simp add: word_le_nat_alt)
  then show ?thesis by simp
qed

lemma hex_digit_ok: "n < 16 \<Longrightarrow> hex_digit_char (hex_digit n)"
  by (auto simp: hex_digit_def hex_digit_char_def is_digit_def)

text \<open>
  Signatures: whatever the text and the evidence of a finding, the signature the engine computes
  for it is one the reducer accepts.
\<close>

lemma computed_signature_is_valid:
  "validate_signature (signature_of_finding lc finding evidence) = Inr ()"
  using hex_digit_ok[OF hex_digit_char_nibble]
  by (simp add: validate_signature_def ensure_def signature_of_finding_def hex16_def list_all_iff)

section \<open>Time\<close>

text \<open>
  Calendar: converting a day number to a civil date and back gives the day number, before and
  after the epoch, and the date's month and day are in range.
\<close>

lemma calendar_round_trip:
  "case civil_from_days days of (y, m, d) \<Rightarrow>
     days_from_civil y m d = days \<and> 1 \<le> m \<and> m \<le> 12 \<and> 1 \<le> d \<and> d \<le> 31"
  using days_from_civil_from_days[of days] civil_from_days_ranges(1-4)[of days]
  by (cases "civil_from_days days") simp

lemma digits_val_bound: "list_all is_digit s \<Longrightarrow> digits_val s < 10 ^ length s"
proof (induction s rule: rev_induct)
  case (snoc c s)
  then have "digit_val c < 10" by (auto simp: is_digit_def digit_val_def)
  with snoc show ?case by simp
qed simp

lemma late_days_late_year:
  assumes "civil_from_days days = (y, m, d)" "2932897 \<le> days"
  shows "10000 \<le> y"
proof -
  define era where "era = (days + 719468) div 146097"
  define Y where "Y = yest ((days + 719468) mod 146097) div 365"
  define doy where "doy = (days + 719468) mod 146097 - yday Y"
  define mp where "mp = (5 * doy + 2) div 153"
  note f = civil_fields[of days, folded era_def Y_def, folded doy_def, folded mp_def]
  have y: "y = (if (if mp < 10 then mp + 3 else mp - 9) \<le> 2 then Y + era * 400 + 1 else Y + era * 400)"
    using f(1) assms(1) by simp
  have n: "era * 146097 + yday Y + doy \<ge> 3652365" using f(8) assms(2) by linarith
  have era: "24 \<le> era" unfolding era_def using zdiv_mono1[of 3652365 "days + 719468" 146097] assms(2) by simp
  show ?thesis
  proof (cases "25 \<le> era")
    case True
    then show ?thesis using y f(2) by (simp split: if_splits)
  next
    case False
    then have e: "era = 24" using era by simp
    have "yday Y \<ge> 145672" using n e f(5) by linarith
    then have Y: "Y = 399"
      using f(2,3) unfolding yday_def by linarith
    then have "doy \<ge> 306" using n e by (simp add: yday_def)
    then have "10 \<le> mp" unfolding mp_def using zdiv_mono1[of 1530 "5 * doy + 2" 153] by simp
    then show ?thesis using y Y e f(7) by simp
  qed
qed

lemma late_second_not_iso:
  assumes "last_iso_second < secs"
  shows "\<not> is_iso_utc (epoch_to_iso secs)"
proof -
  obtain y m d where c: "civil_from_days (int (secs div 86400)) = (y, m, d)" by (metis prod_cases3)
  have "2932897 \<le> int (secs div 86400)" using assms unfolding last_iso_second_def by linarith
  then have y: "10000 \<le> nat y" using late_days_late_year[OF c] by simp
  define p where "p = dec_pad 4 (nat y)"
  have digits: "list_all is_digit (show_nat (nat y))" using show_nat_digits by (simp add: list_all_iff)
  have len: "5 \<le> length (show_nat (nat y))"
  proof (rule ccontr)
    assume "\<not> 5 \<le> length (show_nat (nat y))"
    then have "10 ^ length (show_nat (nat y)) \<le> (10::nat) ^ 4" by (intro power_increasing) simp_all
    moreover have "nat y < 10 ^ length (show_nat (nat y))"
      using digits_val_bound[OF digits] unfolding digits_val_show_nat .
    moreover have "(10::nat) ^ 4 = 10000" by simp
    ultimately show False using y by linarith
  qed
  then have "p = show_nat (nat y)" by (simp add: p_def dec_pad_def pad_left_def)
  then have p: "5 \<le> length p" "is_digit (p ! 4)" using len digits by (simp_all add: list_all_length)
  obtain rest where "epoch_to_iso secs = p @ rest" unfolding epoch_to_iso_fields[OF c] p_def by blast
  then have "epoch_to_iso secs ! 4 = p ! 4" using p(1) by (simp add: nth_append)
  then have "\<not> lit_at (epoch_to_iso secs) 4 (CHR ''-'')" using p(2) by (auto simp: lit_at_def is_digit_def)
  then show ?thesis unfolding is_iso_utc_def by simp
qed

text \<open>
  Timestamps: a second survives being formatted and parsed exactly up to the end of the year
  9999; from then on the formatted text has a longer year and the strict parser refuses it.
\<close>

lemma timestamp_round_trip_iff:
  "iso_to_epoch (epoch_to_iso secs) = Some secs \<longleftrightarrow> secs \<le> last_iso_second"
proof
  assume "iso_to_epoch (epoch_to_iso secs) = Some secs"
  then have "is_iso_utc (epoch_to_iso secs)" by (auto simp: iso_to_epoch_def split: if_splits)
  then show "secs \<le> last_iso_second" using late_second_not_iso not_less by blast
qed (rule iso_round_trip_upto)

section \<open>Vocabulary\<close>

text \<open>
  Vocabulary: levels, risks and implementor histories survive being printed into a plan or a
  journal and parsed back; a risk field may carry a comment after its first word, and the latest
  author read from a printed history is its last entry.
\<close>

lemma vocabulary_round_trip:
  assumes "hs \<noteq> []" "sfx = [] \<or> hd sfx = CHR '' ''"
  shows "level_from_field (level_as_str l) = Some l
    \<and> risk_from_field (risk_as_str r @ sfx) = Some r
    \<and> parse_impl_history (join '','' (map impl_as_str hs)) = hs
    \<and> last_impl (join '','' (map impl_as_str hs)) = Some (last hs)"
proof -
  have "sfx = [] \<or> strip_any ws_codes sfx \<noteq> None"
    using assms(2) by (cases sfx) (auto simp: ws_codes_def strip_prefix_def)
  then have "risk_from_field (risk_as_str r @ sfx) = Some r" by (intro risk_field_with_suffix) blast
  then show ?thesis using assms(1) by (simp add: level_parse_print impl_history_of_join last_impl_of_join)
qed

lemma vocabulary_round_trip_witness:
  "level_from_field (level_as_str CoderDeep) = Some CoderDeep
    \<and> risk_from_field (risk_as_str High @ '' touches auth'') = Some High
    \<and> parse_impl_history (join '','' (map impl_as_str [Codex, Claude])) = [Codex, Claude]
    \<and> last_impl (join '','' (map impl_as_str [Codex, Claude])) = Some (last [Codex, Claude])"
  by (rule vocabulary_round_trip) simp_all

end
