(* ===== verification/Events.thy ===== *)
theory Events
  imports Vocab TimeIso
begin

text \<open>
  The event envelope of \<open>src/engine/src/events/model.rs\<close> and its strict reader
  \<open>src/engine/src/events/parse.rs\<close>. \<open>serde_json::Value\<close> is a datatype; the text of a
  JSON document is turned into a value and back by two functions of that library, which are
  parameters (\<open>from_str\<close>, \<open>to_text\<close>) of the definitions that use them.
\<close>

section \<open>JSON values\<close>

text \<open>Objects are \<open>BTreeMap\<close>s; a number is an integer of 64 bits or the text of another number.\<close>

datatype json =
  JNull | JBool bool | JInt int | JFloat string | JStr string
| JArr "json list" | JObj "(string \<times> json) list"

definition as_str :: "json \<Rightarrow> string option" where
  "as_str v = (case v of JStr s \<Rightarrow> Some s | _ \<Rightarrow> None)"

definition as_object :: "json \<Rightarrow> (string, json) btmap option" where
  "as_object v = (case v of JObj m \<Rightarrow> Some m | _ \<Rightarrow> None)"

definition as_i64 :: "json \<Rightarrow> int option" where
  "as_i64 v =
    (case v of
       JInt n \<Rightarrow> if - 9223372036854775808 \<le> n \<and> n \<le> 9223372036854775807 then Some n else None
     | _ \<Rightarrow> None)"

section \<open>The envelope\<close>

definition schema_version :: int where "schema_version = 1"

datatype event_type =
  CohortOpened | CohortRoundStarted | CohortRoundClosed | CohortAdmissionClosed | CohortJoinStarted
| CohortPublished | CohortClosed | TaskCaptured | TaskStatusChanged | CodexAttempt | UsageRecorded
| OperationCompleted

definition event_type_as_str :: "event_type \<Rightarrow> string" where
  "event_type_as_str t =
    (case t of
       CohortOpened \<Rightarrow> ''cohort.opened''
     | CohortRoundStarted \<Rightarrow> ''cohort.round_started''
     | CohortRoundClosed \<Rightarrow> ''cohort.round_closed''
     | CohortAdmissionClosed \<Rightarrow> ''cohort.admission_closed''
     | CohortJoinStarted \<Rightarrow> ''cohort.join_started''
     | CohortPublished \<Rightarrow> ''cohort.published''
     | CohortClosed \<Rightarrow> ''cohort.closed''
     | TaskCaptured \<Rightarrow> ''task.captured''
     | TaskStatusChanged \<Rightarrow> ''task.status_changed''
     | CodexAttempt \<Rightarrow> ''codex.attempt''
     | UsageRecorded \<Rightarrow> ''usage.recorded''
     | OperationCompleted \<Rightarrow> ''operation.completed'')"

definition event_type_parse :: "string \<Rightarrow> event_type option" where
  "event_type_parse s =
    (if s = ''cohort.opened'' then Some CohortOpened
     else if s = ''cohort.round_started'' then Some CohortRoundStarted
     else if s = ''cohort.round_closed'' then Some CohortRoundClosed
     else if s = ''cohort.admission_closed'' then Some CohortAdmissionClosed
     else if s = ''cohort.join_started'' then Some CohortJoinStarted
     else if s = ''cohort.published'' then Some CohortPublished
     else if s = ''cohort.closed'' then Some CohortClosed
     else if s = ''task.captured'' then Some TaskCaptured
     else if s = ''task.status_changed'' then Some TaskStatusChanged
     else if s = ''codex.attempt'' then Some CodexAttempt
     else if s = ''usage.recorded'' then Some UsageRecorded
     else if s = ''operation.completed'' then Some OperationCompleted
     else None)"

datatype actor_kind = Agent | Human | Tool

definition actor_kind_as_str :: "actor_kind \<Rightarrow> string" where
  "actor_kind_as_str k = (case k of Agent \<Rightarrow> ''agent'' | Human \<Rightarrow> ''human'' | Tool \<Rightarrow> ''tool'')"

definition actor_kind_parse :: "string \<Rightarrow> actor_kind option" where
  "actor_kind_parse s =
    (if s = ''agent'' then Some Agent else if s = ''human'' then Some Human
     else if s = ''tool'' then Some Tool else None)"

record actor =
  ac_kind :: actor_kind
  ac_name :: string

record event =
  ev_schema_version :: int
  ev_id :: string
  ev_occurred_at :: string
  ev_type :: event_type
  ev_actor :: actor
  ev_batch_id :: "string option"
  ev_task_id :: "string option"
  ev_payload_version :: int
  ev_payload :: "(string, json) btmap"

text \<open>The object \<open>to_json_line\<close> builds, key by key, and its text.\<close>

definition event_value :: "event \<Rightarrow> json" where
  "event_value e =
    (let obj = bt_insert ''schema_version'' (JInt (ev_schema_version e)) [];
         obj = bt_insert ''event_id'' (JStr (ev_id e)) obj;
         obj = bt_insert ''occurred_at'' (JStr (ev_occurred_at e)) obj;
         obj = bt_insert ''type'' (JStr (event_type_as_str (ev_type e))) obj;
         obj = (case ev_batch_id e of Some b \<Rightarrow> bt_insert ''batch_id'' (JStr b) obj | None \<Rightarrow> obj);
         obj = (case ev_task_id e of Some t \<Rightarrow> bt_insert ''task_id'' (JStr t) obj | None \<Rightarrow> obj);
         obj = bt_insert ''payload_version'' (JInt (ev_payload_version e)) obj;
         actor = bt_insert ''kind'' (JStr (actor_kind_as_str (ac_kind (ev_actor e)))) [];
         actor = bt_insert ''name'' (JStr (ac_name (ev_actor e))) actor;
         obj = bt_insert ''actor'' (JObj actor) obj
     in JObj (bt_insert ''payload'' (JObj (ev_payload e)) obj))"

definition to_json_line :: "(json \<Rightarrow> string) \<Rightarrow> event \<Rightarrow> string" where
  "to_json_line to_text e = to_text (event_value e)"

section \<open>The reader\<close>

type_synonym parse_error = string

definition require_str :: "json option \<Rightarrow> string \<Rightarrow> parse_error + string" where
  "require_str v fld =
    (case v of
       None \<Rightarrow> Inl ((''missing required field '' @ [CHR 0x27]) @ fld @ [CHR 0x27])
     | Some JNull \<Rightarrow> Inl ((''missing required field '' @ [CHR 0x27]) @ fld @ [CHR 0x27])
     | Some v \<Rightarrow> (case as_str v of Some s \<Rightarrow> Inr s | None \<Rightarrow> Inl (fld @ '' must be a string'')))"

definition require_int :: "json option \<Rightarrow> string \<Rightarrow> parse_error + int" where
  "require_int v fld =
    (case v of
       None \<Rightarrow> Inl ((''missing required field '' @ [CHR 0x27]) @ fld @ [CHR 0x27])
     | Some JNull \<Rightarrow> Inl ((''missing required field '' @ [CHR 0x27]) @ fld @ [CHR 0x27])
     | Some v \<Rightarrow> (case as_i64 v of Some n \<Rightarrow> Inr n | None \<Rightarrow> Inl (fld @ '' must be an integer'')))"

definition parse_actor :: "json option \<Rightarrow> parse_error + actor" where
  "parse_actor v =
    (case v of
       None \<Rightarrow> Inl (''missing required field '' @ [CHR 0x27] @ ''actor'' @ [CHR 0x27])
     | Some v \<Rightarrow>
         (case as_object v of
            None \<Rightarrow> Inl ''actor must be an object''
          | Some m \<Rightarrow>
              bind_res (require_str (map_of m ''kind'') ''actor.kind'') (\<lambda>kind_str.
                (case actor_kind_parse kind_str of
                   None \<Rightarrow> Inl ((''actor.kind '' @ [CHR 0x27]) @ kind_str @ ([CHR 0x27] @ '' is not agent/human/tool''))
                 | Some kind \<Rightarrow>
                     bind_res (require_str (map_of m ''name'') ''actor.name'') (\<lambda>name.
                       if name = [] then Inl ''actor.name is required''
                       else Inr \<lparr>ac_kind = kind, ac_name = name\<rparr>)))))"

definition is_task_coordinate :: "event_type \<Rightarrow> string \<Rightarrow> bool" where
  "is_task_coordinate t value \<longleftrightarrow>
    is_task_id value
    \<or> t = UsageRecorded \<and> value \<in> {''_cohort'', ''_integration'', ''_release''}"

text \<open>The optional coordinates: absent, or present and valid.\<close>

definition parse_batch_id :: "json option \<Rightarrow> parse_error + string option" where
  "parse_batch_id v =
    (case v of
       None \<Rightarrow> Inr None
     | Some JNull \<Rightarrow> Inr None
     | Some v \<Rightarrow>
         (case as_str v of
            None \<Rightarrow> Inl ''batch_id must be a string''
          | Some s \<Rightarrow>
              (if strip_prefix ''B-'' s = None then Inl ((''batch_id '' @ [CHR 0x27]) @ s @ ([CHR 0x27] @ '' does not look like a B-id''))
               else Inr (Some s))))"

definition parse_task_id :: "event_type \<Rightarrow> string \<Rightarrow> json option \<Rightarrow> parse_error + string option" where
  "parse_task_id t type_str v =
    (case v of
       None \<Rightarrow> Inr None
     | Some JNull \<Rightarrow> Inr None
     | Some v \<Rightarrow>
         (case as_str v of
            None \<Rightarrow> Inl ''task_id must be a string''
          | Some s \<Rightarrow>
              (if \<not> is_task_coordinate t s
               then Inl ((''task_id '' @ [CHR 0x27]) @ s @ ([CHR 0x27] @ '' is not a T-id or documented usage pseudo-id for '') @ type_str)
               else Inr (Some s))))"

definition parse_payload_version :: "json option \<Rightarrow> parse_error + int" where
  "parse_payload_version v =
    (case v of
       None \<Rightarrow> Inr 1
     | Some JNull \<Rightarrow> Inr 1
     | Some v \<Rightarrow>
         (case as_i64 v of
            None \<Rightarrow> Inl ''payload_version must be an integer''
          | Some n \<Rightarrow> (if n < 1 then Inl ''payload_version must be a positive integer'' else Inr n)))"

definition parse_payload :: "json option \<Rightarrow> parse_error + (string, json) btmap" where
  "parse_payload v =
    (case v of
       None \<Rightarrow> Inl (''missing required field '' @ [CHR 0x27] @ ''payload'' @ [CHR 0x27])
     | Some v \<Rightarrow> (case as_object v of None \<Rightarrow> Inl ''payload must be an object'' | Some m \<Rightarrow> Inr m))"

text \<open>\<open>char::is_whitespace\<close> on some character of the text.\<close>

fun contains_ws :: "string \<Rightarrow> bool" where
  "contains_ws [] = False"
| "contains_ws (c # cs) = (strip_any ws_codes (c # cs) \<noteq> None \<or> contains_ws cs)"

definition parse_value :: "json \<Rightarrow> parse_error + event" where
  "parse_value value =
    (case as_object value of
       None \<Rightarrow> Inl ''event must be a JSON object''
     | Some obj \<Rightarrow>
         bind_res (require_int (map_of obj ''schema_version'') ''schema_version'') (\<lambda>version.
         if version \<noteq> schema_version then
           Inl (''unsupported schema_version '' @ (if version < 0 then ''-'' else []) @ show_nat (nat \<bar>version\<bar>)
                @ '' (this reader speaks 1)'')
         else
         bind_res (require_str (map_of obj ''event_id'') ''event_id'') (\<lambda>i.
         if i = [] \<or> contains_ws i then Inl ''event_id must be a non-empty whitespace-free token''
         else
         bind_res (require_str (map_of obj ''occurred_at'') ''occurred_at'') (\<lambda>occurred_at.
         if \<not> is_iso_utc occurred_at then
           Inl ((''occurred_at '' @ [CHR 0x27]) @ occurred_at @ [CHR 0x27, CHR 0x20, CHR 0x69, CHR 0x73, CHR 0x20, CHR 0x6E, CHR 0x6F, CHR 0x74, CHR 0x20,
      CHR 0x49, CHR 0x53, CHR 0x4F, CHR 0x2D, CHR 0x38, CHR 0x36, CHR 0x30, CHR 0x31, CHR 0x20,
      CHR 0x55, CHR 0x54, CHR 0x43, CHR 0x20, CHR 0x28, CHR 0xE2, CHR 0x80, CHR 0xA6, CHR 0x5A,
      CHR 0x29])
         else
         bind_res (require_str (map_of obj ''type'') ''type'') (\<lambda>type_str.
         case event_type_parse type_str of
           None \<Rightarrow> Inl ((''unknown type '' @ [CHR 0x27]) @ type_str @ [CHR 0x27])
         | Some t \<Rightarrow>
             bind_res (parse_actor (map_of obj ''actor'')) (\<lambda>actor.
             bind_res (parse_payload (map_of obj ''payload'')) (\<lambda>payload.
             bind_res (parse_batch_id (map_of obj ''batch_id'')) (\<lambda>batch_id.
             bind_res (parse_task_id t type_str (map_of obj ''task_id'')) (\<lambda>task_id.
             bind_res (parse_payload_version (map_of obj ''payload_version'')) (\<lambda>payload_version.
               Inr \<lparr>ev_schema_version = version, ev_id = i, ev_occurred_at = occurred_at, ev_type = t,
                    ev_actor = actor, ev_batch_id = batch_id, ev_task_id = task_id,
                    ev_payload_version = payload_version, ev_payload = payload\<rparr>))))))))))"

definition parse_line :: "(string \<Rightarrow> string + json) \<Rightarrow> string \<Rightarrow> parse_error + event" where
  "parse_line from_str line =
    (let trimmed = trim line in
     if trimmed = [] then Inl ''empty line''
     else (case from_str trimmed of
             Inl e \<Rightarrow> Inl (''not valid JSON: '' @ e)
           | Inr value \<Rightarrow> parse_value value))"

section \<open>Facts\<close>

lemma event_type_round_trip [simp]: "event_type_parse (event_type_as_str t) = Some t"
  by (cases t) (simp_all add: event_type_as_str_def event_type_parse_def)

lemma actor_kind_round_trip [simp]: "actor_kind_parse (actor_kind_as_str k) = Some k"
  by (cases k) (simp_all add: actor_kind_as_str_def actor_kind_parse_def)

text \<open>What the reader demands of an envelope.\<close>

definition valid_event :: "event \<Rightarrow> bool" where
  "valid_event e \<longleftrightarrow>
    ev_schema_version e = schema_version
    \<and> ev_id e \<noteq> [] \<and> \<not> contains_ws (ev_id e)
    \<and> is_iso_utc (ev_occurred_at e)
    \<and> ac_name (ev_actor e) \<noteq> []
    \<and> (case ev_batch_id e of None \<Rightarrow> True | Some b \<Rightarrow> strip_prefix ''B-'' b \<noteq> None)
    \<and> (case ev_task_id e of None \<Rightarrow> True | Some t \<Rightarrow> is_task_coordinate (ev_type e) t)
    \<and> 1 \<le> ev_payload_version e \<and> ev_payload_version e \<le> 9223372036854775807"

text \<open>The fields of the object, whatever the order of insertion.\<close>

lemma event_fields:
  fixes e
  defines "m \<equiv> map_of (the (as_object (event_value e)))"
  shows "as_object (event_value e) \<noteq> None"
    and "m ''schema_version'' = Some (JInt (ev_schema_version e))"
    and "m ''event_id'' = Some (JStr (ev_id e))"
    and "m ''occurred_at'' = Some (JStr (ev_occurred_at e))"
    and "m ''type'' = Some (JStr (event_type_as_str (ev_type e)))"
    and "m ''payload_version'' = Some (JInt (ev_payload_version e))"
    and "m ''payload'' = Some (JObj (ev_payload e))"
    and "m ''batch_id'' = map_option JStr (ev_batch_id e)"
    and "m ''task_id'' = map_option JStr (ev_task_id e)"
    and "m ''actor'' = Some (JObj (bt_insert ''name'' (JStr (ac_name (ev_actor e)))
           (bt_insert ''kind'' (JStr (actor_kind_as_str (ac_kind (ev_actor e)))) [])))"
  unfolding m_def event_value_def Let_def as_object_def
  by (cases "ev_batch_id e"; cases "ev_task_id e"; simp)+

lemma require_JStr [simp]: "require_str (Some (JStr s)) f = Inr s"
  by (simp add: require_str_def as_str_def)

lemma parse_actor_value [simp]:
  "ac_name a \<noteq> [] \<Longrightarrow>
    parse_actor (Some (JObj [(''kind'', JStr (actor_kind_as_str (ac_kind a))),
      (''name'', JStr (ac_name a))])) = Inr a"
  by (simp add: parse_actor_def as_object_def bind_res_def)

lemma event_value_parses:
  assumes "valid_event e"
  shows "parse_value (event_value e) = Inr e"
proof -
  obtain m where m: "as_object (event_value e) = Some m" using event_fields(1) by blast
  note f = event_fields(2-)[of e, unfolded m option.sel]
  have batch: "parse_batch_id (map_option JStr (ev_batch_id e)) = Inr (ev_batch_id e)"
    using assms by (cases "ev_batch_id e") (simp_all add: parse_batch_id_def as_str_def valid_event_def)
  have task: "parse_task_id (ev_type e) ts (map_option JStr (ev_task_id e)) = Inr (ev_task_id e)" for ts
    using assms by (cases "ev_task_id e") (simp_all add: parse_task_id_def as_str_def valid_event_def)
  have version: "parse_payload_version (Some (JInt (ev_payload_version e))) = Inr (ev_payload_version e)"
    using assms by (simp add: parse_payload_version_def as_i64_def valid_event_def)
  have schema: "require_int (Some (JInt (ev_schema_version e))) ''schema_version'' = Inr schema_version"
    using assms by (simp add: require_int_def as_i64_def valid_event_def schema_version_def)
  have eta: "\<lparr>ev_schema_version = schema_version, ev_id = ev_id e, ev_occurred_at = ev_occurred_at e,
      ev_type = ev_type e, ev_actor = ev_actor e, ev_batch_id = ev_batch_id e, ev_task_id = ev_task_id e,
      ev_payload_version = ev_payload_version e, ev_payload = ev_payload e\<rparr> = e"
    using assms by (simp add: valid_event_def)
  show ?thesis
    unfolding parse_value_def m option.case f schema
    using assms
    by (simp add: bind_res_def batch task version eta valid_event_def parse_payload_def as_object_def)
qed

text \<open>Conversely, the reader lets only such envelopes through.\<close>

lemma parse_actor_named: "parse_actor v = Inr a \<Longrightarrow> ac_name a \<noteq> []"
  by (auto simp: parse_actor_def split: option.splits if_splits)

lemma parse_batch_id_valid:
  "parse_batch_id v = Inr b \<Longrightarrow> case b of None \<Rightarrow> True | Some b \<Rightarrow> strip_prefix ''B-'' b \<noteq> None"
  by (auto simp: parse_batch_id_def split: option.splits if_splits json.splits)

lemma parse_task_id_valid:
  "parse_task_id t ts v = Inr i \<Longrightarrow> case i of None \<Rightarrow> True | Some i \<Rightarrow> is_task_coordinate t i"
  by (auto simp: parse_task_id_def split: option.splits if_splits json.splits)

lemma parse_payload_version_valid:
  "parse_payload_version v = Inr n \<Longrightarrow> 1 \<le> n \<and> n \<le> 9223372036854775807"
  by (auto simp: parse_payload_version_def as_i64_def split: option.splits if_splits json.splits)

lemma parsed_event_valid:
  assumes "parse_value v = Inr e"
  shows "valid_event e"
proof -
  from assms obtain obj where "as_object v = Some obj"
    by (cases "as_object v") (simp_all add: parse_value_def)
  with assms obtain i at ts t a b k n p where
    "\<not> (i = [] \<or> contains_ws i)" "is_iso_utc at" "parse_actor (map_of obj ''actor'') = Inr a"
    "parse_batch_id (map_of obj ''batch_id'') = Inr b" "parse_task_id t ts (map_of obj ''task_id'') = Inr k"
    "parse_payload_version (map_of obj ''payload_version'') = Inr n"
    "e = \<lparr>ev_schema_version = schema_version, ev_id = i, ev_occurred_at = at, ev_type = t, ev_actor = a,
         ev_batch_id = b, ev_task_id = k, ev_payload_version = n, ev_payload = p\<rparr>"
    unfolding parse_value_def by (simp split: option.splits if_splits) metis
  then show ?thesis
    using parse_actor_named parse_batch_id_valid parse_task_id_valid parse_payload_version_valid
    by (simp add: valid_event_def)
qed

end
