(* ===== verification/Telemetry.thy ===== *)
theory Telemetry
  imports Events ProcessorTypes
begin

text \<open>
  Token telemetry and timing facts, \<open>src/engine/src/telemetry.rs\<close>: the usage counters of a
  provider with their price, the codex attempts, and the strict \<open>operation.completed\<close> record. All
  of it works on events that the reader accepted; \<open>uuid\<close> is the name-based UUID of
  \<open>deterministic_event_id\<close>. Counters are \<open>nat\<close>s with the width of the source written out.
\<close>

section \<open>Fields of a payload\<close>

type_synonym payload = "(string, json) btmap"

definition as_u64 :: "json \<Rightarrow> nat option" where
  "as_u64 v = (case v of JInt n \<Rightarrow> if 0 \<le> n \<and> n \<le> int u64_max then Some (nat n) else None | _ \<Rightarrow> None)"

definition as_bool :: "json \<Rightarrow> bool option" where
  "as_bool v = (case v of JBool b \<Rightarrow> Some b | _ \<Rightarrow> None)"

definition get_str :: "string \<Rightarrow> payload \<Rightarrow> string option" where
  "get_str k p = Option.bind (map_of p k) as_str"

definition get_u64 :: "string \<Rightarrow> payload \<Rightarrow> nat option" where
  "get_u64 k p = Option.bind (map_of p k) as_u64"

definition having :: "('a \<Rightarrow> bool) \<Rightarrow> 'a option \<Rightarrow> 'a option" where
  "having P x = (case x of Some a \<Rightarrow> if P a then Some a else None | None \<Rightarrow> None)"

datatype telemetry_unavailable =
  EventsOutboxDisabled | EventsFileMissing | InvalidEventRecord | UnterminatedEventRecord
| MalformedActualUsage | UnmeteredUsage | ReadFailed

definition telemetry_unavailable_as_str :: "telemetry_unavailable \<Rightarrow> string" where
  "telemetry_unavailable_as_str u =
    (case u of
       EventsOutboxDisabled \<Rightarrow> ''events-outbox-disabled''
     | EventsFileMissing \<Rightarrow> ''events-file-missing''
     | InvalidEventRecord \<Rightarrow> ''invalid-event-record''
     | UnterminatedEventRecord \<Rightarrow> ''unterminated-event-record''
     | MalformedActualUsage \<Rightarrow> ''malformed-actual-usage''
     | UnmeteredUsage \<Rightarrow> ''unmetered-usage''
     | ReadFailed \<Rightarrow> ''events-read-failed'')"

abbreviation need :: "'a option \<Rightarrow> telemetry_unavailable + 'a" where
  "need x \<equiv> (case x of Some a \<Rightarrow> Inr a | None \<Rightarrow> Inl InvalidEventRecord)"

text \<open>No character of the Unicode class Cc; in UTF-8 the second block is led by 0xC2.\<close>

fun has_control :: "string \<Rightarrow> bool" where
  "has_control [] = False"
| "has_control (c # s) =
    ((of_char c :: nat) < 32 \<or> c = CHR 0x7F
     \<or> (c = CHR 0xC2 \<and> (case s of [] \<Rightarrow> False | d # _ \<Rightarrow> 128 \<le> (of_char d :: nat) \<and> (of_char d :: nat) \<le> 159))
     \<or> has_control s)"

definition safe_scalar :: "string \<Rightarrow> bool" where
  "safe_scalar v \<longleftrightarrow> v \<noteq> [] \<and> length v \<le> 160 \<and> \<not> has_control v"

text \<open>Calendar checks in front of \<open>iso_to_epoch_millis\<close>, which itself demands plain digits.\<close>

definition telemetry_epoch_millis :: "string \<Rightarrow> nat option" where
  "telemetry_epoch_millis value =
    (case (field value 0 4, field value 5 7, field value 8 10, field value 11 13, field value 14 16,
           field value 17 19) of
       (Some year, Some month, Some day, Some hour, Some minute, Some second) \<Rightarrow>
         (let leap = 4 dvd year \<and> (\<not> 100 dvd year \<or> 400 dvd year) in
          case (if month \<in> {1, 3, 5, 7, 8, 10, 12} then Some 31
                else if month \<in> {4, 6, 9, 11} then Some 30
                else if month = 2 then Some (if leap then 29 else 28)
                else None) of
            None \<Rightarrow> None
          | Some days \<Rightarrow>
              (if day = 0 \<or> day > days \<or> hour > 23 \<or> minute > 59 \<or> second > 59 then None
               else iso_to_epoch_millis value))
     | _ \<Rightarrow> None)"

definition safe_codex_reason :: "string \<Rightarrow> bool" where
  "safe_codex_reason reason \<longleftrightarrow>
    reason \<in> {''DIFF_TOO_LARGE'', ''SMOKE_FAILED'', ''JJ_DRIFT'', ''EMPTY_DIFF'', ''CODEX_UNAVAILABLE'',
      ''CODEX_FAILED'', ''OTHER_FAILURE''}
    \<or> (case strip_prefix ''ENV_LIMIT/'' reason of
         None \<Rightarrow> False
       | Some cls \<Rightarrow> cls \<noteq> [] \<and> list_all (\<lambda>c. ascii_alnum c \<or> c = CHR ''-'' \<or> c = CHR ''_'') cls)"

section \<open>Usage of a provider\<close>

record provider_usage =
  pu_input_tokens :: "nat option"
  pu_output_tokens :: "nat option"
  pu_cache_read_input_tokens :: "nat option"
  pu_cache_creation_input_tokens :: "nat option"
  pu_total_tokens :: "nat option"

datatype usage_source = Claude | Codex

definition usage_source_from_event :: "string \<Rightarrow> usage_source option" where
  "usage_source_from_event v =
    (if v = ''claude'' then Some Claude else if v = ''codex'' then Some Codex else None)"

fun sum_checked :: "nat \<Rightarrow> nat option list \<Rightarrow> nat option" where
  "sum_checked acc [] = Some acc"
| "sum_checked acc (None # xs) = sum_checked acc xs"
| "sum_checked acc (Some n # xs) = Option.bind (checked64 (acc + n)) (\<lambda>acc. sum_checked acc xs)"

definition provider_usage_from_fields ::
    "nat option \<Rightarrow> nat option \<Rightarrow> nat option \<Rightarrow> nat option \<Rightarrow> nat option \<Rightarrow> provider_usage option" where
  "provider_usage_from_fields input output cache_read cache_creation tokens =
    (let any_component = (input \<noteq> None \<or> output \<noteq> None \<or> cache_read \<noteq> None \<or> cache_creation \<noteq> None);
         usage = (\<lambda>t. \<lparr>pu_input_tokens = input, pu_output_tokens = output,
           pu_cache_read_input_tokens = cache_read, pu_cache_creation_input_tokens = cache_creation,
           pu_total_tokens = t\<rparr>)
     in if tokens = None \<and> \<not> any_component then None
        else (case tokens of
                Some t \<Rightarrow> Some (usage (Some t))
              | None \<Rightarrow> (case sum_checked 0 [input, output, cache_read, cache_creation] of
                    None \<Rightarrow> None
                  | Some computed \<Rightarrow> Some (usage (Some computed)))))"

fun first_key :: "string list \<Rightarrow> payload \<Rightarrow> json option" where
  "first_key [] p = None"
| "first_key (k # ks) p = (case map_of p k of Some v \<Rightarrow> Some v | None \<Rightarrow> first_key ks p)"

fun sum_components :: "string list \<Rightarrow> payload \<Rightarrow> nat \<Rightarrow> bool \<Rightarrow> nat option" where
  "sum_components [] p tokens found = (if found then Some tokens else None)"
| "sum_components (k # ks) p tokens found =
    (case map_of p k of
       None \<Rightarrow> sum_components ks p tokens found
     | Some v \<Rightarrow>
         (case as_u64 v of
            None \<Rightarrow> None
          | Some n \<Rightarrow> Option.bind (checked64 (tokens + n)) (\<lambda>tokens. sum_components ks p tokens True)))"

definition usage_total :: "payload \<Rightarrow> nat option" where
  "usage_total p =
    (case first_key [''total_tokens'', ''tokens'', ''token_count''] p of
       Some v \<Rightarrow> as_u64 v
     | None \<Rightarrow> sum_components [''input_tokens'', ''output_tokens'', ''cache_read_input_tokens'',
                 ''cache_creation_input_tokens''] p 0 False)"

definition is_unavailable_marker :: "payload \<Rightarrow> bool" where
  "is_unavailable_marker p =
    list_all (\<lambda>k. map_of p k = None)
      [''estimated'', ''total_tokens'', ''tokens'', ''token_count'', ''input_tokens'', ''output_tokens'',
       ''cache_read_input_tokens'', ''cache_creation_input_tokens'']"

section \<open>Completed operations\<close>

datatype operation_scope = Task | Cohort | Integration

definition operation_scope_as_str :: "operation_scope \<Rightarrow> string" where
  "operation_scope_as_str s = (case s of Task \<Rightarrow> ''task'' | Cohort \<Rightarrow> ''cohort'' | Integration \<Rightarrow> ''integration'')"

definition operation_scope_parse :: "string \<Rightarrow> operation_scope option" where
  "operation_scope_parse v =
    (if v = ''task'' then Some Task else if v = ''cohort'' then Some Cohort
     else if v = ''integration'' then Some Integration else None)"

datatype operation_executor_kind = Model | Tool | External

definition operation_executor_kind_as_str :: "operation_executor_kind \<Rightarrow> string" where
  "operation_executor_kind_as_str k =
    (case k of operation_executor_kind.Model \<Rightarrow> ''model'' | operation_executor_kind.Tool \<Rightarrow> ''tool''
     | External \<Rightarrow> ''external'')"

definition operation_executor_kind_parse :: "string \<Rightarrow> operation_executor_kind option" where
  "operation_executor_kind_parse v =
    (if v = ''model'' then Some operation_executor_kind.Model
     else if v = ''tool'' then Some operation_executor_kind.Tool
     else if v = ''external'' then Some External else None)"

datatype operation_outcome = Success | Fallback | Failed | Cancelled | Timeout | Skipped

definition operation_outcome_as_str :: "operation_outcome \<Rightarrow> string" where
  "operation_outcome_as_str r =
    (case r of
       Success \<Rightarrow> ''success'' | operation_outcome.Fallback \<Rightarrow> ''fallback''
     | operation_outcome.Failed \<Rightarrow> ''failed'' | Cancelled \<Rightarrow> ''cancelled'' | Timeout \<Rightarrow> ''timeout''
     | operation_outcome.Skipped \<Rightarrow> ''skipped'')"

definition operation_outcome_parse :: "string \<Rightarrow> operation_outcome option" where
  "operation_outcome_parse v =
    (if v = ''success'' then Some Success else if v = ''fallback'' then Some operation_outcome.Fallback
     else if v = ''failed'' then Some operation_outcome.Failed else if v = ''cancelled'' then Some Cancelled
     else if v = ''timeout'' then Some Timeout
     else if v = ''skipped'' then Some operation_outcome.Skipped else None)"

record operation_completed =
  oc_operation :: string
  oc_role :: string
  oc_mode :: string
  oc_attempt_number :: nat
  oc_scope :: operation_scope
  oc_executor_kind :: operation_executor_kind
  oc_started_at :: string
  oc_ended_at :: string
  oc_duration_ms :: nat
  oc_outcome :: operation_outcome
  oc_shared_task_count :: nat

definition operation_keys :: "string list" where
  "operation_keys =
    [''operation'', ''role'', ''mode'', ''attempt_number'', ''scope'', ''executor_kind'', ''started_at'',
     ''ended_at'', ''duration_ms'', ''outcome'']"

definition model_operations :: "string list" where
  "model_operations =
    [''planning'', ''coding'', ''review'', ''review_fix'', ''merge'', ''integration_review'', ''integration_fix'',
     ''ci_fix'', ''knowledge_curate'']"

definition non_model_operations :: "string list" where
  "non_model_operations = [''verification'', ''publish'', ''ci_wait'']"

definition valid_batch_id :: "string \<Rightarrow> bool" where
  "valid_batch_id v =
    (case strip_prefix ''B-'' v of
       None \<Rightarrow> False
     | Some rest \<Rightarrow> rest \<noteq> [] \<and> list_all (\<lambda>c. ascii_alnum c \<or> c \<in> {CHR ''.'', CHR ''_'', CHR ''-''}) rest)"

definition ascii_lower :: "char \<Rightarrow> bool" where
  "ascii_lower c \<longleftrightarrow> 97 \<le> (of_char c :: nat) \<and> (of_char c :: nat) \<le> 122"

definition lower_token :: "string \<Rightarrow> bool" where
  "lower_token v =
    (case v of
       [] \<Rightarrow> False
     | c # cs \<Rightarrow> ascii_lower c
         \<and> list_all (\<lambda>c. ascii_lower c \<or> is_digit c \<or> c \<in> {CHR ''.'', CHR ''_'', CHR ''-''}) cs)"

definition operation_identity :: "string \<Rightarrow> string \<Rightarrow> string \<Rightarrow> string \<Rightarrow> string \<Rightarrow> nat \<Rightarrow> string" where
  "operation_identity batch_id task_id operation role mode attempt =
    ''orchestra/operation.completed/'' @ batch_id @ ''/'' @ task_id @ ''/'' @ operation @ ''/'' @ role
    @ ''/'' @ mode @ ''/'' @ show_nat attempt"

definition token :: "string \<Rightarrow> payload \<Rightarrow> telemetry_unavailable + string" where
  "token key p = need (having lower_token (get_str key p))"

definition operation_from_event ::
    "(string \<Rightarrow> string) \<Rightarrow> event \<Rightarrow> telemetry_unavailable + operation_completed" where
  "operation_from_event uuid e =
    (let p = ev_payload e in
     bind_res (ensure (ev_type e = OperationCompleted \<and> ev_schema_version e = schema_version
                 \<and> ev_payload_version e = 1
                 \<and> (case ev_batch_id e of None \<Rightarrow> False | Some b \<Rightarrow> valid_batch_id b)
                 \<and> (case ev_task_id e of None \<Rightarrow> False | Some t \<Rightarrow> is_task_id t)
                 \<and> length p = length operation_keys + 1
                 \<and> list_all (\<lambda>k. map_of p k \<noteq> None) operation_keys
                 \<and> map_of p ''shared_task_count'' \<noteq> None) InvalidEventRecord) (\<lambda>_.
     bind_res (token ''operation'' p) (\<lambda>operation.
     bind_res (token ''role'' p) (\<lambda>role.
     bind_res (token ''mode'' p) (\<lambda>mode.
     bind_res (need (having (\<lambda>n. n > 0) (get_u64 ''attempt_number'' p))) (\<lambda>attempt.
     bind_res (need (having (\<lambda>n. n > 0) (get_u64 ''shared_task_count'' p))) (\<lambda>shared.
     bind_res (need (Option.bind (get_str ''scope'' p) operation_scope_parse)) (\<lambda>scope.
     bind_res (need (Option.bind (get_str ''executor_kind'' p) operation_executor_kind_parse)) (\<lambda>kind.
     bind_res (need (Option.bind (get_str ''outcome'' p) operation_outcome_parse)) (\<lambda>outcome.
     bind_res (need (having (\<lambda>v. telemetry_epoch_millis v \<noteq> None) (get_str ''started_at'' p))) (\<lambda>started.
     bind_res (need (having (\<lambda>v. telemetry_epoch_millis v \<noteq> None) (get_str ''ended_at'' p))) (\<lambda>ended.
     bind_res (need (get_u64 ''duration_ms'' p)) (\<lambda>duration.
     bind_res (ensure (\<not> (the (telemetry_epoch_millis ended) < the (telemetry_epoch_millis started)
                 \<or> (scope = Task \<and> shared \<noteq> 1)
                 \<or> (operation \<in> set model_operations \<and> kind \<noteq> operation_executor_kind.Model)
                 \<or> (operation \<in> set non_model_operations \<and> kind = operation_executor_kind.Model)))
                InvalidEventRecord) (\<lambda>_.
     bind_res (ensure (ev_id e = uuid (operation_identity (the (ev_batch_id e)) (the (ev_task_id e))
                 operation role mode attempt)) InvalidEventRecord) (\<lambda>_.
     Inr \<lparr>oc_operation = operation, oc_role = role, oc_mode = mode, oc_attempt_number = attempt,
          oc_scope = scope, oc_executor_kind = kind, oc_started_at = started, oc_ended_at = ended,
          oc_duration_ms = duration, oc_outcome = outcome, oc_shared_task_count = shared\<rparr>)))))))))))))))"

definition operation_payload :: "operation_completed \<Rightarrow> payload" where
  "operation_payload c =
    (let p = bt_insert ''operation'' (JStr (oc_operation c)) [];
         p = bt_insert ''role'' (JStr (oc_role c)) p;
         p = bt_insert ''mode'' (JStr (oc_mode c)) p;
         p = bt_insert ''attempt_number'' (JInt (int (oc_attempt_number c))) p;
         p = bt_insert ''scope'' (JStr (operation_scope_as_str (oc_scope c))) p;
         p = bt_insert ''executor_kind'' (JStr (operation_executor_kind_as_str (oc_executor_kind c))) p;
         p = bt_insert ''started_at'' (JStr (oc_started_at c)) p;
         p = bt_insert ''ended_at'' (JStr (oc_ended_at c)) p;
         p = bt_insert ''duration_ms'' (JInt (int (oc_duration_ms c))) p;
         p = bt_insert ''outcome'' (JStr (operation_outcome_as_str (oc_outcome c))) p
     in bt_insert ''shared_task_count'' (JInt (int (oc_shared_task_count c))) p)"

definition operation_to_event ::
    "(string \<Rightarrow> string) \<Rightarrow> operation_completed \<Rightarrow> string \<Rightarrow> string \<Rightarrow> string \<Rightarrow> telemetry_unavailable + event" where
  "operation_to_event uuid c batch_id task_id occurred_at =
    (if \<not> valid_batch_id batch_id \<or> \<not> is_task_id task_id \<or> \<not> lower_token (oc_operation c)
        \<or> \<not> lower_token (oc_role c) \<or> \<not> lower_token (oc_mode c) \<or> oc_attempt_number c = 0
        \<or> oc_shared_task_count c = 0
     then Inl InvalidEventRecord
     else
       (let e = \<lparr>ev_schema_version = schema_version,
                 ev_id = uuid (operation_identity batch_id task_id (oc_operation c) (oc_role c) (oc_mode c)
                           (oc_attempt_number c)),
                 ev_occurred_at = occurred_at, ev_type = OperationCompleted,
                 ev_actor = \<lparr>ac_kind = Agent, ac_name = ''engine''\<rparr>, ev_batch_id = Some batch_id,
                 ev_task_id = Some task_id, ev_payload_version = 1, ev_payload = operation_payload c\<rparr>
        in bind_res (operation_from_event uuid e) (\<lambda>_. Inr e)))"


section \<open>Facts\<close>

lemma scope_round_trip [simp]: "operation_scope_parse (operation_scope_as_str s) = Some s"
  by (cases s) (simp_all add: operation_scope_parse_def operation_scope_as_str_def)

lemma executor_kind_round_trip [simp]: "operation_executor_kind_parse (operation_executor_kind_as_str k) = Some k"
  by (cases k) (simp_all add: operation_executor_kind_parse_def operation_executor_kind_as_str_def)

lemma operation_outcome_round_trip [simp]: "operation_outcome_parse (operation_outcome_as_str r) = Some r"
  by (cases r) (simp_all add: operation_outcome_parse_def operation_outcome_as_str_def)

lemma epoch_iso: "telemetry_epoch_millis v = Some n \<Longrightarrow> is_iso_utc v"
  by (auto simp: telemetry_epoch_millis_def iso_to_epoch_millis_def iso_to_epoch_def Let_def
      split: option.splits if_splits)

lemma as_u64_int: "as_u64 (JInt (int n)) = Some m \<longleftrightarrow> n = m \<and> n \<le> u64_max"
  by (auto simp: as_u64_def)

lemma operation_fields:
  "map_of (operation_payload c) ''operation'' = Some (JStr (oc_operation c))"
  "map_of (operation_payload c) ''role'' = Some (JStr (oc_role c))"
  "map_of (operation_payload c) ''mode'' = Some (JStr (oc_mode c))"
  "map_of (operation_payload c) ''attempt_number'' = Some (JInt (int (oc_attempt_number c)))"
  "map_of (operation_payload c) ''scope'' = Some (JStr (operation_scope_as_str (oc_scope c)))"
  "map_of (operation_payload c) ''executor_kind'' = Some (JStr (operation_executor_kind_as_str (oc_executor_kind c)))"
  "map_of (operation_payload c) ''started_at'' = Some (JStr (oc_started_at c))"
  "map_of (operation_payload c) ''ended_at'' = Some (JStr (oc_ended_at c))"
  "map_of (operation_payload c) ''duration_ms'' = Some (JInt (int (oc_duration_ms c)))"
  "map_of (operation_payload c) ''outcome'' = Some (JStr (operation_outcome_as_str (oc_outcome c)))"
  "map_of (operation_payload c) ''shared_task_count'' = Some (JInt (int (oc_shared_task_count c)))"
  by (simp_all add: operation_payload_def Let_def)

text \<open>What a record that was written reads back as.\<close>

lemma operation_event_reads_back:
  assumes "operation_to_event uuid c b t at = Inr e"
  shows "operation_from_event uuid e = Inr c"
proof -
  obtain c' where c: "operation_from_event uuid e = Inr c'" and p: "ev_payload e = operation_payload c"
    using assms by (auto simp: operation_to_event_def Let_def split: if_splits)
  have "c' = c"
    using c unfolding operation_from_event_def Let_def p token_def get_str_def get_u64_def operation_fields
    by (auto simp: as_str_def as_u64_int having_def split: if_splits option.splits)
  then show ?thesis using c by simp
qed

lemma operation_event_valid:
  assumes "operation_to_event uuid c b t (oc_ended_at c) = Inr e" "\<And>s. uuid s \<noteq> [] \<and> \<not> contains_ws (uuid s)"
  shows "valid_event e"
proof -
  have e: "operation_from_event uuid e = Inr c" using operation_event_reads_back[OF assms(1)] .
  have f: "e = \<lparr>ev_schema_version = schema_version,
      ev_id = uuid (operation_identity b t (oc_operation c) (oc_role c) (oc_mode c) (oc_attempt_number c)),
      ev_occurred_at = oc_ended_at c, ev_type = OperationCompleted,
      ev_actor = \<lparr>ac_kind = Agent, ac_name = ''engine''\<rparr>, ev_batch_id = Some b,
      ev_task_id = Some t, ev_payload_version = 1, ev_payload = operation_payload c\<rparr>"
    "valid_batch_id b" "is_task_id t"
    using assms(1) by (auto simp: operation_to_event_def Let_def split: if_splits)
  have "is_iso_utc (oc_ended_at c)"
    using e unfolding operation_from_event_def Let_def
    by (auto simp: having_def split: if_splits option.splits dest: epoch_iso)
  moreover have "strip_prefix ''B-'' b \<noteq> None" using f(2) by (auto simp: valid_batch_id_def split: option.splits)
  ultimately show ?thesis
    using f(1,3) assms(2) by (simp add: valid_event_def is_task_coordinate_def)
qed

end
