(* ===== verification/Projector.thy ===== *)
theory Projector
  imports Events Processor
begin

text \<open>
  The projection of reducer transitions to events, \<open>src/engine/src/events/projector.rs\<close>: the events
  of an accepted command are computed from the state before and after it. The name-based UUID of
  \<open>deterministic_event_id\<close> (\<open>Uuid::new_v5\<close>) is the parameter \<open>uuid\<close>.
\<close>

section \<open>Building events\<close>

definition as_legacy_literal :: "close_reason_wire \<Rightarrow> string" where
  "as_legacy_literal r =
    (case r of
       close_reason_wire.CohortSize \<Rightarrow> ''COHORT_SIZE''
     | close_reason_wire.CohortMaxAge \<Rightarrow> ''COHORT_MAX_AGE''
     | close_reason_wire.CohortTokenBudget \<Rightarrow> ''COHORT_TOKEN_BUDGET''
     | LegacyCohortStateAbsent \<Rightarrow> ''LEGACY_COHORT_STATE_ABSENT''
     | close_reason_wire.QueueEmpty \<Rightarrow> [CHR 0xD0, CHR 0xBE, CHR 0xD1, CHR 0x87, CHR 0xD0, CHR 0xB5, CHR 0xD1, CHR 0x80, CHR 0xD0,
      CHR 0xB5, CHR 0xD0, CHR 0xB4, CHR 0xD1, CHR 0x8C, CHR 0x2D, CHR 0xD0, CHR 0xBF, CHR 0xD1,
      CHR 0x83, CHR 0xD1, CHR 0x81, CHR 0xD1, CHR 0x82, CHR 0xD0, CHR 0xB0]
     | close_reason_wire.OnlyConflictsWithReady \<Rightarrow> [CHR 0xD1, CHR 0x82, CHR 0xD0, CHR 0xBE, CHR 0xD0, CHR 0xBB, CHR 0xD1, CHR 0x8C, CHR 0xD0,
      CHR 0xBA, CHR 0xD0, CHR 0xBE, CHR 0x2D, CHR 0xD0, CHR 0xBA, CHR 0xD0, CHR 0xBE, CHR 0xD0,
      CHR 0xBD, CHR 0xD1, CHR 0x84, CHR 0xD0, CHR 0xBB, CHR 0xD0, CHR 0xB8, CHR 0xD0, CHR 0xBA,
      CHR 0xD1, CHR 0x82, CHR 0xD1, CHR 0x8B, CHR 0x2D, CHR 0xD1, CHR 0x81, CHR 0x2D, CHR 0xD0,
      CHR 0xB3, CHR 0xD0, CHR 0xBE, CHR 0xD1, CHR 0x82, CHR 0xD0, CHR 0xBE, CHR 0xD0, CHR 0xB2,
      CHR 0xD1, CHR 0x8B, CHR 0xD0, CHR 0xBC, CHR 0xD0, CHR 0xB8])"

definition event_with_payload ::
    "(string \<Rightarrow> string) \<Rightarrow> event_type \<Rightarrow> string option \<Rightarrow> string option \<Rightarrow> (string, json) btmap
     \<Rightarrow> string \<Rightarrow> string \<Rightarrow> event" where
  "event_with_payload uuid t bid task_id payload coordinate occurred_at =
    (let payload_version = (case t of CohortClosed \<Rightarrow> 2 | _ \<Rightarrow> 1);
         identity = event_type_as_str t @ ''|'' @ or_default [] bid @ ''|'' @ or_default [] task_id
                    @ ''|'' @ coordinate;
         identity = (if payload_version > 1 then identity @ ''|payload:v'' @ show_nat (nat payload_version)
                     else identity)
     in \<lparr>ev_schema_version = schema_version, ev_id = uuid identity, ev_occurred_at = occurred_at,
         ev_type = t, ev_actor = \<lparr>ac_kind = Agent, ac_name = ''engine''\<rparr>,
         ev_batch_id = bid, ev_task_id = task_id,
         ev_payload_version = payload_version, ev_payload = payload\<rparr>)"

definition event_of ::
    "(string \<Rightarrow> string) \<Rightarrow> event_type \<Rightarrow> string option \<Rightarrow> string option \<Rightarrow> string option
     \<Rightarrow> string option \<Rightarrow> string \<Rightarrow> string \<Rightarrow> event" where
  "event_of uuid t bid task_id frm to coordinate occurred_at =
    (let payload = (case frm of Some f \<Rightarrow> bt_insert ''from'' (JStr f) [] | None \<Rightarrow> []);
         payload = (case to of Some t \<Rightarrow> bt_insert ''to'' (JStr t) payload | None \<Rightarrow> payload)
     in event_with_payload uuid t bid task_id payload coordinate occurred_at)"

definition cohort_round_event ::
    "(string \<Rightarrow> string) \<Rightarrow> event_type \<Rightarrow> string \<Rightarrow> nat \<Rightarrow> bool \<Rightarrow> string \<Rightarrow> event" where
  "cohort_round_event uuid t bid wave admission_closed occurred_at =
    (let payload = bt_insert ''wave'' (JInt (int wave)) [];
         payload = bt_insert ''admission'' (JStr (if admission_closed then ''closed'' else ''open'')) payload
     in event_with_payload uuid t (Some bid) None payload (''round:'' @ show_nat wave) occurred_at)"

section \<open>Task transitions\<close>

definition task_status :: "task_phase \<Rightarrow> string" where
  "task_status p =
    (case p of
       Capturing \<Rightarrow> [CHR 0xD0, CHR 0xB2, CHR 0x20, CHR 0xD1, CHR 0x80, CHR 0xD0, CHR 0xB0, CHR 0xD0, CHR 0xB1,
      CHR 0xD0, CHR 0xBE, CHR 0xD1, CHR 0x82, CHR 0xD0, CHR 0xB5] | Implementing \<Rightarrow> [CHR 0xD0, CHR 0xB2, CHR 0x20, CHR 0xD1, CHR 0x80, CHR 0xD0, CHR 0xB0, CHR 0xD0, CHR 0xB1,
      CHR 0xD0, CHR 0xBE, CHR 0xD1, CHR 0x82, CHR 0xD0, CHR 0xB5] | Committing \<Rightarrow> [CHR 0xD0, CHR 0xB2, CHR 0x20, CHR 0xD1, CHR 0x80, CHR 0xD0, CHR 0xB0, CHR 0xD0, CHR 0xB1,
      CHR 0xD0, CHR 0xBE, CHR 0xD1, CHR 0x82, CHR 0xD0, CHR 0xB5]
     | Reviewing \<Rightarrow> [CHR 0xD0, CHR 0xBD, CHR 0xD0, CHR 0xB0, CHR 0x20, CHR 0xD1, CHR 0x80, CHR 0xD0, CHR 0xB5,
      CHR 0xD0, CHR 0xB2, CHR 0xD1, CHR 0x8C, CHR 0xD1, CHR 0x8E] | Fixing \<Rightarrow> [CHR 0xD0, CHR 0xBD, CHR 0xD0, CHR 0xB0, CHR 0x20, CHR 0xD1, CHR 0x80, CHR 0xD0, CHR 0xB5,
      CHR 0xD0, CHR 0xB2, CHR 0xD1, CHR 0x8C, CHR 0xD1, CHR 0x8E]
     | task_phase.Ready \<Rightarrow> [CHR 0xD0, CHR 0xB3, CHR 0xD0, CHR 0xBE, CHR 0xD1, CHR 0x82, CHR 0xD0, CHR 0xBE, CHR 0xD0,
      CHR 0xB2, CHR 0xD0, CHR 0xB0, CHR 0x20, CHR 0xD0, CHR 0xBA, CHR 0x20, CHR 0xD1, CHR 0x81,
      CHR 0xD0, CHR 0xBB, CHR 0xD0, CHR 0xB8, CHR 0xD1, CHR 0x8F, CHR 0xD0, CHR 0xBD, CHR 0xD0,
      CHR 0xB8, CHR 0xD1, CHR 0x8E]
     | ResolvingMerge \<Rightarrow> [CHR 0xD1, CHR 0x80, CHR 0xD0, CHR 0xB0, CHR 0xD0, CHR 0xB7, CHR 0xD1, CHR 0x80, CHR 0xD0,
      CHR 0xB5, CHR 0xD1, CHR 0x88, CHR 0xD0, CHR 0xB5, CHR 0xD0, CHR 0xBD, CHR 0xD0, CHR 0xB8,
      CHR 0xD0, CHR 0xB5, CHR 0x20, CHR 0xD0, CHR 0xBA, CHR 0xD0, CHR 0xBE, CHR 0xD0, CHR 0xBD,
      CHR 0xD1, CHR 0x84, CHR 0xD0, CHR 0xBB, CHR 0xD0, CHR 0xB8, CHR 0xD0, CHR 0xBA, CHR 0xD1,
      CHR 0x82, CHR 0xD0, CHR 0xB0]
     | task_phase.Merged \<Rightarrow> [CHR 0xD1, CHR 0x81, CHR 0xD0, CHR 0xBB, CHR 0xD0, CHR 0xB8, CHR 0xD1, CHR 0x82, CHR 0xD0,
      CHR 0xB0]
     | task_phase.Published \<Rightarrow> [CHR 0xD0, CHR 0xBE, CHR 0xD0, CHR 0xBF, CHR 0xD1, CHR 0x83, CHR 0xD0, CHR 0xB1, CHR 0xD0,
      CHR 0xBB, CHR 0xD0, CHR 0xB8, CHR 0xD0, CHR 0xBA, CHR 0xD0, CHR 0xBE, CHR 0xD0, CHR 0xB2,
      CHR 0xD0, CHR 0xB0, CHR 0xD0, CHR 0xBD, CHR 0xD0, CHR 0xB0]
     | Done \<Rightarrow> [CHR 0xD0, CHR 0xB2, CHR 0xD1, CHR 0x8B, CHR 0xD0, CHR 0xBF, CHR 0xD0, CHR 0xBE, CHR 0xD0,
      CHR 0xBB, CHR 0xD0, CHR 0xBD, CHR 0xD0, CHR 0xB5, CHR 0xD0, CHR 0xBD, CHR 0xD0, CHR 0xB0]
     | task_phase.Conflict \<Rightarrow> [CHR 0xD0, CHR 0xBA, CHR 0xD0, CHR 0xBE, CHR 0xD0, CHR 0xBD, CHR 0xD1, CHR 0x84, CHR 0xD0,
      CHR 0xBB, CHR 0xD0, CHR 0xB8, CHR 0xD0, CHR 0xBA, CHR 0xD1, CHR 0x82]
     | task_phase.Escalated \<Rightarrow> [CHR 0xD1, CHR 0x8D, CHR 0xD1, CHR 0x81, CHR 0xD0, CHR 0xBA, CHR 0xD0, CHR 0xB0, CHR 0xD0,
      CHR 0xBB, CHR 0xD0, CHR 0xB8, CHR 0xD1, CHR 0x80, CHR 0xD0, CHR 0xBE, CHR 0xD0, CHR 0xB2,
      CHR 0xD0, CHR 0xB0, CHR 0xD0, CHR 0xBD, CHR 0xD0, CHR 0xB0])"

definition in_review :: string where
  "in_review = [CHR 0xD0, CHR 0xBD, CHR 0xD0, CHR 0xB0, CHR 0x20, CHR 0xD1, CHR 0x80, CHR 0xD0, CHR 0xB5,
      CHR 0xD0, CHR 0xB2, CHR 0xD1, CHR 0x8C, CHR 0xD1, CHR 0x8E]"

text \<open>The status a transition leaves, with the fixer's commit shown as review.\<close>

definition status_before :: "task_runtime \<Rightarrow> task_runtime \<Rightarrow> processor_command \<Rightarrow> string" where
  "status_before previous current command =
    (if (case command of TaskCommitted i _ \<Rightarrow> i = tr_id current | _ \<Rightarrow> False)
        \<and> tr_phase previous = Committing \<and> tr_phase current = task_phase.Escalated
        \<and> tr_review_cycles previous > 0
     then in_review else task_status (tr_phase previous))"

definition review_loop :: "task_runtime \<Rightarrow> processor_command \<Rightarrow> bool" where
  "review_loop current command =
    (case command of
       TaskReview i (Findings _ _ _) \<Rightarrow> i = tr_id current
     | TaskReview i Incomplete \<Rightarrow> i = tr_id current
     | _ \<Rightarrow> False)"

definition project_task_status ::
    "(string \<Rightarrow> string) \<Rightarrow> task_runtime \<Rightarrow> task_runtime \<Rightarrow> processor_command \<Rightarrow> string \<Rightarrow> event list" where
  "project_task_status uuid previous current command occurred_at =
    (let frm = status_before previous current command;
         to = task_status (tr_phase current)
     in if frm \<noteq> to \<or> (review_loop current command \<and> frm = in_review \<and> to = in_review)
        then [event_of uuid TaskStatusChanged None (Some (tr_id current)) (Some frm) (Some to)
                (tr_id current @ '':'' @ show_nat (tr_review_cycles current) @ '':'' @ frm @ ''>'' @ to)
                occurred_at]
        else [])"

definition project_task_done_transition :: "(string \<Rightarrow> string) \<Rightarrow> task_runtime \<Rightarrow> string \<Rightarrow> event option" where
  "project_task_done_transition uuid t occurred_at =
    (if tr_phase t \<notin> {task_phase.Published, Done} then None
     else
       (let events = project_task_status uuid (t\<lparr>tr_phase := task_phase.Published\<rparr>)
                       (t\<lparr>tr_phase := Done\<rparr>) CleanupComplete occurred_at
        in if events = [] then None else Some (last events)))"

section \<open>Cohort transitions\<close>

definition ids_in :: "task_phase \<Rightarrow> processor_state \<Rightarrow> string list" where
  "ids_in p s = bts_of (map tr_id (filter (\<lambda>t. tr_phase t = p) (bt_values (st_tasks s))))"

definition cohort_close_payload :: "processor_state \<Rightarrow> (string, json) btmap" where
  "cohort_close_payload after =
    (let payload = bt_insert ''merged'' (JInt (int (length (ids_in Done after)))) [];
         payload = bt_insert ''quarantined'' (JInt (int (length (ids_in task_phase.Conflict after)))) payload
     in bt_insert ''escalated'' (JInt (int (length (ids_in task_phase.Escalated after)))) payload)"

definition batch_of :: "processor_state \<Rightarrow> processor_state \<Rightarrow> cohort_runtime option" where
  "batch_of before after = (case st_batch after of Some b \<Rightarrow> Some b | None \<Rightarrow> st_batch before)"

definition is_closed :: "processor_state \<Rightarrow> bool" where
  "is_closed s = (case st_batch s of Some b \<Rightarrow> co_admission_closed b \<noteq> None | None \<Rightarrow> False)"

definition is_open :: "processor_state \<Rightarrow> bool" where
  "is_open s = (case st_batch s of Some b \<Rightarrow> co_admission_closed b = None | None \<Rightarrow> False)"

definition opened_events :: "(string \<Rightarrow> string) \<Rightarrow> processor_state \<Rightarrow> processor_state \<Rightarrow> string \<Rightarrow> event list" where
  "opened_events uuid before after occurred_at =
    (case (st_batch before, st_batch after) of
       (None, Some b) \<Rightarrow> [event_of uuid CohortOpened (Some (co_id b)) None None None ''open'' occurred_at]
     | _ \<Rightarrow> [])"

definition round_started_events ::
    "(string \<Rightarrow> string) \<Rightarrow> processor_state \<Rightarrow> processor_command \<Rightarrow> string \<Rightarrow> event list" where
  "round_started_events uuid before command occurred_at =
    (case (command, st_batch before) of
       (Admit _ _, Some b) \<Rightarrow>
         (if st_phase before = Rolling
          then [cohort_round_event uuid CohortRoundStarted (co_id b) (co_wave b) (is_closed before) occurred_at]
          else [])
     | _ \<Rightarrow> [])"

definition admission_closed_events ::
    "(string \<Rightarrow> string) \<Rightarrow> processor_state \<Rightarrow> processor_state \<Rightarrow> string \<Rightarrow> event list" where
  "admission_closed_events uuid before after occurred_at =
    (case (is_open before \<and> is_closed after, batch_of before after) of
       (True, Some b) \<Rightarrow>
         (let reason = (case Option.bind (st_batch after) co_admission_closed of
                          Some r \<Rightarrow> as_legacy_literal r | None \<Rightarrow> [])
          in [event_with_payload uuid CohortAdmissionClosed (Some (co_id b)) None
                (bt_insert ''reason'' (JStr reason) []) (''admission-closed:'' @ reason) occurred_at])
     | _ \<Rightarrow> [])"

definition join_events :: "(string \<Rightarrow> string) \<Rightarrow> processor_state \<Rightarrow> processor_state \<Rightarrow> string \<Rightarrow> event list" where
  "join_events uuid before after occurred_at =
    (case (st_phase before \<noteq> Joining \<and> st_phase after = Joining, batch_of before after) of
       (True, Some b) \<Rightarrow> [event_of uuid CohortJoinStarted (Some (co_id b)) None None None ''join'' occurred_at]
     | _ \<Rightarrow> [])"

definition publication_ci_terminal :: "processor_command \<Rightarrow> bool" where
  "publication_ci_terminal command =
    (case command of
       ArchiveCiReconfirmed _ _ \<Rightarrow> False
     | CiVerified (RequiredUnconfirmed _) \<Rightarrow> False
     | _ \<Rightarrow> True)"

definition published_events ::
    "(string \<Rightarrow> string) \<Rightarrow> processor_state \<Rightarrow> processor_state \<Rightarrow> processor_command \<Rightarrow> string \<Rightarrow> event list" where
  "published_events uuid before after command occurred_at =
    (let g = st_integration after in
     if \<not> (publication_ci_terminal command \<and> ig_ci_disposition (st_integration before) \<noteq> ig_ci_disposition g)
     then []
     else (case (ig_ci_disposition g, batch_of before after, ig_published_head g, ig_publication_pushed g) of
             (Some ci, Some b, Some head, Some pushed) \<Rightarrow>
               (let payload = bt_insert ''main_sha'' (JStr head) [];
                    payload = bt_insert ''pushed'' (JBool pushed) payload;
                    payload = bt_insert ''tasks'' (JArr (map JStr (ig_merged_tasks g))) payload;
                    payload = bt_insert ''ci'' (JStr (case ci of
                        ci_disposition.Confirmed \<Rightarrow> ''confirmed''
                      | ci_disposition.Disabled \<Rightarrow> ''disabled''
                      | UnconfirmedDegraded \<Rightarrow> ''unconfirmed-degraded'')) payload
                in [event_with_payload uuid CohortPublished (Some (co_id b)) None payload head occurred_at])
           | _ \<Rightarrow> []))"

definition round_closed_events ::
    "(string \<Rightarrow> string) \<Rightarrow> processor_state \<Rightarrow> processor_state \<Rightarrow> processor_command \<Rightarrow> string \<Rightarrow> event list" where
  "round_closed_events uuid before after command occurred_at =
    (case (command, batch_of before after) of
       (Advance _, Some b) \<Rightarrow>
         [cohort_round_event uuid CohortRoundClosed (co_id b) (max (co_wave b - 1) 1)
            (co_admission_closed b \<noteq> None) occurred_at]
     | _ \<Rightarrow> [])"

definition task_events ::
    "(string \<Rightarrow> string) \<Rightarrow> processor_state \<Rightarrow> processor_state \<Rightarrow> processor_command \<Rightarrow> string
     \<Rightarrow> string \<times> task_runtime \<Rightarrow> event list" where
  "task_events uuid before after command occurred_at = (\<lambda>(i, current).
    (case map_of (st_tasks before) i of
       None \<Rightarrow> []
     | Some previous \<Rightarrow>
         (case batch_of before after of
            Some b \<Rightarrow>
              (if tr_phase previous = Capturing \<and> tr_phase current = Implementing
               then [event_of uuid TaskCaptured (Some (co_id b)) (Some i) None None ''capture'' occurred_at]
               else [])
          | None \<Rightarrow> [])
         @ project_task_status uuid previous current command occurred_at))"

definition closed_events :: "(string \<Rightarrow> string) \<Rightarrow> processor_state \<Rightarrow> processor_state \<Rightarrow> string \<Rightarrow> event list" where
  "closed_events uuid before after occurred_at =
    (case (st_batch before, st_batch after) of
       (Some b, None) \<Rightarrow>
         (if st_phase after = Idle
          then [event_with_payload uuid CohortClosed (Some (co_id b)) None (cohort_close_payload after)
                  ''close'' occurred_at]
          else [])
     | _ \<Rightarrow> [])"

definition project_processor_transition ::
    "(string \<Rightarrow> string) \<Rightarrow> processor_state \<Rightarrow> processor_state \<Rightarrow> processor_command \<Rightarrow> string \<Rightarrow> event list" where
  "project_processor_transition uuid before after command occurred_at =
    opened_events uuid before after occurred_at
    @ round_started_events uuid before command occurred_at
    @ admission_closed_events uuid before after occurred_at
    @ join_events uuid before after occurred_at
    @ published_events uuid before after command occurred_at
    @ round_closed_events uuid before after command occurred_at
    @ concat (map (task_events uuid before after command occurred_at) (st_tasks after))
    @ closed_events uuid before after occurred_at"

section \<open>Events the reader accepts\<close>

definition batch_named :: "cohort_runtime option \<Rightarrow> bool" where
  "batch_named b = (case b of None \<Rightarrow> True | Some b \<Rightarrow> strip_prefix ''B-'' (co_id b) \<noteq> None)"

definition names_ok :: "processor_state \<Rightarrow> bool" where
  "names_ok s \<longleftrightarrow> batch_named (st_batch s) \<and> list_all (\<lambda>(k, t). is_task_id k \<and> tr_id t = k) (st_tasks s)"

text \<open>What the identifiers and the clock have to grant.\<close>

definition uuid_ok :: "(string \<Rightarrow> string) \<Rightarrow> bool" where
  "uuid_ok uuid \<longleftrightarrow> (\<forall>s. uuid s \<noteq> [] \<and> \<not> contains_ws (uuid s))"

lemma event_with_payload_valid:
  assumes "uuid_ok uuid" "is_iso_utc at"
    and "case b of None \<Rightarrow> True | Some b \<Rightarrow> strip_prefix ''B-'' b \<noteq> None"
    and "case i of None \<Rightarrow> True | Some i \<Rightarrow> is_task_id i"
  shows "valid_event (event_with_payload uuid t b i payload c at)"
  using assms
  by (auto simp: event_with_payload_def Let_def valid_event_def uuid_ok_def is_task_coordinate_def
      split: option.splits event_type.splits)

lemma event_of_valid:
  assumes "uuid_ok uuid" "is_iso_utc at"
    and "case b of None \<Rightarrow> True | Some b \<Rightarrow> strip_prefix ''B-'' b \<noteq> None"
    and "case i of None \<Rightarrow> True | Some i \<Rightarrow> is_task_id i"
  shows "valid_event (event_of uuid t b i f to c at)"
  unfolding event_of_def Let_def by (rule event_with_payload_valid[OF assms])

lemma batch_of_named:
  "batch_named (st_batch before) \<Longrightarrow> batch_named (st_batch after) \<Longrightarrow> batch_of before after = Some b
    \<Longrightarrow> strip_prefix ''B-'' (co_id b) \<noteq> None"
  by (auto simp: batch_of_def batch_named_def split: option.splits)

lemma projected_valid:
  assumes "uuid_ok uuid" "is_iso_utc at" "names_ok before" "names_ok after"
    and "e \<in> set (project_processor_transition uuid before after command at)"
  shows "valid_event e"
proof -
  note batch = batch_of_named[of before after]
  have named: "batch_named (st_batch before)" "batch_named (st_batch after)"
    using assms(3,4) by (simp_all add: names_ok_def)
  note ev = event_of_valid[OF assms(1,2)] event_with_payload_valid[OF assms(1,2)]
  have tasks: "is_task_id i \<and> tr_id t = i" if "(i, t) \<in> set (st_tasks after)" for i t
    using assms(4) that by (auto simp: names_ok_def list_all_iff)
  consider "e \<in> set (opened_events uuid before after at)"
    | "e \<in> set (round_started_events uuid before command at)"
    | "e \<in> set (admission_closed_events uuid before after at)"
    | "e \<in> set (join_events uuid before after at)"
    | "e \<in> set (published_events uuid before after command at)"
    | "e \<in> set (round_closed_events uuid before after command at)"
    | i t where "(i, t) \<in> set (st_tasks after)" "e \<in> set (task_events uuid before after command at (i, t))"
    | "e \<in> set (closed_events uuid before after at)"
    using assms(5) by (fastforce simp: project_processor_transition_def)
  then show ?thesis
  proof cases
    case 1
    then show ?thesis using named by (auto simp: opened_events_def batch_named_def intro!: ev split: option.splits)
  next
    case 2
    then show ?thesis
      using named
      by (auto simp: round_started_events_def batch_named_def cohort_round_event_def Let_def intro!: ev
          split: option.splits processor_command.splits if_splits)
  next
    case 3
    then show ?thesis using named batch
      by (auto simp: admission_closed_events_def Let_def intro!: ev split: option.splits bool.splits)
  next
    case 4
    then show ?thesis using named batch
      by (auto simp: join_events_def intro!: ev split: option.splits bool.splits)
  next
    case 5
    then show ?thesis using named batch
      by (auto simp: published_events_def Let_def intro!: ev split: option.splits if_splits)
  next
    case 6
    then show ?thesis using named batch
      by (auto simp: round_closed_events_def cohort_round_event_def Let_def intro!: ev
          split: option.splits processor_command.splits)
  next
    case (7 i t)
    then show ?thesis using named batch tasks[OF 7(1)]
      by (auto simp: task_events_def project_task_status_def Let_def intro!: ev split: option.splits if_splits)
  next
    case 8
    then show ?thesis using named
      by (auto simp: closed_events_def batch_named_def intro!: ev split: option.splits if_splits)
  qed
qed

end
