(* ===== verification/Operations.thy ===== *)
theory Operations
  imports Telemetry Projector
begin

text \<open>
  The operations a completed effect reports, \<open>project_completed_operations\<close> and its helpers in
  \<open>src/engine/src/runtime.rs\<close>: one \<open>operation.completed\<close> event per task that shares the operation.
\<close>

record operation_timing =
  ot_started_at :: string
  ot_ended_at :: string
  ot_duration_ms :: nat

record operation_spec =
  os_operation :: string
  os_role :: string
  os_mode :: string
  os_attempt :: nat
  os_scope :: operation_scope
  os_executor_kind :: operation_executor_kind
  os_outcome :: operation_outcome

section \<open>Outcomes and attempts\<close>

definition classified_model_failure :: "string \<Rightarrow> operation_outcome" where
  "classified_model_failure reason =
    (if reason = ''supervisor timeout'' then Timeout
     else if reason = ''supervisor cancelled'' then Cancelled
     else operation_outcome.Failed)"

definition leaf_operation_outcome :: "leaf_outcome \<Rightarrow> operation_outcome" where
  "leaf_operation_outcome r =
    (case r of
       leaf_outcome.Completed _ \<Rightarrow> Success
     | leaf_outcome.RiskElevated _ _ _ \<Rightarrow> Success
     | leaf_outcome.CompletedWithWontFix _ _ \<Rightarrow> Success
     | RetryableFailure reason \<Rightarrow> classified_model_failure reason
     | leaf_outcome.Escalated reason \<Rightarrow> classified_model_failure reason)"

definition review_operation_outcome :: "review_outcome \<Rightarrow> operation_outcome" where
  "review_operation_outcome r =
    (case r of
       Clean _ \<Rightarrow> Success | CleanRiskElevated _ _ \<Rightarrow> Success | Findings _ _ _ \<Rightarrow> Success
     | FindingsRiskElevated _ _ _ _ \<Rightarrow> Success
     | Incomplete \<Rightarrow> operation_outcome.Failed
     | review_outcome.Escalated reason \<Rightarrow> classified_model_failure reason)"

definition verification_operation_outcome :: "verification_outcome \<Rightarrow> operation_outcome" where
  "verification_operation_outcome r =
    (case r of
       verification_outcome.Passed \<Rightarrow> Success
     | Exempt _ \<Rightarrow> operation_outcome.Skipped
     | verification_outcome.Failed _ _ \<Rightarrow> operation_outcome.Failed
     | verification_outcome.Blocked _ \<Rightarrow> operation_outcome.Failed)"

definition ci_operation_outcome :: "ci_outcome \<Rightarrow> operation_outcome" where
  "ci_operation_outcome r =
    (case r of
       ci_outcome.Passed \<Rightarrow> Success
     | LocalOnly \<Rightarrow> operation_outcome.Skipped
     | ci_outcome.Disabled \<Rightarrow> operation_outcome.Skipped
     | BestEffortDegraded _ \<Rightarrow> Timeout
     | RequiredUnconfirmed _ \<Rightarrow> Timeout
     | ci_outcome.Failed _ _ \<Rightarrow> operation_outcome.Failed)"

definition integration_attempt :: "processor_state \<Rightarrow> leaf_kind \<Rightarrow> nat" where
  "integration_attempt s k =
    max (case map_of (ig_leaf_attempts (st_integration s)) (leaf_kind_as_str k) of Some n \<Rightarrow> n | None \<Rightarrow> 1) 1"

section \<open>Events\<close>

definition operation_completed_of :: "operation_spec \<Rightarrow> operation_timing \<Rightarrow> nat \<Rightarrow> operation_completed" where
  "operation_completed_of spec timing shared =
    \<lparr>oc_operation = os_operation spec, oc_role = os_role spec, oc_mode = os_mode spec,
     oc_attempt_number = max (os_attempt spec) 1, oc_scope = os_scope spec,
     oc_executor_kind = os_executor_kind spec, oc_started_at = ot_started_at timing,
     oc_ended_at = ot_ended_at timing, oc_duration_ms = ot_duration_ms timing, oc_outcome = os_outcome spec,
     oc_shared_task_count = (if os_scope spec = Task then 1 else shared)\<rparr>"

definition materialize_operation ::
    "(string \<Rightarrow> string) \<Rightarrow> string \<Rightarrow> string list \<Rightarrow> operation_spec \<Rightarrow> operation_timing \<Rightarrow> event list" where
  "materialize_operation uuid bid ids spec timing =
    List.map_filter (\<lambda>i.
      case operation_to_event uuid (operation_completed_of spec timing (length ids)) bid i (ot_ended_at timing) of
        Inr e \<Rightarrow> Some e
      | Inl _ \<Rightarrow> None) ids"

definition materialize_shared_operation ::
    "(string \<Rightarrow> string) \<Rightarrow> processor_state \<Rightarrow> processor_state \<Rightarrow> string \<Rightarrow> operation_spec \<Rightarrow> operation_timing
     \<Rightarrow> event list" where
  "materialize_shared_operation uuid before after bid spec timing =
    (let ids = (if ig_merged_tasks (st_integration after) = [] then ig_merged_tasks (st_integration before)
                else ig_merged_tasks (st_integration after))
     in materialize_operation uuid bid ids spec timing)"

definition merge_events ::
    "(string \<Rightarrow> string) \<Rightarrow> processor_state \<Rightarrow> string \<Rightarrow> string \<Rightarrow> merge_outcome \<Rightarrow> operation_timing \<Rightarrow> event list" where
  "merge_events uuid before bid i r timing =
    (let merged = (case r of merge_outcome.Merged _ \<Rightarrow> True | _ \<Rightarrow> False);
         attempt = sat_add64 (ig_publication_reanchor_cycles (st_integration before)) 1;
         events = materialize_operation uuid bid [i]
           \<lparr>os_operation = ''vcs_merge'', os_role = ''vcs'', os_mode = ''full'', os_attempt = attempt,
            os_scope = Task, os_executor_kind = operation_executor_kind.Tool,
            os_outcome = (if merged then Success else operation_outcome.Failed)\<rparr> timing
     in if merged
        then events @ materialize_operation uuid bid [i]
               \<lparr>os_operation = ''merge'', os_role = ''merger'', os_mode = ''full'', os_attempt = attempt,
                os_scope = Task, os_executor_kind = operation_executor_kind.Model,
                os_outcome = operation_outcome.Skipped\<rparr>
               \<lparr>ot_started_at = ot_ended_at timing, ot_ended_at = ot_ended_at timing, ot_duration_ms = 0\<rparr>
        else events)"

text \<open>The operations all merged tasks of the cohort share: those of models, and those of tools and services.\<close>

abbreviation operation_spec_of ::
    "string \<Rightarrow> string \<Rightarrow> string \<Rightarrow> nat \<Rightarrow> operation_executor_kind \<Rightarrow> operation_outcome \<Rightarrow> operation_spec" where
  "operation_spec_of operation role mode attempt kind r \<equiv>
    \<lparr>os_operation = operation, os_role = role, os_mode = mode, os_attempt = attempt, os_scope = Integration,
     os_executor_kind = kind, os_outcome = r\<rparr>"

definition shared_model_operation :: "processor_state \<Rightarrow> effect \<Rightarrow> processor_command \<Rightarrow> operation_spec option" where
  "shared_model_operation before e c =
    (case (e, c) of
       (DispatchIntegration IntegrationReview, IntegrationReviewed r) \<Rightarrow>
         Some (operation_spec_of ''integration_review'' ''full_reviewer'' ''full''
           (integration_attempt before IntegrationReview) operation_executor_kind.Model
           (review_operation_outcome r))
     | (DispatchIntegration IntegrationFix, IntegrationFixed r) \<Rightarrow>
         Some (operation_spec_of ''integration_fix'' ''merger'' ''fix''
           (integration_attempt before IntegrationFix) operation_executor_kind.Model (leaf_operation_outcome r))
     | (DispatchIntegration CiFix, CiFixed r) \<Rightarrow>
         Some (operation_spec_of ''ci_fix'' ''coder'' ''fix'' (integration_attempt before CiFix)
           operation_executor_kind.Model
           (if ig_ci_fix_provider_fallback (st_integration before)
               \<and> (case r of leaf_outcome.Completed _ \<Rightarrow> True | leaf_outcome.RiskElevated _ _ _ \<Rightarrow> True
                  | _ \<Rightarrow> False)
            then operation_outcome.Fallback else leaf_operation_outcome r))
     | (PrepareCiFix, CiFixPrepared ci_fix_preparation_outcome.Completed) \<Rightarrow>
         Some (operation_spec_of ''ci_fix'' ''coder'' ''fix'' (max (ig_ci_cycles (st_integration before)) 1)
           operation_executor_kind.Model Success)
     | (DispatchIntegration KnowledgeCurator, KnowledgeCurated r) \<Rightarrow>
         Some (operation_spec_of ''knowledge_curate'' ''knowledge_curator'' ''full''
           (integration_attempt before KnowledgeCurator) operation_executor_kind.Model (leaf_operation_outcome r))
     | _ \<Rightarrow> None)"

definition shared_tool_operation :: "processor_state \<Rightarrow> effect \<Rightarrow> processor_command \<Rightarrow> operation_spec option" where
  "shared_tool_operation after e c =
    (let ig = st_integration after in
     case (e, c) of
       (VerifyIntegration _, IntegrationVerified _ r) \<Rightarrow>
         Some (operation_spec_of ''verification'' ''verification'' ''full'' (max (ig_verification_attempts ig) 1)
           operation_executor_kind.Tool (verification_operation_outcome r))
     | (Publish _, processor_command.Published _ _) \<Rightarrow>
         Some (operation_spec_of ''publish'' ''publisher'' ''full'' (max (ig_publish_attempts ig) 1)
           External Success)
     | (Publish _, PublicationReanchorRequired _ _) \<Rightarrow>
         Some (operation_spec_of ''publish'' ''publisher'' ''full'' (max (ig_publish_attempts ig) 1)
           External operation_outcome.Failed)
     | (VerifyCi _, CiVerified r) \<Rightarrow>
         Some (operation_spec_of ''ci_wait'' ''ci'' ''full'' (max (ig_ci_wait_attempts ig) 1) External
           (ci_operation_outcome r))
     | (ReconfirmCiBeforeArchive _ _, ArchiveCiReconfirmed _ r) \<Rightarrow>
         Some (operation_spec_of ''ci_wait'' ''ci'' ''archive'' (max (ig_archive_ci_wait_attempts ig) 1)
           External (ci_operation_outcome r))
     | _ \<Rightarrow> None)"

definition shared_operations ::
    "(string \<Rightarrow> string) \<Rightarrow> processor_state \<Rightarrow> processor_state \<Rightarrow> string \<Rightarrow> effect \<Rightarrow> processor_command
     \<Rightarrow> operation_timing \<Rightarrow> event list" where
  "shared_operations uuid before after bid e c timing =
    (case (shared_model_operation before e c, shared_tool_operation after e c) of
       (Some spec, _) \<Rightarrow> materialize_shared_operation uuid before after bid spec timing
     | (None, Some spec) \<Rightarrow> materialize_shared_operation uuid before after bid spec timing
     | (None, None) \<Rightarrow> [])"

definition project_completed_operations ::
    "(string \<Rightarrow> string) \<Rightarrow> processor_state \<Rightarrow> processor_state \<Rightarrow> effect \<Rightarrow> processor_command
     \<Rightarrow> operation_timing \<Rightarrow> event list" where
  "project_completed_operations uuid before after e c timing =
    (case batch_of before after of
       None \<Rightarrow> []
     | Some batch \<Rightarrow>
         (if \<not> co_events_outbox_enabled batch then []
          else
            (case (e, c) of
               (PlanNextWave _, Admit _ _) \<Rightarrow>
                 materialize_operation uuid (co_id batch)
                   (filter (\<lambda>i. map_of (st_tasks before) i = None) (bt_keys (st_tasks after)))
                   \<lparr>os_operation = ''planning'', os_role = ''planner'', os_mode = ''full'',
                    os_attempt = (case st_batch before of Some b \<Rightarrow> max (co_wave b) 1 | None \<Rightarrow> 1),
                    os_scope = Cohort, os_executor_kind = operation_executor_kind.Model, os_outcome = Success\<rparr>
                   timing
             | (MergeTask i, TaskMerged j r) \<Rightarrow>
                 (if i = j then merge_events uuid before (co_id batch) i r timing else [])
             | (DispatchIntegration Merger, MergeResolution i r) \<Rightarrow>
                 materialize_operation uuid (co_id batch) [i]
                   (operation_spec_of ''merge'' ''merger'' ''full'' (integration_attempt before Merger)
                     operation_executor_kind.Model (leaf_operation_outcome r)) timing
             | _ \<Rightarrow> shared_operations uuid before after (co_id batch) e c timing)))"

section \<open>Events the reader accepts\<close>

lemma materialized_event:
  assumes "e \<in> set (materialize_operation uuid bid ids spec timing)"
  obtains i where "i \<in> set ids"
    "operation_to_event uuid (operation_completed_of spec timing (length ids)) bid i (ot_ended_at timing) = Inr e"
  using assms by (auto simp: materialize_operation_def map_filter_def split: sum.splits)

definition operation_event :: "(string \<Rightarrow> string) \<Rightarrow> event \<Rightarrow> bool" where
  "operation_event uuid e \<longleftrightarrow>
    (\<exists>bid i c. operation_to_event uuid c bid i (oc_ended_at c) = Inr e)"

lemma materialized_operation: "list_all (operation_event uuid) (materialize_operation uuid bid ids spec timing)"
  unfolding list_all_iff operation_event_def
  by (metis materialized_event operation_completed_of_def operation_completed.select_convs(8))

lemma merge_operations: "list_all (operation_event uuid) (merge_events uuid before bid i r timing)"
  by (simp add: merge_events_def Let_def materialized_operation)

lemmas operation_events = materialized_operation merge_operations materialize_shared_operation_def

lemma projected_operations:
  "list_all (operation_event uuid) (project_completed_operations uuid before after e c timing)"
proof (cases "batch_of before after")
  case (Some b)
  have shared: "list_all (operation_event uuid) (shared_operations uuid before after bid e c timing)" for bid e c
    by (simp add: shared_operations_def operation_events Let_def split: option.split)
  show ?thesis
  proof (cases "co_events_outbox_enabled b")
    case True
    then show ?thesis
      unfolding project_completed_operations_def Some option.case
      by (cases e; simp only: effect.case prod.case shared simp_thms if_False;
          cases c; simp add: materialized_operation merge_operations shared split: leaf_kind.split)
  qed (simp add: project_completed_operations_def Some)
qed (simp add: project_completed_operations_def)

lemma operation_event_is_valid: "operation_event uuid e \<Longrightarrow> uuid_ok uuid \<Longrightarrow> valid_event e"
  by (auto simp: operation_event_def uuid_ok_def intro: operation_event_valid)

end
