(* ===== verification/Outbox.thy ===== *)
theory Outbox
  imports Events
begin

text \<open>
  The append-only event file of \<open>src/engine/src/events/outbox.rs\<close> with its cached index, under the
  default policy that never rotates the file (no archive, no rotation index). The file is the list
  of its bytes; a crash may leave an unterminated last line. The JSON library and SHA-256 are
  parameters. The operating system's own errors end an append before it changes the file.
\<close>

section \<open>The environment and the index\<close>

record 'd outbox_env =
  oe_from_str :: "string \<Rightarrow> string + json"
  oe_to_text :: "json \<Rightarrow> string"
  oe_digest :: "string \<Rightarrow> 'd"

record 'd cached_index =
  ci_committed_len :: nat
  ci_committed_lines :: nat
  ci_semantic_by_id :: "(string \<times> 'd) list"

definition empty_index :: "'d cached_index" where
  "empty_index = \<lparr>ci_committed_len = 0, ci_committed_lines = 0, ci_semantic_by_id = []\<rparr>"

datatype outbox_error = OutboxIo string | InvalidExisting nat parse_error | EventIdCollision string

datatype append_outcome = Appended | AlreadyPresent

definition max_event_line_bytes :: nat where "max_event_line_bytes = 1024 * 1024"

abbreviation nl :: char where "nl \<equiv> CHR 0x0A"

definition semantic_fingerprint :: "'d outbox_env \<Rightarrow> event \<Rightarrow> 'd" where
  "semantic_fingerprint env e = oe_digest env (to_json_line (oe_to_text env) (e\<lparr>ev_occurred_at := []\<rparr>))"

section \<open>Reading the committed history\<close>

text \<open>\<open>str::from_utf8\<close> succeeds: the byte sequences of the Unicode standard.\<close>

definition byte_in :: "nat \<Rightarrow> nat \<Rightarrow> char \<Rightarrow> bool" where
  "byte_in a b c \<longleftrightarrow> a \<le> (of_char c :: nat) \<and> (of_char c :: nat) \<le> b"

fun utf8_ok :: "string \<Rightarrow> bool" where
  "utf8_ok [] = True"
| "utf8_ok (a # s) =
    (if byte_in 0 127 a then utf8_ok s
     else (case s of
       [] \<Rightarrow> False
     | b # s2 \<Rightarrow>
         (if byte_in 194 223 a then byte_in 128 191 b \<and> utf8_ok s2
          else (case s2 of
            [] \<Rightarrow> False
          | c # s3 \<Rightarrow>
              (if byte_in 224 239 a then
                 byte_in (if byte_in 224 224 a then 160 else 128) (if byte_in 237 237 a then 159 else 191) b
                 \<and> byte_in 128 191 c \<and> utf8_ok s3
               else (case s3 of
                 [] \<Rightarrow> False
               | d # s4 \<Rightarrow>
                   byte_in 240 244 a
                   \<and> byte_in (if byte_in 240 240 a then 144 else 128) (if byte_in 244 244 a then 143 else 191) b
                   \<and> byte_in 128 191 c \<and> byte_in 128 191 d \<and> utf8_ok s4))))))"

text \<open>The bytes up to the last newline; an overlong unterminated tail is refused.\<close>

definition committed_prefix_len :: "string \<Rightarrow> outbox_error + nat" where
  "committed_prefix_len bytes =
    (if bytes = [] then Inr 0
     else if last bytes = nl then Inr (length bytes)
     else
       (let inspected = min (length bytes) (max_event_line_bytes + 1);
            upto = dropWhile (\<lambda>c. c \<noteq> nl) (rev (drop (length bytes - inspected) bytes))
        in if upto \<noteq> [] then Inr (length bytes - inspected + length upto)
           else if length bytes \<le> max_event_line_bytes then Inr 0
           else Inl (OutboxIo ''unterminated events.jsonl tail exceeds 1048576 byte limit'')))"

text \<open>One committed line, without its newline.\<close>

definition scan_line :: "'d outbox_env \<Rightarrow> string \<Rightarrow> 'd cached_index \<Rightarrow> outbox_error + 'd cached_index" where
  "scan_line env line index =
    (let index = index\<lparr>ci_committed_lines := sat_add64 (ci_committed_lines index) 1\<rparr> in
     if \<not> utf8_ok line then Inl (OutboxIo ''outbox contains non-UTF-8 committed line'')
     else if trim line = [] then Inr index
     else (case parse_line (oe_from_str env) line of
             Inl e \<Rightarrow> Inl (InvalidExisting (ci_committed_lines index) e)
           | Inr existing \<Rightarrow>
               (let fingerprint = semantic_fingerprint env existing in
                case map_of (ci_semantic_by_id index) (ev_id existing) of
                  Some previous \<Rightarrow>
                    (if previous \<noteq> fingerprint then Inl (EventIdCollision (ev_id existing))
                     else Inr (index\<lparr>ci_semantic_by_id := (ev_id existing, fingerprint) # ci_semantic_by_id index\<rparr>))
                | None \<Rightarrow>
                    Inr (index\<lparr>ci_semantic_by_id := (ev_id existing, fingerprint) # ci_semantic_by_id index\<rparr>))))"

function scan_committed_range :: "'d outbox_env \<Rightarrow> string \<Rightarrow> 'd cached_index \<Rightarrow> outbox_error + 'd cached_index" where
  "scan_committed_range env bytes index =
    (if bytes = [] then Inr index
     else
       (let read_limit = min (length bytes) (max_event_line_bytes + 2);
            line = takeWhile (\<lambda>c. c \<noteq> nl) (take read_limit bytes)
        in if length line = read_limit \<or> max_event_line_bytes < length line
           then Inl (OutboxIo ''events.jsonl record exceeds 1048576 byte limit'')
           else (case scan_line env line index of
                   Inl e \<Rightarrow> Inl e
                 | Inr index \<Rightarrow> scan_committed_range env (drop (length line + 1) bytes) index)))"
  by pat_completeness auto
termination by (relation "measure (\<lambda>(env, bytes, index). length bytes)") auto

declare scan_committed_range.simps [simp del]

definition scan_committed_history ::
    "'d outbox_env \<Rightarrow> string \<Rightarrow> nat \<Rightarrow> 'd cached_index \<Rightarrow> outbox_error + 'd cached_index" where
  "scan_committed_history env bytes committed_len index =
    (if ci_committed_len index = committed_len then Inr index
     else
       (let start = ci_committed_len index in
        bind_res (scan_committed_range env (take (committed_len - start) (drop start bytes)) index)
          (\<lambda>index. Inr (index\<lparr>ci_committed_len := committed_len\<rparr>))))"

section \<open>Appending\<close>

text \<open>The result, the index that stays cached and the bytes of the file.\<close>

definition append_idempotent ::
    "'d outbox_env \<Rightarrow> 'd cached_index \<Rightarrow> string \<Rightarrow> event
     \<Rightarrow> (outbox_error + append_outcome) \<times> 'd cached_index \<times> string" where
  "append_idempotent env index bytes e =
    (let desired = to_json_line (oe_to_text env) e in
     case committed_prefix_len bytes of
       Inl err \<Rightarrow> (Inl err, index, bytes)
     | Inr committed_len \<Rightarrow>
         (let index = (if committed_len < ci_committed_len index then empty_index else index) in
          case scan_committed_history env bytes committed_len index of
            Inl err \<Rightarrow> (Inl err, empty_index, bytes)
          | Inr index \<Rightarrow>
              (case map_of (ci_semantic_by_id index) (ev_id e) of
                 Some existing \<Rightarrow>
                   (if existing = semantic_fingerprint env e
                    then (Inr AlreadyPresent, index, take committed_len bytes)
                    else (Inl (EventIdCollision (ev_id e)), index, bytes))
               | None \<Rightarrow>
                   (let line = desired @ [nl]; bytes = take committed_len bytes @ line;
                        len = ci_committed_len index + length line
                    in if u64_max < len then (Inl (OutboxIo ''outbox length overflowed''), index, bytes)
                       else (Inr Appended,
                             index\<lparr>ci_committed_len := len,
                                   ci_committed_lines := sat_add64 (ci_committed_lines index) 1,
                                   ci_semantic_by_id := (ev_id e, semantic_fingerprint env e)
                                     # ci_semantic_by_id index\<rparr>,
                             bytes)))))"

section \<open>Reading line by line\<close>

lemma scan_line_step:
  assumes "nl \<notin> set line"
  shows "scan_committed_range env (line @ nl # rest) index =
    (if max_event_line_bytes < length line
     then Inl (OutboxIo ''events.jsonl record exceeds 1048576 byte limit'')
     else bind_res (scan_line env line index) (scan_committed_range env rest))"
proof -
  have none: "\<forall>x \<in> set line. x \<noteq> nl" using assms by blast
  let ?k = "min (length (line @ nl # rest)) (max_event_line_bytes + 2)"
  have tw: "takeWhile (\<lambda>c. c \<noteq> nl) (take ?k (line @ nl # rest)) = take ?k line"
  proof (cases "?k \<le> length line")
    case True
    then show ?thesis using assms by (auto simp: takeWhile_eq_all_conv dest: in_set_takeD)
  next
    case False
    then obtain j where "?k - length line = Suc j" by (cases "?k - length line") auto
    then have "take ?k (line @ nl # rest) = line @ nl # take j rest" "take ?k line = line" using False by simp_all
    moreover have "takeWhile (\<lambda>c. c \<noteq> nl) (line @ nl # take j rest) = line"
      using none by (subst takeWhile_append2) auto
    ultimately show ?thesis by (simp only:)
  qed
  show ?thesis
    unfolding scan_committed_range.simps[of env "line @ nl # rest"] Let_def tw
    by (auto simp: bind_res_def split: sum.splits)
qed

lemma scan_nil [simp]: "scan_committed_range env [] index = Inr index"
  by (simp add: scan_committed_range.simps)

text \<open>Bytes that end with a newline are a sequence of lines.\<close>

definition terminated :: "string \<Rightarrow> bool" where
  "terminated bytes \<longleftrightarrow> bytes = [] \<or> last bytes = nl"

lemma terminated_cases:
  assumes "terminated bytes" "bytes \<noteq> []"
  obtains line rest where "bytes = line @ nl # rest" "nl \<notin> set line" "terminated rest"
proof -
  have "nl \<in> set bytes" using assms last_in_set by (fastforce simp: terminated_def)
  then obtain line rest where s: "bytes = line @ nl # rest" "nl \<notin> set line" by (metis split_list_first)
  then have "terminated rest" using assms by (cases rest) (auto simp: terminated_def)
  with s that show thesis by blast
qed

lemma terminated_append [simp]: "terminated (xs @ line @ [nl])"
  by (simp add: terminated_def)

lemma bind_res_assoc: "bind_res (bind_res r f) g = bind_res r (\<lambda>a. bind_res (f a) g)"
  by (cases r) (simp_all add: bind_res_def)

lemma scan_append:
  assumes "terminated xs"
  shows "scan_committed_range env (xs @ ys) index =
    bind_res (scan_committed_range env xs index) (scan_committed_range env ys)"
  using assms
proof (induction xs arbitrary: index rule: length_induct)
  case (1 xs)
  show ?case
  proof (cases "xs = []")
    case False
    then obtain line rest where x: "xs = line @ nl # rest" "nl \<notin> set line" "terminated rest"
      using terminated_cases 1(2) by blast
    then have "length rest < length xs" by simp
    then have "scan_committed_range env (rest @ ys) = (\<lambda>i. bind_res (scan_committed_range env rest i) (scan_committed_range env ys))"
      using 1(1) x(3) by blast
    then show ?thesis
      unfolding x(1) append_assoc append_Cons scan_line_step[OF x(2)]
      by (auto simp: bind_res_assoc) (simp add: bind_res_def)
  qed (simp add: bind_res_def)
qed

text \<open>The cached length is not read while scanning.\<close>

abbreviation at_len :: "nat \<Rightarrow> 'd cached_index \<Rightarrow> 'd cached_index" where
  "at_len n i \<equiv> i\<lparr>ci_committed_len := n\<rparr>"

lemma scan_line_len:
  "scan_line env line (at_len n i) = map_sum id (at_len n) (scan_line env line i)"
  by (auto simp: scan_line_def Let_def split: sum.splits option.splits)

lemma scan_len:
  "scan_committed_range env bytes (at_len n i) = map_sum id (at_len n) (scan_committed_range env bytes i)"
proof (induction env bytes i rule: scan_committed_range.induct)
  case (1 env bytes i)
  show ?case
    unfolding scan_committed_range.simps[of env bytes] Let_def
    using 1 by (simp add: scan_line_len Let_def split: sum.splits)
qed

section \<open>The committed prefix\<close>

lemma committed_prefix:
  assumes "committed_prefix_len bytes = Inr n"
  shows "n \<le> length bytes" "terminated (take n bytes)" "nl \<notin> set (drop n bytes)"
proof -
  have "n \<le> length bytes \<and> terminated (take n bytes) \<and> nl \<notin> set (drop n bytes)"
  proof (cases "bytes = [] \<or> last bytes = nl")
    case True
    then show ?thesis using assms by (auto simp: committed_prefix_len_def terminated_def split: if_splits)
  next
    case False
    define k where "k = length bytes - min (length bytes) (max_event_line_bytes + 1)"
    define up where "up = dropWhile (\<lambda>c. c \<noteq> nl) (rev (drop k bytes))"
    have n: "n = (if up \<noteq> [] then k + length up else 0)" "up \<noteq> [] \<or> k = 0"
      using assms False
      by (auto simp: committed_prefix_len_def Let_def up_def k_def split: if_splits)
    define pre where "pre = takeWhile (\<lambda>c. c \<noteq> nl) (rev (drop k bytes))"
    have pre: "pre @ up = rev (drop k bytes)" "\<forall>c \<in> set pre. c \<noteq> nl"
      by (simp_all only: pre_def up_def takeWhile_dropWhile_id) (auto dest: set_takeWhileD)
    have d: "drop k bytes = rev up @ rev pre"
      using arg_cong[OF pre(1), of rev] by (simp only: rev_append rev_rev_ident)
    have b: "bytes = (take k bytes @ rev up) @ rev pre" using append_take_drop_id[of k bytes] d by simp
    have k: "k \<le> length bytes" by (simp add: k_def)
    show ?thesis
    proof (cases up)
      case Nil
      then show ?thesis using n d pre(2) by (auto simp: terminated_def)
    next
      case (Cons c us)
      then have "c = nl" using hd_dropWhile[of "\<lambda>c. c \<noteq> nl" "rev (drop k bytes)"] up_def by simp
      then obtain vs where up: "rev up = vs @ [nl]" using Cons by simp
      have len: "n = length (take k bytes @ rev up)" using n Cons k by simp
      have tk: "take n bytes = take k bytes @ rev up" "drop n bytes = rev pre"
        using b len by (metis append_eq_conv_conj)+
      have "n \<le> length bytes" using arg_cong[OF b, of length] len by simp
      moreover have "terminated (take n bytes)" unfolding tk(1) up by (simp add: terminated_def)
      moreover have "nl \<notin> set (drop n bytes)" unfolding tk(2) using pre(2) by auto
      ultimately show ?thesis by blast
    qed
  qed
  then show "n \<le> length bytes" "terminated (take n bytes)" "nl \<notin> set (drop n bytes)" by blast+
qed

lemma committed_prefix_torn:
  assumes "terminated xs" "nl \<notin> set torn" "length torn \<le> max_event_line_bytes"
  shows "committed_prefix_len (xs @ torn) = Inr (length xs)"
proof (cases "torn = []")
  case True
  then show ?thesis using assms(1) by (auto simp: committed_prefix_len_def terminated_def)
next
  case False
  then have l: "last (xs @ torn) \<noteq> nl" "xs @ torn \<noteq> []" using False assms(2) last_in_set[OF False] by (simp_all, metis)
  define k where "k = length (xs @ torn) - min (length (xs @ torn)) (max_event_line_bytes + 1)"
  have "k \<le> length xs" using assms(3) by (simp add: k_def)
  then have d: "rev (drop k (xs @ torn)) = rev torn @ rev (drop k xs)" by simp
  have "dropWhile (\<lambda>c. c \<noteq> nl) (rev torn @ rev (drop k xs)) = dropWhile (\<lambda>c. c \<noteq> nl) (rev (drop k xs))"
    using assms(2) by (subst dropWhile_append2) auto
  also have "\<dots> = rev (drop k xs)"
  proof (cases "drop k xs = []")
    case False
    then have "last (drop k xs) = nl" using assms(1) by (auto simp: terminated_def)
    then show ?thesis using False by (cases "rev (drop k xs)") (auto simp: last_conv_nth hd_rev rev_nth dest: arg_cong[of _ _ hd])
  qed simp
  finally have up: "dropWhile (\<lambda>c. c \<noteq> nl) (rev (drop k (xs @ torn))) = rev (drop k xs)" unfolding d .
  show ?thesis
  proof (cases "drop k xs = []")
    case True
    then have "k = length xs" using \<open>k \<le> length xs\<close> by simp
    then have "xs = []"
      using assms(3) False by (cases "length xs + length torn \<le> max_event_line_bytes + 1") (simp_all add: k_def)
    then show ?thesis using l up assms(3) True by (simp add: committed_prefix_len_def Let_def k_def)
  next
    case nonempty: False
    have "k + length (drop k xs) = length xs" using \<open>k \<le> length xs\<close> by simp
    then show ?thesis
      using l up nonempty unfolding committed_prefix_len_def Let_def k_def[symmetric] by simp
  qed
qed

section \<open>The cache against a cold start\<close>

definition index_of :: "'d outbox_env \<Rightarrow> string \<Rightarrow> outbox_error + 'd cached_index" where
  "index_of env xs =
    bind_res (scan_committed_range env xs empty_index) (\<lambda>i. Inr (at_len (length xs) i))"

text \<open>A cached index describes a committed prefix of the file exactly.\<close>

definition consistent :: "'d outbox_env \<Rightarrow> 'd cached_index \<Rightarrow> string \<Rightarrow> bool" where
  "consistent env i bytes \<longleftrightarrow>
    ci_committed_len i \<le> length bytes \<and> terminated (take (ci_committed_len i) bytes)
    \<and> index_of env (take (ci_committed_len i) bytes) = Inr i"

lemma consistent_empty [simp]: "consistent env empty_index bytes"
  by (simp add: consistent_def index_of_def terminated_def empty_index_def bind_res_def)

lemma index_of_len: "index_of env xs = Inr i \<Longrightarrow> ci_committed_len i = length xs"
  by (auto simp: index_of_def)

lemma history_of_consistent:
  assumes "consistent env i bytes" "committed_prefix_len bytes = Inr n"
  shows "ci_committed_len i \<le> n" "scan_committed_history env bytes n i = index_of env (take n bytes)"
proof -
  let ?k = "ci_committed_len i" and ?xs = "take (ci_committed_len i) bytes"
  have c: "?k \<le> length bytes" "terminated ?xs" "index_of env ?xs = Inr i"
    using assms(1) by (simp_all add: consistent_def)
  note p = committed_prefix[OF assms(2)]
  show le: "?k \<le> n"
  proof (rule ccontr)
    assume "\<not> ?k \<le> n"
    then have k: "n < ?k" by simp
    then have "?xs \<noteq> []" using c(1) by auto
    then have "?xs ! (?k - 1) = nl" using c(1,2) by (simp add: terminated_def last_conv_nth min_absorb2 split: if_splits)
    then have "drop n bytes ! (?k - 1 - n) = nl" using k c(1) p(1) by simp
    moreover have "?k - 1 - n < length (drop n bytes)" using k c(1) by simp
    ultimately show False using p(3) nth_mem by metis
  qed
  show "scan_committed_history env bytes n i = index_of env (take n bytes)"
  proof (cases "?k = n")
    case True
    then show ?thesis using c(3) by (simp add: scan_committed_history_def)
  next
    case False
    let ?ys = "take (n - ?k) (drop ?k bytes)"
    have split: "take n bytes = ?xs @ ?ys" using le by (metis take_add le_add_diff_inverse)
    obtain j where j: "scan_committed_range env ?xs empty_index = Inr j" "i = at_len ?k j"
      using c(1,3) by (auto simp: index_of_def min_absorb2)
    have "scan_committed_range env ?ys i = map_sum id (at_len ?k) (scan_committed_range env ?ys j)"
      by (subst j(2)) (rule scan_len)
    then show ?thesis
      using False p(1) le c(1)
      by (cases "scan_committed_range env ?ys j")
        (simp_all add: scan_committed_history_def index_of_def split scan_append[OF c(2)] j(1) bind_res_def min_absorb2)
  qed
qed

text \<open>An append, with the index a cold start would build.\<close>

lemma append_eval:
  assumes "consistent env i bytes" "committed_prefix_len bytes = Inr n"
  shows "append_idempotent env i bytes e =
    (case index_of env (take n bytes) of
       Inl err \<Rightarrow> (Inl err, empty_index, bytes)
     | Inr i \<Rightarrow>
         (case map_of (ci_semantic_by_id i) (ev_id e) of
            Some existing \<Rightarrow>
              (if existing = semantic_fingerprint env e then (Inr AlreadyPresent, i, take n bytes)
               else (Inl (EventIdCollision (ev_id e)), i, bytes))
          | None \<Rightarrow>
              (let line = to_json_line (oe_to_text env) e @ [nl]; bytes = take n bytes @ line;
                   len = n + length line
               in if u64_max < len then (Inl (OutboxIo ''outbox length overflowed''), i, bytes)
                  else (Inr Appended,
                        i\<lparr>ci_committed_len := len,
                          ci_committed_lines := sat_add64 (ci_committed_lines i) 1,
                          ci_semantic_by_id := (ev_id e, semantic_fingerprint env e) # ci_semantic_by_id i\<rparr>,
                        bytes))))"
proof -
  note h = history_of_consistent[OF assms]
  have len: "index_of env (take n bytes) = Inr j \<Longrightarrow> ci_committed_len j = n" for j
    using index_of_len committed_prefix(1)[OF assms(2)] by fastforce
  show ?thesis
    unfolding append_idempotent_def Let_def assms(2) sum.case
    using h by (cases "index_of env (take n bytes)") (simp_all add: not_less len[simplified] Let_def len cong: option.case_cong)
qed

section \<open>The text of an event\<close>

text \<open>
  What the JSON library and the line limit have to grant for one event: its text is one non-empty
  line of valid UTF-8 within the limit, without surrounding white space, and reads back as the
  value it was printed from.
\<close>

definition codec_ok :: "'d outbox_env \<Rightarrow> event \<Rightarrow> bool" where
  "codec_ok env e \<longleftrightarrow>
    (let s = to_json_line (oe_to_text env) e in
     s \<noteq> [] \<and> nl \<notin> set s \<and> utf8_ok s \<and> trim s = s \<and> length s \<le> max_event_line_bytes
     \<and> oe_from_str env s = Inr (event_value e))"

lemma scan_line_event:
  assumes "codec_ok env e" "valid_event e" "map_of (ci_semantic_by_id i) (ev_id e) = None"
  shows "scan_line env (to_json_line (oe_to_text env) e) i =
    Inr (i\<lparr>ci_committed_lines := sat_add64 (ci_committed_lines i) 1,
           ci_semantic_by_id := (ev_id e, semantic_fingerprint env e) # ci_semantic_by_id i\<rparr>)"
  using assms by (simp add: scan_line_def codec_ok_def Let_def parse_line_def event_value_parses)

lemma index_of_appended:
  assumes "terminated xs" "index_of env xs = Inr i" "codec_ok env e" "valid_event e"
    and "map_of (ci_semantic_by_id i) (ev_id e) = None"
  defines "line \<equiv> to_json_line (oe_to_text env) e @ [nl]"
  shows "index_of env (xs @ line) =
    Inr (i\<lparr>ci_committed_len := length xs + length line,
           ci_committed_lines := sat_add64 (ci_committed_lines i) 1,
           ci_semantic_by_id := (ev_id e, semantic_fingerprint env e) # ci_semantic_by_id i\<rparr>)"
proof -
  obtain j where j: "scan_committed_range env xs empty_index = Inr j" "i = at_len (length xs) j"
    using assms(2) by (auto simp: index_of_def)
  have "nl \<notin> set (to_json_line (oe_to_text env) e)"
    "\<not> max_event_line_bytes < length (to_json_line (oe_to_text env) e)"
    using assms(3) by (simp_all add: codec_ok_def Let_def)
  note step = scan_line_step[OF this(1), where rest = "[]", unfolded if_not_P[OF this(2)]]
  have "map_of (ci_semantic_by_id j) (ev_id e) = None" using assms(5) j(2) by simp
  then show ?thesis
    using scan_line_event[OF assms(3,4)] j
    by (simp add: index_of_def scan_append[OF assms(1)] line_def step bind_res_def)
qed

lemma fingerprint_time [simp]:
  "semantic_fingerprint env (e\<lparr>ev_occurred_at := t\<rparr>) = semantic_fingerprint env e"
  by (simp add: semantic_fingerprint_def)

text \<open>The cached index stays exact.\<close>

lemma append_consistent:
  assumes "consistent env i bytes" "codec_ok env e" "valid_event e"
    and "append_idempotent env i bytes e = (r, i', bytes')"
  shows "consistent env i' bytes'"
proof (cases "committed_prefix_len bytes")
  case (Inl err)
  then show ?thesis using assms(1,4) by (simp add: append_idempotent_def)
next
  case (Inr n)
  note p = committed_prefix[OF Inr]
  show ?thesis
  proof (cases "index_of env (take n bytes)")
    case (Inl err)
    then show ?thesis using assms(4) append_eval[OF assms(1) Inr] by simp
  next
    case idx: (Inr j)
    have len: "ci_committed_len j = n" using index_of_len[OF idx] p(1) by simp
    have here: "consistent env j (take n bytes @ rest)" for rest
      using idx len p by (simp add: consistent_def)
    have cold: "consistent env j bytes" using here[of "drop n bytes"] by simp
    show ?thesis
    proof (cases "map_of (ci_semantic_by_id j) (ev_id e)")
      case (Some fp)
      then show ?thesis
        using assms(4) append_eval[OF assms(1) Inr] idx cold here[of "[]"] by (simp split: if_splits)
    next
      case None
      note new = index_of_appended[OF p(2) idx assms(2,3) None]
      let ?line = "to_json_line (oe_to_text env) e @ [nl]"
      show ?thesis
      proof (cases "u64_max < n + length ?line")
        case True
        then show ?thesis
          using assms(4) append_eval[OF assms(1) Inr] idx None here[of ?line] by (simp add: Let_def)
      next
        case False
        then have b: "bytes' = take n bytes @ ?line" "index_of env bytes' = Inr i'"
          using assms(4) append_eval[OF assms(1) Inr] idx None new p(1) by (simp_all add: Let_def min_absorb2)
        have "terminated bytes'" by (simp add: b(1))
        then show ?thesis using index_of_len[OF b(2)] b(2) by (simp add: consistent_def)
      qed
    qed
  qed
qed

end
