(* ===== verification/Runtime.thy ===== *)
theory Runtime
  imports Operations Outbox
begin

text \<open>
  The crash-safe runtime around the reducer, \<open>src/engine/src/runtime.rs\<close>: the reducer, the ledger of
  effects that were requested and not yet acknowledged, the durable checkpoint that holds both, and
  the event file. What the file system does is an argument of each operation: the number of event
  appends after which the operating system reports an error, and the fate of the checkpoint write.
  The telemetry of a completed operation is appended on a best-effort basis.
\<close>

section \<open>Keys of effects and commands\<close>

definition leaf_key :: "leaf_kind \<Rightarrow> string" where
  "leaf_key k =
    (case k of
       Implement \<Rightarrow> ''implement'' | Review \<Rightarrow> ''review'' | Fix \<Rightarrow> ''fix'' | Merger \<Rightarrow> ''merger''
     | IntegrationReview \<Rightarrow> ''integration-review'' | IntegrationFix \<Rightarrow> ''integration-fix''
     | CiFix \<Rightarrow> ''ci-fix'' | KnowledgeCurator \<Rightarrow> ''knowledge-curator'')"

definition notification_as_str :: "notification_event \<Rightarrow> string" where
  "notification_as_str e =
    (case e of NotifyTaskEscalated \<Rightarrow> ''task.escalated'' | ApprovalPending \<Rightarrow> ''approval.pending''
     | PublishCiFailed \<Rightarrow> ''publish.ci_failed'')"

text \<open>\<open>{mode:?}\<close> in lower case.\<close>

definition mode_debug_lower :: "inbox_curation_mode \<Rightarrow> string" where
  "mode_debug_lower m = (case m of Intake \<Rightarrow> ''intake'' | Finalize \<Rightarrow> ''finalize'')"

fun effect_key :: "effect \<Rightarrow> string option" where
  "effect_key PersistCheckpoint = None"
| "effect_key (WaitForOperator _) = None"
| "effect_key (ReconcileInbox _) = Some ''reconcile-inbox''"
| "effect_key ReconcileInboxFinalization = Some ''reconcile-inbox-finalization''"
| "effect_key (DispatchDependencyCurator b) = Some (''dispatch-dependency-curator:'' @ refresh_boundary_as_str b)"
| "effect_key (DispatchInboxCurator _ m) = Some (''dispatch-inbox-curator:'' @ mode_debug_lower m)"
| "effect_key (DrainQueueInbox _) = Some ''drain-queue-inbox''"
| "effect_key (PlanNextWave _) = Some ''plan-next-wave''"
| "effect_key (CheckTokenBudget call) = Some (ledger_key call)"
| "effect_key (CheckCohortBudget call) = Some (cohort_budget_ledger_key call)"
| "effect_key (Reconcile i) = Some (''reconcile:'' @ i)"
| "effect_key (EnsureTaskWorkspace i _) = Some (''ensure-workspace:'' @ i)"
| "effect_key (PrepareTaskReview i) = Some (''prepare-task-review:'' @ i)"
| "effect_key (PrepareTaskLeaf i k) = Some (''prepare-task-leaf:'' @ i @ '':'' @ leaf_key k)"
| "effect_key (DispatchTask i k) = Some (''dispatch-task:'' @ i @ '':'' @ leaf_key k)"
| "effect_key (CommitTask i) = Some (''commit-task:'' @ i)"
| "effect_key (PrepareIntegrationWorkspace _) = Some ''prepare-integration''"
| "effect_key (MergeTask i) = Some (''merge-task:'' @ i)"
| "effect_key (FinalizeMergeResolution i) = Some (''finalize-merge-resolution:'' @ i)"
| "effect_key (AbortMergeResolution i _) = Some (''abort-merge-resolution:'' @ i)"
| "effect_key (VerifyIntegration _) = Some ''verify-integration''"
| "effect_key (DispatchIntegration k) = Some (''dispatch-integration:'' @ leaf_key k)"
| "effect_key CommitIntegrationFix = Some ''commit-integration-fix''"
| "effect_key (Publish _) = Some ''publish''"
| "effect_key (ReanchorPublication _) = Some ''reanchor-publication''"
| "effect_key (VerifyCi _) = Some ''verify-ci''"
| "effect_key (Notify event subject) = Some (''notify:'' @ notification_as_str event @ '':'' @ subject)"
| "effect_key PrepareCiFix = Some ''prepare-ci-fix''"
| "effect_key CommitCiFix = Some ''commit-ci-fix''"
| "effect_key PrepareKnowledgeCuration = Some ''prepare-knowledge-curation''"
| "effect_key PrepareArchival = Some ''prepare-archival''"
| "effect_key (ReconfirmCiBeforeArchive _ _) = Some ''reconfirm-ci-before-archive''"
| "effect_key (ReturnTask i _) = Some (''return-task:'' @ i)"
| "effect_key (EscalateTask i _) = Some (''escalate-task:'' @ i)"
| "effect_key (ArchiveTask i) = Some (''archive-task:'' @ i)"
| "effect_key (CleanupTaskWorkspace i) = Some (''cleanup-workspace:'' @ i)"
| "effect_key CleanupIntegrationWorkspace = Some ''cleanup-integration-workspace''"
| "effect_key CleanupCohortControlPlane = Some ''cleanup-cohort-control-plane''"
| "effect_key WriteJournalAndStatus = Some ''write-journal-and-status''"
| "effect_key ReleaseLease = Some ''release-lease''"

text \<open>The leaf a task is waiting for, by its phase.\<close>

definition leaf_in_phase :: "task_phase \<Rightarrow> leaf_kind option" where
  "leaf_in_phase p = (case p of Implementing \<Rightarrow> Some Implement | Fixing \<Rightarrow> Some Fix | _ \<Rightarrow> None)"

definition task_leaf_key :: "string \<Rightarrow> string \<Rightarrow> processor_state \<Rightarrow> processor_error + string option" where
  "task_leaf_key stem i s =
    (case map_of (st_tasks s) i of
       None \<Rightarrow> Inl (MissingTask i)
     | Some t \<Rightarrow> Inr (map_option (\<lambda>k. stem @ i @ '':'' @ leaf_key k) (leaf_in_phase (tr_phase t))))"

fun acknowledgement_key :: "processor \<Rightarrow> processor_command \<Rightarrow> processor_error + string option" where
  "acknowledgement_key p (WorkspaceReady i) = Inr (Some (''ensure-workspace:'' @ i))"
| "acknowledgement_key p (WorkspaceFailed i _) = Inr (Some (''ensure-workspace:'' @ i))"
| "acknowledgement_key p (TaskLeafPrepared i _) = task_leaf_key ''prepare-task-leaf:'' i (pr_state p)"
| "acknowledgement_key p (TaskLeaf i _) = task_leaf_key ''dispatch-task:'' i (pr_state p)"
| "acknowledgement_key p (TaskCommitted i _) = Inr (Some (''commit-task:'' @ i))"
| "acknowledgement_key p (TaskReviewPrepared i _) = Inr (Some (''prepare-task-review:'' @ i))"
| "acknowledgement_key p (TaskReview i _) = Inr (Some (''dispatch-task:'' @ i @ '':review''))"
| "acknowledgement_key p IntegrationWorkspaceReady = Inr (Some ''prepare-integration'')"
| "acknowledgement_key p (TokenBudgetChecked call _) = Inr (Some (ledger_key call))"
| "acknowledgement_key p (CohortBudgetChecked call _) = Inr (Some (cohort_budget_ledger_key call))"
| "acknowledgement_key p (TaskMerged i _) = Inr (Some (''merge-task:'' @ i))"
| "acknowledgement_key p (MergeResolution _ _) = Inr (Some ''dispatch-integration:merger'')"
| "acknowledgement_key p (MergeResolutionFinalized i _) = Inr (Some (''finalize-merge-resolution:'' @ i))"
| "acknowledgement_key p (MergeResolutionAborted i _) = Inr (Some (''abort-merge-resolution:'' @ i))"
| "acknowledgement_key p (IntegrationVerified _ _) = Inr (Some ''verify-integration'')"
| "acknowledgement_key p (IntegrationReviewed _) = Inr (Some ''dispatch-integration:integration-review'')"
| "acknowledgement_key p (IntegrationFixed _) = Inr (Some ''dispatch-integration:integration-fix'')"
| "acknowledgement_key p (IntegrationFixCommitted _) = Inr (Some ''commit-integration-fix'')"
| "acknowledgement_key p (processor_command.Published _ _) = Inr (Some ''publish'')"
| "acknowledgement_key p (PublicationRejected _) = Inr (Some ''publish'')"
| "acknowledgement_key p (PublicationAwaitingApproval _) = Inr (Some ''publish'')"
| "acknowledgement_key p (PublicationReanchorRequired _ _) = Inr (Some ''publish'')"
| "acknowledgement_key p PublicationReanchored = Inr (Some ''reanchor-publication'')"
| "acknowledgement_key p (CiVerified _) = Inr (Some ''verify-ci'')"
| "acknowledgement_key p (CiFixPrepared _) = Inr (Some ''prepare-ci-fix'')"
| "acknowledgement_key p (CiFixed _) = Inr (Some ''dispatch-integration:ci-fix'')"
| "acknowledgement_key p (CiFixCommitted _) = Inr (Some ''commit-ci-fix'')"
| "acknowledgement_key p (KnowledgeCurationPrepared _) = Inr (Some ''prepare-knowledge-curation'')"
| "acknowledgement_key p (KnowledgeCurated _) = Inr (Some ''dispatch-integration:knowledge-curator'')"
| "acknowledgement_key p (ArchivalPrepared _) = Inr (Some ''prepare-archival'')"
| "acknowledgement_key p (ArchiveCiReconfirmed _ _) = Inr (Some ''reconfirm-ci-before-archive'')"
| "acknowledgement_key p (Admit _ _) = Inr (Some ''plan-next-wave'')"
| "acknowledgement_key p (InboxReconciled _ _) = Inr (Some ''reconcile-inbox'')"
| "acknowledgement_key p (InboxFinalizationReconciled _) = Inr (Some ''reconcile-inbox-finalization'')"
| "acknowledgement_key p (DependencyGraphRefreshed b _) = Inr (Some (''dispatch-dependency-curator:'' @ refresh_boundary_as_str b))"
| "acknowledgement_key p (InboxCurated _ m _) = Inr (Some (''dispatch-inbox-curator:'' @ mode_debug_lower m))"
| "acknowledgement_key p (InboxDrained _) = Inr (Some ''drain-queue-inbox'')"
| "acknowledgement_key p (Open _ _ _) = Inr None"
| "acknowledgement_key p (Recover _) = Inr None"
| "acknowledgement_key p (Advance _) = Inr None"
| "acknowledgement_key p CleanupComplete = Inr None"
| "acknowledgement_key p Pause = Inr None"
| "acknowledgement_key p Resume = Inr None"
| "acknowledgement_key p (Block _) = Inr None"

section \<open>State and errors\<close>

datatype msg_arg = MsgStr string | MsgDbg string | MsgEffect effect | MsgNat nat

datatype runtime_error =
  CheckpointFailed | OutboxFailed outbox_error | ProcessorFailed processor_error
| CorruptRuntime string "msg_arg list" | InvalidEventTime string | PendingEffect string
| ExistingCheckpoint | UnexpectedAcknowledgement string string | UnknownEffect string "msg_arg list"

type_synonym ledger = "(string, effect) btmap"

record runtime_checkpoint =
  rc_schema_version :: nat
  rc_processor :: processor_state
  rc_pending :: ledger
  rc_ci_fix_provider_span :: "operation_timing option"

text \<open>The runtime in memory (processor, ledger, span, event index) and on disk (checkpoint, event file).\<close>

record 'd runtime =
  rt_processor :: processor
  rt_pending :: ledger
  rt_ci_fix_provider_span :: "operation_timing option"
  rt_index :: "'d cached_index"
  rt_store :: "runtime_checkpoint option"
  rt_events :: string

record 'd runtime_env =
  re_outbox :: "'d outbox_env"
  re_uuid :: "string \<Rightarrow> string"
  re_lowercase :: "string \<Rightarrow> string"

datatype save_outcome = Saved | NotSaved | Unsynced

record faults =
  fa_appends :: "nat option"
  fa_save :: save_outcome

definition runtime_state_version :: nat where "runtime_state_version = 1"

section \<open>Persisting\<close>

text \<open>\<open>CheckpointStore::save_json\<close>: a failure leaves the old document, or the new one unsynced.\<close>

definition persist ::
    "save_outcome \<Rightarrow> processor \<Rightarrow> ledger \<Rightarrow> operation_timing option \<Rightarrow> 'd runtime
     \<Rightarrow> (runtime_error + unit) \<times> 'd runtime" where
  "persist w p pending span r =
    (let doc = \<lparr>rc_schema_version = runtime_state_version, rc_processor = pr_state p,
                rc_pending = pending, rc_ci_fix_provider_span = span\<rparr>
     in case w of
          Saved \<Rightarrow> (Inr (), r\<lparr>rt_store := Some doc\<rparr>)
        | NotSaved \<Rightarrow> (Inl CheckpointFailed, r)
        | Unsynced \<Rightarrow> (Inl CheckpointFailed, r\<lparr>rt_store := Some doc\<rparr>))"

definition adopt ::
    "processor \<Rightarrow> ledger \<Rightarrow> operation_timing option \<Rightarrow> 'd runtime \<Rightarrow> 'd runtime" where
  "adopt p pending span r =
    r\<lparr>rt_processor := p, rt_pending := pending, rt_ci_fix_provider_span := span\<rparr>"

text \<open>Persist first, adopt in memory only when the checkpoint is durable.\<close>

definition commit ::
    "save_outcome \<Rightarrow> processor \<Rightarrow> ledger \<Rightarrow> operation_timing option \<Rightarrow> 'a \<Rightarrow> 'd runtime
     \<Rightarrow> (runtime_error + 'a) \<times> 'd runtime" where
  "commit w p pending span a r =
    (case persist w p pending span r of
       (Inl e, r) \<Rightarrow> (Inl e, r)
     | (Inr _, r) \<Rightarrow> (Inr a, adopt p pending span r))"

text \<open>The events of a transition, appended one by one; \<open>fa_appends\<close> bounds the successful calls.\<close>

fun append_all ::
    "'d outbox_env \<Rightarrow> nat option \<Rightarrow> event list \<Rightarrow> 'd cached_index \<Rightarrow> string
     \<Rightarrow> (outbox_error + unit) \<times> 'd cached_index \<times> string" where
  "append_all env budget [] index bytes = (Inr (), index, bytes)"
| "append_all env budget (e # es) index bytes =
    (if budget = Some 0 then (Inl (OutboxIo ''append failed''), index, bytes)
     else (case append_idempotent env index bytes e of
             (Inl err, index, bytes) \<Rightarrow> (Inl err, index, bytes)
           | (Inr _, index, bytes) \<Rightarrow>
               append_all env (map_option (\<lambda>n. n - 1) budget) es index bytes))"

fun append_best_effort ::
    "'d outbox_env \<Rightarrow> event list \<Rightarrow> 'd cached_index \<Rightarrow> string \<Rightarrow> 'd cached_index \<times> string" where
  "append_best_effort env [] index bytes = (index, bytes)"
| "append_best_effort env (e # es) index bytes =
    (case append_idempotent env index bytes e of
       (_, index, bytes) \<Rightarrow> append_best_effort env es index bytes)"

section \<open>Applying a command\<close>

text \<open>Record the keyed effects; one key may not name two different effects.\<close>

fun record_effects :: "effect list \<Rightarrow> ledger \<Rightarrow> runtime_error + ledger" where
  "record_effects [] pending = Inr pending"
| "record_effects (e # es) pending =
    (case effect_key e of
       None \<Rightarrow> record_effects es pending
     | Some key \<Rightarrow>
         (case map_of pending key of
            Some existing \<Rightarrow>
              (if existing \<noteq> e
               then Inl (CorruptRuntime ''effect key {} aliases incompatible effects {} and {}''
                      [MsgDbg key, MsgEffect existing, MsgEffect e])
               else record_effects es (bt_insert key e pending))
          | None \<Rightarrow> record_effects es (bt_insert key e pending)))"

definition check_acknowledgement :: "string option \<Rightarrow> processor_command \<Rightarrow> ledger \<Rightarrow> runtime_error + unit" where
  "check_acknowledgement acknowledgement c pending =
    (case acknowledgement of
       Some actual \<Rightarrow>
         (if map_of pending actual = None
          then Inl (UnexpectedAcknowledgement
                 (case pending of [] \<Rightarrow> ''no outstanding effect'' | (k, _) # _ \<Rightarrow> k) actual)
          else Inr ())
     | None \<Rightarrow>
         (if pending \<noteq> [] \<and> \<not> is_recover c
          then Inl (PendingEffect (''cannot apply command while '' @ show_nat (length pending)
                 @ '' effect(s) remain outstanding: '' @ join '', '' (bt_keys pending)))
          else Inr ()))"

definition combine_spans :: "operation_timing option \<Rightarrow> operation_timing \<Rightarrow> operation_timing" where
  "combine_spans span timing =
    (case span of
       None \<Rightarrow> timing
     | Some provider \<Rightarrow>
         \<lparr>ot_started_at = ot_started_at provider, ot_ended_at = ot_ended_at timing,
          ot_duration_ms = sat_add64 (ot_duration_ms provider) (ot_duration_ms timing)\<rparr>)"

text \<open>The span of a yielded CI fixer and the timing that is reported.\<close>

definition provider_span ::
    "processor_state \<Rightarrow> effect \<Rightarrow> processor_command \<Rightarrow> operation_timing \<Rightarrow> operation_timing option
     \<Rightarrow> operation_timing option \<times> operation_timing" where
  "provider_span before e c timing span =
    (case (e, c) of
       (PrepareCiFix, CiFixPrepared ci_fix_preparation_outcome.Fallback) \<Rightarrow> (Some timing, timing)
     | (PrepareCiFix, CiFixPrepared ci_fix_preparation_outcome.Completed) \<Rightarrow> (None, timing)
     | (DispatchIntegration CiFix, CiFixed _) \<Rightarrow>
         (if ig_ci_fix_provider_fallback (st_integration before)
          then (None, combine_spans span timing) else (span, timing))
     | _ \<Rightarrow> (span, timing))"

definition apply_internal ::
    "'d runtime_env \<Rightarrow> faults \<Rightarrow> processor_command \<Rightarrow> string
     \<Rightarrow> (effect \<times> operation_timing) option \<Rightarrow> 'd runtime \<Rightarrow> (runtime_error + effect list) \<times> 'd runtime" where
  "apply_internal env faults c occurred_at operation r =
    (if \<not> is_iso_utc occurred_at then (Inl (InvalidEventTime occurred_at), r)
     else
       (case acknowledgement_key (rt_processor r) c of
          Inl e \<Rightarrow> (Inl (ProcessorFailed e), r)
        | Inr acknowledgement \<Rightarrow>
       (case check_acknowledgement acknowledgement c (rt_pending r) of
          Inl e \<Rightarrow> (Inl e, r)
        | Inr _ \<Rightarrow>
       (case accept (re_lowercase env) c (rt_processor r) of
          (Inl e, _) \<Rightarrow> (Inl (ProcessorFailed e), r)
        | (Inr effects, p) \<Rightarrow>
       (let before = pr_state (rt_processor r);
            pending = (case acknowledgement of Some k \<Rightarrow> bt_remove k (rt_pending r) | None \<Rightarrow> rt_pending r)
        in case record_effects effects pending of
          Inl e \<Rightarrow> (Inl e, r)
        | Inr pending \<Rightarrow>
       (case append_all (re_outbox env) (fa_appends faults)
               (project_processor_transition (re_uuid env) before (pr_state p) c occurred_at)
               (rt_index r) (rt_events r) of
          (Inl e, index, bytes) \<Rightarrow> (Inl (OutboxFailed e), r\<lparr>rt_index := index, rt_events := bytes\<rparr>)
        | (Inr _, index, bytes) \<Rightarrow>
       (case operation of
          None \<Rightarrow>
            commit (fa_save faults) p pending (rt_ci_fix_provider_span r) effects
              (r\<lparr>rt_index := index, rt_events := bytes\<rparr>)
        | Some (e, timing) \<Rightarrow>
            (case provider_span before e c timing (rt_ci_fix_provider_span r) of
               (span, timing) \<Rightarrow>
            (case append_best_effort (re_outbox env) 
                (project_completed_operations (re_uuid env) before (pr_state p) e c timing) index bytes of
               (index, bytes) \<Rightarrow>
                 commit (fa_save faults) p pending span effects
                   (r\<lparr>rt_index := index, rt_events := bytes\<rparr>))))))))))"

section \<open>Other entry points\<close>

definition complete_effect :: "save_outcome \<Rightarrow> string \<Rightarrow> 'd runtime \<Rightarrow> (runtime_error + unit) \<times> 'd runtime" where
  "complete_effect w key r =
    (case map_of (rt_pending r) key of
       None \<Rightarrow> (Inl (UnknownEffect ''no outstanding effect named {}'' [MsgDbg key]), r)
     | Some e \<Rightarrow>
         (case acknowledge_non_command_effect e (pr_state (rt_processor r)) of
            (Inl err, _) \<Rightarrow> (Inl (ProcessorFailed err), r)
          | (Inr _, s) \<Rightarrow>
              commit w ((rt_processor r)\<lparr>pr_state := s\<rparr>) (bt_remove key (rt_pending r))
                (rt_ci_fix_provider_span r) () r))"

definition acknowledge_effect :: "save_outcome \<Rightarrow> effect \<Rightarrow> 'd runtime \<Rightarrow> (runtime_error + unit) \<times> 'd runtime" where
  "acknowledge_effect w e r =
    (case effect_key e of
       None \<Rightarrow> (Inl (UnknownEffect ''effect {} has no durable ledger key and cannot be acknowledged''
                 [MsgEffect e]), r)
     | Some key \<Rightarrow> complete_effect w key r)"

definition record_session ::
    "save_outcome \<Rightarrow> string \<Rightarrow> leaf_session_update \<Rightarrow> 'd runtime \<Rightarrow> (runtime_error + unit) \<times> 'd runtime" where
  "record_session w i u r =
    (case record_leaf_session i u (pr_state (rt_processor r)) of
       (Inl err, _) \<Rightarrow> (Inl (ProcessorFailed err), r)
     | (Inr _, s) \<Rightarrow>
         commit w ((rt_processor r)\<lparr>pr_state := s\<rparr>) (rt_pending r) (rt_ci_fix_provider_span r) () r)"

fun remove_reconstructed :: "string \<Rightarrow> effect list \<Rightarrow> ledger \<Rightarrow> runtime_error + ledger" where
  "remove_reconstructed pending_key [] pending = Inr pending"
| "remove_reconstructed pending_key (e # es) pending =
    (case effect_key e of
       None \<Rightarrow> Inl (CorruptRuntime ''reconstructed recovery effect is not keyed: {}'' [MsgEffect e])
     | Some key \<Rightarrow>
         (if key = pending_key \<or> map_of pending key \<noteq> Some e
          then Inl (CorruptRuntime
                 ''reconstructed recovery effect {} is absent, changed, or aliases its authority'' [MsgDbg key])
          else remove_reconstructed pending_key es (bt_remove key pending)))"

definition supersede_recovery_effects_with_pending ::
    "save_outcome \<Rightarrow> effect \<Rightarrow> effect list \<Rightarrow> 'd runtime \<Rightarrow> (runtime_error + unit) \<times> 'd runtime" where
  "supersede_recovery_effects_with_pending w pending_effect reconstructed r =
    (case effect_key pending_effect of
       None \<Rightarrow> (Inl (CorruptRuntime ''recovery supersession requires a keyed pending effect'' []), r)
     | Some pending_key \<Rightarrow>
         (if map_of (rt_pending r) pending_key \<noteq> Some pending_effect
          then (Inl (CorruptRuntime ''recovery authority {} is absent or changed'' [MsgDbg pending_key]), r)
          else (case remove_reconstructed pending_key reconstructed (rt_pending r) of
                  Inl e \<Rightarrow> (Inl e, r)
                | Inr pending \<Rightarrow>
                    commit w (rt_processor r) pending (rt_ci_fix_provider_span r) () r)))"

definition retry_safe_task :: "effect \<Rightarrow> string option" where
  "retry_safe_task e =
    (case e of EnsureTaskWorkspace i _ \<Rightarrow> Some i | PrepareTaskLeaf i _ \<Rightarrow> Some i
     | PrepareTaskReview i \<Rightarrow> Some i | _ \<Rightarrow> None)"

definition supersede_reconcile_with_pending_task_effect ::
    "save_outcome \<Rightarrow> effect \<Rightarrow> 'd runtime \<Rightarrow> (runtime_error + unit) \<times> 'd runtime" where
  "supersede_reconcile_with_pending_task_effect w task_effect r =
    (case retry_safe_task task_effect of
       None \<Rightarrow> (Inl (CorruptRuntime
                 ''only a retry-safe task effect may supersede its recovery reconciliation'' []), r)
     | Some i \<Rightarrow>
         (let task_key = the (effect_key task_effect);
              reconcile_key = the (effect_key (Reconcile i))
          in if map_of (rt_pending r) task_key \<noteq> Some task_effect
             then (Inl (CorruptRuntime ''recovery task effect {} is absent or changed'' [MsgDbg task_key]), r)
             else if map_of (rt_pending r) reconcile_key \<noteq> Some (Reconcile i)
             then (Inl (CorruptRuntime ''recovery reconciliation {} is absent or changed''
                     [MsgDbg reconcile_key]), r)
             else supersede_recovery_effects_with_pending w task_effect [Reconcile i] r))"

datatype recovery_requirement =
  RetryIdempotently string effect | InspectBeforeContinuing string effect

definition retry_safe :: "effect \<Rightarrow> bool" where
  "retry_safe e =
    (case e of
       EnsureTaskWorkspace _ _ \<Rightarrow> True | PrepareIntegrationWorkspace _ \<Rightarrow> True
     | ReanchorPublication _ \<Rightarrow> True | Reconcile _ \<Rightarrow> True | ReconcileInbox _ \<Rightarrow> True
     | ReconcileInboxFinalization \<Rightarrow> True | DrainQueueInbox _ \<Rightarrow> True | CheckTokenBudget _ \<Rightarrow> True
     | CheckCohortBudget _ \<Rightarrow> True | VerifyCi _ \<Rightarrow> True | PrepareKnowledgeCuration \<Rightarrow> True
     | PrepareArchival \<Rightarrow> True | ReconfirmCiBeforeArchive _ _ \<Rightarrow> True | ArchiveTask _ \<Rightarrow> True
     | CleanupTaskWorkspace _ \<Rightarrow> True | CleanupIntegrationWorkspace \<Rightarrow> True
     | CleanupCohortControlPlane \<Rightarrow> True | WriteJournalAndStatus \<Rightarrow> True | ReleaseLease \<Rightarrow> True
     | _ \<Rightarrow> False)"

definition recovery_requirements :: "'d runtime \<Rightarrow> recovery_requirement list" where
  "recovery_requirements r =
    map (\<lambda>(key, e). if retry_safe e then RetryIdempotently key e else InspectBeforeContinuing key e)
      (rt_pending r)"

section \<open>Starting, resuming, importing\<close>

definition runtime_of ::
    "processor \<Rightarrow> ledger \<Rightarrow> operation_timing option \<Rightarrow> runtime_checkpoint option \<Rightarrow> string \<Rightarrow> 'd runtime" where
  "runtime_of p pending span store events =
    \<lparr>rt_processor = p, rt_pending = pending, rt_ci_fix_provider_span = span,
     rt_index = empty_index, rt_store = store, rt_events = events\<rparr>"

definition runtime_new :: "processor_config \<Rightarrow> runtime_checkpoint option \<Rightarrow> string \<Rightarrow> runtime_error + 'd runtime" where
  "runtime_new cfg store events =
    (case processor_new cfg of
       Inl e \<Rightarrow> Inl (ProcessorFailed e)
     | Inr p \<Rightarrow> Inr (runtime_of p [] None store events))"

definition check_ledger_entry :: "string \<times> effect \<Rightarrow> runtime_error + unit" where
  "check_ledger_entry = (\<lambda>(stored_key, e).
    (case effect_key e of
       None \<Rightarrow> Inl (CorruptRuntime ''runtime ledger contains unkeyed informational effect {}'' [MsgEffect e])
     | Some expected \<Rightarrow>
         ensure (stored_key = expected)
           (CorruptRuntime ''runtime ledger key {} does not match effect key {} for {}''
             [MsgDbg stored_key, MsgDbg expected, MsgEffect e])))"

definition runtime_resume ::
    "processor_config \<Rightarrow> runtime_checkpoint option \<Rightarrow> string \<Rightarrow> runtime_error + 'd runtime" where
  "runtime_resume cfg store events =
    (case store of
       None \<Rightarrow> runtime_new cfg store events
     | Some doc \<Rightarrow>
         bind_res (ensure (rc_schema_version doc = runtime_state_version)
                     (CorruptRuntime ''unsupported runtime checkpoint version {}''
                        [MsgNat (rc_schema_version doc)])) (\<lambda>_.
         bind_res (each_res check_ledger_entry (rc_pending doc)) (\<lambda>_.
         (case from_checkpoint cfg (rc_processor doc) of
            Inl e \<Rightarrow> Inl (ProcessorFailed e)
          | Inr p \<Rightarrow> Inr (runtime_of p (rc_pending doc) (rc_ci_fix_provider_span doc) store events)))))"

definition bind_legacy_safety_snapshot :: "processor_config \<Rightarrow> processor_state \<Rightarrow> processor_state" where
  "bind_legacy_safety_snapshot cfg s =
    s\<lparr>st_batch := map_option (\<lambda>b. b\<lparr>co_cohort_budget_secs := cf_cohort_budget_secs cfg,
        co_cohort_token_budget := cf_cohort_token_budget cfg,
        co_cohort_token_budget_strict := cf_cohort_token_budget_strict cfg,
        co_events_outbox_enabled := cf_events_outbox_enabled cfg\<rparr>) (st_batch s)\<rparr>"

definition import_legacy ::
    "save_outcome \<Rightarrow> processor_config \<Rightarrow> runtime_checkpoint option \<Rightarrow> string \<Rightarrow> processor_state
     \<Rightarrow> (runtime_error + 'd runtime) \<times> runtime_checkpoint option" where
  "import_legacy w cfg store events legacy =
    (if store \<noteq> None then (Inl ExistingCheckpoint, store)
     else (case from_checkpoint cfg (bind_legacy_safety_snapshot cfg legacy) of
             Inl e \<Rightarrow> (Inl (ProcessorFailed e), store)
           | Inr p \<Rightarrow>
               (case persist w p [] None (runtime_of p [] None store events) of
                  (Inl e, r) \<Rightarrow> (Inl e, rt_store r)
                | (Inr _, r) \<Rightarrow> (Inr r, rt_store r))))"

end
