(* ===== verification/RuntimeInv.thy ===== *)
theory RuntimeInv
  imports Runtime ProcessorInv
begin

text \<open>
  The invariant of the runtime: names that the event reader accepts, a ledger whose entries are
  filed under the keys of their effects, and a durable checkpoint with the same properties.
\<close>

section \<open>Names stay readable\<close>

lemma batch_kept_named: "batch_kept b b' \<Longrightarrow> batch_named b \<Longrightarrow> batch_named b'"
  by (auto simp: batch_kept_def batch_named_def rel_option_iff split: option.splits)

definition keyed_tasks :: "processor_state \<Rightarrow> bool" where
  "keyed_tasks s \<longleftrightarrow> well_keyed s \<and> batch_named (st_batch s) \<and> list_all is_task_id (map fst (st_tasks s))"

lemma keyed_names: "keyed_tasks s \<Longrightarrow> names_ok s"
  by (auto simp: keyed_tasks_def names_ok_def well_keyed_def list_all_iff)

lemma keeps_keyed: "keeps cfg s s' \<Longrightarrow> well_keyed s' \<Longrightarrow> keyed_tasks s \<Longrightarrow> keyed_tasks s'"
  by (auto simp: keeps_def keyed_tasks_def dest: entries_rel_keys batch_kept_named)

lemma same_core_named: "same_core s s' \<Longrightarrow> batch_named (st_batch s) \<Longrightarrow> batch_named (st_batch s')"
  by (auto simp: same_core_def intro: batch_kept_named)

lemma admit_loop_ids:
  "admit_loop w cs effs s = (Inr es, s') \<Longrightarrow> list_all is_task_id (map fst (st_tasks s))
    \<Longrightarrow> list_all is_task_id (map fst (st_tasks s')) \<and> st_batch s' = st_batch s"
proof (induction cs arbitrary: effs s)
  case (Cons c cs)
  then have rest: "admit_loop w cs (effs @ [EnsureTaskWorkspace (ac_id c) (''task/'' @ ac_id c)])
      (s\<lparr>st_tasks := bt_insert (ac_id c) (task_new c w) (st_tasks s)\<rparr>) = (Inr es, s')"
    and ok: "is_task_id (ac_id c)" by (auto simp: validate_task_id_def)
  have "list_all is_task_id (map fst (bt_insert (ac_id c) (task_new c w) (st_tasks s)))"
    using ok Cons.prems(2) bt_insert_keys[of "ac_id c" "task_new c w" "st_tasks s"] by (simp add: list_all_iff)
  then show ?case using Cons.IH[OF rest] by simp
qed simp

lemma open_keyed:
  "open_cohort cfg i base now s = (Inr es, s') \<Longrightarrow> keyed_tasks s'"
  by (auto simp: open_cohort_def keyed_tasks_def well_keyed_def bt_invar_def batch_named_def
      validate_batch_id_def Let_def split: option.splits)

lemma admit_names:
  assumes "admit cfg cs now s = (Inr es, s')" "keyed_tasks s"
  shows "batch_named (st_batch s') \<and> list_all is_task_id (map fst (st_tasks s'))"
proof -
  let ?s = "close_for_budget_if_needed cfg now s"
  have same: "batch_named (st_batch v) \<and> list_all is_task_id (map fst (st_tasks v))"
    if "same_core u v" "batch_named (st_batch u)" "list_all is_task_id (map fst (st_tasks u))" for u v
    using that by (simp add: same_core_named) (simp add: same_core_def)
  have s: "batch_named (st_batch ?s)" "list_all is_task_id (map fst (st_tasks ?s))"
    using same[OF close_for_budget_same, of s cfg now] assms(2) by (simp_all add: keyed_tasks_def)
  have count: "batch_named (st_batch (count_admitted n u)) = batch_named (st_batch u)"
    "st_tasks (count_admitted n u) = st_tasks u" for n u
    by (cases "st_batch u"; simp add: count_admitted_def batch_named_def)+
  have admitted: "batch_named (st_batch s') \<and> list_all is_task_id (map fst (st_tasks s'))"
    if "admit_loop w fs [] ?s = (Inr es, u)"
      "s' = close_for_budget_if_needed cfg now (count_admitted n u)" for w fs u n
    unfolding that(2)
    by (rule same[OF close_for_budget_same]) (use admit_loop_ids[OF that(1) s(2)] s(1) in \<open>simp_all add: count\<close>)
  have closed: "batch_named (st_batch s') \<and> list_all is_task_id (map fst (st_tasks s'))"
    if "after_admission_closed u = (Inr es, s')" "same_core ?s u" for u
    using same[OF same_core_trans[OF that(2) after_admission_closed_same(1)[OF that(1)]]] s by blast
  obtain b where "st_batch ?s = Some b" using assms(1) by (auto simp: admit_def Let_def)
  then show ?thesis
    using assms(1) admitted closed[of ?s] closed[OF _ close_admission_same] s
    by (auto simp: admit_def Let_def split: admission_outcome.splits option.splits if_splits)
qed

lemma dispatch_keyed:
  assumes "dispatch lc cfg c s = (Inr es, s')" "reducer_inv cfg s" "keyed_tasks s"
  shows "keyed_tasks s'"
proof -
  have wk: "well_keyed s'" "well_keyed s"
    using dispatch_inv[OF assms(1,2)] assms(2) by (simp_all add: reducer_inv_def)
  show ?thesis
  proof (cases "opens_or_admits c")
    case True
    then consider i base now where "open_cohort cfg i base now s = (Inr es, s')"
      | cs now where "admit cfg cs now s = (Inr es, s')"
      using assms(1) by (cases c) (simp_all add: dispatch_def opens_or_admits_def)
    then show ?thesis
      by cases (use open_keyed admit_names wk assms(3) in \<open>auto simp: keyed_tasks_def\<close>)
  next
    case False
    then show ?thesis using dispatch_keeps[OF assms(1) wk(2)] keeps_keyed wk(1) assms(3) by blast
  qed
qed

text \<open>The invariant of the reducer with readable names.\<close>

definition named_inv :: "processor_config \<Rightarrow> processor \<Rightarrow> bool" where
  "named_inv cfg p \<longleftrightarrow> proc_inv p \<and> pr_config p = cfg \<and> keyed_tasks (pr_state p)"

lemma named_invI:
  assumes "named_inv cfg p" "proc_inv p'" "pr_config p' = pr_config p"
    and "keeps cfg (pr_state p) (pr_state p')"
  shows "named_inv cfg p'"
  using assms keeps_keyed by (simp add: named_inv_def proc_inv_def reducer_inv_def)

lemma accept_named:
  assumes "accept lc c p = (r, p')" "named_inv cfg p"
  shows "named_inv cfg p'"
proof (cases "opens_or_admits c")
  case False
  have "proc_inv p' \<and> pr_config p' = pr_config p" using accept_inv[OF assms(1)] assms(2) by (simp add: named_inv_def)
  moreover have "well_keyed (pr_state p)" using assms(2) by (simp add: named_inv_def keyed_tasks_def)
  ultimately show ?thesis
    using named_invI[OF assms(2)] accept_keeps[OF assms(1) _ False] assms(2) by (simp add: named_inv_def)
next
  case True
  show ?thesis using assms(1)
  proof (cases rule: accept_cases)
    case (accepted es)
    show ?thesis using accepted(2)
    proof (cases rule: apply_cases)
      case (ran fs)
      have "run_command lc c p = (case dispatch lc (pr_config p) c (pr_state p) of (r, s) \<Rightarrow> (r, p\<lparr>pr_state := s\<rparr>))"
        using True by (cases c) (simp_all add: run_command_def opens_or_admits_def)
      then obtain s' where d: "dispatch lc (pr_config p) c (pr_state p) = (Inr fs, s')" "p' = p\<lparr>pr_state := s'\<rparr>"
        using ran(1) by (cases "dispatch lc (pr_config p) c (pr_state p)") auto
      have "keyed_tasks s'"
        using dispatch_keyed[OF d(1)] assms(2) unfolding named_inv_def proc_inv_def by blast
      then show ?thesis using accept_inv[OF assms(1)] assms(2) d(2) by (simp add: named_inv_def)
    qed (use assms(2) in simp)
  qed (use assms(2) in simp)
qed

lemma keeps_named:
  assumes "named_inv cfg p" "keeps cfg (pr_state p) s'"
  shows "named_inv cfg (p\<lparr>pr_state := s'\<rparr>)"
proof (rule named_invI[OF assms(1)])
  show "proc_inv (p\<lparr>pr_state := s'\<rparr>)"
    using keeps_inv[OF assms(2)] assms(1) by (auto simp: named_inv_def proc_inv_def)
qed (use assms(2) in simp_all)

lemma session_named:
  "record_leaf_session i u (pr_state p) = (Inr x, s') \<Longrightarrow> named_inv cfg p
    \<Longrightarrow> named_inv cfg (p\<lparr>pr_state := s'\<rparr>)"
  using keeps_named record_leaf_session_ok by blast

lemma acknowledged_named:
  "acknowledge_non_command_effect e (pr_state p) = (Inr x, s') \<Longrightarrow> named_inv cfg p
    \<Longrightarrow> named_inv cfg (p\<lparr>pr_state := s'\<rparr>)"
  using keeps_named acknowledge_ok by blast

lemma new_named:
  assumes "processor_new cfg = Inr p"
  shows "named_inv cfg p"
proof -
  have "pr_state p = processor_state_default"
    using assms by (auto simp: processor_new_def split: sum.splits)
  then show ?thesis
    using new_inv[OF assms]
    by (auto simp: named_inv_def keyed_tasks_def proc_inv_def reducer_inv_def batch_named_def
        processor_state_default_def)
qed

lemma checkpoint_named:
  assumes "from_checkpoint cfg s = Inr p" "reducer_inv cfg s" "keyed_tasks s"
  shows "named_inv cfg p"
  using assms
  by (cases "st_batch s")
    (auto simp: from_checkpoint_def named_inv_def proc_inv_def reducer_inv_def well_keyed_def active_count_def
      active_disjoint_def tip_verified_def reanchor_bounded_def keyed_tasks_def)

section \<open>The ledger\<close>

definition ledger_ok :: "ledger \<Rightarrow> bool" where
  "ledger_ok m \<longleftrightarrow> bt_invar m \<and> list_all (\<lambda>(k, e). effect_key e = Some k) m"

lemma ledger_look: "ledger_ok m \<Longrightarrow> map_of m k = Some e \<Longrightarrow> effect_key e = Some k"
  by (auto simp: ledger_ok_def list_all_iff dest: map_of_SomeD)

lemma ledger_empty [simp]: "ledger_ok []"
  by (simp add: ledger_ok_def bt_invar_def)

lemma bt_insert_entries: "set (bt_insert k v m) \<subseteq> insert (k, v) (set m)"
  by (induction k v m rule: bt_insert.induct) auto

lemma ledger_insert: "ledger_ok m \<Longrightarrow> effect_key e = Some k \<Longrightarrow> ledger_ok (bt_insert k e m)"
  using bt_insert_entries[of k e m] by (fastforce simp: ledger_ok_def list_all_iff bt_insert_invar)

lemma bt_remove_entries: "set (bt_remove k m) \<subseteq> set m"
  by (induction k m rule: bt_remove.induct) auto

lemma ledger_remove: "ledger_ok m \<Longrightarrow> ledger_ok (bt_remove k m)"
  using bt_remove_entries[of k m] by (fastforce simp: ledger_ok_def list_all_iff bt_remove_invar)

text \<open>The specification: the acknowledged key leaves, the keys of the new effects enter.\<close>

definition issued :: "effect list \<Rightarrow> string \<rightharpoonup> effect" where
  "issued es k = List.find (\<lambda>e. effect_key e = Some k) es"

definition ledger_after :: "effect list \<Rightarrow> string option \<Rightarrow> (string \<rightharpoonup> effect) \<Rightarrow> (string \<rightharpoonup> effect)" where
  "ledger_after es ack m = (case ack of Some k \<Rightarrow> m(k := None) | None \<Rightarrow> m) ++ issued es"

lemma record_effects_spec:
  assumes "record_effects es m = Inr m'" "ledger_ok m"
  shows "ledger_ok m' \<and> map_of m' = map_of m ++ issued es
    \<and> (\<forall>e \<in> set es. \<forall>k. effect_key e = Some k \<longrightarrow> map_of m' k = Some e)
    \<and> (\<forall>k e. map_of m k = Some e \<longrightarrow> map_of m' k = Some e)"
  using assms
proof (induction es arbitrary: m)
  case Nil
  then show ?case by (auto simp: issued_def map_add_def)
next
  case (Cons e es)
  show ?case
  proof (cases "effect_key e")
    case None
    have same: "issued (e # es) = issued es" by (rule ext) (simp add: issued_def None)
    have "record_effects es m = Inr m'" using Cons.prems(1) None by simp
    note IH = Cons.IH[OF this Cons.prems(2)]
    have "\<forall>d \<in> set (e # es). \<forall>k. effect_key d = Some k \<longrightarrow> map_of m' k = Some d"
    proof (intro ballI allI impI)
      fix d k
      assume d: "d \<in> set (e # es)" "effect_key d = Some k"
      then have "d \<in> set es" using None by (cases "d = e") simp_all
      then show "map_of m' k = Some d" using IH d(2) by blast
    qed
    then show ?thesis unfolding same using IH by blast
  next
    case (Some k)
    have free: "map_of m k = None \<or> map_of m k = Some e"
      using Cons.prems(1) Some by (auto split: option.splits if_splits)
    then have rest: "record_effects es (bt_insert k e m) = Inr m'"
      using Cons.prems(1) Some by (auto split: option.splits)
    have look: "map_of (bt_insert k e m) = (map_of m)(k \<mapsto> e)"
      using Cons.prems(2) by (simp add: ledger_ok_def bt_insert_look)
    note IH = Cons.IH[OF rest ledger_insert[OF Cons.prems(2) Some]]
    have "map_of (bt_insert k e m) k = Some e" using look by simp
    then have me: "map_of m' k = Some e" using IH by blast
    have eq: "map_of m' = (map_of m)(k \<mapsto> e) ++ issued es" using IH unfolding look by blast
    have "map_of m' = map_of m ++ issued (e # es)"
    proof (rule ext)
      fix j
      have "map_of m' j = ((map_of m)(k \<mapsto> e) ++ issued es) j" using eq by (rule fun_cong)
      moreover have "issued (e # es) j = (if j = k then Some e else issued es j)"
        by (simp add: issued_def Some)
      ultimately show "map_of m' j = (map_of m ++ issued (e # es)) j"
        using me by (cases "j = k"; cases "issued es j") (simp_all add: map_add_def)
    qed
    moreover have "\<forall>j d. map_of m j = Some d \<longrightarrow> map_of m' j = Some d"
      using IH look free by (metis fun_upd_apply option.distinct(1))
    ultimately show ?thesis using IH Some me by auto
  qed
qed

lemma remove_reconstructed_spec:
  "remove_reconstructed k es m = Inr m' \<Longrightarrow> ledger_ok m \<Longrightarrow>
    ledger_ok m' \<and> map_of m' k = map_of m k
    \<and> (\<forall>j. map_of m' j = (if j \<in> set (List.map_filter effect_key es) then None else map_of m j))"
proof (induction es arbitrary: m)
  case (Cons e es)
  then obtain j where j: "effect_key e = Some j" "j \<noteq> k" "remove_reconstructed k es (bt_remove j m) = Inr m'"
    by (auto split: option.splits if_splits)
  have "map_of (bt_remove j m) = (map_of m)(j := None)"
    using Cons.prems(2) by (simp add: ledger_ok_def bt_remove_look)
  then show ?case using Cons.IH[OF j(3) ledger_remove[OF Cons.prems(2)]] j(1,2)
    by (auto simp: map_filter_simps)
qed (simp add: map_filter_simps)

section \<open>Steps of the runtime\<close>

text \<open>What an accepted command did, up to the writes.\<close>

lemma apply_internal_cases:
  assumes "apply_internal env f c at op r = (x, r')"
  obtains (refused) err where "x = Inl err" "rt_processor r' = rt_processor r" "rt_pending r' = rt_pending r"
      "rt_ci_fix_provider_span r' = rt_ci_fix_provider_span r" "rt_store r' = rt_store r"
  | (ran) ack es p m span index bytes where
      "is_iso_utc at" "acknowledgement_key (rt_processor r) c = Inr ack"
      "check_acknowledgement ack c (rt_pending r) = Inr ()"
      "accept (re_lowercase env) c (rt_processor r) = (Inr es, p)"
      "record_effects es (case ack of Some k \<Rightarrow> bt_remove k (rt_pending r) | None \<Rightarrow> rt_pending r) = Inr m"
      "\<exists>i b. append_all (re_outbox env) (fa_appends f) (project_processor_transition (re_uuid env)
          (pr_state (rt_processor r)) (pr_state p) c at) (rt_index r) (rt_events r) = (Inr (), i, b)
        \<and> (case op of None \<Rightarrow> (index, bytes) = (i, b)
           | Some (e, t) \<Rightarrow> append_best_effort (re_outbox env) (project_completed_operations (re_uuid env)
               (pr_state (rt_processor r)) (pr_state p) e c
               (snd (provider_span (pr_state (rt_processor r)) e c t (rt_ci_fix_provider_span r)))) i b
               = (index, bytes))"
      "commit (fa_save f) p m span es (r\<lparr>rt_index := index, rt_events := bytes\<rparr>) = (x, r')"
proof (cases "is_iso_utc at \<and> (\<exists>ack. acknowledgement_key (rt_processor r) c = Inr ack
    \<and> check_acknowledgement ack c (rt_pending r) = Inr ())")
  case False
  then have "\<exists>err. x = Inl err \<and> r' = r"
    using assms by (auto simp: apply_internal_def split: if_splits sum.splits)
  then show thesis using refused by blast
next
  case True
  then obtain ack where iso: "is_iso_utc at" and ack: "acknowledgement_key (rt_processor r) c = Inr ack"
    and chk: "check_acknowledgement ack c (rt_pending r) = Inr ()" by blast
  note body = assms[unfolded apply_internal_def, simplified iso ack chk not_True_eq_False if_False sum.case]
  obtain y p where acc: "accept (re_lowercase env) c (rt_processor r) = (y, p)" by fastforce
  show thesis
  proof (cases y)
    case (Inl e)
    then show ?thesis using body acc by (intro refused) auto
  next
    case es: (Inr es)
    let ?m = "case ack of Some k \<Rightarrow> bt_remove k (rt_pending r) | None \<Rightarrow> rt_pending r"
    show ?thesis
    proof (cases "record_effects es ?m")
      case (Inl e)
      then show ?thesis using body acc es by (intro refused) (auto simp: Let_def)
    next
      case m: (Inr m)
      let ?evs = "project_processor_transition (re_uuid env) (pr_state (rt_processor r)) (pr_state p) c at"
      obtain z i b where app: "append_all (re_outbox env) (fa_appends f) ?evs (rt_index r) (rt_events r) = (z, i, b)"
        by (cases "append_all (re_outbox env) (fa_appends f) ?evs (rt_index r) (rt_events r)") blast
      show ?thesis
      proof (cases z)
        case (Inl e)
        then show ?thesis using body acc es m app by (intro refused) (auto simp: Let_def)
      next
        case (Inr u)
        note rest = body[unfolded acc es prod.case sum.case Let_def, unfolded m app sum.case prod.case Inr]
        have app': "append_all (re_outbox env) (fa_appends f) ?evs (rt_index r) (rt_events r) = (Inr (), i, b)"
          using app Inr by simp
        show ?thesis
        proof (cases op)
          case None
          show ?thesis
            by (rule ran[OF iso ack chk _ m, where index = i and bytes = b])
              (use acc es app' rest None in simp_all)
        next
          case (Some o')
          obtain e t where o': "o' = (e, t)" by fastforce
          obtain span t' where sp: "provider_span (pr_state (rt_processor r)) e c t (rt_ci_fix_provider_span r) = (span, t')"
            by fastforce
          obtain i' b' where be: "append_best_effort (re_outbox env)
              (project_completed_operations (re_uuid env) (pr_state (rt_processor r)) (pr_state p) e c t') i b = (i', b')" by fastforce
          show ?thesis
            by (rule ran[OF iso ack chk _ m, where index = i' and bytes = b' and span = span])
              (use acc es app' rest Some o' sp be in simp_all)
        qed
      qed
    qed
  qed
qed

lemma commit_cases:
  assumes "commit w p m span a r = (x, r')"
  obtains (saved) "w = Saved" "x = Inr a" "r' = adopt p m span (r\<lparr>rt_store := Some
      \<lparr>rc_schema_version = runtime_state_version, rc_processor = pr_state p, rc_pending = m,
       rc_ci_fix_provider_span = span\<rparr>\<rparr>)"
  | (failed) "w = NotSaved" "x = Inl CheckpointFailed" "r' = r"
  | (unsynced) "w = Unsynced" "x = Inl CheckpointFailed" "r' = r\<lparr>rt_store := Some
      \<lparr>rc_schema_version = runtime_state_version, rc_processor = pr_state p, rc_pending = m,
       rc_ci_fix_provider_span = span\<rparr>\<rparr>"
  using assms by (cases w) (simp_all add: commit_def persist_def)

text \<open>The durable document describes a state and a ledger the runtime can resume.\<close>

definition doc_ok :: "processor_config \<Rightarrow> runtime_checkpoint \<Rightarrow> bool" where
  "doc_ok cfg d \<longleftrightarrow>
    rc_schema_version d = runtime_state_version \<and> ledger_ok (rc_pending d)
    \<and> reducer_inv cfg (rc_processor d) \<and> keyed_tasks (rc_processor d)"

definition engine_inv :: "processor_config \<Rightarrow> 'd runtime \<Rightarrow> bool" where
  "engine_inv cfg r \<longleftrightarrow>
    named_inv cfg (rt_processor r) \<and> ledger_ok (rt_pending r)
    \<and> (case rt_store r of None \<Rightarrow> True | Some d \<Rightarrow> doc_ok cfg d)"

lemma engine_invI:
  assumes "rt_processor r' = rt_processor r" "rt_pending r' = rt_pending r" "rt_store r' = rt_store r"
  shows "engine_inv cfg r' = engine_inv cfg r"
  using assms by (simp add: engine_inv_def)

lemma commit_inv:
  assumes "commit w p m span a r = (x, r')" "engine_inv cfg r" "named_inv cfg p" "ledger_ok m"
  shows "engine_inv cfg r'"
  using assms(1)
  by (cases rule: commit_cases)
    (use assms(2-4) in \<open>auto simp: engine_inv_def adopt_def doc_ok_def named_inv_def proc_inv_def\<close>)

lemma acknowledged_ledger:
  "ledger_ok m \<Longrightarrow> ledger_ok (case ack of Some k \<Rightarrow> bt_remove k m | None \<Rightarrow> m)"
  by (simp add: ledger_remove split: option.splits)

lemma apply_internal_inv:
  assumes "apply_internal env f c at op r = (x, r')" "engine_inv cfg r"
  shows "engine_inv cfg r'"
  using assms(1)
proof (cases rule: apply_internal_cases)
  case refused
  then show ?thesis using engine_invI assms(2) by blast
next
  case (ran ack es p m span index bytes)
  have "ledger_ok m"
    using record_effects_spec[OF ran(5) acknowledged_ledger] assms(2) by (simp add: engine_inv_def)
  moreover have "named_inv cfg p" using accept_named[OF ran(4)] assms(2) by (simp add: engine_inv_def)
  moreover have "engine_inv cfg (r\<lparr>rt_index := index, rt_events := bytes\<rparr>)"
    using assms(2) by (simp add: engine_inv_def)
  ultimately show ?thesis using commit_inv[OF ran(7)] by blast
qed

lemma complete_effect_inv:
  assumes "complete_effect w k r = (x, r')" "engine_inv cfg r"
  shows "engine_inv cfg r'"
proof (cases "map_of (rt_pending r) k")
  case None
  then show ?thesis using assms by (simp add: complete_effect_def)
next
  case (Some e)
  obtain y s where a: "acknowledge_non_command_effect e (pr_state (rt_processor r)) = (y, s)" by fastforce
  show ?thesis
  proof (cases y)
    case (Inl err)
    then show ?thesis using assms a Some by (simp add: complete_effect_def)
  next
    case (Inr u)
    then have "commit w ((rt_processor r)\<lparr>pr_state := s\<rparr>) (bt_remove k (rt_pending r))
        (rt_ci_fix_provider_span r) () r = (x, r')"
      using assms(1) a Some by (simp add: complete_effect_def)
    then show ?thesis
      using commit_inv assms(2) acknowledged_named[OF a[unfolded Inr]] ledger_remove
      by (metis engine_inv_def)
  qed
qed

lemma record_session_inv:
  assumes "record_session w i u r = (x, r')" "engine_inv cfg r"
  shows "engine_inv cfg r'"
proof -
  obtain y s where a: "record_leaf_session i u (pr_state (rt_processor r)) = (y, s)" by fastforce
  show ?thesis
  proof (cases y)
    case (Inl err)
    then show ?thesis using assms a by (simp add: record_session_def)
  next
    case (Inr v)
    then have "commit w ((rt_processor r)\<lparr>pr_state := s\<rparr>) (rt_pending r) (rt_ci_fix_provider_span r) () r = (x, r')"
      using assms(1) a by (simp add: record_session_def)
    then show ?thesis using commit_inv assms(2) session_named[OF a[unfolded Inr]] by (metis engine_inv_def)
  qed
qed

lemma supersede_cases:
  assumes "supersede_recovery_effects_with_pending w e es r = (x, r')"
  obtains (refused) err where "x = Inl err" "r' = r"
  | (ran) k m where "effect_key e = Some k" "map_of (rt_pending r) k = Some e"
      "remove_reconstructed k es (rt_pending r) = Inr m"
      "commit w (rt_processor r) m (rt_ci_fix_provider_span r) () r = (x, r')"
  using assms
  by (auto simp: supersede_recovery_effects_with_pending_def split: option.splits if_splits sum.splits)

lemma supersede_inv:
  assumes "supersede_recovery_effects_with_pending w e es r = (x, r')" "engine_inv cfg r"
  shows "engine_inv cfg r'"
  using assms(1)
proof (cases rule: supersede_cases)
  case (ran k m)
  have "ledger_ok m" using remove_reconstructed_spec[OF ran(3)] assms(2) by (simp add: engine_inv_def)
  moreover have "named_inv cfg (rt_processor r)" using assms(2) by (simp add: engine_inv_def)
  ultimately show ?thesis using commit_inv[OF ran(4) assms(2)] by blast
qed (use assms(2) in simp)

lemma supersede_reconcile_inv:
  assumes "supersede_reconcile_with_pending_task_effect w e r = (x, r')" "engine_inv cfg r"
  shows "engine_inv cfg r'"
proof -
  from assms(1) have "r' = r \<or> (\<exists>i. supersede_recovery_effects_with_pending w e [Reconcile i] r = (x, r'))"
    by (auto simp: supersede_reconcile_with_pending_task_effect_def Let_def split: option.splits if_splits)
  then show ?thesis using supersede_inv assms(2) by blast
qed

lemma ledger_checks: "each_res check_ledger_entry m = Inr u \<longleftrightarrow> list_all (\<lambda>(k, e). effect_key e = Some k) m"
proof -
  have "check_ledger_entry x = Inr () \<longleftrightarrow> (case x of (k, e) \<Rightarrow> effect_key e = Some k)" for x
    by (cases x; cases "effect_key (snd x)") (auto simp: check_ledger_entry_def)
  then show ?thesis by (simp add: each_res_Inr list_all_iff)
qed

lemma resume_inv:
  assumes "runtime_resume cfg store events = Inr r" "case store of None \<Rightarrow> True | Some d \<Rightarrow> doc_ok cfg d"
  shows "engine_inv cfg r"
proof (cases store)
  case None
  then show ?thesis
    using assms(1) new_named[of cfg]
    by (cases "processor_new cfg") (auto simp: runtime_resume_def runtime_new_def runtime_of_def engine_inv_def)
next
  case (Some d)
  then obtain p where p: "from_checkpoint cfg (rc_processor d) = Inr p"
      "r = runtime_of p (rc_pending d) (rc_ci_fix_provider_span d) store events"
    using assms(1) Some
    by (cases "from_checkpoint cfg (rc_processor d)") (auto simp: runtime_resume_def)
  then show ?thesis using checkpoint_named[OF p(1)] assms(2) Some by (simp add: engine_inv_def runtime_of_def doc_ok_def)
qed

section \<open>Runs of the engine\<close>

text \<open>
  A native run: a fresh start, then operations with any outcome, and restarts from what the last
  process left on disk, with any event file.
\<close>

inductive engine_run :: "'d runtime_env \<Rightarrow> processor_config \<Rightarrow> 'd runtime \<Rightarrow> bool" for env cfg where
  start: "runtime_new cfg None events = Inr r \<Longrightarrow> engine_run env cfg r"
| applied: "engine_run env cfg r \<Longrightarrow> apply_internal env f c at op r = (x, r') \<Longrightarrow> engine_run env cfg r'"
| completed: "engine_run env cfg r \<Longrightarrow> complete_effect w k r = (y, r') \<Longrightarrow> engine_run env cfg r'"
| session: "engine_run env cfg r \<Longrightarrow> record_session w i u r = (y, r') \<Longrightarrow> engine_run env cfg r'"
| superseded: "engine_run env cfg r \<Longrightarrow> supersede_recovery_effects_with_pending w e es r = (y, r')
    \<Longrightarrow> engine_run env cfg r'"
| reconciled: "engine_run env cfg r \<Longrightarrow> supersede_reconcile_with_pending_task_effect w e r = (y, r')
    \<Longrightarrow> engine_run env cfg r'"
| restarted: "engine_run env cfg r \<Longrightarrow> runtime_resume cfg (rt_store r) events = Inr r' \<Longrightarrow> engine_run env cfg r'"

lemma engine_run_inv: "engine_run env cfg r \<Longrightarrow> engine_inv cfg r"
proof (induction rule: engine_run.induct)
  case (start events r)
  then show ?case using resume_inv[of cfg None events r] by (simp add: runtime_resume_def)
next
  case (restarted r events r')
  then show ?case using resume_inv by (auto simp: engine_inv_def)
qed (blast intro: apply_internal_inv complete_effect_inv record_session_inv supersede_inv supersede_reconcile_inv)+

end
