(* ===== verification/EngineScenario.thy ===== *)
theory EngineScenario
  imports RuntimeInv Scenario
begin

text \<open>
  The runtime through the first steps of a cohort: start, recovery, the journal effect, the opening
  of a cohort with its event, and the answer of the dependency curator. The codec prints an event as
  its identifier and reads back the one event of the scenario.
\<close>

definition demo_time :: string where "demo_time = ''2024-05-01T10:00:00Z''"

definition demo_uuid :: "string \<Rightarrow> string" where
  "demo_uuid s = CHR ''u'' # replicate (length s) CHR ''x''"

definition demo_event :: event where
  "demo_event = event_of demo_uuid CohortOpened (Some ''B-1'') None None None ''open'' demo_time"

definition demo_text :: "json \<Rightarrow> string" where
  "demo_text v =
    (case as_object v of
       Some m \<Rightarrow> (case map_of m ''event_id'' of Some (JStr s) \<Rightarrow> s | _ \<Rightarrow> ''?'')
     | None \<Rightarrow> ''?'')"

definition demo_from_str :: "string \<Rightarrow> string + json" where
  "demo_from_str s = (if s = ev_id demo_event then Inr (event_value demo_event) else Inl ''unknown'')"

definition demo_outbox :: "string outbox_env" where
  "demo_outbox = \<lparr>oe_from_str = demo_from_str, oe_to_text = demo_text, oe_digest = id\<rparr>"

definition demo_env :: "string runtime_env" where
  "demo_env = \<lparr>re_outbox = demo_outbox, re_uuid = demo_uuid, re_lowercase = id\<rparr>"

definition all_well :: faults where
  "all_well = \<lparr>fa_appends = None, fa_save = Saved\<rparr>"

definition image :: "'d runtime \<Rightarrow> runtime_checkpoint" where
  "image r = \<lparr>rc_schema_version = runtime_state_version, rc_processor = pr_state (rt_processor r),
     rc_pending = rt_pending r, rc_ci_fix_provider_span = rt_ci_fix_provider_span r\<rparr>"

text \<open>Memory and checkpoint agree.\<close>

definition synced ::
    "processor \<Rightarrow> ledger \<Rightarrow> string cached_index \<Rightarrow> string \<Rightarrow> string runtime" where
  "synced p m i b =
    \<lparr>rt_processor = p, rt_pending = m, rt_ci_fix_provider_span = None, rt_index = i,
     rt_store = Some \<lparr>rc_schema_version = runtime_state_version, rc_processor = pr_state p,
       rc_pending = m, rc_ci_fix_provider_span = None\<rparr>, rt_events = b\<rparr>"

definition eng0 :: "string runtime" where "eng0 = runtime_of demo0 [] None None []"

definition eng1 :: "string runtime" where
  "eng1 = synced demo1 [(''write-journal-and-status'', WriteJournalAndStatus)] empty_index []"

definition eng2 :: "string runtime" where "eng2 = synced demo1 [] empty_index []"

definition demo_index :: "string cached_index" where
  "demo_index = \<lparr>ci_committed_len = length (ev_id demo_event) + 1, ci_committed_lines = 1,
     ci_semantic_by_id = [(ev_id demo_event, ev_id demo_event)]\<rparr>"

definition eng3 :: "string runtime" where
  "eng3 = synced demo2 [(''dispatch-dependency-curator:cohort-open'', DispatchDependencyCurator refresh_boundary.CohortOpen)]
     demo_index (ev_id demo_event @ [nl])"

definition eng4 :: "string runtime" where
  "eng4 = synced demo3 [(''reconcile-inbox'', ReconcileInbox 3)] demo_index (ev_id demo_event @ [nl])"

lemma demo_iso [simp]: "is_iso_utc demo_time"
  unfolding demo_time_def by code_simp

lemma strip_any_None: "strip_any ps s = None \<longleftrightarrow> list_all (\<lambda>p. strip_prefix p s = None) ps"
  by (induction ps) (auto split: option.splits)

lemma strip_prefix_Cons: "strip_prefix (a # p) (c # s) = (if a = c then strip_prefix p s else None)"
  by (simp add: strip_prefix_def)

lemma replicate_ws [simp]: "\<not> contains_ws (CHR ''u'' # replicate n CHR ''x'')"
proof -
  have step: "c = CHR ''u'' \<or> c = CHR ''x'' \<Longrightarrow> strip_any ws_codes (c # r) = None" for c r
    unfolding strip_any_None ws_codes_def list.pred_inject by (elim disjE; simp add: strip_prefix_Cons)
  have "\<not> contains_ws (replicate n CHR ''x'')" by (induction n) (simp_all add: step)
  then show ?thesis by (simp add: step)
qed

lemma demo_uuid_ok [simp]: "uuid_ok demo_uuid"
  unfolding uuid_ok_def demo_uuid_def using replicate_ws by blast

lemma demo_id: "ev_id demo_event = CHR ''u'' # replicate 23 CHR ''x''"
  by (simp add: demo_event_def event_of_def event_with_payload_def demo_uuid_def event_type_as_str_def or_default_def
      eval_nat_numeral)

lemma demo_event_valid [simp]: "valid_event demo_event"
  unfolding demo_event_def by (rule event_of_valid) (simp_all add: strip_prefix_def)

lemma demo_line: "to_json_line demo_text demo_event = ev_id demo_event"
  by (simp add: to_json_line_def demo_text_def event_value_def as_object_def Let_def demo_event_def event_of_def
      event_with_payload_def)

lemma demo_codec [simp]: "codec_ok demo_outbox demo_event"
proof -
  have "utf8_ok (ev_id demo_event) \<and> trim (ev_id demo_event) = ev_id demo_event"
    unfolding demo_id by code_simp
  moreover have "nl \<notin> set (ev_id demo_event)" "length (ev_id demo_event) \<le> max_event_line_bytes"
    by (simp_all add: demo_id max_event_line_bytes_def)
  ultimately show ?thesis by (simp add: codec_ok_def demo_outbox_def demo_line demo_from_str_def) (simp add: demo_id)
qed

lemma eng_step1:
  "apply_internal demo_env all_well (Recover []) demo_time None eng0 =
    (Inr [PersistCheckpoint, WriteJournalAndStatus], eng1)"
proof -
  have none: "project_processor_transition u (pr_state demo0) (pr_state demo1) (Recover []) t = []" for u t
    by (simp add: project_processor_transition_def demo_defs eval_defs opened_events_def round_started_events_def
        admission_closed_events_def join_events_def published_events_def round_closed_events_def closed_events_def
        is_closed_def is_open_def Let_def)
  show ?thesis
    by (simp add: apply_internal_def eng0_def runtime_of_def check_acknowledgement_def demo_env_def demo_step1 none
        all_well_def commit_def persist_def adopt_def eng1_def synced_def)
qed

lemma eng_step2: "acknowledge_effect Saved WriteJournalAndStatus eng1 = (Inr (), eng2)"
  by (simp add: acknowledge_effect_def complete_effect_def eng1_def eng2_def synced_def commit_def persist_def adopt_def
      acknowledge_non_command_effect_def demo_defs eval_defs)

lemma demo_outbox_fields:
  "oe_to_text demo_outbox = demo_text" "oe_from_str demo_outbox = demo_from_str" "oe_digest demo_outbox = id"
  by (simp_all add: demo_outbox_def)

lemma empty_index_fields:
  "ci_committed_len empty_index = 0" "ci_committed_lines empty_index = 0" "ci_semantic_by_id empty_index = []"
  "empty_index\<lparr>ci_committed_len := n, ci_committed_lines := k, ci_semantic_by_id := m\<rparr>
    = \<lparr>ci_committed_len = n, ci_committed_lines = k, ci_semantic_by_id = m\<rparr>"
  by (simp_all add: empty_index_def)

lemma demo_fingerprint: "semantic_fingerprint demo_outbox demo_event = ev_id demo_event"
  by (simp add: semantic_fingerprint_def demo_outbox_def to_json_line_def demo_text_def event_value_def
        as_object_def Let_def demo_event_def event_of_def event_with_payload_def)

lemma demo_append: "append_idempotent demo_outbox empty_index [] demo_event =
    (Inr Appended, demo_index, ev_id demo_event @ [nl])"
proof -
  have "index_of demo_outbox [] = Inr empty_index" by (simp add: index_of_def bind_res_def empty_index_def)
  moreover have "semantic_fingerprint demo_outbox demo_event = ev_id demo_event"
    by (rule demo_fingerprint)
  ultimately show ?thesis
    using append_eval[of demo_outbox empty_index "[]" 0 demo_event]
    by (simp add: committed_prefix_len_def demo_index_def demo_outbox_fields demo_line demo_id empty_index_fields
        u64_max_def sat_add64_def)
qed

lemma demo_opened: "project_processor_transition demo_uuid (pr_state demo1) (pr_state demo2) (Open ''B-1'' ''main'' 1000)
      demo_time = [demo_event]"
  by (simp add: project_processor_transition_def demo_defs eval_defs opened_events_def round_started_events_def
        admission_closed_events_def join_events_def published_events_def round_closed_events_def closed_events_def
        is_closed_def is_open_def Let_def demo_event_def)

lemma eng_step3:
  "apply_internal demo_env all_well (Open ''B-1'' ''main'' 1000) demo_time None eng2 =
    (Inr [PersistCheckpoint, DispatchDependencyCurator refresh_boundary.CohortOpen], eng3)"
proof -
  show ?thesis
    by (simp add: apply_internal_def eng2_def check_acknowledgement_def demo_env_def demo_step2 demo_opened demo_append
        all_well_def commit_def persist_def adopt_def eng3_def synced_def refresh_boundary_as_str_def)
qed

lemma eng_step4:
  "apply_internal demo_env all_well
     (DependencyGraphRefreshed refresh_boundary.CohortOpen (leaf_outcome.Completed None)) demo_time None eng3 =
    (Inr [PersistCheckpoint, ReconcileInbox 3], eng4)"
proof -
  have none: "project_processor_transition u (pr_state demo2) (pr_state demo3)
      (DependencyGraphRefreshed refresh_boundary.CohortOpen (leaf_outcome.Completed None)) t = []" for u t
    by (simp add: project_processor_transition_def demo_defs eval_defs opened_events_def round_started_events_def
        admission_closed_events_def join_events_def published_events_def round_closed_events_def closed_events_def
        is_closed_def is_open_def Let_def)
  show ?thesis
    by (simp add: apply_internal_def eng3_def check_acknowledgement_def demo_env_def demo_step3 none
        all_well_def commit_def persist_def adopt_def eng4_def synced_def refresh_boundary_as_str_def)
qed

lemma eng_run0: "engine_run env default_config eng0"
proof -
  have "runtime_new default_config None [] = Inr eng0"
    by (simp add: runtime_new_def demo_new eng0_def)
  then show ?thesis by (rule engine_run.start)
qed

lemma eng_run1: "engine_run demo_env default_config eng1"
  by (rule engine_run.applied[OF eng_run0 eng_step1])

lemma eng_run2: "engine_run demo_env default_config eng2"
  by (rule engine_run.completed[OF eng_run1, where w = Saved and y = "Inr ()"])
    (use eng_step2 in \<open>simp add: acknowledge_effect_def\<close>)

lemma eng_run3: "engine_run demo_env default_config eng3"
  by (rule engine_run.applied[OF eng_run2 eng_step3])

lemma eng_run4: "engine_run demo_env default_config eng4"
  by (rule engine_run.applied[OF eng_run3 eng_step4])

end
