(* ===== verification/OutboxProps.thy ===== *)
theory OutboxProps
  imports EngineScenario
begin

text \<open>
  What the event file promises: its cache is a cache, a committed line never changes, an append can
  be replayed after a crash, and what an append recorded is found by every later start.
\<close>

section \<open>Committed history\<close>

lemma prefix_terminated: "terminated xs \<Longrightarrow> committed_prefix_len xs = Inr (length xs)"
  using committed_prefix_torn[of xs "[]"] by simp

lemma prefix_again: "committed_prefix_len bytes = Inr n \<Longrightarrow> committed_prefix_len (take n bytes) = Inr n"
  using prefix_terminated[of "take n bytes"] committed_prefix[of bytes n] by (simp add: min_absorb2)

text \<open>An append leaves the committed bytes in place.\<close>

definition extends :: "string \<Rightarrow> string \<Rightarrow> bool" where
  "extends bytes bytes' \<longleftrightarrow>
    (\<forall>n. committed_prefix_len bytes = Inr n \<longrightarrow>
      (\<exists>n'. committed_prefix_len bytes' = Inr n' \<and> n \<le> n' \<and> take n bytes' = take n bytes))"

lemma extends_refl [simp]: "extends b b"
  by (simp add: extends_def)

lemma extends_trans: "extends a b \<Longrightarrow> extends b c \<Longrightarrow> extends a c"
proof (unfold extends_def, intro allI impI)
  fix n
  assume ab: "\<forall>n. committed_prefix_len a = Inr n \<longrightarrow>
      (\<exists>n'. committed_prefix_len b = Inr n' \<and> n \<le> n' \<and> take n b = take n a)"
    and bc: "\<forall>n. committed_prefix_len b = Inr n \<longrightarrow>
      (\<exists>n'. committed_prefix_len c = Inr n' \<and> n \<le> n' \<and> take n c = take n b)"
    and "committed_prefix_len a = Inr n"
  then obtain k where k: "committed_prefix_len b = Inr k" "n \<le> k" "take n b = take n a" by blast
  then obtain l where l: "committed_prefix_len c = Inr l" "k \<le> l" "take k c = take k b" using bc by blast
  have "take n c = take n (take k c)" using k(2) by (simp add: min_absorb1)
  also have "\<dots> = take n b" using k(2) l(3) by (simp add: min_absorb1)
  finally show "\<exists>n'. committed_prefix_len c = Inr n' \<and> n \<le> n' \<and> take n c = take n a"
    using k l by auto
qed

lemma extends_line: "committed_prefix_len b = Inr n \<Longrightarrow> extends b (take n b @ xs @ [nl])"
proof -
  assume n: "committed_prefix_len b = Inr n"
  have "committed_prefix_len (take n b @ xs @ [nl]) = Inr (length (take n b @ xs @ [nl]))"
    by (rule prefix_terminated) simp
  then show ?thesis using n committed_prefix(1)[OF n] by (simp add: extends_def)
qed

lemma append_extends:
  assumes "append_idempotent env i b e = (r, i', b')"
  shows "extends b b'"
proof (cases "committed_prefix_len b")
  case (Inl err)
  then show ?thesis by (simp add: extends_def)
next
  case (Inr n)
  have "b' = b \<or> b' = take n b \<or> (\<exists>xs. b' = take n b @ xs @ [nl])"
    using assms Inr
    by (auto simp: append_idempotent_def Let_def split: sum.splits option.splits if_splits)
  then show ?thesis
    using Inr prefix_again[OF Inr] extends_line[OF Inr]
    by (elim disjE exE) (simp_all add: extends_def)
qed

lemma append_all_extends: "append_all env k es i b = (r, i', b') \<Longrightarrow> extends b b'"
proof (induction es arbitrary: k i b)
  case (Cons e es)
  obtain x j c where a: "append_idempotent env i b e = (x, j, c)" by (cases "append_idempotent env i b e") blast
  then show ?case using Cons append_extends[OF a] extends_trans by (cases x) (auto split: if_splits)
qed simp

lemma best_effort_extends: "append_best_effort env es i b = (i', b') \<Longrightarrow> extends b b'"
proof (induction es arbitrary: i b)
  case (Cons e es)
  obtain x j c where a: "append_idempotent env i b e = (x, j, c)" by (cases "append_idempotent env i b e") blast
  then show ?case using Cons append_extends[OF a] extends_trans by fastforce
qed simp

section \<open>Recorded events\<close>

text \<open>A process that starts now and reads the file finds the event.\<close>

definition recorded :: "'d outbox_env \<Rightarrow> string \<Rightarrow> event \<Rightarrow> bool" where
  "recorded env bytes e \<longleftrightarrow>
    (\<exists>n i. committed_prefix_len bytes = Inr n \<and> index_of env (take n bytes) = Inr i
       \<and> map_of (ci_semantic_by_id i) (ev_id e) = Some (semantic_fingerprint env e))"

definition readable :: "'d outbox_env \<Rightarrow> event \<Rightarrow> bool" where
  "readable env e \<longleftrightarrow> codec_ok env e \<and> valid_event e"

lemma recorded_terminated:
  "terminated b \<Longrightarrow> recorded env b e \<longleftrightarrow> (\<exists>i. index_of env b = Inr i
     \<and> map_of (ci_semantic_by_id i) (ev_id e) = Some (semantic_fingerprint env e))"
  by (simp add: recorded_def prefix_terminated)

lemma append_recorded:
  assumes "consistent env i b" "readable env e" "append_idempotent env i b e = (r, i', b')"
  shows "recorded env b d \<Longrightarrow> recorded env b' d"
    and "r = Inr outcome \<Longrightarrow> recorded env b' e \<and> terminated b' \<and> index_of env b' = Inr i'"
proof -
  have both: "(recorded env b d \<longrightarrow> recorded env b' d)
    \<and> (r = Inr outcome \<longrightarrow> recorded env b' e \<and> terminated b' \<and> index_of env b' = Inr i')"
  proof (cases "committed_prefix_len b")
    case (Inl err)
    then show ?thesis using assms(3) by (auto simp: append_idempotent_def)
  next
    case (Inr n)
    note eval = append_eval[OF assms(1) Inr, of e]
    note p = committed_prefix[OF Inr]
    show ?thesis
    proof (cases "index_of env (take n b)")
      case (Inl err)
      then show ?thesis using assms(3) eval by auto
    next
      case idx: (Inr j)
      have old: "recorded env b d \<longleftrightarrow> map_of (ci_semantic_by_id j) (ev_id d) = Some (semantic_fingerprint env d)" for d
        using Inr idx by (simp add: recorded_def)
      have same: "recorded env (take n b) d = recorded env b d" for d
        using p(2) idx by (simp add: recorded_terminated old)
      show ?thesis
      proof (cases "map_of (ci_semantic_by_id j) (ev_id e)")
        case (Some fp)
        then show ?thesis using assms(3) eval idx same old p(2) by (auto split: if_splits)
      next
        case None
        let ?line = "to_json_line (oe_to_text env) e @ [nl]"
        have cv: "codec_ok env e" "valid_event e" using assms(2) by (simp_all add: readable_def)
        note new = index_of_appended[OF p(2) idx cv None]
        have b': "b' = take n b @ ?line" and i': "r = Inr outcome \<Longrightarrow> index_of env b' = Inr i'"
          using assms(3) eval idx None new p(1) by (auto simp: Let_def min_absorb2 split: if_splits)
        have t: "terminated b'" unfolding b' by simp
        have keep: "recorded env b' d \<longleftrightarrow> (if ev_id d = ev_id e then semantic_fingerprint env d = semantic_fingerprint env e
            else recorded env b d)" for d
          unfolding recorded_terminated[OF t] unfolding b' new by (auto simp: old)
        have "recorded env b d \<Longrightarrow> ev_id d \<noteq> ev_id e" using old None by auto
        then show ?thesis using keep t i' by auto
      qed
    qed
  qed
  show "recorded env b d \<Longrightarrow> recorded env b' d" using both by blast
  show "r = Inr outcome \<Longrightarrow> recorded env b' e \<and> terminated b' \<and> index_of env b' = Inr i'" using both by blast
qed

lemma append_all_recorded:
  assumes "append_all env k es i b = (Inr u, i', b')" "consistent env i b" "list_all (readable env) es"
  shows "consistent env i' b' \<and> (\<forall>e \<in> set es. recorded env b' e) \<and> (\<forall>d. recorded env b d \<longrightarrow> recorded env b' d)"
  using assms
proof (induction es arbitrary: k i b)
  case (Cons e es)
  obtain x j c where a: "append_idempotent env i b e = (x, j, c)" by (cases "append_idempotent env i b e") blast
  then obtain y where y: "x = Inr y" "append_all env (map_option (\<lambda>n. n - 1) k) es j c = (Inr u, i', b')"
    using Cons.prems(1) by (cases x) (auto split: if_splits)
  have e: "readable env e" "list_all (readable env) es" using Cons.prems(3) by simp_all
  have j: "consistent env j c" using append_consistent[OF Cons.prems(2) _ _ a] e(1) by (simp add: readable_def)
  note IH = Cons.IH[OF y(2) j e(2)]
  note rec = append_recorded[OF Cons.prems(2) e(1) a]
  show ?case using IH rec(1) rec(2)[OF y(1)] by auto
qed simp

lemma best_effort_recorded:
  assumes "append_best_effort env es i b = (i', b')" "consistent env i b" "list_all (readable env) es"
  shows "consistent env i' b' \<and> (\<forall>d. recorded env b d \<longrightarrow> recorded env b' d)"
  using assms
proof (induction es arbitrary: i b)
  case (Cons e es)
  obtain x j c where a: "append_idempotent env i b e = (x, j, c)" by (cases "append_idempotent env i b e") blast
  have e: "readable env e" "list_all (readable env) es" using Cons.prems(3) by simp_all
  have j: "consistent env j c" using append_consistent[OF Cons.prems(2) _ _ a] e(1) by (simp add: readable_def)
  have "append_best_effort env es j c = (i', b')" using Cons.prems(1) a by simp
  note IH = Cons.IH[OF this j e(2)]
  show ?case using IH append_recorded(1)[OF Cons.prems(2) e(1) a] by blast
qed simp


section \<open>Properties\<close>

text \<open>
  The cached index of a process is only a cache: an append through an index that describes a
  committed prefix of the file has the same result and leaves the same bytes as an append by a
  process that has just started and reads the whole file, whatever other processes appended in between.
\<close>

lemma cache_matches_cold_start:
  assumes "consistent env i bytes"
    and "append_idempotent env i bytes e = (r, i', bytes')"
  shows "\<exists>j. append_idempotent env empty_index bytes e = (r, j, bytes')"
proof (cases "committed_prefix_len bytes")
  case (Inl err)
  then show ?thesis using assms(2) by (auto simp: append_idempotent_def)
next
  case (Inr n)
  have "append_idempotent env empty_index bytes e = append_idempotent env i bytes e"
    using append_eval[OF assms(1) Inr, of e] append_eval[OF consistent_empty Inr, of env e] by simp
  then show ?thesis using assms(2) by auto
qed

lemma cache_matches_cold_start_witness:
  "\<exists>j. append_idempotent demo_outbox empty_index (ev_id demo_event @ [nl]) demo_event
    = (Inr AlreadyPresent, j, ev_id demo_event @ [nl])"
proof -
  have c: "consistent demo_outbox demo_index (ev_id demo_event @ [nl])"
    by (rule append_consistent[OF consistent_empty demo_codec demo_event_valid demo_append])
  have p: "committed_prefix_len (ev_id demo_event @ [nl]) = Inr (length (ev_id demo_event @ [nl]))"
    by (rule prefix_terminated) (simp add: terminated_def)
  have "append_idempotent demo_outbox demo_index (ev_id demo_event @ [nl]) demo_event
      = (Inr AlreadyPresent, demo_index, ev_id demo_event @ [nl])"
    using p demo_fingerprint
    by (simp add: append_idempotent_def Let_def scan_committed_history_def demo_index_def)
  then show ?thesis by (rule cache_matches_cold_start[OF c])
qed



text \<open>
  The event file has no bound on what it writes, only on what it reads: after a line longer than
  the limit has been appended, which succeeds, every append by a process that starts afterwards
  fails, whatever its event.
\<close>

lemma overlong_event_blocks_later_processes:
  assumes "consistent env i bytes" "append_idempotent env i bytes e = (Inr Appended, i', bytes')"
    and "nl \<notin> set (to_json_line (oe_to_text env) e)"
    and "max_event_line_bytes < length (to_json_line (oe_to_text env) e)"
  shows "\<exists>j. append_idempotent env empty_index bytes' d =
    (Inl (OutboxIo ''events.jsonl record exceeds 1048576 byte limit''), j, bytes')"
proof -
  let ?line = "to_json_line (oe_to_text env) e"
  obtain n where n: "committed_prefix_len bytes = Inr n"
    using assms(2) by (cases "committed_prefix_len bytes") (simp_all add: append_idempotent_def)
  note p = committed_prefix[OF n]
  obtain k where k: "index_of env (take n bytes) = Inr k"
    using assms(2) append_eval[OF assms(1) n, of e] by (cases "index_of env (take n bytes)") simp_all
  have b: "bytes' = take n bytes @ ?line @ [nl]"
    using assms(2) append_eval[OF assms(1) n, of e] k by (auto simp: Let_def split: option.splits if_splits)
  have t: "terminated bytes'" unfolding b by simp
  obtain x where "scan_committed_range env (take n bytes) empty_index = Inr x"
    using k by (auto simp: index_of_def)
  then have "index_of env bytes' = Inl (OutboxIo ''events.jsonl record exceeds 1048576 byte limit'')"
    unfolding b index_of_def scan_append[OF p(2)]
    using assms(4) scan_line_step[OF assms(3), of env "[]"] by (simp add: bind_res_def)
  then show ?thesis using append_eval[OF consistent_empty prefix_terminated[OF t], of env d] by simp
qed

lemma overlong_event_blocks_later_processes_witness:
  "\<exists>env :: nat outbox_env. \<exists>i bytes. append_idempotent env empty_index [] demo_event = (Inr Appended, i, bytes)
    \<and> (\<forall>d. \<exists>j. append_idempotent env empty_index bytes d =
         (Inl (OutboxIo ''events.jsonl record exceeds 1048576 byte limit''), j, bytes))"
proof -
  let ?env = "\<lparr>oe_from_str = (\<lambda>_. Inl ''unknown''), oe_to_text = (\<lambda>_. replicate (max_event_line_bytes + 1) CHR ''x''),
    oe_digest = (\<lambda>_. 0 :: nat)\<rparr>"
  have "committed_prefix_len [] = Inr 0" "index_of ?env [] = Inr empty_index"
    by (simp_all add: committed_prefix_len_def index_of_def bind_res_def empty_index_def)
  then obtain i bytes where a: "append_idempotent ?env empty_index [] demo_event = (Inr Appended, i, bytes)"
    using append_eval[OF consistent_empty, of "[]" 0 ?env demo_event]
    by (simp add: empty_index_fields to_json_line_def max_event_line_bytes_def u64_max_def)
  have "nl \<notin> set (to_json_line (oe_to_text ?env) demo_event)"
    "max_event_line_bytes < length (to_json_line (oe_to_text ?env) demo_event)"
    by (simp_all add: to_json_line_def)
  note overlong_event_blocks_later_processes[OF consistent_empty a this]
  then show ?thesis using a by blast
qed

end
