(* ===== verification/Answers.thy ===== *)
theory Answers
  imports Runtime
begin

text \<open>
  Which result answers which effect, and why the ledger's string keys decide it: the key that a
  command acknowledges is the key of an effect only if the command is a result of that effect.
\<close>

section \<open>Which result answers which effect\<close>

fun answers :: "processor_state \<Rightarrow> processor_command \<Rightarrow> effect \<Rightarrow> bool" where
  "answers s (WorkspaceReady i) e = (case e of EnsureTaskWorkspace j _ \<Rightarrow> i = j | _ \<Rightarrow> False)"
| "answers s (WorkspaceFailed i _) e = (case e of EnsureTaskWorkspace j _ \<Rightarrow> i = j | _ \<Rightarrow> False)"
| "answers s (TaskLeafPrepared i _) e = (case e of PrepareTaskLeaf j k \<Rightarrow> i = j
            \<and> Option.bind (map_of (st_tasks s) i) (leaf_in_phase \<circ> tr_phase) = Some k | _ \<Rightarrow> False)"
| "answers s (TaskLeaf i _) e = (case e of DispatchTask j k \<Rightarrow> i = j
            \<and> Option.bind (map_of (st_tasks s) i) (leaf_in_phase \<circ> tr_phase) = Some k | _ \<Rightarrow> False)"
| "answers s (TaskCommitted i _) e = (e = CommitTask i)"
| "answers s (TaskReviewPrepared i _) e = (e = PrepareTaskReview i)"
| "answers s (TaskReview i _) e = (e = DispatchTask i Review)"
| "answers s IntegrationWorkspaceReady e = (case e of PrepareIntegrationWorkspace _ \<Rightarrow> True | _ \<Rightarrow> False)"
| "answers s (TokenBudgetChecked call _) e = (case e of CheckTokenBudget asked \<Rightarrow> ledger_key asked = ledger_key call | _ \<Rightarrow> False)"
| "answers s (CohortBudgetChecked call _) e = (case e of CheckCohortBudget asked \<Rightarrow> ledger_key asked = ledger_key call | _ \<Rightarrow> False)"
| "answers s (TaskMerged i _) e = (e = MergeTask i)"
| "answers s (MergeResolution _ _) e = (e = DispatchIntegration Merger)"
| "answers s (MergeResolutionFinalized i _) e = (e = FinalizeMergeResolution i)"
| "answers s (MergeResolutionAborted i _) e = (case e of AbortMergeResolution j _ \<Rightarrow> i = j | _ \<Rightarrow> False)"
| "answers s (IntegrationVerified _ _) e = (case e of VerifyIntegration _ \<Rightarrow> True | _ \<Rightarrow> False)"
| "answers s (IntegrationReviewed _) e = (e = DispatchIntegration IntegrationReview)"
| "answers s (IntegrationFixed _) e = (e = DispatchIntegration IntegrationFix)"
| "answers s (IntegrationFixCommitted _) e = (e = CommitIntegrationFix)"
| "answers s (processor_command.Published _ _) e = (case e of Publish _ \<Rightarrow> True | _ \<Rightarrow> False)"
| "answers s (PublicationRejected _) e = (case e of Publish _ \<Rightarrow> True | _ \<Rightarrow> False)"
| "answers s (PublicationAwaitingApproval _) e = (case e of Publish _ \<Rightarrow> True | _ \<Rightarrow> False)"
| "answers s (PublicationReanchorRequired _ _) e = (case e of Publish _ \<Rightarrow> True | _ \<Rightarrow> False)"
| "answers s PublicationReanchored e = (case e of ReanchorPublication _ \<Rightarrow> True | _ \<Rightarrow> False)"
| "answers s (CiVerified _) e = (case e of VerifyCi _ \<Rightarrow> True | _ \<Rightarrow> False)"
| "answers s (CiFixPrepared _) e = (e = PrepareCiFix)"
| "answers s (CiFixed _) e = (e = DispatchIntegration CiFix)"
| "answers s (CiFixCommitted _) e = (e = CommitCiFix)"
| "answers s (KnowledgeCurationPrepared _) e = (e = PrepareKnowledgeCuration)"
| "answers s (KnowledgeCurated _) e = (e = DispatchIntegration KnowledgeCurator)"
| "answers s (ArchivalPrepared _) e = (e = PrepareArchival)"
| "answers s (ArchiveCiReconfirmed _ _) e = (case e of ReconfirmCiBeforeArchive _ _ \<Rightarrow> True | _ \<Rightarrow> False)"
| "answers s (Admit _ _) e = (case e of PlanNextWave _ \<Rightarrow> True | _ \<Rightarrow> False)"
| "answers s (InboxReconciled _ _) e = (case e of ReconcileInbox _ \<Rightarrow> True | _ \<Rightarrow> False)"
| "answers s (InboxFinalizationReconciled _) e = (e = ReconcileInboxFinalization)"
| "answers s (DependencyGraphRefreshed b _) e = (e = DispatchDependencyCurator b)"
| "answers s (InboxCurated _ m _) e = (case e of DispatchInboxCurator _ n \<Rightarrow> m = n | _ \<Rightarrow> False)"
| "answers s (InboxDrained _) e = (case e of DrainQueueInbox _ \<Rightarrow> True | _ \<Rightarrow> False)"
| "answers s _ e = False"

lemma leaf_key_no_colon: "CHR '':'' \<notin> set (leaf_key k)"
  by (cases k) (simp_all add: leaf_key_def)

lemma leaf_key_inj: "leaf_key k = leaf_key k' \<longleftrightarrow> k = k'"
  by (cases k; cases k') (simp_all add: leaf_key_def)

lemma split_first: "c \<notin> set a \<Longrightarrow> c \<notin> set b \<Longrightarrow> a @ c # xs = b @ c # ys \<Longrightarrow> a = b \<and> xs = ys"
proof (induction a arbitrary: b)
  case Nil
  then show ?case by (cases b) auto
next
  case (Cons x a)
  then show ?case by (cases b) auto
qed

lemma split_last:
  assumes "c \<notin> set a" "c \<notin> set b" "xs @ c # a = ys @ c # b"
  shows "xs = ys \<and> a = b"
proof -
  have "rev a @ c # rev xs = rev b @ c # rev ys" using arg_cong[OF assms(3), of rev] by simp
  then have "rev a = rev b \<and> rev xs = rev ys" using assms(1,2) by (intro split_first) simp_all
  then show ?thesis by simp
qed

lemma task_leaf_names [simp]: "i @ CHR '':'' # leaf_key k = j @ CHR '':'' # leaf_key k' \<longleftrightarrow> i = j \<and> k = k'"
  using split_last[OF leaf_key_no_colon leaf_key_no_colon] leaf_key_inj by blast

lemma review_names [simp]:
  "i @ CHR '':'' # leaf_key k = j @ '':review'' \<longleftrightarrow> i = j \<and> k = Review"
  "j @ '':review'' = i @ CHR '':'' # leaf_key k \<longleftrightarrow> i = j \<and> k = Review"
  using task_leaf_names[of i k j Review] by (auto simp: leaf_key_def)

text \<open>Budget keys start with the name of their check.\<close>

definition ledger_rest :: "model_call \<Rightarrow> string" where
  "ledger_rest call = drop 19 (ledger_key call)"

lemma ledger_key_stem: "ledger_key call = ''check-token-budget:'' @ ledger_rest call"
  by (cases call) (simp_all add: ledger_key_def ledger_rest_def)

lemma cohort_key_stem: "cohort_budget_ledger_key call = ''check-cohort-budget:'' @ ledger_rest call"
  unfolding cohort_budget_ledger_key_def ledger_key_stem strip_prefix_append by simp

lemma mode_names [simp]: "mode_debug_lower m = mode_debug_lower n \<longleftrightarrow> m = n"
  by (cases m; cases n) (simp_all add: mode_debug_lower_def)

lemma boundary_names [simp]: "refresh_boundary_as_str b = refresh_boundary_as_str c \<longleftrightarrow> b = c"
  by (cases b; cases c) (simp_all add: refresh_boundary_as_str_def)

lemma leaf_literals:
  "leaf_key k = ''merger'' \<longleftrightarrow> k = Merger" "leaf_key k = ''integration-review'' \<longleftrightarrow> k = IntegrationReview"
  "leaf_key k = ''integration-fix'' \<longleftrightarrow> k = IntegrationFix" "leaf_key k = ''ci-fix'' \<longleftrightarrow> k = CiFix"
  "leaf_key k = ''knowledge-curator'' \<longleftrightarrow> k = KnowledgeCurator"
  by (cases k; simp add: leaf_key_def)+

fun effect_tag :: "effect \<Rightarrow> nat" where
  "effect_tag PersistCheckpoint = 0"
| "effect_tag (WaitForOperator _) = 0"
| "effect_tag (ReconcileInbox _) = 1"
| "effect_tag ReconcileInboxFinalization = 2"
| "effect_tag (DispatchDependencyCurator _) = 3"
| "effect_tag (DispatchInboxCurator _ m) = 4"
| "effect_tag (DrainQueueInbox _) = 5"
| "effect_tag (PlanNextWave _) = 6"
| "effect_tag (CheckTokenBudget _) = 7"
| "effect_tag (CheckCohortBudget _) = 8"
| "effect_tag (Reconcile _) = 9"
| "effect_tag (EnsureTaskWorkspace _ _) = 10"
| "effect_tag (PrepareTaskReview _) = 11"
| "effect_tag (PrepareTaskLeaf _ _) = 12"
| "effect_tag (DispatchTask _ _) = 13"
| "effect_tag (CommitTask _) = 14"
| "effect_tag (PrepareIntegrationWorkspace _) = 15"
| "effect_tag (MergeTask _) = 16"
| "effect_tag (FinalizeMergeResolution _) = 17"
| "effect_tag (AbortMergeResolution _ _) = 18"
| "effect_tag (VerifyIntegration _) = 19"
| "effect_tag (DispatchIntegration _) = 20"
| "effect_tag CommitIntegrationFix = 21"
| "effect_tag (Publish _) = 22"
| "effect_tag (ReanchorPublication _) = 23"
| "effect_tag (VerifyCi _) = 24"
| "effect_tag (Notify _ _) = 25"
| "effect_tag PrepareCiFix = 26"
| "effect_tag CommitCiFix = 27"
| "effect_tag PrepareKnowledgeCuration = 28"
| "effect_tag PrepareArchival = 29"
| "effect_tag (ReconfirmCiBeforeArchive _ _) = 30"
| "effect_tag (ReturnTask _ _) = 31"
| "effect_tag (EscalateTask _ _) = 32"
| "effect_tag (ArchiveTask _) = 33"
| "effect_tag (CleanupTaskWorkspace _) = 34"
| "effect_tag CleanupIntegrationWorkspace = 35"
| "effect_tag CleanupCohortControlPlane = 36"
| "effect_tag WriteJournalAndStatus = 37"
| "effect_tag ReleaseLease = 38"

fun command_tag :: "processor_command \<Rightarrow> nat" where
  "command_tag (WorkspaceReady _) = 10"
| "command_tag (WorkspaceFailed _ _) = 10"
| "command_tag (TaskLeafPrepared _ _) = 12"
| "command_tag (TaskLeaf _ _) = 13"
| "command_tag (TaskCommitted _ _) = 14"
| "command_tag (TaskReviewPrepared _ _) = 11"
| "command_tag (TaskReview _ _) = 13"
| "command_tag IntegrationWorkspaceReady = 15"
| "command_tag (TokenBudgetChecked _ _) = 7"
| "command_tag (CohortBudgetChecked _ _) = 8"
| "command_tag (TaskMerged _ _) = 16"
| "command_tag (MergeResolution _ _) = 20"
| "command_tag (MergeResolutionFinalized _ _) = 17"
| "command_tag (MergeResolutionAborted _ _) = 18"
| "command_tag (IntegrationVerified _ _) = 19"
| "command_tag (IntegrationReviewed _) = 20"
| "command_tag (IntegrationFixed _) = 20"
| "command_tag (IntegrationFixCommitted _) = 21"
| "command_tag (processor_command.Published _ _) = 22"
| "command_tag (PublicationRejected _) = 22"
| "command_tag (PublicationAwaitingApproval _) = 22"
| "command_tag (PublicationReanchorRequired _ _) = 22"
| "command_tag PublicationReanchored = 23"
| "command_tag (CiVerified _) = 24"
| "command_tag (CiFixPrepared _) = 26"
| "command_tag (CiFixed _) = 20"
| "command_tag (CiFixCommitted _) = 27"
| "command_tag (KnowledgeCurationPrepared _) = 28"
| "command_tag (KnowledgeCurated _) = 20"
| "command_tag (ArchivalPrepared _) = 29"
| "command_tag (ArchiveCiReconfirmed _ _) = 30"
| "command_tag (Admit _ _) = 6"
| "command_tag (InboxReconciled _ _) = 1"
| "command_tag (InboxFinalizationReconciled _) = 2"
| "command_tag (DependencyGraphRefreshed _ _) = 3"
| "command_tag (InboxCurated _ _ _) = 4"
| "command_tag (InboxDrained _) = 5"
| "command_tag (Open _ _ _) = 0"
| "command_tag (Recover _) = 0"
| "command_tag (Advance _) = 0"
| "command_tag CleanupComplete = 0"
| "command_tag Pause = 0"
| "command_tag Resume = 0"
| "command_tag (Block _) = 0"

definition stems :: "string list" where
  "stems = ['''', ''reconcile-inbox'', ''reconcile-inbox-finalization'', ''dispatch-dependency-curator'', ''dispatch-inbox-curator'', ''drain-queue-inbox'', ''plan-next-wave'', ''check-token-budget'', ''check-cohort-budget'', ''reconcile'', ''ensure-workspace'', ''prepare-task-review'', ''prepare-task-leaf'', ''dispatch-task'', ''commit-task'', ''prepare-integration'', ''merge-task'', ''finalize-merge-resolution'', ''abort-merge-resolution'', ''verify-integration'', ''dispatch-integration'', ''commit-integration-fix'', ''publish'', ''reanchor-publication'', ''verify-ci'', ''notify'', ''prepare-ci-fix'', ''commit-ci-fix'', ''prepare-knowledge-curation'', ''prepare-archival'', ''reconfirm-ci-before-archive'', ''return-task'', ''escalate-task'', ''archive-task'', ''cleanup-workspace'', ''cleanup-integration-workspace'', ''cleanup-cohort-control-plane'', ''write-journal-and-status'', ''release-lease'']"

lemma stems_distinct: "distinct stems"
  unfolding stems_def by code_simp

lemma effect_stem: "effect_key e = Some k \<Longrightarrow> takeWhile (\<lambda>c. c \<noteq> CHR '':'') k = stems ! effect_tag e \<and> 0 < effect_tag e \<and> effect_tag e < length stems"
  by (cases e) (auto simp: stems_def ledger_key_stem cohort_key_stem)

lemma command_stem:
  "acknowledgement_key p c = Inr (Some k) \<Longrightarrow> takeWhile (\<lambda>c. c \<noteq> CHR '':'') k = stems ! command_tag c \<and> command_tag c < length stems"
  by (cases c) (auto simp: stems_def ledger_key_stem cohort_key_stem task_leaf_key_def split: option.splits)

lemmas num_rels = numeral_eq_iff num.distinct num.inject one_eq_numeral_iff numeral_eq_one_iff zero_neq_numeral numeral_neq_zero zero_neq_one one_neq_zero

lemma acknowledged_answers:
  assumes "acknowledgement_key p c = Inr (Some k)" "effect_key e = Some k"
  shows "answers (pr_state p) c e"
proof -
  have tag: "effect_tag e = command_tag c" "0 < effect_tag e"
    using command_stem[OF assms(1)] effect_stem[OF assms(2)] nth_eq_iff_index_eq[OF stems_distinct] by auto
  have "effect_tag e = command_tag c \<longrightarrow> acknowledgement_key p c = Inr (Some k) \<longrightarrow> effect_key e = Some k
    \<longrightarrow> answers (pr_state p) c e"
    by (cases c; cases e; simp only: effect_tag.simps command_tag.simps num_rels simp_thms;
        auto simp: task_leaf_key_def ledger_key_stem cohort_key_stem leaf_literals split: option.splits)
  then show ?thesis using tag assms by blast
qed

end
