(* ===== verification/EngineProps.thy ===== *)
theory EngineProps
  imports OutboxProps Answers
begin

text \<open>
  What the runtime promises: durability before visibility, a ledger that follows its specification,
  results accepted only for the effects that asked for them, and restarts that resume where the
  checkpoint left off.
\<close>

section \<open>The ledger\<close>

text \<open>
  C11. In every run of the engine, with any file-system failures and restarts, the ledger in memory
  and the ledger in the durable checkpoint file each entry under the key of its effect, once and in
  key order, and both copies of the reducer's state respect the configured parallelism.
\<close>

theorem ledger_is_coherent:
  assumes "engine_run env cfg r"
  shows "sorted (map fst (rt_pending r)) \<and> distinct (map fst (rt_pending r))
    \<and> (\<forall>k e. map_of (rt_pending r) k = Some e \<longrightarrow> effect_key e = Some k)
    \<and> active_count (pr_state (rt_processor r)) \<le> cf_max_parallel cfg
    \<and> (\<forall>d. rt_store r = Some d \<longrightarrow>
         sorted (map fst (rc_pending d)) \<and> distinct (map fst (rc_pending d))
         \<and> (\<forall>k e. map_of (rc_pending d) k = Some e \<longrightarrow> effect_key e = Some k)
         \<and> active_count (rc_processor d) \<le> cf_max_parallel cfg)"
proof -
  have inv: "engine_inv cfg r" using engine_run_inv[OF assms] .
  have ok: "ledger_ok m \<Longrightarrow> sorted (map fst m) \<and> distinct (map fst m)
      \<and> (\<forall>k e. map_of m k = Some e \<longrightarrow> effect_key e = Some k)" for m
    using ledger_look[of m] unfolding ledger_ok_def bt_invar_def by blast
  have bound: "reducer_inv cfg s \<Longrightarrow> active_count s \<le> cf_max_parallel cfg" for s
    by (simp add: reducer_inv_def)
  have "reducer_inv cfg (pr_state (rt_processor r))"
    using inv by (auto simp: engine_inv_def named_inv_def proc_inv_def)
  moreover have "ledger_ok (rt_pending r)"
    "rt_store r = Some d \<Longrightarrow> ledger_ok (rc_pending d) \<and> reducer_inv cfg (rc_processor d)" for d
    using inv by (simp_all add: engine_inv_def doc_ok_def)
  ultimately show ?thesis using ok bound by metis
qed

theorem ledger_is_coherent_witness:
  "active_count (pr_state (rt_processor eng4)) \<le> cf_max_parallel default_config
    \<and> effect_key (ReconcileInbox 3) = Some ''reconcile-inbox''"
proof -
  have "map_of (rt_pending eng4) ''reconcile-inbox'' = Some (ReconcileInbox 3)" by (simp add: eng4_def synced_def)
  then show ?thesis using ledger_is_coherent[OF eng_run4] by blast
qed

text \<open>
  C9. Refinement of the ledger: an accepted command takes the key it acknowledges out of the ledger
  and puts the keyed effects of the reducer's answer in; nothing else changes, and no requested
  effect is lost.
\<close>

theorem ledger_follows_specification:
  assumes "engine_run env cfg r" "apply_internal env faults c at operation r = (Inr es, r')"
  shows "\<exists>ack. acknowledgement_key (rt_processor r) c = Inr ack
    \<and> accept (re_lowercase env) c (rt_processor r) = (Inr es, rt_processor r')
    \<and> map_of (rt_pending r') = ledger_after es ack (map_of (rt_pending r))
    \<and> (\<forall>e \<in> set es. \<forall>k. effect_key e = Some k \<longrightarrow> map_of (rt_pending r') k = Some e)"
  using assms(2)
proof (cases rule: apply_internal_cases)
  case (ran ack fs p m span index bytes)
  have ok: "ledger_ok (rt_pending r)" using engine_run_inv[OF assms(1)] by (simp add: engine_inv_def)
  let ?m = "case ack of Some k \<Rightarrow> bt_remove k (rt_pending r) | None \<Rightarrow> rt_pending r"
  have look: "map_of ?m = (case ack of Some k \<Rightarrow> (map_of (rt_pending r))(k := None) | None \<Rightarrow> map_of (rt_pending r))"
    using ok by (simp add: ledger_ok_def bt_remove_look split: option.split)
  have r': "es = fs" "rt_pending r' = m" "rt_processor r' = p"
    using ran(7) by (cases rule: commit_cases; simp add: adopt_def)+
  show ?thesis
    using record_effects_spec[OF ran(5) acknowledged_ledger[OF ok]] ran(2,4) r'
    by (auto simp: ledger_after_def look)
qed simp

theorem ledger_follows_specification_witness:
  "\<exists>ack. map_of (rt_pending eng4) = ledger_after [PersistCheckpoint, ReconcileInbox 3] ack (map_of (rt_pending eng3))"
  using ledger_follows_specification[OF eng_run3 eng_step4] by blast

definition is_result :: "processor_command \<Rightarrow> bool" where
  "is_result c \<longleftrightarrow> command_tag c \<noteq> 0"

lemma acknowledged_none:
  assumes "acknowledgement_key p c = Inr None"
  shows "\<not> is_result c \<or> (\<exists>i t. leaf_in_phase (tr_phase t) = None \<and> map_of (st_tasks (pr_state p)) i = Some t
    \<and> ((\<exists>x. c = TaskLeaf i x) \<or> (\<exists>x. c = TaskLeafPrepared i x)))"
  using assms by (cases c) (auto simp: is_result_def task_leaf_key_def split: option.splits)

lemma acknowledged_some: "acknowledgement_key p c = Inr (Some k) \<Longrightarrow> is_result c"
  by (cases c) (auto simp: is_result_def)

lemma leaf_outside_phase:
  assumes "leaf_in_phase (tr_phase t) = None" "map_of (st_tasks (pr_state p)) i = Some t"
    and "c = TaskLeaf i x \<or> c = TaskLeafPrepared i y" "accept lc c p = (Inr es, p')"
  shows "p' = p \<and> st_phase (pr_state p) \<in> {phase.Blocked, Paused}"
proof -
  have kind: "\<exists>e. leaf_kind_of_phase i expected t = Inl e" for expected
    using assms(1) by (simp add: leaf_in_phase_def leaf_kind_of_phase_def split: task_phase.splits)
  have "fst (task_leaf cfg i x (pr_state p)) \<noteq> Inr fs" "fst (task_leaf_prepared i y (pr_state p)) \<noteq> Inr fs"
    for cfg fs
    using assms(2) kind[of "''implementation or fix leaf''"] kind[of "''implementation or fix Codex preparation''"]
    by (auto simp: task_leaf_def task_leaf_prepared_def guard_def task_mut_def note_sandbox_downgrade_def add_degradation_def
        Let_def
        split: sum.splits option.splits task_leaf_preparation_outcome.splits)
  note no = this
  show ?thesis
    using assms(4)
  proof (cases rule: accept_cases)
    case (accepted fs)
    show ?thesis
      using accepted(2)
    proof (cases rule: apply_cases)
      case (ran gs)
      then have "fst (task_leaf (pr_config p) i x (pr_state p)) = Inr gs
          \<or> fst (task_leaf_prepared i y (pr_state p)) = Inr gs"
        using assms(3) by (auto simp: run_command_def dispatch_def split: prod.splits)
      then show ?thesis using no by blast
    qed simp
  qed simp
qed

text \<open>
  A result is accepted only for an outstanding request: when the runtime accepts the result of
  some work, its ledger held an effect that asked for that work, for the same task and the same kind
  of leaf, unless the reducer is blocked or paused with an empty ledger and ignores the result. A
  command that is not a result is accepted only when nothing is outstanding, except for the
  recovery of a restarted process.
\<close>

lemma results_answer_requests:
  assumes "engine_run env cfg r" "apply_internal env faults c at operation r = (Inr es, r')"
  shows "if is_result c
    then (\<exists>k e. map_of (rt_pending r) k = Some e \<and> answers (pr_state (rt_processor r)) c e)
      \<or> (rt_pending r = [] \<and> rt_processor r' = rt_processor r
          \<and> st_phase (pr_state (rt_processor r)) \<in> {phase.Blocked, Paused})
    else rt_pending r = [] \<or> (\<exists>inspected. c = Recover inspected)"
  using assms(2)
proof (cases rule: apply_internal_cases)
  case (ran ack fs p m span index bytes)
  have p: "rt_processor r' = p" using ran(7) by (cases rule: commit_cases) (simp_all add: adopt_def)
  show ?thesis
  proof (cases ack)
    case None
    have rec: "is_recover c \<longleftrightarrow> (\<exists>inspected. c = Recover inspected)" by (cases c) (simp_all add: is_recover_def)
    have empty: "rt_pending r = [] \<or> is_recover c"
      using ran(3) None by (auto simp: check_acknowledgement_def split: if_splits)
    show ?thesis
    proof (cases "is_result c")
      case True
      then obtain i t where t: "leaf_in_phase (tr_phase t) = None"
          "map_of (st_tasks (pr_state (rt_processor r))) i = Some t"
          "(\<exists>x. c = TaskLeaf i x) \<or> (\<exists>x. c = TaskLeafPrepared i x)"
        using acknowledged_none ran(2) None by blast
      then have "\<not> is_recover c" by (auto simp: is_recover_def)
      then show ?thesis using leaf_outside_phase[OF t(1,2) _ ran(4)] t(3) True p empty by auto
    qed (use empty rec in simp)
  next
    case (Some k)
    then obtain e where e: "map_of (rt_pending r) k = Some e"
      using ran(3) by (auto simp: check_acknowledgement_def split: if_splits)
    have "effect_key e = Some k"
      using engine_run_inv[OF assms(1)] ledger_look[OF _ e] by (simp add: engine_inv_def)
    then have "answers (pr_state (rt_processor r)) c e"
      using acknowledged_answers ran(2) unfolding Some by blast
    moreover have "is_result c" using acknowledged_some ran(2) unfolding Some by blast
    ultimately show ?thesis using e by auto
  qed
qed simp

lemma results_answer_requests_witness:
  "\<exists>k e. map_of (rt_pending eng3) k = Some e
    \<and> answers (pr_state demo2) (DependencyGraphRefreshed refresh_boundary.CohortOpen (leaf_outcome.Completed None)) e"
  using results_answer_requests[OF eng_run3 eng_step4] by (simp add: is_result_def eng3_def synced_def)

section \<open>Durability\<close>

definition durable_step :: "(runtime_error + 'a) \<times> 'd runtime \<Rightarrow> 'd runtime \<Rightarrow> bool" where
  "durable_step out r =
    (case out of
       (Inr _, r') \<Rightarrow> rt_store r' = Some (image r')
     | (Inl _, r') \<Rightarrow> rt_processor r' = rt_processor r \<and> rt_pending r' = rt_pending r
         \<and> rt_ci_fix_provider_span r' = rt_ci_fix_provider_span r)"

lemma commit_durable:
  "rt_processor v = rt_processor r \<Longrightarrow> rt_pending v = rt_pending r
    \<Longrightarrow> rt_ci_fix_provider_span v = rt_ci_fix_provider_span r \<Longrightarrow> durable_step (commit w p m span a v) r"
  by (cases w) (simp_all add: durable_step_def commit_def persist_def adopt_def image_def)

lemma refused_durable [simp]: "durable_step (Inl e, r) r"
  by (simp add: durable_step_def)

text \<open>
  C8. Durability before visibility, for every operation of the runtime: when it succeeds, the durable
  checkpoint holds exactly the state, the ledger and the provider span that are in memory; when it
  fails, all of them are in memory as before.
\<close>

theorem durable_before_visible:
  "durable_step (apply_internal env faults c at operation r) r
    \<and> durable_step (complete_effect w k r) r
    \<and> durable_step (acknowledge_effect w e r) r
    \<and> durable_step (record_session w i u r) r
    \<and> durable_step (supersede_recovery_effects_with_pending w e es r) r
    \<and> durable_step (supersede_reconcile_with_pending_task_effect w e r) r"
proof -
  obtain x r' where a: "apply_internal env faults c at operation r = (x, r')" by fastforce
  have 1: "durable_step (x, r') r"
    using a
  proof (cases rule: apply_internal_cases)
    case (refused err)
    then show ?thesis by (simp add: durable_step_def)
  next
    case (ran ack fs p m span index bytes)
    show ?thesis unfolding ran(7)[symmetric] by (rule commit_durable) simp_all
  qed
  have 2: "durable_step (complete_effect w k r) r" for k
    by (auto simp: complete_effect_def intro!: commit_durable split: option.split prod.split sum.split)
  have 3: "durable_step (acknowledge_effect w e r) r"
    by (auto simp: acknowledge_effect_def 2 split: option.split)
  have 4: "durable_step (record_session w i u r) r"
    by (auto simp: record_session_def intro!: commit_durable split: prod.split sum.split)
  have 5: "durable_step (supersede_recovery_effects_with_pending w e es r) r" for es
    by (auto simp: supersede_recovery_effects_with_pending_def intro!: commit_durable split: option.split sum.split)
  have 6: "durable_step (supersede_reconcile_with_pending_task_effect w e r) r"
    by (auto simp: supersede_reconcile_with_pending_task_effect_def Let_def 5 split: option.split)
  show ?thesis using 1 2 3 4 5 6 a by simp
qed

definition transition_events :: "'d runtime_env \<Rightarrow> processor_command \<Rightarrow> string \<Rightarrow> 'd runtime \<Rightarrow> event list" where
  "transition_events env c at r =
    project_processor_transition (re_uuid env) (pr_state (rt_processor r))
      (pr_state (snd (accept (re_lowercase env) c (rt_processor r)))) c at"

lemma transition_valid:
  assumes "engine_run env cfg r" "uuid_ok (re_uuid env)" "is_iso_utc at" "e \<in> set (transition_events env c at r)"
  shows "valid_event e"
proof -
  have named: "named_inv cfg (rt_processor r)" using engine_run_inv[OF assms(1)] by (simp add: engine_inv_def)
  obtain x p where a: "accept (re_lowercase env) c (rt_processor r) = (x, p)" by fastforce
  have "names_ok (pr_state (rt_processor r))" "names_ok (pr_state p)"
    using named accept_named[OF a named] by (auto simp: named_inv_def intro: keyed_names)
  then show ?thesis using projected_valid[OF assms(2,3)] assms(4) a by (simp add: transition_events_def)
qed

definition telemetry_events ::
    "'d runtime_env \<Rightarrow> processor_command \<Rightarrow> (effect \<times> operation_timing) option \<Rightarrow> 'd runtime \<Rightarrow> event list" where
  "telemetry_events env c operation r =
    (case operation of
       None \<Rightarrow> []
     | Some (e, t) \<Rightarrow>
         project_completed_operations (re_uuid env) (pr_state (rt_processor r))
           (pr_state (snd (accept (re_lowercase env) c (rt_processor r)))) e c
           (snd (provider_span (pr_state (rt_processor r)) e c t (rt_ci_fix_provider_span r))))"

lemma telemetry_valid:
  assumes "uuid_ok (re_uuid env)" "e \<in> set (telemetry_events env c operation r)"
  shows "valid_event e"
  using assms projected_operations operation_event_is_valid
  by (fastforce simp: telemetry_events_def list_all_iff split: option.splits)

lemma commit_events:
  "commit w p m span a r = (x, r') \<Longrightarrow> rt_events r' = rt_events r \<and> rt_index r' = rt_index r"
  by (erule commit_cases) (simp_all add: adopt_def)

text \<open>
  C10. Events before state: with a readable encoding of the transition's events and of the telemetry,
  whenever the durable checkpoint of the runtime changes through a command, every event of
  the transition is already in the event file, where a process that starts now finds it.
\<close>

theorem events_before_state:
  assumes "engine_run env cfg r" "uuid_ok (re_uuid env)"
    and "consistent (re_outbox env) (rt_index r) (rt_events r)"
    and "\<forall>e \<in> set (transition_events env c at r) \<union> set (telemetry_events env c operation r).
      codec_ok (re_outbox env) e"
    and "apply_internal env faults c at operation r = (x, r')" "rt_store r' \<noteq> rt_store r"
  shows "(\<forall>e \<in> set (transition_events env c at r). recorded (re_outbox env) (rt_events r') e)
    \<and> consistent (re_outbox env) (rt_index r') (rt_events r')"
  using assms(5)
proof (cases rule: apply_internal_cases)
  case (refused err)
  then show ?thesis using assms(6) by simp
next
  case (ran ack fs p m span index bytes)
  let ?before = "pr_state (rt_processor r)"
  have evs: "transition_events env c at r = project_processor_transition (re_uuid env) ?before (pr_state p) c at"
    using ran(4) by (simp add: transition_events_def)
  obtain i b where app: "append_all (re_outbox env) (fa_appends faults) (transition_events env c at r)
      (rt_index r) (rt_events r) = (Inr (), i, b)"
    and rest: "append_best_effort (re_outbox env) (telemetry_events env c operation r) i b = (index, bytes)"
    using ran(6) ran(4) unfolding evs by (auto simp: telemetry_events_def split: option.splits)
  have r1: "list_all (readable (re_outbox env)) (transition_events env c at r)"
    using assms(4) transition_valid[OF assms(1,2) ran(1)] by (auto simp: list_all_iff readable_def)
  have r2: "list_all (readable (re_outbox env)) (telemetry_events env c operation r)"
    using assms(4) telemetry_valid[OF assms(2)] by (auto simp: list_all_iff readable_def)
  note first = append_all_recorded[OF app assms(3) r1]
  then have "consistent (re_outbox env) i b" by blast
  note second = best_effort_recorded[OF rest this r2]
  have "rt_events r' = bytes" "rt_index r' = index" using commit_events[OF ran(7)] by simp_all
  then show ?thesis using first second by blast
qed

theorem events_before_state_witness:
  "recorded demo_outbox (rt_events eng3) demo_event"
proof -
  have evs: "transition_events demo_env (Open ''B-1'' ''main'' 1000) demo_time eng2 = [demo_event]"
    using demo_opened by (simp add: transition_events_def demo_env_def eng2_def synced_def demo_step2)
  have "consistent demo_outbox (rt_index eng2) (rt_events eng2)" by (simp add: eng2_def synced_def)
  moreover have "rt_store eng3 \<noteq> rt_store eng2" by (simp add: eng2_def eng3_def synced_def)
  ultimately show ?thesis
    using events_before_state[OF eng_run2 _ _ _ eng_step3] evs
    by (simp add: demo_env_def telemetry_events_def)
qed

text \<open>
  The event history only grows: whatever a command of the runtime does, including failing half
  way, the committed lines of the event file stay in place and new bytes come after them.
\<close>

lemma history_only_grows:
  assumes "apply_internal env faults c at operation r = (x, r')" "committed_prefix_len (rt_events r) = Inr n"
  shows "\<exists>n'. committed_prefix_len (rt_events r') = Inr n' \<and> n \<le> n'
    \<and> take n (rt_events r') = take n (rt_events r)"
proof -
  have "extends (rt_events r) (rt_events r')"
    using assms(1) unfolding apply_internal_def Let_def
    by (auto split: if_splits sum.splits prod.splits option.splits dest!: commit_events append_all_extends
        best_effort_extends intro: extends_trans)
  then show ?thesis using assms(2) by (simp add: extends_def)
qed

lemma history_only_grows_witness:
  "\<exists>n'. committed_prefix_len (rt_events eng4) = Inr n' \<and> 25 \<le> n' \<and> take 25 (rt_events eng4) = take 25 (rt_events eng3)"
proof -
  have "committed_prefix_len (rt_events eng3) = Inr 25"
    using prefix_terminated[of "ev_id demo_event @ [nl]"] by (simp add: eng3_def synced_def terminated_def demo_id)
  then show ?thesis by (rule history_only_grows[OF eng_step4])
qed

text \<open>
  C14. What the engine writes its own reader accepts: every event that an accepted command of a
  reachable runtime projects, and every timing fact of a completed operation, is parsed back from its
  JSON value exactly.
\<close>

theorem projected_events_parse:
  assumes "engine_run env cfg r" "uuid_ok (re_uuid env)" "is_iso_utc at"
    and "e \<in> set (transition_events env c at r) \<union> set (telemetry_events env c operation r)"
  shows "parse_value (event_value e) = Inr e"
  using assms transition_valid telemetry_valid by (blast intro: event_value_parses)

theorem projected_events_parse_witness:
  "parse_value (event_value demo_event) = Inr demo_event"
proof -
  have "transition_events demo_env (Open ''B-1'' ''main'' 1000) demo_time eng2 = [demo_event]"
    using demo_opened by (simp add: transition_events_def demo_env_def eng2_def synced_def demo_step2)
  then show ?thesis
    using projected_events_parse[OF eng_run2 _ demo_iso, of demo_event "Open ''B-1'' ''main'' 1000" None]
    by (simp add: demo_env_def)
qed

section \<open>Restart\<close>

text \<open>
  C12. A restart resumes where the checkpoint left off: for every run of the engine the durable
  ledger passes the checks of \<open>resume\<close>, which can fail only in the reducer's own checkpoint
  validation, and the resumed runtime has the state that validation admits and exactly the
  ledger and the provider span that were durable.
\<close>

theorem restart_resumes_the_ledger:
  assumes "engine_run env cfg r" "rt_store r = Some d"
  shows "runtime_resume cfg (rt_store r) events =
    (case from_checkpoint cfg (rc_processor d) of
       Inl e \<Rightarrow> Inl (ProcessorFailed e)
     | Inr p \<Rightarrow> Inr (runtime_of p (rc_pending d) (rc_ci_fix_provider_span d) (Some d) events))"
proof -
  have "doc_ok cfg d" using engine_run_inv[OF assms(1)] assms(2) by (simp add: engine_inv_def)
  then have "each_res check_ledger_entry (rc_pending d) = Inr ()" "rc_schema_version d = runtime_state_version"
    using ledger_checks[of "rc_pending d" "()"] by (simp_all add: doc_ok_def ledger_ok_def)
  then show ?thesis
    by (simp add: runtime_resume_def assms(2) bind_res_def ensure_def split: sum.split)
qed

theorem restart_resumes_the_ledger_witness:
  "runtime_resume default_config (rt_store eng4) [] =
    (case from_checkpoint default_config (pr_state demo3) of
       Inl e \<Rightarrow> Inl (ProcessorFailed e)
     | Inr p \<Rightarrow> Inr (runtime_of p [(''reconcile-inbox'', ReconcileInbox 3)] None (rt_store eng4) []))"
proof -
  have store: "rt_store eng4 = Some \<lparr>rc_schema_version = runtime_state_version, rc_processor = pr_state demo3,
      rc_pending = [(''reconcile-inbox'', ReconcileInbox 3)], rc_ci_fix_provider_span = None\<rparr>"
    by (simp add: eng4_def synced_def)
  show ?thesis using restart_resumes_the_ledger[OF eng_run4 store, of "[]"] unfolding store
    by (simp split: sum.splits)
qed



end
