(* ===== verification/Reader.thy ===== *)
theory Reader
  imports Outbox
begin

text \<open>
  The tail reader of the event file, \<open>src/engine/src/events/reader.rs\<close>, on one file that is never
  rotated: chunked reads, the deduplication by a window of recent ids and a bit filter, and the
  persisted cursor. SHA-256 is the parameter \<open>sha\<close>; counters are natural numbers.
\<close>

unbundle bit_operations_syntax

section \<open>The membership filter\<close>

definition max_poll_bytes :: nat where "max_poll_bytes = 1024 * 1024"
definition max_recent_ids :: nat where "max_recent_ids = 512"
definition dedupe_filter_bytes :: nat where "dedupe_filter_bytes = 32 * 1024"

type_synonym bits = "8 word list"

fun le_value :: "bits \<Rightarrow> nat" where
  "le_value [] = 0"
| "le_value (w # ws) = unat w + 256 * le_value ws"

definition dedupe_bits :: "(string \<Rightarrow> bits) \<Rightarrow> string \<Rightarrow> nat list" where
  "dedupe_bits sha i =
    map (\<lambda>n. le_value (take 8 (drop (n * 8) (sha i))) mod (dedupe_filter_bytes * 8)) [0..<4]"

definition set_bit_at :: "nat \<Rightarrow> bits \<Rightarrow> bits" where
  "set_bit_at b f = f[b div 8 := (f ! (b div 8)) OR push_bit (b mod 8) 1]"

definition bit_at :: "nat \<Rightarrow> bits \<Rightarrow> bool" where
  "bit_at b f \<longleftrightarrow> (f ! (b div 8)) AND push_bit (b mod 8) 1 \<noteq> 0"

definition filter_default :: bits where "filter_default = replicate dedupe_filter_bytes 0"

definition filter_insert :: "(string \<Rightarrow> bits) \<Rightarrow> string \<Rightarrow> bits \<Rightarrow> bits" where
  "filter_insert sha i f = fold set_bit_at (dedupe_bits sha i) f"

definition maybe_contains :: "(string \<Rightarrow> bits) \<Rightarrow> string \<Rightarrow> bits \<Rightarrow> bool" where
  "maybe_contains sha i f \<longleftrightarrow> list_all (\<lambda>b. bit_at b f) (dedupe_bits sha i)"

definition hex_char :: "nat \<Rightarrow> char" where
  "hex_char n = ''0123456789abcdef'' ! n"

definition to_hex :: "bits \<Rightarrow> string" where
  "to_hex f = concat (map (\<lambda>w. [hex_char (unat w div 16), hex_char (unat w mod 16)]) f)"

definition hex_digit_value :: "char \<Rightarrow> nat option" where
  "hex_digit_value c =
    (let n = of_char c :: nat in
     if 48 \<le> n \<and> n \<le> 57 then Some (n - 48)
     else if 97 \<le> n \<and> n \<le> 102 then Some (n - 97 + 10)
     else if 65 \<le> n \<and> n \<le> 70 then Some (n - 65 + 10)
     else None)"

fun hex_pairs :: "string \<Rightarrow> bits option" where
  "hex_pairs (a # b # s) =
    (case (hex_digit_value a, hex_digit_value b) of
       (Some h, Some l) \<Rightarrow> map_option (\<lambda>ws. word_of_nat (h * 16 + l) # ws) (hex_pairs s)
     | _ \<Rightarrow> None)"
| "hex_pairs _ = Some []"

definition from_hex :: "string \<Rightarrow> string + bits" where
  "from_hex s =
    (if length s \<noteq> dedupe_filter_bytes * 2
     then Inl (''cursor dedupe_filter must contain exactly '' @ show_nat (dedupe_filter_bytes * 2)
               @ '' hexadecimal characters'')
     else (case hex_pairs s of
             None \<Rightarrow> Inl ''cursor dedupe_filter is not hexadecimal''
           | Some f \<Rightarrow> Inr f))"

section \<open>Recent ids and the cursor\<close>

definition recent_insert :: "string \<Rightarrow> string list \<Rightarrow> string list" where
  "recent_insert i ids =
    (if i \<in> set ids then ids
     else (let ids = ids @ [i] in if length ids > max_recent_ids then tl ids else ids))"

record cursor =
  cu_byte_offset :: nat
  cu_delivered_ids :: "string list"
  cu_dedupe_filter :: "string option"

definition last_ids :: "string list \<Rightarrow> string list" where
  "last_ids ids = drop (length ids - max_recent_ids) ids"

definition cursor_value :: "cursor \<Rightarrow> json" where
  "cursor_value c =
    (let obj = bt_insert ''byte_offset'' (JInt (int (cu_byte_offset c))) [];
         obj = bt_insert ''delivered_ids'' (JArr (map JStr (last_ids (cu_delivered_ids c)))) obj
     in JObj (case cu_dedupe_filter c of
                Some f \<Rightarrow> bt_insert ''dedupe_filter'' (JStr f) obj | None \<Rightarrow> obj))"

fun all_strings :: "json list \<Rightarrow> string + string list" where
  "all_strings [] = Inr []"
| "all_strings (v # vs) =
    (case as_str v of
       None \<Rightarrow> Inl ''cursor \"delivered_ids\" contains a non-string element''
     | Some s \<Rightarrow> bind_res (all_strings vs) (\<lambda>ss. Inr (s # ss)))"

definition cursor_of_value :: "(string \<Rightarrow> bits) \<Rightarrow> json \<Rightarrow> string + cursor" where
  "cursor_of_value sha v =
    (case as_object v of
       None \<Rightarrow> Inl ''cursor must be a JSON object''
     | Some obj \<Rightarrow>
         bind_res (case map_of obj ''byte_offset'' of
                     None \<Rightarrow> Inl ''cursor is missing \"byte_offset\"''
                   | Some (JInt n) \<Rightarrow>
                       if 0 \<le> n \<and> n \<le> int u64_max then Inr (nat n)
                       else Inl ''cursor \"byte_offset\" is not a non-negative integer''
                   | Some _ \<Rightarrow> Inl ''cursor \"byte_offset\" is not a non-negative integer'') (\<lambda>offset.
         bind_res (case map_of obj ''delivered_ids'' of
                     None \<Rightarrow> Inl ''cursor is missing \"delivered_ids\"''
                   | Some (JArr vs) \<Rightarrow> all_strings vs
                   | Some _ \<Rightarrow> Inl ''cursor \"delivered_ids\" is not an array'') (\<lambda>ids.
         bind_res (case map_of obj ''dedupe_filter'' of
                     None \<Rightarrow> Inr filter_default
                   | Some (JStr f) \<Rightarrow> from_hex f
                   | Some _ \<Rightarrow> Inl ''cursor \"dedupe_filter\" is not a string'') (\<lambda>f.
         Inr \<lparr>cu_byte_offset = offset, cu_delivered_ids = last_ids ids,
              cu_dedupe_filter = Some (to_hex (fold (filter_insert sha) ids f))\<rparr>))))"

definition cursor_to_json :: "(json \<Rightarrow> string) \<Rightarrow> cursor \<Rightarrow> string" where
  "cursor_to_json to_text c = to_text (cursor_value c)"

definition cursor_from_json :: "(string \<Rightarrow> bits) \<Rightarrow> (string \<Rightarrow> string + json) \<Rightarrow> string \<Rightarrow> string + cursor" where
  "cursor_from_json sha from_str s =
    (case from_str s of
       Inl e \<Rightarrow> Inl (''cursor is unreadable: '' @ e)
     | Inr v \<Rightarrow> cursor_of_value sha v)"

section \<open>The reader\<close>

record poll_stats =
  ps_delivered :: nat
  ps_skipped_invalid :: nat
  ps_skipped_dup :: nat

record tail_reader =
  rd_offset :: nat
  rd_recent :: "string list"
  rd_filter :: bits
  rd_stats :: poll_stats
  rd_unterminated :: bool

record poll_batch =
  pb_events :: "event list"
  pb_delivered_ids :: "string list"
  pb_stats :: poll_stats
  pb_consumed :: nat
  pb_unterminated :: bool

definition no_stats :: poll_stats where
  "no_stats = \<lparr>ps_delivered = 0, ps_skipped_invalid = 0, ps_skipped_dup = 0\<rparr>"

definition empty_batch :: poll_batch where
  "empty_batch = \<lparr>pb_events = [], pb_delivered_ids = [], pb_stats = no_stats, pb_consumed = 0,
     pb_unterminated = False\<rparr>"

definition reader_new :: tail_reader where
  "reader_new = \<lparr>rd_offset = 0, rd_recent = [], rd_filter = filter_default, rd_stats = no_stats,
     rd_unterminated = False\<rparr>"

definition reader_with_cursor :: "(string \<Rightarrow> bits) \<Rightarrow> cursor \<Rightarrow> tail_reader" where
  "reader_with_cursor sha c =
    (let f = (case cu_dedupe_filter c of
                Some s \<Rightarrow> (case from_hex s of Inr f \<Rightarrow> f | Inl _ \<Rightarrow> filter_default)
              | None \<Rightarrow> filter_default)
     in \<lparr>rd_offset = cu_byte_offset c, rd_recent = fold recent_insert (cu_delivered_ids c) [],
         rd_filter = fold (filter_insert sha) (cu_delivered_ids c) f, rd_stats = no_stats,
         rd_unterminated = False\<rparr>)"

definition reader_cursor :: "tail_reader \<Rightarrow> cursor" where
  "reader_cursor r =
    \<lparr>cu_byte_offset = rd_offset r, cu_delivered_ids = rd_recent r, cu_dedupe_filter = Some (to_hex (rd_filter r))\<rparr>"

text \<open>The first line of some bytes and what follows its newline.\<close>

definition split_line :: "string \<Rightarrow> (string \<times> string) option" where
  "split_line s =
    (if nl \<in> set s
     then (let line = takeWhile (\<lambda>c. c \<noteq> nl) s in Some (line, drop (length line + 1) s))
     else None)"

lemma split_line_None: "split_line s = None \<longleftrightarrow> nl \<notin> set s"
  by (simp add: split_line_def Let_def)

lemma split_line_append: "nl \<notin> set line \<Longrightarrow> split_line (line @ nl # rest) = Some (line, rest)"
proof -
  assume "nl \<notin> set line"
  then have "takeWhile (\<lambda>c. c \<noteq> nl) (line @ nl # rest) = line"
    by (subst takeWhile_append2) auto
  then show ?thesis unfolding split_line_def Let_def by simp
qed

lemma split_line_Some: "split_line s = Some (line, rest) \<longleftrightarrow> s = line @ nl # rest \<and> nl \<notin> set line"
proof
  assume a: "split_line s = Some (line, rest)"
  then have "nl \<in> set s" by (simp add: split_line_def split: if_splits)
  then obtain l r where "s = l @ nl # r" "nl \<notin> set l" by (metis split_list_first)
  then show "s = line @ nl # rest \<and> nl \<notin> set line" using a split_line_append by auto
qed (simp add: split_line_append)

text \<open>\<open>history_contains_event_id\<close> on the bytes before the line under scrutiny.\<close>

function history_contains :: "'d outbox_env \<Rightarrow> string \<Rightarrow> string \<Rightarrow> string + bool" where
  "history_contains env i bytes =
    (if bytes = [] then Inr False
     else
       (let read_limit = min (length bytes) (max_poll_bytes + 2);
            line = takeWhile (\<lambda>c. c \<noteq> nl) (take read_limit bytes)
        in if length line = read_limit \<or> max_poll_bytes < length line
           then Inl ''events.jsonl record exceeds 1048576 byte limit''
           else if utf8_ok line \<and> (case parse_line (oe_from_str env) (trim line) of Inr e \<Rightarrow> ev_id e = i | Inl _ \<Rightarrow> False)
           then Inr True
           else history_contains env i (drop (length line + 1) bytes)))"
  by pat_completeness auto
termination by (relation "measure (\<lambda>(env, i, bytes). length bytes)") auto

declare history_contains.simps [simp del]

definition classify_line ::
    "'d outbox_env \<Rightarrow> (string \<Rightarrow> bits) \<Rightarrow> string \<Rightarrow> tail_reader \<Rightarrow> string \<Rightarrow> nat \<Rightarrow> poll_batch \<Rightarrow> string + poll_batch" where
  "classify_line env sha bytes r raw start batch =
    (let invalid = batch\<lparr>pb_stats := (pb_stats batch)\<lparr>ps_skipped_invalid := ps_skipped_invalid (pb_stats batch) + 1\<rparr>\<rparr>
     in if \<not> utf8_ok raw then Inr invalid
        else if trim raw = [] then Inr batch
        else (case parse_line (oe_from_str env) (trim raw) of
                Inl _ \<Rightarrow> Inr invalid
              | Inr e \<Rightarrow>
                  bind_res
                    (if ev_id e \<in> set (rd_recent r) \<or> ev_id e \<in> set (pb_delivered_ids batch) then Inr True
                     else if maybe_contains sha (ev_id e) (rd_filter r)
                     then history_contains env (ev_id e) (take start bytes)
                     else Inr False)
                    (\<lambda>duplicate.
                     Inr (if duplicate
                          then batch\<lparr>pb_stats := (pb_stats batch)\<lparr>ps_skipped_dup := ps_skipped_dup (pb_stats batch) + 1\<rparr>\<rparr>
                          else batch\<lparr>pb_delivered_ids := pb_delivered_ids batch @ [ev_id e],
                                     pb_stats := (pb_stats batch)\<lparr>ps_delivered := ps_delivered (pb_stats batch) + 1\<rparr>,
                                     pb_events := pb_events batch @ [e]\<rparr>))))"

function interpret_lines ::
    "'d outbox_env \<Rightarrow> (string \<Rightarrow> bits) \<Rightarrow> string \<Rightarrow> tail_reader \<Rightarrow> string \<Rightarrow> nat \<Rightarrow> poll_batch
     \<Rightarrow> string + nat \<times> poll_batch" where
  "interpret_lines env sha bytes r rest consumed batch =
    (case split_line rest of
       None \<Rightarrow> Inr (consumed, batch)
     | Some (raw, rest) \<Rightarrow>
         bind_res (classify_line env sha bytes r raw (rd_offset r + consumed) batch) (\<lambda>batch.
           interpret_lines env sha bytes r rest (consumed + length raw + 1) batch))"
  by pat_completeness auto
termination
  by (relation "measure (\<lambda>(env, sha, bytes, r, rest, consumed, batch). length rest)")
    (auto simp: split_line_Some)

declare interpret_lines.simps [simp del]

definition interpret_buffer ::
    "'d outbox_env \<Rightarrow> (string \<Rightarrow> bits) \<Rightarrow> string \<Rightarrow> tail_reader \<Rightarrow> string \<Rightarrow> nat \<Rightarrow> nat \<Rightarrow> string + poll_batch" where
  "interpret_buffer env sha bytes r buf unread read_len =
    bind_res (interpret_lines env sha bytes r buf 0 empty_batch) (\<lambda>(consumed, batch).
      if consumed = 0 \<and> read_len = max_poll_bytes \<and> unread > read_len
      then Inl ''events.jsonl record exceeds 1048576 byte limit''
      else Inr (batch\<lparr>pb_unterminated := (consumed < length buf \<and> read_len = unread), pb_consumed := consumed\<rparr>))"

definition commit_batch :: "(string \<Rightarrow> bits) \<Rightarrow> poll_batch \<Rightarrow> tail_reader \<Rightarrow> event list \<times> tail_reader" where
  "commit_batch sha b r =
    (pb_events b,
     \<lparr>rd_offset = rd_offset r + pb_consumed b,
      rd_recent = fold recent_insert (pb_delivered_ids b) (rd_recent r),
      rd_filter = fold (filter_insert sha) (pb_delivered_ids b) (rd_filter r),
      rd_stats = \<lparr>ps_delivered = ps_delivered (rd_stats r) + ps_delivered (pb_stats b),
                  ps_skipped_invalid = ps_skipped_invalid (rd_stats r) + ps_skipped_invalid (pb_stats b),
                  ps_skipped_dup = ps_skipped_dup (rd_stats r) + ps_skipped_dup (pb_stats b)\<rparr>,
      rd_unterminated = pb_unterminated b\<rparr>)"

definition poll ::
    "'d outbox_env \<Rightarrow> (string \<Rightarrow> bits) \<Rightarrow> string \<Rightarrow> tail_reader \<Rightarrow> (string + event list) \<times> tail_reader" where
  "poll env sha bytes r =
    (if length bytes \<le> rd_offset r
     then (case commit_batch sha empty_batch r of (es, r) \<Rightarrow> (Inr es, r))
     else
       (let unread = length bytes - rd_offset r;
            read_len = min unread max_poll_bytes;
            buf = take read_len (drop (rd_offset r) bytes)
        in case interpret_buffer env sha bytes r buf unread read_len of
             Inl e \<Rightarrow> (Inl e, r\<lparr>rd_unterminated := False\<rparr>)
           | Inr b \<Rightarrow> (case commit_batch sha b r of (es, r) \<Rightarrow> (Inr es, r))))"

lemma interpret_lines_bound:
  "interpret_lines env sha bytes r rest consumed batch = Inr (c, b)
    \<Longrightarrow> consumed \<le> c \<and> c \<le> consumed + length rest"
proof (induction env sha bytes r rest consumed batch rule: interpret_lines.induct)
  case (1 env sha bytes r rest consumed batch)
  show ?case
  proof (cases "split_line rest")
    case None
    then show ?thesis using 1(2) by (simp add: interpret_lines.simps)
  next
    case (Some p)
    obtain raw rest' where p: "p = (raw, rest')" by fastforce
    obtain batch' where b: "classify_line env sha bytes r raw (rd_offset r + consumed) batch = Inr batch'"
        "interpret_lines env sha bytes r rest' (consumed + length raw + 1) batch' = Inr (c, b)"
      using 1(2) Some p by (subst (asm) interpret_lines.simps) auto
    have len: "length raw + 1 + length rest' = length rest" using Some p by (auto simp: split_line_Some)
    show ?thesis using 1(1)[OF Some p[symmetric] b(2)] len by simp
  qed
qed

text \<open>\<open>poll_all\<close> on a file that does not change: repeat until the cursor stands still.\<close>

function poll_all ::
    "'d outbox_env \<Rightarrow> (string \<Rightarrow> bits) \<Rightarrow> string \<Rightarrow> tail_reader \<Rightarrow> event list \<Rightarrow> (string + event list) \<times> tail_reader" where
  "poll_all env sha bytes r events =
    (case poll env sha bytes r of
       (Inl e, r') \<Rightarrow> (Inl e, r')
     | (Inr es, r') \<Rightarrow>
         (if rd_offset r' = rd_offset r then (Inr (events @ es), r')
          else poll_all env sha bytes r' (events @ es)))"
  by pat_completeness auto
termination
proof (relation "measure (\<lambda>(env, sha, bytes, r, events). length bytes - rd_offset r)")
  fix env :: "'d outbox_env" and sha bytes r and events :: "event list" and x r' es
  assume p: "(x, r') = poll env sha bytes r" "x = Inr es" "rd_offset r' \<noteq> rd_offset r"
  have small: "\<not> length bytes \<le> rd_offset r"
    using p by (auto simp: poll_def commit_batch_def empty_batch_def)
  let ?unread = "length bytes - rd_offset r"
  let ?k = "min ?unread max_poll_bytes"
  let ?buf = "take ?k (drop (rd_offset r) bytes)"
  obtain b where b: "interpret_buffer env sha bytes r ?buf ?unread ?k = Inr b" "rd_offset r' = rd_offset r + pb_consumed b"
    using p small by (auto simp: poll_def Let_def commit_batch_def split: sum.splits)
  then have "pb_consumed b \<le> length ?buf"
    by (auto simp: interpret_buffer_def split: if_splits dest: interpret_lines_bound)
  then show "((env, sha, bytes, r', events @ es), env, sha, bytes, r, events)
      \<in> measure (\<lambda>(env, sha, bytes, r, events). length bytes - rd_offset r)"
    using small b p(3) by simp
qed simp

declare poll_all.simps [simp del]

section \<open>Lines and their events\<close>

text \<open>The complete lines of some bytes, the event each holds, and which events are new.\<close>

function complete_lines :: "string \<Rightarrow> string list" where
  "complete_lines s = (case split_line s of None \<Rightarrow> [] | Some (line, rest) \<Rightarrow> line # complete_lines rest)"
  by pat_completeness auto
termination by (relation "measure length") (auto simp: split_line_Some)

declare complete_lines.simps [simp del]

end
