(* ===== verification/ReaderInv.thy ===== *)
theory ReaderInv
  imports Reader OutboxProps
begin

text \<open>
  The reader against its specification: whatever the chunks, the window of recent ids and the
  filter contain, it delivers the events of the complete lines in order, each id once.
\<close>

section \<open>The filter\<close>

lemma le_value_bits: "b \<in> set (dedupe_bits sha i) \<Longrightarrow> b div 8 < dedupe_filter_bytes"
  by (auto simp: dedupe_bits_def dedupe_filter_bytes_def)

lemma bit_at_iff: "bit_at b f \<longleftrightarrow> bit (f ! (b div 8)) (b mod 8)"
proof -
  have "(w AND push_bit n 1 \<noteq> 0) = bit w n" if "n < 8" for w :: "8 word" and n
  proof -
    have "bit (w AND push_bit n 1) k \<longleftrightarrow> k = n \<and> bit w n" for k
      using that by (auto simp: bit_and_iff bit_exp_iff possible_bit_word)
    then show ?thesis by (metis bit_eqI bit_0_eq bot_apply bot_bool_def)
  qed
  then show ?thesis by (simp add: bit_at_def)
qed

lemma set_bit_length [simp]: "length (set_bit_at b f) = length f"
  by (simp add: set_bit_at_def)

lemma set_bit_keeps:
  assumes "b div 8 < length f"
  shows "bit_at b (set_bit_at b f)" and "bit_at c f \<Longrightarrow> bit_at c (set_bit_at b f)"
proof -
  have one: "bit (push_bit (b mod 8) 1 :: 8 word) (b mod 8)" by (simp add: bit_simps)
  then show "bit_at b (set_bit_at b f)" using assms by (simp add: bit_at_iff set_bit_at_def bit_or_iff)
  show "bit_at c f \<Longrightarrow> bit_at c (set_bit_at b f)"
    using assms by (cases "b div 8 = c div 8") (auto simp: bit_at_iff set_bit_at_def bit_or_iff)
qed

lemma set_bits_keep:
  assumes "\<forall>b \<in> set bs. b div 8 < length f"
  shows "length (fold set_bit_at bs f) = length f"
    and "\<forall>b \<in> set bs. bit_at b (fold set_bit_at bs f)"
    and "\<forall>c. bit_at c f \<longrightarrow> bit_at c (fold set_bit_at bs f)"
proof -
  have "length (fold set_bit_at bs f) = length f \<and> (\<forall>b \<in> set bs. bit_at b (fold set_bit_at bs f))
    \<and> (\<forall>c. bit_at c f \<longrightarrow> bit_at c (fold set_bit_at bs f))"
    using assms
  proof (induction bs arbitrary: f)
    case (Cons b bs)
    then show ?case using set_bit_keeps[of b f] Cons.IH[of "set_bit_at b f"] by simp
  qed simp
  then show "length (fold set_bit_at bs f) = length f"
    and "\<forall>b \<in> set bs. bit_at b (fold set_bit_at bs f)"
    and "\<forall>c. bit_at c f \<longrightarrow> bit_at c (fold set_bit_at bs f)" by blast+
qed

definition full_filter :: "bits \<Rightarrow> bool" where
  "full_filter f \<longleftrightarrow> length f = dedupe_filter_bytes"

lemma filter_default_full [simp]: "full_filter filter_default"
  by (simp add: full_filter_def filter_default_def)

lemma filter_insert_keeps:
  assumes "full_filter f"
  shows "full_filter (filter_insert sha i f)" and "maybe_contains sha i (filter_insert sha i f)"
    and "maybe_contains sha j f \<Longrightarrow> maybe_contains sha j (filter_insert sha i f)"
  using set_bits_keep[of "dedupe_bits sha i" f] le_value_bits assms
  by (auto simp: filter_insert_def maybe_contains_def full_filter_def list_all_iff)

text \<open>The contract of a membership filter: what was inserted is never denied.\<close>

locale membership_filter =
  fixes ins :: "'k \<Rightarrow> 'f \<Rightarrow> 'f" and contains :: "'k \<Rightarrow> 'f \<Rightarrow> bool" and invar :: "'f \<Rightarrow> bool"
  assumes ins_invar: "invar f \<Longrightarrow> invar (ins i f)"
    and ins_contains: "invar f \<Longrightarrow> contains i (ins i f)"
    and ins_keeps: "invar f \<Longrightarrow> contains j f \<Longrightarrow> contains j (ins i f)"
begin

lemma inserts_keep:
  assumes "invar f"
  shows "invar (fold ins is f)" and "\<forall>i \<in> set is. contains i (fold ins is f)"
    and "contains j f \<Longrightarrow> contains j (fold ins is f)"
proof -
  have "invar (fold ins is f) \<and> (\<forall>i \<in> set is. contains i (fold ins is f))
    \<and> (\<forall>j. contains j f \<longrightarrow> contains j (fold ins is f))"
    using assms
  proof (induction "is" arbitrary: f)
    case (Cons i js)
    show ?case
      using Cons.IH[OF ins_invar[OF Cons.prems, of i]] ins_contains[OF Cons.prems, of i]
      by (simp add: ins_keeps[OF Cons.prems])
  qed simp
  then show "invar (fold ins is f)" and "\<forall>i \<in> set is. contains i (fold ins is f)"
    and "contains j f \<Longrightarrow> contains j (fold ins is f)" by blast+
qed

end

interpretation dedupe: membership_filter "filter_insert sha" "maybe_contains sha" full_filter for sha
  by unfold_locales (rule filter_insert_keeps, assumption+)+

lemmas filter_inserts_keep = dedupe.inserts_keep

lemma recent_inserts_set: "set (fold recent_insert is ids) \<subseteq> set is \<union> set ids"
proof (induction "is" arbitrary: ids)
  case (Cons i js)
  have "set (recent_insert i ids) \<subseteq> insert i (set ids)"
    by (cases ids) (auto simp: recent_insert_def Let_def)
  then show ?case using Cons.IH[of "recent_insert i ids"] by auto
qed simp

section \<open>Lines and their events\<close>

lemma complete_lines_None [simp]: "nl \<notin> set s \<Longrightarrow> complete_lines s = []"
  by (subst complete_lines.simps) (simp add: split_line_None[THEN iffD2])

lemma complete_lines_Cons [simp]: "nl \<notin> set line \<Longrightarrow> complete_lines (line @ nl # rest) = line # complete_lines rest"
  by (subst complete_lines.simps) (simp add: split_line_append)

lemma complete_lines_append: "terminated xs \<Longrightarrow> complete_lines (xs @ ys) = complete_lines xs @ complete_lines ys"
proof (induction xs rule: length_induct)
  case (1 xs)
  show ?case
  proof (cases "xs = []")
    case False
    then obtain line rest where x: "xs = line @ nl # rest" "nl \<notin> set line" "terminated rest"
      using terminated_cases 1(2) by blast
    then show ?thesis using 1(1) by simp
  qed simp
qed

definition event_in :: "'d outbox_env \<Rightarrow> string \<Rightarrow> event option" where
  "event_in env line =
    (if utf8_ok line then (case parse_line (oe_from_str env) (trim line) of Inr e \<Rightarrow> Some e | Inl _ \<Rightarrow> None)
     else None)"

definition events_in :: "'d outbox_env \<Rightarrow> string \<Rightarrow> event list" where
  "events_in env s = List.map_filter (event_in env) (complete_lines s)"

definition ids_of :: "event list \<Rightarrow> string set" where
  "ids_of es = ev_id ` set es"

text \<open>Lines that are neither blank nor an event.\<close>

definition invalid_lines :: "'d outbox_env \<Rightarrow> string \<Rightarrow> nat" where
  "invalid_lines env s =
    length (filter (\<lambda>l. event_in env l = None \<and> \<not> (utf8_ok l \<and> trim l = [])) (complete_lines s))"

fun fresh :: "string set \<Rightarrow> event list \<Rightarrow> event list" where
  "fresh seen [] = []"
| "fresh seen (e # es) = (if ev_id e \<in> seen then fresh seen es else e # fresh (insert (ev_id e) seen) es)"

lemma fresh_append: "fresh seen (xs @ ys) = fresh seen xs @ fresh (seen \<union> ids_of xs) ys"
  by (induction xs arbitrary: seen) (auto simp: ids_of_def insert_absorb)

lemma fresh_ids: "seen \<union> ids_of (fresh seen xs) = seen \<union> ids_of xs"
proof (induction xs arbitrary: seen)
  case (Cons e es)
  show ?case
    using Cons.IH[of seen] Cons.IH[of "insert (ev_id e) seen"]
    by (cases "ev_id e \<in> seen") (auto simp: ids_of_def insert_absorb)
qed simp

lemma fresh_distinct: "distinct (map ev_id es) \<Longrightarrow> ids_of es \<inter> seen = {} \<Longrightarrow> fresh seen es = es"
  by (induction es arbitrary: seen) (auto simp: ids_of_def)

lemma events_in_None [simp]: "nl \<notin> set s \<Longrightarrow> events_in env s = []"
  by (simp add: events_in_def map_filter_simps)

lemma events_in_Cons [simp]:
  "nl \<notin> set line \<Longrightarrow> events_in env (line @ nl # rest) =
    (case event_in env line of Some e \<Rightarrow> [e] | None \<Rightarrow> []) @ events_in env rest"
  by (simp add: events_in_def map_filter_simps split: option.split)

lemma events_in_append: "terminated xs \<Longrightarrow> events_in env (xs @ ys) = events_in env xs @ events_in env ys"
  by (simp add: events_in_def complete_lines_append map_filter_def)

lemma ids_append [simp]: "ids_of (xs @ ys) = ids_of xs \<union> ids_of ys"
  by (auto simp: ids_of_def)

lemma ids_simps [simp]: "ids_of [] = {}" "ids_of (e # es) = insert (ev_id e) (ids_of es)"
  by (simp_all add: ids_of_def)

definition short_lines :: "string \<Rightarrow> bool" where
  "short_lines s \<longleftrightarrow> list_all (\<lambda>l. length l < max_poll_bytes) (complete_lines s)"

section \<open>One poll\<close>

lemma history_step:
  assumes "nl \<notin> set line" "length line \<le> max_poll_bytes"
  shows "history_contains env i (line @ nl # rest) =
    (if (case event_in env line of Some e \<Rightarrow> ev_id e = i | None \<Rightarrow> False) then Inr True
     else history_contains env i rest)"
proof -
  let ?k = "min (length (line @ nl # rest)) (max_poll_bytes + 2)"
  obtain j where j: "?k - length line = Suc j" "length line < ?k"
    using assms(2) by (cases "?k - length line") auto
  then have "take ?k (line @ nl # rest) = line @ nl # take j rest" by simp
  moreover have "takeWhile (\<lambda>c. c \<noteq> nl) (line @ nl # take j rest) = line"
    using assms(1) by (subst takeWhile_append2) auto
  ultimately have tw: "takeWhile (\<lambda>c. c \<noteq> nl) (take ?k (line @ nl # rest)) = line" by (simp only:)
  show ?thesis
    unfolding history_contains.simps[of env i "line @ nl # rest"] Let_def tw
    using j(2) assms(2) by (auto simp: event_in_def split: sum.splits)
qed

lemma history_exact:
  "terminated s \<Longrightarrow> short_lines s \<Longrightarrow> history_contains env i s = Inr (i \<in> ids_of (events_in env s))"
proof (induction s rule: length_induct)
  case (1 s)
  show ?case
  proof (cases "s = []")
    case True
    then show ?thesis by (simp add: history_contains.simps)
  next
    case False
    then obtain line rest where x: "s = line @ nl # rest" "nl \<notin> set line" "terminated rest"
      using terminated_cases 1(2) by blast
    then have l: "length line \<le> max_poll_bytes" "short_lines rest" using 1(3) by (simp_all add: short_lines_def)
    then have "history_contains env i rest = Inr (i \<in> ids_of (events_in env rest))" using 1(1) x by simp
    then show ?thesis unfolding x(1) history_step[OF x(2) l(1)] using x(2) by (auto split: option.splits)
  qed
qed

text \<open>What a reader knows about the bytes before its cursor.\<close>

definition reader_ok :: "'d outbox_env \<Rightarrow> (string \<Rightarrow> bits) \<Rightarrow> string \<Rightarrow> tail_reader \<Rightarrow> bool" where
  "reader_ok env sha bytes r \<longleftrightarrow>
    (let past = take (rd_offset r) bytes; seen = ids_of (events_in env past) in
     rd_offset r \<le> length bytes \<and> terminated past \<and> full_filter (rd_filter r)
     \<and> set (rd_recent r) \<subseteq> seen \<and> (\<forall>i \<in> seen. maybe_contains sha i (rd_filter r)))"

text \<open>What a batch knows about the bytes between the cursor and the line at hand.\<close>

definition batch_ok :: "'d outbox_env \<Rightarrow> string \<Rightarrow> tail_reader \<Rightarrow> nat \<Rightarrow> poll_batch \<Rightarrow> bool" where
  "batch_ok env bytes r a b \<longleftrightarrow>
    (let past = ids_of (events_in env (take (rd_offset r) bytes)) in
     ids_of (events_in env (take a bytes)) = past \<union> set (pb_delivered_ids b)
     \<and> pb_delivered_ids b = map ev_id (pb_events b))"

lemma classify_exact:
  assumes "reader_ok env sha bytes r" "batch_ok env bytes r a b" "terminated (take a bytes)"
    and "short_lines (take a bytes)"
  shows "classify_line env sha bytes r raw a b = Inr
    (case event_in env raw of
       None \<Rightarrow> (if utf8_ok raw \<and> trim raw = [] then b
                else b\<lparr>pb_stats := (pb_stats b)\<lparr>ps_skipped_invalid := ps_skipped_invalid (pb_stats b) + 1\<rparr>\<rparr>)
     | Some e \<Rightarrow>
         (if ev_id e \<in> ids_of (events_in env (take a bytes))
          then b\<lparr>pb_stats := (pb_stats b)\<lparr>ps_skipped_dup := ps_skipped_dup (pb_stats b) + 1\<rparr>\<rparr>
          else b\<lparr>pb_delivered_ids := pb_delivered_ids b @ [ev_id e],
                 pb_stats := (pb_stats b)\<lparr>ps_delivered := ps_delivered (pb_stats b) + 1\<rparr>,
                 pb_events := pb_events b @ [e]\<rparr>))"
proof (cases "event_in env raw")
  case None
  then show ?thesis
    by (auto simp: classify_line_def event_in_def Let_def parse_line_def split: if_splits sum.splits)
next
  case (Some e)
  have p: "utf8_ok raw" "parse_line (oe_from_str env) (trim raw) = Inr e" "trim raw \<noteq> []"
    using Some by (auto simp: event_in_def split: if_splits sum.splits)
      (simp add: parse_line_def)
  let ?ids = "ids_of (events_in env (take a bytes))"
  have dup: "(if ev_id e \<in> set (rd_recent r) \<or> ev_id e \<in> set (pb_delivered_ids b) then Inr True
      else if maybe_contains sha (ev_id e) (rd_filter r)
      then history_contains env (ev_id e) (take a bytes) else Inr False) = Inr (ev_id e \<in> ?ids)"
    using assms(1,2) history_exact[OF assms(3,4), of env "ev_id e"]
    by (auto simp: reader_ok_def batch_ok_def Let_def)
  show ?thesis unfolding classify_line_def Let_def Some using p dup by simp
qed

lemma short_lines_append [simp]:
  "terminated xs \<Longrightarrow> short_lines (xs @ ys) \<longleftrightarrow> short_lines xs \<and> short_lines ys"
  by (simp add: short_lines_def complete_lines_append)

lemma invalid_lines_Cons [simp]:
  "nl \<notin> set line \<Longrightarrow> invalid_lines env (line @ nl # rest) =
    (if event_in env line = None \<and> \<not> (utf8_ok line \<and> trim line = []) then 1 else 0) + invalid_lines env rest"
  by (simp add: invalid_lines_def)

lemma invalid_lines_None [simp]: "nl \<notin> set s \<Longrightarrow> invalid_lines env s = 0"
  by (simp add: invalid_lines_def)

lemma invalid_lines_append:
  "terminated xs \<Longrightarrow> invalid_lines env (xs @ ys) = invalid_lines env xs + invalid_lines env ys"
  by (simp add: invalid_lines_def complete_lines_append)

lemma terminated_line: "terminated past \<Longrightarrow> terminated (past @ line @ [nl])"
  by (simp add: terminated_def)

lemma interpret_exact:
  assumes ok: "reader_ok env sha bytes r" and torn: "nl \<notin> set torn"
  shows "bytes = past @ full @ later \<Longrightarrow> terminated past \<Longrightarrow> terminated full \<Longrightarrow>
    length past = rd_offset r + n \<Longrightarrow> batch_ok env bytes r (length past) b \<Longrightarrow> short_lines (past @ full) \<Longrightarrow>
    \<exists>b'. interpret_lines env sha bytes r (full @ torn) n b = Inr (n + length full, b')
      \<and> pb_events b' = pb_events b @ fresh (ids_of (events_in env past)) (events_in env full)
      \<and> ps_skipped_invalid (pb_stats b') = ps_skipped_invalid (pb_stats b) + invalid_lines env full
      \<and> batch_ok env bytes r (length past + length full) b'"
proof (induction full arbitrary: past n b rule: length_induct)
  case (1 full)
  show ?case
  proof (cases "full = []")
    case True
    then show ?thesis
      using torn 1(6) by (subst interpret_lines.simps) (simp add: split_line_None[THEN iffD2])
  next
    case False
    then obtain line rest where x: "full = line @ nl # rest" "nl \<notin> set line" "terminated rest"
      using terminated_cases 1(4) by blast
    let ?past = "past @ line @ [nl]"
    define seen where "seen = ids_of (events_in env past)"
    have past: "take (length past) bytes = past" using 1(2) by simp
    have tp: "terminated ?past" using 1(3) by (rule terminated_line)
    have sp: "short_lines past" "short_lines (?past @ rest)"
      using 1(3,7) x by simp_all
    define b1 where "b1 = (case event_in env line of
       None \<Rightarrow> (if utf8_ok line \<and> trim line = [] then b
                else b\<lparr>pb_stats := (pb_stats b)\<lparr>ps_skipped_invalid := ps_skipped_invalid (pb_stats b) + 1\<rparr>\<rparr>)
     | Some e \<Rightarrow>
         (if ev_id e \<in> seen
          then b\<lparr>pb_stats := (pb_stats b)\<lparr>ps_skipped_dup := ps_skipped_dup (pb_stats b) + 1\<rparr>\<rparr>
          else b\<lparr>pb_delivered_ids := pb_delivered_ids b @ [ev_id e],
                 pb_stats := (pb_stats b)\<lparr>ps_delivered := ps_delivered (pb_stats b) + 1\<rparr>,
                 pb_events := pb_events b @ [e]\<rparr>))"
    have c: "classify_line env sha bytes r line (rd_offset r + n) b = Inr b1"
      using classify_exact[OF ok 1(6), of line] 1(3,5) sp(1) unfolding past b1_def seen_def by simp
    have seen': "ids_of (events_in env ?past) = seen \<union> (case event_in env line of Some e \<Rightarrow> {ev_id e} | None \<Rightarrow> {})"
      using 1(3) x(2) by (simp add: events_in_append seen_def split: option.split)
    have tk: "take (length ?past) bytes = ?past" using 1(2) x(1) by simp
    have bk: "batch_ok env bytes r (length ?past) b1"
      using 1(6) unfolding batch_ok_def Let_def tk seen' past
      by (auto simp: b1_def seen_def split: option.split)
    obtain b' where b': "interpret_lines env sha bytes r (rest @ torn) (n + length line + 1) b1 =
        Inr (n + length line + 1 + length rest, b')"
      "pb_events b' = pb_events b1 @ fresh (ids_of (events_in env ?past)) (events_in env rest)"
      "ps_skipped_invalid (pb_stats b') = ps_skipped_invalid (pb_stats b1) + invalid_lines env rest"
      "batch_ok env bytes r (length ?past + length rest) b'"
      using 1(1)[rule_format, of rest ?past "n + length line + 1" b1] x(1,3) 1(2,5) tp bk sp(2) by auto
    have "interpret_lines env sha bytes r (full @ torn) n b =
        interpret_lines env sha bytes r (rest @ torn) (n + length line + 1) b1"
      using x c by (subst interpret_lines.simps) (simp add: split_line_append bind_res_def)
    moreover have "pb_events b1 @ fresh (ids_of (events_in env ?past)) (events_in env rest) =
        pb_events b @ fresh seen (events_in env full)"
      using x(1,2) unfolding seen' by (auto simp: b1_def insert_absorb split: option.split)
    moreover have "ps_skipped_invalid (pb_stats b1) + invalid_lines env rest =
        ps_skipped_invalid (pb_stats b) + invalid_lines env full"
      using x(1,2) by (auto simp: b1_def split: option.split)
    ultimately show ?thesis using b' x(1) by (intro exI[of _ b']) (simp add: seen_def add.assoc)
  qed
qed

lemma terminated_part: "s = full @ torn \<Longrightarrow> terminated s \<Longrightarrow> terminated torn"
  by (cases "torn = []") (simp_all add: terminated_def)

lemma terminated_join: "terminated xs \<Longrightarrow> terminated ys \<Longrightarrow> terminated (xs @ ys)"
  by (cases "ys = []") (simp_all add: terminated_def)

lemma split_committed: "\<exists>full torn. s = full @ torn \<and> terminated full \<and> nl \<notin> set torn"
proof (induction s rule: rev_induct)
  case Nil
  show ?case by (intro exI[of _ "[]"]) (simp add: terminated_def)
next
  case (snoc c s)
  then obtain full torn where s: "s = full @ torn" "terminated full" "nl \<notin> set torn" by blast
  show ?case
  proof (cases "c = nl")
    case True
    then show ?thesis by (intro exI[of _ "s @ [c]"] exI[of _ "[]"]) (simp add: terminated_def)
  next
    case False
    then show ?thesis using s by (intro exI[of _ full] exI[of _ "torn @ [c]"]) auto
  qed
qed

lemma committed_split:
  assumes "x @ y = committed @ torn" "terminated x" "terminated committed" "nl \<notin> set torn"
  obtains z where "committed = x @ z" "y = z @ torn" "terminated z"
proof -
  obtain us where us: "x @ us = committed \<and> y = us @ torn \<or> x = committed @ us \<and> us @ y = torn"
    using assms(1) by (auto simp: append_eq_append_conv2)
  have "us = []" if "x = committed @ us" "us @ y = torn"
  proof (rule ccontr)
    assume "us \<noteq> []"
    then have "last us = nl" using that(1) assms(2) by (simp add: terminated_def)
    then show False using \<open>us \<noteq> []\<close> that(2) assms(4) last_in_set[of us] by auto
  qed
  then have "\<exists>z. committed = x @ z \<and> y = z @ torn" using us by auto
  then show thesis using that terminated_part[OF _ assms(3)] by blast
qed

text \<open>What the reader would deliver of some bytes, given those before its cursor.\<close>

definition undelivered :: "'d outbox_env \<Rightarrow> string \<Rightarrow> tail_reader \<Rightarrow> string \<Rightarrow> event list" where
  "undelivered env bytes r new = fresh (ids_of (events_in env (take (rd_offset r) bytes))) (events_in env new)"

lemma commit_ok:
  assumes ok: "reader_ok env sha bytes r" and t: "take (rd_offset r) bytes = past" "terminated full"
    and b: "bytes = past @ full @ later" "batch_ok env bytes r (length past + length full) b"
    and c: "pb_consumed b = length full"
  shows "reader_ok env sha bytes (snd (commit_batch sha b r))"
proof -
  let ?r = "snd (commit_batch sha b r)"
  have len: "length past = rd_offset r" using t(1) ok by (auto simp: reader_ok_def Let_def)
  have new: "take (rd_offset ?r) bytes = past @ full" using len c b(1) by (simp add: commit_batch_def)
  have past: "terminated past" using ok t(1) by (simp add: reader_ok_def Let_def)
  have seen: "ids_of (events_in env (past @ full)) = ids_of (events_in env past) \<union> set (pb_delivered_ids b)"
    using b t(1) by (simp add: batch_ok_def Let_def)
  have "rd_offset ?r \<le> length bytes" using len c b(1) by (simp add: commit_batch_def)
  moreover have "terminated (past @ full)" using past t(2) by (rule terminated_join)
  moreover have f: "full_filter (rd_filter r)" using ok by (simp add: reader_ok_def Let_def)
  moreover have "set (rd_recent ?r) \<subseteq> ids_of (events_in env (past @ full))"
    using recent_inserts_set[of "pb_delivered_ids b" "rd_recent r"] ok t(1)
    unfolding seen by (auto simp: commit_batch_def reader_ok_def Let_def)
  moreover have "\<forall>i \<in> ids_of (events_in env (past @ full)). maybe_contains sha i (rd_filter ?r)"
    using filter_inserts_keep(2,3)[OF f] ok t(1)
    unfolding seen by (auto simp: commit_batch_def reader_ok_def Let_def)
  ultimately show ?thesis
    using filter_inserts_keep(1)[OF f]
    by (simp add: reader_ok_def Let_def new) (simp add: commit_batch_def)
qed

lemma reader_split:
  assumes ok: "reader_ok env sha (committed @ torn) r" and c: "terminated committed" "nl \<notin> set torn"
  obtains past rest where "take (rd_offset r) (committed @ torn) = past" "committed = past @ rest"
    "length past = rd_offset r" "drop (rd_offset r) (committed @ torn) = rest @ torn"
    "terminated past" "terminated rest"
proof -
  let ?past = "take (rd_offset r) (committed @ torn)"
  have p: "terminated ?past" "rd_offset r \<le> length (committed @ torn)"
    using ok by (simp_all add: reader_ok_def Let_def)
  obtain z where z: "committed = ?past @ z" "drop (rd_offset r) (committed @ torn) = z @ torn" "terminated z"
    using committed_split[OF append_take_drop_id p(1) c] .
  have "length ?past = rd_offset r" using p(2) by simp
  then show thesis using that[of ?past z] p(1) z by blast
qed

text \<open>Where the next complete line starts within reach of one chunk.\<close>

lemma line_in_chunk:
  assumes "terminated rest" "rest \<noteq> []" "short_lines rest" "k = min (length (rest @ torn)) max_poll_bytes"
  shows "nl \<in> set (take k (rest @ torn))"
proof -
  obtain line more' where x: "rest = line @ nl # more'" "nl \<notin> set line"
    by (rule terminated_cases[OF assms(1,2)])
  then have l: "length line < max_poll_bytes" using assms(3) by (simp add: short_lines_def)
  then have "length line < k" unfolding assms(4) x(1) by simp
  then have "take k (rest @ torn) = line @ nl # take (k - length line - 1) (more' @ torn)"
    unfolding x(1) by (cases "k - length line") simp_all
  then show ?thesis by simp
qed

lemma poll_exact:
  assumes ok: "reader_ok env sha (committed @ torn) r"
    and c: "terminated committed" "nl \<notin> set torn" "length torn \<le> max_poll_bytes" "short_lines committed"
  obtains past full rest r' where "committed = past @ full @ rest" "take (rd_offset r) (committed @ torn) = past"
    "length past = rd_offset r" "terminated past" "terminated full"
    "poll env sha (committed @ torn) r = (Inr (fresh (ids_of (events_in env past)) (events_in env full)), r')"
    "rd_offset r' = length (past @ full)" "reader_ok env sha (committed @ torn) r'"
    "ps_skipped_invalid (rd_stats r') = ps_skipped_invalid (rd_stats r) + invalid_lines env full"
    "full = [] \<longrightarrow> rest = [] \<and> (rd_unterminated r' \<longleftrightarrow> torn \<noteq> [])"
proof -
  obtain past rem where p: "take (rd_offset r) (committed @ torn) = past" "committed = past @ rem"
    "length past = rd_offset r" "drop (rd_offset r) (committed @ torn) = rem @ torn" "terminated past" "terminated rem"
    using reader_split[OF ok c(1,2)] .
  have b0: "batch_ok env (committed @ torn) r (length past) empty_batch"
    using p(3) by (simp add: batch_ok_def empty_batch_def)
  show thesis
  proof (cases "rem @ torn = []")
    case True
    then have pl: "poll env sha (committed @ torn) r = (Inr [], snd (commit_batch sha empty_batch r))"
      using p(2,3) by (simp add: poll_def commit_batch_def empty_batch_def)
    have "reader_ok env sha (committed @ torn) (snd (commit_batch sha empty_batch r))"
      using commit_ok[OF ok p(1), of "[]" "rem @ torn" empty_batch] p(2) b0 by (simp add: terminated_def empty_batch_def)
    moreover have "rd_offset (snd (commit_batch sha empty_batch r)) = length past"
      "ps_skipped_invalid (rd_stats (snd (commit_batch sha empty_batch r))) = ps_skipped_invalid (rd_stats r)"
      "rd_unterminated (snd (commit_batch sha empty_batch r)) = False"
      using p(3) by (simp_all add: commit_batch_def empty_batch_def no_stats_def)
    ultimately show thesis
      using True p pl by (intro that[of past "[]" rem]) (simp_all add: terminated_def)
  next
    case False
    let ?k = "min (length (rem @ torn)) max_poll_bytes"
    obtain full t where s: "take ?k (rem @ torn) = full @ t" "terminated full" "nl \<notin> set t"
      using split_committed by blast
    have "full @ (t @ drop ?k (rem @ torn)) = rem @ torn"
      using s(1) by (metis append.assoc append_take_drop_id)
    then obtain z where z: "rem = full @ z" "terminated z"
      using committed_split[OF _ s(2) p(6) c(2)] by blast
    have sl: "short_lines (past @ full)" "short_lines rem" using c(4) p(2,5) z(1) s(2) by auto
    have bytes: "committed @ torn = past @ full @ (z @ torn)" using p(2) z(1) by simp
    obtain b where b: "interpret_lines env sha (committed @ torn) r (full @ t) 0 empty_batch = Inr (length full, b)"
      "pb_events b = fresh (ids_of (events_in env past)) (events_in env full)"
      "ps_skipped_invalid (pb_stats b) = invalid_lines env full"
      "batch_ok env (committed @ torn) r (length past + length full) b"
      using interpret_exact[OF ok s(3) bytes p(5) s(2), of 0 empty_batch] p(3) b0 sl(1)
      by (auto simp: empty_batch_def no_stats_def)
    have nonempty: "rem = []" if "full = []"
    proof (rule ccontr)
      assume "rem \<noteq> []"
      then have "nl \<in> set (full @ t)" using line_in_chunk[OF p(6) _ sl(2), of ?k torn] unfolding s(1) by simp
      then show False using that s(3) by simp
    qed
    have fits: "\<not> (length full = 0 \<and> ?k = max_poll_bytes \<and> length (rem @ torn) > ?k)"
      using nonempty c(3) by auto
    have unread: "length (committed @ torn) - rd_offset r = length (rem @ torn)"
      using p(2,3) by simp
    let ?b = "b\<lparr>pb_unterminated := (length full < length (full @ t) \<and> ?k = length (rem @ torn)), pb_consumed := length full\<rparr>"
    have ib: "interpret_buffer env sha (committed @ torn) r (full @ t) (length (rem @ torn)) ?k = Inr ?b"
      using fits by (simp add: interpret_buffer_def b(1) bind_res_def)
    have pl: "poll env sha (committed @ torn) r = (Inr (pb_events b), snd (commit_batch sha ?b r))"
    proof -
      have "\<not> length (committed @ torn) \<le> rd_offset r" using unread False by (cases "length (rem @ torn)") auto
      then show ?thesis
        unfolding poll_def unread p(4) Let_def s(1) ib by (simp add: commit_batch_def)
    qed
    have "reader_ok env sha (committed @ torn) (snd (commit_batch sha ?b r))"
      using commit_ok[OF ok p(1) s(2) bytes, of ?b] b(4) by (simp add: batch_ok_def)
    moreover have "rd_offset (snd (commit_batch sha ?b r)) = length (past @ full)"
      "ps_skipped_invalid (rd_stats (snd (commit_batch sha ?b r))) = ps_skipped_invalid (rd_stats r) + invalid_lines env full"
      "rd_unterminated (snd (commit_batch sha ?b r)) \<longleftrightarrow> t \<noteq> [] \<and> ?k = length (rem @ torn)"
      using p(3) b(3) by (simp_all add: commit_batch_def)
    moreover have "t \<noteq> [] \<and> ?k = length (rem @ torn) \<longleftrightarrow> torn \<noteq> []" if "full = []"
      using nonempty that c(3) s(1) by auto
    ultimately show thesis
      using p z s(2) pl b(2) nonempty by (intro that[of past full z]) auto
  qed
qed

lemma fresh_seen: "fresh seen (events_in env (xs @ ys)) =
    fresh seen (events_in env xs) @ fresh (seen \<union> ids_of (events_in env xs)) (events_in env ys)"
  if "terminated xs"
  using that by (simp add: events_in_append fresh_append)

lemma poll_all_exact:
  assumes "terminated committed" "nl \<notin> set torn" "length torn \<le> max_poll_bytes" "short_lines committed"
  shows "reader_ok env sha (committed @ torn) r \<Longrightarrow>
    \<exists>r'. poll_all env sha (committed @ torn) r es =
        (Inr (es @ fresh (ids_of (events_in env (take (rd_offset r) committed))) (events_in env (drop (rd_offset r) committed))), r')
      \<and> rd_offset r' = length committed \<and> reader_ok env sha (committed @ torn) r'
      \<and> (rd_unterminated r' \<longleftrightarrow> torn \<noteq> [])
      \<and> ps_skipped_invalid (rd_stats r') = ps_skipped_invalid (rd_stats r) + invalid_lines env (drop (rd_offset r) committed)"
proof (induction "length committed - rd_offset r" arbitrary: r es rule: less_induct)
  case less
  obtain past full rest r' where p: "committed = past @ full @ rest" "take (rd_offset r) (committed @ torn) = past"
    "length past = rd_offset r" "terminated past" "terminated full"
    "poll env sha (committed @ torn) r = (Inr (fresh (ids_of (events_in env past)) (events_in env full)), r')"
    "rd_offset r' = length (past @ full)" "reader_ok env sha (committed @ torn) r'"
    "ps_skipped_invalid (rd_stats r') = ps_skipped_invalid (rd_stats r) + invalid_lines env full"
    "full = [] \<longrightarrow> rest = [] \<and> (rd_unterminated r' \<longleftrightarrow> torn \<noteq> [])"
    by (rule poll_exact[OF less(2) assms])
  have now: "take (rd_offset r) committed = past" "drop (rd_offset r) committed = full @ rest"
    using p(1,3) by (metis append_eq_conv_conj)+
  have new: "take (rd_offset r') committed = past @ full" "drop (rd_offset r') committed = rest"
    using p(1,7) by (simp_all)
  show ?case
  proof (cases "full = []")
    case True
    then show ?thesis
      using p by (subst poll_all.simps) (simp add: now fresh_seen)
  next
    case False
    then have "length committed - rd_offset r' < length committed - rd_offset r" using p(1,3,7) by simp
    from less(1)[OF this p(8), of "es @ fresh (ids_of (events_in env past)) (events_in env full)"]
    show ?thesis
      using False p(3,5,6,7,9) unfolding now new
      by (subst poll_all.simps)
        (simp add: fresh_seen events_in_append[OF p(4)] invalid_lines_append add.assoc)
  qed
qed

end
