(* ===== verification/ReaderProps.thy ===== *)
theory ReaderProps
  imports ReaderInv
begin

text \<open>
  What the tail reader promises to those who follow the event file: it reads what the writer
  appended, it may be stopped and resumed at any moment, and its window of recent ids, its filter
  and its chunks never show.
\<close>

section \<open>Lines the writer accepts\<close>

lemma parse_trimmed [simp]: "parse_line f (trim line) = parse_line f line"
  by (simp add: parse_line_def)

text \<open>A line the writer's scan accepts is blank or an event, and its id enters the index.\<close>

lemma scan_line_ids:
  assumes "scan_line env line i = Inr j"
  shows "dom (map_of (ci_semantic_by_id j)) = dom (map_of (ci_semantic_by_id i)) \<union>
      (case event_in env line of Some e \<Rightarrow> {ev_id e} | None \<Rightarrow> {})"
    and "event_in env line = None \<Longrightarrow> utf8_ok line \<and> trim line = []"
  using assms
  by (auto simp: scan_line_def Let_def event_in_def parse_line_def split: if_splits sum.splits option.splits)

lemma scan_ids:
  assumes "terminated s" "scan_committed_range env s i = Inr j"
  shows "dom (map_of (ci_semantic_by_id j)) = dom (map_of (ci_semantic_by_id i)) \<union> ids_of (events_in env s)
    \<and> invalid_lines env s = 0"
  using assms
proof (induction s arbitrary: i rule: length_induct)
  case (1 s)
  show ?case
  proof (cases "s = []")
    case False
    then obtain line rest where x: "s = line @ nl # rest" "nl \<notin> set line" "terminated rest"
      using terminated_cases 1(2) by blast
    obtain k where k: "scan_line env line i = Inr k" "scan_committed_range env rest k = Inr j"
      using 1(3) unfolding x(1) scan_line_step[OF x(2)] by (auto simp: bind_res_def split: if_splits sum.splits)
    have "length rest < length s" using x(1) by simp
    then have IH: "dom (map_of (ci_semantic_by_id j)) = dom (map_of (ci_semantic_by_id k)) \<union> ids_of (events_in env rest)"
      "invalid_lines env rest = 0"
      using 1(1) x(3) k(2) by blast+
    note line = scan_line_ids[OF k(1)]
    have "ids_of (events_in env s) =
        (case event_in env line of Some e \<Rightarrow> {ev_id e} | None \<Rightarrow> {}) \<union> ids_of (events_in env rest)"
      using x(1,2) by (simp split: option.split)
    moreover have "invalid_lines env s = 0" using x(1,2) IH(2) line(2) by (cases "event_in env line") simp_all
    ultimately show ?thesis unfolding IH(1) line(1) by blast
  qed (use 1 in simp)
qed

lemma index_ids:
  assumes "terminated s" "index_of env s = Inr i"
  shows "map_of (ci_semantic_by_id i) k = None \<longleftrightarrow> k \<notin> ids_of (events_in env s)" and "invalid_lines env s = 0"
proof -
  obtain j where j: "scan_committed_range env s empty_index = Inr j" "i = at_len (length s) j"
    using assms(2) by (auto simp: index_of_def)
  have "dom (map_of (ci_semantic_by_id i)) = ids_of (events_in env s)" and "invalid_lines env s = 0"
    using scan_ids[OF assms(1) j(1)] j(2) by (simp_all add: empty_index_fields)
  then show "map_of (ci_semantic_by_id i) k = None \<longleftrightarrow> k \<notin> ids_of (events_in env s)" "invalid_lines env s = 0"
    by blast+
qed

section \<open>Following a growing file\<close>

text \<open>A file whose committed lines stay below the reader's limit.\<close>

definition followable :: "string \<Rightarrow> bool" where
  "followable bytes \<longleftrightarrow> (case committed_prefix_len bytes of Inr n \<Rightarrow> short_lines (take n bytes) | Inl _ \<Rightarrow> False)"

definition committed_part :: "string \<Rightarrow> string" where
  "committed_part bytes = (case committed_prefix_len bytes of Inr n \<Rightarrow> take n bytes | Inl _ \<Rightarrow> [])"

lemma torn_bound: "committed_prefix_len bytes = Inr n \<Longrightarrow> length bytes - n \<le> max_event_line_bytes"
  by (auto simp: committed_prefix_len_def Let_def neq_Nil_conv split: if_splits)

lemma followable_split:
  assumes "followable bytes"
  obtains torn where "bytes = committed_part bytes @ torn" "terminated (committed_part bytes)" "nl \<notin> set torn"
    "length torn \<le> max_poll_bytes" "short_lines (committed_part bytes)"
    "committed_prefix_len bytes = Inr (length (committed_part bytes))"
proof -
  obtain n where n: "committed_prefix_len bytes = Inr n" "short_lines (take n bytes)"
    using assms by (auto simp: followable_def split: sum.splits)
  note p = committed_prefix[OF n(1)]
  show thesis
    by (rule that[of "drop n bytes"])
      (use n p torn_bound[OF n(1)] in \<open>auto simp: committed_part_def max_poll_bytes_def max_event_line_bytes_def\<close>)
qed

lemma new_reader_ok: "reader_ok env sha bytes reader_new"
  by (simp add: reader_ok_def reader_new_def Let_def terminated_def)

lemma followed:
  assumes "followable bytes" "reader_ok env sha bytes r"
  shows "\<exists>r'. poll_all env sha bytes r es =
        (Inr (es @ fresh (ids_of (events_in env (take (rd_offset r) (committed_part bytes))))
                     (events_in env (drop (rd_offset r) (committed_part bytes)))), r')
      \<and> rd_offset r' = length (committed_part bytes) \<and> reader_ok env sha bytes r'
      \<and> (rd_unterminated r' \<longleftrightarrow> length (committed_part bytes) < length bytes)
      \<and> ps_skipped_invalid (rd_stats r') = ps_skipped_invalid (rd_stats r)
          + invalid_lines env (drop (rd_offset r) (committed_part bytes))"
proof -
  obtain torn where t: "bytes = committed_part bytes @ torn" "terminated (committed_part bytes)" "nl \<notin> set torn"
    "length torn \<le> max_poll_bytes" "short_lines (committed_part bytes)"
    by (rule followable_split[OF assms(1)])
  have "torn \<noteq> [] \<longleftrightarrow> length (committed_part bytes) < length bytes"
    using arg_cong[OF t(1), of length] by auto
  then show ?thesis
    using poll_all_exact[OF t(2,3,4,5), of env sha r es] assms(2) t(1)[symmetric] by simp
qed

lemma followed_from_start:
  assumes "followable bytes" "poll_all env sha bytes reader_new [] = (x, r)"
  shows "x = Inr (fresh {} (events_in env (committed_part bytes)))" "rd_offset r = length (committed_part bytes)"
    "reader_ok env sha bytes r"
  using followed[OF assms(1) new_reader_ok, of env sha "[]"] assms(2) by (auto simp: reader_new_def)

text \<open>The committed part of a file that has grown, and what a reader knows of it.\<close>

lemma grown:
  assumes "extends bytes bytes'" "followable bytes" "followable bytes'"
  obtains new where "committed_part bytes' = committed_part bytes @ new" "terminated new"
proof -
  obtain torn where t: "terminated (committed_part bytes)"
    "committed_prefix_len bytes = Inr (length (committed_part bytes))"
    by (rule followable_split[OF assms(2)])
  obtain torn' where t': "terminated (committed_part bytes')"
    "committed_prefix_len bytes' = Inr (length (committed_part bytes'))"
    by (rule followable_split[OF assms(3)])
  define n where "n = length (committed_part bytes)"
  define n' where "n' = length (committed_part bytes')"
  have n: "committed_prefix_len bytes = Inr n" "committed_prefix_len bytes' = Inr n'"
    using t(2) t'(2) by (simp_all only: n_def n'_def)
  have part: "committed_part bytes = take n bytes" "committed_part bytes' = take n' bytes'"
    by (simp_all only: committed_part_def n sum.case)
  have "n \<le> n'" "take n bytes' = take n bytes" using assms(1) n by (auto simp: extends_def)
  then have "take n (committed_part bytes') = committed_part bytes" unfolding part by (simp add: min_absorb1)
  then have "committed_part bytes' = committed_part bytes @ drop n (committed_part bytes')"
    by (metis append_take_drop_id)
  then show thesis using that terminated_part t'(1) by blast
qed

lemma reader_ok_grown:
  assumes "reader_ok env sha bytes r" "rd_offset r = length (committed_part bytes)"
    and "extends bytes bytes'" "followable bytes" "followable bytes'"
  shows "reader_ok env sha bytes' r"
proof -
  obtain new where n: "committed_part bytes' = committed_part bytes @ new" by (rule grown[OF assms(3,4,5)])
  obtain torn where t: "bytes = committed_part bytes @ torn" by (rule followable_split[OF assms(4)])
  obtain torn' where t': "bytes' = committed_part bytes' @ torn'" by (rule followable_split[OF assms(5)])
  have b: "bytes' = committed_part bytes @ (new @ torn')" using t' n by simp
  have "take (rd_offset r) bytes = committed_part bytes" unfolding assms(2) by (subst t) simp
  moreover have "take (rd_offset r) bytes' = committed_part bytes" unfolding assms(2) by (subst b) simp
  moreover have "rd_offset r \<le> length bytes'" unfolding assms(2) by (subst b) simp
  ultimately show ?thesis using assms(1) by (simp add: reader_ok_def Let_def)
qed

lemma followed_grown:
  assumes "reader_ok env sha bytes r" "rd_offset r = length (committed_part bytes)"
    and "extends bytes bytes'" "followable bytes" "followable bytes'"
    and "committed_part bytes' = committed_part bytes @ new"
  shows "\<exists>r'. poll_all env sha bytes' r es =
      (Inr (es @ fresh (ids_of (events_in env (committed_part bytes))) (events_in env new)), r')"
  using followed[OF assms(5) reader_ok_grown[OF assms(1-5)], of es] assms(2,6) by auto

section \<open>What an append adds\<close>

lemma readable_line:
  assumes "readable env e"
  shows "event_in env (to_json_line (oe_to_text env) e) = Some e" "nl \<notin> set (to_json_line (oe_to_text env) e)"
  using assms by (simp_all add: readable_def codec_ok_def event_in_def Let_def parse_line_def event_value_parses)

lemma append_adds:
  assumes "consistent env i b" "committed_prefix_len b = Inr n" "readable env e"
    and "append_idempotent env i b e = (Inr outcome, i', b')"
  shows "\<exists>new. committed_part b' = committed_part b @ new \<and> committed_prefix_len b' = Inr (length (committed_part b'))
    \<and> terminated (committed_part b) \<and> terminated new
    \<and> events_in env new = fresh (ids_of (events_in env (committed_part b))) [e]"
proof -
  note p = committed_prefix[OF assms(2)]
  let ?line = "to_json_line (oe_to_text env) e @ [nl]"
  have part: "committed_part b = take n b" by (simp add: committed_part_def assms(2))
  obtain j where j: "index_of env (take n b) = Inr j"
    using assms(4) append_eval[OF assms(1,2), of e] by (cases "index_of env (take n b)") simp_all
  note ids = index_ids(1)[OF p(2) j]
  show ?thesis
  proof (cases "map_of (ci_semantic_by_id j) (ev_id e)")
    case (Some fp)
    then have "b' = take n b" using assms(4) append_eval[OF assms(1,2), of e] j by (simp split: if_splits)
    then show ?thesis
      using ids[of "ev_id e"] Some part prefix_again[OF assms(2)] p(1,2)
      by (intro exI[of _ "[]"]) (simp add: committed_part_def min_absorb1 terminated_def)
  next
    case None
    then have b': "b' = take n b @ ?line"
      using assms(4) append_eval[OF assms(1,2), of e] j by (auto simp: Let_def split: if_splits)
    have t: "terminated b'" by (simp add: b')
    then have c: "committed_prefix_len b' = Inr (length b')" by (rule prefix_terminated)
    then have "committed_part b' = b'" by (simp add: committed_part_def)
    moreover have "events_in env ?line = [e]" using readable_line[OF assms(3)] by simp
    ultimately show ?thesis
      using ids[of "ev_id e"] None part c p(2) b' terminated_append[of "[]"]
      by (intro exI[of _ ?line]) simp
  qed
qed

lemma append_all_adds:
  assumes "append_all env k es i b = (Inr u, i', b')" "consistent env i b" "committed_prefix_len b = Inr n"
    and "list_all (readable env) es" "terminated (committed_part b)"
  shows "\<exists>new. committed_part b' = committed_part b @ new
    \<and> events_in env new = fresh (ids_of (events_in env (committed_part b))) es"
  using assms
proof (induction es arbitrary: k i b n)
  case Nil
  then show ?case by (intro exI[of _ "[]"]) simp
next
  case (Cons e es)
  obtain x j c where a: "append_idempotent env i b e = (x, j, c)" by (cases "append_idempotent env i b e") blast
  then obtain y where y: "x = Inr y" "append_all env (map_option (\<lambda>n. n - 1) k) es j c = (Inr u, i', b')"
    using Cons.prems(1) by (cases x) (auto split: if_splits)
  have e: "readable env e" "list_all (readable env) es" using Cons.prems(4) by simp_all
  have j: "consistent env j c" using append_consistent[OF Cons.prems(2) _ _ a] e(1) by (simp add: readable_def)
  obtain new where n: "committed_part c = committed_part b @ new"
    "committed_prefix_len c = Inr (length (committed_part c))" "terminated (committed_part b)" "terminated new"
    "events_in env new = fresh (ids_of (events_in env (committed_part b))) [e]"
    using append_adds[OF Cons.prems(2,3) e(1) a[unfolded y(1)]] by blast
  have tc: "terminated (committed_part c)" using n(1,3,4) terminated_join by simp
  obtain more' where m: "committed_part b' = committed_part c @ more'"
    "events_in env more' = fresh (ids_of (events_in env (committed_part c))) es"
    using Cons.IH[OF y(2) j n(2) e(2) tc] by blast
  show ?case
    using m n by (intro exI[of _ "new @ more'"]) (auto simp: events_in_append insert_absorb)
qed

lemma fresh_again [simp]: "fresh seen (fresh seen es) = fresh seen es"
proof -
  have part: "ids_of (fresh s es) \<inter> s = {}" for s :: "string set" and es
    by (induction es arbitrary: s) auto
  have "distinct (map ev_id (fresh s es))" for s :: "string set" and es
  proof (induction es arbitrary: s)
    case (Cons e es)
    then show ?case using part[of "insert (ev_id e) s" es] by (auto simp: ids_of_def)
  qed simp
  then show ?thesis using part by (intro fresh_distinct)
qed

section \<open>The persisted cursor\<close>

lemma hex_digits: "n < 16 \<Longrightarrow> hex_digit_value (hex_char n) = Some n"
proof -
  have "list_all (\<lambda>n. hex_digit_value (hex_char n) = Some n) [0..<16]" by code_simp
  then show "n < 16 \<Longrightarrow> hex_digit_value (hex_char n) = Some n" by (simp only: list_all_iff set_upt) simp
qed

lemma hex_pairs_to_hex: "hex_pairs (to_hex f) = Some f"
proof (induction f)
  case (Cons w f)
  have "unat w < 256" using unsigned_less[of w, where ?'a = nat] by simp
  then have "unat w div 16 < 16" by simp
  moreover have "word_of_nat (unat w div 16 * 16 + unat w mod 16) = w" by (simp only: div_mult_mod_eq) simp
  ultimately show ?case using Cons by (simp add: to_hex_def hex_digits)
qed (simp add: to_hex_def)

lemma hex_round_trip: "full_filter f \<Longrightarrow> from_hex (to_hex f) = Inr f"
proof -
  have "length (to_hex f) = length f * 2" by (induction f) (simp_all add: to_hex_def)
  then show "full_filter f \<Longrightarrow> from_hex (to_hex f) = Inr f"
    by (simp add: from_hex_def hex_pairs_to_hex full_filter_def)
qed

lemma all_strings_JStr: "all_strings (map JStr ss) = Inr ss"
  by (induction ss) (simp_all add: as_str_def bind_res_def)

lemma cursor_value_parses:
  assumes "full_filter f" "cu_byte_offset c \<le> u64_max" "cu_dedupe_filter c = Some (to_hex f)"
  shows "cursor_of_value sha (cursor_value c) =
    Inr (c\<lparr>cu_delivered_ids := last_ids (cu_delivered_ids c),
           cu_dedupe_filter := Some (to_hex (fold (filter_insert sha) (last_ids (cu_delivered_ids c)) f))\<rparr>)"
proof -
  have "last_ids (last_ids ids) = last_ids ids" for ids by (simp add: last_ids_def)
  then show ?thesis
    using assms
    by (simp add: cursor_value_def cursor_of_value_def as_object_def Let_def bind_res_def all_strings_JStr
        hex_round_trip)
qed

lemma resumed_ok:
  assumes ok: "reader_ok env sha bytes r" and off: "rd_offset r \<le> u64_max"
    and codec: "from_str (to_text (cursor_value (reader_cursor r))) = Inr (cursor_value (reader_cursor r))"
  shows "\<exists>c. cursor_from_json sha from_str (cursor_to_json to_text (reader_cursor r)) = Inr c
    \<and> rd_offset (reader_with_cursor sha c) = rd_offset r \<and> reader_ok env sha bytes (reader_with_cursor sha c)"
proof -
  have f: "full_filter (rd_filter r)" using ok by (simp add: reader_ok_def Let_def)
  let ?ids = "last_ids (rd_recent r)"
  let ?f = "fold (filter_insert sha) ?ids (rd_filter r)"
  define c where "c = \<lparr>cu_byte_offset = rd_offset r, cu_delivered_ids = ?ids, cu_dedupe_filter = Some (to_hex ?f)\<rparr>"
  have parse: "cursor_from_json sha from_str (cursor_to_json to_text (reader_cursor r)) = Inr c"
    using cursor_value_parses[OF f, of "reader_cursor r" sha] off
    unfolding cursor_from_json_def cursor_to_json_def codec sum.case by (simp add: c_def reader_cursor_def)
  note once = filter_inserts_keep[OF f]
  note twice = filter_inserts_keep[OF once(1)]
  have r: "reader_with_cursor sha c = \<lparr>rd_offset = rd_offset r, rd_recent = fold recent_insert ?ids [],
      rd_filter = fold (filter_insert sha) ?ids ?f, rd_stats = no_stats, rd_unterminated = False\<rparr>"
    by (simp add: reader_with_cursor_def c_def hex_round_trip[OF once(1)])
  have "set ?ids \<subseteq> set (rd_recent r)" by (auto simp: last_ids_def dest: in_set_dropD)
  then have "set (fold recent_insert ?ids []) \<subseteq> set (rd_recent r)"
    using recent_inserts_set[of ?ids "[]"] by auto
  then have "reader_ok env sha bytes (reader_with_cursor sha c)"
    using ok once(3) twice(1,3) unfolding r reader_ok_def Let_def by auto
  then show ?thesis using parse r by auto
qed

section \<open>Properties\<close>

text \<open>
  C36. Reading is exact: whatever a file holds, as long as no committed line reaches the chunk
  size, reading it to the end delivers the events of its complete lines in order, the first of each id
  once; the cursor stops behind the last complete line, an unfinished line is reported, and the
  lines that are neither blank nor an event are counted. Neither the chunks nor the window of recent ids nor
  the false positives of the filter show.
\<close>

theorem reader_is_exact:
  assumes "followable bytes"
  shows "\<exists>r. poll_all env sha bytes reader_new [] = (Inr (fresh {} (events_in env (committed_part bytes))), r)
    \<and> rd_offset r = length (committed_part bytes)
    \<and> (rd_unterminated r \<longleftrightarrow> length (committed_part bytes) < length bytes)
    \<and> ps_skipped_invalid (rd_stats r) = invalid_lines env (committed_part bytes)"
  using followed[OF assms new_reader_ok, of env sha "[]"] by (auto simp: reader_new_def no_stats_def)

lemma demo_file:
  "committed_part (ev_id demo_event @ [nl] @ ''torn'') = ev_id demo_event @ [nl]"
  "followable (ev_id demo_event @ [nl] @ ''torn'')"
proof -
  have "nl \<notin> set (ev_id demo_event)" by (simp add: demo_id)
  then have l: "complete_lines (ev_id demo_event @ [nl]) = [ev_id demo_event]" by simp
  have c: "committed_prefix_len ((ev_id demo_event @ [nl]) @ ''torn'') = Inr (length (ev_id demo_event @ [nl]))"
    by (rule committed_prefix_torn) (simp_all add: terminated_def max_event_line_bytes_def)
  then show "committed_part (ev_id demo_event @ [nl] @ ''torn'') = ev_id demo_event @ [nl]"
    by (simp add: committed_part_def)
  show "followable (ev_id demo_event @ [nl] @ ''torn'')"
    using c l by (simp add: followable_def short_lines_def max_poll_bytes_def demo_id)
qed

lemma demo_file_events: "events_in demo_outbox (ev_id demo_event @ [nl]) = [demo_event]"
  using readable_line[of demo_outbox demo_event] demo_codec demo_event_valid
  by (simp add: readable_def demo_outbox_fields demo_line)

theorem reader_is_exact_witness:
  "\<exists>r. poll_all demo_outbox (\<lambda>_. replicate 32 0) (ev_id demo_event @ [nl] @ ''torn'') reader_new [] = (Inr [demo_event], r)
    \<and> rd_unterminated r"
  using reader_is_exact[OF demo_file(2), of demo_outbox "\<lambda>_. replicate 32 0", unfolded demo_file(1) demo_file_events]
  by auto

text \<open>
  Following a file: a reader that has read the file to its end and polls again after the
  writer has appended some events delivers those events, in the order in which they were appended,
  without those it had delivered before.
\<close>

lemma tail_follows_appends:
  assumes "poll_all env sha bytes reader_new [] = (Inr old, r)" "followable bytes" "followable bytes'"
    and "consistent env i bytes" "append_all env budget es i bytes = (Inr (), i', bytes')" "list_all (readable env) es"
  shows "\<exists>r'. poll_all env sha bytes' r [] = (Inr (fresh (ids_of old) es), r')"
proof -
  note r = followed_from_start[OF assms(2,1)]
  obtain torn where t: "terminated (committed_part bytes)"
    "committed_prefix_len bytes = Inr (length (committed_part bytes))"
    by (rule followable_split[OF assms(2)])
  obtain new where new: "committed_part bytes' = committed_part bytes @ new"
    "events_in env new = fresh (ids_of (events_in env (committed_part bytes))) es"
    using append_all_adds[OF assms(5,4) t(2) assms(6) t(1)] by blast
  have "ids_of old = ids_of (events_in env (committed_part bytes))"
    using r(1) fresh_ids[of "{}"] by simp
  then show ?thesis
    using followed_grown[OF r(3,2) append_all_extends[OF assms(5)] assms(2,3) new(1), of "[]"] new(2) by simp
qed

lemma empty_file: "followable []" "committed_part [] = []"
  by (simp_all add: followable_def committed_part_def committed_prefix_len_def short_lines_def)

lemma demo_appended: "followable (ev_id demo_event @ [nl])" "committed_part (ev_id demo_event @ [nl]) = ev_id demo_event @ [nl]"
proof -
  have "nl \<notin> set (ev_id demo_event)" by (simp add: demo_id)
  then have "complete_lines (ev_id demo_event @ [nl]) = [ev_id demo_event]" by simp
  moreover have "committed_prefix_len (ev_id demo_event @ [nl]) = Inr (length (ev_id demo_event @ [nl]))"
    by (rule prefix_terminated) (simp add: terminated_def)
  ultimately show "followable (ev_id demo_event @ [nl])" "committed_part (ev_id demo_event @ [nl]) = ev_id demo_event @ [nl]"
    by (simp_all add: followable_def committed_part_def short_lines_def max_poll_bytes_def demo_id)
qed

lemma empty_poll: "\<exists>r. poll_all env sha [] reader_new [] = (Inr [], r)"
  using followed[OF empty_file(1) new_reader_ok, of env sha "[]"] by (auto simp: empty_file(2))

lemma tail_follows_appends_witness:
  "\<exists>r r'. poll_all demo_outbox (\<lambda>_. replicate 32 0) [] reader_new [] = (Inr [], r)
    \<and> poll_all demo_outbox (\<lambda>_. replicate 32 0) (ev_id demo_event @ [nl]) r [] = (Inr [demo_event], r')"
proof -
  obtain r where r: "poll_all demo_outbox (\<lambda>_. replicate 32 0) [] reader_new [] = (Inr [], r)"
    using empty_poll by blast
  have a: "append_all demo_outbox None [demo_event] empty_index [] = (Inr (), demo_index, ev_id demo_event @ [nl])"
    by (simp add: demo_append)
  have "list_all (readable demo_outbox) [demo_event]" by (simp add: readable_def)
  from tail_follows_appends[OF r empty_file(1) demo_appended(1) consistent_empty a this]
  show ?thesis using r by auto
qed

text \<open>
  C37. Stopping and resuming: a reader that persists its cursor after reading the file and
  is started again from the persisted cursor when the file has grown delivers exactly what a reader
  that starts over would deliver after what was delivered before the stop: nothing is lost and nothing is
  delivered twice.
\<close>

theorem reading_resumes:
  assumes "poll_all env sha bytes reader_new [] = (Inr old, r)" "length bytes \<le> u64_max"
    and "from_str (to_text (cursor_value (reader_cursor r))) = Inr (cursor_value (reader_cursor r))"
    and "followable bytes" "followable bytes'" "extends bytes bytes'"
  shows "\<exists>c new r1 r2. cursor_from_json sha from_str (cursor_to_json to_text (reader_cursor r)) = Inr c
    \<and> poll_all env sha bytes' (reader_with_cursor sha c) [] = (Inr new, r1)
    \<and> poll_all env sha bytes' reader_new [] = (Inr (old @ new), r2)"
proof -
  note r = followed_from_start[OF assms(4,1)]
  obtain torn where t: "bytes = committed_part bytes @ torn" "terminated (committed_part bytes)"
    by (rule followable_split[OF assms(4)])
  have "rd_offset r \<le> u64_max" using r(2) assms(2) arg_cong[OF t(1), of length] by simp
  from resumed_ok[where from_str = from_str and to_text = to_text, OF r(3) this assms(3)] obtain c where
    c: "cursor_from_json sha from_str (cursor_to_json to_text (reader_cursor r)) = Inr c"
      "rd_offset (reader_with_cursor sha c) = length (committed_part bytes)"
      "reader_ok env sha bytes (reader_with_cursor sha c)"
    using r(2) by auto
  obtain new where new: "committed_part bytes' = committed_part bytes @ new" by (rule grown[OF assms(6,4,5)])
  have whole: "fresh {} (events_in env (committed_part bytes')) =
      old @ fresh (ids_of (events_in env (committed_part bytes))) (events_in env new)"
    using r(1) t(2) by (simp add: new fresh_seen)
  show ?thesis
    using c(1) followed_grown[OF c(3,2) assms(6,4,5) new, of "[]"]
      followed[OF assms(5) new_reader_ok, of env sha "[]"] whole
    by (auto simp: reader_new_def)
qed

theorem reading_resumes_witness:
  "\<exists>r c new r1 r2. poll_all demo_outbox (\<lambda>_. replicate 32 0) [] reader_new [] = (Inr [], r)
    \<and> cursor_from_json (\<lambda>_. replicate 32 0) (\<lambda>_. Inr (cursor_value (reader_cursor r)))
          (cursor_to_json (\<lambda>_. ''cursor'') (reader_cursor r)) = Inr c
    \<and> poll_all demo_outbox (\<lambda>_. replicate 32 0) (ev_id demo_event @ [nl]) (reader_with_cursor (\<lambda>_. replicate 32 0) c) []
        = (Inr new, r1)
    \<and> poll_all demo_outbox (\<lambda>_. replicate 32 0) (ev_id demo_event @ [nl]) reader_new [] = (Inr new, r2)"
proof -
  obtain r where r: "poll_all demo_outbox (\<lambda>_. replicate 32 0) [] reader_new [] = (Inr [], r)"
    using empty_poll by blast
  have grows: "extends [] (ev_id demo_event @ [nl])" using append_extends[OF demo_append] .
  from reading_resumes[OF r _ _ empty_file(1) demo_appended(1) grows,
      of "\<lambda>_. Inr (cursor_value (reader_cursor r))" "\<lambda>_. ''cursor''"]
  show ?thesis using r by auto
qed

text \<open>
  Writer and reader disagree on one length: an event whose text has exactly the length of the
  limit is appended, and every later process accepts the file, but the reader refuses the file
  for ever, because its chunk has no room for the newline.
\<close>

lemma limit_line_is_written_but_not_read:
  assumes "readable env e" "length (to_json_line (oe_to_text env) e) = max_event_line_bytes"
    and "append_idempotent env empty_index [] e = (Inr outcome, i, bytes)"
  shows "index_of env bytes = Inr i
    \<and> poll_all env sha bytes reader_new [] = (Inl ''events.jsonl record exceeds 1048576 byte limit'', reader_new)"
proof -
  let ?line = "to_json_line (oe_to_text env) e"
  note rec = append_recorded(2)[OF consistent_empty assms(1,3) refl]
  have "bytes = ?line @ [nl]"
    using append_eval[OF consistent_empty, of "[]" 0 env e] assms(3)
    by (auto simp: committed_prefix_len_def Let_def index_of_def bind_res_def empty_index_def split: if_splits)
  moreover have "split_line ?line = None" using readable_line[OF assms(1)] by (simp add: split_line_None)
  ultimately have "poll env sha bytes reader_new = (Inl ''events.jsonl record exceeds 1048576 byte limit'', reader_new)"
    using assms(2)
    by (simp add: poll_def reader_new_def interpret_buffer_def max_event_line_bytes_def max_poll_bytes_def Let_def
        interpret_lines.simps bind_res_def)
  then show ?thesis using rec by (simp add: poll_all.simps)
qed

lemma limit_line_is_written_but_not_read_witness:
  "\<exists>env :: nat outbox_env. \<exists>i bytes. append_idempotent env empty_index [] demo_event = (Inr Appended, i, bytes)
    \<and> index_of env bytes = Inr i
    \<and> poll_all env (\<lambda>_. replicate 32 0) bytes reader_new []
        = (Inl ''events.jsonl record exceeds 1048576 byte limit'', reader_new)"
proof -
  let ?s = "replicate max_event_line_bytes CHR ''x''"
  let ?env = "\<lparr>oe_from_str = (\<lambda>_. Inr (event_value demo_event)), oe_to_text = (\<lambda>_. ?s), oe_digest = (\<lambda>_. 0 :: nat)\<rparr>"
  define env where "env = ?env"
  have line: "to_json_line (oe_to_text env) demo_event = ?s" by (simp add: to_json_line_def env_def)
  have codec: "oe_from_str env ?s = Inr (event_value demo_event)" by (simp add: env_def)
  have ws: "strip_any ws_codes (CHR ''x'' # s) = None" "strip_any (map rev ws_codes) (CHR ''x'' # s) = None" for s
    unfolding strip_any_None ws_codes_def list.map rev.simps append.simps list.pred_inject
    by (simp_all add: strip_prefix_Cons)
  have t: "trim (CHR ''x'' # replicate n CHR ''x'') = CHR ''x'' # replicate n CHR ''x''" for n
  proof -
    have "rev (CHR ''x'' # replicate n CHR ''x'') = CHR ''x'' # replicate n CHR ''x''"
      by (simp add: rev_replicate replicate_append_same)
    then show ?thesis by (simp only: trim_def trim_start_def trim_end_def trim_with_idle[OF ws(1)] trim_with_idle[OF ws(2)])
  qed
  have "utf8_ok (replicate n CHR ''x'')" for n by (induction n) (simp_all add: byte_in_def)
  moreover have "trim ?s = ?s" using t[of "max_event_line_bytes - 1"] by (simp add: max_event_line_bytes_def flip: replicate_Suc)
  ultimately have ok: "readable env demo_event"
    unfolding readable_def codec_ok_def line Let_def codec by (simp add: max_event_line_bytes_def)
  have "committed_prefix_len [] = Inr 0" "index_of env [] = Inr empty_index"
    by (simp_all add: committed_prefix_len_def index_of_def bind_res_def empty_index_def)
  moreover have "\<not> u64_max < length (?s @ [nl])" by (simp add: max_event_line_bytes_def u64_max_def)
  ultimately obtain i bytes where a: "append_idempotent env empty_index [] demo_event = (Inr Appended, i, bytes)"
    using append_eval[OF consistent_empty, of "[]" 0 env demo_event]
    by (simp add: empty_index_fields line Let_def)
  show ?thesis
    using limit_line_is_written_but_not_read[OF ok _ a] a line by (intro exI[of _ env]) auto
qed

end
