(* ===== verification/Contract.thy ===== *)
theory Contract
  imports Admission Cycles TimeIso
begin

text \<open>
  The machine-readable markers of agent reports, \<open>src/engine/src/contract.rs\<close>, and the review gate
  over them, \<open>src/engine/src/resolvers/gate.rs\<close>. Texts are lists of UTF-8 bytes. A slice whose
  begin lies behind its end aborts the program: such a result is \<open>Inl\<close> with the message. The Unicode
  property \<open>char::is_alphanumeric\<close> is the parameter \<open>alnum\<close>, on the bytes of one character.
\<close>

section \<open>Text\<close>

text \<open>\<open>str::split_once\<close> at a character.\<close>

definition split_once :: "char \<Rightarrow> string \<Rightarrow> (string \<times> string) option" where
  "split_once c s =
    (if c \<in> set s
     then (let a = takeWhile (\<lambda>x. x \<noteq> c) s in Some (a, drop (length a + 1) s))
     else None)"

lemma split_once_Some: "split_once c s = Some (a, b) \<longleftrightarrow> s = a @ c # b \<and> c \<notin> set a"
proof
  assume h: "split_once c s = Some (a, b)"
  then have "c \<in> set s" by (simp add: split_once_def split: if_splits)
  then obtain l r where s: "s = l @ c # r" "c \<notin> set l" by (metis split_list_first)
  have "takeWhile (\<lambda>x. x \<noteq> c) (l @ c # r) = l" by (subst takeWhile_append2) (use s(2) in auto)
  then have "split_once c s = Some (l, r)" unfolding s(1) split_once_def Let_def by simp
  then show "s = a @ c # b \<and> c \<notin> set a" using h s by simp
next
  assume s: "s = a @ c # b \<and> c \<notin> set a"
  then have "takeWhile (\<lambda>x. x \<noteq> c) (a @ c # b) = a" by (subst takeWhile_append2) auto
  then show "split_once c s = Some (a, b)" using s unfolding split_once_def Let_def by simp
qed

text \<open>\<open>str::lines\<close>: a final newline ends the last line, and each ended line loses one carriage return.\<close>

definition strip_cr :: "string \<Rightarrow> string" where
  "strip_cr s = (if s \<noteq> [] \<and> last s = CHR 0x0D then butlast s else s)"

function text_lines :: "string \<Rightarrow> string list" where
  "text_lines s =
    (if s = [] then []
     else (case split_once (CHR 0x0A) s of
             None \<Rightarrow> [s]
           | Some (line, rest) \<Rightarrow> strip_cr line # text_lines rest))"
  by pat_completeness auto
termination by (relation "measure length") (auto simp: split_once_Some)

declare text_lines.simps [simp del]

text \<open>\<open>str::find\<close>, \<open>str::rfind\<close>, \<open>str::match_indices\<close> and \<open>str::split\<close> with a non-empty pattern.\<close>

fun find_sub :: "string \<Rightarrow> string \<Rightarrow> nat option" where
  "find_sub p [] = (if p = [] then Some 0 else None)"
| "find_sub p (c # s) = (if starts_with (c # s) p then Some 0 else map_option Suc (find_sub p s))"

fun rfind_sub :: "string \<Rightarrow> string \<Rightarrow> nat option" where
  "rfind_sub p [] = (if p = [] then Some 0 else None)"
| "rfind_sub p (c # s) =
    (case rfind_sub p s of
       Some n \<Rightarrow> Some (Suc n)
     | None \<Rightarrow> if starts_with (c # s) p then Some 0 else None)"

function match_indices :: "string \<Rightarrow> string \<Rightarrow> nat list" where
  "match_indices p s =
    (if s = [] then []
     else if p \<noteq> [] \<and> starts_with s p
     then 0 # map (\<lambda>n. length p + n) (match_indices p (drop (length p) s))
     else map Suc (match_indices p (tl s)))"
  by pat_completeness auto
termination by (relation "measure (\<lambda>(p, s). length s)") (auto simp: length_greater_0_conv)

declare match_indices.simps [simp del]

function split_str :: "string \<Rightarrow> string \<Rightarrow> string list" where
  "split_str sep s =
    (case find_sub sep s of
       Some n \<Rightarrow> if sep = [] then [s] else take n s # split_str sep (drop (n + length sep) s)
     | None \<Rightarrow> [s])"
  by pat_completeness auto
termination
proof (relation "measure (\<lambda>(sep, s). length s)")
  fix sep s n
  assume f: "find_sub sep s = Some n" "sep \<noteq> []"
  have "s \<noteq> []" using f by (cases s) auto
  then show "((sep, drop (n + length sep) s), sep, s) \<in> measure (\<lambda>(sep, s). length s)"
    using f(2) by (cases sep) simp_all
qed simp

declare split_str.simps [simp del]

text \<open>\<open>str::trim_matches\<close> for a set of characters, given by their encodings.\<close>

definition trim_matches :: "string list \<Rightarrow> string \<Rightarrow> string" where
  "trim_matches codes s = rev (trim_with (map rev codes) (rev (trim_with codes s)))"

text \<open>The first and the last character of a text, as bytes.\<close>

definition continuation :: "char \<Rightarrow> bool" where
  "continuation c \<longleftrightarrow> 128 \<le> (of_char c :: nat) \<and> (of_char c :: nat) < 192"

definition first_char :: "string \<Rightarrow> string option" where
  "first_char s = (case s of [] \<Rightarrow> None | c # r \<Rightarrow> Some (c # takeWhile continuation r))"

definition last_char :: "string \<Rightarrow> string option" where
  "last_char s =
    (let tail = takeWhile continuation (rev s); before = drop (length tail) (rev s) in
     if s = [] then None else Some (rev (take 1 before) @ rev tail))"

section \<open>Findings\<close>

datatype finding_status = New | Fixed | Rejected | Ready | Other string

definition status_parse :: "string \<Rightarrow> finding_status" where
  "status_parse s =
    (let s = trim s in
     if s = [CHR 0xD0, CHR 0xBD, CHR 0xD0, CHR 0xBE, CHR 0xD0, CHR 0xB2, CHR 0xD0, CHR 0xB0, CHR 0xD1,
      CHR 0x8F] then New
     else if s = [CHR 0xD0, CHR 0xB8, CHR 0xD1, CHR 0x81, CHR 0xD0, CHR 0xBF, CHR 0xD1, CHR 0x80, CHR 0xD0,
      CHR 0xB0, CHR 0xD0, CHR 0xB2, CHR 0xD0, CHR 0xBB, CHR 0xD0, CHR 0xB5, CHR 0xD0, CHR 0xBD,
      CHR 0xD0, CHR 0xBE] then Fixed
     else if s = [CHR 0xD0, CHR 0xBE, CHR 0xD1, CHR 0x82, CHR 0xD0, CHR 0xBA, CHR 0xD0, CHR 0xBB, CHR 0xD0,
      CHR 0xBE, CHR 0xD0, CHR 0xBD, CHR 0xD0, CHR 0xB5, CHR 0xD0, CHR 0xBD, CHR 0xD0, CHR 0xBE] then Rejected
     else if s = [CHR 0xD0, CHR 0xB3, CHR 0xD0, CHR 0xBE, CHR 0xD1, CHR 0x82, CHR 0xD0, CHR 0xBE, CHR 0xD0,
      CHR 0xB2, CHR 0xD0, CHR 0xBE, CHR 0x20, CHR 0xD0, CHR 0xBA, CHR 0x20, CHR 0xD1, CHR 0x81,
      CHR 0xD0, CHR 0xBB, CHR 0xD0, CHR 0xB8, CHR 0xD1, CHR 0x8F, CHR 0xD0, CHR 0xBD, CHR 0xD0,
      CHR 0xB8, CHR 0xD1, CHR 0x8E] then Ready
     else Other s)"

record finding =
  fd_id :: string
  fd_title :: string
  fd_status :: finding_status

definition is_summary :: "finding \<Rightarrow> bool" where
  "is_summary f \<longleftrightarrow> starts_with (fd_id f) ''SUMMARY-R''"

definition is_review :: "finding \<Rightarrow> bool" where
  "is_review f \<longleftrightarrow> starts_with (fd_id f) ''R-''"

definition is_integration :: "finding \<Rightarrow> bool" where
  "is_integration f \<longleftrightarrow> starts_with (fd_id f) ''F-''"

definition summary_timestamp :: "finding \<Rightarrow> string option" where
  "summary_timestamp f = strip_prefix ''SUMMARY-R-'' (fd_id f)"

definition is_integration_summary :: "finding \<Rightarrow> bool" where
  "is_integration_summary f \<longleftrightarrow> starts_with (fd_id f) ''SUMMARY-F''"

definition integration_summary_timestamp :: "finding \<Rightarrow> string option" where
  "integration_summary_timestamp f = strip_prefix ''SUMMARY-F-'' (fd_id f)"

text \<open>\<open>Iterator::max_by\<close>: the last of the greatest elements.\<close>

fun max_by :: "('a \<Rightarrow> 'a \<Rightarrow> ordering) \<Rightarrow> 'a list \<Rightarrow> 'a option" where
  "max_by cmp [] = None"
| "max_by cmp (x # xs) = Some (foldl (\<lambda>best y. if cmp best y = Greater then best else y) x xs)"

type_synonym review_parse = "finding list"

definition latest_summary :: "review_parse \<Rightarrow> finding option" where
  "latest_summary p =
    max_by (\<lambda>a b. iso_chrono_cmp (case_option [] id (summary_timestamp a)) (case_option [] id (summary_timestamp b)))
      (filter is_summary p)"

definition open_review_findings :: "review_parse \<Rightarrow> finding list" where
  "open_review_findings p = filter (\<lambda>f. is_review f \<and> fd_status f = New) p"

definition in_window :: "string \<Rightarrow> string \<Rightarrow> string \<Rightarrow> bool" where
  "in_window since until ts \<longleftrightarrow> iso_chrono_cmp ts since = Greater \<and> iso_chrono_cmp ts until \<noteq> Greater"

definition is_clean_pass :: "review_parse \<Rightarrow> string \<Rightarrow> string \<Rightarrow> bool" where
  "is_clean_pass p since until \<longleftrightarrow>
    (case Option.bind (latest_summary p) summary_timestamp of
       Some ts \<Rightarrow> in_window since until ts | None \<Rightarrow> False)
    \<and> open_review_findings p = []"

definition summary_after_window :: "review_parse \<Rightarrow> string \<Rightarrow> string option" where
  "summary_after_window p until =
    (case Option.bind (latest_summary p) summary_timestamp of
       Some ts \<Rightarrow> if iso_chrono_cmp ts until = Greater then Some ts else None
     | None \<Rightarrow> None)"

definition latest_integration_summary :: "review_parse \<Rightarrow> finding option" where
  "latest_integration_summary p =
    max_by (\<lambda>a b. iso_chrono_cmp (case_option [] id (integration_summary_timestamp a))
                    (case_option [] id (integration_summary_timestamp b)))
      (filter is_integration_summary p)"

definition open_integration_findings :: "review_parse \<Rightarrow> finding list" where
  "open_integration_findings p = filter (\<lambda>f. is_integration f \<and> fd_status f = New) p"

definition is_clean_integration_pass :: "review_parse \<Rightarrow> string \<Rightarrow> string \<Rightarrow> bool" where
  "is_clean_integration_pass p since until \<longleftrightarrow>
    (case Option.bind (latest_integration_summary p) integration_summary_timestamp of
       Some ts \<Rightarrow> in_window since until ts | None \<Rightarrow> False)
    \<and> open_integration_findings p = []"

section \<open>Headings\<close>

definition all_digits :: "string \<Rightarrow> bool" where
  "all_digits s \<longleftrightarrow> s \<noteq> [] \<and> list_all is_digit s"

definition is_marker_id :: "string \<Rightarrow> bool" where
  "is_marker_id i \<longleftrightarrow>
    (case strip_prefix ''R-'' i of Some r \<Rightarrow> all_digits r | None \<Rightarrow> False)
    \<or> (case strip_prefix ''F-'' i of Some r \<Rightarrow> all_digits r | None \<Rightarrow> False)
    \<or> (case strip_prefix ''SUMMARY-R-'' i of Some r \<Rightarrow> is_iso_utc r | None \<Rightarrow> False)
    \<or> (case strip_prefix ''SUMMARY-F-'' i of Some r \<Rightarrow> is_iso_utc r | None \<Rightarrow> False)"

definition status_key :: string where "status_key = [CHR 0xD1, CHR 0x81, CHR 0xD1, CHR 0x82, CHR 0xD0, CHR 0xB0, CHR 0xD1, CHR 0x82, CHR 0xD1,
      CHR 0x83, CHR 0xD1, CHR 0x81, CHR 0x3A]"

definition dashes :: "string list" where "dashes = [[CHR 0xE2, CHR 0x80, CHR 0x94], ''-'']"

text \<open>\<open>Inl\<close> is the abort of \<open>&l[rb + 1..p]\<close> when the status comes before the closing bracket.\<close>

definition parse_heading :: "string \<Rightarrow> string + finding option" where
  "parse_heading line =
    (let l = trim_start line in
     if \<not> starts_with l ''###'' then Inr None
     else (case find_sub ''['' l of
       None \<Rightarrow> Inr None
     | Some lb \<Rightarrow>
      (case find_sub '']'' (drop (lb + 1) l) of
         None \<Rightarrow> Inr None
       | Some k \<Rightarrow>
          (let rb = k + lb + 1; i = trim (take (rb - (lb + 1)) (drop (lb + 1) l)) in
           if \<not> is_marker_id i then Inr None
           else (case rfind_sub status_key l of
             None \<Rightarrow> Inr None
           | Some p \<Rightarrow>
               (let status_literal = trim (drop (p + length status_key) l) in
                if status_literal = [] then Inr None
                else if p < rb + 1 then Inl ''begin <= end when slicing''
                else Inr (Some \<lparr>fd_id = i,
                       fd_title = trim (trim_matches dashes (trim (take (p - (rb + 1)) (drop (rb + 1) l)))),
                       fd_status = status_parse status_literal\<rparr>)))))))"

fun parse_headings :: "string list \<Rightarrow> string + review_parse" where
  "parse_headings [] = Inr []"
| "parse_headings (line # ls) =
    bind_res (parse_heading line) (\<lambda>f.
    bind_res (parse_headings ls) (\<lambda>fs. Inr (case f of Some f \<Rightarrow> f # fs | None \<Rightarrow> fs)))"

definition parse_review :: "string \<Rightarrow> string + review_parse" where
  "parse_review text = parse_headings (text_lines text)"

section \<open>Merge reports\<close>

datatype merge_line_outcome = LineMerged string bool | LineQuarantined string

record merge_line =
  ml_id :: string
  ml_outcome :: merge_line_outcome

definition parse_merge_line :: "string \<Rightarrow> merge_line option" where
  "parse_merge_line line =
    (case strip_prefix ''- ['' (trim line) of
       None \<Rightarrow> None
     | Some rest \<Rightarrow>
        (case find_sub '']'' rest of
           None \<Rightarrow> None
         | Some close \<Rightarrow>
            (let i = trim (take close rest) in
             if \<not> is_task_id i then None
             else
               (let after = trim (drop (close + 1) rest) in
                case strip_prefix ''merged='' after of
                  Some v \<Rightarrow>
                    (let parts = split_whitespace v; sha = (case parts of [] \<Rightarrow> [] | p # _ \<Rightarrow> p) in
                     if sha = [] then None
                     else Some \<lparr>ml_id = i, ml_outcome = LineMerged sha (''conflict-resolved'' \<in> set (tl parts))\<rparr>)
                | None \<Rightarrow>
                    (case strip_prefix ''quarantined='' after of
                       Some v \<Rightarrow> Some \<lparr>ml_id = i, ml_outcome = LineQuarantined (trim v)\<rparr>
                     | None \<Rightarrow> None)))))"

definition parse_merge_report :: "string \<Rightarrow> merge_line list" where
  "parse_merge_report text = List.map_filter parse_merge_line (text_lines text)"

section \<open>Sentinels and changed files\<close>

datatype sentinel = SentinelUnavailable | SentinelFailed | SentinelEscalation

definition word_char :: "(string \<Rightarrow> bool) \<Rightarrow> string \<Rightarrow> bool" where
  "word_char alnum c \<longleftrightarrow> alnum c \<or> c = ''_''"

definition token_boundary_before :: "(string \<Rightarrow> bool) \<Rightarrow> string \<Rightarrow> nat \<Rightarrow> bool" where
  "token_boundary_before alnum text n \<longleftrightarrow>
    (case last_char (take n text) of None \<Rightarrow> True | Some c \<Rightarrow> \<not> word_char alnum c)"

definition token_boundary_after :: "(string \<Rightarrow> bool) \<Rightarrow> string \<Rightarrow> nat \<Rightarrow> bool" where
  "token_boundary_after alnum text n \<longleftrightarrow>
    (case first_char (drop n text) of None \<Rightarrow> True | Some c \<Rightarrow> \<not> word_char alnum c)"

definition contains_phrase :: "(string \<Rightarrow> bool) \<Rightarrow> string \<Rightarrow> string \<Rightarrow> bool" where
  "contains_phrase alnum text phrase \<longleftrightarrow> list_ex (token_boundary_before alnum text) (match_indices phrase text)"

definition contains_token :: "(string \<Rightarrow> bool) \<Rightarrow> string \<Rightarrow> string \<Rightarrow> bool" where
  "contains_token alnum text token \<longleftrightarrow>
    list_ex (\<lambda>n. token_boundary_before alnum text n \<and> token_boundary_after alnum text (n + length token))
      (match_indices token text)"

definition detect_sentinel :: "(string \<Rightarrow> bool) \<Rightarrow> string \<Rightarrow> sentinel option" where
  "detect_sentinel alnum text =
    (if contains_phrase alnum text [CHR 0xD0, CHR 0xAD, CHR 0xD0, CHR 0xA1, CHR 0xD0, CHR 0x9A, CHR 0xD0, CHR 0x90, CHR 0xD0,
      CHR 0x9B, CHR 0xD0, CHR 0x90, CHR 0xD0, CHR 0xA6, CHR 0xD0, CHR 0x98, CHR 0xD0, CHR 0xAF,
      CHR 0x20, CHR 0x63, CHR 0x6F, CHR 0x64, CHR 0x65, CHR 0x78, CHR 0x3A] then Some SentinelEscalation
     else if contains_token alnum text ''CODEX_UNAVAILABLE'' then Some SentinelUnavailable
     else if contains_token alnum text ''CODEX_FAILED'' then Some SentinelFailed
     else None)"

fun changed_files_in :: "string list \<Rightarrow> string list option" where
  "changed_files_in [] = None"
| "changed_files_in (line # ls) =
    (case strip_prefix [CHR 0xD0, CHR 0x98, CHR 0xD0, CHR 0xB7, CHR 0xD0, CHR 0xBC, CHR 0xD0, CHR 0xB5, CHR 0xD0,
      CHR 0xBD, CHR 0xD1, CHR 0x91, CHR 0xD0, CHR 0xBD, CHR 0xD0, CHR 0xBD, CHR 0xD1, CHR 0x8B,
      CHR 0xD0, CHR 0xB5, CHR 0x20, CHR 0xD1, CHR 0x84, CHR 0xD0, CHR 0xB0, CHR 0xD0, CHR 0xB9,
      CHR 0xD0, CHR 0xBB, CHR 0xD1, CHR 0x8B, CHR 0x3A] (trim line) of
       Some rest \<Rightarrow>
         (let files = filter (\<lambda>s. s \<noteq> []) (map trim (split_chars {CHR '','', CHR '';''} rest))
          in if files = [] then None else Some files)
     | None \<Rightarrow> changed_files_in ls)"

definition parse_changed_files :: "string \<Rightarrow> string list option" where
  "parse_changed_files text = changed_files_in (text_lines text)"

section \<open>The terminal outcome line\<close>

record outcome_line =
  oc_verdict :: string
  oc_fields :: "(string \<times> string) list"

definition outcome_key :: string where "outcome_key = [CHR 0xD0, CHR 0x98, CHR 0xD0, CHR 0xA2, CHR 0xD0, CHR 0x9E, CHR 0xD0, CHR 0x93, CHR 0x3A]"
definition outcome_sep :: string where "outcome_sep = [CHR 0x20, CHR 0xC2, CHR 0xB7, CHR 0x20]"
definition wont_fix_key :: string where "wont_fix_key = [CHR 0xD0, CHR 0xBD, CHR 0xD0, CHR 0xB5, CHR 0x20, CHR 0xD0, CHR 0xB8, CHR 0xD1, CHR 0x81,
      CHR 0xD0, CHR 0xBF, CHR 0xD1, CHR 0x80, CHR 0xD0, CHR 0xB0, CHR 0xD0, CHR 0xB2, CHR 0xD0,
      CHR 0xBB, CHR 0xD0, CHR 0xB5, CHR 0xD0, CHR 0xBD, CHR 0xD0, CHR 0xBE]"

definition outcome_field :: "outcome_line \<Rightarrow> string \<Rightarrow> string option" where
  "outcome_field o' key = map_of (oc_fields o') key"

record wont_fix_entry =
  wf_finding_id :: string
  wf_reason :: string

definition wont_fix :: "outcome_line \<Rightarrow> wont_fix_entry list" where
  "wont_fix o' =
    List.map_filter (\<lambda>(_, v). map_option (\<lambda>(i, reason). \<lparr>wf_finding_id = trim i, wf_reason = trim reason\<rparr>)
        (split_once (CHR ''='') v))
      (filter (\<lambda>(k, _). k = wont_fix_key) (oc_fields o'))"

definition outcome_segment :: "string \<Rightarrow> string \<times> string" where
  "outcome_segment seg =
    (case split_once (CHR ''='') seg of
       Some (k, v) \<Rightarrow> (trim k, trim v) | None \<Rightarrow> (trim seg, []))"

definition outcome_of_line :: "string \<Rightarrow> outcome_line option" where
  "outcome_of_line line =
    (case strip_prefix outcome_key (trim line) of
       None \<Rightarrow> None
     | Some rest \<Rightarrow>
        (let parts = split_str outcome_sep rest; verdict = trim (hd parts) in
         if verdict = [] then None
         else Some \<lparr>oc_verdict = verdict, oc_fields = map outcome_segment (tl parts)\<rparr>))"

definition parse_outcome :: "string \<Rightarrow> outcome_line option" where
  "parse_outcome text =
    foldl (\<lambda>found line. case outcome_of_line line of Some o' \<Rightarrow> Some o' | None \<Rightarrow> found) None (text_lines text)"

section \<open>The review gate\<close>

datatype review_gate = GateClean | GateFindings | GateIncomplete

definition review_gate_of :: "review_parse \<Rightarrow> string \<Rightarrow> string \<Rightarrow> review_gate" where
  "review_gate_of p since until =
    (if open_review_findings p \<noteq> [] then GateFindings
     else if is_clean_pass p since until then GateClean
     else GateIncomplete)"

definition integration_gate :: "review_parse \<Rightarrow> string \<Rightarrow> string \<Rightarrow> review_gate" where
  "integration_gate p since until =
    (if open_integration_findings p \<noteq> [] then GateFindings
     else if is_clean_integration_pass p since until then GateClean
     else GateIncomplete)"

end
