(* ===== verification/OutcomeAdapter.thy ===== *)
theory OutcomeAdapter
  imports Contract ProcessorTypes
begin

text \<open>
  From the report of a supervised agent to a command of the reducer: \<open>src/engine/src/outcome_adapter.rs\<close>,
  with the verdict of \<open>src/engine/src/supervise.rs\<close>. The Unicode table of \<open>to_lowercase\<close> is the
  parameter \<open>lc\<close> and the escaping of \<open>{:?}\<close> on a string the parameter \<open>dbg\<close>. The result of a review
  is \<open>Inl\<close> where the parser of the report aborts.
\<close>

section \<open>Verdicts\<close>

datatype stop_reason = StopOk | StopTimeout | StopCancelled | StopCrash | StopError

record verdict =
  vd_reason :: stop_reason
  vd_exit_code :: "int option"
  vd_timed_out :: bool
  vd_cancelled :: bool
  vd_duration_ms :: nat
  vd_stdout :: string
  vd_stderr :: string
  vd_outcome_reason :: string

definition stop_exit_code :: "stop_reason \<Rightarrow> int" where
  "stop_exit_code r =
    (case r of StopOk \<Rightarrow> 0 | StopTimeout \<Rightarrow> 3 | StopCancelled \<Rightarrow> 4 | StopCrash \<Rightarrow> 5 | StopError \<Rightarrow> 6)"

definition stop_as_str :: "stop_reason \<Rightarrow> string" where
  "stop_as_str r =
    (case r of
       StopOk \<Rightarrow> ''ok'' | StopTimeout \<Rightarrow> ''timeout'' | StopCancelled \<Rightarrow> ''cancelled''
     | StopCrash \<Rightarrow> ''crash'' | StopError \<Rightarrow> ''error'')"

definition is_transient :: "stop_reason \<Rightarrow> bool" where
  "is_transient r \<longleftrightarrow> r = StopTimeout \<or> r = StopCrash"

definition supervisor_reason :: "verdict \<Rightarrow> string" where
  "supervisor_reason v =
    (case vd_reason v of
       StopOk \<Rightarrow> ''supervisor ok''
     | StopTimeout \<Rightarrow> ''supervisor timeout''
     | StopCancelled \<Rightarrow> ''supervisor cancelled''
     | StopCrash \<Rightarrow> ''supervisor crash''
     | StopError \<Rightarrow> ''supervisor error'')"

section \<open>The terminal line\<close>

definition active_lines :: "string \<Rightarrow> string list" where
  "active_lines report = filter (\<lambda>l. l \<noteq> []) (map trim (text_lines report))"

definition strict_outcome :: "string \<Rightarrow> outcome_line option" where
  "strict_outcome report =
    (let active = active_lines report in
     if active = [] \<or> \<not> starts_with (last active) outcome_key
        \<or> length (filter (\<lambda>l. starts_with l outcome_key) active) \<noteq> 1
     then None
     else parse_outcome report)"

definition valid_mode :: "string option \<Rightarrow> bool" where
  "valid_mode v \<longleftrightarrow> v = Some ''1'' \<or> v = Some ''2'' \<or> v = Some ''3''"

definition mode_key :: string where "mode_key = [CHR 0xD1, CHR 0x80, CHR 0xD0, CHR 0xB5, CHR 0xD0, CHR 0xB6, CHR 0xD0, CHR 0xB8, CHR 0xD0,
      CHR 0xBC]"
definition reason_key :: string where "reason_key = [CHR 0xD0, CHR 0xBF, CHR 0xD1, CHR 0x80, CHR 0xD0, CHR 0xB8, CHR 0xD1, CHR 0x87, CHR 0xD0,
      CHR 0xB8, CHR 0xD0, CHR 0xBD, CHR 0xD0, CHR 0xB0]"
definition risk_key :: string where "risk_key = [CHR 0xD1, CHR 0x80, CHR 0xD0, CHR 0xB8, CHR 0xD1, CHR 0x81, CHR 0xD0, CHR 0xBA]"
definition done_verdict :: string where "done_verdict = [CHR 0xD0, CHR 0xB3, CHR 0xD0, CHR 0xBE, CHR 0xD1, CHR 0x82, CHR 0xD0, CHR 0xBE, CHR 0xD0,
      CHR 0xB2, CHR 0xD0, CHR 0xBE]"
definition escalation_verdict :: string where "escalation_verdict = [CHR 0xD1, CHR 0x8D, CHR 0xD1, CHR 0x81, CHR 0xD0, CHR 0xBA, CHR 0xD0, CHR 0xB0, CHR 0xD0,
      CHR 0xBB, CHR 0xD0, CHR 0xB0, CHR 0xD1, CHR 0x86, CHR 0xD0, CHR 0xB8, CHR 0xD1, CHR 0x8F]"
definition ready_verdict :: string where "ready_verdict = [CHR 0xD0, CHR 0xB3, CHR 0xD0, CHR 0xBE, CHR 0xD1, CHR 0x82, CHR 0xD0, CHR 0xBE, CHR 0xD0,
      CHR 0xB2, CHR 0xD0, CHR 0xBE, CHR 0x20, CHR 0xD0, CHR 0xBA, CHR 0x20, CHR 0xD1, CHR 0x81,
      CHR 0xD0, CHR 0xBB, CHR 0xD0, CHR 0xB8, CHR 0xD1, CHR 0x8F, CHR 0xD0, CHR 0xBD, CHR 0xD0,
      CHR 0xB8, CHR 0xD1, CHR 0x8E]"
definition open_verdict :: string where "open_verdict = [CHR 0xD0, CHR 0xBE, CHR 0xD1, CHR 0x82, CHR 0xD0, CHR 0xBA, CHR 0xD1, CHR 0x80, CHR 0xD1,
      CHR 0x8B, CHR 0xD1, CHR 0x82, CHR 0xD1, CHR 0x8B, CHR 0xD0, CHR 0xB5, CHR 0x20, CHR 0xD0,
      CHR 0xBD, CHR 0xD0, CHR 0xB0, CHR 0xD1, CHR 0x85, CHR 0xD0, CHR 0xBE, CHR 0xD0, CHR 0xB4,
      CHR 0xD0, CHR 0xBA, CHR 0xD0, CHR 0xB8]"
definition codex_escalation_verdict :: string where "codex_escalation_verdict = [CHR 0xD1, CHR 0x8D, CHR 0xD1, CHR 0x81, CHR 0xD0, CHR 0xBA, CHR 0xD0, CHR 0xB0, CHR 0xD0,
      CHR 0xBB, CHR 0xD0, CHR 0xB0, CHR 0xD1, CHR 0x86, CHR 0xD0, CHR 0xB8, CHR 0xD1, CHR 0x8F,
      CHR 0x20, CHR 0x63, CHR 0x6F, CHR 0x64, CHR 0x65, CHR 0x78]"
definition publish_verdict :: string where "publish_verdict = [CHR 0xD0, CHR 0xB3, CHR 0xD0, CHR 0xBE, CHR 0xD1, CHR 0x82, CHR 0xD0, CHR 0xBE, CHR 0xD0,
      CHR 0xB2, CHR 0xD0, CHR 0xBE, CHR 0x20, CHR 0xD0, CHR 0xBA, CHR 0x20, CHR 0xD0, CHR 0xBF,
      CHR 0xD1, CHR 0x83, CHR 0xD0, CHR 0xB1, CHR 0xD0, CHR 0xBB, CHR 0xD0, CHR 0xB8, CHR 0xD0,
      CHR 0xBA, CHR 0xD0, CHR 0xB0, CHR 0xD1, CHR 0x86, CHR 0xD0, CHR 0xB8, CHR 0xD0, CHR 0xB8]"
definition merge_escalation_verdict :: string where "merge_escalation_verdict = [CHR 0xD1, CHR 0x8D, CHR 0xD1, CHR 0x81, CHR 0xD0, CHR 0xBA, CHR 0xD0, CHR 0xB0, CHR 0xD0,
      CHR 0xBB, CHR 0xD0, CHR 0xB0, CHR 0xD1, CHR 0x86, CHR 0xD0, CHR 0xB8, CHR 0xD1, CHR 0x8F,
      CHR 0x20, CHR 0xD1, CHR 0x81, CHR 0xD0, CHR 0xBB, CHR 0xD0, CHR 0xB8, CHR 0xD1, CHR 0x8F,
      CHR 0xD0, CHR 0xBD, CHR 0xD0, CHR 0xB8, CHR 0xD1, CHR 0x8F]"
definition merged_all_verdict :: string where "merged_all_verdict = [CHR 0xD1, CHR 0x81, CHR 0xD0, CHR 0xBB, CHR 0xD0, CHR 0xB8, CHR 0xD1, CHR 0x82, CHR 0xD0,
      CHR 0xBE, CHR 0x20, CHR 0xD0, CHR 0xB2, CHR 0xD1, CHR 0x81, CHR 0xD1, CHR 0x91]"
definition some_quarantined_verdict :: string where "some_quarantined_verdict = [CHR 0xD0, CHR 0xB5, CHR 0xD1, CHR 0x81, CHR 0xD1, CHR 0x82, CHR 0xD1, CHR 0x8C, CHR 0x20,
      CHR 0xD0, CHR 0xBA, CHR 0xD0, CHR 0xB0, CHR 0xD1, CHR 0x80, CHR 0xD0, CHR 0xB0, CHR 0xD0,
      CHR 0xBD, CHR 0xD1, CHR 0x82, CHR 0xD0, CHR 0xB8, CHR 0xD0, CHR 0xBD]"
definition risk_marker :: string where "risk_marker = [CHR 0xD0, CHR 0xA0, CHR 0xD0, CHR 0xB8, CHR 0xD1, CHR 0x81, CHR 0xD0, CHR 0xBA, CHR 0x2D,
      CHR 0xD0, CHR 0xBF, CHR 0xD0, CHR 0xBE, CHR 0xD0, CHR 0xB2, CHR 0xD1, CHR 0x8B, CHR 0xD1,
      CHR 0x88, CHR 0xD0, CHR 0xB5, CHR 0xD0, CHR 0xBD, CHR 0x3A]"

definition required_reason :: "outcome_line \<Rightarrow> string option" where
  "required_reason o' =
    (case outcome_field o' reason_key of
       None \<Rightarrow> None | Some v \<Rightarrow> if trim v = [] then None else Some (trim v))"

section \<open>Coders and fixers\<close>

definition validated_wont_fix_count :: "outcome_line \<Rightarrow> string list option \<Rightarrow> nat" where
  "validated_wont_fix_count o' open_finding_ids =
    (let ids = filter (\<lambda>i. case open_finding_ids of None \<Rightarrow> True | Some ids \<Rightarrow> i \<in> set ids)
                 (map wf_finding_id (wont_fix o'))
     in min (length (remdups (sort ids))) u32_max)"

definition reported_risk :: "(string \<Rightarrow> string) \<Rightarrow> outcome_line \<Rightarrow> string + risk option" where
  "reported_risk dbg o' =
    (case map snd (filter (\<lambda>(k, _). k = risk_key) (oc_fields o')) of
       [] \<Rightarrow> Inr None
     | [literal] \<Rightarrow>
         (case risk_from_token literal of
            Some r \<Rightarrow> Inr (Some r)
          | None \<Rightarrow> Inl ([CHR 0x69, CHR 0x6E, CHR 0x76, CHR 0x61, CHR 0x6C, CHR 0x69, CHR 0x64, CHR 0x20, CHR 0x63,
      CHR 0x6F, CHR 0x64, CHR 0x65, CHR 0x72, CHR 0x20, CHR 0xD1, CHR 0x80, CHR 0xD0, CHR 0xB8,
      CHR 0xD1, CHR 0x81, CHR 0xD0, CHR 0xBA, CHR 0x3D] @ dbg literal
                        @ ''; expected one exact token: low, medium, or high''))
     | _ \<Rightarrow> Inl [CHR 0x63, CHR 0x6F, CHR 0x64, CHR 0x65, CHR 0x72, CHR 0x20, CHR 0x6F, CHR 0x75, CHR 0x74,
      CHR 0x63, CHR 0x6F, CHR 0x6D, CHR 0x65, CHR 0x20, CHR 0x68, CHR 0x61, CHR 0x73, CHR 0x20,
      CHR 0x64, CHR 0x75, CHR 0x70, CHR 0x6C, CHR 0x69, CHR 0x63, CHR 0x61, CHR 0x74, CHR 0x65,
      CHR 0x20, CHR 0xD1, CHR 0x80, CHR 0xD0, CHR 0xB8, CHR 0xD1, CHR 0x81, CHR 0xD0, CHR 0xBA,
      CHR 0x20, CHR 0x66, CHR 0x69, CHR 0x65, CHR 0x6C, CHR 0x64, CHR 0x73])"

definition task_leaf_outcome ::
    "(string \<Rightarrow> string) \<Rightarrow> verdict \<Rightarrow> string \<Rightarrow> string \<Rightarrow> string list option \<Rightarrow> leaf_outcome" where
  "task_leaf_outcome dbg v report author open_finding_ids =
    (case vd_reason v of
       StopTimeout \<Rightarrow> leaf_outcome.RetryableFailure (supervisor_reason v)
     | StopCrash \<Rightarrow> leaf_outcome.RetryableFailure (supervisor_reason v)
     | StopCancelled \<Rightarrow> leaf_outcome.Escalated (supervisor_reason v)
     | StopError \<Rightarrow> leaf_outcome.Escalated (supervisor_reason v)
     | StopOk \<Rightarrow>
         (case strict_outcome report of
            None \<Rightarrow> leaf_outcome.Escalated [CHR 0x6D, CHR 0x69, CHR 0x73, CHR 0x73, CHR 0x69, CHR 0x6E, CHR 0x67, CHR 0x20, CHR 0x6D,
      CHR 0x61, CHR 0x63, CHR 0x68, CHR 0x69, CHR 0x6E, CHR 0x65, CHR 0x2D, CHR 0x72, CHR 0x65,
      CHR 0x61, CHR 0x64, CHR 0x61, CHR 0x62, CHR 0x6C, CHR 0x65, CHR 0x20, CHR 0xD0, CHR 0x98,
      CHR 0xD0, CHR 0xA2, CHR 0xD0, CHR 0x9E, CHR 0xD0, CHR 0x93, CHR 0x20, CHR 0x6C, CHR 0x69,
      CHR 0x6E, CHR 0x65, CHR 0x20, CHR 0x69, CHR 0x6E, CHR 0x20, CHR 0x63, CHR 0x6F, CHR 0x64,
      CHR 0x65, CHR 0x72, CHR 0x20, CHR 0x72, CHR 0x65, CHR 0x70, CHR 0x6F, CHR 0x72, CHR 0x74]
          | Some o' \<Rightarrow>
              (if oc_verdict o' = done_verdict \<and> valid_mode (outcome_field o' mode_key)
               then (case reported_risk dbg o' of
                 Inl reason \<Rightarrow> leaf_outcome.Escalated reason
               | Inr risk \<Rightarrow>
                   (let wont_fixed =
                          (if outcome_field o' mode_key = Some ''2''
                           then (let count = validated_wont_fix_count o' open_finding_ids in
                                 if count > 0 then Some count else None)
                           else None)
                    in case (risk, wont_fixed) of
                         (Some r, w) \<Rightarrow> leaf_outcome.RiskElevated (Some author) r w
                       | (None, Some w) \<Rightarrow> leaf_outcome.CompletedWithWontFix (Some author) w
                       | (None, None) \<Rightarrow> leaf_outcome.Completed (Some author)))
               else if oc_verdict o' = escalation_verdict
               then leaf_outcome.Escalated
                      (case required_reason o' of
                         Some r \<Rightarrow> r
                       | None \<Rightarrow> [CHR 0x61, CHR 0x67, CHR 0x65, CHR 0x6E, CHR 0x74, CHR 0x20, CHR 0x72, CHR 0x65, CHR 0x70,
      CHR 0x6F, CHR 0x72, CHR 0x74, CHR 0x65, CHR 0x64, CHR 0x20, CHR 0x65, CHR 0x73, CHR 0x63,
      CHR 0x61, CHR 0x6C, CHR 0x61, CHR 0x74, CHR 0x69, CHR 0x6F, CHR 0x6E, CHR 0x20, CHR 0x77,
      CHR 0x69, CHR 0x74, CHR 0x68, CHR 0x6F, CHR 0x75, CHR 0x74, CHR 0x20, CHR 0x72, CHR 0x65,
      CHR 0x71, CHR 0x75, CHR 0x69, CHR 0x72, CHR 0x65, CHR 0x64, CHR 0x20, CHR 0xD0, CHR 0xBF,
      CHR 0xD1, CHR 0x80, CHR 0xD0, CHR 0xB8, CHR 0xD1, CHR 0x87, CHR 0xD0, CHR 0xB8, CHR 0xD0,
      CHR 0xBD, CHR 0xD0, CHR 0xB0, CHR 0x20, CHR 0x66, CHR 0x69, CHR 0x65, CHR 0x6C, CHR 0x64])
               else leaf_outcome.Escalated
                      (''invalid coder outcome '' @ dbg (oc_verdict o')
                       @ [CHR 0x3B, CHR 0x20, CHR 0x65, CHR 0x78, CHR 0x70, CHR 0x65, CHR 0x63, CHR 0x74, CHR 0x65,
      CHR 0x64, CHR 0x20, CHR 0xD0, CHR 0xB3, CHR 0xD0, CHR 0xBE, CHR 0xD1, CHR 0x82, CHR 0xD0,
      CHR 0xBE, CHR 0xD0, CHR 0xB2, CHR 0xD0, CHR 0xBE, CHR 0x20, CHR 0xD1, CHR 0x81, CHR 0x20,
      CHR 0xD1, CHR 0x80, CHR 0xD0, CHR 0xB5, CHR 0xD0, CHR 0xB6, CHR 0xD0, CHR 0xB8, CHR 0xD0,
      CHR 0xBC, CHR 0x3D, CHR 0x31, CHR 0x7C, CHR 0x32, CHR 0x7C, CHR 0x33, CHR 0x20, CHR 0x6F,
      CHR 0x72, CHR 0x20, CHR 0xD1, CHR 0x8D, CHR 0xD1, CHR 0x81, CHR 0xD0, CHR 0xBA, CHR 0xD0,
      CHR 0xB0, CHR 0xD0, CHR 0xBB, CHR 0xD0, CHR 0xB0, CHR 0xD1, CHR 0x86, CHR 0xD0, CHR 0xB8,
      CHR 0xD1, CHR 0x8F]))))"

section \<open>Reviews\<close>

definition review_protocol_error :: "string \<Rightarrow> review_outcome" where
  "review_protocol_error message = review_outcome.Escalated (''invalid review protocol: '' @ message)"

definition status_word :: "finding_status \<Rightarrow> string" where
  "status_word s =
    (case s of
       New \<Rightarrow> ''new'' | Fixed \<Rightarrow> ''fixed'' | Rejected \<Rightarrow> ''rejected'' | finding_status.Ready \<Rightarrow> ''ready''
     | finding_status.Other value \<Rightarrow> value)"

definition finding_signature :: "(string \<Rightarrow> string) \<Rightarrow> finding list \<Rightarrow> string" where
  "finding_signature lc fs =
    (let fields = sort (map (\<lambda>f. (fd_id f @ ''|'' @ fd_title f, status_word (fd_status f))) fs) in
     signature_of_finding lc (join [CHR 0x0A] (map fst fields)) (join [CHR 0x0A] (map snd fields)))"

definition split_once_str :: "string \<Rightarrow> string \<Rightarrow> (string \<times> string) option" where
  "split_once_str sep s = map_option (\<lambda>n. (take n s, drop (n + length sep) s)) (find_sub sep s)"

definition review_risk_elevation :: "string \<Rightarrow> string + risk option" where
  "review_risk_elevation report =
    (case map trim (List.map_filter (\<lambda>l. strip_prefix risk_marker (trim l)) (text_lines report)) of
       [] \<Rightarrow> Inr None
     | [marker] \<Rightarrow>
         (case split_once_str [CHR 0x20, CHR 0xE2, CHR 0x80, CHR 0x94, CHR 0x20] marker of
            None \<Rightarrow> Inl [CHR 0x72, CHR 0x65, CHR 0x76, CHR 0x69, CHR 0x65, CHR 0x77, CHR 0x65, CHR 0x72, CHR 0x20,
      CHR 0x72, CHR 0x69, CHR 0x73, CHR 0x6B, CHR 0x20, CHR 0x6D, CHR 0x61, CHR 0x72, CHR 0x6B,
      CHR 0x65, CHR 0x72, CHR 0x20, CHR 0x6D, CHR 0x75, CHR 0x73, CHR 0x74, CHR 0x20, CHR 0x62,
      CHR 0x65, CHR 0x20, CHR 0x60, CHR 0xD0, CHR 0xA0, CHR 0xD0, CHR 0xB8, CHR 0xD1, CHR 0x81,
      CHR 0xD0, CHR 0xBA, CHR 0x2D, CHR 0xD0, CHR 0xBF, CHR 0xD0, CHR 0xBE, CHR 0xD0, CHR 0xB2,
      CHR 0xD1, CHR 0x8B, CHR 0xD1, CHR 0x88, CHR 0xD0, CHR 0xB5, CHR 0xD0, CHR 0xBD, CHR 0x3A,
      CHR 0x20, CHR 0x6C, CHR 0x6F, CHR 0x77, CHR 0x7C, CHR 0x6D, CHR 0x65, CHR 0x64, CHR 0x69,
      CHR 0x75, CHR 0x6D, CHR 0x7C, CHR 0x68, CHR 0x69, CHR 0x67, CHR 0x68, CHR 0x20, CHR 0xE2,
      CHR 0x80, CHR 0x94, CHR 0x20, CHR 0x3C, CHR 0x72, CHR 0x65, CHR 0x61, CHR 0x73, CHR 0x6F,
      CHR 0x6E, CHR 0x3E, CHR 0x60]
          | Some (level, reason) \<Rightarrow>
              (if trim reason = [] then Inl ''reviewer risk marker must include a non-empty reason''
               else (case risk_from_token level of
                       Some r \<Rightarrow> Inr (Some r)
                     | None \<Rightarrow> Inl ''reviewer risk marker must name exactly low, medium, or high'')))
     | _ \<Rightarrow> Inl [CHR 0x72, CHR 0x65, CHR 0x76, CHR 0x69, CHR 0x65, CHR 0x77, CHR 0x20, CHR 0x72, CHR 0x65,
      CHR 0x70, CHR 0x6F, CHR 0x72, CHR 0x74, CHR 0x20, CHR 0x68, CHR 0x61, CHR 0x73, CHR 0x20,
      CHR 0x64, CHR 0x75, CHR 0x70, CHR 0x6C, CHR 0x69, CHR 0x63, CHR 0x61, CHR 0x74, CHR 0x65,
      CHR 0x20, CHR 0xD0, CHR 0xA0, CHR 0xD0, CHR 0xB8, CHR 0xD1, CHR 0x81, CHR 0xD0, CHR 0xBA,
      CHR 0x2D, CHR 0xD0, CHR 0xBF, CHR 0xD0, CHR 0xBE, CHR 0xD0, CHR 0xB2, CHR 0xD1, CHR 0x8B,
      CHR 0xD1, CHR 0x88, CHR 0xD0, CHR 0xB5, CHR 0xD0, CHR 0xBD, CHR 0x20, CHR 0x6D, CHR 0x61,
      CHR 0x72, CHR 0x6B, CHR 0x65, CHR 0x72, CHR 0x73])"

text \<open>What the terminal line of a review report says before the report's findings are considered.\<close>

definition review_tail_error :: "(string \<Rightarrow> string) \<Rightarrow> outcome_line option \<Rightarrow> review_outcome option" where
  "review_tail_error dbg tail =
    (case tail of
       None \<Rightarrow> None
     | Some o' \<Rightarrow>
         (if oc_verdict o' = codex_escalation_verdict
          then Some (review_outcome.Escalated
                 (case required_reason o' of
                    Some r \<Rightarrow> r | None \<Rightarrow> [CHR 0x43, CHR 0x6F, CHR 0x64, CHR 0x65, CHR 0x78, CHR 0x20, CHR 0x72, CHR 0x65, CHR 0x76,
      CHR 0x69, CHR 0x65, CHR 0x77, CHR 0x65, CHR 0x72, CHR 0x20, CHR 0x65, CHR 0x73, CHR 0x63,
      CHR 0x61, CHR 0x6C, CHR 0x61, CHR 0x74, CHR 0x69, CHR 0x6F, CHR 0x6E, CHR 0x20, CHR 0x77,
      CHR 0x69, CHR 0x74, CHR 0x68, CHR 0x6F, CHR 0x75, CHR 0x74, CHR 0x20, CHR 0xD0, CHR 0xBF,
      CHR 0xD1, CHR 0x80, CHR 0xD0, CHR 0xB8, CHR 0xD1, CHR 0x87, CHR 0xD0, CHR 0xB8, CHR 0xD0,
      CHR 0xBD, CHR 0xD0, CHR 0xB0, CHR 0x20, CHR 0x66, CHR 0x69, CHR 0x65, CHR 0x6C, CHR 0x64]))
          else if oc_verdict o' = ready_verdict \<or> oc_verdict o' = open_verdict then None
          else Some (review_protocol_error (''unknown reviewer outcome '' @ dbg (oc_verdict o')))))"

definition review_decision ::
    "(string \<Rightarrow> string) \<Rightarrow> review_parse \<Rightarrow> outcome_line option \<Rightarrow> risk option \<Rightarrow> string \<Rightarrow> string \<Rightarrow> string
     \<Rightarrow> review_outcome" where
  "review_decision lc parsed tail risk since until review_sha =
    (let open = open_review_findings parsed in
     if open \<noteq> []
     then (let open_findings = min (length open) u32_max; ids = map fd_id open; sig = finding_signature lc open in
           case risk of
             Some r \<Rightarrow> FindingsRiskElevated sig r open_findings ids
           | None \<Rightarrow> review_outcome.Findings sig open_findings ids)
     else if (case tail of Some o' \<Rightarrow> oc_verdict o' = ready_verdict | None \<Rightarrow> False) \<and> is_clean_pass parsed since until
     then (case risk of Some r \<Rightarrow> CleanRiskElevated review_sha r | None \<Rightarrow> Clean review_sha)
     else (case summary_after_window parsed until of
             Some mark \<Rightarrow>
               review_protocol_error ((''reviewer'' @ [CHR 0x27] @ ''s latest SUMMARY-R '') @ mark
                 @ ('' is dated after this call'' @ [CHR 0x27] @ ''s window end '') @ until
                 @ ''; summaries are never deleted, so no later pass can re-prove the clean gate'')
           | None \<Rightarrow> Incomplete))"

definition task_review_outcome ::
    "(string \<Rightarrow> string) \<Rightarrow> (string \<Rightarrow> string) \<Rightarrow> verdict \<Rightarrow> string \<Rightarrow> string \<Rightarrow> string \<Rightarrow> string
     \<Rightarrow> string + review_outcome" where
  "task_review_outcome lc dbg v report since until review_sha =
    (if vd_reason v \<noteq> StopOk then Inr (review_outcome.Escalated (supervisor_reason v))
     else (case review_risk_elevation report of
       Inl reason \<Rightarrow> Inr (review_protocol_error reason)
     | Inr risk \<Rightarrow>
        bind_res (parse_review report) (\<lambda>parsed.
          (let tail = strict_outcome report in
           Inr (case review_tail_error dbg tail of
                  Some e \<Rightarrow> e
                | None \<Rightarrow> review_decision lc parsed tail risk since until review_sha)))))"

definition integration_review_outcome ::
    "(string \<Rightarrow> string) \<Rightarrow> (string \<Rightarrow> string) \<Rightarrow> verdict \<Rightarrow> string \<Rightarrow> string \<Rightarrow> string \<Rightarrow> string
     \<Rightarrow> string + review_outcome" where
  "integration_review_outcome lc dbg v report since until review_sha =
    (if vd_reason v \<noteq> StopOk then Inr (review_outcome.Escalated (supervisor_reason v))
     else bind_res (parse_review report) (\<lambda>parsed.
       Inr (case strict_outcome report of
              None \<Rightarrow> review_protocol_error [CHR 0x6D, CHR 0x69, CHR 0x73, CHR 0x73, CHR 0x69, CHR 0x6E, CHR 0x67, CHR 0x20, CHR 0x6D,
      CHR 0x61, CHR 0x63, CHR 0x68, CHR 0x69, CHR 0x6E, CHR 0x65, CHR 0x2D, CHR 0x72, CHR 0x65,
      CHR 0x61, CHR 0x64, CHR 0x61, CHR 0x62, CHR 0x6C, CHR 0x65, CHR 0x20, CHR 0xD0, CHR 0x98,
      CHR 0xD0, CHR 0xA2, CHR 0xD0, CHR 0x9E, CHR 0xD0, CHR 0x93, CHR 0x20, CHR 0x6C, CHR 0x69,
      CHR 0x6E, CHR 0x65]
            | Some o' \<Rightarrow>
               (let open = open_integration_findings parsed in
                if oc_verdict o' = publish_verdict \<and> is_clean_integration_pass parsed since until
                then Clean review_sha
                else if oc_verdict o' = open_verdict \<and> open \<noteq> []
                then Findings (finding_signature lc open) (min (length open) u32_max) (map fd_id open)
                else if oc_verdict o' = publish_verdict
                then review_protocol_error
                  ''full reviewer declared ready but did not provide a fresh clean SUMMARY-F gate''
                else if oc_verdict o' = open_verdict
                then review_protocol_error
                  ''full reviewer declared open findings but no open F-* finding exists''
                else review_protocol_error (''unknown full-review outcome '' @ dbg (oc_verdict o'))))))"

section \<open>Merges\<close>

definition merge_task_outcome :: "(string \<Rightarrow> string) \<Rightarrow> verdict \<Rightarrow> string \<Rightarrow> string \<Rightarrow> merge_outcome" where
  "merge_task_outcome dbg v report task_id =
    (if vd_reason v \<noteq> StopOk then merge_outcome.Failed (supervisor_reason v)
     else (case strict_outcome report of
       None \<Rightarrow> merge_outcome.Failed [CHR 0x6D, CHR 0x69, CHR 0x73, CHR 0x73, CHR 0x69, CHR 0x6E, CHR 0x67, CHR 0x20, CHR 0x6D,
      CHR 0x61, CHR 0x63, CHR 0x68, CHR 0x69, CHR 0x6E, CHR 0x65, CHR 0x2D, CHR 0x72, CHR 0x65,
      CHR 0x61, CHR 0x64, CHR 0x61, CHR 0x62, CHR 0x6C, CHR 0x65, CHR 0x20, CHR 0xD0, CHR 0x98,
      CHR 0xD0, CHR 0xA2, CHR 0xD0, CHR 0x9E, CHR 0xD0, CHR 0x93, CHR 0x20, CHR 0x6C, CHR 0x69,
      CHR 0x6E, CHR 0x65, CHR 0x20, CHR 0x69, CHR 0x6E, CHR 0x20, CHR 0x6D, CHR 0x65, CHR 0x72,
      CHR 0x67, CHR 0x65, CHR 0x72, CHR 0x20, CHR 0x72, CHR 0x65, CHR 0x70, CHR 0x6F, CHR 0x72,
      CHR 0x74]
     | Some o' \<Rightarrow>
        (if oc_verdict o' = merge_escalation_verdict
         then merge_outcome.Failed (case required_reason o' of
                        Some r \<Rightarrow> r | None \<Rightarrow> [CHR 0x6D, CHR 0x65, CHR 0x72, CHR 0x67, CHR 0x65, CHR 0x72, CHR 0x20, CHR 0x65, CHR 0x73,
      CHR 0x63, CHR 0x61, CHR 0x6C, CHR 0x61, CHR 0x74, CHR 0x65, CHR 0x64, CHR 0x20, CHR 0x77,
      CHR 0x69, CHR 0x74, CHR 0x68, CHR 0x6F, CHR 0x75, CHR 0x74, CHR 0x20, CHR 0x61, CHR 0x20,
      CHR 0xD0, CHR 0xBF, CHR 0xD1, CHR 0x80, CHR 0xD0, CHR 0xB8, CHR 0xD1, CHR 0x87, CHR 0xD0,
      CHR 0xB8, CHR 0xD0, CHR 0xBD, CHR 0xD0, CHR 0xB0, CHR 0x20, CHR 0x66, CHR 0x69, CHR 0x65,
      CHR 0x6C, CHR 0x64])
         else if oc_verdict o' \<noteq> merged_all_verdict \<and> oc_verdict o' \<noteq> some_quarantined_verdict
         then merge_outcome.Failed (''unknown merger outcome '' @ dbg (oc_verdict o'))
         else (case filter (\<lambda>l. ml_id l = task_id) (parse_merge_report report) of
            [line] \<Rightarrow>
              (case ml_outcome line of
                 LineMerged sha _ \<Rightarrow> Merged sha
               | LineQuarantined reason \<Rightarrow> Quarantined reason)
          | [] \<Rightarrow> merge_outcome.Failed (''merge report has no result line for '' @ task_id)
          | _ \<Rightarrow> merge_outcome.Failed (''merge report has duplicate result lines for '' @ task_id)))))"

end
