(* ===== verification/AdapterProps.thy ===== *)
theory AdapterProps
  imports ReducerProps ResolverProps OutcomeAdapter
begin

text \<open>
  What stands between the free text of an agent and the reducer: which reports authorise a
  transition, and that the adapters are never looser than the review gate.
\<close>

section \<open>The terminal line\<close>

lemma starts_with_prefix: "starts_with s p \<longleftrightarrow> strip_prefix p s \<noteq> None"
  by (simp add: starts_with_iff strip_prefix_def prefix_def) (metis append_eq_conv_conj append_take_drop_id)

lemma outcome_of_trim: "outcome_of_line (trim l) = outcome_of_line l"
  by (simp add: outcome_of_line_def)

lemma outcome_of_other: "\<not> starts_with (trim l) outcome_key \<Longrightarrow> outcome_of_line l = None"
  by (simp add: outcome_of_line_def starts_with_prefix)

lemma outcome_of_blank: "trim l = [] \<Longrightarrow> outcome_of_line l = None"
  by (simp add: outcome_of_line_def outcome_key_def strip_prefix_def)

lemma found_active:
  "foldl (\<lambda>found l. case outcome_of_line l of Some x \<Rightarrow> Some x | None \<Rightarrow> found) acc
     (filter (\<lambda>l. l \<noteq> []) (map trim ls)) =
   foldl (\<lambda>found l. case outcome_of_line l of Some x \<Rightarrow> Some x | None \<Rightarrow> found) acc ls"
  by (induction ls arbitrary: acc) (simp_all add: outcome_of_trim outcome_of_blank)

lemma found_none:
  "\<forall>l \<in> set ls. outcome_of_line l = None \<Longrightarrow>
    foldl (\<lambda>found l. case outcome_of_line l of Some x \<Rightarrow> Some x | None \<Rightarrow> found) acc ls = acc"
  by (induction ls arbitrary: acc) auto

text \<open>A report is judged by its last line, the only one of its kind.\<close>

lemma strict_outcome_iff:
  "strict_outcome report = Some out \<longleftrightarrow>
    (\<exists>before line. active_lines report = before @ [line] \<and> outcome_of_line line = Some out
       \<and> (\<forall>l \<in> set before. \<not> starts_with l outcome_key))"
proof -
  have parse: "parse_outcome report = outcome_of_line line"
    if "active_lines report = before @ [line]" "\<forall>l \<in> set before. \<not> starts_with l outcome_key" for before line
  proof -
    have trimmed: "trim l = l" if "l \<in> set (active_lines report)" for l
      using that by (auto simp: active_lines_def)
    then have "\<forall>l \<in> set before. outcome_of_line l = None"
      using that outcome_of_other by (metis Un_iff set_append)
    then show ?thesis
      using that(1) unfolding parse_outcome_def
      by (subst found_active[symmetric]) (simp add: active_lines_def found_none split: option.split)
  qed
  have starts: "starts_with line outcome_key" if "outcome_of_line line = Some out" "line \<in> set (active_lines report)" for line
    using that outcome_of_other[of line] by (cases "starts_with line outcome_key") (auto simp: active_lines_def)
  show ?thesis
  proof
    assume s: "strict_outcome report = Some out"
    then have a: "active_lines report \<noteq> []" "starts_with (last (active_lines report)) outcome_key"
      "length (filter (\<lambda>l. starts_with l outcome_key) (active_lines report)) = 1" "parse_outcome report = Some out"
      by (auto simp: strict_outcome_def Let_def split: if_splits)
    obtain before line where b: "active_lines report = before @ [line]" using a(1) by (metis rev_exhaust)
    then have "\<forall>l \<in> set before. \<not> starts_with l outcome_key" using a(2,3) by (auto simp: filter_empty_conv)
    then show "\<exists>before line. active_lines report = before @ [line] \<and> outcome_of_line line = Some out
       \<and> (\<forall>l \<in> set before. \<not> starts_with l outcome_key)" using parse[OF b] a(4) b by auto
  next
    assume "\<exists>before line. active_lines report = before @ [line] \<and> outcome_of_line line = Some out
       \<and> (\<forall>l \<in> set before. \<not> starts_with l outcome_key)"
    then obtain before line where b: "active_lines report = before @ [line]" "outcome_of_line line = Some out"
      "\<forall>l \<in> set before. \<not> starts_with l outcome_key" by blast
    then have "starts_with line outcome_key" using starts by simp
    moreover have "filter (\<lambda>l. starts_with l outcome_key) before = []" using b(3) by (simp add: filter_empty_conv)
    ultimately show "strict_outcome report = Some out"
      using parse[OF b(1,3)] b(1,2) by (simp add: strict_outcome_def)
  qed
qed

section \<open>Reviews\<close>

definition clean_with :: "string \<Rightarrow> review_outcome \<Rightarrow> bool" where
  "clean_with sha r \<longleftrightarrow> r = Clean sha \<or> (\<exists>k. r = CleanRiskElevated sha k)"

definition findings_with :: "string \<Rightarrow> nat \<Rightarrow> string list \<Rightarrow> review_outcome \<Rightarrow> bool" where
  "findings_with sig n ids r \<longleftrightarrow>
    r = review_outcome.Findings sig n ids \<or> (\<exists>k. r = FindingsRiskElevated sig k n ids)"

lemma review_decision_cases:
  "clean_with s (review_decision lc parsed tail risk since until sha) \<longleftrightarrow>
     s = sha \<and> review_gate_of parsed since until = GateClean
     \<and> (\<exists>out. tail = Some out \<and> oc_verdict out = ready_verdict)"
  "findings_with sig n ids (review_decision lc parsed tail risk since until sha) \<longleftrightarrow>
     review_gate_of parsed since until = GateFindings \<and> sig = finding_signature lc (open_review_findings parsed)
     \<and> n = min (length (open_review_findings parsed)) u32_max \<and> ids = map fd_id (open_review_findings parsed)"
  "review_decision lc parsed tail risk since until sha = Incomplete \<Longrightarrow>
     review_gate_of parsed since until \<noteq> GateFindings \<and> summary_after_window parsed until = None"
  by (auto simp: review_decision_def Let_def clean_with_def findings_with_def review_gate_of_def
      review_protocol_error_def is_clean_pass_def split: option.splits if_splits)

lemma tail_error_escalates: "review_tail_error dbg tail = Some r \<Longrightarrow> \<exists>m. r = review_outcome.Escalated m"
  by (auto simp: review_tail_error_def review_protocol_error_def split: option.splits if_splits)

lemma review_outcome_cases:
  assumes "task_review_outcome lc dbg v report since until sha = Inr r"
  obtains (escalated) m where "r = review_outcome.Escalated m"
  | (decided) parsed risk where "vd_reason v = StopOk" "parse_review report = Inr parsed"
      "review_tail_error dbg (strict_outcome report) = None"
      "r = review_decision lc parsed (strict_outcome report) risk since until sha"
proof (cases "vd_reason v = StopOk")
  case False
  then show ?thesis using assms by (intro escalated[of "supervisor_reason v"]) (simp add: task_review_outcome_def)
next
  case ok: True
  show ?thesis
  proof (cases "review_risk_elevation report")
    case (Inl e)
    then show ?thesis
      using assms ok by (intro escalated[of "''invalid review protocol: '' @ e"])
        (simp add: task_review_outcome_def review_protocol_error_def)
  next
    case (Inr risk)
    then obtain parsed where p: "parse_review report = Inr parsed"
      using assms ok by (cases "parse_review report") (simp_all add: task_review_outcome_def bind_res_def)
    show ?thesis
    proof (cases "review_tail_error dbg (strict_outcome report)")
      case None
      then show ?thesis
        using assms ok Inr p by (intro decided[of parsed risk]) (simp_all add: task_review_outcome_def bind_res_def Let_def)
    next
      case (Some e)
      then show ?thesis
        using assms ok Inr p escalated tail_error_escalates[OF Some]
        by (auto simp: task_review_outcome_def bind_res_def Let_def)
    qed
  qed
qed

lemma review_decision_exhausts:
  "review_gate_of parsed since until \<noteq> GateFindings \<Longrightarrow>
    \<not> (review_gate_of parsed since until = GateClean \<and> (\<exists>out. tail = Some out \<and> oc_verdict out = ready_verdict)) \<Longrightarrow>
    (if summary_after_window parsed until = None then review_decision lc parsed tail risk since until sha = Incomplete
     else \<exists>m. review_decision lc parsed tail risk since until sha = review_outcome.Escalated m)"
  by (auto simp: review_decision_def Let_def review_gate_of_def review_protocol_error_def is_clean_pass_def
      split: option.splits if_splits)

text \<open>
  The reports that reach the gate: the supervisor stopped regularly, the risk marker is readable, and the
  last line is absent, claims readiness, or claims open findings.
\<close>

definition gated_report :: "verdict \<Rightarrow> string \<Rightarrow> bool" where
  "gated_report v report \<longleftrightarrow>
    vd_reason v = StopOk \<and> (\<exists>risk. review_risk_elevation report = Inr risk)
    \<and> (case strict_outcome report of None \<Rightarrow> True | Some out \<Rightarrow> oc_verdict out = ready_verdict \<or> oc_verdict out = open_verdict)"

lemma verdicts_differ: "codex_escalation_verdict \<noteq> ready_verdict" "codex_escalation_verdict \<noteq> open_verdict"
  by (simp_all add: codex_escalation_verdict_def ready_verdict_def open_verdict_def)

lemma tail_error_None:
  "review_tail_error dbg tail = None \<longleftrightarrow>
    (case tail of None \<Rightarrow> True | Some out \<Rightarrow> oc_verdict out = ready_verdict \<or> oc_verdict out = open_verdict)"
  using verdicts_differ by (auto simp: review_tail_error_def split: option.splits)

lemma gated_outcome:
  assumes "task_review_outcome lc dbg v report since until sha = Inr r" "parse_review report = Inr parsed"
  shows "if gated_report v report
    then \<exists>risk. r = review_decision lc parsed (strict_outcome report) risk since until sha
    else \<exists>m. r = review_outcome.Escalated m"
proof (cases "vd_reason v = StopOk \<and> (\<exists>risk. review_risk_elevation report = Inr risk)")
  case False
  then show ?thesis
    using assms by (auto simp: gated_report_def task_review_outcome_def review_protocol_error_def split: sum.splits if_splits)
next
  case True
  then show ?thesis
    using assms tail_error_None[of dbg "strict_outcome report"]
    by (cases "review_tail_error dbg (strict_outcome report)")
      (auto simp: gated_report_def task_review_outcome_def bind_res_def Let_def dest: tail_error_escalates)
qed

text \<open>
  C38. The production adapter refines the review gate. A report that does not reach the gate (the supervisor
  failed, the risk marker is malformed, or the last line claims something else than readiness or open
  findings) is escalated, whatever the artifact holds. For every other report the outcome is decided by
  the gate: a clean pass, and then for the reviewed commit, exactly when the gate calls the artifact
  clean and the last line claims readiness; findings exactly when the gate sees open findings, with their
  signature, number and identifiers; otherwise a repetition, unless a summary is dated after the
  window, which escalates.
\<close>

theorem adapter_refines_gate:
  assumes "task_review_outcome lc dbg v report since until sha = Inr r" "parse_review report = Inr parsed"
  shows "if gated_report v report
    then (clean_with s r \<longleftrightarrow> s = sha \<and> review_gate_of parsed since until = GateClean
          \<and> (\<exists>out. strict_outcome report = Some out \<and> oc_verdict out = ready_verdict))
      \<and> (findings_with sig n ids r \<longleftrightarrow> review_gate_of parsed since until = GateFindings
          \<and> sig = finding_signature lc (open_review_findings parsed)
          \<and> n = min (length (open_review_findings parsed)) u32_max \<and> ids = map fd_id (open_review_findings parsed))
      \<and> (r = Incomplete \<longleftrightarrow> review_gate_of parsed since until \<noteq> GateFindings \<and> \<not> clean_with sha r
          \<and> summary_after_window parsed until = None)
      \<and> ((\<exists>m. r = review_outcome.Escalated m) \<longleftrightarrow> review_gate_of parsed since until \<noteq> GateFindings
          \<and> \<not> clean_with sha r \<and> summary_after_window parsed until \<noteq> None)
    else \<exists>m. r = review_outcome.Escalated m"
proof (cases "gated_report v report")
  case False
  then show ?thesis using gated_outcome[OF assms] by simp
next
  case True
  then obtain risk where r: "r = review_decision lc parsed (strict_outcome report) risk since until sha"
    using gated_outcome[OF assms] by auto
  note clean_with_iff = review_decision_cases(1)[of _ lc parsed "strict_outcome report" risk since until sha, folded r]
  note found = review_decision_cases(2)[of _ _ _ lc parsed "strict_outcome report" risk since until sha, folded r]
  note rest = review_decision_exhausts[of parsed since until "strict_outcome report" lc risk sha, folded r]
  consider (findings) "review_gate_of parsed since until = GateFindings"
    | (clean) "clean_with sha r" "review_gate_of parsed since until = GateClean"
    | (neither) "review_gate_of parsed since until \<noteq> GateFindings" "\<not> clean_with sha r"
    using clean_with_iff by blast
  then show ?thesis
  proof cases
    case findings
    then have "\<exists>k. findings_with (finding_signature lc (open_review_findings parsed))
        (min (length (open_review_findings parsed)) u32_max) (map fd_id (open_review_findings parsed)) r" using found by blast
    then show ?thesis using True findings clean_with_iff[of s] found[of sig n ids] by (auto simp: findings_with_def)
  next
    case clean: clean
    then show ?thesis using True clean_with_iff[of s] found[of sig n ids] by (auto simp: clean_with_def)
  next
    case neither
    then show ?thesis using True clean_with_iff[of s] clean_with_iff[of sha] found[of sig n ids] rest by (auto split: if_splits)
  qed
qed

definition clean_report :: string where
  "clean_report = [CHR 0x23, CHR 0x23, CHR 0x23, CHR 0x20, CHR 0x5B, CHR 0x53, CHR 0x55, CHR 0x4D, CHR 0x4D,
      CHR 0x41, CHR 0x52, CHR 0x59, CHR 0x2D, CHR 0x52, CHR 0x2D, CHR 0x32, CHR 0x30, CHR 0x32,
      CHR 0x34, CHR 0x2D, CHR 0x30, CHR 0x35, CHR 0x2D, CHR 0x30, CHR 0x31, CHR 0x54, CHR 0x31,
      CHR 0x30, CHR 0x3A, CHR 0x30, CHR 0x30, CHR 0x3A, CHR 0x30, CHR 0x30, CHR 0x5A, CHR 0x5D,
      CHR 0x20, CHR 0xD0, CHR 0x98, CHR 0xD1, CHR 0x82, CHR 0xD0, CHR 0xBE, CHR 0xD0, CHR 0xB3,
      CHR 0x20, CHR 0xD1, CHR 0x80, CHR 0xD0, CHR 0xB5, CHR 0xD0, CHR 0xB2, CHR 0xD1, CHR 0x8C,
      CHR 0xD1, CHR 0x8E, CHR 0x20, CHR 0xD0, CHR 0xB7, CHR 0xD0, CHR 0xB0, CHR 0xD0, CHR 0xB4,
      CHR 0xD0, CHR 0xB0, CHR 0xD1, CHR 0x87, CHR 0xD0, CHR 0xB8, CHR 0x20, CHR 0xE2, CHR 0x80,
      CHR 0x94, CHR 0x20, CHR 0xD1, CHR 0x81, CHR 0xD1, CHR 0x82, CHR 0xD0, CHR 0xB0, CHR 0xD1,
      CHR 0x82, CHR 0xD1, CHR 0x83, CHR 0xD1, CHR 0x81, CHR 0x3A, CHR 0x20, CHR 0xD0, CHR 0xB3,
      CHR 0xD0, CHR 0xBE, CHR 0xD1, CHR 0x82, CHR 0xD0, CHR 0xBE, CHR 0xD0, CHR 0xB2, CHR 0xD0,
      CHR 0xBE, CHR 0x20, CHR 0xD0, CHR 0xBA, CHR 0x20, CHR 0xD1, CHR 0x81, CHR 0xD0, CHR 0xBB,
      CHR 0xD0, CHR 0xB8, CHR 0xD1, CHR 0x8F, CHR 0xD0, CHR 0xBD, CHR 0xD0, CHR 0xB8, CHR 0xD1,
      CHR 0x8E]
     @ [CHR 0x0A] @ [CHR 0xD0, CHR 0x98, CHR 0xD0, CHR 0xA2, CHR 0xD0, CHR 0x9E, CHR 0xD0, CHR 0x93, CHR 0x3A,
      CHR 0x20, CHR 0xD0, CHR 0xB3, CHR 0xD0, CHR 0xBE, CHR 0xD1, CHR 0x82, CHR 0xD0, CHR 0xBE,
      CHR 0xD0, CHR 0xB2, CHR 0xD0, CHR 0xBE, CHR 0x20, CHR 0xD0, CHR 0xBA, CHR 0x20, CHR 0xD1,
      CHR 0x81, CHR 0xD0, CHR 0xBB, CHR 0xD0, CHR 0xB8, CHR 0xD1, CHR 0x8F, CHR 0xD0, CHR 0xBD,
      CHR 0xD0, CHR 0xB8, CHR 0xD1, CHR 0x8E, CHR 0x20, CHR 0xC2, CHR 0xB7, CHR 0x20, CHR 0xD0,
      CHR 0xBE, CHR 0xD1, CHR 0x82, CHR 0xD0, CHR 0xBA, CHR 0xD1, CHR 0x80, CHR 0xD1, CHR 0x8B,
      CHR 0xD1, CHR 0x82, CHR 0xD1, CHR 0x8B, CHR 0xD1, CHR 0x85, CHR 0x3D, CHR 0x30] @ [CHR 0x0A]"

definition ok_verdict :: verdict where
  "ok_verdict = \<lparr>vd_reason = StopOk, vd_exit_code = Some 0, vd_timed_out = False, vd_cancelled = False,
     vd_duration_ms = 1000, vd_stdout = [], vd_stderr = [], vd_outcome_reason = []\<rparr>"

lemma clean_report_parse: "parse_review clean_report = Inr
    [\<lparr>fd_id = ''SUMMARY-R-2024-05-01T10:00:00Z'', fd_title = [CHR 0xD0, CHR 0x98, CHR 0xD1, CHR 0x82, CHR 0xD0, CHR 0xBE, CHR 0xD0, CHR 0xB3, CHR 0x20,
      CHR 0xD1, CHR 0x80, CHR 0xD0, CHR 0xB5, CHR 0xD0, CHR 0xB2, CHR 0xD1, CHR 0x8C, CHR 0xD1,
      CHR 0x8E, CHR 0x20, CHR 0xD0, CHR 0xB7, CHR 0xD0, CHR 0xB0, CHR 0xD0, CHR 0xB4, CHR 0xD0,
      CHR 0xB0, CHR 0xD1, CHR 0x87, CHR 0xD0, CHR 0xB8], fd_status = finding_status.Ready\<rparr>]"
  unfolding clean_report_def by code_simp


lemma clean_report_tail:
  "strict_outcome clean_report = Some \<lparr>oc_verdict = ready_verdict, oc_fields = [([CHR 0xD0, CHR 0xBE, CHR 0xD1, CHR 0x82, CHR 0xD0, CHR 0xBA, CHR 0xD1, CHR 0x80, CHR 0xD1,
      CHR 0x8B, CHR 0xD1, CHR 0x82, CHR 0xD1, CHR 0x8B, CHR 0xD1, CHR 0x85], ''0'')]\<rparr>"
  unfolding clean_report_def by code_simp

lemma clean_report_risk: "review_risk_elevation clean_report = Inr None"
  unfolding clean_report_def by code_simp

definition clean_parse :: review_parse where
  "clean_parse = [\<lparr>fd_id = ''SUMMARY-R-2024-05-01T10:00:00Z'', fd_title = [CHR 0xD0, CHR 0x98, CHR 0xD1, CHR 0x82, CHR 0xD0, CHR 0xBE, CHR 0xD0, CHR 0xB3, CHR 0x20,
      CHR 0xD1, CHR 0x80, CHR 0xD0, CHR 0xB5, CHR 0xD0, CHR 0xB2, CHR 0xD1, CHR 0x8C, CHR 0xD1,
      CHR 0x8E, CHR 0x20, CHR 0xD0, CHR 0xB7, CHR 0xD0, CHR 0xB0, CHR 0xD0, CHR 0xB4, CHR 0xD0,
      CHR 0xB0, CHR 0xD1, CHR 0x87, CHR 0xD0, CHR 0xB8], fd_status = finding_status.Ready\<rparr>]"

lemma demo_day: "days_from_civil 2024 5 1 = 19844"
  by code_simp

lemma demo_iso_times:
  "is_iso_utc ''2024-05-01T09:59:00Z''" "is_iso_utc ''2024-05-01T10:00:00Z''" "is_iso_utc ''2024-05-01T10:00:30Z''"
  "is_iso_utc ''2024-05-01T12:00:00Z''"
  by code_simp+

lemma demo_times:
  "iso_to_epoch_millis ''2024-05-01T09:59:00Z'' = Some 1714557540000"
  "iso_to_epoch_millis ''2024-05-01T10:00:00Z'' = Some 1714557600000"
  "iso_to_epoch_millis ''2024-05-01T10:00:30Z'' = Some 1714557630000"
  "iso_to_epoch_millis ''2024-05-01T12:00:00Z'' = Some 1714564800000"
  by (simp_all add: demo_day demo_iso_times iso_to_epoch_millis_def iso_to_epoch_def field_def parse_digits_def
      digits_val_def digit_val_def is_digit_def checked64_def u64_max_def iso_fraction_def strip_prefix_def)

lemma clean_parse_gate:
  "open_review_findings clean_parse = []" "is_clean_pass clean_parse ''2024-05-01T09:59:00Z'' ''2024-05-01T10:00:30Z''"
  by (simp_all add: clean_parse_def open_review_findings_def is_review_def is_clean_pass_def latest_summary_def
      is_summary_def starts_with_def summary_timestamp_def strip_prefix_def in_window_def iso_chrono_cmp_def
      compare_with_def demo_times)

lemma clean_report_outcome:
  "task_review_outcome id id ok_verdict clean_report ''2024-05-01T09:59:00Z'' ''2024-05-01T10:00:30Z'' ''c1'' = Inr (Clean ''c1'')"
  using clean_parse_gate
  by (simp add: task_review_outcome_def ok_verdict_def clean_report_risk clean_report_parse clean_report_tail bind_res_def
      review_tail_error_def review_decision_def clean_parse_def ready_verdict_def codex_escalation_verdict_def)

theorem adapter_refines_gate_witness:
  "review_gate_of clean_parse ''2024-05-01T09:59:00Z'' ''2024-05-01T10:00:30Z'' = GateClean
    \<and> (\<exists>out. strict_outcome clean_report = Some out \<and> oc_verdict out = ready_verdict)"
proof -
  have "gated_report ok_verdict clean_report"
    by (simp add: gated_report_def ok_verdict_def clean_report_risk clean_report_tail)
  moreover have "clean_with ''c1'' (Clean ''c1'')" by (simp add: clean_with_def)
  ultimately show ?thesis
    using adapter_refines_gate[OF clean_report_outcome clean_report_parse[folded clean_parse_def], of "''c1''"] by simp
qed

section \<open>From the report to the merge queue\<close>

lemma clean_gate:
  assumes "review_gate_of parsed since until = GateClean"
  shows "open_review_findings parsed = [] \<and>
    (\<exists>summary ts. latest_summary parsed = Some summary \<and> summary_timestamp summary = Some ts \<and> in_window since until ts)"
  using assms
  by (auto simp: review_gate_of_def is_clean_pass_def bind_eq_Some_conv split: if_splits option.splits)

lemma accepted_review:
  assumes "accept lc (TaskReview i r) p = (Inr es, p')"
  shows "p' = p \<or> (\<exists>fs s'. task_review lc (pr_config p) i r (pr_state p) = (Inr fs, s') \<and> pr_state p' = s')"
  using assms
proof (cases rule: accept_cases)
  case (accepted fs)
  from accepted(2) show ?thesis
  proof (cases rule: apply_cases)
    case (ran gs)
    then show ?thesis
      by (cases "task_review lc (pr_config p) i r (pr_state p)") (auto simp: run_command_def dispatch_def)
  qed simp
qed simp

lemma review_makes_ready:
  assumes "task_review lc cfg i r s = (Inr fs, s')" "map_of (st_tasks s) i = Some t" "tr_phase t \<noteq> task_phase.Ready"
    and "map_of (st_tasks s') i = Some t'" "tr_phase t' = task_phase.Ready"
  shows "\<exists>sha. clean_with sha r \<and> tr_review_sha t = Some sha \<and> tr_review_sha t' = Some sha"
proof -
  have review: "tr_phase t = Reviewing" using assms(1,2) by (auto simp: task_review_def)
  have tip: "tr_review_sha u = Some sha" if "check_review_tip j sha u = Inr ()" for j sha u
    using that by (auto simp: check_review_tip_def bind_res_def ensure_def split: sum.splits if_splits)
  show ?thesis
    using assms review
    by (cases r)
      (auto simp: task_review_def clean_with_def review_clean_def review_findings_def escalate_task_def Let_def
        put_task_look dest!: tip split: sum.splits option.splits if_splits)
qed

text \<open>
  C39. No review without evidence makes a task ready: when the reducer accepts the outcome which the
  adapter read out of a review report and the task thereby becomes ready to merge, then the
  call ended regularly, the last line of the report claims readiness, no finding of the report is open,
  its freshest summary lies inside the window of this very call, and the reviewed commit is
  the tip of the task that the reducer knows.
\<close>

theorem ready_only_on_proved_review:
  assumes "task_review_outcome lc dbg v report since until sha = Inr r"
    and "accept lc (TaskReview i r) p = (Inr es, p')"
    and "map_of (st_tasks (pr_state p)) i = Some t" "tr_phase t \<noteq> task_phase.Ready"
    and "map_of (st_tasks (pr_state p')) i = Some t'" "tr_phase t' = task_phase.Ready"
  shows "\<exists>parsed summary ts out. parse_review report = Inr parsed \<and> open_review_findings parsed = []
    \<and> latest_summary parsed = Some summary \<and> summary_timestamp summary = Some ts \<and> in_window since until ts
    \<and> strict_outcome report = Some out \<and> oc_verdict out = ready_verdict
    \<and> vd_reason v = StopOk \<and> tr_review_sha t = Some sha \<and> tr_review_sha t' = Some sha"
proof -
  obtain fs s' where run: "task_review lc (pr_config p) i r (pr_state p) = (Inr fs, s')" "pr_state p' = s'"
    using accepted_review[OF assms(2)] assms(3-6) by auto
  then have c: "\<exists>s. clean_with s r \<and> tr_review_sha t = Some s \<and> tr_review_sha t' = Some s"
    using review_makes_ready[OF run(1) assms(3,4)] assms(5,6) by simp
  from assms(1) show ?thesis
  proof (cases rule: review_outcome_cases)
    case escalated
    then show ?thesis using c by (auto simp: clean_with_def)
  next
    case (decided parsed risk)
    then obtain out where out: "review_gate_of parsed since until = GateClean" "strict_outcome report = Some out"
      "oc_verdict out = ready_verdict" "tr_review_sha t = Some sha" "tr_review_sha t' = Some sha"
      using c review_decision_cases(1) by metis
    then show ?thesis using decided(1,2) clean_gate[OF out(1)] by blast
  qed
qed

lemma demo_reviewed:
  "\<exists>t. map_of (st_tasks (pr_state demo7)) ''T-1'' = Some t \<and> tr_phase t = Reviewing"
  "\<exists>t. map_of (st_tasks (pr_state demo8)) ''T-1'' = Some t \<and> tr_phase t = task_phase.Ready"
  by (simp_all add: demo_defs)

theorem ready_only_on_proved_review_witness:
  "\<exists>t summary ts. map_of (st_tasks (pr_state demo7)) ''T-1'' = Some t \<and> tr_review_sha t = Some ''c1''
    \<and> latest_summary clean_parse = Some summary \<and> summary_timestamp summary = Some ts
    \<and> in_window ''2024-05-01T09:59:00Z'' ''2024-05-01T10:00:30Z'' ts"
proof -
  obtain t t' where t: "map_of (st_tasks (pr_state demo7)) ''T-1'' = Some t" "tr_phase t \<noteq> task_phase.Ready"
    "map_of (st_tasks (pr_state demo8)) ''T-1'' = Some t'" "tr_phase t' = task_phase.Ready"
    using demo_reviewed by auto
  show ?thesis
    using ready_only_on_proved_review[OF clean_report_outcome demo_step8 t] t(1) clean_report_parse
    by (auto simp: clean_parse_def)
qed

text \<open>
  The whole cohort is cleared for publication only on proof: the adapter of the full review
  reports a clean pass only for the reviewed head, when the call ended regularly, no integration finding is
  open, the freshest integration summary lies inside the window of the call, and the last
  line of the report says so; a task review's summary does not count.
\<close>

lemma publication_only_on_proved_review:
  assumes "integration_review_outcome lc dbg v report since until sha = Inr (Clean s)"
  shows "s = sha \<and> vd_reason v = StopOk \<and> (\<exists>parsed out summary ts. parse_review report = Inr parsed
    \<and> integration_gate parsed since until = GateClean \<and> open_integration_findings parsed = []
    \<and> latest_integration_summary parsed = Some summary \<and> integration_summary_timestamp summary = Some ts
    \<and> \<not> is_summary summary \<and> in_window since until ts
    \<and> strict_outcome report = Some out \<and> oc_verdict out = publish_verdict)"
proof -
  have ok: "vd_reason v = StopOk" using assms by (auto simp: integration_review_outcome_def split: if_splits)
  then obtain parsed where p: "parse_review report = Inr parsed"
    using assms by (cases "parse_review report") (simp_all add: integration_review_outcome_def bind_res_def)
  then obtain out where out: "strict_outcome report = Some out"
    using assms ok by (cases "strict_outcome report")
      (simp_all add: integration_review_outcome_def bind_res_def review_protocol_error_def)
  have c: "s = sha" "oc_verdict out = publish_verdict" "is_clean_integration_pass parsed since until"
    using assms ok p out
    by (auto simp: integration_review_outcome_def bind_res_def review_protocol_error_def Let_def split: if_splits)
  obtain summary ts where s: "latest_integration_summary parsed = Some summary"
    "integration_summary_timestamp summary = Some ts" "in_window since until ts"
    using c(3) by (auto simp: is_clean_integration_pass_def bind_eq_Some_conv split: option.splits)
  have "\<not> is_summary summary"
    using s(2) by (auto simp: integration_summary_timestamp_def is_summary_def starts_with_def dest!: strip_prefix_SomeD)
  then show ?thesis using c s p ok out
    by (auto simp: integration_gate_def is_clean_integration_pass_def)
qed

definition publish_report :: string where
  "publish_report = [CHR 0x23, CHR 0x23, CHR 0x23, CHR 0x20, CHR 0x5B, CHR 0x53, CHR 0x55, CHR 0x4D, CHR 0x4D,
      CHR 0x41, CHR 0x52, CHR 0x59, CHR 0x2D, CHR 0x46, CHR 0x2D, CHR 0x32, CHR 0x30, CHR 0x32,
      CHR 0x34, CHR 0x2D, CHR 0x30, CHR 0x35, CHR 0x2D, CHR 0x30, CHR 0x31, CHR 0x54, CHR 0x31,
      CHR 0x30, CHR 0x3A, CHR 0x30, CHR 0x30, CHR 0x3A, CHR 0x30, CHR 0x30, CHR 0x5A, CHR 0x5D,
      CHR 0x20, CHR 0xD0, CHR 0x98, CHR 0xD1, CHR 0x82, CHR 0xD0, CHR 0xBE, CHR 0xD0, CHR 0xB3,
      CHR 0x20, CHR 0xE2, CHR 0x80, CHR 0x94, CHR 0x20, CHR 0xD1, CHR 0x81, CHR 0xD1, CHR 0x82,
      CHR 0xD0, CHR 0xB0, CHR 0xD1, CHR 0x82, CHR 0xD1, CHR 0x83, CHR 0xD1, CHR 0x81, CHR 0x3A,
      CHR 0x20, CHR 0xD0, CHR 0xB3, CHR 0xD0, CHR 0xBE, CHR 0xD1, CHR 0x82, CHR 0xD0, CHR 0xBE,
      CHR 0xD0, CHR 0xB2, CHR 0xD0, CHR 0xBE, CHR 0x20, CHR 0xD0, CHR 0xBA, CHR 0x20, CHR 0xD1,
      CHR 0x81, CHR 0xD0, CHR 0xBB, CHR 0xD0, CHR 0xB8, CHR 0xD1, CHR 0x8F, CHR 0xD0, CHR 0xBD,
      CHR 0xD0, CHR 0xB8, CHR 0xD1, CHR 0x8E]
     @ [CHR 0x0A] @ [CHR 0xD0, CHR 0x98, CHR 0xD0, CHR 0xA2, CHR 0xD0, CHR 0x9E, CHR 0xD0, CHR 0x93, CHR 0x3A,
      CHR 0x20, CHR 0xD0, CHR 0xB3, CHR 0xD0, CHR 0xBE, CHR 0xD1, CHR 0x82, CHR 0xD0, CHR 0xBE,
      CHR 0xD0, CHR 0xB2, CHR 0xD0, CHR 0xBE, CHR 0x20, CHR 0xD0, CHR 0xBA, CHR 0x20, CHR 0xD0,
      CHR 0xBF, CHR 0xD1, CHR 0x83, CHR 0xD0, CHR 0xB1, CHR 0xD0, CHR 0xBB, CHR 0xD0, CHR 0xB8,
      CHR 0xD0, CHR 0xBA, CHR 0xD0, CHR 0xB0, CHR 0xD1, CHR 0x86, CHR 0xD0, CHR 0xB8, CHR 0xD0,
      CHR 0xB8]"

lemma publish_report_parse: "parse_review publish_report = Inr
    [\<lparr>fd_id = ''SUMMARY-F-2024-05-01T10:00:00Z'', fd_title = [CHR 0xD0, CHR 0x98, CHR 0xD1, CHR 0x82, CHR 0xD0, CHR 0xBE, CHR 0xD0, CHR 0xB3], fd_status = finding_status.Ready\<rparr>]"
  unfolding publish_report_def by code_simp

lemma publish_report_tail: "strict_outcome publish_report = Some \<lparr>oc_verdict = publish_verdict, oc_fields = []\<rparr>"
  unfolding publish_report_def by code_simp

lemma publication_only_on_proved_review_witness:
  "\<exists>parsed. parse_review publish_report = Inr parsed
    \<and> integration_gate parsed ''2024-05-01T09:59:00Z'' ''2024-05-01T10:00:30Z'' = GateClean"
proof -
  have "integration_review_outcome id id ok_verdict publish_report ''2024-05-01T09:59:00Z'' ''2024-05-01T10:00:30Z'' ''m1''
      = Inr (Clean ''m1'')"
    by (simp add: integration_review_outcome_def ok_verdict_def publish_report_parse publish_report_tail bind_res_def
        is_clean_integration_pass_def open_integration_findings_def is_integration_def latest_integration_summary_def
        is_integration_summary_def starts_with_def integration_summary_timestamp_def strip_prefix_def in_window_def
        iso_chrono_cmp_def compare_with_def demo_times)
  from publication_only_on_proved_review[OF this] show ?thesis by blast
qed

section \<open>Fixers and mergers\<close>

definition declined :: "nat \<Rightarrow> leaf_outcome \<Rightarrow> bool" where
  "declined n r \<longleftrightarrow> (\<exists>a. r = leaf_outcome.CompletedWithWontFix a n) \<or> (\<exists>a k. r = leaf_outcome.RiskElevated a k (Some n))"

lemma declined_count:
  assumes "declined n (task_leaf_outcome dbg v report author ids)"
  obtains out where "vd_reason v = StopOk" "strict_outcome report = Some out" "oc_verdict out = done_verdict"
    "n = validated_wont_fix_count out ids"
  using assms
  by (auto simp: declined_def task_leaf_outcome_def Let_def
      split: stop_reason.splits option.splits if_splits sum.splits)

text \<open>
  A fixer cannot inflate what it declined: the number of declined findings that the adapter
  reports for a round never exceeds the findings the round was dispatched for, whatever
  identifiers the report repeats or invents, and it reaches their number only when the report
  names every single one of them with a reason.
\<close>

lemma declined_findings_are_named:
  assumes "declined n (task_leaf_outcome dbg v report author (Some ids))"
  shows "n \<le> card (set ids) \<and> (\<exists>out. strict_outcome report = Some out
    \<and> (n = card (set ids) \<longrightarrow> set ids \<subseteq> wf_finding_id ` set (wont_fix out)))"
proof -
  obtain out where out: "strict_outcome report = Some out" "n = validated_wont_fix_count out (Some ids)"
    using declined_count[OF assms] by metis
  define named where "named = {i \<in> wf_finding_id ` set (wont_fix out). i \<in> set ids}"
  have "length (remdups (sort (filter (\<lambda>i. i \<in> set ids) (map wf_finding_id (wont_fix out))))) = card named"
    by (subst distinct_card[symmetric]) (auto simp: named_def intro: arg_cong[of _ _ card])
  then have n: "n = min (card named) u32_max" using out(2) by (simp add: validated_wont_fix_count_def)
  have sub: "named \<subseteq> set ids" by (auto simp: named_def)
  then have le: "card named \<le> card (set ids)" by (simp add: card_mono)
  have "set ids \<subseteq> wf_finding_id ` set (wont_fix out)" if "n = card (set ids)"
  proof -
    have "card named = card (set ids)" using n le that by simp
    then have "named = set ids" using sub by (simp add: card_subset_eq)
    then show ?thesis by (auto simp: named_def)
  qed
  then show ?thesis using n le out(1) by auto
qed

definition fixer_report :: string where
  "fixer_report = [CHR 0xD0, CHR 0x98, CHR 0xD0, CHR 0xA2, CHR 0xD0, CHR 0x9E, CHR 0xD0, CHR 0x93, CHR 0x3A,
      CHR 0x20, CHR 0xD0, CHR 0xB3, CHR 0xD0, CHR 0xBE, CHR 0xD1, CHR 0x82, CHR 0xD0, CHR 0xBE,
      CHR 0xD0, CHR 0xB2, CHR 0xD0, CHR 0xBE, CHR 0x20, CHR 0xC2, CHR 0xB7, CHR 0x20, CHR 0xD1,
      CHR 0x80, CHR 0xD0, CHR 0xB5, CHR 0xD0, CHR 0xB6, CHR 0xD0, CHR 0xB8, CHR 0xD0, CHR 0xBC,
      CHR 0x3D, CHR 0x32, CHR 0x20, CHR 0xC2, CHR 0xB7, CHR 0x20, CHR 0xD0, CHR 0xBD, CHR 0xD0,
      CHR 0xB5, CHR 0x20, CHR 0xD0, CHR 0xB8, CHR 0xD1, CHR 0x81, CHR 0xD0, CHR 0xBF, CHR 0xD1,
      CHR 0x80, CHR 0xD0, CHR 0xB0, CHR 0xD0, CHR 0xB2, CHR 0xD0, CHR 0xBB, CHR 0xD0, CHR 0xB5,
      CHR 0xD0, CHR 0xBD, CHR 0xD0, CHR 0xBE, CHR 0x3D, CHR 0x52, CHR 0x2D, CHR 0x30, CHR 0x31,
      CHR 0x3D, CHR 0xD0, CHR 0xB2, CHR 0xD0, CHR 0xBD, CHR 0xD0, CHR 0xB5, CHR 0x20, CHR 0xD0,
      CHR 0xB7, CHR 0xD0, CHR 0xB0, CHR 0xD0, CHR 0xB4, CHR 0xD0, CHR 0xB0, CHR 0xD1, CHR 0x87,
      CHR 0xD0, CHR 0xB8, CHR 0x20, CHR 0xC2, CHR 0xB7, CHR 0x20, CHR 0xD0, CHR 0xBD, CHR 0xD0,
      CHR 0xB5, CHR 0x20, CHR 0xD0, CHR 0xB8, CHR 0xD1, CHR 0x81, CHR 0xD0, CHR 0xBF, CHR 0xD1,
      CHR 0x80, CHR 0xD0, CHR 0xB0, CHR 0xD0, CHR 0xB2, CHR 0xD0, CHR 0xBB, CHR 0xD0, CHR 0xB5,
      CHR 0xD0, CHR 0xBD, CHR 0xD0, CHR 0xBE, CHR 0x3D, CHR 0x52, CHR 0x2D, CHR 0x30, CHR 0x31,
      CHR 0x3D, CHR 0xD0, CHR 0xBF, CHR 0xD0, CHR 0xBE, CHR 0xD0, CHR 0xB2, CHR 0xD1, CHR 0x82,
      CHR 0xD0, CHR 0xBE, CHR 0xD1, CHR 0x80, CHR 0x20, CHR 0xC2, CHR 0xB7, CHR 0x20, CHR 0xD0,
      CHR 0xBD, CHR 0xD0, CHR 0xB5, CHR 0x20, CHR 0xD0, CHR 0xB8, CHR 0xD1, CHR 0x81, CHR 0xD0,
      CHR 0xBF, CHR 0xD1, CHR 0x80, CHR 0xD0, CHR 0xB0, CHR 0xD0, CHR 0xB2, CHR 0xD0, CHR 0xBB,
      CHR 0xD0, CHR 0xB5, CHR 0xD0, CHR 0xBD, CHR 0xD0, CHR 0xBE, CHR 0x3D, CHR 0x52, CHR 0x2D,
      CHR 0x39, CHR 0x39, CHR 0x3D, CHR 0xD1, CHR 0x87, CHR 0xD1, CHR 0x83, CHR 0xD0, CHR 0xB6,
      CHR 0xD0, CHR 0xB0, CHR 0xD1, CHR 0x8F]"

lemma fixer_tail: "strict_outcome fixer_report = Some \<lparr>oc_verdict = done_verdict,
    oc_fields = [(mode_key, ''2''), (wont_fix_key, [CHR 0x52, CHR 0x2D, CHR 0x30, CHR 0x31, CHR 0x3D, CHR 0xD0, CHR 0xB2, CHR 0xD0, CHR 0xBD,
      CHR 0xD0, CHR 0xB5, CHR 0x20, CHR 0xD0, CHR 0xB7, CHR 0xD0, CHR 0xB0, CHR 0xD0, CHR 0xB4,
      CHR 0xD0, CHR 0xB0, CHR 0xD1, CHR 0x87, CHR 0xD0, CHR 0xB8]), (wont_fix_key, [CHR 0x52, CHR 0x2D, CHR 0x30, CHR 0x31, CHR 0x3D, CHR 0xD0, CHR 0xBF, CHR 0xD0, CHR 0xBE,
      CHR 0xD0, CHR 0xB2, CHR 0xD1, CHR 0x82, CHR 0xD0, CHR 0xBE, CHR 0xD1, CHR 0x80]),
      (wont_fix_key, [CHR 0x52, CHR 0x2D, CHR 0x39, CHR 0x39, CHR 0x3D, CHR 0xD1, CHR 0x87, CHR 0xD1, CHR 0x83,
      CHR 0xD0, CHR 0xB6, CHR 0xD0, CHR 0xB0, CHR 0xD1, CHR 0x8F])]\<rparr>"
  unfolding fixer_report_def by code_simp

lemma fixer_outcome:
  "task_leaf_outcome id ok_verdict fixer_report ''claude'' (Some [''R-01'', ''R-02''])
    = leaf_outcome.CompletedWithWontFix (Some ''claude'') 1"
proof -
  let ?o = "\<lparr>oc_verdict = done_verdict,
    oc_fields = [(mode_key, ''2''), (wont_fix_key, [CHR 0x52, CHR 0x2D, CHR 0x30, CHR 0x31, CHR 0x3D, CHR 0xD0, CHR 0xB2, CHR 0xD0, CHR 0xBD,
      CHR 0xD0, CHR 0xB5, CHR 0x20, CHR 0xD0, CHR 0xB7, CHR 0xD0, CHR 0xB0, CHR 0xD0, CHR 0xB4,
      CHR 0xD0, CHR 0xB0, CHR 0xD1, CHR 0x87, CHR 0xD0, CHR 0xB8]), (wont_fix_key, [CHR 0x52, CHR 0x2D, CHR 0x30, CHR 0x31, CHR 0x3D, CHR 0xD0, CHR 0xBF, CHR 0xD0, CHR 0xBE,
      CHR 0xD0, CHR 0xB2, CHR 0xD1, CHR 0x82, CHR 0xD0, CHR 0xBE, CHR 0xD1, CHR 0x80]),
      (wont_fix_key, [CHR 0x52, CHR 0x2D, CHR 0x39, CHR 0x39, CHR 0x3D, CHR 0xD1, CHR 0x87, CHR 0xD1, CHR 0x83,
      CHR 0xD0, CHR 0xB6, CHR 0xD0, CHR 0xB0, CHR 0xD1, CHR 0x8F])]\<rparr>"
  have "map wf_finding_id (wont_fix ?o) = [''R-01'', ''R-01'', ''R-99'']" by code_simp
  then have "validated_wont_fix_count ?o (Some [''R-01'', ''R-02'']) = 1"
    by (simp add: validated_wont_fix_count_def u32_max_def)
  moreover have "outcome_field ?o mode_key = Some ''2''" "reported_risk id ?o = Inr None" by code_simp+
  ultimately show ?thesis
    by (simp add: task_leaf_outcome_def fixer_tail ok_verdict_def valid_mode_def)
qed

lemma declined_findings_are_named_witness:
  "(1::nat) \<le> card (set [''R-01'', ''R-02''])
    \<and> task_leaf_outcome id ok_verdict fixer_report ''claude'' (Some [''R-01'', ''R-02''])
        = leaf_outcome.CompletedWithWontFix (Some ''claude'') 1"
proof -
  have "declined 1 (task_leaf_outcome id ok_verdict fixer_report ''claude'' (Some [''R-01'', ''R-02'']))"
    by (simp add: fixer_outcome declined_def)
  from declined_findings_are_named[OF this] show ?thesis using fixer_outcome by blast
qed

lemma merged_line: "parse_merge_line l = Some m \<Longrightarrow> ml_outcome m = LineMerged sha resolved \<Longrightarrow> sha \<noteq> []"
  by (auto simp: parse_merge_line_def Let_def split: option.splits if_splits)

text \<open>
  A merge is believed only when it is stated once: the adapter reports a merged commit only if
  the merger ended regularly and closed its report with one of its two verdicts, and the
  report has exactly one result line for the task, which names that commit.
\<close>

lemma merge_needs_one_explicit_line:
  assumes "merge_task_outcome dbg v report i = merge_outcome.Merged sha"
  shows "vd_reason v = StopOk \<and> sha \<noteq> []
    \<and> (\<exists>resolved. filter (\<lambda>l. ml_id l = i) (parse_merge_report report) = [\<lparr>ml_id = i, ml_outcome = LineMerged sha resolved\<rparr>])
    \<and> (\<exists>out. strict_outcome report = Some out \<and> oc_verdict out \<in> {merged_all_verdict, some_quarantined_verdict})"
proof -
  let ?lines = "filter (\<lambda>l. ml_id l = i) (parse_merge_report report)"
  obtain line resolved where l: "?lines = [line]" "ml_outcome line = LineMerged sha resolved" "vd_reason v = StopOk"
    "\<exists>out. strict_outcome report = Some out \<and> oc_verdict out \<in> {merged_all_verdict, some_quarantined_verdict}"
    using assms by (auto simp: merge_task_outcome_def split: if_splits option.splits list.splits merge_line_outcome.splits)
  have "line \<in> set ?lines" by (simp add: l(1))
  then have line: "ml_id line = i" "line \<in> set (parse_merge_report report)" by simp_all
  then have "sha \<noteq> []" using merged_line[OF _ l(2)] by (auto simp: parse_merge_report_def List.map_filter_def)
  then show ?thesis using l line(1) by (cases line) auto
qed

definition merger_report :: string where
  "merger_report = ''- [T-1] merged=m1 conflict-resolved'' @ [CHR 0x0A] @ [CHR 0xD0, CHR 0x98, CHR 0xD0, CHR 0xA2, CHR 0xD0, CHR 0x9E, CHR 0xD0, CHR 0x93, CHR 0x3A,
      CHR 0x20, CHR 0xD1, CHR 0x81, CHR 0xD0, CHR 0xBB, CHR 0xD0, CHR 0xB8, CHR 0xD1, CHR 0x82,
      CHR 0xD0, CHR 0xBE, CHR 0x20, CHR 0xD0, CHR 0xB2, CHR 0xD1, CHR 0x81, CHR 0xD1, CHR 0x91]"

lemma merger_outcome: "merge_task_outcome id ok_verdict merger_report ''T-1'' = merge_outcome.Merged ''m1''"
  unfolding merger_report_def by code_simp

lemma merge_needs_one_explicit_line_witness:
  "\<exists>resolved. filter (\<lambda>l. ml_id l = ''T-1'') (parse_merge_report merger_report)
    = [\<lparr>ml_id = ''T-1'', ml_outcome = LineMerged ''m1'' resolved\<rparr>]"
  using merge_needs_one_explicit_line[OF merger_outcome] by blast

section \<open>What the parser and the window do not promise\<close>

definition early_status :: string where "early_status = [CHR 0x23, CHR 0x23, CHR 0x23, CHR 0x20, CHR 0xD1, CHR 0x81, CHR 0xD1, CHR 0x82, CHR 0xD0,
      CHR 0xB0, CHR 0xD1, CHR 0x82, CHR 0xD1, CHR 0x83, CHR 0xD1, CHR 0x81, CHR 0x3A, CHR 0x20,
      CHR 0x5B, CHR 0x52, CHR 0x2D, CHR 0x30, CHR 0x31, CHR 0x5D, CHR 0x20, CHR 0x78]"

lemma early_status_aborts: "parse_heading early_status = Inl ''begin <= end when slicing''"
  unfolding early_status_def by code_simp

lemma parse_headings_abort:
  assumes "line \<in> set ls" "parse_heading line = Inl e"
  shows "\<exists>e. parse_headings ls = Inl e"
  using assms
proof (induction ls)
  case (Cons l ls)
  show ?case
  proof (cases "parse_heading l")
    case (Inr f)
    then have "line \<in> set ls" using Cons.prems by auto
    then show ?thesis using Cons.IH Cons.prems(2) Inr by (auto simp: bind_res_def)
  qed (simp add: bind_res_def)
qed simp

text \<open>
  One badly formed heading aborts the engine: when some line of a review report is a heading whose
  status stands before its marker, parsing the report slices a string backwards, and no outcome
  is reported at all, however good the rest of the report is.
\<close>

lemma heading_with_early_status_aborts:
  assumes "early_status \<in> set (text_lines report)" "vd_reason v = StopOk" "review_risk_elevation report = Inr risk"
  shows "\<exists>e. task_review_outcome lc dbg v report since until sha = Inl e"
  using parse_headings_abort[OF assms(1) early_status_aborts] assms(2,3)
  by (auto simp: task_review_outcome_def parse_review_def bind_res_def)

definition sloppy_report :: string where "sloppy_report = early_status @ [CHR 0x0A] @ clean_report"

lemma heading_with_early_status_aborts_witness:
  "\<exists>e. task_review_outcome id id ok_verdict sloppy_report ''2024-05-01T09:59:00Z'' ''2024-05-01T10:00:30Z'' ''c1'' = Inl e"
proof -
  have "CHR 0x0A \<notin> set early_status" unfolding early_status_def by code_simp
  then have "split_once (CHR 0x0A) sloppy_report = Some (early_status, clean_report)"
    by (simp add: split_once_Some sloppy_report_def)
  moreover have "strip_cr early_status = early_status" "sloppy_report \<noteq> []"
    unfolding early_status_def sloppy_report_def by code_simp+
  ultimately have "text_lines sloppy_report = early_status # text_lines clean_report"
    by (subst text_lines.simps) simp
  moreover have "review_risk_elevation sloppy_report = Inr None"
    unfolding sloppy_report_def early_status_def clean_report_def by code_simp
  moreover have "vd_reason ok_verdict = StopOk" by (simp add: ok_verdict_def)
  ultimately show ?thesis by (intro heading_with_early_status_aborts) simp_all
qed

text \<open>
  A summary dated after the window of its call does not block the gate for ever: it passes as
  soon as the window of a later call contains its date.
\<close>

lemma future_summary_expires:
  assumes "summary_after_window parsed until = Some mark" "open_review_findings parsed = []"
    and "in_window since' until' mark"
  shows "is_clean_pass parsed since' until'"
  using assms by (auto simp: summary_after_window_def is_clean_pass_def split: option.splits if_splits)

end
