(* ===== verification/Usage.thy ===== *)
theory Usage
  imports Reader Telemetry Contract ProcessorBase
begin

text \<open>
  Token usage of a cohort, the rest of \<open>src/engine/src/telemetry.rs\<close>: the snapshot a token budget is
  checked against, the rate card with its cost estimates, and the operator's summary. The event
  file is read as in \<open>Reader\<close>; a missing file and a failed lock are arguments. \<open>u128\<close> amounts are
  \<open>nat\<close>s with the width written out.
\<close>

section \<open>Prices\<close>

definition u128_max :: nat where "u128_max = 340282366920938463463374607431768211455"

definition checked128 :: "nat \<Rightarrow> nat option" where
  "checked128 n = (if n \<le> u128_max then Some n else None)"

record model_pricing =
  mp_model :: string
  mp_input :: nat
  mp_cached_input :: nat
  mp_cache_creation_input :: nat
  mp_output :: nat
  mp_effective_date :: string

type_synonym pricing_table = "(string, model_pricing) btmap"

definition pricing_insert :: "model_pricing \<Rightarrow> pricing_table \<Rightarrow> pricing_table" where
  "pricing_insert p table = bt_insert (mp_model p) p table"

definition default_rates :: "(string \<times> nat \<times> nat \<times> nat \<times> nat) list" where
  "default_rates =
    [(''gpt-5.6-sol'', 5000000, 500000, 5000000, 30000000),
     (''gpt-5.6-terra'', 2500000, 250000, 2500000, 15000000),
     (''gpt-5.6-luna'', 1000000, 100000, 1000000, 6000000),
     (''gpt-5-codex'', 1250000, 125000, 1250000, 10000000),
     (''gpt-5'', 1250000, 125000, 1250000, 10000000),
     (''claude-opus-4-8'', 5000000, 500000, 6250000, 25000000),
     (''claude-opus-4-7'', 5000000, 500000, 6250000, 25000000),
     (''claude-opus-4-6'', 5000000, 500000, 6250000, 25000000),
     (''claude-opus-4-5'', 5000000, 500000, 6250000, 25000000),
     (''opus'', 5000000, 500000, 6250000, 25000000),
     (''claude-sonnet-5'', 2000000, 200000, 2500000, 10000000),
     (''claude-sonnet-4-6'', 3000000, 300000, 3750000, 15000000),
     (''claude-sonnet-4-5'', 3000000, 300000, 3750000, 15000000),
     (''sonnet'', 2000000, 200000, 2500000, 10000000),
     (''claude-haiku-4-5'', 1000000, 100000, 1250000, 5000000),
     (''haiku'', 1000000, 100000, 1250000, 5000000)]"

definition default_pricing :: pricing_table where
  "default_pricing =
    foldl (\<lambda>table (model, input, cached, creation, output).
        pricing_insert \<lparr>mp_model = model, mp_input = input, mp_cached_input = cached,
          mp_cache_creation_input = creation, mp_output = output, mp_effective_date = ''2026-07-30''\<rparr> table)
      [] default_rates"

definition dated_model_suffix :: "string \<Rightarrow> bool" where
  "dated_model_suffix s \<longleftrightarrow>
    (length s = 8 \<and> list_all is_digit s)
    \<or> (length s = 10 \<and> s ! 4 = CHR ''-'' \<and> s ! 7 = CHR ''-''
       \<and> list_all (\<lambda>(n, c). n = 4 \<or> n = 7 \<or> is_digit c) (enumerate 0 s))"

definition pricing_resolve :: "pricing_table \<Rightarrow> string \<Rightarrow> model_pricing option" where
  "pricing_resolve table model =
    (if model = ''default'' then None
     else (case map_of table model of
       Some exact \<Rightarrow> Some exact
     | None \<Rightarrow>
         map_option snd (max_by (\<lambda>a b. compare_with (fst a) (fst b))
           (List.map_filter (\<lambda>(base, p).
               case Option.bind (strip_prefix base model) (strip_prefix ''-'') of
                 Some date \<Rightarrow> if dated_model_suffix date then Some (length base, p) else None
               | None \<Rightarrow> None) table))))"

record cost_estimate =
  ce_nano_usd :: nat
  ce_estimated :: bool
  ce_unknown :: bool

definition cost_zero :: cost_estimate where
  "cost_zero = \<lparr>ce_nano_usd = 0, ce_estimated = False, ce_unknown = False\<rparr>"

definition cost_unknown :: cost_estimate where
  "cost_unknown = \<lparr>ce_nano_usd = 0, ce_estimated = True, ce_unknown = True\<rparr>"

definition cost_merge :: "cost_estimate \<Rightarrow> cost_estimate \<Rightarrow> cost_estimate" where
  "cost_merge a b =
    (case checked128 (ce_nano_usd a + ce_nano_usd b) of
       Some n \<Rightarrow> \<lparr>ce_nano_usd = n, ce_estimated = ce_estimated a \<or> ce_estimated b,
                  ce_unknown = ce_unknown a \<or> ce_unknown b\<rparr>
     | None \<Rightarrow> \<lparr>ce_nano_usd = u128_max, ce_estimated = ce_estimated a \<or> ce_estimated b, ce_unknown = True\<rparr>)"

definition format_usd :: "cost_estimate \<Rightarrow> string" where
  "format_usd c =
    (if ce_unknown c \<and> ce_nano_usd c = 0 then [CHR 0xE2, CHR 0x89, CHR 0x88, CHR 0x24, CHR 0x3F]
     else
       (let cents_100 = min (ce_nano_usd c + 50000) u128_max div 100000 in
        (if ce_estimated c then [CHR 0xE2, CHR 0x89, CHR 0x88] else []) @ ''$'' @ show_nat (cents_100 div 10000) @ ''.''
        @ pad_left 4 (CHR ''0'') (show_nat (cents_100 mod 10000)) @ (if ce_unknown c then ''+?'' else [])))"

fun priced_sum :: "nat \<Rightarrow> (nat \<times> nat) list \<Rightarrow> nat option" where
  "priced_sum acc [] = Some acc"
| "priced_sum acc ((tokens, rate) # xs) =
    Option.bind (checked128 (tokens * rate)) (\<lambda>micro.
    Option.bind (checked128 (micro * 1000)) (\<lambda>nano.
    Option.bind (checked128 (acc + nano)) (\<lambda>acc. priced_sum acc xs)))"

definition or_zero :: "nat option \<Rightarrow> nat" where
  "or_zero x = (case x of Some n \<Rightarrow> n | None \<Rightarrow> 0)"

definition estimate_usage_cost :: "provider_usage \<Rightarrow> usage_source \<Rightarrow> string \<Rightarrow> pricing_table \<Rightarrow> cost_estimate" where
  "estimate_usage_cost u source model table =
    (case pricing_resolve table model of
       None \<Rightarrow> cost_unknown
     | Some rate \<Rightarrow>
        (if pu_input_tokens u = None \<and> pu_output_tokens u = None
            \<and> pu_cache_read_input_tokens u = None \<and> pu_cache_creation_input_tokens u = None
         then cost_unknown
         else
           (let input = or_zero (pu_input_tokens u); cached = or_zero (pu_cache_read_input_tokens u);
                output = or_zero (pu_output_tokens u); creation = or_zero (pu_cache_creation_input_tokens u);
                non_cached = (case source of usage_source.Codex \<Rightarrow> input - cached | usage_source.Claude \<Rightarrow> input);
                least = (case source of
                           usage_source.Codex \<Rightarrow> checked64 (non_cached + output)
                         | usage_source.Claude \<Rightarrow>
                             Option.bind (checked64 (input + output)) (\<lambda>t.
                             Option.bind (checked64 (t + cached)) (\<lambda>t. checked64 (t + creation))))
            in case least of
                 None \<Rightarrow> cost_unknown
               | Some least \<Rightarrow>
                   (if (case pu_total_tokens u of None \<Rightarrow> True | Some t \<Rightarrow> t < least) then cost_unknown
                    else (case priced_sum 0 [(non_cached, mp_input rate), (output, mp_output rate),
                                 (cached, mp_cached_input rate), (creation, mp_cache_creation_input rate)] of
                            None \<Rightarrow> cost_unknown
                          | Some priced \<Rightarrow>
                              \<lparr>ce_nano_usd = min (priced + 500000) u128_max div 1000000,
                               ce_estimated = True, ce_unknown = False\<rparr>)))))"

section \<open>The events of a batch\<close>

definition temporal_key :: "event \<Rightarrow> nat" where
  "temporal_key e = (case telemetry_epoch_millis (ev_occurred_at e) of Some n \<Rightarrow> n | None \<Rightarrow> u64_max)"

text \<open>\<open>sort_key\<close> is stable, which the sequence numbers of the source make explicit.\<close>

definition temporally_ordered :: "event list \<Rightarrow> event list" where
  "temporally_ordered es = sort_key temporal_key es"

definition observe_task_batch :: "event \<Rightarrow> (string, string) btmap \<Rightarrow> (string, string) btmap" where
  "observe_task_batch e m =
    (if ev_type e = TaskCaptured
     then (case (ev_task_id e, ev_batch_id e) of (Some t, Some b) \<Rightarrow> bt_insert t b m | _ \<Rightarrow> m)
     else m)"

definition usage_belongs_to_batch :: "event \<Rightarrow> (string, string) btmap \<Rightarrow> string \<Rightarrow> bool" where
  "usage_belongs_to_batch e m batch \<longleftrightarrow>
    (case Option.bind (ev_task_id e) (map_of m) of Some b \<Rightarrow> Some b | None \<Rightarrow> ev_batch_id e) = Some batch"

section \<open>The snapshot of the token budget\<close>

record token_usage =
  tu_actual_tokens :: nat
  tu_estimated_tokens :: nat
  tu_actual_events :: nat
  tu_estimated_events :: nat
  tu_unmetered_events :: nat

datatype token_snapshot = Available token_usage | Unavailable telemetry_unavailable

definition no_usage :: token_usage where
  "no_usage = \<lparr>tu_actual_tokens = 0, tu_estimated_tokens = 0, tu_actual_events = 0, tu_estimated_events = 0,
     tu_unmetered_events = 0\<rparr>"

definition count_usage :: "event \<Rightarrow> token_usage \<Rightarrow> telemetry_unavailable + token_usage" where
  "count_usage e u =
    (let p = ev_payload e; availability = get_str ''usage_availability'' p in
     if availability = Some ''unavailable'' then
       (if is_unavailable_marker p then Inr (u\<lparr>tu_unmetered_events := sat_add64 (tu_unmetered_events u) 1\<rparr>)
        else Inl MalformedActualUsage)
     else if availability \<noteq> None \<and> availability \<noteq> Some ''available'' then Inl MalformedActualUsage
     else (case map_of p ''estimated'' of
       Some (JBool estimated) \<Rightarrow>
         (if estimated then
            (case usage_total p of
               None \<Rightarrow> Inr u
             | Some n \<Rightarrow>
                 (case checked64 (tu_estimated_tokens u + n) of
                    None \<Rightarrow> Inl MalformedActualUsage
                  | Some next \<Rightarrow> Inr (u\<lparr>tu_estimated_tokens := next,
                                        tu_estimated_events := sat_add64 (tu_estimated_events u) 1\<rparr>)))
          else
            (case usage_total p of
               None \<Rightarrow> Inl MalformedActualUsage
             | Some n \<Rightarrow>
                 (case checked64 (tu_actual_tokens u + n) of
                    None \<Rightarrow> Inl MalformedActualUsage
                  | Some next \<Rightarrow> Inr (u\<lparr>tu_actual_tokens := next,
                                        tu_actual_events := sat_add64 (tu_actual_events u) 1\<rparr>))))
     | _ \<Rightarrow> Inl MalformedActualUsage))"

fun count_batch ::
    "string \<Rightarrow> (string, string) btmap \<Rightarrow> event list \<Rightarrow> token_usage \<Rightarrow> telemetry_unavailable + token_usage" where
  "count_batch batch m [] u = Inr u"
| "count_batch batch m (e # es) u =
    (let m = observe_task_batch e m in
     if ev_type e \<noteq> UsageRecorded \<or> \<not> usage_belongs_to_batch e m batch then count_batch batch m es u
     else bind_res (count_usage e u) (count_batch batch m es))"

text \<open>What both readers of the whole file check first.\<close>

definition complete_events ::
    "'d outbox_env \<Rightarrow> (string \<Rightarrow> bits) \<Rightarrow> bool \<Rightarrow> bool \<Rightarrow> string option \<Rightarrow> telemetry_unavailable + event list" where
  "complete_events env sha enabled lock_ok file =
    (if \<not> enabled then Inl EventsOutboxDisabled
     else (case file of
       None \<Rightarrow> Inl EventsFileMissing
     | Some bytes \<Rightarrow>
        (if \<not> lock_ok then Inl ReadFailed
         else (case poll_all env sha bytes reader_new [] of
           (Inl _, _) \<Rightarrow> Inl ReadFailed
         | (Inr es, r) \<Rightarrow>
             (if ps_skipped_invalid (rd_stats r) > 0 then Inl InvalidEventRecord
              else if rd_unterminated r then Inl UnterminatedEventRecord
              else Inr es)))))"

definition cohort_token_usage_with_strict ::
    "'d outbox_env \<Rightarrow> (string \<Rightarrow> bits) \<Rightarrow> bool \<Rightarrow> string option \<Rightarrow> string \<Rightarrow> bool \<Rightarrow> bool \<Rightarrow> token_snapshot" where
  "cohort_token_usage_with_strict env sha lock_ok file batch enabled strict =
    (case bind_res (complete_events env sha enabled lock_ok file)
            (\<lambda>es. count_batch batch [] (temporally_ordered es) no_usage) of
       Inl e \<Rightarrow> Unavailable e
     | Inr u \<Rightarrow> if strict \<and> tu_unmetered_events u > 0 then Unavailable UnmeteredUsage else Available u)"

definition cohort_token_usage ::
    "'d outbox_env \<Rightarrow> (string \<Rightarrow> bits) \<Rightarrow> bool \<Rightarrow> string option \<Rightarrow> string \<Rightarrow> bool \<Rightarrow> token_snapshot" where
  "cohort_token_usage env sha lock_ok file batch enabled =
    cohort_token_usage_with_strict env sha lock_ok file batch enabled False"

section \<open>The operator's summary\<close>

record batch_summary =
  bs_codex_successes :: nat
  bs_codex_fallbacks :: nat
  bs_codex_failures :: nat
  bs_codex_fallback_reasons :: "(string, nat) btmap"
  bs_usage :: token_usage
  bs_actual_by_source :: "(string, nat) btmap"
  bs_estimated_cost :: cost_estimate
  bs_cost_by_model :: "(string, cost_estimate) btmap"
  bs_cost_by_role :: "(string, cost_estimate) btmap"

definition empty_summary :: batch_summary where
  "empty_summary = \<lparr>bs_codex_successes = 0, bs_codex_fallbacks = 0, bs_codex_failures = 0,
     bs_codex_fallback_reasons = [], bs_usage = no_usage, bs_actual_by_source = [],
     bs_estimated_cost = cost_zero, bs_cost_by_model = [], bs_cost_by_role = []\<rparr>"

definition codex_fields_valid :: "payload \<Rightarrow> bool" where
  "codex_fields_valid p \<longleftrightarrow>
    (case get_str ''effective_model'' p of Some v \<Rightarrow> safe_scalar v | None \<Rightarrow> False)
    \<and> (case get_str ''effective_reasoning'' p of
         Some v \<Rightarrow> v \<in> {''low'', ''medium'', ''high'', ''xhigh''} | None \<Rightarrow> False)
    \<and> (case get_str ''effective_sandbox'' p of
         Some v \<Rightarrow> v \<in> {''read-only'', ''workspace-write''} | None \<Rightarrow> False)
    \<and> (case get_str ''effective_network'' p of Some v \<Rightarrow> v \<in> {''on'', ''off''} | None \<Rightarrow> False)"

definition codex_outcome_valid :: "payload \<Rightarrow> bool" where
  "codex_outcome_valid p \<longleftrightarrow>
    (let outcome = get_str ''outcome'' p in
     if outcome = Some ''success'' then map_of p ''outcome_reason'' = Some JNull
     else if outcome = Some ''fallback'' \<or> outcome = Some ''failed''
     then (case get_str ''outcome_reason'' p of Some r \<Rightarrow> safe_codex_reason r | None \<Rightarrow> False)
     else False)"

definition validate_complete_codex_attempt ::
    "(string \<Rightarrow> string) \<Rightarrow> event \<Rightarrow> telemetry_unavailable + unit" where
  "validate_complete_codex_attempt uuid e =
    (let p = ev_payload e in
     bind_res (need (having is_task_id (ev_task_id e))) (\<lambda>task_id.
     bind_res (need (get_str ''task_id'' p)) (\<lambda>payload_task.
     bind_res (need (having (\<lambda>r. r \<in> {''coder'', ''reviewer''}) (get_str ''role'' p))) (\<lambda>role.
     bind_res (need (having (\<lambda>m. m \<in> {''full'', ''augment'', ''fix''}) (get_str ''mode'' p))) (\<lambda>mode.
     bind_res (need (having (\<lambda>n. n > 0 \<and> n \<le> u32_max) (get_u64 ''attempt_number'' p))) (\<lambda>attempt.
     bind_res (need (Option.bind (get_str ''started_at'' p) telemetry_epoch_millis)) (\<lambda>started_at.
     bind_res (need (get_str ''ended_at'' p)) (\<lambda>ended_at_text.
     bind_res (need (telemetry_epoch_millis ended_at_text)) (\<lambda>ended_at.
     bind_res (need (get_u64 ''duration_ms'' p)) (\<lambda>duration.
       (let exit_valid = (case map_of p ''exit_code'' of
                            Some v \<Rightarrow> v = JNull \<or> as_i64 v \<noteq> None | None \<Rightarrow> False);
            expected_id = uuid (''orchestra/codex.attempt/'' @ task_id @ ''/'' @ role @ ''/'' @ mode @ ''/''
                                @ show_nat attempt)
        in if ev_schema_version e \<noteq> schema_version \<or> ev_payload_version e \<noteq> 1
              \<or> ac_kind (ev_actor e) \<noteq> Agent \<or> ac_name (ev_actor e) \<noteq> ''processor''
              \<or> length p \<noteq> 14 \<or> payload_task \<noteq> task_id \<or> ended_at_text \<noteq> ev_occurred_at e
              \<or> ended_at < started_at \<or> duration \<noteq> ended_at - started_at
              \<or> \<not> codex_fields_valid p \<or> \<not> exit_valid \<or> \<not> codex_outcome_valid p \<or> ev_id e \<noteq> expected_id
           then Inl InvalidEventRecord else Inr ())))))))))))"

definition summarize_codex_attempt ::
    "(string \<Rightarrow> string) \<Rightarrow> event \<Rightarrow> batch_summary \<Rightarrow> telemetry_unavailable + batch_summary" where
  "summarize_codex_attempt uuid e s =
    bind_res (validate_complete_codex_attempt uuid e) (\<lambda>_.
      (let p = ev_payload e; outcome = get_str ''outcome'' p; reason = having safe_codex_reason (get_str ''outcome_reason'' p) in
       if outcome = Some ''success'' then Inr (s\<lparr>bs_codex_successes := sat_add64 (bs_codex_successes s) 1\<rparr>)
       else if outcome = Some ''fallback'' then
         (case reason of
            None \<Rightarrow> Inl InvalidEventRecord
          | Some r \<Rightarrow>
              Inr (s\<lparr>bs_codex_fallbacks := sat_add64 (bs_codex_fallbacks s) 1,
                     bs_codex_fallback_reasons :=
                       bt_insert r (sat_add64 (or_zero (map_of (bs_codex_fallback_reasons s) r)) 1)
                         (bs_codex_fallback_reasons s)\<rparr>))
       else if outcome = Some ''failed'' \<and> reason \<noteq> None
       then Inr (s\<lparr>bs_codex_failures := sat_add64 (bs_codex_failures s) 1\<rparr>)
       else Inl InvalidEventRecord))"

definition merge_at :: "string \<Rightarrow> cost_estimate \<Rightarrow> (string, cost_estimate) btmap \<Rightarrow> (string, cost_estimate) btmap" where
  "merge_at k c m = bt_insert k (cost_merge (case map_of m k of Some x \<Rightarrow> x | None \<Rightarrow> cost_zero) c) m"

definition scalar_or :: "string \<Rightarrow> string \<Rightarrow> payload \<Rightarrow> string" where
  "scalar_or d k p = (case having safe_scalar (get_str k p) of Some v \<Rightarrow> v | None \<Rightarrow> d)"

definition aggregate_cost :: "event \<Rightarrow> cost_estimate \<Rightarrow> batch_summary \<Rightarrow> batch_summary" where
  "aggregate_cost e c s =
    s\<lparr>bs_estimated_cost := cost_merge (bs_estimated_cost s) c,
      bs_cost_by_model := merge_at (scalar_or ''unknown-model'' ''model'' (ev_payload e)) c (bs_cost_by_model s),
      bs_cost_by_role := merge_at (scalar_or ''unknown-role'' ''role'' (ev_payload e)) c (bs_cost_by_role s)\<rparr>"

definition usage_source_as_str :: "usage_source \<Rightarrow> string" where
  "usage_source_as_str s = (case s of usage_source.Claude \<Rightarrow> ''claude'' | usage_source.Codex \<Rightarrow> ''codex'')"

definition event_cost :: "pricing_table \<Rightarrow> payload \<Rightarrow> cost_estimate" where
  "event_cost table p =
    (case (provider_usage_from_fields (get_u64 ''input_tokens'' p) (get_u64 ''output_tokens'' p)
             (get_u64 ''cache_read_input_tokens'' p) (get_u64 ''cache_creation_input_tokens'' p) (usage_total p),
           Option.bind (get_str ''source'' p) usage_source_from_event,
           having safe_scalar (get_str ''model'' p)) of
       (Some usage, Some source, Some model) \<Rightarrow> estimate_usage_cost usage source model table
     | _ \<Rightarrow> cost_unknown)"

definition summarize_usage ::
    "pricing_table \<Rightarrow> event \<Rightarrow> batch_summary \<Rightarrow> telemetry_unavailable + batch_summary" where
  "summarize_usage table e s =
    (let p = ev_payload e; availability = get_str ''usage_availability'' p; u = bs_usage s in
     if availability = Some ''unavailable'' \<and> is_unavailable_marker p then
       Inr (aggregate_cost e cost_unknown
         (s\<lparr>bs_usage := u\<lparr>tu_unmetered_events := sat_add64 (tu_unmetered_events u) 1\<rparr>\<rparr>))
     else if availability \<noteq> None \<and> availability \<noteq> Some ''available'' then Inl MalformedActualUsage
     else (case Option.bind (map_of p ''estimated'') as_bool of
       None \<Rightarrow> Inl MalformedActualUsage
     | Some estimated \<Rightarrow>
        (let s = aggregate_cost e (event_cost table p) s in
         if estimated then
           (case usage_total p of
              None \<Rightarrow> Inr s
            | Some n \<Rightarrow>
                (case checked64 (tu_estimated_tokens u + n) of
                   None \<Rightarrow> Inl MalformedActualUsage
                 | Some next \<Rightarrow> Inr (s\<lparr>bs_usage := u\<lparr>tu_estimated_tokens := next,
                                       tu_estimated_events := sat_add64 (tu_estimated_events u) 1\<rparr>\<rparr>)))
         else
           (case usage_total p of
              None \<Rightarrow> Inl MalformedActualUsage
            | Some n \<Rightarrow>
                (case checked64 (tu_actual_tokens u + n) of
                   None \<Rightarrow> Inl MalformedActualUsage
                 | Some next \<Rightarrow>
                     (case Option.bind (get_str ''source'' p) usage_source_from_event of
                        None \<Rightarrow> Inl MalformedActualUsage
                      | Some source \<Rightarrow>
                          (let k = usage_source_as_str source in
                           case checked64 (or_zero (map_of (bs_actual_by_source s) k) + n) of
                             None \<Rightarrow> Inl MalformedActualUsage
                           | Some by_source \<Rightarrow>
                               Inr (s\<lparr>bs_usage := u\<lparr>tu_actual_tokens := next,
                                        tu_actual_events := sat_add64 (tu_actual_events u) 1\<rparr>,
                                      bs_actual_by_source := bt_insert k by_source (bs_actual_by_source s)\<rparr>))))))))"

fun summarize_batch ::
    "(string \<Rightarrow> string) \<Rightarrow> pricing_table \<Rightarrow> string \<Rightarrow> (string, string) btmap \<Rightarrow> event list \<Rightarrow> batch_summary
     \<Rightarrow> telemetry_unavailable + batch_summary" where
  "summarize_batch uuid table batch m [] s = Inr s"
| "summarize_batch uuid table batch m (e # es) s =
    (let m = observe_task_batch e m in
     bind_res
       (if ev_type e = CodexAttempt \<and> ev_batch_id e = Some batch then summarize_codex_attempt uuid e s
        else if ev_type e = UsageRecorded \<and> usage_belongs_to_batch e m batch then summarize_usage table e s
        else Inr s)
       (summarize_batch uuid table batch m es))"

definition batch_telemetry_summary_with_pricing ::
    "'d outbox_env \<Rightarrow> (string \<Rightarrow> bits) \<Rightarrow> (string \<Rightarrow> string) \<Rightarrow> bool \<Rightarrow> string option \<Rightarrow> string \<Rightarrow> bool \<Rightarrow> pricing_table
     \<Rightarrow> telemetry_unavailable + batch_summary" where
  "batch_telemetry_summary_with_pricing env sha uuid lock_ok file batch enabled table =
    bind_res (complete_events env sha enabled lock_ok file)
      (\<lambda>es. summarize_batch uuid table batch [] (temporally_ordered es) empty_summary)"

definition batch_telemetry_summary ::
    "'d outbox_env \<Rightarrow> (string \<Rightarrow> bits) \<Rightarrow> (string \<Rightarrow> string) \<Rightarrow> bool \<Rightarrow> string option \<Rightarrow> string \<Rightarrow> bool
     \<Rightarrow> telemetry_unavailable + batch_summary" where
  "batch_telemetry_summary env sha uuid lock_ok file batch enabled =
    batch_telemetry_summary_with_pricing env sha uuid lock_ok file batch enabled default_pricing"

text \<open>\<open>token_budget_observation\<close> of the executor port: what the reducer is told.\<close>

definition observe_token_budget ::
    "'d outbox_env \<Rightarrow> (string \<Rightarrow> bits) \<Rightarrow> bool \<Rightarrow> string option \<Rightarrow> cohort_runtime \<Rightarrow> token_budget_observation" where
  "observe_token_budget env sha lock_ok file b =
    (case cohort_token_usage_with_strict env sha lock_ok file (co_id b) (co_events_outbox_enabled b)
            (co_cohort_token_budget_strict b) of
       Available u \<Rightarrow> Actual (tu_actual_tokens u)
     | Unavailable _ \<Rightarrow> token_budget_observation.Unavailable)"

end
