(* ===== verification/UsageProps.thy ===== *)
theory UsageProps
  imports ReaderProps ReducerProps Usage
begin

text \<open>
  What the token budget and the operator's summary count. The specification is the list of the usage
  events of a batch, each charged once; the budget releases a model call only when the exact
  sum over that list is below the limit, and the summary counts what the budget counts.
\<close>

section \<open>The usage of a batch\<close>

fun batch_usage :: "string \<Rightarrow> (string, string) btmap \<Rightarrow> event list \<Rightarrow> event list" where
  "batch_usage batch m [] = []"
| "batch_usage batch m (e # es) =
    (let m = observe_task_batch e m in
     (if ev_type e = UsageRecorded \<and> usage_belongs_to_batch e m batch then [e] else [])
     @ batch_usage batch m es)"

definition unmetered :: "event \<Rightarrow> bool" where
  "unmetered e \<longleftrightarrow> get_str ''usage_availability'' (ev_payload e) = Some ''unavailable''"

definition flagged :: "bool \<Rightarrow> event \<Rightarrow> bool" where
  "flagged b e \<longleftrightarrow> \<not> unmetered e \<and> map_of (ev_payload e) ''estimated'' = Some (JBool b)"

definition tokens_of :: "event \<Rightarrow> nat" where
  "tokens_of e = or_zero (usage_total (ev_payload e))"

definition tokens_where :: "(event \<Rightarrow> bool) \<Rightarrow> event list \<Rightarrow> nat" where
  "tokens_where P es = sum_list (map tokens_of (filter P es))"

definition well_formed_usage :: "event \<Rightarrow> bool" where
  "well_formed_usage e \<longleftrightarrow>
    (if unmetered e then is_unavailable_marker (ev_payload e)
     else flagged True e \<or> flagged False e \<and> usage_total (ev_payload e) \<noteq> None)"

lemma tokens_where_simps [simp]:
  "tokens_where P [] = 0"
  "tokens_where P (e # es) = (if P e then tokens_of e else 0) + tokens_where P es"
  by (simp_all add: tokens_where_def)

fun fold_res :: "('a \<Rightarrow> 'b \<Rightarrow> 'e + 'b) \<Rightarrow> 'a list \<Rightarrow> 'b \<Rightarrow> 'e + 'b" where
  "fold_res f [] b = Inr b"
| "fold_res f (a # as) b = bind_res (f a b) (fold_res f as)"

lemma count_batch_eq: "count_batch batch m es u = fold_res count_usage (batch_usage batch m es) u"
  by (induction es arbitrary: m u) (simp_all add: Let_def bind_res_def split: sum.split)

lemma count_usage_facts:
  assumes "count_usage e u = Inr v"
  shows "well_formed_usage e"
    and "tu_actual_tokens v = tu_actual_tokens u + (if flagged False e then tokens_of e else 0)"
    and "tu_estimated_tokens v = tu_estimated_tokens u + (if flagged True e then tokens_of e else 0)"
    and "tu_unmetered_events v = (if unmetered e then sat_add64 (tu_unmetered_events u) 1 else tu_unmetered_events u)"
  using assms
  by (auto simp: count_usage_def Let_def well_formed_usage_def unmetered_def flagged_def tokens_of_def or_zero_def
      checked64_def split: if_splits option.splits json.splits bool.splits)

lemma count_facts:
  assumes "fold_res count_usage es u = Inr v"
  shows "list_all well_formed_usage es
    \<and> tu_actual_tokens v = tu_actual_tokens u + tokens_where (flagged False) es
    \<and> tu_estimated_tokens v = tu_estimated_tokens u + tokens_where (flagged True) es
    \<and> (tu_unmetered_events v = 0 \<longleftrightarrow> tu_unmetered_events u = 0 \<and> \<not> list_ex unmetered es)"
  using assms
proof (induction es arbitrary: u)
  case (Cons e es)
  then obtain w where w: "count_usage e u = Inr w" "fold_res count_usage es w = Inr v" by auto
  note f = count_usage_facts[OF w(1)]
  have "sat_add64 n 1 \<noteq> 0" for n by (simp add: sat_add64_def u64_max_def)
  then show ?case using Cons.IH[OF w(2)] f by auto
qed simp

lemma complete_events_Inr:
  assumes "complete_events env sha enabled lock_ok file = Inr es" "\<forall>bytes. file = Some bytes \<longrightarrow> followable bytes"
  obtains bytes where "file = Some bytes" "enabled" "lock_ok" "committed_part bytes = bytes"
    "invalid_lines env bytes = 0" "es = fresh {} (events_in env bytes)"
proof -
  obtain bytes where b: "file = Some bytes" "enabled" "lock_ok"
    using assms(1) by (auto simp: complete_events_def split: option.splits if_splits)
  have f: "followable bytes" using assms(2) b(1) by blast
  obtain r where r: "poll_all env sha bytes reader_new [] = (Inr (fresh {} (events_in env (committed_part bytes))), r)"
    "rd_unterminated r \<longleftrightarrow> length (committed_part bytes) < length bytes"
    "ps_skipped_invalid (rd_stats r) = invalid_lines env (committed_part bytes)"
    using followed[OF f new_reader_ok, of env sha "[]"] by (auto simp: reader_new_def no_stats_def)
  obtain torn where t: "bytes = committed_part bytes @ torn" by (rule followable_split[OF f])
  have c: "\<not> rd_unterminated r" "invalid_lines env (committed_part bytes) = 0"
    "es = fresh {} (events_in env (committed_part bytes))"
    using assms(1) r b by (auto simp: complete_events_def split: if_splits)
  have "torn = []" using c(1) r(2) arg_cong[OF t, of length] by simp
  then have "committed_part bytes = bytes" using t by simp
  then show thesis using that b c by simp
qed

lemma complete_events_eq:
  assumes "followable bytes" "committed_part bytes = bytes"
  shows "complete_events env sha enabled lock_ok (Some bytes) =
    (if \<not> enabled then Inl EventsOutboxDisabled else if \<not> lock_ok then Inl ReadFailed
     else if invalid_lines env bytes > 0 then Inl InvalidEventRecord else Inr (fresh {} (events_in env bytes)))"
  using followed[OF assms(1) new_reader_ok, of env sha "[]"] assms(2)
  by (auto simp: complete_events_def reader_new_def no_stats_def)

lemma fresh_within: "ids_of es \<subseteq> seen \<Longrightarrow> fresh seen es = []"
  by (induction es) (auto simp: ids_of_def)

section \<open>The budget end to end\<close>

lemma snapshot_facts:
  assumes "cohort_token_usage_with_strict env sha lock_ok file batch enabled strict = Available u"
    and "\<forall>bytes. file = Some bytes \<longrightarrow> followable bytes"
  obtains bytes where "file = Some bytes" "enabled" "lock_ok" "committed_part bytes = bytes" "invalid_lines env bytes = 0"
    "fold_res count_usage (batch_usage batch [] (temporally_ordered (fresh {} (events_in env bytes)))) no_usage = Inr u"
    "strict \<Longrightarrow> tu_unmetered_events u = 0"
proof -
  obtain es where es: "complete_events env sha enabled lock_ok file = Inr es"
    "count_batch batch [] (temporally_ordered es) no_usage = Inr u" "strict \<Longrightarrow> tu_unmetered_events u = 0"
    using assms(1) by (auto simp: cohort_token_usage_with_strict_def bind_res_def split: sum.splits if_splits)
  show thesis
    by (rule complete_events_Inr[OF es(1) assms(2)]) (use that es(2,3) in \<open>auto simp: count_batch_eq\<close>)
qed

lemma token_check_releases:
  assumes "accept lc (TokenBudgetChecked call obs) p = (Inr es, p')" "e \<in> set es" "from_effect e \<noteq> None"
  shows "\<exists>n limit. obs = Actual n \<and> cf_cohort_token_budget (pr_config p) = Some limit \<and> n < limit \<and> e = into_effect call"
proof -
  obtain fs s' where d: "dispatch lc (pr_config p) (TokenBudgetChecked call obs) (pr_state p) = (Inr fs, s')" "e \<in> set fs"
    using accept_checked[OF assms(1-3)] by (auto simp: is_budget_check_def)
  have no: "\<not> list_all (\<lambda>e. from_effect e = None) fs" using d(2) assms(3) by (auto simp: list_all_iff)
  show ?thesis
  proof (cases obs)
    case (Actual n)
    then show ?thesis
      using d no
      by (auto simp: dispatch_def token_budget_checked_def Let_def halt_for_token_budget_def
          dest: halt_for_free split: if_splits)
  next
    case Unavailable
    then show ?thesis
      using d no
      by (auto simp: dispatch_def token_budget_checked_def Let_def halt_for_token_budget_def dest: halt_for_free)
  qed
qed

text \<open>
  C40. The token budget end to end: when the answer to a token check, computed from the event file by
  the port, releases a model call, then it is the checked call, and the file was there, enabled, whole
  and free of invalid lines; every usage event of the batch is well formed; and the exact sum of
  the actual tokens of these events, each charged once, is below the limit. Under the
  strict budget none of them is unmetered.
\<close>

theorem released_calls_are_paid_for:
  assumes "accept lc (TokenBudgetChecked call (observe_token_budget env sha lock_ok file b)) p = (Inr es, p')"
    and "e \<in> set es" "from_effect e \<noteq> None" "\<forall>bytes. file = Some bytes \<longrightarrow> followable bytes"
  shows "e = into_effect call \<and> co_events_outbox_enabled b
    \<and> (\<exists>bytes limit us. file = Some bytes \<and> committed_part bytes = bytes \<and> invalid_lines env bytes = 0
         \<and> us = batch_usage (co_id b) [] (temporally_ordered (fresh {} (events_in env bytes)))
         \<and> list_all well_formed_usage us \<and> cf_cohort_token_budget (pr_config p) = Some limit
         \<and> tokens_where (flagged False) us < limit
         \<and> (co_cohort_token_budget_strict b \<longrightarrow> \<not> list_ex unmetered us))"
proof -
  obtain n limit where n: "observe_token_budget env sha lock_ok file b = Actual n"
    "cf_cohort_token_budget (pr_config p) = Some limit" "n < limit" "e = into_effect call"
    using token_check_releases[OF assms(1-3)] by blast
  obtain u where u: "n = tu_actual_tokens u" "cohort_token_usage_with_strict env sha lock_ok file (co_id b)
      (co_events_outbox_enabled b) (co_cohort_token_budget_strict b) = Available u"
    using n(1) by (auto simp: observe_token_budget_def split: token_snapshot.splits)
  obtain bytes where b: "file = Some bytes" "co_events_outbox_enabled b" "committed_part bytes = bytes" "invalid_lines env bytes = 0"
    "fold_res count_usage (batch_usage (co_id b) [] (temporally_ordered (fresh {} (events_in env bytes)))) no_usage = Inr u"
    "co_cohort_token_budget_strict b \<Longrightarrow> tu_unmetered_events u = 0"
    by (rule snapshot_facts[OF u(2) assms(4)]) (rule that)
  show ?thesis using count_facts[OF b(5)] b n u(1) by (auto simp: no_usage_def)
qed

definition demo_usage :: event where
  "demo_usage = demo_event\<lparr>ev_type := UsageRecorded,
     ev_payload := [(''estimated'', JBool False), (''model'', JStr ''opus''), (''output_tokens'', JInt 40),
       (''source'', JStr ''claude'')]\<rparr>"

definition usage_outbox :: "string outbox_env" where
  "usage_outbox = demo_outbox\<lparr>oe_from_str := (\<lambda>s. if s = ''usage'' then Inr (event_value demo_usage) else Inl ''unknown'')\<rparr>"

definition usage_file :: string where "usage_file = ''usage'' @ [nl]"

lemma demo_usage_valid [simp]: "valid_event demo_usage"
  using demo_event_valid by (simp add: valid_event_def demo_usage_def demo_event_def event_of_def event_with_payload_def)

lemma demo_usage_fields [simp]:
  "ev_type demo_usage = UsageRecorded" "ev_task_id demo_usage = None" "ev_batch_id demo_usage = Some ''B-1''"
  "ev_payload demo_usage = [(''estimated'', JBool False), (''model'', JStr ''opus''), (''output_tokens'', JInt 40),
       (''source'', JStr ''claude'')]"
  by (simp_all add: demo_usage_def demo_event_def event_of_def event_with_payload_def)

lemma usage_line: "event_in usage_outbox ''usage'' = Some demo_usage"
proof -
  have "utf8_ok ''usage''" "trim ''usage'' = ''usage''" by code_simp+
  then show ?thesis by (simp add: event_in_def parse_line_def usage_outbox_def event_value_parses)
qed

lemma usage_lines: "complete_lines (usage_file @ s) = ''usage'' # complete_lines s" "terminated usage_file"
  using complete_lines_Cons[of "''usage''" s] by (simp_all add: usage_file_def terminated_def)

lemma usage_events: "events_in usage_outbox (usage_file @ s) = demo_usage # events_in usage_outbox s"
  "invalid_lines usage_outbox (usage_file @ s) = invalid_lines usage_outbox s"
  by (simp_all add: events_in_def invalid_lines_def usage_lines usage_line map_filter_simps)

lemma no_lines [simp]: "complete_lines [] = []" by simp

lemma usage_readable: "short_lines usage_file" "short_lines (usage_file @ usage_file)"
  using usage_lines(1)[of "[]"] usage_lines(1)[of usage_file] by (simp_all add: short_lines_def max_poll_bytes_def)

lemma whole_file:
  assumes "terminated s" "short_lines s"
  shows "followable s" "committed_part s = s"
  using prefix_terminated[OF assms(1)] assms(2) by (simp_all add: followable_def committed_part_def)

lemma demo_budget_run:
  defines "p \<equiv> on_state (\<lambda>s. s\<lparr>st_batch := map_option (\<lambda>b. b\<lparr>co_cohort_token_budget := Some 100\<rparr>) (st_batch s)\<rparr>)
    demo5\<lparr>pr_config := default_config\<lparr>cf_cohort_token_budget := Some 100\<rparr>\<rparr>"
  shows "accept id (TokenBudgetChecked (TaskLeafPreparation ''T-1'' Implement) (Actual 40)) p =
    (Inr [PersistCheckpoint, PrepareTaskLeaf ''T-1'' Implement],
     snd (accept id (TokenBudgetChecked (TaskLeafPreparation ''T-1'' Implement) (Actual 40)) p))"
  unfolding p_def by (simp add: demo_defs eval_defs cong: eval_congs)

lemma demo_count: "count_batch ''B-1'' [] (temporally_ordered [demo_usage]) no_usage =
    Inr (no_usage\<lparr>tu_actual_tokens := 40, tu_actual_events := 1\<rparr>)"
  by (simp add: temporally_ordered_def observe_task_batch_def usage_belongs_to_batch_def count_usage_def get_str_def
      as_str_def usage_total_def as_u64_def checked64_def u64_max_def no_usage_def sat_add64_def Let_def bind_res_def)

theorem released_calls_are_paid_for_witness:
  "tokens_where (flagged False) (batch_usage ''B-1'' [] (temporally_ordered (fresh {} (events_in usage_outbox usage_file)))) < 100"
proof -
  define p where "p = on_state (\<lambda>s. s\<lparr>st_batch := map_option (\<lambda>b. b\<lparr>co_cohort_token_budget := Some 100\<rparr>) (st_batch s)\<rparr>)
    demo5\<lparr>pr_config := default_config\<lparr>cf_cohort_token_budget := Some 100\<rparr>\<rparr>"
  define b where "b = (the (st_batch (pr_state p)))\<lparr>co_id := ''B-1'', co_events_outbox_enabled := True, co_cohort_token_budget_strict := True\<rparr>"
  let ?call = "TaskLeafPreparation ''T-1'' Implement" and ?sha = "\<lambda>_. replicate 32 0"
  have f: "followable usage_file" "committed_part usage_file = usage_file"
    using whole_file usage_lines(2) usage_readable(1) by blast+
  have e: "fresh {} (events_in usage_outbox usage_file) = [demo_usage]" "invalid_lines usage_outbox usage_file = 0"
    using usage_events[of "[]"] by (simp_all add: events_in_def invalid_lines_def)
  have obs: "observe_token_budget usage_outbox ?sha True (Some usage_file) b = Actual 40"
    by (simp add: observe_token_budget_def cohort_token_usage_with_strict_def complete_events_eq f e b_def bind_res_def
        demo_count) (simp add: no_usage_def)
  let ?q = "snd (accept id (TokenBudgetChecked ?call (Actual 40)) p)"
  have run: "accept id (TokenBudgetChecked ?call (observe_token_budget usage_outbox ?sha True (Some usage_file) b)) p
    = (Inr [PersistCheckpoint, PrepareTaskLeaf ''T-1'' Implement], ?q)"
    unfolding obs p_def by (rule demo_budget_run)
  have "from_effect (PrepareTaskLeaf ''T-1'' Implement) \<noteq> None" by (simp add: from_effect_def)
  from released_calls_are_paid_for[OF run _ this] f(1) show ?thesis
    by (auto simp: p_def b_def on_state_def)
qed

section \<open>Replayed events\<close>

text \<open>
  A usage event is charged once: appending to a readable file lines whose events it already
  holds, whatever their content, changes neither the budget's snapshot nor the operator's summary.
\<close>

lemma replays_are_not_charged:
  assumes "terminated bytes" "short_lines bytes" "terminated extra" "short_lines extra"
    and "ids_of (events_in env extra) \<subseteq> ids_of (events_in env bytes)" "invalid_lines env extra = 0"
  shows "cohort_token_usage_with_strict env sha lock_ok (Some (bytes @ extra)) batch enabled strict =
      cohort_token_usage_with_strict env sha lock_ok (Some bytes) batch enabled strict
    \<and> batch_telemetry_summary env sha uuid lock_ok (Some (bytes @ extra)) batch enabled =
      batch_telemetry_summary env sha uuid lock_ok (Some bytes) batch enabled"
proof -
  have s: "terminated (bytes @ extra)" "short_lines (bytes @ extra)"
    using terminated_join[OF assms(1,3)] assms(2,4) complete_lines_append[OF assms(1)] by (simp_all add: short_lines_def)
  have "fresh {} (events_in env (bytes @ extra)) = fresh {} (events_in env bytes)"
    using fresh_seen[OF assms(1), of "{}" env extra] fresh_within[OF assms(5)] by simp
  moreover have "invalid_lines env (bytes @ extra) = invalid_lines env bytes"
    using invalid_lines_append[OF assms(1), of env extra] assms(6) by simp
  ultimately have "complete_events env sha enabled lock_ok (Some (bytes @ extra)) = complete_events env sha enabled lock_ok (Some bytes)"
    by (simp add: complete_events_eq whole_file[OF s] whole_file[OF assms(1,2)])
  then show ?thesis
    by (simp add: cohort_token_usage_with_strict_def batch_telemetry_summary_def batch_telemetry_summary_with_pricing_def)
qed

lemma replays_are_not_charged_witness:
  "cohort_token_usage_with_strict usage_outbox (\<lambda>_. replicate 32 0) True (Some (usage_file @ usage_file)) ''B-1'' True True
    = Available (no_usage\<lparr>tu_actual_tokens := 40, tu_actual_events := 1\<rparr>)"
proof -
  have e: "events_in usage_outbox usage_file = [demo_usage]" "invalid_lines usage_outbox usage_file = 0"
    using usage_events[of "[]"] by (simp_all add: events_in_def invalid_lines_def)
  have "complete_events usage_outbox (\<lambda>_. replicate 32 0) True True (Some usage_file) = Inr [demo_usage]"
    by (simp add: complete_events_eq whole_file[OF usage_lines(2) usage_readable(1)] e)
  then have "cohort_token_usage_with_strict usage_outbox (\<lambda>_. replicate 32 0) True (Some usage_file) ''B-1'' True True
    = Available (no_usage\<lparr>tu_actual_tokens := 40, tu_actual_events := 1\<rparr>)"
    by (simp add: cohort_token_usage_with_strict_def bind_res_def demo_count) (simp add: no_usage_def)
  moreover have "ids_of (events_in usage_outbox usage_file) \<subseteq> ids_of (events_in usage_outbox usage_file)" by simp
  ultimately show ?thesis
    using replays_are_not_charged[OF usage_lines(2) usage_readable(1) usage_lines(2) usage_readable(1) _ e(2)] by simp
qed

section \<open>The operator's summary\<close>

lemma aggregate_cost_usage [simp]: "bs_usage (aggregate_cost e c s) = bs_usage s"
  by (simp add: aggregate_cost_def)

lemma summarize_codex_keeps:
  assumes "summarize_codex_attempt uuid e s = Inr s'"
  shows "bs_usage s' = bs_usage s \<and> bs_estimated_cost s' = bs_estimated_cost s
    \<and> bs_cost_by_model s' = bs_cost_by_model s \<and> bs_cost_by_role s' = bs_cost_by_role s"
  using assms by (auto simp: summarize_codex_attempt_def Let_def split: if_splits option.splits)

lemma estimated_flag: "Option.bind x as_bool = Some b \<longleftrightarrow> x = Some (JBool b)"
  by (cases x) (auto simp: as_bool_def split: json.splits)

lemma summarize_usage_counts:
  assumes "summarize_usage table e s = Inr s'"
  shows "count_usage e (bs_usage s) = Inr (bs_usage s')"
proof (cases "get_str ''usage_availability'' (ev_payload e) = Some ''unavailable''")
  case True
  then show ?thesis using assms by (auto simp: summarize_usage_def count_usage_def Let_def split: if_splits)
next
  case False
  then obtain b where b: "Option.bind (map_of (ev_payload e) ''estimated'') as_bool = Some b"
    "get_str ''usage_availability'' (ev_payload e) \<in> {None, Some ''available''}"
    using assms by (auto simp: summarize_usage_def Let_def split: if_splits option.splits)
  show ?thesis
    using assms b(2) unfolding summarize_usage_def count_usage_def Let_def b(1)
    by (cases b) (auto simp: b(1)[unfolded estimated_flag] split: if_splits option.splits)
qed

lemma summarize_usage_cost:
  assumes "summarize_usage table e s = Inr s'"
  shows "\<exists>c t. bs_estimated_cost s' = bs_estimated_cost t \<and> bs_cost_by_model s' = bs_cost_by_model t
    \<and> bs_cost_by_role s' = bs_cost_by_role t \<and> t = aggregate_cost e c s"
proof -
  have "aggregate_cost e c (s\<lparr>bs_usage := u\<rparr>) = (aggregate_cost e c s)\<lparr>bs_usage := u\<rparr>" for c u
    by (simp add: aggregate_cost_def)
  then show ?thesis
    using assms by (auto simp: summarize_usage_def Let_def split: if_splits option.splits)
qed

lemma summarize_counts:
  "summarize_batch uuid table batch m es s = Inr s' \<Longrightarrow> count_batch batch m es (bs_usage s) = Inr (bs_usage s')"
proof (induction es arbitrary: m s)
  case (Cons e es)
  let ?m = "observe_task_batch e m"
  obtain t where t: "(if ev_type e = CodexAttempt \<and> ev_batch_id e = Some batch then summarize_codex_attempt uuid e s
        else if ev_type e = UsageRecorded \<and> usage_belongs_to_batch e ?m batch then summarize_usage table e s
        else Inr s) = Inr t" "summarize_batch uuid table batch ?m es t = Inr s'"
    using Cons.prems by (auto simp: Let_def)
  note rest = Cons.IH[OF t(2)]
  show ?case
    using t(1) rest summarize_codex_keeps[of uuid e s t] summarize_usage_counts[of table e s t]
    by (auto simp: Let_def bind_res_def split: if_splits)
qed simp

text \<open>
  The summary counts what the budget counts: when the operator's summary of a batch is available,
  so is the budget's snapshot, with the same token counters; under the strict budget exactly when no
  usage is unmetered.
\<close>

lemma summary_agrees_with_budget:
  assumes "batch_telemetry_summary_with_pricing env sha uuid lock_ok file batch enabled table = Inr s"
  shows "cohort_token_usage env sha lock_ok file batch enabled = Available (bs_usage s)
    \<and> cohort_token_usage_with_strict env sha lock_ok file batch enabled True =
        (if tu_unmetered_events (bs_usage s) = 0 then Available (bs_usage s) else Unavailable UnmeteredUsage)"
proof -
  obtain es where es: "complete_events env sha enabled lock_ok file = Inr es"
    "summarize_batch uuid table batch [] (temporally_ordered es) empty_summary = Inr s"
    using assms by (auto simp: batch_telemetry_summary_with_pricing_def)
  have "count_batch batch [] (temporally_ordered es) no_usage = Inr (bs_usage s)"
    using summarize_counts[OF es(2)] by (simp add: empty_summary_def)
  then show ?thesis
    by (simp add: cohort_token_usage_def cohort_token_usage_with_strict_def es(1) bind_res_def)
qed

lemma demo_summary:
  "batch_telemetry_summary_with_pricing usage_outbox (\<lambda>_. replicate 32 0) demo_uuid True (Some usage_file) ''B-1'' True
     [(''opus'', \<lparr>mp_model = ''opus'', mp_input = 5000000, mp_cached_input = 500000, mp_cache_creation_input = 6250000,
        mp_output = 25000000, mp_effective_date = ''2026-07-30''\<rparr>)]
   = Inr (empty_summary\<lparr>bs_usage := no_usage\<lparr>tu_actual_tokens := 40, tu_actual_events := 1\<rparr>,
       bs_actual_by_source := [(''claude'', 40)],
       bs_estimated_cost := \<lparr>ce_nano_usd = 1000000, ce_estimated = True, ce_unknown = False\<rparr>,
       bs_cost_by_model := [(''opus'', \<lparr>ce_nano_usd = 1000000, ce_estimated = True, ce_unknown = False\<rparr>)],
       bs_cost_by_role := [(''unknown-role'', \<lparr>ce_nano_usd = 1000000, ce_estimated = True, ce_unknown = False\<rparr>)]\<rparr>)"
proof -
  have e: "events_in usage_outbox usage_file = [demo_usage]" "invalid_lines usage_outbox usage_file = 0"
    using usage_events[of "[]"] by (simp_all add: events_in_def invalid_lines_def)
  have safe: "safe_scalar ''opus''" by code_simp
  show ?thesis
    by (simp add: batch_telemetry_summary_with_pricing_def complete_events_eq whole_file[OF usage_lines(2) usage_readable(1)] e
        bind_res_def temporally_ordered_def observe_task_batch_def usage_belongs_to_batch_def summarize_usage_def get_str_def
        get_u64_def as_str_def as_bool_def as_u64_def usage_total_def checked64_def u64_max_def sat_add64_def Let_def safe
        event_cost_def provider_usage_from_fields_def usage_source_from_event_def having_def estimate_usage_cost_def
        pricing_resolve_def or_zero_def checked128_def u128_max_def aggregate_cost_def merge_at_def scalar_or_def
        cost_merge_def cost_zero_def empty_summary_def no_usage_def usage_source_as_str_def)
qed

lemma summary_agrees_with_budget_witness:
  "cohort_token_usage usage_outbox (\<lambda>_. replicate 32 0) True (Some usage_file) ''B-1'' True
    = Available (no_usage\<lparr>tu_actual_tokens := 40, tu_actual_events := 1\<rparr>)"
  using summary_agrees_with_budget[OF demo_summary] by (simp add: empty_summary_def)

text \<open>The costs of a partition, exact as long as \<open>u128\<close> holds the sum.\<close>

definition cost_sum :: "(string, cost_estimate) btmap \<Rightarrow> nat" where
  "cost_sum m = sum_list (map (ce_nano_usd \<circ> snd) m)"

definition partition_ok :: "cost_estimate \<Rightarrow> (string, cost_estimate) btmap \<Rightarrow> bool" where
  "partition_ok c m \<longleftrightarrow> bt_invar m \<and> ce_nano_usd c \<le> u128_max
    \<and> (ce_unknown c \<or> ce_nano_usd c = cost_sum m \<and> (\<forall>k v. map_of m k = Some v \<longrightarrow> \<not> ce_unknown v))
    \<and> ce_nano_usd c = min u128_max (cost_sum m)"

lemma sums_insert:
  "bt_invar m \<Longrightarrow> sum_list (map (f \<circ> snd) (bt_insert k v m)) + (case map_of m k of Some w \<Rightarrow> f w | None \<Rightarrow> 0)
     = sum_list (map (f \<circ> snd) m) + (f v :: nat)"
proof (induction k v m rule: bt_insert.induct)
  case (2 k v k' v' m)
  have "map_of m k = None" if "k < k'"
    using 2(2) that by (auto simp: bt_invar_def map_of_eq_None_iff)
  then show ?case using 2 by (auto simp: bt_invar_def)
qed simp

lemma cost_merge_nano: "ce_nano_usd (cost_merge a b) = min u128_max (ce_nano_usd a + ce_nano_usd b)"
  "ce_unknown (cost_merge a b) \<longleftrightarrow> ce_unknown a \<or> ce_unknown b \<or> u128_max < ce_nano_usd a + ce_nano_usd b"
  by (auto simp: cost_merge_def checked128_def)

lemma merge_at_partition:
  assumes "partition_ok c m"
  shows "partition_ok (cost_merge c d) (merge_at k d m)"
proof -
  define old where "old = (case map_of m k of Some x \<Rightarrow> x | None \<Rightarrow> cost_zero)"
  have m: "bt_invar m" and c: "ce_nano_usd c = min u128_max (cost_sum m)" using assms by (simp_all add: partition_ok_def)
  have part: "(case map_of m k of Some w \<Rightarrow> ce_nano_usd w | None \<Rightarrow> 0) = ce_nano_usd old"
    by (simp add: old_def cost_zero_def split: option.split)
  have step: "cost_sum (merge_at k d m) + ce_nano_usd old = cost_sum m + min u128_max (ce_nano_usd old + ce_nano_usd d)"
    using sums_insert[OF m, of ce_nano_usd k "cost_merge old d"]
    by (simp add: cost_sum_def merge_at_def old_def[symmetric] part cost_merge_nano)
  have le: "ce_nano_usd old \<le> cost_sum m"
  proof (cases "map_of m k")
    case (Some x)
    then have "ce_nano_usd old \<in> set (map (ce_nano_usd \<circ> snd) m)"
      using part by (force dest: map_of_SomeD)
    then show ?thesis unfolding cost_sum_def by (intro member_le_sum_list) simp_all
  qed (simp add: old_def cost_zero_def)
  have sum: "cost_sum (merge_at k d m) = cost_sum m + ce_nano_usd d" if "ce_nano_usd old + ce_nano_usd d \<le> u128_max"
    using step that by simp
  have inv: "bt_invar (merge_at k d m)" and look: "map_of (merge_at k d m) = (map_of m)(k \<mapsto> cost_merge old d)"
    using m by (simp_all add: merge_at_def bt_insert_invar bt_insert_look old_def)
  have capped: "ce_nano_usd (cost_merge c d) = min u128_max (cost_sum (merge_at k d m))"
    using step le unfolding cost_merge_nano c by arith
  show ?thesis
  proof (cases "ce_unknown (cost_merge c d)")
    case True
    then show ?thesis using inv capped by (simp add: partition_ok_def)
  next
    case False
    then have d: "\<not> ce_unknown c" "\<not> ce_unknown d" "ce_nano_usd c + ce_nano_usd d \<le> u128_max"
      by (auto simp: cost_merge_nano)
    then have e: "ce_nano_usd c = cost_sum m" "\<forall>k v. map_of m k = Some v \<longrightarrow> \<not> ce_unknown v"
      using assms by (simp_all add: partition_ok_def)
    have fits: "ce_nano_usd old + ce_nano_usd d \<le> u128_max" using d(3) e(1) le by simp
    have "\<not> ce_unknown old" using e(2) by (auto simp: old_def cost_zero_def split: option.split)
    then have "\<not> ce_unknown (cost_merge old d)" using d(2) fits by (simp add: cost_merge_nano)
    then show ?thesis
      using inv capped sum[OF fits] e d(3) by (auto simp: partition_ok_def look cost_merge_nano)
  qed
qed

lemma summary_partition:
  assumes "summarize_batch uuid table batch m es s = Inr s'"
    and "partition_ok (bs_estimated_cost s) (bs_cost_by_model s)" "partition_ok (bs_estimated_cost s) (bs_cost_by_role s)"
  shows "partition_ok (bs_estimated_cost s') (bs_cost_by_model s') \<and> partition_ok (bs_estimated_cost s') (bs_cost_by_role s')"
  using assms
proof (induction es arbitrary: m s)
  case (Cons e es)
  let ?m = "observe_task_batch e m"
  obtain t where t: "(if ev_type e = CodexAttempt \<and> ev_batch_id e = Some batch then summarize_codex_attempt uuid e s
        else if ev_type e = UsageRecorded \<and> usage_belongs_to_batch e ?m batch then summarize_usage table e s
        else Inr s) = Inr t" "summarize_batch uuid table batch ?m es t = Inr s'"
    using Cons.prems by (auto simp: Let_def)
  have "partition_ok (bs_estimated_cost t) (bs_cost_by_model t) \<and> partition_ok (bs_estimated_cost t) (bs_cost_by_role t)"
    using t(1) Cons.prems(2,3) summarize_codex_keeps[of uuid e s t] summarize_usage_cost[of table e s t]
    by (auto simp: aggregate_cost_def merge_at_partition split: if_splits)
  then show ?case using Cons.IH[OF t(2)] by blast
qed simp

text \<open>
  The cost lines add up: in an available summary the cost per model and the cost per role both sum to
  the total cost, as long as that is not marked unknown; when no cost of the total is unknown, no cost of a line is.
  Beyond the range of \<open>u128\<close> the total stays at its maximum and is marked unknown.
\<close>

lemma cost_lines_add_up:
  assumes "batch_telemetry_summary_with_pricing env sha uuid lock_ok file batch enabled table = Inr s"
    and "m \<in> {bs_cost_by_model s, bs_cost_by_role s}"
  shows "(\<not> ce_unknown (bs_estimated_cost s) \<longrightarrow>
      ce_nano_usd (bs_estimated_cost s) = cost_sum m \<and> (\<forall>k v. map_of m k = Some v \<longrightarrow> \<not> ce_unknown v))
    \<and> ce_nano_usd (bs_estimated_cost s) = min u128_max (cost_sum m)"
proof -
  obtain es where es: "summarize_batch uuid table batch [] (temporally_ordered es) empty_summary = Inr s"
    using assms by (auto simp: batch_telemetry_summary_with_pricing_def)
  have "partition_ok (bs_estimated_cost empty_summary) []" "bs_cost_by_model empty_summary = []" "bs_cost_by_role empty_summary = []"
    by (simp_all add: partition_ok_def empty_summary_def cost_zero_def cost_sum_def bt_invar_def)
  then show ?thesis using summary_partition[OF es] assms(2) by (auto simp: partition_ok_def)
qed

lemma cost_lines_add_up_witness:
  "cost_sum [(''opus'', \<lparr>ce_nano_usd = 1000000, ce_estimated = True, ce_unknown = False\<rparr>)] = 1000000"
  using cost_lines_add_up[OF demo_summary, of "[(''opus'', \<lparr>ce_nano_usd = 1000000, ce_estimated = True, ce_unknown = False\<rparr>)]"]
  by (simp add: empty_summary_def)

end
