(* ===== verification/Native.thy ===== *)
theory Native
  imports Runtime
begin

text \<open>
  The effect adapter, \<open>src/engine/src/native.rs\<close>: it turns every effect of the reducer into one
  call of a port and the answer of the port into a resolution. The port itself (version control,
  agents, the forge, the control plane) is a parameter: a record of operations over a world \<open>'w\<close>,
  each of which may fail and change the world. The probe of the owner lease reads the world too,
  so that the lease can be lost between any two observations.
\<close>

section \<open>What a port answers\<close>

datatype reconciliation = ReconcileCommand processor_command | ReconcileHold string

datatype queue_readiness = QueuePending | QueueExhausted nat

datatype task_effect =
  PrepareLeaf string leaf_kind | PrepareReview string | DispatchLeaf string leaf_kind | DispatchReview string

datatype task_effect_result =
  LeafPrepared task_leaf_preparation_outcome | ReviewPrepared task_review_preparation_outcome
| LeafResult leaf_outcome | ReviewResult review_outcome

datatype publication_result =
  ResultPublished string bool | ResultHold string | ResultRejected string
| ResultReanchor string publication_reanchor_target

datatype publication_reanchor_result = ReanchorDone | ReanchorFoundPublished string

type_synonym ('w, 'e, 'a) port_call = "'w \<Rightarrow> ('e + 'a) \<times> 'w"

record ('w, 'e) port =
  po_display :: "'e \<Rightarrow> string"
  po_task_preparation_replay_safe :: bool
  po_notification_replay_safe :: bool
  po_pause_requested :: "('w, 'e, bool) port_call"
  po_current_queue_readiness :: "('w, 'e, queue_readiness) port_call"
  po_wait_for_watch_interval :: "nat \<Rightarrow> ('w, 'e, unit) port_call"
  po_now_secs :: "('w, 'e, nat) port_call"
  po_event_occurred_at :: "string \<Rightarrow> ('w, 'e, string) port_call"
  po_recovery_workspaces :: "processor_state \<Rightarrow> ('w, 'e, string list) port_call"
  po_reconcile :: "string \<Rightarrow> processor_state \<Rightarrow> ('w, 'e, reconciliation) port_call"
  po_reconcile_inbox :: "processor_state \<Rightarrow> ('w, 'e, bool) port_call"
  po_reconcile_inbox_finalization :: "processor_state \<Rightarrow> ('w, 'e, bool) port_call"
  po_refresh_dependency_graph :: "refresh_boundary \<Rightarrow> processor_state \<Rightarrow> ('w, 'e, leaf_outcome) port_call"
  po_curate_inbox :: "inbox_curation_mode \<Rightarrow> processor_state \<Rightarrow> ('w, 'e, leaf_outcome) port_call"
  po_drain_queue_inbox :: "processor_state \<Rightarrow> ('w, 'e, unit) port_call"
  po_plan_candidates :: "processor_state \<Rightarrow> nat \<Rightarrow> ('w, 'e, admission_candidate list) port_call"
  po_token_budget_observation :: "processor_state \<Rightarrow> ('w, 'e, token_budget_observation) port_call"
  po_ensure_task_workspace :: "string \<Rightarrow> string \<Rightarrow> processor_state \<Rightarrow> ('w, 'e, unit) port_call"
  po_task_leaf :: "string \<Rightarrow> leaf_kind \<Rightarrow> processor_state \<Rightarrow> ('w, 'e, leaf_outcome) port_call"
  po_prepare_task_leaf :: "string \<Rightarrow> leaf_kind \<Rightarrow> processor_state \<Rightarrow> ('w, 'e, task_leaf_preparation_outcome) port_call"
  po_prepare_task_review :: "string \<Rightarrow> processor_state \<Rightarrow> ('w, 'e, task_review_preparation_outcome) port_call"
  po_task_review :: "string \<Rightarrow> processor_state \<Rightarrow> ('w, 'e, review_outcome) port_call"
  po_take_leaf_session :: "string \<Rightarrow> 'w \<Rightarrow> leaf_session_update option \<times> 'w"
  po_execute_task_batch :: "task_effect list \<Rightarrow> processor_state \<Rightarrow> ('w, 'e, task_effect_result list) port_call"
  po_commit_task :: "string \<Rightarrow> processor_state \<Rightarrow> ('w, 'e, string) port_call"
  po_ensure_integration_workspace :: "string \<Rightarrow> processor_state \<Rightarrow> ('w, 'e, unit) port_call"
  po_merge_task :: "string \<Rightarrow> processor_state \<Rightarrow> ('w, 'e, merge_outcome) port_call"
  po_resolve_merge_conflict :: "string \<Rightarrow> processor_state \<Rightarrow> ('w, 'e, leaf_outcome) port_call"
  po_finalize_merge_resolution :: "string \<Rightarrow> processor_state \<Rightarrow> ('w, 'e, merge_outcome) port_call"
  po_abort_merge_resolution :: "string \<Rightarrow> processor_state \<Rightarrow> ('w, 'e, unit) port_call"
  po_verify_integration :: "string \<Rightarrow> processor_state \<Rightarrow> ('w, 'e, verification_outcome) port_call"
  po_integration_review :: "processor_state \<Rightarrow> ('w, 'e, review_outcome) port_call"
  po_integration_fix :: "processor_state \<Rightarrow> ('w, 'e, leaf_outcome) port_call"
  po_commit_integration_fix :: "processor_state \<Rightarrow> ('w, 'e, string) port_call"
  po_publish :: "string \<Rightarrow> processor_state \<Rightarrow> ('w, 'e, publication_result) port_call"
  po_reanchor_publication :: "string \<Rightarrow> processor_state \<Rightarrow> ('w, 'e, publication_reanchor_result) port_call"
  po_verify_ci :: "string \<Rightarrow> processor_state \<Rightarrow> ('w, 'e, ci_outcome) port_call"
  po_reconfirm_ci_before_archive :: "string \<Rightarrow> string list \<Rightarrow> processor_state \<Rightarrow> ('w, 'e, ci_outcome) port_call"
  po_notify :: "notification_event \<Rightarrow> string \<Rightarrow> ('w, 'e, unit) port_call"
  po_prepare_ci_fix :: "processor_state \<Rightarrow> ('w, 'e, ci_fix_preparation_outcome) port_call"
  po_ci_fix :: "processor_state \<Rightarrow> ('w, 'e, leaf_outcome) port_call"
  po_commit_ci_fix :: "processor_state \<Rightarrow> ('w, 'e, string) port_call"
  po_prepare_knowledge_curation :: "processor_state \<Rightarrow> ('w, 'e, knowledge_preparation_outcome) port_call"
  po_prepare_archival :: "processor_state \<Rightarrow> ('w, 'e, archival_preparation_outcome) port_call"
  po_curate_knowledge :: "processor_state \<Rightarrow> ('w, 'e, leaf_outcome) port_call"
  po_return_task :: "string \<Rightarrow> string \<Rightarrow> processor_state \<Rightarrow> ('w, 'e, unit) port_call"
  po_escalate_task :: "string \<Rightarrow> string \<Rightarrow> processor_state \<Rightarrow> ('w, 'e, unit) port_call"
  po_archive_task :: "string \<Rightarrow> processor_state \<Rightarrow> ('w, 'e, unit) port_call"
  po_cleanup_task_workspace :: "string \<Rightarrow> processor_state \<Rightarrow> ('w, 'e, unit) port_call"
  po_cleanup_integration_workspace :: "processor_state \<Rightarrow> ('w, 'e, unit) port_call"
  po_cleanup_cohort_control_plane :: "processor_state \<Rightarrow> ('w, 'e, unit) port_call"
  po_write_journal_and_status :: "processor_state \<Rightarrow> ('w, 'e, unit) port_call"
  po_write_pause_status :: "processor_state \<Rightarrow> ('w, 'e, unit) port_call"
  po_release_lease :: "('w, 'e, unit) port_call"

text \<open>The default of the trait: one call after the other, until one fails.\<close>

definition map_answer :: "('a \<Rightarrow> 'b) \<Rightarrow> ('e + 'a) \<times> 'w \<Rightarrow> ('e + 'b) \<times> 'w" where
  "map_answer f x = (case x of (Inl e, w) \<Rightarrow> (Inl e, w) | (Inr a, w) \<Rightarrow> (Inr (f a), w))"

definition task_call :: "('w, 'e) port \<Rightarrow> task_effect \<Rightarrow> processor_state \<Rightarrow> ('w, 'e, task_effect_result) port_call" where
  "task_call po e s w =
    (case e of
       PrepareLeaf i k \<Rightarrow> map_answer LeafPrepared (po_prepare_task_leaf po i k s w)
     | PrepareReview i \<Rightarrow> map_answer ReviewPrepared (po_prepare_task_review po i s w)
     | DispatchLeaf i k \<Rightarrow> map_answer LeafResult (po_task_leaf po i k s w)
     | DispatchReview i \<Rightarrow> map_answer ReviewResult (po_task_review po i s w))"

fun serial_task_batch ::
    "('w, 'e) port \<Rightarrow> task_effect list \<Rightarrow> processor_state \<Rightarrow> ('w, 'e, task_effect_result list) port_call" where
  "serial_task_batch po [] s w = (Inr [], w)"
| "serial_task_batch po (e # es) s w =
    (case task_call po e s w of
       (Inl err, w) \<Rightarrow> (Inl err, w)
     | (Inr a, w) \<Rightarrow> map_answer (\<lambda>as. a # as) (serial_task_batch po es s w))"

section \<open>Resolutions and errors\<close>

datatype effect_resolution =
  ResolvedBy processor_command | Reconciled processor_command | Acknowledge | HoldFor string

text \<open>The messages of \<open>InvalidEffect\<close>, by their arguments.\<close>

datatype invalid_effect =
  NoTaskLeaf leaf_kind | NoIntegrationLeaf leaf_kind | NoPendingMergeResolution | MarkerLeaked
| NonTaskEffect effect | BatchCount nat nat | IncompatibleResult task_effect_result task_effect

datatype 'e native_error = PortFailed 'e | LeaseLost | InvalidEffect invalid_effect

definition task_effect_of :: "effect \<Rightarrow> task_effect option" where
  "task_effect_of e =
    (case e of
       PrepareTaskLeaf i k \<Rightarrow> Some (PrepareLeaf i k)
     | PrepareTaskReview i \<Rightarrow> Some (PrepareReview i)
     | DispatchTask i k \<Rightarrow> Some (if k = Review then DispatchReview i else DispatchLeaf i k)
     | _ \<Rightarrow> None)"

definition into_resolution :: "task_effect \<Rightarrow> task_effect_result \<Rightarrow> invalid_effect + effect_resolution" where
  "into_resolution e r =
    (case (e, r) of
       (PrepareLeaf i _, LeafPrepared out) \<Rightarrow> Inr (ResolvedBy (TaskLeafPrepared i out))
     | (PrepareReview i, ReviewPrepared out) \<Rightarrow> Inr (ResolvedBy (TaskReviewPrepared i out))
     | (DispatchLeaf i _, LeafResult out) \<Rightarrow> Inr (ResolvedBy (TaskLeaf i out))
     | (DispatchReview i, ReviewResult out) \<Rightarrow> Inr (ResolvedBy (TaskReview i out))
     | _ \<Rightarrow> Inl (IncompatibleResult r e))"

section \<open>The executor\<close>

record ('w, 'e) executor =
  ex_port :: "('w, 'e) port"
  ex_probe :: "('w \<Rightarrow> bool \<times> 'w) option"

type_synonym ('w, 'e, 'a) step = "'w \<Rightarrow> ('e native_error + 'a) \<times> 'w"

definition then_do :: "('f + 'a) \<times> 'w \<Rightarrow> ('f \<Rightarrow> 'g) \<Rightarrow> ('a \<Rightarrow> 'w \<Rightarrow> ('g + 'b) \<times> 'w) \<Rightarrow> ('g + 'b) \<times> 'w" where
  "then_do x conv k = (case x of (Inl e, w) \<Rightarrow> (Inl (conv e), w) | (Inr a, w) \<Rightarrow> k a w)"

lemma then_do_Inr:
  "then_do x conv k = (Inr b, w') \<longleftrightarrow> (\<exists>a w. x = (Inr a, w) \<and> k a w = (Inr b, w'))"
  by (auto simp: then_do_def split: prod.splits sum.splits)

text \<open>A port call whose answer makes a command, and one that only has to succeed.\<close>

definition resolve ::
    "('a \<Rightarrow> processor_command) \<Rightarrow> ('e + 'a) \<times> 'w \<Rightarrow> ('e native_error + effect_resolution) \<times> 'w" where
  "resolve f x = then_do x PortFailed (\<lambda>a w. (Inr (ResolvedBy (f a)), w))"

definition acknowledged :: "('e + unit) \<times> 'w \<Rightarrow> ('e native_error + effect_resolution) \<times> 'w" where
  "acknowledged x = then_do x PortFailed (\<lambda>_ w. (Inr Acknowledge, w))"

definition interrupted_effect_retry_safe :: "('w, 'e) executor \<Rightarrow> effect \<Rightarrow> bool" where
  "interrupted_effect_retry_safe x e \<longleftrightarrow>
    po_task_preparation_replay_safe (ex_port x)
      \<and> (case e of PrepareTaskLeaf _ _ \<Rightarrow> True | PrepareTaskReview _ \<Rightarrow> True | _ \<Rightarrow> False)
    \<or> po_notification_replay_safe (ex_port x) \<and> (case e of Notify _ _ \<Rightarrow> True | _ \<Rightarrow> False)"

definition ensure_lease_active :: "('w, 'e) executor \<Rightarrow> ('w, 'e, unit) step" where
  "ensure_lease_active x w =
    (case ex_probe x of
       None \<Rightarrow> (Inr (), w)
     | Some probe \<Rightarrow> (case probe w of (lost, w) \<Rightarrow> (if lost then Inl LeaseLost else Inr (), w)))"

text \<open>The work between the two checks of the lease.\<close>

definition while_owner :: "('w, 'e) executor \<Rightarrow> ('w, 'e, 'a) step \<Rightarrow> ('w, 'e, 'a) step" where
  "while_owner x work w =
    then_do (ensure_lease_active x w) id (\<lambda>_ w.
    then_do (work w) id (\<lambda>a w.
    then_do (ensure_lease_active x w) id (\<lambda>_ w. (Inr a, w))))"

definition dispatch_task :: "('w, 'e) port \<Rightarrow> string \<Rightarrow> leaf_kind \<Rightarrow> processor_state \<Rightarrow> ('w, 'e, effect_resolution) step" where
  "dispatch_task po i k s w =
    (if k = Review then resolve (TaskReview i) (po_task_review po i s w)
     else if k = Implement \<or> k = Fix then resolve (TaskLeaf i) (po_task_leaf po i k s w)
     else (Inl (InvalidEffect (NoTaskLeaf k)), w))"

definition dispatch_integration_leaf :: "('w, 'e) port \<Rightarrow> leaf_kind \<Rightarrow> processor_state \<Rightarrow> ('w, 'e, effect_resolution) step" where
  "dispatch_integration_leaf po k s w =
    (case k of
       Merger \<Rightarrow>
         (case ig_pending_merge_resolution (st_integration s) of
            None \<Rightarrow> (Inl (InvalidEffect NoPendingMergeResolution), w)
          | Some pending \<Rightarrow> resolve (MergeResolution (mr_task_id pending)) (po_resolve_merge_conflict po (mr_task_id pending) s w))
     | IntegrationReview \<Rightarrow> resolve IntegrationReviewed (po_integration_review po s w)
     | IntegrationFix \<Rightarrow> resolve IntegrationFixed (po_integration_fix po s w)
     | CiFix \<Rightarrow> resolve CiFixed (po_ci_fix po s w)
     | KnowledgeCurator \<Rightarrow> resolve KnowledgeCurated (po_curate_knowledge po s w)
     | _ \<Rightarrow> (Inl (InvalidEffect (NoIntegrationLeaf k)), w))"

definition publication_command :: "publication_result \<Rightarrow> processor_command" where
  "publication_command r =
    (case r of
       ResultPublished head pushed \<Rightarrow> processor_command.Published head pushed
     | ResultHold reason \<Rightarrow> PublicationAwaitingApproval reason
     | ResultRejected reason \<Rightarrow> PublicationRejected reason
     | ResultReanchor reason target \<Rightarrow> PublicationReanchorRequired reason target)"

definition reanchor_command :: "publication_reanchor_result \<Rightarrow> processor_command" where
  "reanchor_command r =
    (case r of ReanchorDone \<Rightarrow> PublicationReanchored | ReanchorFoundPublished head \<Rightarrow> processor_command.Published head True)"

fun run_effect :: "('w, 'e) port \<Rightarrow> effect \<Rightarrow> processor_state \<Rightarrow> ('w, 'e, effect_resolution) step" where
  "run_effect po (Reconcile i) s w =
    then_do (po_reconcile po i s w) PortFailed (\<lambda>r w.
      (Inr (case r of ReconcileCommand c \<Rightarrow> Reconciled c | ReconcileHold reason \<Rightarrow> HoldFor reason), w))"
| "run_effect po (ReconcileInbox n) s w = resolve (InboxReconciled n) (po_reconcile_inbox po s w)"
| "run_effect po ReconcileInboxFinalization s w =
    resolve InboxFinalizationReconciled (po_reconcile_inbox_finalization po s w)"
| "run_effect po (DispatchDependencyCurator b) s w =
    resolve (DependencyGraphRefreshed b) (po_refresh_dependency_graph po b s w)"
| "run_effect po (DispatchInboxCurator n m) s w = resolve (InboxCurated n m) (po_curate_inbox po m s w)"
| "run_effect po (DrainQueueInbox n) s w = resolve (\<lambda>_. InboxDrained n) (po_drain_queue_inbox po s w)"
| "run_effect po (PlanNextWave n) s w =
    then_do (po_plan_candidates po s n w) PortFailed (\<lambda>candidates w. resolve (Admit candidates) (po_now_secs po w))"
| "run_effect po (CheckTokenBudget call) s w =
    (case po_token_budget_observation po s w of
       (Inl _, w) \<Rightarrow> (Inr (ResolvedBy (TokenBudgetChecked call token_budget_observation.Unavailable)), w)
     | (Inr observation, w) \<Rightarrow> (Inr (ResolvedBy (TokenBudgetChecked call observation)), w))"
| "run_effect po (CheckCohortBudget call) s w = resolve (CohortBudgetChecked call) (po_now_secs po w)"
| "run_effect po (EnsureTaskWorkspace i branch) s w =
    (case po_ensure_task_workspace po i branch s w of
       (Inr _, w) \<Rightarrow> (Inr (ResolvedBy (WorkspaceReady i)), w)
     | (Inl e, w) \<Rightarrow> (Inr (ResolvedBy (WorkspaceFailed i (po_display po e))), w))"
| "run_effect po (PrepareTaskReview i) s w = resolve (TaskReviewPrepared i) (po_prepare_task_review po i s w)"
| "run_effect po (PrepareTaskLeaf i k) s w = resolve (TaskLeafPrepared i) (po_prepare_task_leaf po i k s w)"
| "run_effect po (DispatchTask i k) s w = dispatch_task po i k s w"
| "run_effect po (CommitTask i) s w = resolve (TaskCommitted i) (po_commit_task po i s w)"
| "run_effect po (PrepareIntegrationWorkspace branch) s w =
    resolve (\<lambda>_. IntegrationWorkspaceReady) (po_ensure_integration_workspace po branch s w)"
| "run_effect po (MergeTask i) s w = resolve (TaskMerged i) (po_merge_task po i s w)"
| "run_effect po (FinalizeMergeResolution i) s w =
    resolve (MergeResolutionFinalized i) (po_finalize_merge_resolution po i s w)"
| "run_effect po (AbortMergeResolution i reason) s w =
    resolve (\<lambda>_. MergeResolutionAborted i reason) (po_abort_merge_resolution po i s w)"
| "run_effect po (VerifyIntegration head) s w = resolve (IntegrationVerified head) (po_verify_integration po head s w)"
| "run_effect po (DispatchIntegration k) s w = dispatch_integration_leaf po k s w"
| "run_effect po CommitIntegrationFix s w = resolve IntegrationFixCommitted (po_commit_integration_fix po s w)"
| "run_effect po (Publish batch) s w = resolve publication_command (po_publish po batch s w)"
| "run_effect po (ReanchorPublication batch) s w = resolve reanchor_command (po_reanchor_publication po batch s w)"
| "run_effect po (VerifyCi head) s w = resolve CiVerified (po_verify_ci po head s w)"
| "run_effect po (Notify event subject) s w = acknowledged (po_notify po event subject w)"
| "run_effect po PrepareCiFix s w = resolve CiFixPrepared (po_prepare_ci_fix po s w)"
| "run_effect po CommitCiFix s w = resolve CiFixCommitted (po_commit_ci_fix po s w)"
| "run_effect po PrepareKnowledgeCuration s w =
    resolve KnowledgeCurationPrepared (po_prepare_knowledge_curation po s w)"
| "run_effect po PrepareArchival s w = resolve ArchivalPrepared (po_prepare_archival po s w)"
| "run_effect po (ReconfirmCiBeforeArchive head checks) s w =
    resolve (ArchiveCiReconfirmed head) (po_reconfirm_ci_before_archive po head checks s w)"
| "run_effect po (ReturnTask i reason) s w = acknowledged (po_return_task po i reason s w)"
| "run_effect po (EscalateTask i reason) s w = acknowledged (po_escalate_task po i reason s w)"
| "run_effect po (ArchiveTask i) s w = acknowledged (po_archive_task po i s w)"
| "run_effect po (CleanupTaskWorkspace i) s w = acknowledged (po_cleanup_task_workspace po i s w)"
| "run_effect po CleanupIntegrationWorkspace s w = acknowledged (po_cleanup_integration_workspace po s w)"
| "run_effect po CleanupCohortControlPlane s w = acknowledged (po_cleanup_cohort_control_plane po s w)"
| "run_effect po WriteJournalAndStatus s w = acknowledged (po_write_journal_and_status po s w)"
| "run_effect po ReleaseLease s w = acknowledged (po_release_lease po w)"
| "run_effect po PersistCheckpoint s w = (Inl (InvalidEffect MarkerLeaked), w)"
| "run_effect po (WaitForOperator reason) s w = (Inl (InvalidEffect MarkerLeaked), w)"

definition execute :: "('w, 'e) executor \<Rightarrow> effect \<Rightarrow> processor_state \<Rightarrow> ('w, 'e, effect_resolution) step" where
  "execute x e s = while_owner x (run_effect (ex_port x) e s)"

fun task_effects_of :: "effect list \<Rightarrow> effect + task_effect list" where
  "task_effects_of [] = Inr []"
| "task_effects_of (e # es) =
    (case task_effect_of e of
       None \<Rightarrow> Inl e
     | Some t \<Rightarrow> (case task_effects_of es of Inl e \<Rightarrow> Inl e | Inr ts \<Rightarrow> Inr (t # ts)))"

fun into_resolutions :: "task_effect list \<Rightarrow> task_effect_result list \<Rightarrow> invalid_effect + effect_resolution list" where
  "into_resolutions (t # ts) (r # rs) =
    (case into_resolution t r of
       Inl e \<Rightarrow> Inl e
     | Inr a \<Rightarrow> (case into_resolutions ts rs of Inl e \<Rightarrow> Inl e | Inr as \<Rightarrow> Inr (a # as)))"
| "into_resolutions ts rs = Inr []"

definition execute_batch ::
    "('w, 'e) executor \<Rightarrow> effect list \<Rightarrow> processor_state \<Rightarrow> ('w, 'e, effect_resolution list) step" where
  "execute_batch x es s w =
    then_do (ensure_lease_active x w) id (\<lambda>_ w.
    (case task_effects_of es of
       Inl e \<Rightarrow> (Inl (InvalidEffect (NonTaskEffect e)), w)
     | Inr ts \<Rightarrow>
         then_do (po_execute_task_batch (ex_port x) ts s w) PortFailed (\<lambda>rs w.
           if length rs \<noteq> length ts then (Inl (InvalidEffect (BatchCount (length rs) (length ts))), w)
           else then_do (ensure_lease_active x w) id (\<lambda>_ w.
             (case into_resolutions ts rs of Inl e \<Rightarrow> (Inl (InvalidEffect e), w) | Inr as \<Rightarrow> (Inr as, w))))))"

section \<open>Observations of the scheduler\<close>

definition port_step :: "('e + 'a) \<times> 'w \<Rightarrow> ('e native_error + 'a) \<times> 'w" where
  "port_step x = then_do x PortFailed (\<lambda>a w. (Inr a, w))"

definition recovery_workspaces :: "('w, 'e) executor \<Rightarrow> processor_state \<Rightarrow> ('w, 'e, string list) step" where
  "recovery_workspaces x s = while_owner x (\<lambda>w. port_step (po_recovery_workspaces (ex_port x) s w))"

definition current_queue_readiness :: "('w, 'e) executor \<Rightarrow> ('w, 'e, queue_readiness) step" where
  "current_queue_readiness x = while_owner x (\<lambda>w. port_step (po_current_queue_readiness (ex_port x) w))"

definition wait_for_watch_interval :: "('w, 'e) executor \<Rightarrow> nat \<Rightarrow> ('w, 'e, unit) step" where
  "wait_for_watch_interval x n = while_owner x (\<lambda>w. port_step (po_wait_for_watch_interval (ex_port x) n w))"

definition now_secs :: "('w, 'e) executor \<Rightarrow> ('w, 'e, nat) step" where
  "now_secs x = while_owner x (\<lambda>w. port_step (po_now_secs (ex_port x) w))"

definition event_occurred_at :: "('w, 'e) executor \<Rightarrow> string \<Rightarrow> ('w, 'e, string) step" where
  "event_occurred_at x fallback = while_owner x (\<lambda>w. port_step (po_event_occurred_at (ex_port x) fallback w))"

definition pause_requested :: "('w, 'e) executor \<Rightarrow> ('w, 'e, bool) step" where
  "pause_requested x = while_owner x (\<lambda>w. port_step (po_pause_requested (ex_port x) w))"

definition write_pause_status :: "('w, 'e) executor \<Rightarrow> processor_state \<Rightarrow> ('w, 'e, unit) step" where
  "write_pause_status x s = while_owner x (\<lambda>w. port_step (po_write_pause_status (ex_port x) s w))"

text \<open>
  What the headless port answers to the inspection of an interrupted task; \<open>native_port.rs\<close> forwards it.
\<close>

definition headless_reconcile :: "string \<Rightarrow> processor_state \<Rightarrow> ('w, 'e, reconciliation) port_call" where
  "headless_reconcile i s w =
    (Inr (ReconcileHold (''recovery found managed workspace for '' @ i
       @ ''; inspect its persisted evidence before resuming'')), w)"

end
