(* ===== verification/Drive.thy ===== *)
theory Drive
  imports Native
begin

text \<open>
  The driver, \<open>src/engine/src/execution.rs\<close>: it executes the effects that a command returned, turns
  each resolution into a durable step of the runtime, and stops when the queue is empty, when an
  effect is held, or at its step limit. The executor is a record of its operations over a world
  \<open>'w\<close>; the clocks and the faults of the disk are observations of that world.
\<close>

record ('w, 'x) effect_executor =
  ef_event_occurred_at :: "string \<Rightarrow> 'w \<Rightarrow> ('x + string) \<times> 'w"
  ef_execute :: "effect \<Rightarrow> processor_state \<Rightarrow> 'w \<Rightarrow> ('x + effect_resolution) \<times> 'w"
  ef_take_leaf_session :: "string \<Rightarrow> 'w \<Rightarrow> leaf_session_update option \<times> 'w"
  ef_execute_batch :: "effect list \<Rightarrow> processor_state \<Rightarrow> 'w \<Rightarrow> ('x + effect_resolution list) \<times> 'w"

definition native_executor :: "('w, 'e) executor \<Rightarrow> ('w, 'e native_error) effect_executor" where
  "native_executor x =
    \<lparr>ef_event_occurred_at = event_occurred_at x, ef_execute = execute x,
     ef_take_leaf_session = po_take_leaf_session (ex_port x), ef_execute_batch = execute_batch x\<rparr>"

record 'w surroundings =
  su_faults :: "'w \<Rightarrow> faults \<times> 'w"
  su_wall_epoch_millis :: "'w \<Rightarrow> nat \<times> 'w"
  su_monotonic_millis :: "'w \<Rightarrow> nat \<times> 'w"

record drive_report =
  dr_completed_steps :: nat
  dr_held :: "string option"

text \<open>The messages of \<open>InvalidResolution\<close>, by name.\<close>

datatype invalid_resolution =
  OnlyReconcileReconciles | ReconciledWithoutMutation | ReconciledOtherTask | InformationalEffect | NeedsCommand

datatype 'x drive_error =
  RuntimeFailed runtime_error | ExecutorFailed 'x | WrongAcknowledgement effect "string option" "string option"
| InvalidResolution effect invalid_resolution | BatchResolutionCount nat nat | StepLimit nat

section \<open>Classes of effects\<close>

definition leaf_session_task_id :: "effect \<Rightarrow> string option" where
  "leaf_session_task_id e =
    (case e of PrepareTaskLeaf i _ \<Rightarrow> Some i | PrepareTaskReview i \<Rightarrow> Some i | DispatchTask i _ \<Rightarrow> Some i | _ \<Rightarrow> None)"

definition is_task_leaf_effect :: "effect \<Rightarrow> bool" where
  "is_task_leaf_effect e =
    (case e of PrepareTaskLeaf _ _ \<Rightarrow> True | PrepareTaskReview _ \<Rightarrow> True | DispatchTask _ _ \<Rightarrow> True | _ \<Rightarrow> False)"

definition acknowledgement_only_effect :: "effect \<Rightarrow> bool" where
  "acknowledgement_only_effect e =
    (case e of
       Notify _ _ \<Rightarrow> True | ReturnTask _ _ \<Rightarrow> True | EscalateTask _ _ \<Rightarrow> True | ArchiveTask _ \<Rightarrow> True
     | CleanupTaskWorkspace _ \<Rightarrow> True | CleanupIntegrationWorkspace \<Rightarrow> True | CleanupCohortControlPlane \<Rightarrow> True
     | WriteJournalAndStatus \<Rightarrow> True | ReleaseLease \<Rightarrow> True | _ \<Rightarrow> False)"

definition reconciliation_matches_task :: "effect \<Rightarrow> processor_command \<Rightarrow> bool" where
  "reconciliation_matches_task e c =
    (case e of
       Reconcile i \<Rightarrow>
         (case c of
            WorkspaceReady j \<Rightarrow> j = i | WorkspaceFailed j _ \<Rightarrow> j = i | TaskLeafPrepared j _ \<Rightarrow> j = i
          | TaskLeaf j _ \<Rightarrow> j = i | TaskCommitted j _ \<Rightarrow> j = i | TaskReviewPrepared j _ \<Rightarrow> j = i
          | TaskReview j _ \<Rightarrow> j = i | _ \<Rightarrow> False)
     | _ \<Rightarrow> False)"

definition operator_reason :: "effect \<Rightarrow> string option" where
  "operator_reason e = (case e of WaitForOperator reason \<Rightarrow> Some reason | _ \<Rightarrow> None)"

text \<open>The id that orders a batch; the other effects never enter one.\<close>

definition task_effect_id :: "effect \<Rightarrow> string" where
  "task_effect_id e = (case leaf_session_task_id e of Some i \<Rightarrow> i | None \<Rightarrow> [])"

fun batch_scan :: "effect list \<Rightarrow> string set \<Rightarrow> effect list \<Rightarrow> nat \<Rightarrow> nat \<Rightarrow> effect list \<times> nat \<times> nat" where
  "batch_scan [] ids es consumed markers = (es, consumed, markers)"
| "batch_scan (e # queue) ids es consumed markers =
    (if e = PersistCheckpoint then batch_scan queue ids es (consumed + 1) (markers + 1)
     else (case leaf_session_task_id e of
       None \<Rightarrow> (es, consumed, markers)
     | Some i \<Rightarrow>
         (if i \<in> ids then (es, consumed, markers)
          else batch_scan queue (insert i ids) (es @ [e]) (consumed + 1) markers)))"

definition task_batch_at_front :: "effect list \<Rightarrow> (effect list \<times> nat \<times> nat) option" where
  "task_batch_at_front queue =
    (case batch_scan queue {} [] 0 0 of
       (es, consumed, markers) \<Rightarrow>
         if length es \<ge> 2 then Some (sort_key task_effect_id es, consumed, markers) else None)"

section \<open>One resolution\<close>

definition elapsed_millis :: "'w surroundings \<Rightarrow> nat \<Rightarrow> 'w \<Rightarrow> nat \<times> 'w" where
  "elapsed_millis su started w =
    (case su_monotonic_millis su w of (now, w) \<Rightarrow> (min (now - started) u64_max, w))"

text \<open>The two wall clocks and the monotonic clock around some work.\<close>

definition timed :: "'w surroundings \<Rightarrow> ('w \<Rightarrow> ('x + 'a) \<times> 'w) \<Rightarrow> 'w \<Rightarrow> ('x + 'a \<times> operation_timing) \<times> 'w" where
  "timed su work w =
    (case su_wall_epoch_millis su w of (started_at, w) \<Rightarrow>
     case su_monotonic_millis su w of (started, w) \<Rightarrow>
     case work w of
       (Inl err, w) \<Rightarrow> (Inl err, w)
     | (Inr a, w) \<Rightarrow>
        (case elapsed_millis su started w of (duration, w) \<Rightarrow>
         case su_wall_epoch_millis su w of (ended_at, w) \<Rightarrow>
           (Inr (a, \<lparr>ot_started_at = epoch_millis_to_iso started_at, ot_ended_at = epoch_millis_to_iso ended_at,
                    ot_duration_ms = duration\<rparr>), w)))"

type_synonym ('d, 'w, 'x, 'a) drive_step = "('x drive_error + 'a) \<times> 'd runtime \<times> 'w"

definition with_runtime ::
    "(runtime_error + 'a) \<times> 'd runtime \<Rightarrow> 'w \<Rightarrow> ('a \<Rightarrow> 'd runtime \<Rightarrow> 'w \<Rightarrow> ('d, 'w, 'x, 'b) drive_step)
     \<Rightarrow> ('d, 'w, 'x, 'b) drive_step" where
  "with_runtime y w k = (case y of (Inl e, r) \<Rightarrow> (Inl (RuntimeFailed e), r, w) | (Inr a, r) \<Rightarrow> k a r w)"

definition apply_at ::
    "'d runtime_env \<Rightarrow> 'w surroundings \<Rightarrow> processor_command \<Rightarrow> string \<Rightarrow> (effect \<times> operation_timing) option
     \<Rightarrow> 'd runtime \<Rightarrow> 'w \<Rightarrow> ((runtime_error + effect list) \<times> 'd runtime) \<times> 'w" where
  "apply_at env su c at operation r w =
    (case su_faults su w of (f, w) \<Rightarrow> (apply_internal env f c at operation r, w))"

definition acknowledge_at ::
    "'w surroundings \<Rightarrow> effect \<Rightarrow> 'd runtime \<Rightarrow> 'w \<Rightarrow> ((runtime_error + unit) \<times> 'd runtime) \<times> 'w" where
  "acknowledge_at su e r w = (case su_faults su w of (f, w) \<Rightarrow> (acknowledge_effect (fa_save f) e r, w))"

definition record_session_at ::
    "'w surroundings \<Rightarrow> string \<Rightarrow> leaf_session_update \<Rightarrow> 'd runtime \<Rightarrow> 'w \<Rightarrow> ((runtime_error + unit) \<times> 'd runtime) \<times> 'w" where
  "record_session_at su i u r w = (case su_faults su w of (f, w) \<Rightarrow> (record_session (fa_save f) i u r, w))"

definition ensure_matching_command :: "'d runtime \<Rightarrow> effect \<Rightarrow> processor_command \<Rightarrow> 'x drive_error + unit" where
  "ensure_matching_command r e c =
    (case acknowledgement_key (rt_processor r) c of
       Inl err \<Rightarrow> Inl (RuntimeFailed (ProcessorFailed err))
     | Inr actual \<Rightarrow>
         if effect_key e \<noteq> actual then Inl (WrongAcknowledgement e (effect_key e) actual) else Inr ())"

text \<open>The queue and, when the effect is held, the reason.\<close>

definition apply_resolution ::
    "'d runtime_env \<Rightarrow> 'w surroundings \<Rightarrow> effect \<Rightarrow> effect_resolution \<Rightarrow> string \<Rightarrow> operation_timing
     \<Rightarrow> effect list \<Rightarrow> 'd runtime \<Rightarrow> 'w \<Rightarrow> ('d, 'w, 'x, effect list \<times> string option) drive_step" where
  "apply_resolution env su e resolution at timing queue r w =
    (case resolution of
       ResolvedBy c \<Rightarrow>
         (case ensure_matching_command r e c of
            Inl err \<Rightarrow> (Inl err, r, w)
          | Inr _ \<Rightarrow>
              (case apply_at env su c at (Some (e, timing)) r w of (y, w) \<Rightarrow>
                 with_runtime y w (\<lambda>es r w. (Inr (queue @ es, None), r, w))))
     | Reconciled c \<Rightarrow>
         (if (case e of Reconcile _ \<Rightarrow> False | _ \<Rightarrow> True) then (Inl (InvalidResolution e OnlyReconcileReconciles), r, w)
          else (case acknowledgement_key (rt_processor r) c of
            Inl err \<Rightarrow> (Inl (RuntimeFailed (ProcessorFailed err)), r, w)
          | Inr None \<Rightarrow> (Inl (InvalidResolution e ReconciledWithoutMutation), r, w)
          | Inr (Some _) \<Rightarrow>
              (if \<not> reconciliation_matches_task e c then (Inl (InvalidResolution e ReconciledOtherTask), r, w)
               else (case apply_at env su c at None r w of (y, w) \<Rightarrow>
                 with_runtime y w (\<lambda>es r w.
                   (case acknowledge_at su e r w of (y, w) \<Rightarrow>
                     with_runtime y w (\<lambda>_ r w. (Inr (queue @ es, None), r, w))))))))
     | Acknowledge \<Rightarrow>
         (if effect_key e = None then (Inl (InvalidResolution e InformationalEffect), r, w)
          else if \<not> acknowledgement_only_effect e then (Inl (InvalidResolution e NeedsCommand), r, w)
          else (case acknowledge_at su e r w of (y, w) \<Rightarrow>
            with_runtime y w (\<lambda>_ r w. (Inr (queue, None), r, w))))
     | HoldFor reason \<Rightarrow> (Inr (queue, Some reason), r, w))"

section \<open>Sessions\<close>

definition record_leaf_session_of ::
    "'w surroundings \<Rightarrow> ('w, 'x) effect_executor \<Rightarrow> effect \<Rightarrow> 'd runtime \<Rightarrow> 'w \<Rightarrow> ('d, 'w, 'x, unit) drive_step" where
  "record_leaf_session_of su x e r w =
    (case leaf_session_task_id e of
       None \<Rightarrow> (Inr (), r, w)
     | Some i \<Rightarrow>
         (case ef_take_leaf_session x i w of
            (None, w) \<Rightarrow> (Inr (), r, w)
          | (Some u, w) \<Rightarrow>
              (case record_session_at su i u r w of (y, w) \<Rightarrow> with_runtime y w (\<lambda>_ r w. (Inr (), r, w)))))"

fun forget_staged_leaf_sessions ::
    "'w surroundings \<Rightarrow> ('w, 'x) effect_executor \<Rightarrow> effect list \<Rightarrow> 'd runtime \<Rightarrow> 'w \<Rightarrow> 'd runtime \<times> 'w" where
  "forget_staged_leaf_sessions su x [] r w = (r, w)"
| "forget_staged_leaf_sessions su x (e # es) r w =
    (case leaf_session_task_id e of
       None \<Rightarrow> forget_staged_leaf_sessions su x es r w
     | Some i \<Rightarrow>
         (case ef_take_leaf_session x i w of
            (Some (Invalidated key), w) \<Rightarrow>
              (case record_session_at su i (Invalidated key) r w of
                 ((_, r), w) \<Rightarrow> forget_staged_leaf_sessions su x es r w)
          | (_, w) \<Rightarrow> forget_staged_leaf_sessions su x es r w))"

section \<open>The loop\<close>

text \<open>The results of a batch in the order of its effects; the number of applied ones is returned with the queue.\<close>

fun apply_batch ::
    "'d runtime_env \<Rightarrow> 'w surroundings \<Rightarrow> ('w, 'x) effect_executor \<Rightarrow> string \<Rightarrow> operation_timing
     \<Rightarrow> effect list \<Rightarrow> effect_resolution list \<Rightarrow> nat \<Rightarrow> effect list \<Rightarrow> 'd runtime \<Rightarrow> 'w
     \<Rightarrow> ('d, 'w, 'x, effect list \<times> nat \<times> string option) drive_step" where
  "apply_batch env su x at timing (e # es) (a # as) n queue r w =
    (case record_leaf_session_of su x e r w of
       (Inl err, r, w) \<Rightarrow> (Inl err, r, w)
     | (Inr _, r, w) \<Rightarrow>
         (case apply_resolution env su e a at timing queue r w of
            (Inl err, r, w) \<Rightarrow> (Inl err, r, w)
          | (Inr (queue, Some reason), r, w) \<Rightarrow> (Inr (queue, n + 1, Some reason), r, w)
          | (Inr (queue, None), r, w) \<Rightarrow> apply_batch env su x at timing es as (n + 1) queue r w))"
| "apply_batch env su x at timing es as n queue r w = (Inr (queue, n, None), r, w)"

definition drive_batch ::
    "'d runtime_env \<Rightarrow> 'w surroundings \<Rightarrow> ('w, 'x) effect_executor \<Rightarrow> string \<Rightarrow> effect list
     \<Rightarrow> effect list \<Rightarrow> 'd runtime \<Rightarrow> 'w \<Rightarrow> ('d, 'w, 'x, effect list \<times> nat \<times> string option) drive_step" where
  "drive_batch env su x at es queue r w =
    (case timed su (ef_execute_batch x es (pr_state (rt_processor r))) w of
       (Inl err, w) \<Rightarrow>
         (case forget_staged_leaf_sessions su x es r w of (r, w) \<Rightarrow> (Inl (ExecutorFailed err), r, w))
     | (Inr (as, timing), w) \<Rightarrow>
         (if length as \<noteq> length es then (Inl (BatchResolutionCount (length es) (length as)), r, w)
          else (case ef_event_occurred_at x at w of
            (Inl err, w) \<Rightarrow> (Inl (ExecutorFailed err), r, w)
          | (Inr at, w) \<Rightarrow> apply_batch env su x at timing es as 0 queue r w)))"

definition drive_single ::
    "'d runtime_env \<Rightarrow> 'w surroundings \<Rightarrow> ('w, 'x) effect_executor \<Rightarrow> string \<Rightarrow> effect
     \<Rightarrow> effect list \<Rightarrow> 'd runtime \<Rightarrow> 'w \<Rightarrow> ('d, 'w, 'x, effect list \<times> string option) drive_step" where
  "drive_single env su x at e queue r w =
    (case timed su (ef_execute x e (pr_state (rt_processor r))) w of
       (Inl err, w) \<Rightarrow>
         (case forget_staged_leaf_sessions su x [e] r w of (r, w) \<Rightarrow> (Inl (ExecutorFailed err), r, w))
     | (Inr (a, timing), w) \<Rightarrow>
         (case ef_event_occurred_at x at w of
            (Inl err, w) \<Rightarrow> (Inl (ExecutorFailed err), r, w)
          | (Inr at, w) \<Rightarrow>
              (case record_leaf_session_of su x e r w of
                 (Inl err, r, w) \<Rightarrow> (Inl err, r, w)
               | (Inr _, r, w) \<Rightarrow> apply_resolution env su e a at timing queue r w)))"

lemma task_batch_long: "task_batch_at_front queue = Some (es, consumed, markers) \<Longrightarrow> 2 \<le> length es"
  by (auto simp: task_batch_at_front_def split: prod.splits if_splits)

function drive ::
    "'d runtime_env \<Rightarrow> 'w surroundings \<Rightarrow> ('w, 'x) effect_executor \<Rightarrow> string \<Rightarrow> nat
     \<Rightarrow> effect list \<Rightarrow> nat \<Rightarrow> 'd runtime \<Rightarrow> 'w \<Rightarrow> ('d, 'w, 'x, drive_report) drive_step" where
  "drive env su x at limit queue done r w =
    (case queue of
       [] \<Rightarrow> (Inr \<lparr>dr_completed_steps = done, dr_held = None\<rparr>, r, w)
     | e # rest \<Rightarrow>
        (if done \<ge> limit then (Inl (StepLimit limit), r, w)
         else (case (if is_task_leaf_effect e then task_batch_at_front queue else None) of
           Some (es, consumed, markers) \<Rightarrow>
             (if done + consumed > limit then (Inl (StepLimit limit), r, w)
              else (case drive_batch env su x at es (drop consumed queue) r w of
                (Inl err, r, w) \<Rightarrow> (Inl err, r, w)
              | (Inr (queue, n, Some reason), r, w) \<Rightarrow>
                  (Inr \<lparr>dr_completed_steps = done + markers + n, dr_held = Some reason\<rparr>, r, w)
              | (Inr (queue, n, None), r, w) \<Rightarrow>
                  drive env su x at limit queue (done + markers + length es) r w))
         | None \<Rightarrow>
             (if e = PersistCheckpoint then drive env su x at limit rest (done + 1) r w
              else (case operator_reason e of
                Some reason \<Rightarrow> (Inr \<lparr>dr_completed_steps = done, dr_held = Some reason\<rparr>, r, w)
              | None \<Rightarrow>
                  (case drive_single env su x at e rest r w of
                     (Inl err, r, w) \<Rightarrow> (Inl err, r, w)
                   | (Inr (queue, Some reason), r, w) \<Rightarrow>
                       (Inr \<lparr>dr_completed_steps = done, dr_held = Some reason\<rparr>, r, w)
                   | (Inr (queue, None), r, w) \<Rightarrow> drive env su x at limit queue (done + 1) r w))))))"
  by pat_completeness auto
termination
  by (relation "measure (\<lambda>(env, su, x, at, limit, queue, done, r, w). limit - done)")
    (auto dest!: task_batch_long split: if_splits)

declare drive.simps [simp del]

end
