(* ===== verification/NativeLoop.thy ===== *)
theory NativeLoop
  imports Drive
begin

text \<open>
  The turn scheduler, \<open>src/engine/src/native_loop.rs\<close>: the recovery turn, the rolling and the
  cleaning turn, successive cohorts, and the waiting of \<open>--watch\<close>. Loops that another process
  can keep alive return an option: \<open>None\<close> is not returning. Durations are nanoseconds.
\<close>

record loop_config =
  lp_batch_id :: string
  lp_base :: string
  lp_occurred_at :: string
  lp_max_turns :: nat
  lp_max_effects_per_turn :: nat

text \<open>The reasons of a hold: a text of the driver or the reducer, or a message by its arguments.\<close>

datatype hold_reason =
  HoldText string | HoldPaused phase | HoldPausedWatching phase | HoldInspection string effect
| HoldPhase phase | HoldNoEffect phase

datatype loop_outcome =
  LoopCompleted | LoopHeld hold_reason | LoopIdle | LoopEscalated nat | WatchStopped nat

datatype 'e loop_error =
  LoopRuntime runtime_error | LoopPort "'e native_error" | LoopDrive "'e native_error drive_error"
| TurnLimit nat | WatchStopUnobservable string

type_synonym ('d, 'w, 'e, 'a) loop_step = "('e loop_error + 'a) \<times> 'd runtime \<times> 'w"

definition observing ::
    "('e native_error + 'a) \<times> 'w \<Rightarrow> 'd runtime \<Rightarrow> ('a \<Rightarrow> 'w \<Rightarrow> ('d, 'w, 'e, 'b) loop_step) \<Rightarrow> ('d, 'w, 'e, 'b) loop_step" where
  "observing y r k = (case y of (Inl err, w) \<Rightarrow> (Inl (LoopPort err), r, w) | (Inr a, w) \<Rightarrow> k a w)"

section \<open>Recovery\<close>

definition inspection_recovery_hold :: "(effect \<Rightarrow> bool) \<Rightarrow> 'd runtime \<Rightarrow> hold_reason option" where
  "inspection_recovery_hold safe r =
    (case List.map_filter (\<lambda>q. case q of
            InspectBeforeContinuing key e \<Rightarrow> if safe e then None else Some (HoldInspection key e)
          | RetryIdempotently _ _ \<Rightarrow> None) (recovery_requirements r) of
       [] \<Rightarrow> None | h # _ \<Rightarrow> Some h)"

definition replayable_recovery_effects_for :: "(effect \<Rightarrow> bool) \<Rightarrow> 'd runtime \<Rightarrow> effect list" where
  "replayable_recovery_effects_for safe r =
    (let effects = List.map_filter (\<lambda>q. case q of
             RetryIdempotently _ e \<Rightarrow> Some e
           | InspectBeforeContinuing _ e \<Rightarrow> if safe e then Some e else None) (recovery_requirements r);
         superseding = List.map_filter retry_safe_task effects
     in filter (\<lambda>e. case e of Reconcile i \<Rightarrow> i \<notin> set superseding | _ \<Rightarrow> True) effects)"

definition is_cleanup_projection :: "effect \<Rightarrow> bool" where
  "is_cleanup_projection e \<longleftrightarrow> e = WriteJournalAndStatus \<or> e = PrepareArchival"

definition own_replay_proof :: "effect \<Rightarrow> bool" where
  "own_replay_proof e = (case e of ReleaseLease \<Rightarrow> True | Notify _ _ \<Rightarrow> True | _ \<Rightarrow> False)"

fun replace_first :: "'a \<Rightarrow> 'a \<Rightarrow> 'a list \<Rightarrow> 'a list" where
  "replace_first a b [] = []"
| "replace_first a b (x # xs) = (if x = a then b # xs else x # replace_first a b xs)"

definition activate_effect ::
    "'w surroundings \<Rightarrow> effect \<Rightarrow> effect list \<Rightarrow> 'd runtime \<Rightarrow> 'w
     \<Rightarrow> (runtime_error + effect list) \<times> 'd runtime \<times> 'w" where
  "activate_effect su replay effects r w =
    (if replay \<in> set effects then (Inr effects, r, w)
     else if own_replay_proof replay then (Inr (effects @ [replay]), r, w)
     else if replay = PrepareKnowledgeCuration then
       (let reconstructed = filter is_cleanup_projection effects in
        if length reconstructed \<noteq> 2 \<or> list_ex (\<lambda>e. e \<noteq> PersistCheckpoint \<and> \<not> is_cleanup_projection e) effects
        then (Inl (CorruptRuntime ''knowledge preflight replay encountered an unexpected Phase-0 cleanup projection: {}''
               (map MsgEffect effects)), r, w)
        else (case su_faults su w of (f, w) \<Rightarrow>
          (case supersede_recovery_effects_with_pending (fa_save f) replay reconstructed r of
             (Inl e, r) \<Rightarrow> (Inl e, r, w)
           | (Inr _, r) \<Rightarrow> (Inr (filter (\<lambda>e. e \<notin> set reconstructed) effects @ [replay]), r, w))))
     else (case retry_safe_task replay of
       None \<Rightarrow>
         (Inl (CorruptRuntime ''retry-idempotent effect was not reproduced by Phase 0: {}'' [MsgEffect replay]), r, w)
     | Some i \<Rightarrow>
         (if Reconcile i \<notin> set effects
          then (Inl (CorruptRuntime ''replayable task effect for {} has no Phase-0 reconciliation'' [MsgStr i]), r, w)
          else (case su_faults su w of (f, w) \<Rightarrow>
            (case supersede_reconcile_with_pending_task_effect (fa_save f) replay r of
               (Inl e, r) \<Rightarrow> (Inl e, r, w)
             | (Inr _, r) \<Rightarrow> (Inr (replace_first (Reconcile i) replay effects), r, w))))))"

fun activate_recovery_effects ::
    "'w surroundings \<Rightarrow> effect list \<Rightarrow> effect list \<Rightarrow> 'd runtime \<Rightarrow> 'w
     \<Rightarrow> (runtime_error + effect list) \<times> 'd runtime \<times> 'w" where
  "activate_recovery_effects su [] effects r w = (Inr effects, r, w)"
| "activate_recovery_effects su (replay # rest) effects r w =
    (case activate_effect su replay effects r w of
       (Inl e, r, w) \<Rightarrow> (Inl e, r, w)
     | (Inr effects, r, w) \<Rightarrow> activate_recovery_effects su rest effects r w)"

definition add_workspaces :: "effect list \<Rightarrow> string list \<Rightarrow> string list" where
  "add_workspaces replayable present =
    foldl (\<lambda>present e. case e of EnsureTaskWorkspace i _ \<Rightarrow> List.insert i present | _ \<Rightarrow> present) present replayable"

section \<open>One turn\<close>

text \<open>What a turn does: return, or run a command with the effects to replay.\<close>

datatype turn = Return loop_outcome | Run bool processor_command "effect list"

definition turn_of ::
    "('w, 'e) executor \<Rightarrow> loop_config \<Rightarrow> bool \<Rightarrow> 'd runtime \<Rightarrow> 'w \<Rightarrow> ('d, 'w, 'e, turn) loop_step" where
  "turn_of x cfg opened r w =
    (let s = pr_state (rt_processor r); phase = st_phase s in
     if phase = phase.Recovery then
       (case inspection_recovery_hold (interrupted_effect_retry_safe x) r of
          Some reason \<Rightarrow> (Inr (Return (LoopHeld reason)), r, w)
        | None \<Rightarrow>
            (let replayable = replayable_recovery_effects_for (interrupted_effect_retry_safe x) r in
             observing (recovery_workspaces x s w) r (\<lambda>present w.
               (Inr (Run opened (Recover (add_workspaces replayable present)) replayable), r, w))))
     else if phase = phase.Idle \<and> \<not> opened then
       observing (current_queue_readiness x w) r (\<lambda>readiness w.
         (case readiness of
            QueueExhausted n \<Rightarrow> (Inr (Return (if n = 0 then LoopIdle else LoopEscalated n)), r, w)
          | QueuePending \<Rightarrow>
              observing (now_secs x w) r (\<lambda>now w.
                (Inr (Run True (Open (lp_batch_id cfg) (lp_base cfg) now) []), r, w))))
     else if phase = phase.Idle then (Inr (Return LoopCompleted), r, w)
     else if phase = phase.Rolling \<and> rt_pending r = [] then
       observing (now_secs x w) r (\<lambda>now w. (Inr (Run opened (Advance now) []), r, w))
     else if phase = phase.Cleaning \<and> rt_pending r = [] then (Inr (Run opened CleanupComplete []), r, w)
     else if phase = phase.Paused \<or> phase = phase.Blocked then
       (Inr (Return (LoopHeld (case st_blocked_reason s of Some reason \<Rightarrow> HoldText reason | None \<Rightarrow> HoldPhase phase))), r, w)
     else (Inr (Return (LoopHeld (HoldNoEffect phase))), r, w))"

definition run_and_drive ::
    "'d runtime_env \<Rightarrow> 'w surroundings \<Rightarrow> ('w, 'e) executor \<Rightarrow> string \<Rightarrow> nat \<Rightarrow> processor_command \<Rightarrow> effect list
     \<Rightarrow> 'd runtime \<Rightarrow> 'w \<Rightarrow> ('d, 'w, 'e, drive_report) loop_step" where
  "run_and_drive env su x at limit c replayable r w =
    observing (event_occurred_at x at w) r (\<lambda>event_at w.
    (case apply_at env su c event_at None r w of
       ((Inl e, r), w) \<Rightarrow> (Inl (LoopRuntime e), r, w)
     | ((Inr effects, r), w) \<Rightarrow>
         (case activate_recovery_effects su replayable effects r w of
            (Inl e, r, w) \<Rightarrow> (Inl (LoopRuntime e), r, w)
          | (Inr effects, r, w) \<Rightarrow>
              (case drive env su (native_executor x) at limit effects 0 r w of
                 (Inl e, r, w) \<Rightarrow> (Inl (LoopDrive e), r, w)
               | (Inr report, r, w) \<Rightarrow> (Inr report, r, w)))))"

definition with_pause_gate ::
    "('w, 'e) executor \<Rightarrow> (phase \<Rightarrow> 'a) \<Rightarrow> ('d runtime \<Rightarrow> 'w \<Rightarrow> ('d, 'w, 'e, 'a) loop_step)
     \<Rightarrow> 'd runtime \<Rightarrow> 'w \<Rightarrow> ('d, 'w, 'e, 'a) loop_step" where
  "with_pause_gate x held k r w =
    observing (pause_requested x w) r (\<lambda>paused w.
      if paused then
        observing (write_pause_status x (pr_state (rt_processor r)) w) r (\<lambda>_ w.
          (Inr (held (st_phase (pr_state (rt_processor r)))), r, w))
      else k r w)"

text \<open>The turns that are left, and whether a cohort is known to have been opened.\<close>

fun run_turns ::
    "'d runtime_env \<Rightarrow> 'w surroundings \<Rightarrow> ('w, 'e) executor \<Rightarrow> loop_config \<Rightarrow> nat \<Rightarrow> bool
     \<Rightarrow> 'd runtime \<Rightarrow> 'w \<Rightarrow> ('d, 'w, 'e, loop_outcome) loop_step" where
  "run_turns env su x cfg 0 opened r w = (Inl (TurnLimit (lp_max_turns cfg)), r, w)"
| "run_turns env su x cfg (Suc n) opened r w =
    observing (ensure_lease_active x w) r (\<lambda>_ w.
    with_pause_gate x (\<lambda>phase. LoopHeld (HoldPaused phase)) (\<lambda>r w.
      (case turn_of x cfg opened r w of
         (Inl e, r, w) \<Rightarrow> (Inl e, r, w)
       | (Inr (Return out), r, w) \<Rightarrow> (Inr out, r, w)
       | (Inr (Run opened c replayable), r, w) \<Rightarrow>
           (case run_and_drive env su x (lp_occurred_at cfg) (lp_max_effects_per_turn cfg) c replayable r w of
              (Inl e, r, w) \<Rightarrow> (Inl e, r, w)
            | (Inr report, r, w) \<Rightarrow>
                (case dr_held report of
                   Some reason \<Rightarrow> (Inr (LoopHeld (HoldText reason)), r, w)
                 | None \<Rightarrow> run_turns env su x cfg n opened r w)))) r w)"

definition run_until_idle ::
    "'d runtime_env \<Rightarrow> 'w surroundings \<Rightarrow> ('w, 'e) executor \<Rightarrow> loop_config
     \<Rightarrow> 'd runtime \<Rightarrow> 'w \<Rightarrow> ('d, 'w, 'e, loop_outcome) loop_step" where
  "run_until_idle env su x cfg r w =
    run_turns env su x cfg (lp_max_turns cfg) (st_batch (pr_state (rt_processor r)) \<noteq> None) r w"

section \<open>Explicit commands\<close>

definition run_command_now ::
    "'d runtime_env \<Rightarrow> 'w surroundings \<Rightarrow> ('w, 'e) executor \<Rightarrow> processor_command \<Rightarrow> string \<Rightarrow> nat
     \<Rightarrow> 'd runtime \<Rightarrow> 'w \<Rightarrow> ('d, 'w, 'e, nat \<times> hold_reason option) loop_step" where
  "run_command_now env su x c at limit r w =
    observing (ensure_lease_active x w) r (\<lambda>_ w.
    with_pause_gate x (\<lambda>phase. (0, Some (HoldPaused phase))) (\<lambda>r w.
      (let safe = interrupted_effect_retry_safe x;
           go = (\<lambda>c replayable. (case run_and_drive env su x at limit c replayable r w of
              (Inl e, r, w) \<Rightarrow> (Inl e, r, w)
            | (Inr report, r, w) \<Rightarrow> (Inr (dr_completed_steps report, map_option HoldText (dr_held report)), r, w)))
       in case c of
         Recover present \<Rightarrow>
           (case inspection_recovery_hold safe r of
              Some reason \<Rightarrow> (Inr (0, Some reason), r, w)
            | None \<Rightarrow>
                (let replayable = replayable_recovery_effects_for safe r
                 in go (Recover (add_workspaces replayable present)) replayable))
       | _ \<Rightarrow> go c [])) r w)"

section \<open>Successive cohorts\<close>

definition nothing_admitted :: string where
  "nothing_admitted =
    ''planner completed a fresh cohort without admitting a current-lane task while queue entries remain not-started''"

text \<open>What follows a completed cohort: return, or the next cohort.\<close>

definition after_cohort ::
    "'d runtime_env \<Rightarrow> 'w surroundings \<Rightarrow> ('w, 'e) executor \<Rightarrow> loop_config \<Rightarrow> bool
     \<Rightarrow> 'd runtime \<Rightarrow> 'w \<Rightarrow> ('d, 'w, 'e, loop_outcome option) loop_step" where
  "after_cohort env su x cfg resumed r w =
    observing (current_queue_readiness x w) r (\<lambda>readiness w.
      (case readiness of
         QueueExhausted n \<Rightarrow> (Inr (Some (if n = 0 then LoopCompleted else LoopEscalated n)), r, w)
       | QueuePending \<Rightarrow>
          (if \<not> resumed \<and> st_tasks (pr_state (rt_processor r)) = [] then
             (case run_command_now env su x (Block nothing_admitted) (lp_occurred_at cfg) (lp_max_effects_per_turn cfg) r w of
                (Inl e, r, w) \<Rightarrow> (Inl e, r, w)
              | (Inr (_, held), r, w) \<Rightarrow>
                  (Inr (Some (LoopHeld (case held of Some reason \<Rightarrow> reason | None \<Rightarrow> HoldText nothing_admitted))), r, w))
           else (Inr None, r, w))))"

definition next_cohort :: "string \<Rightarrow> nat \<Rightarrow> loop_config \<Rightarrow> loop_config" where
  "next_cohort first count cfg = cfg\<lparr>lp_batch_id := first @ ''-'' @ show_nat (sat_add32 count 1)\<rparr>"

partial_function (option) cohorts ::
    "'d runtime_env \<Rightarrow> 'w surroundings \<Rightarrow> ('w, 'e) executor \<Rightarrow> string \<Rightarrow> loop_config \<Rightarrow> nat
     \<Rightarrow> 'd runtime \<Rightarrow> 'w \<Rightarrow> ('d, 'w, 'e, loop_outcome) loop_step option" where
  "cohorts env su x first cfg count r w =
    (case run_until_idle env su x cfg r w of
       (Inl e, r', w') \<Rightarrow> Some (Inl e, r', w')
     | (Inr out, r', w') \<Rightarrow>
        (if out = LoopIdle then Some (Inr (if count = 0 then LoopIdle else LoopCompleted), r', w')
         else if out \<noteq> LoopCompleted then Some (Inr out, r', w')
         else (case after_cohort env su x cfg (st_batch (pr_state (rt_processor r)) \<noteq> None) r' w' of
           (Inl e, r'', w'') \<Rightarrow> Some (Inl e, r'', w'')
         | (Inr (Some out), r'', w'') \<Rightarrow> Some (Inr out, r'', w'')
         | (Inr None, r'', w'') \<Rightarrow>
             cohorts env su x first (next_cohort first (sat_add32 count 1) cfg) (sat_add32 count 1) r'' w'')))"

definition run_until_queue_exhausted ::
    "'d runtime_env \<Rightarrow> 'w surroundings \<Rightarrow> ('w, 'e) executor \<Rightarrow> loop_config
     \<Rightarrow> 'd runtime \<Rightarrow> 'w \<Rightarrow> ('d, 'w, 'e, loop_outcome) loop_step option" where
  "run_until_queue_exhausted env su x cfg r w = cohorts env su x (lp_batch_id cfg) cfg 0 r w"

section \<open>Watching\<close>

definition duration_max :: nat where "duration_max = 18446744073709551615999999999"

definition min_watch_poll_interval :: nat where "min_watch_poll_interval = 50000000"

record 'w watch_config =
  wc_initial_poll_interval :: nat
  wc_max_poll_interval :: nat
  wc_stop :: "('w \<Rightarrow> (string + bool) \<times> 'w) option"

datatype watch_wakeup = CurrentLaneWork | Stopped | WatchHeld hold_reason | WatchEscalated nat

definition next_interval :: "nat \<Rightarrow> nat \<Rightarrow> nat" where
  "next_interval max_interval interval = min (min (interval * 2) duration_max) max_interval"

definition stop_requested :: "('w \<Rightarrow> (string + bool) \<times> 'w) option \<Rightarrow> 'w \<Rightarrow> (string + bool) \<times> 'w" where
  "stop_requested stop w = (case stop of None \<Rightarrow> (Inr False, w) | Some check \<Rightarrow> check w)"

text \<open>One poll: the end of waiting, or go on.\<close>

definition poll_lane ::
    "('w, 'e) executor \<Rightarrow> ('w \<Rightarrow> (string + bool) \<times> 'w) option \<Rightarrow> nat
     \<Rightarrow> 'd runtime \<Rightarrow> 'w \<Rightarrow> ('d, 'w, 'e, watch_wakeup option) loop_step" where
  "poll_lane x stop interval r w =
    observing (ensure_lease_active x w) r (\<lambda>_ w.
    (case stop_requested stop w of
       (Inl message, w) \<Rightarrow> (Inl (WatchStopUnobservable message), r, w)
     | (Inr True, w) \<Rightarrow> (Inr (Some Stopped), r, w)
     | (Inr False, w) \<Rightarrow>
         with_pause_gate x (\<lambda>phase. Some (WatchHeld (HoldPausedWatching phase))) (\<lambda>r w.
           observing (wait_for_watch_interval x interval w) r (\<lambda>_ w.
           observing (current_queue_readiness x w) r (\<lambda>readiness w.
             (case readiness of
                QueuePending \<Rightarrow> (Inr (Some CurrentLaneWork), r, w)
              | QueueExhausted n \<Rightarrow> (Inr (if n = 0 then None else Some (WatchEscalated n)), r, w))))) r w))"

partial_function (option) wait_for_current_lane_work ::
    "('w, 'e) executor \<Rightarrow> ('w \<Rightarrow> (string + bool) \<times> 'w) option \<Rightarrow> nat \<Rightarrow> nat
     \<Rightarrow> 'd runtime \<Rightarrow> 'w \<Rightarrow> ('d, 'w, 'e, watch_wakeup) loop_step option" where
  "wait_for_current_lane_work x stop interval max_interval r w =
    (case poll_lane x stop interval r w of
       (Inl e, r', w') \<Rightarrow> Some (Inl e, r', w')
     | (Inr (Some wakeup), r', w') \<Rightarrow> Some (Inr wakeup, r', w')
     | (Inr None, r', w') \<Rightarrow>
         wait_for_current_lane_work x stop (next_interval max_interval interval) max_interval r' w')"

definition wave_outcome :: "watch_wakeup \<Rightarrow> nat \<Rightarrow> loop_outcome option" where
  "wave_outcome wakeup waves =
    (case wakeup of
       CurrentLaneWork \<Rightarrow> None | Stopped \<Rightarrow> Some (WatchStopped waves) | WatchHeld reason \<Rightarrow> Some (LoopHeld reason)
     | WatchEscalated n \<Rightarrow> Some (LoopEscalated n))"

partial_function (option) watch_waves ::
    "'d runtime_env \<Rightarrow> 'w surroundings \<Rightarrow> ('w, 'e) executor \<Rightarrow> loop_config \<Rightarrow> 'w watch_config \<Rightarrow> nat \<Rightarrow> nat
     \<Rightarrow> loop_config \<Rightarrow> nat \<Rightarrow> nat \<Rightarrow> 'd runtime \<Rightarrow> 'w \<Rightarrow> ('d, 'w, 'e, loop_outcome) loop_step option" where
  "watch_waves env su x cfg watch initial max_interval wave_cfg waves number r w =
    Option.bind (run_until_queue_exhausted env su x wave_cfg r w) (\<lambda>y.
      (case y of
         (Inl e, r, w) \<Rightarrow> Some (Inl e, r, w)
       | (Inr out, r, w) \<Rightarrow>
          (if out \<noteq> LoopCompleted \<and> out \<noteq> LoopIdle then Some (Inr out, r, w)
           else
             (let waves = (if out = LoopCompleted then sat_add64 waves 1 else waves) in
              Option.bind (wait_for_current_lane_work x (wc_stop watch) initial max_interval r w) (\<lambda>y.
                (case y of
                   (Inl e, r, w) \<Rightarrow> Some (Inl e, r, w)
                 | (Inr wakeup, r, w) \<Rightarrow>
                    (case wave_outcome wakeup waves of
                       Some out \<Rightarrow> Some (Inr out, r, w)
                     | None \<Rightarrow>
                        (case event_occurred_at x (lp_occurred_at cfg) w of
                           (Inl e, w) \<Rightarrow> Some (Inl (LoopPort e), r, w)
                         | (Inr at, w) \<Rightarrow>
                            watch_waves env su x cfg watch initial max_interval
                              (wave_cfg\<lparr>lp_batch_id := lp_batch_id cfg @ ''-w'' @ show_nat (sat_add32 number 1),
                                        lp_occurred_at := at\<rparr>)
                              waves (sat_add32 number 1) r w))))))))"

definition run_watching ::
    "'d runtime_env \<Rightarrow> 'w surroundings \<Rightarrow> ('w, 'e) executor \<Rightarrow> loop_config \<Rightarrow> 'w watch_config
     \<Rightarrow> 'd runtime \<Rightarrow> 'w \<Rightarrow> ('d, 'w, 'e, loop_outcome) loop_step option" where
  "run_watching env su x cfg watch r w =
    (let initial = max (wc_initial_poll_interval watch) min_watch_poll_interval;
         max_interval = max (wc_max_poll_interval watch) initial
     in watch_waves env su x cfg watch initial max_interval cfg 0 1 r w)"

end
