(* ===== verification/LoopInv.thy ===== *)
theory LoopInv
  imports EngineProps NativeLoop
begin

text \<open>
  The scheduler changes the runtime only through the operations of \<open>Runtime\<close>. The contract is a
  locale: whatever these five operations keep, the driver, every turn, the cohorts and the waiting
  loop keep, at every return, errors included.
\<close>

section \<open>Cases of the steps\<close>

lemma with_runtime_cases:
  assumes "with_runtime y w k = (z, r', w')"
  obtains (failed) e where "y = (Inl e, r')" "z = Inl (RuntimeFailed e)" "w' = w"
  | (went) a r where "y = (Inr a, r)" "k a r w = (z, r', w')"
  using assms by (auto simp: with_runtime_def split: prod.splits sum.splits)

lemma apply_resolution_cases:
  fixes y :: "'x drive_error + effect list \<times> string option"
  assumes "apply_resolution env su e a at timing queue r w = (y, r', w')"
  obtains (refused) "r' = r" "w' = w" "\<And>q. y \<noteq> Inr (q, None)"
  | (applied) c z where "a = ResolvedBy c" "ensure_matching_command r e c = (Inr () :: 'x drive_error + unit)"
      "apply_at env su c at (Some (e, timing)) r w = ((z, r'), w')"
      "y = (case z of Inl err \<Rightarrow> Inl (RuntimeFailed err) | Inr es \<Rightarrow> Inr (queue @ es, None))"
  | (half) c z i where "a = Reconciled c" "e = Reconcile i" "apply_at env su c at None r w = ((Inl z, r'), w')"
      "y = Inl (RuntimeFailed z)"
  | (reconciled) c es r1 w1 z i where "a = Reconciled c" "e = Reconcile i"
      "apply_at env su c at None r w = ((Inr es, r1), w1)" "acknowledge_at su e r1 w1 = ((z, r'), w')"
      "y = (case z of Inl err \<Rightarrow> Inl (RuntimeFailed err) | Inr _ \<Rightarrow> Inr (queue @ es, None))"
  | (acknowledged) z where "a = Acknowledge" "acknowledge_at su e r w = ((z, r'), w')"
      "y = (case z of Inl err \<Rightarrow> Inl (RuntimeFailed err) | Inr _ \<Rightarrow> Inr (queue, None))"
proof (cases a)
  case (ResolvedBy c)
  show thesis
  proof (cases "ensure_matching_command r e c :: 'x drive_error + unit")
    case (Inl err)
    then show thesis using assms refused by (auto simp: ResolvedBy apply_resolution_def)
  next
    case (Inr u)
    obtain z r1 w1 where z: "apply_at env su c at (Some (e, timing)) r w = ((z, r1), w1)" by (metis surj_pair)
    then have "r1 = r'" "w1 = w'" "y = (case z of Inl err \<Rightarrow> Inl (RuntimeFailed err) | Inr es \<Rightarrow> Inr (queue @ es, None))"
      using assms Inr by (auto simp: ResolvedBy apply_resolution_def with_runtime_def split: sum.splits)
    then show thesis using applied[OF ResolvedBy] Inr z by simp
  qed
next
  case (Reconciled c)
  show thesis
  proof (cases "(\<exists>i. e = Reconcile i) \<and> (\<exists>k. acknowledgement_key (rt_processor r) c = Inr (Some k)) \<and> reconciliation_matches_task e c")
    case True
    then obtain i where i: "e = Reconcile i" by blast
    obtain z r1 w1 where z: "apply_at env su c at None r w = ((z, r1), w1)" by (metis surj_pair)
    show thesis
    proof (cases z)
      case (Inl err)
      then show thesis
        using assms z True half[OF Reconciled i] by (auto simp: Reconciled apply_resolution_def with_runtime_def i)
    next
      case (Inr es)
      obtain z' r2 w2 where z': "acknowledge_at su e r1 w1 = ((z', r2), w2)" by (metis surj_pair)
      show thesis
        using assms z z' True reconciled[OF Reconciled i, of es r1 w1 z']
        by (auto simp: Reconciled apply_resolution_def with_runtime_def i Inr split: sum.splits)
    qed
  next
    case False
    have "r' = r \<and> w' = w \<and> (\<exists>err. y = Inl err)"
      using assms False
      by (cases e; cases "acknowledgement_key (rt_processor r) c")
        (auto simp: Reconciled apply_resolution_def split: option.splits if_splits)
    then show thesis using refused by blast
  qed
next
  case Acknowledge
  obtain z r1 w1 where z: "acknowledge_at su e r w = ((z, r1), w1)" by (metis surj_pair)
  show thesis
    using assms z refused acknowledged[OF Acknowledge, of z]
    by (auto simp: Acknowledge apply_resolution_def with_runtime_def split: if_splits sum.splits)
next
  case (HoldFor reason)
  then show thesis using assms refused by (auto simp: apply_resolution_def)
qed

section \<open>Cases of the loop\<close>

lemma drive_Nil [simp]:
  "drive env su x at limit [] n r w = (Inr \<lparr>dr_completed_steps = n, dr_held = None\<rparr>, r, w)"
  by (subst drive.simps) simp

lemma drive_limit: "limit \<le> n \<Longrightarrow> drive env su x at limit (e # rest) n r w = (Inl (StepLimit limit), r, w)"
  by (subst drive.simps) simp

lemma drive_marker: "n < limit \<Longrightarrow>
    drive env su x at limit (PersistCheckpoint # rest) n r w = drive env su x at limit rest (n + 1) r w"
  by (subst drive.simps) (simp add: is_task_leaf_effect_def)

lemma drive_operator: "n < limit \<Longrightarrow> drive env su x at limit (WaitForOperator reason # rest) n r w =
    (Inr \<lparr>dr_completed_steps = n, dr_held = Some reason\<rparr>, r, w)"
  by (subst drive.simps) (simp add: is_task_leaf_effect_def operator_reason_def)

definition batch_at :: "effect list \<Rightarrow> (effect list \<times> nat \<times> nat) option" where
  "batch_at queue = (case queue of [] \<Rightarrow> None | e # _ \<Rightarrow> if is_task_leaf_effect e then task_batch_at_front queue else None)"

lemma drive_batched:
  assumes "n < limit" "batch_at queue = Some (es, consumed, markers)"
  shows "drive env su x at limit queue n r w =
    (if n + consumed > limit then (Inl (StepLimit limit), r, w)
     else (case drive_batch env su x at es (drop consumed queue) r w of
       (Inl err, r, w) \<Rightarrow> (Inl err, r, w)
     | (Inr (queue, k, Some reason), r, w) \<Rightarrow> (Inr \<lparr>dr_completed_steps = n + markers + k, dr_held = Some reason\<rparr>, r, w)
     | (Inr (queue, k, None), r, w) \<Rightarrow> drive env su x at limit queue (n + markers + length es) r w))"
proof -
  obtain e rest where q: "queue = e # rest" "is_task_leaf_effect e" "task_batch_at_front (e # rest) = Some (es, consumed, markers)"
    using assms(2) by (auto simp: batch_at_def split: list.splits if_splits)
  show ?thesis using assms(1) q by (subst drive.simps) simp
qed

lemma drive_serial:
  assumes "n < limit" "batch_at (e # rest) = None" "e \<noteq> PersistCheckpoint" "operator_reason e = None"
  shows "drive env su x at limit (e # rest) n r w =
    (case drive_single env su x at e rest r w of
       (Inl err, r, w) \<Rightarrow> (Inl err, r, w)
     | (Inr (queue, Some reason), r, w) \<Rightarrow> (Inr \<lparr>dr_completed_steps = n, dr_held = Some reason\<rparr>, r, w)
     | (Inr (queue, None), r, w) \<Rightarrow> drive env su x at limit queue (n + 1) r w)"
  using assms by (subst drive.simps) (simp add: batch_at_def)

text \<open>
  The induction over the loop: a relation between the step count, the runtime and the result that holds
  where the loop stops and that every iteration carries back holds of the whole loop. What every
  step keeps, the loop keeps.
\<close>

lemma drive_rule:
  fixes x :: "('w, 'x) effect_executor"
  assumes stop: "\<And>n r w. S n r (Inr \<lparr>dr_completed_steps = n, dr_held = None\<rparr>, r, w)"
      "\<And>n r w. S n r (Inl (StepLimit limit), r, w)"
      "\<And>n r w reason. n < limit \<Longrightarrow> S n r (Inr \<lparr>dr_completed_steps = n, dr_held = Some reason\<rparr>, r, w)"
    and marker: "\<And>n r z. n < limit \<Longrightarrow> S (n + 1) r z \<Longrightarrow> S n r z"
    and batch: "\<And>n r w es consumed markers queue y r1 w1. n < limit \<Longrightarrow> batch_at queue = Some (es, consumed, markers) \<Longrightarrow>
      n + consumed \<le> limit \<Longrightarrow> drive_batch env su x at es (drop consumed queue) r w = (y, r1, w1) \<Longrightarrow>
      (case y of Inl err \<Rightarrow> S n r (Inl err, r1, w1)
       | Inr (q, k, Some reason) \<Rightarrow> S n r (Inr \<lparr>dr_completed_steps = n + markers + k, dr_held = Some reason\<rparr>, r1, w1)
       | Inr (q, k, None) \<Rightarrow> (\<forall>z. S (n + markers + length es) r1 z \<longrightarrow> S n r z))"
    and single: "\<And>n r w e rest y r1 w1. n < limit \<Longrightarrow> drive_single env su x at e rest r w = (y, r1, w1) \<Longrightarrow>
      (case y of Inl err \<Rightarrow> S n r (Inl err, r1, w1)
       | Inr (q, Some reason) \<Rightarrow> S n r (Inr \<lparr>dr_completed_steps = n, dr_held = Some reason\<rparr>, r1, w1)
       | Inr (q, None) \<Rightarrow> (\<forall>z. S (n + 1) r1 z \<longrightarrow> S n r z))"
  shows "S n r (drive env su x at limit queue n r w)"
proof (induction "limit - n" arbitrary: queue n r w rule: less_induct)
  case less
  have IH: "S m r1 (drive env su x at limit q m r1 w1)" if "n < m" "n < limit" for q m r1 w1
    using less.hyps[of m] that by simp
  consider (stop) "queue = [] \<or> limit \<le> n"
    | (batched) es consumed markers where "n < limit" "batch_at queue = Some (es, consumed, markers)"
    | (one) e rest where "n < limit" "queue = e # rest" "batch_at queue = None"
    by (cases queue; cases "batch_at queue") (force simp: not_le)+
  then show ?case
  proof cases
    case stop
    then show ?thesis using assms(1,2) by (cases queue) (auto simp: drive_limit)
  next
    case batched
    obtain y r1 w1 where 1: "drive_batch env su x at es (drop consumed queue) r w = (y, r1, w1)" by (metis surj_pair)
    have "2 \<le> length es" using batched(2) by (auto simp: batch_at_def dest: task_batch_long split: list.splits if_splits)
    then have onward: "S (n + markers + length es) r1 (drive env su x at limit q (n + markers + length es) r1 w1)" for q
      by (intro IH[OF _ batched(1)]) auto
    show ?thesis
      using batch[OF batched _ 1] batched 1 onward assms(2)
      by (cases y) (auto simp: drive_batched simp del: split_paired_All split: option.splits)
  next
    case one
    show ?thesis
    proof (cases "e = PersistCheckpoint \<or> operator_reason e \<noteq> None")
      case True
      then show ?thesis
        using one IH[of "n + 1" r rest w] marker assms(3)
        by (auto simp: drive_marker operator_reason_def drive_operator split: effect.splits)
    next
      case False
      obtain y r1 w1 where 1: "drive_single env su x at e rest r w = (y, r1, w1)" by (metis surj_pair)
      show ?thesis
        using single[OF one(1) 1] one False 1 IH[of "n + 1" r1 _ w1]
        by (cases y) (auto simp: drive_serial simp del: split_paired_All split: option.splits)
    qed
  qed
qed

lemma drive_induct:
  fixes x :: "('w, 'x) effect_executor"
  assumes batch: "\<And>es queue r w y r' w'. P r \<Longrightarrow> drive_batch env su x at es queue r w = (y, r', w') \<Longrightarrow> P r'"
    and single: "\<And>e queue r w y r' w'. P r \<Longrightarrow> drive_single env su x at e queue r w = (y, r', w') \<Longrightarrow> P r'"
    and "P r" "drive env su x at limit queue n r w = (y, r', w')"
  shows "P r'"
proof -
  have "P r \<longrightarrow> P (fst (snd (drive env su x at limit queue n r w)))"
    by (rule drive_rule[where S = "\<lambda>n r z. P r \<longrightarrow> P (fst (snd z))"])
      (auto dest: batch single split: sum.splits option.splits)
  then show ?thesis using assms(3,4) by simp
qed

section \<open>The contract of the runtime\<close>

locale runtime_closed =
  fixes env :: "'d runtime_env" and P :: "'d runtime \<Rightarrow> bool"
  assumes applied: "P r \<Longrightarrow> apply_internal env f c at operation r = (x, r') \<Longrightarrow> P r'"
    and completed: "P r \<Longrightarrow> complete_effect v k r = (y, r') \<Longrightarrow> P r'"
    and session: "P r \<Longrightarrow> record_session v i u r = (y, r') \<Longrightarrow> P r'"
    and superseded: "P r \<Longrightarrow> supersede_recovery_effects_with_pending v e es r = (y, r') \<Longrightarrow> P r'"
    and reconciled: "P r \<Longrightarrow> supersede_reconcile_with_pending_task_effect v e r = (y, r') \<Longrightarrow> P r'"
begin

lemma acknowledge_keeps: "P r \<Longrightarrow> acknowledge_effect v e r = (y, r') \<Longrightarrow> P r'"
  using completed by (auto simp: acknowledge_effect_def split: option.splits)

lemma apply_at_keeps: "P r \<Longrightarrow> apply_at env su c at operation r w = ((y, r'), w') \<Longrightarrow> P r'"
  using applied by (auto simp: apply_at_def split: prod.splits)

lemma acknowledge_at_keeps: "P r \<Longrightarrow> acknowledge_at su e r w = ((y, r'), w') \<Longrightarrow> P r'"
  using acknowledge_keeps by (auto simp: acknowledge_at_def split: prod.splits)

lemma record_session_at_keeps: "P r \<Longrightarrow> record_session_at su i u r w = ((y, r'), w') \<Longrightarrow> P r'"
  using session by (auto simp: record_session_at_def split: prod.splits)

lemma apply_resolution_keeps:
  assumes "P r" "apply_resolution env su e a at timing queue r w = (y, r', w')"
  shows "P r'"
  using assms(2)
  by (cases rule: apply_resolution_cases)
    (use assms(1) in \<open>auto dest: apply_at_keeps acknowledge_at_keeps\<close>)

lemma record_leaf_session_keeps:
  "P r \<Longrightarrow> record_leaf_session_of su x e r w = (y, r', w') \<Longrightarrow> P r'"
  by (auto simp: record_leaf_session_of_def with_runtime_def split: option.splits prod.splits sum.splits
      dest: record_session_at_keeps)

lemma forget_keeps:
  "P r \<Longrightarrow> forget_staged_leaf_sessions su x es r w = (r', w') \<Longrightarrow> P r'"
proof (induction es arbitrary: r w)
  case (Cons e es)
  then show ?case
    by (auto split: option.splits prod.splits leaf_session_update.splits dest: record_session_at_keeps)
qed simp

lemma apply_batch_keeps:
  fixes x :: "('w, 'x) effect_executor"
  shows "P r \<Longrightarrow> apply_batch env su x at timing es as n queue r w = (y, r', w') \<Longrightarrow> P r'"
proof (induction es arbitrary: as n queue r w)
  case (Cons e es)
  show ?case
  proof (cases as)
    case as: (Cons a bs)
    obtain y1 r1 w1 where 1: "record_leaf_session_of su x e r w = (y1, r1, w1)" by (metis surj_pair)
    obtain y2 :: "'x drive_error + effect list \<times> string option" and r2 w2 where
      2: "apply_resolution env su e a at timing queue r1 w1 = (y2, r2, w2)" by (metis surj_pair)
    have P1: "P r1" using record_leaf_session_keeps[OF Cons.prems(1) 1] .
    have P2: "P r2" using apply_resolution_keeps[OF P1 2] .
    show ?thesis
    proof (cases y1)
      case (Inl err)
      then show ?thesis using Cons.prems(2) 1 P1 by (simp add: as)
    next
      case y1: (Inr u)
      show ?thesis
      proof (cases y2)
        case (Inl err)
        then show ?thesis using Cons.prems(2) 1 2 P2 y1 by (simp add: as)
      next
        case (Inr z)
        then obtain q h where z: "y2 = Inr (q, h)" by (cases z) auto
        show ?thesis
          using Cons.prems(2) 1 2 P2 y1 z Cons.IH[OF P2] by (cases h) (auto simp: as)
      qed
    qed
  qed (use Cons.prems in simp)
qed simp

lemma drive_batch_keeps:
  assumes "P r" "drive_batch env su x at es queue r w = (y, r', w')"
  shows "P r'"
  using assms
  by (auto simp: drive_batch_def split: prod.splits sum.splits if_splits dest: forget_keeps apply_batch_keeps)

lemma drive_single_keeps:
  assumes "P r" "drive_single env su x at e queue r w = (y, r', w')"
  shows "P r'"
proof -
  obtain z w1 where 1: "timed su (ef_execute x e (pr_state (rt_processor r))) w = (z, w1)" by fastforce
  show ?thesis
  proof (cases z)
    case (Inl err)
    obtain r1 w2 where 2: "forget_staged_leaf_sessions su x [e] r w1 = (r1, w2)" by fastforce
    then have "r' = r1" using assms 1 Inl by (simp add: drive_single_def del: forget_staged_leaf_sessions.simps)
    then show ?thesis using forget_keeps[OF assms(1) 2] by simp
  next
    case (Inr b)
    then obtain a timing where z: "z = Inr (a, timing)" by (cases b) auto
    obtain t w2 where 2: "ef_event_occurred_at x at w1 = (t, w2)" by fastforce
    obtain y1 r1 w3 where 3: "record_leaf_session_of su x e r w2 = (y1, r1, w3)" by (metis surj_pair)
    have P1: "P r1" using record_leaf_session_keeps[OF assms(1) 3] .
    show ?thesis
      using assms 1 2 3 z P1 by (auto simp: drive_single_def split: sum.splits dest: apply_resolution_keeps)
  qed
qed

lemma drive_keeps: "P r \<Longrightarrow> drive env su x at limit queue n r w = (y, r', w') \<Longrightarrow> P r'"
  by (rule drive_induct[of P, OF drive_batch_keeps drive_single_keeps])

section \<open>Turns\<close>

lemma activate_effect_keeps:
  "P r \<Longrightarrow> activate_effect su replay effects r w = (y, r', w') \<Longrightarrow> P r'"
  by (auto simp: activate_effect_def Let_def split: if_splits option.splits prod.splits sum.splits
      dest: superseded reconciled)

lemma activate_keeps:
  "P r \<Longrightarrow> activate_recovery_effects su replayable effects r w = (y, r', w') \<Longrightarrow> P r'"
proof (induction replayable arbitrary: effects r w)
  case (Cons replay rest)
  obtain y1 r1 w1 where 1: "activate_effect su replay effects r w = (y1, r1, w1)" by (metis surj_pair)
  show ?case
    using Cons.prems(2) 1 activate_effect_keeps[OF Cons.prems(1) 1] Cons.IH[of r1]
    by (cases y1) auto
qed simp

lemma observing_keeps:
  assumes "P r" "observing z r k = (y, r', w')" "\<And>a w. z = (Inr a, w) \<Longrightarrow> k a w = (y, r', w') \<Longrightarrow> P r'"
  shows "P r'"
  using assms by (auto simp: observing_def split: prod.splits sum.splits)

lemma run_and_drive_keeps:
  fixes x :: "('w, 'e) executor"
  assumes "P r" "run_and_drive env su x at limit c replayable r w = (y, r', w')"
  shows "P r'"
proof (rule observing_keeps[OF assms(1) assms(2)[unfolded run_and_drive_def]])
  fix event_at w0
  assume k: "(case apply_at env su c event_at None r w0 of
       ((Inl e, r), w) \<Rightarrow> (Inl (LoopRuntime e), r, w)
     | ((Inr effects, r), w) \<Rightarrow>
         (case activate_recovery_effects su replayable effects r w of
            (Inl e, r, w) \<Rightarrow> (Inl (LoopRuntime e), r, w)
          | (Inr effects, r, w) \<Rightarrow>
              (case drive env su (native_executor x) at limit effects 0 r w of
                 (Inl e, r, w) \<Rightarrow> (Inl (LoopDrive e), r, w)
               | (Inr report, r, w) \<Rightarrow> (Inr report, r, w)))) = (y, r', w')"
  obtain y1 r1 w1 where 1: "apply_at env su c event_at None r w0 = ((y1, r1), w1)" by (metis surj_pair)
  have P1: "P r1" using apply_at_keeps[OF assms(1) 1] .
  show "P r'"
  proof (cases y1)
    case (Inl e)
    then show ?thesis using k 1 P1 by simp
  next
    case (Inr effects)
    obtain y2 r2 w2 where 2: "activate_recovery_effects su replayable effects r1 w1 = (y2, r2, w2)" by (metis surj_pair)
    have P2: "P r2" using activate_keeps[OF P1 2] .
    show ?thesis
    proof (cases y2)
      case (Inl e)
      then show ?thesis using k 1 2 Inr P2 by simp
    next
      case y2: (Inr effects')
      obtain y3 :: "'e native_error drive_error + drive_report" and r3 w3 where
        3: "drive env su (native_executor x) at limit effects' 0 r2 w2 = (y3, r3, w3)" by (metis surj_pair)
      show ?thesis using k 1 2 3 Inr y2 drive_keeps[OF P2 3] by (cases y3) auto
    qed
  qed
qed

lemma pause_gate_keeps:
  assumes "P r" "with_pause_gate x held k r w = (y, r', w')" "\<And>w. k r w = (y, r', w') \<Longrightarrow> P r'"
  shows "P r'"
proof (rule observing_keeps[OF assms(1) assms(2)[unfolded with_pause_gate_def]])
  fix paused w0
  assume "(if paused then observing (write_pause_status x (pr_state (rt_processor r)) w0) r
          (\<lambda>_ w. (Inr (held (st_phase (pr_state (rt_processor r)))), r, w)) else k r w0) = (y, r', w')"
  then show "P r'"
    by (cases paused) (use assms(1,3) in \<open>auto simp: observing_def split: prod.splits sum.splits\<close>)
qed

lemma turn_of_same: "turn_of x cfg opened r w = (y, r', w') \<Longrightarrow> r' = r"
  by (auto simp: turn_of_def observing_def Let_def split: if_splits option.splits prod.splits sum.splits queue_readiness.splits)

lemma run_turns_keeps:
  "P r \<Longrightarrow> run_turns env su x cfg n opened r w = (y, r', w') \<Longrightarrow> P r'"
proof (induction n arbitrary: opened r w)
  case (Suc n)
  show ?case
  proof (rule observing_keeps[OF Suc.prems(1) Suc.prems(2)[unfolded run_turns.simps]], erule pause_gate_keeps[OF Suc.prems(1)])
    fix w0
    assume k: "(case turn_of x cfg opened r w0 of
         (Inl e, r, w) \<Rightarrow> (Inl e, r, w)
       | (Inr (Return out), r, w) \<Rightarrow> (Inr out, r, w)
       | (Inr (Run opened c replayable), r, w) \<Rightarrow>
           (case run_and_drive env su x (lp_occurred_at cfg) (lp_max_effects_per_turn cfg) c replayable r w of
              (Inl e, r, w) \<Rightarrow> (Inl e, r, w)
            | (Inr report, r, w) \<Rightarrow>
                (case dr_held report of
                   Some reason \<Rightarrow> (Inr (LoopHeld (HoldText reason)), r, w)
                 | None \<Rightarrow> run_turns env su x cfg n opened r w))) = (y, r', w')"
    obtain t r1 w1 where 1: "turn_of x cfg opened r w0 = (t, r1, w1)" by (metis surj_pair)
    have "r1 = r" by (rule turn_of_same[OF 1])
    show "P r'"
    proof (cases "\<exists>go c replayable. t = Inr (Run go c replayable)")
      case True
      then obtain go c replayable where t: "t = Inr (Run go c replayable)" by blast
      obtain y2 r2 w2 where 2: "run_and_drive env su x (lp_occurred_at cfg) (lp_max_effects_per_turn cfg) c replayable r w1 = (y2, r2, w2)"
        by (metis surj_pair)
      have P2: "P r2" using run_and_drive_keeps[OF Suc.prems(1) 2] .
      show ?thesis
        using k 1 2 t P2 Suc.IH[OF P2] \<open>r1 = r\<close> by (auto split: sum.splits option.splits)
    next
      case False
      then show ?thesis using k 1 Suc.prems(1) \<open>r1 = r\<close> by (auto split: sum.splits turn.splits)
    qed
  qed
qed simp

lemma run_until_idle_keeps: "P r \<Longrightarrow> run_until_idle env su x cfg r w = (y, r', w') \<Longrightarrow> P r'"
  unfolding run_until_idle_def by (rule run_turns_keeps)

section \<open>Cohorts and waves\<close>

lemma run_command_now_keeps:
  assumes "P r" "run_command_now env su x c at limit r w = (y, r', w')"
  shows "P r'"
proof (rule observing_keeps[OF assms(1) assms(2)[unfolded run_command_now_def Let_def]], erule pause_gate_keeps[OF assms(1)])
  fix w0
  let ?go = "\<lambda>c replayable. (case run_and_drive env su x at limit c replayable r w0 of
              (Inl e, r, w) \<Rightarrow> (Inl e, r, w)
            | (Inr report, r, w) \<Rightarrow> (Inr (dr_completed_steps report, map_option HoldText (dr_held report)), r, w))"
  assume k: "(case c of
         Recover present \<Rightarrow>
           (case inspection_recovery_hold (interrupted_effect_retry_safe x) r of
              Some reason \<Rightarrow> (Inr (0, Some reason), r, w0)
            | None \<Rightarrow> ?go (Recover (add_workspaces (replayable_recovery_effects_for (interrupted_effect_retry_safe x) r) present))
                       (replayable_recovery_effects_for (interrupted_effect_retry_safe x) r))
       | _ \<Rightarrow> ?go c []) = (y, r', w')"
  have go: "?go d replayable = (y, r', w') \<Longrightarrow> P r'" for d replayable
    using run_and_drive_keeps[OF assms(1), of su x at limit d replayable w0]
    by (auto split: prod.splits sum.splits)
  show "P r'"
  proof (cases "\<exists>present. c = Recover present")
    case True
    then show ?thesis
      using k assms(1)
      by (cases "inspection_recovery_hold (interrupted_effect_retry_safe x) r") (auto intro: go)
  next
    case False
    then have "?go c [] = (y, r', w')" using k by (cases c) auto
    then show ?thesis by (rule go)
  qed
qed

lemma after_cohort_keeps:
  assumes "P r" "after_cohort env su x cfg resumed r w = (y, r', w')"
  shows "P r'"
proof (rule observing_keeps[OF assms(1) assms(2)[unfolded after_cohort_def]])
  fix readiness w0
  assume k: "(case readiness of
         QueueExhausted n \<Rightarrow> (Inr (Some (if n = 0 then LoopCompleted else LoopEscalated n)), r, w0)
       | QueuePending \<Rightarrow>
          (if \<not> resumed \<and> st_tasks (pr_state (rt_processor r)) = [] then
             (case run_command_now env su x (Block nothing_admitted) (lp_occurred_at cfg) (lp_max_effects_per_turn cfg) r w0 of
                (Inl e, r, w) \<Rightarrow> (Inl e, r, w)
              | (Inr (_, held), r, w) \<Rightarrow>
                  (Inr (Some (LoopHeld (case held of Some reason \<Rightarrow> reason | None \<Rightarrow> HoldText nothing_admitted))), r, w))
           else (Inr None, r, w0))) = (y, r', w')"
  obtain y1 r1 w1 where 1: "run_command_now env su x (Block nothing_admitted) (lp_occurred_at cfg)
      (lp_max_effects_per_turn cfg) r w0 = (y1, r1, w1)" by (metis surj_pair)
  show "P r'"
    using k 1 run_command_now_keeps[OF assms(1) 1] assms(1)
    by (auto split: queue_readiness.splits if_splits sum.splits)
qed

lemma cohorts_keeps:
  assumes "cohorts env su x first cfg count r w = Some (y, r', w')" "P r"
  shows "P r'"
proof -
  let ?Q = "\<lambda>env' su x first cfg count r w z. env' = env \<longrightarrow> P r \<longrightarrow> P (fst (snd z))"
  have "?Q env su x first cfg count r w (y, r', w')"
  proof (rule cohorts.raw_induct[where P = ?Q and xa = "(((((((env, su), x), first), cfg), count), r), w)", unfolded prod.case])
    fix more env' su x first cfg count r w z
    assume IH: "\<And>env' su x first cfg count r w z. more env' su x first cfg count r w = Some z \<Longrightarrow>
        env' = env \<longrightarrow> P r \<longrightarrow> P (fst (snd z))"
      and step: "(case run_until_idle env' su x cfg r w of
       (Inl e, r', w') \<Rightarrow> Some (Inl e, r', w')
     | (Inr out, r', w') \<Rightarrow>
        (if out = LoopIdle then Some (Inr (if count = 0 then LoopIdle else LoopCompleted), r', w')
         else if out \<noteq> LoopCompleted then Some (Inr out, r', w')
         else (case after_cohort env' su x cfg (st_batch (pr_state (rt_processor r)) \<noteq> None) r' w' of
           (Inl e, r'', w'') \<Rightarrow> Some (Inl e, r'', w'')
         | (Inr (Some out), r'', w'') \<Rightarrow> Some (Inr out, r'', w'')
         | (Inr None, r'', w'') \<Rightarrow>
             more env' su x first (next_cohort first (sat_add32 count 1) cfg) (sat_add32 count 1) r'' w''))) = Some z"
    show "env' = env \<longrightarrow> P r \<longrightarrow> P (fst (snd z))"
    proof (intro impI)
      assume env: "env' = env" and "P r"
      obtain y1 r1 w1 where 1: "run_until_idle env su x cfg r w = (y1, r1, w1)" by (metis surj_pair)
      have P1: "P r1" using run_until_idle_keeps[OF \<open>P r\<close> 1] .
      obtain y2 r2 w2 where 2: "after_cohort env su x cfg (st_batch (pr_state (rt_processor r)) \<noteq> None) r1 w1 = (y2, r2, w2)"
        by (metis surj_pair)
      have P2: "P r2" using after_cohort_keeps[OF P1 2] .
      show "P (fst (snd z))"
        using step[unfolded env 1] 2 P1 P2
        by (auto split: sum.splits if_splits option.splits dest!: IH)
    qed
  qed (rule assms(1))
  then show ?thesis using assms(2) by simp
qed

lemma run_until_queue_exhausted_keeps:
  "run_until_queue_exhausted env su x cfg r w = Some (y, r', w') \<Longrightarrow> P r \<Longrightarrow> P r'"
  unfolding run_until_queue_exhausted_def by (rule cohorts_keeps)

end

lemma poll_lane_same: "poll_lane x stop interval r w = (y, r', w') \<Longrightarrow> r' = r"
  by (auto simp: poll_lane_def with_pause_gate_def observing_def
      split: if_splits option.splits prod.splits sum.splits queue_readiness.splits bool.splits)

lemma wait_same:
  assumes "wait_for_current_lane_work x stop interval max_interval r w = Some (y, r', w')"
  shows "r' = r"
proof -
  let ?Q = "\<lambda>x stop interval max_interval r w z. fst (snd z) = r"
  have "?Q x stop interval max_interval r w (y, r', w')"
  proof (rule wait_for_current_lane_work.raw_induct[where P = ?Q and xa = "(((((x, stop), interval), max_interval), r), w)", unfolded prod.case])
    fix more x stop interval max_interval r w z
    assume IH: "\<And>x stop interval max_interval r w z. more x stop interval max_interval r w = Some z \<Longrightarrow> fst (snd z) = r"
      and step: "(case poll_lane x stop interval r w of
       (Inl e, r', w') \<Rightarrow> Some (Inl e, r', w')
     | (Inr (Some wakeup), r', w') \<Rightarrow> Some (Inr wakeup, r', w')
     | (Inr None, r', w') \<Rightarrow> more x stop (next_interval max_interval interval) max_interval r' w') = Some z"
    obtain y1 r1 w1 where 1: "poll_lane x stop interval r w = (y1, r1, w1)" by (metis surj_pair)
    show "fst (snd z) = r"
      using step 1 poll_lane_same[OF 1] by (auto split: sum.splits option.splits dest!: IH)
  qed (rule assms)
  then show ?thesis by simp
qed

context runtime_closed
begin

lemma watch_waves_keeps:
  assumes "watch_waves env su x cfg watch initial max_interval wave_cfg waves number r w = Some (y, r', w')" "P r"
  shows "P r'"
proof -
  let ?Q = "\<lambda>env' su x cfg watch initial max_interval wave_cfg waves number r w z. env' = env \<longrightarrow> P r \<longrightarrow> P (fst (snd z))"
  have "?Q env su x cfg watch initial max_interval wave_cfg waves number r w (y, r', w')"
  proof (rule watch_waves.raw_induct[where P = ?Q and
        xa = "(((((((((((env, su), x), cfg), watch), initial), max_interval), wave_cfg), waves), number), r), w)", unfolded prod.case])
    fix more env' su x cfg watch initial max_interval wave_cfg waves number r w z
    assume IH: "\<And>env' su x cfg watch initial max_interval wave_cfg waves number r w z.
        more env' su x cfg watch initial max_interval wave_cfg waves number r w = Some z \<Longrightarrow>
        env' = env \<longrightarrow> P r \<longrightarrow> P (fst (snd z))"
      and step: "Option.bind (run_until_queue_exhausted env' su x wave_cfg r w) (\<lambda>y.
      (case y of
         (Inl e, r, w) \<Rightarrow> Some (Inl e, r, w)
       | (Inr out, r, w) \<Rightarrow>
          (if out \<noteq> LoopCompleted \<and> out \<noteq> LoopIdle then Some (Inr out, r, w)
           else
             (let waves = (if out = LoopCompleted then sat_add64 waves 1 else waves) in
              Option.bind (wait_for_current_lane_work x (wc_stop watch) initial max_interval r w) (\<lambda>y.
                (case y of
                   (Inl e, r, w) \<Rightarrow> Some (Inl e, r, w)
                 | (Inr wakeup, r, w) \<Rightarrow>
                    (case wave_outcome wakeup waves of
                       Some out \<Rightarrow> Some (Inr out, r, w)
                     | None \<Rightarrow>
                        (case event_occurred_at x (lp_occurred_at cfg) w of
                           (Inl e, w) \<Rightarrow> Some (Inl (LoopPort e), r, w)
                         | (Inr at, w) \<Rightarrow>
                            more env' su x cfg watch initial max_interval
                              (wave_cfg\<lparr>lp_batch_id := lp_batch_id cfg @ ''-w'' @ show_nat (sat_add32 number 1),
                                        lp_occurred_at := at\<rparr>)
                              waves (sat_add32 number 1) r w)))))))) = Some z"
    show "env' = env \<longrightarrow> P r \<longrightarrow> P (fst (snd z))"
    proof (intro impI)
      assume env: "env' = env" and "P r"
      obtain y1 r1 w1 where 1: "run_until_queue_exhausted env su x wave_cfg r w = Some (y1, r1, w1)"
        using step env by (auto simp: bind_eq_Some_conv)
      have P1: "P r1" using run_until_queue_exhausted_keeps[OF 1 \<open>P r\<close>] .
      show "P (fst (snd z))"
      proof (cases "y1 = Inr LoopCompleted \<or> y1 = Inr LoopIdle")
        case False
        then show ?thesis using step env 1 P1 by (auto split: sum.splits if_splits)
      next
        case True
        define ws where "ws = (if y1 = Inr LoopCompleted then sat_add64 waves 1 else waves)"
        obtain y2 r2 w2 where 2: "wait_for_current_lane_work x (wc_stop watch) initial max_interval r1 w1 = Some (y2, r2, w2)"
          using step env 1 True by (auto simp: Let_def bind_eq_Some_conv)
        have r2: "r2 = r1" by (rule wait_same[OF 2])
        obtain y3 w3 where 3: "event_occurred_at x (lp_occurred_at cfg) w2 = (y3, w3)" by fastforce
        have rest: "(case y2 of Inl e \<Rightarrow> Some (Inl e, r2, w2)
            | Inr wakeup \<Rightarrow> (case wave_outcome wakeup ws of
                Some out \<Rightarrow> Some (Inr out, r2, w2)
              | None \<Rightarrow> (case y3 of Inl e \<Rightarrow> Some (Inl (LoopPort e), r2, w3)
                 | Inr at \<Rightarrow> more env su x cfg watch initial max_interval
                      (wave_cfg\<lparr>lp_batch_id := lp_batch_id cfg @ ''-w'' @ show_nat (sat_add32 number 1),
                                 lp_occurred_at := at\<rparr>) ws (sat_add32 number 1) r2 w3))) = Some z"
          using step env 1 2 3 True unfolding ws_def by (auto simp: Let_def split: sum.splits option.splits)
        then show ?thesis
          using P1 unfolding r2 by (auto split: sum.splits option.splits dest!: IH)
      qed
    qed
  qed (rule assms(1))
  then show ?thesis using assms(2) by simp
qed

lemma run_watching_keeps:
  "run_watching env su x cfg watch r w = Some (y, r', w') \<Longrightarrow> P r \<Longrightarrow> P r'"
  unfolding run_watching_def Let_def by (rule watch_waves_keeps)

end

text \<open>The instance: the runtime stays one that the runtime's own operations reach.\<close>

interpretation reached: runtime_closed env "engine_run env cfg" for env :: "'d runtime_env" and cfg
  by unfold_locales (blast intro: engine_run.intros)+

end
