(* ===== verification/LoopScenario.thy ===== *)
theory LoopScenario
  imports EngineScenario LoopInv
begin

text \<open>
  A run of the scheduler from a fresh runtime: a cohort with a token budget opens, two tasks are
  admitted, and the telemetry becomes unavailable before their first model calls. The port answers
  every request, the world is trivial. Each step of the run is a rule on \<open>drives\<close>, which says what the
  driver returns from a queue.
\<close>

section \<open>The surroundings\<close>

definition quiet_port :: "(unit, string) port" where
  "quiet_port =
    \<lparr>po_display = id, po_task_preparation_replay_safe = False, po_notification_replay_safe = False,
     po_pause_requested = (\<lambda>w. (Inr False, w)), po_current_queue_readiness = (\<lambda>w. (Inr QueuePending, w)),
     po_wait_for_watch_interval = (\<lambda>_ w. (Inr (), w)), po_now_secs = (\<lambda>w. (Inr 1000, w)),
     po_event_occurred_at = (\<lambda>at w. (Inr at, w)), po_recovery_workspaces = (\<lambda>_ w. (Inr [], w)),
     po_reconcile = (\<lambda>_ _ w. (Inr (ReconcileHold ''inspect''), w)), po_reconcile_inbox = (\<lambda>_ w. (Inr False, w)),
     po_reconcile_inbox_finalization = (\<lambda>_ w. (Inr False, w)),
     po_refresh_dependency_graph = (\<lambda>_ _ w. (Inr (leaf_outcome.Completed None), w)),
     po_curate_inbox = (\<lambda>_ _ w. (Inr (leaf_outcome.Completed None), w)),
     po_drain_queue_inbox = (\<lambda>_ w. (Inr (), w)), po_plan_candidates = (\<lambda>_ _ w. (Inr demo_queue, w)),
     po_token_budget_observation = (\<lambda>s w. (Inr (if st_tasks s = [] then Actual 0 else token_budget_observation.Unavailable), w)),
     po_ensure_task_workspace = (\<lambda>_ _ _ w. (Inr (), w)),
     po_task_leaf = (\<lambda>_ _ _ w. (Inr (leaf_outcome.Completed None), w)),
     po_prepare_task_leaf = (\<lambda>_ _ _ w. (Inl ''no preparation'', w)),
     po_prepare_task_review = (\<lambda>_ _ w. (Inl ''no preparation'', w)),
     po_task_review = (\<lambda>_ _ w. (Inr review_outcome.Incomplete, w)), po_take_leaf_session = (\<lambda>_ w. (None, w)),
     po_execute_task_batch = (\<lambda>_ _ w. (Inl ''no batch'', w)), po_commit_task = (\<lambda>_ _ w. (Inr ''c1'', w)),
     po_ensure_integration_workspace = (\<lambda>_ _ w. (Inr (), w)),
     po_merge_task = (\<lambda>_ _ w. (Inr (merge_outcome.Merged ''m1''), w)),
     po_resolve_merge_conflict = (\<lambda>_ _ w. (Inr (leaf_outcome.Completed None), w)),
     po_finalize_merge_resolution = (\<lambda>_ _ w. (Inr (merge_outcome.Merged ''m1''), w)),
     po_abort_merge_resolution = (\<lambda>_ _ w. (Inr (), w)),
     po_verify_integration = (\<lambda>_ _ w. (Inl ''no verification'', w)),
     po_integration_review = (\<lambda>_ w. (Inr review_outcome.Incomplete, w)),
     po_integration_fix = (\<lambda>_ w. (Inr (leaf_outcome.Completed None), w)),
     po_commit_integration_fix = (\<lambda>_ w. (Inr ''c2'', w)),
     po_publish = (\<lambda>_ _ w. (Inr (ResultHold ''approval''), w)),
     po_reanchor_publication = (\<lambda>_ _ w. (Inr (ReanchorFoundPublished ''m1''), w)),
     po_verify_ci = (\<lambda>_ _ w. (Inl ''no forge'', w)), po_reconfirm_ci_before_archive = (\<lambda>_ _ _ w. (Inl ''no forge'', w)),
     po_notify = (\<lambda>_ _ w. (Inr (), w)), po_prepare_ci_fix = (\<lambda>_ w. (Inl ''no preparation'', w)),
     po_ci_fix = (\<lambda>_ w. (Inr (leaf_outcome.Completed None), w)), po_commit_ci_fix = (\<lambda>_ w. (Inr ''c3'', w)),
     po_prepare_knowledge_curation = (\<lambda>_ w. (Inl ''no curation'', w)),
     po_prepare_archival = (\<lambda>_ w. (Inr archival_preparation_outcome.Skipped, w)),
     po_curate_knowledge = (\<lambda>_ w. (Inr (leaf_outcome.Completed None), w)),
     po_return_task = (\<lambda>_ _ _ w. (Inr (), w)), po_escalate_task = (\<lambda>_ _ _ w. (Inr (), w)),
     po_archive_task = (\<lambda>_ _ w. (Inr (), w)), po_cleanup_task_workspace = (\<lambda>_ _ w. (Inr (), w)),
     po_cleanup_integration_workspace = (\<lambda>_ w. (Inr (), w)), po_cleanup_cohort_control_plane = (\<lambda>_ w. (Inr (), w)),
     po_write_journal_and_status = (\<lambda>_ w. (Inr (), w)), po_write_pause_status = (\<lambda>_ w. (Inr (), w)),
     po_release_lease = (\<lambda>w. (Inr (), w))\<rparr>"

definition quiet :: "(unit, string) executor" where
  "quiet = \<lparr>ex_port = quiet_port, ex_probe = None\<rparr>"

definition calm :: "unit surroundings" where
  "calm = \<lparr>su_faults = (\<lambda>w. (all_well, w)), su_wall_epoch_millis = (\<lambda>w. (0, w)), su_monotonic_millis = (\<lambda>w. (0, w))\<rparr>"

text \<open>One identifier for every event, so that the outbox keeps one line.\<close>

definition quiet_env :: "unit runtime_env" where
  "quiet_env = \<lparr>re_outbox = \<lparr>oe_from_str = (\<lambda>_. Inl ''unread''), oe_to_text = (\<lambda>_. ''e''), oe_digest = (\<lambda>_. ())\<rparr>,
     re_uuid = (\<lambda>_. ''u''), re_lowercase = id\<rparr>"

definition one_line :: "unit cached_index" where
  "one_line = \<lparr>ci_committed_len = 2, ci_committed_lines = 1, ci_semantic_by_id = [(''u'', ())]\<rparr>"

definition settled :: "unit cached_index \<Rightarrow> string \<Rightarrow> bool" where
  "settled i b \<longleftrightarrow> i = empty_index \<and> b = [] \<or> i = one_line \<and> b = ''e'' @ [nl]"

lemma quiet_append:
  assumes "settled i b" "ev_id e = ''u''"
  shows "\<exists>a. append_idempotent (re_outbox quiet_env) i b e = (Inr a, one_line, ''e'' @ [nl])"
proof -
  have prefix: "committed_prefix_len (''e'' @ [nl]) = Inr 2" "committed_prefix_len [] = Inr 0"
    using prefix_terminated[of "''e'' @ [nl]"] prefix_terminated[of "[]"] by (simp_all add: terminated_def)
  have hist: "scan_committed_history (re_outbox quiet_env) (''e'' @ [nl]) 2 one_line = Inr one_line"
    by (simp add: scan_committed_history_def one_line_def)
  show ?thesis
    using assms prefix hist
    by (auto simp: settled_def append_idempotent_def one_line_def empty_index_def scan_committed_history_def
        semantic_fingerprint_def quiet_env_def to_json_line_def u64_max_def sat_add64_def Let_def)
qed

lemma quiet_append_all:
  "settled i b \<Longrightarrow> \<forall>e \<in> set es. ev_id e = ''u'' \<Longrightarrow>
    \<exists>i' b'. append_all (re_outbox quiet_env) None es i b = (Inr (), i', b') \<and> settled i' b'"
proof (induction es arbitrary: i b)
  case (Cons e es)
  then obtain a where "append_idempotent (re_outbox quiet_env) i b e = (Inr a, one_line, ''e'' @ [nl])"
    using quiet_append by force
  moreover have "settled one_line (''e'' @ [nl])" by (simp add: settled_def)
  ultimately show ?case using Cons by simp
qed simp

lemma const_id [simp]:
  "ev_id (event_with_payload (\<lambda>_. u) t b i payload c at) = u"
  "ev_id (event_of (\<lambda>_. u) t b i f to c at) = u"
  "ev_id (cohort_round_event (\<lambda>_. u) t bid wave closed at) = u"
  by (simp_all add: event_with_payload_def event_of_def cohort_round_event_def Let_def)

lemma quiet_ids: "\<forall>e \<in> set (project_processor_transition (\<lambda>_. u) s s' c t). ev_id e = u"
proof -
  have tasks: "\<forall>e \<in> set (task_events (\<lambda>_. u) s s' c t k). ev_id e = u" for k
    by (cases k) (auto simp: task_events_def project_task_status_def Let_def split: option.splits)
  have "\<forall>e \<in> set (opened_events (\<lambda>_. u) s s' t). ev_id e = u" "\<forall>e \<in> set (round_started_events (\<lambda>_. u) s c t). ev_id e = u"
      "\<forall>e \<in> set (closed_events (\<lambda>_. u) s s' t). ev_id e = u" "\<forall>e \<in> set (join_events (\<lambda>_. u) s s' t). ev_id e = u"
    by (auto simp: opened_events_def round_started_events_def closed_events_def join_events_def
        split: option.splits processor_command.splits bool.splits)
  moreover have "\<forall>e \<in> set (admission_closed_events (\<lambda>_. u) s s' t). ev_id e = u"
      "\<forall>e \<in> set (round_closed_events (\<lambda>_. u) s s' c t). ev_id e = u"
      "\<forall>e \<in> set (published_events (\<lambda>_. u) s s' c t). ev_id e = u"
    by (auto simp: admission_closed_events_def round_closed_events_def published_events_def Let_def
        split: option.splits processor_command.splits bool.splits)
  ultimately show ?thesis using tasks by (auto simp: project_processor_transition_def)
qed

section \<open>Steps of the driver\<close>

definition resting :: "processor \<Rightarrow> ledger \<Rightarrow> unit runtime \<Rightarrow> bool" where
  "resting p m r \<longleftrightarrow> rt_processor r = p \<and> rt_pending r = m \<and> rt_ci_fix_provider_span r = None
    \<and> settled (rt_index r) (rt_events r)"

text \<open>The telemetry of the cohort is off.\<close>

definition untimed :: "processor \<Rightarrow> bool" where
  "untimed p \<longleftrightarrow> (case st_batch (pr_state p) of None \<Rightarrow> True | Some b \<Rightarrow> \<not> co_events_outbox_enabled b)"

lemma quiet_apply:
  assumes "resting p m r" "accept id c p = (Inr es, q)" "untimed p" "untimed q"
    and "acknowledgement_key p c = Inr ack" "check_acknowledgement ack c m = Inr ()"
    and "record_effects es (case ack of Some k \<Rightarrow> bt_remove k m | None \<Rightarrow> m) = Inr m'"
    and "case op of Some (e, _) \<Rightarrow> e \<noteq> PrepareCiFix | None \<Rightarrow> True"
  shows "\<exists>r'. apply_internal quiet_env all_well c demo_time op r = (Inr es, r') \<and> resting q m' r'"
proof -
  have r: "rt_processor r = p" "rt_pending r = m" "rt_ci_fix_provider_span r = None" "settled (rt_index r) (rt_events r)"
    using assms(1) by (simp_all add: resting_def)
  obtain i b where app: "append_all (re_outbox quiet_env) None
      (project_processor_transition (\<lambda>_. ''u'') (pr_state p) (pr_state q) c demo_time) (rt_index r) (rt_events r) = (Inr (), i, b)"
      "settled i b"
    using quiet_append_all[OF r(4)] quiet_ids by blast
  have span: "provider_span s e c t None = (None, t)" if "e \<noteq> PrepareCiFix" for s e t
    using that by (auto simp: provider_span_def combine_spans_def split: effect.splits processor_command.splits
        leaf_kind.splits ci_fix_preparation_outcome.splits)
  have silent: "project_completed_operations u (pr_state p) (pr_state q) e c t = []" for u e t
    using assms(3,4) by (auto simp: project_completed_operations_def batch_of_def untimed_def split: option.splits)
  have env: "re_uuid quiet_env = (\<lambda>_. ''u'')" "re_lowercase quiet_env = id" by (simp_all add: quiet_env_def)
  show ?thesis
    using app assms(2,5,6,7,8) r span
    by (cases op) (auto simp: apply_internal_def env silent all_well_def commit_def persist_def adopt_def resting_def Let_def
        split: option.splits)
qed

text \<open>What the driver returns from a queue after \<open>n\<close> steps, and where it leaves the reducer and the ledger.\<close>

definition drives ::
    "processor \<Rightarrow> ledger \<Rightarrow> effect list \<Rightarrow> nat \<Rightarrow> string native_error drive_error + drive_report
     \<Rightarrow> processor \<Rightarrow> ledger \<Rightarrow> bool" where
  "drives p m queue n out p' m' \<longleftrightarrow>
    (\<forall>r. resting p m r \<longrightarrow>
      (\<exists>r'. drive quiet_env calm (native_executor quiet) demo_time 100 queue n r () = (out, r', ()) \<and> resting p' m' r'))"

lemma drives_Nil: "k = n \<Longrightarrow> drives p m [] n (Inr \<lparr>dr_completed_steps = k, dr_held = None\<rparr>) p m"
  by (simp add: drives_def)

lemma drives_marker: "n < 100 \<Longrightarrow> drives p m rest (n + 1) out p' m' \<Longrightarrow> drives p m (PersistCheckpoint # rest) n out p' m'"
  by (simp add: drives_def drive_marker)

definition serial :: "effect \<Rightarrow> bool" where
  "serial e \<longleftrightarrow> \<not> is_task_leaf_effect e \<and> e \<noteq> PersistCheckpoint \<and> operator_reason e = None"

lemma serial_session: "\<not> is_task_leaf_effect e \<Longrightarrow> leaf_session_task_id e = None"
  by (cases e) (simp_all add: is_task_leaf_effect_def leaf_session_task_id_def)

lemma quiet_single:
  assumes "serial e" "run_effect quiet_port e (pr_state (rt_processor r)) () = (Inr a, ())"
  shows "\<exists>t. drive_single quiet_env calm (native_executor quiet) demo_time e queue r ()
    = (apply_resolution quiet_env calm e a demo_time t queue r () :: (unit, unit, string native_error, _) drive_step)"
proof -
  have "record_leaf_session_of calm (native_executor quiet) e r () = (Inr () :: string native_error drive_error + unit, r, ())"
    using assms(1) by (simp add: record_leaf_session_of_def serial_def serial_session)
  then show ?thesis
    using assms(2)
    by (auto simp: drive_single_def timed_def elapsed_millis_def calm_def native_executor_def quiet_def execute_def
        while_owner_def ensure_lease_active_def then_do_def event_occurred_at_def port_step_def quiet_port_def)
qed

lemma drives_one:
  assumes "serial e" "n < 100" "run_effect quiet_port e (pr_state p) () = (Inr a, ())"
    and "\<And>r t. resting p m r \<Longrightarrow> \<exists>r1. resting q m1 r1 \<and>
      apply_resolution quiet_env calm e a demo_time t rest r () = (Inr (onward, None) :: string native_error drive_error + _, r1, ())"
    and "drives q m1 onward (n + 1) out p' m'"
  shows "drives p m (e # rest) n out p' m'"
  unfolding drives_def
proof (intro allI impI)
  fix r :: "unit runtime"
  assume r: "resting p m r"
  then have "pr_state (rt_processor r) = pr_state p" by (simp add: resting_def)
  then obtain t where "drive_single quiet_env calm (native_executor quiet) demo_time e rest r ()
      = (apply_resolution quiet_env calm e a demo_time t rest r () :: (unit, unit, string native_error, _) drive_step)"
    using quiet_single[OF assms(1), of r a rest] assms(3) by auto
  moreover obtain r1 where r1: "resting q m1 r1"
      "apply_resolution quiet_env calm e a demo_time t rest r () = (Inr (onward, None) :: string native_error drive_error + _, r1, ())"
    using assms(4)[OF r, of t] by blast
  moreover have "batch_at (e # rest) = None" using assms(1) by (simp add: batch_at_def serial_def)
  ultimately have "drive quiet_env calm (native_executor quiet) demo_time 100 (e # rest) n r ()
      = drive quiet_env calm (native_executor quiet) demo_time 100 onward (n + 1) r1 ()"
    using assms(1,2) by (simp add: drive_serial serial_def)
  then show "\<exists>r'. drive quiet_env calm (native_executor quiet) demo_time 100 (e # rest) n r () = (out, r', ()) \<and> resting p' m' r'"
    using assms(5) r1(1) by (simp add: drives_def)
qed

lemma drives_command:
  assumes "\<not> acknowledgement_only_effect e" "serial e" "e \<noteq> PrepareCiFix" "n < 100"
    and "run_effect quiet_port e (pr_state p) () = (Inr (ResolvedBy c), ())"
    and "accept id c p = (Inr es, q)" "untimed p" "untimed q"
    and "effect_key e = Some k" "acknowledgement_key p c = Inr (Some k)" "map_of m k \<noteq> None"
    and "record_effects es (bt_remove k m) = Inr m'" "drives q m' (rest @ es) (n + 1) out p' m''"
  shows "drives p m (e # rest) n out p' m''"
proof (rule drives_one[OF assms(2,4,5) _ assms(13)])
  fix r :: "unit runtime" and t
  assume r: "resting p m r"
  then obtain r1 where "apply_internal quiet_env all_well c demo_time (Some (e, t)) r = (Inr es, r1)" "resting q m' r1"
    using quiet_apply[OF r assms(6,7,8,10), of m' "Some (e, t)"] assms(3,11,12) by (auto simp: check_acknowledgement_def)
  moreover have "ensure_matching_command r e c = (Inr () :: string native_error drive_error + unit)"
    using r assms(9,10) by (simp add: ensure_matching_command_def resting_def)
  ultimately show "\<exists>r1. resting q m' r1 \<and>
      apply_resolution quiet_env calm e (ResolvedBy c) demo_time t rest r () =
        (Inr (rest @ es, None) :: string native_error drive_error + _, r1, ())"
    by (auto simp: apply_resolution_def apply_at_def calm_def with_runtime_def)
qed

lemma drives_ack:
  assumes "map_of m (the (effect_key e)) = Some e" "acknowledgement_only_effect e" "serial e" "n < 100"
    and "run_effect quiet_port e (pr_state p) () = (Inr Acknowledge, ())" "effect_key e = Some k"
    and "acknowledge_non_command_effect e (pr_state p) = (Inr (), s)"
    and "drives (p\<lparr>pr_state := s\<rparr>) (bt_remove k m) rest (n + 1) out p' m'"
  shows "drives p m (e # rest) n out p' m'"
proof (rule drives_one[OF assms(3,4,5) _ assms(8)])
  fix r :: "unit runtime" and t
  assume "resting p m r"
  then show "\<exists>r1. resting (p\<lparr>pr_state := s\<rparr>) (bt_remove k m) r1 \<and>
      apply_resolution quiet_env calm e Acknowledge demo_time t rest r () =
        (Inr (rest, None) :: string native_error drive_error + _, r1, ())"
    using assms(1,2,6,7)
    by (simp add: apply_resolution_def acknowledge_at_def calm_def with_runtime_def resting_def acknowledge_effect_def
        complete_effect_def commit_def persist_def adopt_def all_well_def)
qed

lemma drives_missing:
  assumes "map_of m (the (effect_key e)) = None" "acknowledgement_only_effect e" "serial e" "n < 100"
    and "run_effect quiet_port e (pr_state p) () = (Inr Acknowledge, ())" "effect_key e = Some k"
  shows "drives p m (e # rest) n (Inl (RuntimeFailed (UnknownEffect ''no outstanding effect named {}'' [MsgDbg k]))) p m"
  unfolding drives_def
proof (intro allI impI)
  fix r :: "unit runtime"
  assume r: "resting p m r"
  then have "run_effect quiet_port e (pr_state (rt_processor r)) () = (Inr Acknowledge, ())"
    using assms(5) by (simp add: resting_def)
  from quiet_single[OF assms(3) this, of rest] obtain t where
    "drive_single quiet_env calm (native_executor quiet) demo_time e rest r ()
      = (apply_resolution quiet_env calm e Acknowledge demo_time t rest r () :: (unit, unit, string native_error, _) drive_step)"
    by blast
  moreover have "batch_at (e # rest) = None" using assms(3) by (simp add: batch_at_def serial_def)
  ultimately show "\<exists>r'. drive quiet_env calm (native_executor quiet) demo_time 100 (e # rest) n r () =
      (Inl (RuntimeFailed (UnknownEffect ''no outstanding effect named {}'' [MsgDbg k])), r', ()) \<and> resting p m r'"
    using assms r
    by (simp add: drive_serial serial_def apply_resolution_def acknowledge_at_def calm_def with_runtime_def resting_def
        acknowledge_effect_def complete_effect_def)
qed

section \<open>The reducer in the run\<close>

definition budget_config :: processor_config where
  "budget_config = default_config\<lparr>cf_cohort_token_budget := Some 100, cf_events_outbox_enabled := False\<rparr>"

definition budgeted :: "nat option \<Rightarrow> processor \<Rightarrow> processor" where
  "budgeted tokens p = on_state (\<lambda>s. s\<lparr>st_batch := map_option (\<lambda>b. b\<lparr>co_cohort_token_budget := Some 100,
     co_events_outbox_enabled := False, co_token_budget_actual_tokens := tokens\<rparr>) (st_batch s)\<rparr>) (p\<lparr>pr_config := budget_config\<rparr>)"

definition no_telemetry :: string where "no_telemetry = ''COHORT_TOKEN_BUDGET telemetry-unavailable''"

definition bud0 :: processor where "bud0 = budgeted None demo0"

definition bud1 :: processor where "bud1 = budgeted None demo1"

definition bud2 :: processor where "bud2 = budgeted None demo2"

definition bud3 :: processor where "bud3 = budgeted (Some 0) demo2"

definition bud4 :: processor where "bud4 = budgeted (Some 0) demo3"

definition bud5 :: processor where "bud5 = budgeted (Some 0) demo4"

definition bud6 :: processor where
  "bud6 = on_task ''T-1'' (\<lambda>t. t\<lparr>tr_phase := Implementing, tr_leaf_attempts := [(''implement'', 1)]\<rparr>) bud5"

definition bud7 :: processor where
  "bud7 = on_task ''T-2'' (\<lambda>t. t\<lparr>tr_phase := Implementing, tr_leaf_attempts := [(''implement'', 1)]\<rparr>) bud6"

definition token_halted :: "task_runtime \<Rightarrow> task_runtime" where
  "token_halted t = t\<lparr>tr_phase := task_phase.Escalated, tr_reason := Some no_telemetry\<rparr>"

definition bud8 :: processor where
  "bud8 = on_state (\<lambda>s. s\<lparr>st_phase := Cleaning, st_batch := map_option (\<lambda>b. b\<lparr>co_token_budget_actual_tokens := None,
      co_admission_closed := Some close_reason_wire.CohortTokenBudget\<rparr>) (st_batch s)\<rparr>)
      (on_task ''T-1'' token_halted (on_task ''T-2'' token_halted bud7))"

definition bud9 :: processor where "bud9 = on_ig (\<lambda>g. g\<lparr>ig_cleanup_journaled := True\<rparr>) bud8"

definition bud10 :: processor where "bud10 = on_ig (\<lambda>g. g\<lparr>ig_archive_ci_gate := Some archive_ci_gate.Skipped\<rparr>) bud9"

lemmas bud_defs = budgeted_def budget_config_def no_telemetry_def token_halted_def bud0_def bud1_def bud2_def bud3_def bud4_def
  bud5_def bud6_def bud7_def bud8_def bud9_def bud10_def demo_defs eval_defs

lemma bud_step1:
  "accept id (Recover []) bud0 =
    (Inr [PersistCheckpoint, WriteJournalAndStatus], bud1)"
  by (simp add: bud_defs cong: eval_congs)

lemma bud_step2:
  "accept id (Open ''B-1'' ''main'' 1000) bud1 =
    (Inr [PersistCheckpoint, CheckTokenBudget (DependencyCurator refresh_boundary.CohortOpen)], bud2)"
  by (simp add: bud_defs cong: eval_congs)

lemma bud_step3:
  "accept id (TokenBudgetChecked (DependencyCurator refresh_boundary.CohortOpen) (Actual 0)) bud2 =
    (Inr [PersistCheckpoint, DispatchDependencyCurator refresh_boundary.CohortOpen], bud3)"
  by (simp add: bud_defs cong: eval_congs)

lemma bud_step4:
  "accept id (DependencyGraphRefreshed refresh_boundary.CohortOpen (leaf_outcome.Completed None)) bud3 =
    (Inr [PersistCheckpoint, ReconcileInbox 3], bud4)"
  by (simp add: bud_defs cong: eval_congs)

lemma bud_step5:
  "accept id (InboxReconciled 3 False) bud4 =
    (Inr [PersistCheckpoint, DrainQueueInbox 3], bud4)"
  by (simp add: bud_defs cong: eval_congs)

lemma bud_step6:
  "accept id (InboxDrained 3) bud4 =
    (Inr [PersistCheckpoint, CheckTokenBudget (Planner 3)], bud4)"
  by (simp add: bud_defs cong: eval_congs)

lemma bud_step7:
  "accept id (TokenBudgetChecked (Planner 3) (Actual 0)) bud4 =
    (Inr [PersistCheckpoint, PlanNextWave 3], bud4)"
  by (simp add: bud_defs cong: eval_congs)

lemma bud_step8:
  "accept id (Admit demo_queue 1000) bud4 =
    (Inr [PersistCheckpoint, EnsureTaskWorkspace ''T-1'' ''task/T-1'', EnsureTaskWorkspace ''T-2'' ''task/T-2''], bud5)"
  by (simp add: bud_defs cong: eval_congs)

lemma bud_step9:
  "accept id (WorkspaceReady ''T-1'') bud5 =
    (Inr [PersistCheckpoint, CheckTokenBudget (TaskLeafPreparation ''T-1'' Implement)], bud6)"
  by (simp add: bud_defs cong: eval_congs)

lemma bud_step10:
  "accept id (WorkspaceReady ''T-2'') bud6 =
    (Inr [PersistCheckpoint, CheckTokenBudget (TaskLeafPreparation ''T-2'' Implement)], bud7)"
  by (simp add: bud_defs cong: eval_congs)

lemma bud_step11:
  "accept id (TokenBudgetChecked (TaskLeafPreparation ''T-1'' Implement) token_budget_observation.Unavailable) bud7 =
    (Inr [PersistCheckpoint, EscalateTask ''T-1'' no_telemetry, EscalateTask ''T-2'' no_telemetry,
      WriteJournalAndStatus, PrepareArchival], bud8)"
  by (simp add: bud_defs cong: eval_congs)

lemma bud_step12:
  "accept id (TokenBudgetChecked (TaskLeafPreparation ''T-2'' Implement) token_budget_observation.Unavailable) bud8 =
    (Inr [PersistCheckpoint, WriteJournalAndStatus, PrepareArchival], bud8)"
  by (simp add: bud_defs cong: eval_congs)

lemma bud_step13:
  "accept id (ArchivalPrepared archival_preparation_outcome.Skipped) bud9 =
    (Inr [PersistCheckpoint, CleanupTaskWorkspace ''T-1'', CleanupTaskWorkspace ''T-2'',
      CleanupIntegrationWorkspace, CleanupCohortControlPlane], bud10)"
  by (simp add: bud_defs cong: eval_congs)

lemma bud_acks:
  "acknowledge_non_command_effect WriteJournalAndStatus (pr_state bud1) = (Inr (), pr_state bud1)"
  "acknowledge_non_command_effect (EscalateTask i reason) (pr_state bud8) = (Inr (), pr_state bud8)"
  "acknowledge_non_command_effect WriteJournalAndStatus (pr_state bud8) = (Inr (), pr_state bud9)"
  by (simp_all add: bud_defs cong: eval_congs)

lemma bud_state [simp]:
  "bud8\<lparr>pr_state := pr_state bud9\<rparr> = bud9" "p\<lparr>pr_state := pr_state p\<rparr> = p"
  by (simp_all add: bud9_def on_ig_def on_state_def)

lemma bud_untimed [simp]:
  "untimed bud0" "untimed bud1" "untimed bud2" "untimed bud3" "untimed bud4" "untimed bud5" "untimed bud6" "untimed bud7"
  "untimed bud8" "untimed bud9" "untimed bud10"
  by (simp_all add: untimed_def bud_defs cong: eval_congs)

lemma bud_tasks [simp]:
  "st_tasks (pr_state bud2) = []" "st_tasks (pr_state bud3) = []" "st_tasks (pr_state bud4) = []"
  "st_tasks (pr_state bud7) \<noteq> []" "st_tasks (pr_state bud8) \<noteq> []"
  by (simp_all add: bud_defs cong: eval_congs)

section \<open>The run\<close>

lemmas bud_steps = bud_step1 bud_step2 bud_step3 bud_step4 bud_step5 bud_step6 bud_step7 bud_step8 bud_step9 bud_step10
  bud_step11 bud_step12 bud_step13

lemma answers_of_quiet_port [simp]:
  "run_effect quiet_port (CheckTokenBudget call) s () =
    (Inr (ResolvedBy (TokenBudgetChecked call (if st_tasks s = [] then Actual 0 else token_budget_observation.Unavailable))), ())"
  "run_effect quiet_port WriteJournalAndStatus s () = (Inr Acknowledge, ())"
  "run_effect quiet_port (EscalateTask i reason) s () = (Inr Acknowledge, ())"
  "run_effect quiet_port (DispatchDependencyCurator b) s () = (Inr (ResolvedBy (DependencyGraphRefreshed b (leaf_outcome.Completed None))), ())"
  "run_effect quiet_port (ReconcileInbox k) s () = (Inr (ResolvedBy (InboxReconciled k False)), ())"
  "run_effect quiet_port (DrainQueueInbox k) s () = (Inr (ResolvedBy (InboxDrained k)), ())"
  "run_effect quiet_port (PlanNextWave k) s () = (Inr (ResolvedBy (Admit demo_queue 1000)), ())"
  "run_effect quiet_port (EnsureTaskWorkspace i branch) s () = (Inr (ResolvedBy (WorkspaceReady i)), ())"
  "run_effect quiet_port PrepareArchival s () = (Inr (ResolvedBy (ArchivalPrepared archival_preparation_outcome.Skipped)), ())"
  by (simp_all add: quiet_port_def resolve_def acknowledged_def then_do_def)

declare run_effect.simps [simp del]

lemmas serial_eval = serial_def is_task_leaf_effect_def operator_reason_def acknowledgement_only_effect_def

lemmas bud_eval = serial_eval bud_steps bud_acks ledger_key_def refresh_boundary_as_str_def

lemma drive_opening:
  "drives bud1 [(''write-journal-and-status'', WriteJournalAndStatus)] [PersistCheckpoint, WriteJournalAndStatus] 0
    (Inr \<lparr>dr_completed_steps = 2, dr_held = None\<rparr>) bud1 []"
  by (rule drives_marker, simp, rule drives_ack, (simp add: bud_eval; fail)+) (simp add: drives_Nil bud_eval)

lemma drive_cohort:
  "\<exists>m. drives bud2 [(''check-token-budget:dependency-curator:cohort-open'', CheckTokenBudget (DependencyCurator refresh_boundary.CohortOpen))]
    [PersistCheckpoint, CheckTokenBudget (DependencyCurator refresh_boundary.CohortOpen)] 0
    (Inl (RuntimeFailed (UnknownEffect ''no outstanding effect named {}'' [MsgDbg ''write-journal-and-status'']))) bud10 m"
  by (rule exI, ((rule drives_marker, (simp; fail)) | (rule drives_command, (simp add: bud_eval; fail)+)
    | (rule drives_ack, (simp add: bud_eval; fail)+) | (rule drives_missing, (simp add: bud_eval; fail)+) | simp)+)

section \<open>The turns\<close>

definition quiet_loop :: "nat \<Rightarrow> loop_config" where
  "quiet_loop turns = \<lparr>lp_batch_id = ''B-1'', lp_base = ''main'', lp_occurred_at = demo_time, lp_max_turns = turns,
     lp_max_effects_per_turn = 100\<rparr>"

definition quiet_start :: "unit runtime" where "quiet_start = runtime_of bud0 [] None None []"

lemma quiet_started: "runtime_new budget_config None [] = Inr quiet_start"
  by (simp add: runtime_new_def quiet_start_def bud_defs cong: eval_congs)

lemma quiet_observations:
  "event_occurred_at quiet at () = (Inr at, ())" "pause_requested quiet () = (Inr False, ())"
  "recovery_workspaces quiet s () = (Inr [], ())" "current_queue_readiness quiet () = (Inr QueuePending, ())"
  "now_secs quiet () = (Inr 1000, ())" "ensure_lease_active quiet () = (Inr (), ())"
  by (simp_all add: event_occurred_at_def pause_requested_def recovery_workspaces_def current_queue_readiness_def
      now_secs_def while_owner_def then_do_def ensure_lease_active_def port_step_def quiet_def quiet_port_def)

lemma quiet_turn:
  assumes "resting p m r" "accept id c p = (Inr es, q)" "untimed p" "untimed q"
    and "acknowledgement_key p c = Inr None" "check_acknowledgement None c m = Inr ()" "record_effects es m = Inr m'"
    and "drives q m' es 0 out p' m''"
  shows "\<exists>r'. run_and_drive quiet_env calm quiet demo_time 100 c [] r () =
      ((case out of Inl e \<Rightarrow> Inl (LoopDrive e) | Inr report \<Rightarrow> Inr report), r', ()) \<and> resting p' m'' r'"
proof -
  obtain r1 where 1: "apply_internal quiet_env all_well c demo_time None r = (Inr es, r1)" "resting q m' r1"
    using quiet_apply[OF assms(1-5,6), of m' None] assms(7) by auto
  then obtain r2 where 2: "drive quiet_env calm (native_executor quiet) demo_time 100 es 0 r1 () = (out, r2, ())" "resting p' m'' r2"
    using assms(8) by (auto simp: drives_def)
  show ?thesis
    using 1 2 by (auto simp: run_and_drive_def observing_def quiet_observations apply_at_def calm_def split: sum.splits)
qed

lemma quiet_run:
  "\<exists>r' m. run_until_idle quiet_env calm quiet (quiet_loop (n + 2)) quiet_start () =
     (Inl (LoopDrive (RuntimeFailed (UnknownEffect ''no outstanding effect named {}'' [MsgDbg ''write-journal-and-status'']))), r', ())
     \<and> resting bud10 m r'"
proof -
  have 0: "resting bud0 [] quiet_start" by (simp add: resting_def quiet_start_def runtime_of_def settled_def)
  obtain r1 where 1: "run_and_drive quiet_env calm quiet demo_time 100 (Recover []) [] quiet_start () =
      (Inr \<lparr>dr_completed_steps = 2, dr_held = None\<rparr>, r1, ())" "resting bud1 [] r1"
    using quiet_turn[OF 0 bud_step1 _ _ _ _ _ drive_opening] by (auto simp: check_acknowledgement_def)
  obtain m where c: "drives bud2 [(''check-token-budget:dependency-curator:cohort-open'', CheckTokenBudget (DependencyCurator refresh_boundary.CohortOpen))]
    [PersistCheckpoint, CheckTokenBudget (DependencyCurator refresh_boundary.CohortOpen)] 0
    (Inl (RuntimeFailed (UnknownEffect ''no outstanding effect named {}'' [MsgDbg ''write-journal-and-status'']))) bud10 m"
    using drive_cohort by blast
  obtain r2 where 2: "run_and_drive quiet_env calm quiet demo_time 100 (Open ''B-1'' ''main'' 1000) [] r1 () =
      (Inl (LoopDrive (RuntimeFailed (UnknownEffect ''no outstanding effect named {}'' [MsgDbg ''write-journal-and-status'']))), r2, ())"
      "resting bud10 m r2"
    using quiet_turn[OF 1(2) bud_step2 _ _ _ _ _ c] by (auto simp: check_acknowledgement_def ledger_key_def refresh_boundary_as_str_def)
  have phases: "st_phase (pr_state bud0) = Recovery" "st_phase (pr_state bud1) = Idle" "st_batch (pr_state bud0) = None"
    by (simp_all add: bud_defs cong: eval_congs)
  have r: "rt_processor quiet_start = bud0" "rt_pending quiet_start = []" "rt_processor r1 = bud1" "rt_pending r1 = []"
    using 0 1(2) by (simp_all add: resting_def)
  have "run_turns quiet_env calm quiet (quiet_loop (Suc (Suc n))) (Suc (Suc n)) False quiet_start () =
    (Inl (LoopDrive (RuntimeFailed (UnknownEffect ''no outstanding effect named {}'' [MsgDbg ''write-journal-and-status'']))), r2, ())"
    using 1(1) 2(1)
    by (simp add: observing_def quiet_observations with_pause_gate_def turn_of_def phases r quiet_loop_def Let_def
        inspection_recovery_hold_def replayable_recovery_effects_for_def recovery_requirements_def add_workspaces_def
        List.map_filter_simps)
  then show ?thesis
    using 2(2) by (auto simp: run_until_idle_def r phases quiet_loop_def)
qed

end
