(* ===== verification/LoopProps.thy ===== *)
theory LoopProps
  imports LoopScenario EngineProps "HOL-Library.Multiset"
begin

text \<open>
  The properties of the effect adapter, the driver and the scheduler: what they keep of the runtime,
  which resolutions the driver accepts, what an error, a lost lease or a pause leaves behind, the
  batches, the step limit, and what waits for inspection after a crash.
\<close>

section \<open>Reachability\<close>

interpretation grown: runtime_closed env "\<lambda>r. extends b (rt_events r)" for env :: "'d runtime_env" and b
proof unfold_locales
  fix r r' :: "'d runtime" and f c occurred operation x
  assume "extends b (rt_events r)" "apply_internal env f c occurred operation r = (x, r')"
  then show "extends b (rt_events r')"
    unfolding apply_internal_def Let_def
    by (auto split: if_splits sum.splits prod.splits option.splits dest!: commit_events append_all_extends
        best_effort_extends intro: extends_trans)
qed (auto simp: complete_effect_def record_session_def supersede_recovery_effects_with_pending_def
    supersede_reconcile_with_pending_task_effect_def Let_def
    split: option.splits prod.splits sum.splits if_splits dest!: commit_events)

text \<open>
  C16. Refinement of the runtime by the scheduler: whatever the port, the disk, the clocks and the lease
  do, when the waiting scheduler returns, with an outcome or an error, the runtime is one that the
  operations of the runtime reach, and it satisfies their invariant.
\<close>

theorem scheduler_stays_reachable:
  assumes "engine_run env cfg r" "run_watching env su x lcfg watch r w = Some (y, r', w')"
  shows "engine_run env cfg r' \<and> engine_inv cfg r'"
  using reached.run_watching_keeps[OF assms(2,1)] engine_run_inv by blast

definition quiet_watch :: "unit watch_config" where
  "quiet_watch = \<lparr>wc_initial_poll_interval = 1, wc_max_poll_interval = 1, wc_stop = None\<rparr>"

lemma quiet_watched:
  obtains r' m err where "run_watching quiet_env calm quiet (quiet_loop 2) quiet_watch quiet_start () = Some (Inl err, r', ())"
    "resting bud10 m r'"
proof -
  obtain r' m err where 1: "run_until_idle quiet_env calm quiet (quiet_loop 2) quiet_start () = (Inl err, r', ())" and
      2: "resting bud10 m r'"
    using quiet_run[of 0] unfolding add_0 by blast
  have "cohorts quiet_env calm quiet b (quiet_loop 2) 0 quiet_start () = Some (Inl err, r', ())" for b
    by (subst cohorts.simps) (simp add: 1)
  then have "watch_waves quiet_env calm quiet (quiet_loop 2) quiet_watch i k (quiet_loop 2) 0 1 quiet_start ()
      = Some (Inl err, r', ())" for i k
    by (subst watch_waves.simps) (simp add: run_until_queue_exhausted_def)
  then show thesis using that 2 by (simp add: run_watching_def Let_def)
qed

theorem scheduler_stays_reachable_witness:
  "\<exists>r'. engine_run quiet_env budget_config r' \<and> rt_processor r' = bud10"
proof -
  obtain r' m err where r': "run_watching quiet_env calm quiet (quiet_loop 2) quiet_watch quiet_start () = Some (Inl err, r', ())"
    "resting bud10 m r'" by (rule quiet_watched)
  show ?thesis
    using scheduler_stays_reachable[OF engine_run.start[OF quiet_started] r'(1)] r'(2) by (auto simp: resting_def)
qed

text \<open>
  C23. The event history only grows while the scheduler runs: the committed lines that are in the event
  file when it starts are there, unchanged, when it returns, after any failures.
\<close>

theorem scheduler_keeps_history:
  assumes "run_watching env su x cfg watch r w = Some (y, r', w')" "committed_prefix_len (rt_events r) = Inr n"
  shows "\<exists>n'. committed_prefix_len (rt_events r') = Inr n' \<and> n \<le> n' \<and> take n (rt_events r') = take n (rt_events r)"
  using grown.run_watching_keeps[OF assms(1) extends_refl] assms(2) by (simp add: extends_def)

theorem scheduler_keeps_history_witness:
  "\<exists>r' :: unit runtime. \<exists>n'. rt_processor r' = bud10 \<and> committed_prefix_len (rt_events r') = Inr n' \<and> 0 \<le> n'"
proof -
  have 0: "committed_prefix_len (rt_events quiet_start) = Inr 0"
    by (simp add: quiet_start_def runtime_of_def committed_prefix_len_def)
  obtain r' m err where r': "run_watching quiet_env calm quiet (quiet_loop 2) quiet_watch quiet_start () = Some (Inl err, r', ())"
    "resting bud10 m r'" by (rule quiet_watched)
  show ?thesis using scheduler_keeps_history[OF r'(1) 0] r'(2) unfolding resting_def by blast
qed

section \<open>The adapter and the driver\<close>

definition leaf_current :: "effect \<Rightarrow> processor_state \<Rightarrow> bool" where
  "leaf_current e s =
    (case e of
       PrepareTaskLeaf i k \<Rightarrow> map_option (\<lambda>t. leaf_in_phase (tr_phase t)) (map_of (st_tasks s) i) = Some (Some k)
     | DispatchTask i k \<Rightarrow>
         k = Review \<or> map_option (\<lambda>t. leaf_in_phase (tr_phase t)) (map_of (st_tasks s) i) = Some (Some k)
     | _ \<Rightarrow> True)"

definition resolution_fits :: "'d runtime \<Rightarrow> effect \<Rightarrow> effect_resolution \<Rightarrow> bool" where
  "resolution_fits r e a =
    (case a of
       ResolvedBy c \<Rightarrow> ensure_matching_command r e c = (Inr () :: unit drive_error + unit)
     | Reconciled c \<Rightarrow>
         (case e of Reconcile _ \<Rightarrow> True | _ \<Rightarrow> False)
         \<and> (\<exists>key. acknowledgement_key (rt_processor r) c = Inr (Some key)) \<and> reconciliation_matches_task e c
     | HoldFor _ \<Rightarrow> True
     | Acknowledge \<Rightarrow> effect_key e \<noteq> None \<and> acknowledgement_only_effect e)"

lemma executed:
  "execute x e s w = (Inr a, w') \<longleftrightarrow>
    (\<exists>w1 w2. ensure_lease_active x w = (Inr (), w1) \<and> run_effect (ex_port x) e s w1 = (Inr a, w2)
      \<and> ensure_lease_active x w2 = (Inr (), w'))"
  by (auto simp: execute_def while_owner_def then_do_Inr)

lemma resolved: "resolve f z = (Inr a, w) \<longleftrightarrow> (\<exists>b. z = (Inr b, w) \<and> a = ResolvedBy (f b))"
  by (auto simp: resolve_def then_do_Inr)

lemma was_acknowledged: "acknowledged z = (Inr a, w) \<longleftrightarrow> z = (Inr (), w) \<and> a = Acknowledge"
  by (auto simp: acknowledged_def then_do_Inr)

lemma fits_ResolvedBy:
  "resolution_fits r e (ResolvedBy c) \<longleftrightarrow> acknowledgement_key (rt_processor r) c = Inr (effect_key e)"
  by (auto simp: resolution_fits_def ensure_matching_command_def split: sum.splits)

lemma fits_Acknowledge: "resolution_fits r e Acknowledge \<longleftrightarrow> effect_key e \<noteq> None \<and> acknowledgement_only_effect e"
  by (simp add: resolution_fits_def)

text \<open>The checks are those of \<open>apply_resolution\<close>, before it touches the runtime.\<close>

definition refusal :: "'x drive_error \<Rightarrow> bool" where
  "refusal err = (case err of WrongAcknowledgement _ _ _ \<Rightarrow> True | InvalidResolution _ _ \<Rightarrow> True | _ \<Rightarrow> False)"

lemma misfit_refused:
  "\<not> resolution_fits r e a \<Longrightarrow> \<exists>err. apply_resolution env su e a at timing queue r w = (Inl err, r, w)"
  by (cases a)
    (auto simp: resolution_fits_def apply_resolution_def ensure_matching_command_def
      split: sum.splits option.splits effect.splits)

lemma fitting_not_refused:
  assumes "resolution_fits r e a" "fst (apply_resolution env su e a at timing queue r w) = Inl err"
  shows "\<not> refusal err"
proof (cases a)
  case (ResolvedBy c)
  then show ?thesis
    using assms by (auto simp: resolution_fits_def apply_resolution_def ensure_matching_command_def refusal_def with_runtime_def
        split: sum.splits prod.splits if_splits)
next
  case (Reconciled c)
  then show ?thesis
    using assms by (auto simp: resolution_fits_def apply_resolution_def refusal_def with_runtime_def
        split: sum.splits prod.splits effect.splits)
next
  case Acknowledge
  then show ?thesis
    using assms by (auto simp: resolution_fits_def apply_resolution_def refusal_def with_runtime_def
        split: sum.splits prod.splits)
qed (use assms in \<open>auto simp: apply_resolution_def\<close>)

lemma driver_checks:
  "if resolution_fits r e a
    then \<forall>err. fst (apply_resolution env su e a at timing queue r w) = Inl err \<longrightarrow> \<not> refusal err
    else \<exists>err. apply_resolution env su e a at timing queue r w = (Inl err, r, w)"
  using misfit_refused fitting_not_refused by metis

lemma adapter_answers:
  assumes "execute x e (pr_state (rt_processor r)) w = (Inr a, w')" "leaf_current e (pr_state (rt_processor r))"
  shows "(resolution_fits r e a \<longleftrightarrow>
      \<not> (\<exists>batch head. e = ReanchorPublication batch \<and> a = ResolvedBy (processor_command.Published head True))
      \<and> (\<forall>i c. e = Reconcile i \<and> a = Reconciled c \<longrightarrow>
          (\<exists>key. acknowledgement_key (rt_processor r) c = Inr (Some key)) \<and> reconciliation_matches_task (Reconcile i) c))
    \<and> (\<forall>reason. a = HoldFor reason \<longrightarrow> (\<exists>i. e = Reconcile i))"
proof -
  obtain w1 w2 where run: "run_effect (ex_port x) e (pr_state (rt_processor r)) w1 = (Inr a, w2)"
    using assms(1) by (auto simp: executed)
  note eval = run_effect.simps resolved was_acknowledged fits_ResolvedBy fits_Acknowledge then_do_Inr
  show ?thesis
  proof (cases e)
    case (DispatchTask i k)
    then show ?thesis
      using run assms(2)
      by (auto simp: eval dispatch_task_def leaf_current_def task_leaf_key_def leaf_key_def split: if_splits)
  next
    case (DispatchIntegration k)
    then show ?thesis
      using run by (cases k) (auto simp: eval dispatch_integration_leaf_def leaf_key_def split: option.splits)
  next
    case (PrepareTaskLeaf i k)
    then show ?thesis using run assms(2) by (auto simp: eval leaf_current_def task_leaf_key_def)
  next
    case (Publish batch)
    then obtain b where "a = ResolvedBy (publication_command b)" using run by (auto simp: eval)
    then show ?thesis using Publish by (cases b) (auto simp: eval publication_command_def)
  next
    case (ReanchorPublication batch)
    then obtain b where "a = ResolvedBy (reanchor_command b)" using run by (auto simp: eval)
    then show ?thesis using ReanchorPublication by (cases b) (auto simp: eval reanchor_command_def)
  next
    case (CheckTokenBudget call)
    then show ?thesis using run by (auto simp: eval split: prod.splits sum.splits)
  next
    case (EnsureTaskWorkspace i branch)
    then show ?thesis using run by (auto simp: eval split: prod.splits sum.splits)
  next
    case (Reconcile i)
    then obtain b where "a = (case b of ReconcileCommand c \<Rightarrow> Reconciled c | ReconcileHold reason \<Rightarrow> HoldFor reason)"
      using run by (auto simp: eval)
    then show ?thesis using Reconcile by (cases b) (auto simp: resolution_fits_def)
  qed (use run in \<open>auto simp: eval acknowledgement_only_effect_def\<close>)
qed

text \<open>The production port never reconciles by a command; it asks for an inspection.\<close>

lemma headless_port_holds:
  assumes "po_reconcile (ex_port x) = headless_reconcile" "execute x (Reconcile i) s w = (Inr a, w')"
  shows "\<exists>reason. a = HoldFor reason"
  using assms by (auto simp: executed run_effect.simps then_do_Inr headless_reconcile_def port_step_def)

text \<open>
  C17. The two halves of the effect boundary fit. A resolution that the adapter returns for an effect of a
  current leaf passes the checks of the driver (a command answers this very effect, only an
  acknowledgement-only effect is acknowledged, only a reconciliation is reconciled or held), with two
  exceptions and no other: re-anchoring that finds the publication already done never passes; and the
  command with which a port reconciles an interrupted task passes exactly when it acknowledges a
  recorded effect and belongs to that task, which the driver checks, since the adapter forwards the
  command of the port unseen. What does not pass is an error that leaves runtime and world as they were;
  what passes is never refused as a wrong or an invalid answer.
\<close>

theorem adapter_answers_fit_the_driver:
  assumes "execute x e (pr_state (rt_processor r)) w = (Inr a, w')" "leaf_current e (pr_state (rt_processor r))"
  shows "(resolution_fits r e a \<longleftrightarrow>
      \<not> (\<exists>batch head. e = ReanchorPublication batch \<and> a = ResolvedBy (processor_command.Published head True))
      \<and> (\<forall>i c. e = Reconcile i \<and> a = Reconciled c \<longrightarrow>
          (\<exists>key. acknowledgement_key (rt_processor r) c = Inr (Some key)) \<and> reconciliation_matches_task (Reconcile i) c))
    \<and> (\<forall>reason. a = HoldFor reason \<longrightarrow> (\<exists>i. e = Reconcile i))
    \<and> (if resolution_fits r e a
       then \<forall>err. fst (apply_resolution env su e a at timing queue r v) = Inl err \<longrightarrow> \<not> refusal err
       else \<exists>err. apply_resolution env su e a at timing queue r v = (Inl err, r, v))"
  using adapter_answers[OF assms] driver_checks[of r e a env su at timing queue v] by blast

theorem adapter_answers_fit_the_driver_witness:
  "resolution_fits quiet_start (EnsureTaskWorkspace ''T-1'' ''task/T-1'') (ResolvedBy (WorkspaceReady ''T-1''))"
proof -
  have "execute quiet (EnsureTaskWorkspace ''T-1'' ''task/T-1'') (pr_state (rt_processor quiet_start)) ()
      = (Inr (ResolvedBy (WorkspaceReady ''T-1'')), ())"
    by (simp add: executed ensure_lease_active_def quiet_def)
  from adapter_answers_fit_the_driver[OF this, THEN conjunct1] show ?thesis by (simp add: leaf_current_def)
qed

text \<open>
  C20. The re-anchoring exception of C17 is a dead end: when the port answers a re-anchoring with an
  already completed publication, the driver refuses the answer, nothing of the runtime changes, and so
  the same effect is outstanding at the next attempt, with the same end.
\<close>

theorem reanchor_already_published_is_refused:
  assumes "\<forall>s w. \<exists>head w'. po_reanchor_publication (ex_port x) batch s w = (Inr (ReanchorFoundPublished head), w')"
    and "drive env su (native_executor x) at limit (ReanchorPublication batch # queue) n r w = (y, r', w')"
  shows "r' = r \<and> (\<exists>err. y = Inl err)"
proof (cases "n < limit")
  case False
  then show ?thesis using assms(2) by (auto simp: drive_limit)
next
  case True
  have refused: "drive_single env su (native_executor x) at (ReanchorPublication batch) queue r w = (z, r1, w1) \<Longrightarrow>
      r1 = r \<and> (\<exists>err. z = Inl err)" for z r1 w1
  proof -
    assume d: "drive_single env su (native_executor x) at (ReanchorPublication batch) queue r w = (z, r1, w1)"
    have a: "\<exists>head. a = ResolvedBy (processor_command.Published head True)"
      if "execute x (ReanchorPublication batch) s v = (Inr a, v')" for s v a v'
    proof -
      obtain w1 w2 where "run_effect (ex_port x) (ReanchorPublication batch) s w1 = (Inr a, w2)"
        using \<open>execute x _ s v = _\<close> by (auto simp: executed)
      moreover obtain head w3 where "po_reanchor_publication (ex_port x) batch s w1 = (Inr (ReanchorFoundPublished head), w3)"
        using assms(1) by blast
      ultimately show ?thesis by (auto simp: run_effect.simps resolved reanchor_command_def)
    qed
    show ?thesis
      using d
      by (auto simp: drive_single_def timed_def native_executor_def record_leaf_session_of_def leaf_session_task_id_def
          apply_resolution_def ensure_matching_command_def split: prod.splits sum.splits dest!: a)
  qed
  obtain z r1 w1 where d: "drive_single env su (native_executor x) at (ReanchorPublication batch) queue r w = (z, r1, w1)"
    by (metis surj_pair)
  show ?thesis
    using assms(2) True d refused[OF d]
    by (auto simp: drive_serial batch_at_def is_task_leaf_effect_def operator_reason_def)
qed

theorem reanchor_already_published_is_refused_witness:
  "fst (snd (drive quiet_env calm (native_executor quiet) demo_time 9 [ReanchorPublication ''B-1''] 0 quiet_start ())) = quiet_start"
proof -
  have "\<forall>s w. \<exists>head w'. po_reanchor_publication (ex_port quiet) ''B-1'' s w = (Inr (ReanchorFoundPublished head), w')"
    by (simp add: quiet_def quiet_port_def)
  from reanchor_already_published_is_refused[OF this] show ?thesis by (metis prod.collapse)
qed

section \<open>Failures, leases and pauses\<close>

definition without_sessions :: "processor_state \<Rightarrow> processor_state" where
  "without_sessions s = s\<lparr>st_tasks := map (\<lambda>(i, t). (i, t\<lparr>tr_leaf_sessions := []\<rparr>)) (st_tasks s)\<rparr>"

definition still_outstanding :: "'d runtime \<Rightarrow> 'd runtime \<Rightarrow> bool" where
  "still_outstanding r r' \<longleftrightarrow>
    rt_pending r' = rt_pending r \<and> rt_events r' = rt_events r \<and> rt_index r' = rt_index r
    \<and> rt_ci_fix_provider_span r' = rt_ci_fix_provider_span r
    \<and> without_sessions (pr_state (rt_processor r')) = without_sessions (pr_state (rt_processor r))"

lemma still_outstanding_refl [simp]: "still_outstanding r r"
  by (simp add: still_outstanding_def)

lemma still_outstanding_trans: "still_outstanding r s \<Longrightarrow> still_outstanding s t \<Longrightarrow> still_outstanding r t"
  by (simp add: still_outstanding_def)

lemma map_bt_set: "map_of m k = Some v \<Longrightarrow> f (k, w) = f (k, v) \<Longrightarrow> map f (bt_set k w m) = map f m"
  by (induction k w m rule: bt_set.induct) auto

lemma session_only:
  assumes "record_leaf_session i u s = (y, s')"
  shows "without_sessions s' = without_sessions s"
  using assms
  by (auto simp: record_leaf_session_def Let_def guard_def task_mut_def put_task_def without_sessions_def map_bt_set ensure_def ok_or_def
      split: leaf_session_update.splits option.splits if_splits sum.splits)

lemma session_outstanding:
  assumes "record_session w i u r = (y, r')"
  shows "still_outstanding r r'"
  using assms session_only
  by (cases w) (auto simp: record_session_def commit_def persist_def adopt_def still_outstanding_def split: prod.splits sum.splits)

lemma forget_outstanding:
  "forget_staged_leaf_sessions su x es r w = (r', w') \<Longrightarrow> still_outstanding r r'"
proof (induction es arbitrary: r w)
  case (Cons e es)
  show ?case
  proof (cases "leaf_session_task_id e")
    case None
    then show ?thesis using Cons by simp
  next
    case (Some i)
    obtain u w1 where u: "ef_take_leaf_session x i w = (u, w1)" by fastforce
    show ?thesis
    proof (cases "\<exists>key. u = Some (Invalidated key)")
      case True
      then obtain key where key: "u = Some (Invalidated key)" by blast
      obtain y r1 w2 where 1: "record_session_at su i (Invalidated key) r w1 = ((y, r1), w2)" by (metis surj_pair)
      then have "still_outstanding r r1"
        by (auto simp: record_session_at_def split: prod.splits intro: session_outstanding)
      then show ?thesis
        using Cons.prems Cons.IH[of r1 w2] Some u key 1 still_outstanding_trans by auto
    next
      case False
      then have "forget_staged_leaf_sessions su x (e # es) r w = forget_staged_leaf_sessions su x es r w1"
        using Some u by (cases u) (auto split: leaf_session_update.splits)
      then show ?thesis using Cons by simp
    qed
  qed
qed simp

lemma no_executor_error:
  "apply_resolution env su e a at t queue r w \<noteq> (Inl (ExecutorFailed err), r', w')"
  "record_leaf_session_of su x e r w \<noteq> (Inl (ExecutorFailed err), r', w')"
  by (auto simp: apply_resolution_def with_runtime_def ensure_matching_command_def record_leaf_session_of_def
      split: effect_resolution.splits prod.splits sum.splits option.splits if_splits effect.splits)

lemma no_executor_error_in_batch:
  "apply_batch env su x at t es as n queue r w \<noteq> (Inl (ExecutorFailed err), r', w')"
proof (induction es arbitrary: as n queue r w)
  case (Cons e es)
  then show ?case
    by (cases as) (auto simp: no_executor_error split: prod.splits sum.splits option.splits)
qed simp

text \<open>
  A failed effect stays outstanding: when the executor fails, for one effect or for a batch, the
  ledger, the event file and its index are what they were, and of the state of the reducer at most
  the recorded provider sessions have changed, so the same request is retried or inspected later.
\<close>

lemma failed_effects_stay_outstanding:
  assumes "drive_single env su x at e queue r w = (Inl (ExecutorFailed err), r', w')
      \<or> drive_batch env su x at es queue r w = (Inl (ExecutorFailed err), r', w')"
  shows "still_outstanding r r'"
  using assms
proof
  assume single: "drive_single env su x at e queue r w = (Inl (ExecutorFailed err), r', w')"
  obtain z w1 where 1: "timed su (ef_execute x e (pr_state (rt_processor r))) w = (z, w1)" by fastforce
  show ?thesis
  proof (cases z)
    case (Inl err')
    obtain r1 w2 where 2: "forget_staged_leaf_sessions su x [e] r w1 = (r1, w2)" by fastforce
    then have "r' = r1" using single 1 Inl by (simp add: drive_single_def del: forget_staged_leaf_sessions.simps)
    then show ?thesis using forget_outstanding[OF 2] by simp
  next
    case (Inr b)
    then show ?thesis
      using single 1
      by (cases b) (auto simp: drive_single_def no_executor_error split: prod.splits sum.splits)
  qed
next
  assume "drive_batch env su x at es queue r w = (Inl (ExecutorFailed err), r', w')"
  then show ?thesis
    using forget_outstanding
    by (auto simp: drive_batch_def no_executor_error_in_batch split: prod.splits sum.splits if_splits)
qed

lemma failed_effects_stay_outstanding_witness:
  "still_outstanding quiet_start (fst (snd (drive_single quiet_env calm (native_executor quiet) demo_time
     (VerifyCi ''m1'') [] quiet_start ())))"
proof -
  have "drive_single quiet_env calm (native_executor quiet) demo_time (VerifyCi ''m1'') [] quiet_start () =
      (Inl (ExecutorFailed (PortFailed ''no forge'')), quiet_start, ())"
    by (simp add: drive_single_def timed_def native_executor_def execute_def while_owner_def ensure_lease_active_def
        run_effect.simps resolve_def then_do_def quiet_def quiet_port_def calm_def leaf_session_task_id_def)
  then show ?thesis using failed_effects_stay_outstanding[OF disjI1] by (metis fst_conv snd_conv)
qed

text \<open>
  C19. The lease fences the work: when the probe reports it lost, the port is not called and the world is
  the one the probe left; and a resolution is returned only when the lease is still held after the
  port has answered.
\<close>

theorem lost_lease_fences_the_port:
  assumes "ex_probe x = Some probe"
  shows "case probe w of
      (True, v) \<Rightarrow> execute x e s w = (Inl LeaseLost, v)
    | (False, v) \<Rightarrow> \<forall>a w'. execute x e s w = (Inr a, w') \<longrightarrow>
        (\<exists>v'. run_effect (ex_port x) e s v = (Inr a, v') \<and> probe v' = (False, w'))"
  using assms
  by (auto simp: execute_def while_owner_def ensure_lease_active_def then_do_def
      split: prod.splits bool.splits if_splits sum.splits)

theorem lost_lease_fences_the_port_witness:
  "execute (quiet\<lparr>ex_probe := Some (\<lambda>w. (True, w))\<rparr>) (Publish ''B-1'') (pr_state (rt_processor quiet_start)) () = (Inl LeaseLost, ())"
proof -
  have "ex_probe (quiet\<lparr>ex_probe := Some (\<lambda>w. (True, w))\<rparr>) = Some (\<lambda>w. (True, w))" by simp
  from lost_lease_fences_the_port[OF this, where w = "()"] show ?thesis by simp
qed

text \<open>
  A lost lease or a requested pause at a turn boundary stops the scheduler and the explicit commands
  before they change anything: the runtime is the one that was there, and no completion is reported.
\<close>

lemma boundary_stops_leave_the_runtime:
  assumes "ensure_lease_active x w = (Inl LeaseLost, w1)
      \<or> ensure_lease_active x w = (Inr (), w1) \<and> fst (pause_requested x w1) = Inr True"
    and "0 < lp_max_turns lcfg"
    and "run_until_idle env su x lcfg r w = (y, r', w')" "run_command_now env su x c at limit r w = (z, r'', w'')"
  shows "r' = r \<and> r'' = r \<and> ((\<exists>err. y = Inl (LoopPort err)) \<or> y = Inr (LoopHeld (HoldPaused (st_phase (pr_state (rt_processor r))))))
    \<and> ((\<exists>err. z = Inl (LoopPort err)) \<or> z = Inr (0, Some (HoldPaused (st_phase (pr_state (rt_processor r))))))"
proof -
  obtain n where n: "lp_max_turns lcfg = Suc n" using assms(2) by (cases "lp_max_turns lcfg") auto
  show ?thesis
    using assms(1,3,4)
    by (auto simp: run_until_idle_def n run_command_now_def observing_def with_pause_gate_def Let_def
        split: prod.splits sum.splits)
qed

lemma boundary_stops_leave_the_runtime_witness:
  "fst (snd (run_until_idle quiet_env calm (quiet\<lparr>ex_probe := Some (\<lambda>w. (True, w))\<rparr>) (quiet_loop 5) quiet_start ())) = quiet_start"
proof -
  let ?x = "quiet\<lparr>ex_probe := Some (\<lambda>w. (True, w))\<rparr>"
  have lost: "ensure_lease_active ?x () = (Inl LeaseLost, ())
      \<or> ensure_lease_active ?x () = (Inr (), ()) \<and> fst (pause_requested ?x ()) = Inr True"
    by (simp add: ensure_lease_active_def)
  obtain y r' w' where 1: "run_until_idle quiet_env calm ?x (quiet_loop 5) quiet_start () = (y, r', w')" by (metis surj_pair)
  obtain z r'' w'' where 2: "run_command_now quiet_env calm ?x Pause demo_time 1 quiet_start () = (z, r'', w'')"
    by (metis surj_pair)
  show ?thesis
    using boundary_stops_leave_the_runtime[OF lost _ 1 2] 1 by (simp add: quiet_loop_def)
qed

section \<open>Batches and bounds\<close>

lemma leaf_ids: "leaf_session_task_id e = Some i \<Longrightarrow> is_task_leaf_effect e \<and> task_effect_id e = i \<and> e \<noteq> PersistCheckpoint"
  by (cases e) (simp_all add: leaf_session_task_id_def is_task_leaf_effect_def task_effect_id_def)

lemma no_leaf_id: "leaf_session_task_id e = None \<longleftrightarrow> \<not> is_task_leaf_effect e"
  by (cases e) (simp_all add: leaf_session_task_id_def is_task_leaf_effect_def)

definition no_checkpoints :: "effect list \<Rightarrow> effect list" where
  "no_checkpoints = filter (\<lambda>e. e \<noteq> PersistCheckpoint)"

definition batch_ends :: "effect list \<Rightarrow> effect list \<Rightarrow> bool" where
  "batch_ends es rest = (case rest of [] \<Rightarrow> True | e # _ \<Rightarrow>
     e \<noteq> PersistCheckpoint \<and> (is_task_leaf_effect e \<longrightarrow> task_effect_id e \<in> task_effect_id ` set es))"

lemma batch_scan_spec:
  assumes "batch_scan queue (task_effect_id ` set es) es consumed markers = (fs, k, m)"
    and "distinct (map task_effect_id es)" "\<forall>e \<in> set es. is_task_leaf_effect e"
  obtains front where "queue = front @ drop (k - consumed) queue" "k = consumed + length front" "fs = es @ no_checkpoints front"
    "m + length (no_checkpoints front) = markers + length front" "distinct (map task_effect_id fs)"
    "\<forall>e \<in> set fs. is_task_leaf_effect e" "batch_ends fs (drop (k - consumed) queue)"
  using assms
proof (induction queue arbitrary: es consumed markers thesis)
  case Nil
  then show ?case by (force simp: batch_ends_def no_checkpoints_def)
next
  case (Cons e queue)
  consider (marker) "e = PersistCheckpoint" | (stop) "e \<noteq> PersistCheckpoint" "\<not> is_task_leaf_effect e \<or> task_effect_id e \<in> task_effect_id ` set es"
    | (take) "is_task_leaf_effect e" "task_effect_id e \<notin> task_effect_id ` set es" by blast
  then show ?case
  proof cases
    case marker
    obtain front where f: "queue = front @ drop (k - (consumed + 1)) queue" "k = consumed + 1 + length front" "fs = es @ no_checkpoints front"
      "m + length (no_checkpoints front) = markers + 1 + length front" "distinct (map task_effect_id fs)"
      "\<forall>e \<in> set fs. is_task_leaf_effect e" "batch_ends fs (drop (k - (consumed + 1)) queue)"
      using Cons.IH[where es = es and consumed = "consumed + 1" and markers = "markers + 1"] Cons.prems(2-4) marker by auto
    then show ?thesis
      by (intro Cons.prems(1)[of "e # front"]) (simp_all add: marker no_checkpoints_def)
  next
    case stop
    then have "(fs, k, m) = (es, consumed, markers)"
      using Cons.prems(2) by (auto simp: no_leaf_id dest: leaf_ids split: option.splits if_splits)
    then show ?thesis
      using Cons.prems stop by (intro Cons.prems(1)[of "[]"]) (auto simp: batch_ends_def no_checkpoints_def)
  next
    case take
    then obtain i where i: "leaf_session_task_id e = Some i" using no_leaf_id by blast
    note e = leaf_ids[OF i]
    obtain front where f: "queue = front @ drop (k - (consumed + 1)) queue" "k = consumed + 1 + length front"
      "fs = (es @ [e]) @ no_checkpoints front"
      "m + length (no_checkpoints front) = markers + length front" "distinct (map task_effect_id fs)"
      "\<forall>e \<in> set fs. is_task_leaf_effect e" "batch_ends fs (drop (k - (consumed + 1)) queue)"
      using Cons.IH[where es = "es @ [e]" and consumed = "consumed + 1" and markers = markers] Cons.prems(2-4) take i e by auto
    then show ?thesis
      by (intro Cons.prems(1)[of "e # front"]) (use e in \<open>simp_all add: no_checkpoints_def\<close>)
  qed
qed

lemma batch_front:
  assumes "task_batch_at_front queue = Some (es, consumed, markers)"
  shows "mset es = mset (no_checkpoints (take consumed queue)) \<and> 2 \<le> length es
    \<and> consumed = markers + length es \<and> consumed \<le> length queue
    \<and> sorted (map task_effect_id es) \<and> distinct (map task_effect_id es) \<and> list_all is_task_leaf_effect es
    \<and> batch_ends es (drop consumed queue)"
proof -
  obtain fs where scan: "batch_scan queue {} [] 0 0 = (fs, consumed, markers)" and fs: "2 \<le> length fs" "es = sort_key task_effect_id fs"
    using assms by (auto simp: task_batch_at_front_def split: prod.splits if_splits)
  obtain front where f: "queue = front @ drop consumed queue" "consumed = length front" "fs = no_checkpoints front"
    "markers + length (no_checkpoints front) = length front" "distinct (map task_effect_id fs)"
    "\<forall>e \<in> set fs. is_task_leaf_effect e" "batch_ends fs (drop consumed queue)"
    using batch_scan_spec[of queue "[]" 0 0 fs consumed markers] scan by auto
  have "mset (map task_effect_id es) = mset (map task_effect_id fs)" using fs(2) by simp
  then have "distinct (map task_effect_id es)" using f(5) mset_eq_imp_distinct_iff by blast
  moreover have "take consumed queue = front" using f(1,2) by (metis append_eq_conv_conj)
  moreover have "batch_ends es (drop consumed queue)"
    using f(7) fs(2) by (simp add: batch_ends_def split: list.splits)
  ultimately show ?thesis
    using fs f by (auto simp: list_all_iff)
      (metis append_eq_conv_conj length_append le_add1)
qed

text \<open>
  C24. A parallel batch is what the front of the queue allows: it holds the leaf effects of at least two
  different tasks, in the order of their task ids, with exactly the checkpoint markers between them,
  nothing of the queue is lost or repeated, and it ends only where another kind of effect, a second
  effect of the same task or the end of the queue comes.
\<close>

theorem batch_takes_the_front:
  assumes "task_batch_at_front queue = Some (es, consumed, markers)"
  shows "mset es = mset (no_checkpoints (take consumed queue)) \<and> 2 \<le> length es
    \<and> consumed = markers + length es \<and> consumed \<le> length queue
    \<and> sorted (map task_effect_id es) \<and> distinct (map task_effect_id es) \<and> list_all is_task_leaf_effect es
    \<and> batch_ends es (drop consumed queue)"
  using assms by (rule batch_front)

theorem batch_takes_the_front_witness:
  "mset [DispatchTask ''T-1'' Fix, PrepareTaskReview ''T-2''] = mset (no_checkpoints (take 3
     [PrepareTaskReview ''T-2'', PersistCheckpoint, DispatchTask ''T-1'' Fix, WriteJournalAndStatus]))"
proof -
  have "task_batch_at_front [PrepareTaskReview ''T-2'', PersistCheckpoint, DispatchTask ''T-1'' Fix, WriteJournalAndStatus]
    = Some ([DispatchTask ''T-1'' Fix, PrepareTaskReview ''T-2''], 3, 1)"
    by (simp add: task_batch_at_front_def leaf_session_task_id_def task_effect_id_def eval_nat_numeral)
  then show ?thesis using batch_takes_the_front by blast
qed

lemma batch_count: "apply_batch env su x at t es as n queue r w = (Inr (q, k, h), r', w') \<Longrightarrow> length as = length es \<Longrightarrow> n \<le> k \<and> k \<le> n + length es"
proof (induction es arbitrary: as n queue r w)
  case (Cons e es)
  then show ?case
    by (cases as) (fastforce split: prod.splits sum.splits option.splits)+
qed simp

lemma batch_within: "drive_batch env su x at es queue r w = (Inr (q, k, h), r', w') \<Longrightarrow> k \<le> length es"
  by (auto simp: drive_batch_def split: prod.splits sum.splits if_splits dest: batch_count)

lemma batch_at_count: "batch_at queue = Some (es, consumed, markers) \<Longrightarrow> consumed = markers + length es"
  using batch_front[of queue es consumed markers] by (auto simp: batch_at_def split: list.splits if_splits)

text \<open>
  The step limit bounds the work of a turn: a report of the driver never counts more completed steps
  than the limit, and never fewer than when it started, holds and batches included.
\<close>

lemma drive_within_limit:
  assumes "drive env su x at limit queue n r w = (Inr report, r', w')" "n \<le> limit"
  shows "n \<le> dr_completed_steps report \<and> dr_completed_steps report \<le> limit"
proof -
  have "n \<le> limit \<longrightarrow> (case fst (drive env su x at limit queue n r w) of Inl _ \<Rightarrow> True
      | Inr report \<Rightarrow> n \<le> dr_completed_steps report \<and> dr_completed_steps report \<le> limit)"
    by (rule drive_rule[where S = "\<lambda>n r z. n \<le> limit \<longrightarrow> (case fst z of Inl _ \<Rightarrow> True
      | Inr report \<Rightarrow> n \<le> dr_completed_steps report \<and> dr_completed_steps report \<le> limit)"])
      (auto dest!: batch_within batch_at_count split: sum.splits option.splits)
  then show ?thesis using assms by simp
qed


lemma drive_within_limit_witness:
  "case fst (drive quiet_env calm (native_executor quiet) demo_time 9 [PersistCheckpoint] 0 quiet_start ()) of
     Inr report \<Rightarrow> dr_completed_steps report \<le> 9 | Inl _ \<Rightarrow> False"
proof -
  have 1: "drive quiet_env calm (native_executor quiet) demo_time 9 [PersistCheckpoint] 0 quiet_start () =
      (Inr \<lparr>dr_completed_steps = 1, dr_held = None\<rparr>, quiet_start, ())"
    by (simp add: drive_marker)
  from drive_within_limit[OF 1] show ?thesis by (simp add: 1)
qed

section \<open>Recovery\<close>

lemma inspection_recovery_hold_eq:
  "inspection_recovery_hold safe r =
    (case filter (\<lambda>(k, e). \<not> retry_safe e \<and> \<not> safe e) (rt_pending r) of [] \<Rightarrow> None | (k, e) # _ \<Rightarrow> Some (HoldInspection k e))"
proof -
  have "List.map_filter (\<lambda>q. case q of InspectBeforeContinuing key e \<Rightarrow> if safe e then None else Some (HoldInspection key e)
      | RetryIdempotently _ _ \<Rightarrow> None) (map (\<lambda>(key, e). if retry_safe e then RetryIdempotently key e
        else InspectBeforeContinuing key e) m)
    = map (\<lambda>(k, e). HoldInspection k e) (filter (\<lambda>(k, e). \<not> retry_safe e \<and> \<not> safe e) m)" for m
  proof (induction m)
    case (Cons q m)
    then show ?case
      by (cases q; cases "retry_safe (snd q)"; cases "safe (snd q)") (simp_all add: List.map_filter_simps)
  qed (simp add: List.map_filter_simps)
  then show ?thesis
    by (auto simp: inspection_recovery_hold_def recovery_requirements_def split: list.splits)
qed

lemma inspection_holds:
  assumes "(k, e) \<in> set (rt_pending r)" "\<not> retry_safe e" "\<not> safe e"
  obtains k' e' where "inspection_recovery_hold safe r = Some (HoldInspection k' e')" "(k', e') \<in> set (rt_pending r)"
    "\<not> retry_safe e'" "\<not> safe e'"
proof -
  let ?held = "filter (\<lambda>(k, e). \<not> retry_safe e \<and> \<not> safe e) (rt_pending r)"
  have "(k, e) \<in> set ?held" using assms by simp
  then obtain k' e' rest where q: "?held = (k', e') # rest" by (cases ?held) auto
  then have "(k', e') \<in> set ?held" by simp
  then have "(k', e') \<in> set (rt_pending r)" "\<not> retry_safe e'" "\<not> safe e'" by auto
  then show thesis using that q by (simp add: inspection_recovery_hold_eq)
qed

text \<open>
  The look at the lease and at the pause switch before a turn, and then a return without a turn. It is given
  these three operations and nothing else of the port.
\<close>

definition look_and_return ::
    "('w \<Rightarrow> ('e native_error + unit) \<times> 'w) \<Rightarrow> ('w \<Rightarrow> ('e native_error + bool) \<times> 'w)
     \<Rightarrow> ('w \<Rightarrow> ('e native_error + unit) \<times> 'w) \<Rightarrow> hold_reason \<Rightarrow> 'w
     \<Rightarrow> ('e native_error + hold_reason) \<times> 'w" where
  "look_and_return lease paused_now write_status h w =
    then_do (lease w) id (\<lambda>_ w.
    then_do (paused_now w) id (\<lambda>paused w.
      if paused then then_do (write_status w) id (\<lambda>_ w. (Inr (HoldPaused Recovery), w)) else (Inr h, w)))"

text \<open>
  C18. After a crash nothing dangerous is repeated: when the ledger of a restarted runtime holds an effect
  that is not safe to repeat (a model call, a commit, a merge, a publication), the scheduler leaves the
  runtime as it is and executes nothing. All that it does to the world is to check the lease, to read
  the pause switch and, when that is on, to write the pause status; the result is the error of
  one of these three operations, the pause, or the key and the effect, outstanding and unsafe, that have
  to be inspected.
\<close>

theorem unsafe_effects_wait_for_inspection:
  assumes "st_phase (pr_state (rt_processor r)) = Recovery" "(k, e) \<in> set (rt_pending r)" "\<not> retry_safe e"
    and "\<not> interrupted_effect_retry_safe x e" "0 < lp_max_turns lcfg"
    and "run_until_idle env su x lcfg r w = (y, r', w')"
  shows "r' = r \<and> (\<exists>k' e'. (k', e') \<in> set (rt_pending r) \<and> \<not> retry_safe e' \<and> \<not> interrupted_effect_retry_safe x e'
    \<and> (y, w') = map_prod (map_sum LoopPort LoopHeld) id
        (look_and_return (ensure_lease_active x) (pause_requested x) (write_pause_status x (pr_state (rt_processor r)))
          (HoldInspection k' e') w))"
proof -
  obtain n where n: "lp_max_turns lcfg = Suc n" using assms(5) by (cases "lp_max_turns lcfg") auto
  obtain k' e' where hold: "inspection_recovery_hold (interrupted_effect_retry_safe x) r = Some (HoldInspection k' e')"
      "(k', e') \<in> set (rt_pending r)" "\<not> retry_safe e'" "\<not> interrupted_effect_retry_safe x e'"
    by (rule inspection_holds[OF assms(2,3), of "interrupted_effect_retry_safe x"]) (use assms(4) in simp)
  have "r' = r \<and> (y, w') = map_prod (map_sum LoopPort LoopHeld) id
        (look_and_return (ensure_lease_active x) (pause_requested x) (write_pause_status x (pr_state (rt_processor r)))
          (HoldInspection k' e') w)"
    using assms(1,6) hold(1)
    by (auto simp: run_until_idle_def n observing_def with_pause_gate_def turn_of_def Let_def look_and_return_def then_do_def
        split: prod.splits sum.splits if_splits)
  then show ?thesis using hold(2-4) by blast
qed

definition crashed_publish :: "unit runtime" where
  "crashed_publish = runtime_of bud0 [(''publish'', Publish ''B-1'')] None None []"

theorem unsafe_effects_wait_for_inspection_witness:
  "fst (run_until_idle quiet_env calm quiet (quiet_loop 3) crashed_publish ()) =
    Inr (LoopHeld (HoldInspection ''publish'' (Publish ''B-1'')))"
proof -
  obtain y r' w' where run: "run_until_idle quiet_env calm quiet (quiet_loop 3) crashed_publish () = (y, r', w')"
    by (metis surj_pair)
  have st: "st_phase (pr_state (rt_processor crashed_publish)) = Recovery" "rt_pending crashed_publish = [(''publish'', Publish ''B-1'')]"
    by (simp_all add: crashed_publish_def runtime_of_def bud_defs cong: eval_congs)
  have unsafe: "\<not> interrupted_effect_retry_safe quiet (Publish ''B-1'')"
    by (simp add: interrupted_effect_retry_safe_def)
  have "look_and_return (ensure_lease_active quiet) (pause_requested quiet) (write_pause_status quiet s) h () = (Inr h, ())" for s h
    by (simp add: look_and_return_def then_do_def quiet_observations)
  then show ?thesis
    using unsafe_effects_wait_for_inspection[OF st(1) _ _ unsafe _ run, of "''publish''"] run
    by (auto simp: st(2) retry_safe_def quiet_loop_def)
qed

end
