(* ===== verification/LoopFaults.thy ===== *)
theory LoopFaults
  imports LoopScenario EngineProps
begin

text \<open>
  Two ways in which a run cannot go on: a second budget halt in one round, and a crash during the
  budget check of a task's model call.
\<close>

section \<open>Budget halts in a run\<close>

text \<open>
  C21. A run that a second budget check breaks: from a fresh runtime, with two tasks admitted in one round
  and the telemetry unavailable when their first calls are checked, the first check halts the
  cohort and requests the clean-up; the second check, already queued, requests it again, the driver
  executes the journal twice, and the second acknowledgement has no entry in the ledger: the run ends
  in an error in the middle of the clean-up.
\<close>

theorem second_budget_halt_breaks_the_run:
  "\<exists>r'. run_until_idle quiet_env calm quiet (quiet_loop (n + 2)) quiet_start () =
      (Inl (LoopDrive (RuntimeFailed (UnknownEffect ''no outstanding effect named {}'' [MsgDbg ''write-journal-and-status'']))), r', ())
    \<and> engine_run quiet_env budget_config r' \<and> st_phase (pr_state (rt_processor r')) = Cleaning
    \<and> map (\<lambda>(i, t). tr_phase t) (st_tasks (pr_state (rt_processor r'))) = [task_phase.Escalated, task_phase.Escalated]"
proof -
  obtain r' m where run: "run_until_idle quiet_env calm quiet (quiet_loop (n + 2)) quiet_start () =
      (Inl (LoopDrive (RuntimeFailed (UnknownEffect ''no outstanding effect named {}'' [MsgDbg ''write-journal-and-status'']))), r', ())"
    and r': "resting bud10 m r'"
    using quiet_run by blast
  have "engine_run quiet_env budget_config r'"
    using reached.run_until_idle_keeps[OF engine_run.start[OF quiet_started] run] .
  moreover have "st_phase (pr_state bud10) = Cleaning"
      "map (\<lambda>(i, t). tr_phase t) (st_tasks (pr_state bud10)) = [task_phase.Escalated, task_phase.Escalated]"
    by (simp_all add: bud_defs cong: eval_congs)
  ultimately show ?thesis using run r' by (auto simp: resting_def)
qed

section \<open>Recovery with an outstanding budget check\<close>

definition is_task_call :: "model_call \<Rightarrow> bool" where
  "is_task_call c = (case c of TaskLeafPreparation _ _ \<Rightarrow> True | TaskReviewPreparation _ \<Rightarrow> True | TaskCall _ _ \<Rightarrow> True | _ \<Rightarrow> False)"

definition task_budget_check :: "effect \<Rightarrow> bool" where
  "task_budget_check e = (case e of CheckTokenBudget c \<Rightarrow> is_task_call c | CheckCohortBudget c \<Rightarrow> is_task_call c | _ \<Rightarrow> False)"

definition taskless :: "effect \<Rightarrow> bool" where
  "taskless e \<longleftrightarrow> \<not> task_budget_check e \<and> (case from_effect e of Some c \<Rightarrow> \<not> is_task_call c | None \<Rightarrow> True)"

lemma taskless_guarded: "list_all taskless es \<Longrightarrow> list_all (\<lambda>e. \<not> task_budget_check e) (guard_model_effects cfg es)"
  by (auto simp: guard_model_effects_def guard_model_effect_def list_all_iff taskless_def task_budget_check_def
      split: option.splits)

lemma taskless_eval [simp]:
  "taskless PersistCheckpoint" "taskless (WaitForOperator q)" "taskless (Reconcile i)" "taskless WriteJournalAndStatus"
  "taskless (PrepareIntegrationWorkspace b)" "taskless (MergeTask i)" "taskless (DispatchIntegration k)"
  "taskless (ReanchorPublication b)" "taskless (VerifyCi h)" "taskless (Publish b)" "taskless (ReconcileInbox n)"
  "taskless (DispatchDependencyCurator d)" "taskless PrepareArchival" "taskless (CleanupTaskWorkspace i)" "taskless (ArchiveTask i)"
  "taskless CleanupIntegrationWorkspace" "taskless CleanupCohortControlPlane" "taskless (EnsureTaskWorkspace i b)"
  by (simp_all add: taskless_def task_budget_check_def from_effect_def is_task_call_def)

lemma join_taskless: "next_merge_or_review s = (Inr es, s') \<Longrightarrow> list_all taskless es"
  by (auto simp: next_merge_or_review_def dispatch_integration_def guard_def split: if_splits list.splits sum.splits)

lemma publish_taskless: "publishing_resume_effect cfg s = (Inr e, s') \<Longrightarrow> taskless e"
  by (auto simp: publishing_resume_effect_def dispatch_integration_def guard_def Let_def
      split: if_splits option.splits sum.splits)

lemma boundary_taskless: "taskless (rolling_boundary_effect cfg s)"
  by (simp add: rolling_boundary_effect_def inbox_reconciliation_effect_def)

lemma cleanup_taskless: "list_all taskless (cleanup_effects s)"
proof -
  have "list_all taskless (task_cleanup_effects t)" for t by (simp add: task_cleanup_effects_def)
  then have "list_all taskless (concat (map task_cleanup_effects ts))" for ts by (induction ts) simp_all
  then show ?thesis by (simp add: cleanup_effects_def Let_def)
qed

lemma ordered_taskless:
  assumes "list_all taskless cleanup" "list_all taskless effects"
  shows "list_all taskless (merge_cleanup_order cleanup effects)"
proof -
  have push: "list_all taskless o' \<Longrightarrow> list_all taskless es \<Longrightarrow> list_all taskless (foldl push_unique_effect o' es)" for o' es
    by (induction es arbitrary: o') (auto simp: push_unique_effect_def)
  have filt: "list_all taskless o' \<Longrightarrow> list_all taskless es \<Longrightarrow>
      list_all taskless (foldl (\<lambda>o' e. if P e then push_unique_effect o' e else o') o' es)" for P o' es
    by (induction es arbitrary: o') (auto simp: push_unique_effect_def)
  show ?thesis
    using assms by (auto simp: merge_cleanup_order_def split_journal_Some intro!: push filt split: option.splits)
qed

definition no_import :: "processor_state \<Rightarrow> bool" where
  "no_import s \<longleftrightarrow> list_all (\<lambda>(i, t). tr_imported_recovery_intent t = None) (st_tasks s)"

lemma scan_taskless:
  "list_all (\<lambda>(i, t). tr_imported_recovery_intent t = None) m \<Longrightarrow> recover_tasks present m = (Inr (Inr es), m') \<Longrightarrow> list_all taskless es"
proof (induction m arbitrary: es m')
  case (Cons e m)
  obtain k t where e: "e = (k, t)" by (cases e)
  obtain x t' where 1: "recover_task present t = (x, t')" by fastforce
  have "x = Inr (Inr fs) \<Longrightarrow> list_all taskless fs" for fs
    using 1 Cons.prems(1) by (auto simp: recover_task_def e Let_def split: if_splits)
  then show ?case
    using Cons 1 by (auto simp: e split: sum.splits prod.splits)
qed simp

lemma finish_taskless:
  assumes "recover_finish cfg target effects s = (Inr es, s')" "list_all taskless effects"
  shows "list_all taskless es"
  using assms
  by (auto simp: recover_finish_def Let_def and_then_def singleton_effect_def boundary_taskless cleanup_taskless
      split: if_splits phase.splits sum.splits prod.splits intro: ordered_taskless dest: join_taskless publish_taskless)

lemma recover_taskless:
  assumes "accept lc (Recover present) p = (Inr es, p')" "no_import (pr_state p)"
  shows "list_all (\<lambda>e. \<not> task_budget_check e) es"
proof -
  have "apply_command lc (Recover present) p = (Inr es, p')" using assms(1) by (cases rule: accept_cases) auto
  then show ?thesis
  proof (cases rule: apply_cases)
    case wait
    then show ?thesis by (simp add: task_budget_check_def)
  next
    case (ran fs)
    have "list_all taskless fs"
      using ran(1) assms(2)
      by (auto simp: run_command_def recover_def Let_def no_import_def split: if_splits sum.splits prod.splits
          dest: scan_taskless finish_taskless)
    then have "list_all (\<lambda>e. \<not> task_budget_check e) (guard_model_effects (pr_config p') fs)" by (rule taskless_guarded)
    then show ?thesis
      using ran(2) by (auto simp: is_budget_check_def with_checkpoint_def task_budget_check_def split: list.splits if_splits)
  qed
qed

lemma activate_blocked:
  assumes "e \<in> set replayable" "e \<notin> set effects" "task_budget_check e"
    and "activate_recovery_effects su replayable effects r w = (y, r', w')"
  shows "\<exists>err. y = Inl err"
  using assms
proof (induction replayable arbitrary: effects r w)
  case (Cons replay rest)
  have not_e: "\<not> own_replay_proof e" "e \<noteq> PrepareKnowledgeCuration" "retry_safe_task e = None"
    using Cons.prems(3) by (cases e; simp add: task_budget_check_def own_replay_proof_def retry_safe_task_def)+
  obtain z r1 w1 where 1: "activate_effect su replay effects r w = (z, r1, w1)" by (metis surj_pair)
  show ?case
  proof (cases z)
    case (Inl err)
    then show ?thesis using Cons.prems(4) 1 by (auto dest: sym)
  next
    case (Inr effects1)
    have "replay \<noteq> e" using 1 Inr Cons.prems(2) not_e by (auto simp: activate_effect_def)
    moreover have "set effects1 \<subseteq> insert replay (set effects)"
    proof -
      have "set (replace_first a b xs) \<subseteq> insert b (set xs)" for a b :: effect and xs by (induction xs) auto
      then show ?thesis
        using 1 Inr by (fastforce simp: activate_effect_def Let_def split: if_splits prod.splits sum.splits option.splits)
    qed
    ultimately show ?thesis
      using Cons.IH[of effects1 r1 w1] Cons.prems 1 Inr by auto
  qed
qed simp

lemma replayable_check:
  assumes "(k, e) \<in> set (rt_pending r)" "task_budget_check e"
  shows "e \<in> set (replayable_recovery_effects_for safe r)"
proof -
  have safe: "retry_safe e" "\<And>i. e \<noteq> Reconcile i"
    using assms(2) by (cases e; simp add: task_budget_check_def retry_safe_def)+
  have "e \<in> set (List.map_filter (\<lambda>q. case q of RetryIdempotently _ e \<Rightarrow> Some e
           | InspectBeforeContinuing _ e \<Rightarrow> if safe e then Some e else None) (recovery_requirements r))"
    using assms(1) safe(1) by (force simp: recovery_requirements_def List.map_filter_def image_iff)
  then show ?thesis
    using safe(2) by (auto simp: replayable_recovery_effects_for_def Let_def split: effect.splits)
qed

lemma recovery_turn_blocked:
  assumes "(k, e) \<in> set (rt_pending r)" "task_budget_check e" "no_import (pr_state (rt_processor r))"
    and "run_and_drive env su x at limit (Recover present) (replayable_recovery_effects_for safe r) r w = (y, r', w')"
  shows "\<exists>err. y = Inl err"
proof -
  have gone: "e \<notin> set effects" if "apply_at env su (Recover present) t None r v = ((Inr effects, r1), v1)" for t v effects r1 v1
  proof -
    obtain f v2 where "su_faults su v = (f, v2)" by fastforce
    then have "apply_internal env f (Recover present) t None r = (Inr effects, r1)"
      using that by (simp add: apply_at_def)
    then obtain p where "accept (re_lowercase env) (Recover present) (rt_processor r) = (Inr effects, p)"
      by (cases rule: apply_internal_cases) (auto elim: commit_cases)
    from recover_taskless[OF this assms(3)] show ?thesis using assms(2) by (auto simp: list_all_iff)
  qed
  show ?thesis
    using assms(4) replayable_check[OF assms(1,2), of safe]
    by (auto simp: run_and_drive_def observing_def split: prod.splits sum.splits
        dest!: activate_blocked[OF _ gone assms(2)])
qed

text \<open>
  C22. A crash while the budget of a task's model call is being checked is not recovered: the ledger calls
  the check safe to repeat, but the recovery turn only reconciles the tasks, and the scheduler accepts
  no repeated effect that the turn has not emitted again. So as long as the check is in the
  ledger the scheduler returns errors or holds, and never completes a recovery.
\<close>

theorem outstanding_budget_check_blocks_recovery:
  assumes "st_phase (pr_state (rt_processor r)) = Recovery" "(k, e) \<in> set (rt_pending r)" "task_budget_check e"
    and "no_import (pr_state (rt_processor r))"
    and "run_until_idle env su x lcfg r w = (y, r', w')"
  shows "(\<exists>err. y = Inl err) \<or> (\<exists>reason. y = Inr (LoopHeld reason) \<and> r' = r)"
proof (cases "lp_max_turns lcfg")
  case 0
  then show ?thesis using assms(5) by (auto simp: run_until_idle_def)
next
  case (Suc n)
  have blocked: "\<exists>err. z = Inl err"
    if "run_and_drive env su x (lp_occurred_at lcfg) (lp_max_effects_per_turn lcfg) (Recover present)
      (replayable_recovery_effects_for (interrupted_effect_retry_safe x) r) r v = (z, r1, v1)" for present v z r1 v1
    by (rule recovery_turn_blocked[OF assms(2,3,4) that])
  show ?thesis
    using assms(1,5)
    by (auto simp: run_until_idle_def Suc observing_def with_pause_gate_def turn_of_def Let_def
        split: prod.splits sum.splits if_splits option.splits dest!: blocked)
qed

definition crashed_check :: "unit runtime" where
  "crashed_check = runtime_of (bud6\<lparr>pr_state := (pr_state bud6)\<lparr>st_phase := Recovery\<rparr>, pr_recovery_target := Some Rolling\<rparr>)
     [(''check-token-budget:prepare-task-leaf:T-1:implement'', CheckTokenBudget (TaskLeafPreparation ''T-1'' Implement))] None None []"

theorem outstanding_budget_check_blocks_recovery_witness:
  "fst (run_until_idle quiet_env calm quiet (quiet_loop 3) crashed_check ()) \<noteq> Inr LoopCompleted"
proof -
  have c: "st_phase (pr_state (rt_processor crashed_check)) = Recovery"
      "(''check-token-budget:prepare-task-leaf:T-1:implement'', CheckTokenBudget (TaskLeafPreparation ''T-1'' Implement))
        \<in> set (rt_pending crashed_check)"
      "task_budget_check (CheckTokenBudget (TaskLeafPreparation ''T-1'' Implement))"
      "no_import (pr_state (rt_processor crashed_check))"
    by (simp_all add: crashed_check_def runtime_of_def task_budget_check_def is_task_call_def no_import_def bud_defs cong: eval_congs)
  obtain y r' w' where run: "run_until_idle quiet_env calm quiet (quiet_loop 3) crashed_check () = (y, r', w')"
    by (metis surj_pair)
  show ?thesis using outstanding_budget_check_blocks_recovery[OF c run] run by auto
qed

end
