(* ===== verification/CommandLine.thy ===== *)
theory CommandLine
  imports Contract Events
begin

text \<open>
  The strict command lines of operator-owned tool profiles, \<open>src/engine/src/command_line.rs\<close>: a
  command is split into typed arguments without a shell, and the executable must not be a shell. A
  text is walked character by character: \<open>utf8_chars\<close> cuts the bytes of a text into its characters.
\<close>

section \<open>Characters\<close>

function utf8_chars :: "string \<Rightarrow> string list" where
  "utf8_chars [] = []"
| "utf8_chars (c # s) = (c # takeWhile continuation s) # utf8_chars (dropWhile continuation s)"
  by pat_completeness auto
termination by (relation "measure length") (auto simp: le_imp_less_Suc length_dropWhile_le)

definition whole_char :: "string \<Rightarrow> bool" where
  "whole_char c \<longleftrightarrow> c \<noteq> [] \<and> \<not> continuation (hd c) \<and> list_all continuation (tl c)"

definition whole_text :: "string \<Rightarrow> bool" where
  "whole_text s \<longleftrightarrow> s = [] \<or> \<not> continuation (hd s)"

lemma utf8_chars_Cons:
  assumes "whole_char c" "whole_text s"
  shows "utf8_chars (c @ s) = c # utf8_chars s"
proof -
  obtain b t where c: "c = b # t" "list_all continuation t" using assms(1) by (cases c) (auto simp: whole_char_def)
  have "takeWhile continuation (t @ s) = t" "dropWhile continuation (t @ s) = s"
    using c(2) assms(2) by (cases s; simp add: whole_text_def list_all_iff takeWhile_append2 dropWhile_append2)+
  then show ?thesis by (simp add: c(1))
qed

lemma whole_text_concat: "list_all whole_char cs \<Longrightarrow> whole_text (concat cs)"
  by (cases cs) (auto simp: whole_char_def whole_text_def)

lemma utf8_chars_concat: "list_all whole_char cs \<Longrightarrow> utf8_chars (concat cs) = cs"
  by (induction cs) (simp_all add: utf8_chars_Cons whole_text_concat)

lemma concat_utf8_chars [simp]: "concat (utf8_chars s) = s"
  by (induction s rule: utf8_chars.induct) simp_all

lemma utf8_chars_whole: "whole_text s \<Longrightarrow> list_all whole_char (utf8_chars s)"
proof (induction s rule: utf8_chars.induct)
  case (2 c s)
  have "whole_text (dropWhile continuation s)"
    using hd_dropWhile[of continuation s] by (auto simp: whole_text_def)
  moreover have "list_all continuation (takeWhile continuation s)"
    by (auto simp: list_all_iff dest: set_takeWhileD)
  ultimately show ?case using 2 by (simp add: whole_char_def whole_text_def)
qed simp

section \<open>The executable\<close>

definition to_ascii_lowercase :: "string \<Rightarrow> string" where
  "to_ascii_lowercase s =
    map (\<lambda>c. if 65 \<le> (of_char c :: nat) \<and> (of_char c :: nat) \<le> 90 then char_of ((of_char c :: nat) + 32) else c) s"

definition bslash :: char where "bslash = CHR 0x5C"

datatype argv_error =
  CommandEmptyOrNul | ShellOperator string | UnterminatedQuote | NoExecutable | ExecutableMalformed | ShellExecutable string

definition executable_name :: "string \<Rightarrow> string" where
  "executable_name program =
    (let segment = rev (takeWhile (\<lambda>c. c \<noteq> CHR ''/'' \<and> c \<noteq> bslash) (rev program))
     in to_ascii_lowercase (rev (dropWhile (\<lambda>c. c = CHR ''.'' \<or> c = CHR '' '') (rev segment))))"

definition file_stem :: "string \<Rightarrow> string" where
  "file_stem name = (if CHR ''.'' \<in> set name then rev (tl (dropWhile (\<lambda>c. c \<noteq> CHR ''.'') (rev name))) else name)"

definition shell_hosts :: "string list" where
  "shell_hosts = [''cmd'', ''sh'', ''bash'', ''dash'', ''ksh'', ''zsh'', ''fish'', ''busybox'', ''pwsh'', ''powershell'']"

definition validate_direct_program :: "string \<Rightarrow> argv_error + unit" where
  "validate_direct_program program =
    (if program = [] \<or> list_ex (\<lambda>c. c \<in> {CHR 0x00, CHR 0x0A, CHR 0x0D}) program then Inl ExecutableMalformed
     else if file_stem (executable_name program) \<in> set shell_hosts then Inl (ShellExecutable program)
     else Inr ())"

section \<open>The arguments\<close>

datatype quote = SingleQuote | DoubleQuote

definition squote_char :: string where "squote_char = [CHR 0x27]"
definition dquote_char :: string where "dquote_char = [CHR 0x22]"
definition bslash_char :: string where "bslash_char = [CHR 0x5C]"

definition shell_operators :: "string list" where
  "shell_operators = [''|'', ''&'', '';'', ''<'', ''>'', ''$'', ''('', '')'', [CHR 0x60]]"

text \<open>The rest of the characters, the open quote, the current token and whether it has started, the arguments.\<close>

fun argv_loop :: "string list \<Rightarrow> quote option \<Rightarrow> string \<Rightarrow> bool \<Rightarrow> string list \<Rightarrow> argv_error + string list" where
  "argv_loop [] q current started argv =
    (if q \<noteq> None then Inl UnterminatedQuote else Inr (if started then argv @ [current] else argv))"
| "argv_loop (c # cs) (Some SingleQuote) current started argv =
    (if c = squote_char then argv_loop cs None current True argv
     else argv_loop cs (Some SingleQuote) (current @ c) True argv)"
| "argv_loop (c # cs) (Some DoubleQuote) current started argv =
    (if c = dquote_char then argv_loop cs None current True argv
     else (case cs of
       d # rest \<Rightarrow>
         if c = bslash_char \<and> (d = dquote_char \<or> d = bslash_char)
         then argv_loop rest (Some DoubleQuote) (current @ d) True argv
         else argv_loop cs (Some DoubleQuote) (current @ c) True argv
     | [] \<Rightarrow> argv_loop cs (Some DoubleQuote) (current @ c) True argv))"
| "argv_loop (c # cs) None current started argv =
    (if c = squote_char then argv_loop cs (Some SingleQuote) current True argv
     else if c = dquote_char then argv_loop cs (Some DoubleQuote) current True argv
     else if c \<in> set ws_codes then
       (if started then argv_loop cs None [] False (argv @ [current]) else argv_loop cs None current started argv)
     else if c \<in> set shell_operators then Inl (ShellOperator c)
     else argv_loop cs None (current @ c) True argv)"

definition parse_typed_argv :: "string \<Rightarrow> argv_error + string list" where
  "parse_typed_argv command =
    (if trim command = [] \<or> CHR 0x00 \<in> set command then Inl CommandEmptyOrNul
     else (case argv_loop (utf8_chars command) None [] False [] of
       Inl e \<Rightarrow> Inl e
     | Inr argv \<Rightarrow>
        (case argv of
           [] \<Rightarrow> Inl NoExecutable
         | program # _ \<Rightarrow> (case validate_direct_program program of Inl e \<Rightarrow> Inl e | Inr _ \<Rightarrow> Inr argv))))"

section \<open>Round trip\<close>

text \<open>An argument in double quotes, with the two escapes the decoder knows.\<close>

definition escape_char :: "string \<Rightarrow> string list" where
  "escape_char c = (if c = dquote_char \<or> c = bslash_char then [bslash_char, c] else [c])"

definition quoted_chars :: "string \<Rightarrow> string list" where
  "quoted_chars arg = dquote_char # concat (map escape_char (utf8_chars arg)) @ [dquote_char]"

definition quote_arg :: "string \<Rightarrow> string" where
  "quote_arg arg = concat (quoted_chars arg)"

lemma quote_chars_distinct [simp]:
  "dquote_char \<noteq> squote_char" "bslash_char \<noteq> dquote_char" "dquote_char \<noteq> bslash_char"
  "'' '' \<noteq> squote_char" "'' '' \<noteq> dquote_char"
  by (simp_all add: squote_char_def dquote_char_def bslash_char_def)

lemma argv_loop_escaped:
  "argv_loop (concat (map escape_char cs) @ dquote_char # rest) (Some DoubleQuote) current started argv =
    argv_loop rest None (current @ concat cs) True argv"
proof (induction cs arbitrary: current started)
  case (Cons c cs)
  obtain d ds where d: "concat (map escape_char cs) @ dquote_char # rest = d # ds"
    by (cases "concat (map escape_char cs) @ dquote_char # rest") auto
  show ?case
  proof (cases "c = dquote_char \<or> c = bslash_char")
    case True
    then show ?thesis using Cons by (auto simp: escape_char_def)
  next
    case False
    then have "escape_char c = [c]" by (simp add: escape_char_def)
    then show ?thesis using Cons d False by simp
  qed
qed simp

lemma argv_loop_quoted:
  "argv_loop (quoted_chars arg @ rest) None current started argv = argv_loop rest None (current @ arg) True argv"
  by (simp add: quoted_chars_def argv_loop_escaped)

lemma space_ws: "'' '' \<in> set ws_codes" by (simp add: ws_codes_def)

lemma argv_loop_more:
  "argv_loop (concat (map (\<lambda>a. '' '' # quoted_chars a) args)) None a True argv = Inr (argv @ a # args)"
proof (induction args arbitrary: a argv)
  case (Cons b args)
  then show ?case by (simp add: space_ws argv_loop_quoted)
qed simp

lemma argv_loop_args:
  "argv_loop (quoted_chars a @ concat (map (\<lambda>a. '' '' # quoted_chars a) args)) None [] False [] = Inr (a # args)"
  by (simp add: argv_loop_quoted argv_loop_more)

lemma quoted_chars_whole:
  assumes "whole_text a"
  shows "list_all whole_char (quoted_chars a)"
proof -
  have "list_all whole_char (escape_char c)" if "whole_char c" for c
    using that by (auto simp: escape_char_def whole_char_def bslash_char_def dquote_char_def continuation_def)
  then have "list_all whole_char (concat (map escape_char cs))" if "list_all whole_char cs" for cs
    using that by (induction cs) auto
  then show ?thesis
    using utf8_chars_whole[OF assms] by (simp add: quoted_chars_def whole_char_def dquote_char_def continuation_def)
qed

lemma join_args: "join '' '' (map quote_arg (a # args)) = concat (quoted_chars a @ concat (map (\<lambda>a. '' '' # quoted_chars a) args))"
proof (induction args arbitrary: a)
  case (Cons b args)
  then show ?case by (simp add: quote_arg_def)
qed (simp add: quote_arg_def)

lemma quoted_line_chars:
  assumes "list_all whole_text (a # args)"
  shows "utf8_chars (join '' '' (map quote_arg (a # args))) = quoted_chars a @ concat (map (\<lambda>a. '' '' # quoted_chars a) args)"
proof -
  have "list_all whole_char (concat (map (\<lambda>a. '' '' # quoted_chars a) as))" if "list_all whole_text as" for as
    using that by (induction as) (simp_all add: quoted_chars_whole whole_char_def continuation_def)
  then show ?thesis
    unfolding join_args using assms by (intro utf8_chars_concat) (simp add: quoted_chars_whole)
qed

lemma quoted_ends: "\<exists>m. quote_arg a = CHR 0x22 # m \<and> last (quote_arg a) = CHR 0x22"
  by (simp add: quote_arg_def quoted_chars_def dquote_char_def)

lemma trim_fixed:
  assumes "strip_any ws_codes s = None" "strip_any (map rev ws_codes) (rev s) = None"
  shows "trim s = s"
  using assms by (simp add: trim_def trim_start_def trim_end_def trim_with_idle)

lemma join_ends: "\<exists>m. join '' '' (map quote_arg (a # args)) = CHR 0x22 # m \<and> last (CHR 0x22 # m) = CHR 0x22"
proof (induction args arbitrary: a)
  case Nil
  then show ?case using quoted_ends[of a] by (metis join.simps(2) list.simps(8) list.simps(9))
next
  case (Cons b args)
  obtain m where m: "join '' '' (map quote_arg (b # args)) = CHR 0x22 # m" "last (CHR 0x22 # m) = CHR 0x22"
    using Cons by blast
  obtain n where n: "quote_arg a = CHR 0x22 # n" using quoted_ends[of a] by blast
  have "join '' '' (map quote_arg (a # b # args)) = quote_arg a @ '' '' @ join '' '' (map quote_arg (b # args))" by simp
  also have "\<dots> = CHR 0x22 # (n @ '' '' @ CHR 0x22 # m)" unfolding n m(1) by simp
  finally show ?case using m(2) by (intro exI[of _ "n @ '' '' @ CHR 0x22 # m"]) simp
qed

lemma trim_quoted: "trim (join '' '' (map quote_arg (a # args))) \<noteq> []"
proof -
  obtain m where m: "join '' '' (map quote_arg (a # args)) = CHR 0x22 # m" "last (CHR 0x22 # m) = CHR 0x22"
    using join_ends by blast
  then obtain b where b: "rev (CHR 0x22 # m) = CHR 0x22 # b"
    by (metis append_butlast_last_id list.distinct(1) rev_eq_Cons_iff rev_rev_ident)
  have "strip_any ws_codes (CHR 0x22 # m) = None" "strip_any (map rev ws_codes) (CHR 0x22 # b) = None"
    by (simp_all add: ws_codes_def strip_prefix_def)
  then show ?thesis using trim_fixed[of "CHR 0x22 # m"] b m(1) by simp
qed

lemma quoted_no_nul:
  assumes "\<forall>a \<in> set args. CHR 0x00 \<notin> set a"
  shows "CHR 0x00 \<notin> set (join '' '' (map quote_arg args))"
proof -
  have esc: "CHR 0x00 \<notin> set (concat (concat (map escape_char cs)))" if "CHR 0x00 \<notin> set (concat cs)" for cs
    using that by (induction cs) (auto simp: escape_char_def bslash_char_def)
  have arg: "CHR 0x00 \<notin> set (quote_arg a)" if "CHR 0x00 \<notin> set a" for a
    using esc[of "utf8_chars a"] that unfolding concat_utf8_chars
    by (simp add: quote_arg_def quoted_chars_def dquote_char_def)
  have "CHR 0x00 \<notin> set (join '' '' ws)" if "\<forall>w \<in> set ws. CHR 0x00 \<notin> set w" for ws
    using that by (induction "'' ''" ws rule: join.induct) auto
  then show ?thesis using assms arg by simp
qed

lemma quoted_args_parse:
  assumes "list_all whole_text args" "args \<noteq> []" "\<forall>a \<in> set args. CHR 0x00 \<notin> set a"
    and "validate_direct_program (hd args) = Inr ()"
  shows "parse_typed_argv (join '' '' (map quote_arg args)) = Inr args"
proof -
  obtain a as where args: "args = a # as" using assms(2) by (cases args) auto
  show ?thesis
    using assms trim_quoted[of a as] quoted_no_nul[OF assms(3)] quoted_line_chars[of a as] argv_loop_args[of a as]
    unfolding args parse_typed_argv_def by simp
qed

end
