(* ===== verification/Policy.thy ===== *)
theory Policy
  imports CommandLine
begin

text \<open>
  The operator's constraints, \<open>src/engine/src/policy.rs\<close>: the parser of the active bullets of
  \<open>constraints.md\<close> and the checks of conflict domains, changed paths and publication targets. Reading
  the file is an argument of the loader; the hash of the file is not modelled. The Russian markers are given by their UTF-8 bytes.
\<close>

section \<open>Markers\<close>

text \<open>Active restrictions\<close>

definition active_mark :: string where
  "active_mark = [
   CHR 0x2A, CHR 0x2A, CHR 0xD0, CHR 0x90, CHR 0xD0, CHR 0xBA, CHR 0xD1, CHR 0x82, CHR 0xD0, CHR 0xB8,
    CHR 0xD0, CHR 0xB2, CHR 0xD0, CHR 0xBD, CHR 0xD1, CHR 0x8B, CHR 0xD0, CHR 0xB5, CHR 0x20, CHR 0xD0,
    CHR 0xBE, CHR 0xD0, CHR 0xB3, CHR 0xD1, CHR 0x80, CHR 0xD0, CHR 0xB0, CHR 0xD0, CHR 0xBD, CHR 0xD0,
    CHR 0xB8, CHR 0xD1, CHR 0x87, CHR 0xD0, CHR 0xB5, CHR 0xD0, CHR 0xBD, CHR 0xD0, CHR 0xB8, CHR 0xD1,
    CHR 0x8F, CHR 0x2A, CHR 0x2A]"

text \<open>Example\<close>

definition example_mark :: string where
  "example_mark = [
   CHR 0x2A, CHR 0x2A, CHR 0xD0, CHR 0x9F, CHR 0xD1, CHR 0x80, CHR 0xD0, CHR 0xB8, CHR 0xD0, CHR 0xBC,
    CHR 0xD0, CHR 0xB5, CHR 0xD1, CHR 0x80, CHR 0x2A, CHR 0x2A]"

text \<open>(empty\<close>

definition empty_mark :: string where
  "empty_mark = [CHR 0x28, CHR 0xD0, CHR 0xBF, CHR 0xD1, CHR 0x83, CHR 0xD1, CHR 0x81, CHR 0xD1, CHR 0x82, CHR 0xD0, CHR 0xBE]"

text \<open>by default\<close>

definition default_mark :: string where
  "default_mark = [
   CHR 0xD0, CHR 0xBF, CHR 0xD0, CHR 0xBE, CHR 0x20, CHR 0xD1, CHR 0x83, CHR 0xD0, CHR 0xBC, CHR 0xD0,
    CHR 0xBE, CHR 0xD0, CHR 0xBB, CHR 0xD1, CHR 0x87, CHR 0xD0, CHR 0xB0, CHR 0xD0, CHR 0xBD, CHR 0xD0,
    CHR 0xB8, CHR 0xD1, CHR 0x8E]"

text \<open>Forbidden paths\<close>

definition denylist_heading :: string where
  "denylist_heading = [
   CHR 0xD0, CHR 0x97, CHR 0xD0, CHR 0xB0, CHR 0xD0, CHR 0xBF, CHR 0xD1, CHR 0x80, CHR 0xD0, CHR 0xB5,
    CHR 0xD1, CHR 0x89, CHR 0xD1, CHR 0x91, CHR 0xD0, CHR 0xBD, CHR 0xD0, CHR 0xBD, CHR 0xD1, CHR 0x8B,
    CHR 0xD0, CHR 0xB5, CHR 0x20, CHR 0xD0, CHR 0xBF, CHR 0xD1, CHR 0x83, CHR 0xD1, CHR 0x82, CHR 0xD0, CHR 0xB8]"

text \<open>Allowed branches\<close>

definition branches_heading :: string where
  "branches_heading = [
   CHR 0xD0, CHR 0xA0, CHR 0xD0, CHR 0xB0, CHR 0xD0, CHR 0xB7, CHR 0xD1, CHR 0x80, CHR 0xD0, CHR 0xB5,
    CHR 0xD1, CHR 0x88, CHR 0xD1, CHR 0x91, CHR 0xD0, CHR 0xBD, CHR 0xD0, CHR 0xBD, CHR 0xD1, CHR 0x8B,
    CHR 0xD0, CHR 0xB5, CHR 0x20, CHR 0xD0, CHR 0xB2, CHR 0xD0, CHR 0xB5, CHR 0xD1, CHR 0x82, CHR 0xD0,
    CHR 0xBA, CHR 0xD0, CHR 0xB8]"

text \<open>Mandatory checks\<close>

definition checks_heading :: string where
  "checks_heading = [
   CHR 0xD0, CHR 0x9E, CHR 0xD0, CHR 0xB1, CHR 0xD1, CHR 0x8F, CHR 0xD0, CHR 0xB7, CHR 0xD0, CHR 0xB0,
    CHR 0xD1, CHR 0x82, CHR 0xD0, CHR 0xB5, CHR 0xD0, CHR 0xBB, CHR 0xD1, CHR 0x8C, CHR 0xD0, CHR 0xBD,
    CHR 0xD1, CHR 0x8B, CHR 0xD0, CHR 0xB5, CHR 0x20, CHR 0xD0, CHR 0xBF, CHR 0xD1, CHR 0x80, CHR 0xD0,
    CHR 0xBE, CHR 0xD0, CHR 0xB2, CHR 0xD0, CHR 0xB5, CHR 0xD1, CHR 0x80, CHR 0xD0, CHR 0xBA, CHR 0xD0, CHR 0xB8]"

text \<open>Mandatory CI checks of the publication\<close>

definition publish_ci_heading :: string where
  "publish_ci_heading = [
   CHR 0xD0, CHR 0x9E, CHR 0xD0, CHR 0xB1, CHR 0xD1, CHR 0x8F, CHR 0xD0, CHR 0xB7, CHR 0xD0, CHR 0xB0,
    CHR 0xD1, CHR 0x82, CHR 0xD0, CHR 0xB5, CHR 0xD0, CHR 0xBB, CHR 0xD1, CHR 0x8C, CHR 0xD0, CHR 0xBD,
    CHR 0xD1, CHR 0x8B, CHR 0xD0, CHR 0xB5, CHR 0x20, CHR 0x43, CHR 0x49, CHR 0x2D, CHR 0xD0, CHR 0xBF,
    CHR 0xD1, CHR 0x80, CHR 0xD0, CHR 0xBE, CHR 0xD0, CHR 0xB2, CHR 0xD0, CHR 0xB5, CHR 0xD1, CHR 0x80,
    CHR 0xD0, CHR 0xBA, CHR 0xD0, CHR 0xB8, CHR 0x20, CHR 0xD0, CHR 0xBF, CHR 0xD1, CHR 0x83, CHR 0xD0,
    CHR 0xB1, CHR 0xD0, CHR 0xBB, CHR 0xD0, CHR 0xB8, CHR 0xD0, CHR 0xBA, CHR 0xD0, CHR 0xB0, CHR 0xD1,
    CHR 0x86, CHR 0xD0, CHR 0xB8, CHR 0xD0, CHR 0xB8]"

text \<open>Publication branches:\<close>

definition branches_key :: string where
  "branches_key = [
   CHR 0xD0, CHR 0x92, CHR 0xD0, CHR 0xB5, CHR 0xD1, CHR 0x82, CHR 0xD0, CHR 0xBA, CHR 0xD0, CHR 0xB8,
    CHR 0x20, CHR 0xD0, CHR 0xBF, CHR 0xD1, CHR 0x83, CHR 0xD0, CHR 0xB1, CHR 0xD0, CHR 0xBB, CHR 0xD0,
    CHR 0xB8, CHR 0xD0, CHR 0xBA, CHR 0xD0, CHR 0xB0, CHR 0xD1, CHR 0x86, CHR 0xD0, CHR 0xB8, CHR 0xD0,
    CHR 0xB8, CHR 0x3A]"

text \<open>Publication (push):\<close>

definition push_key :: string where
  "push_key = [
   CHR 0xD0, CHR 0x9F, CHR 0xD1, CHR 0x83, CHR 0xD0, CHR 0xB1, CHR 0xD0, CHR 0xBB, CHR 0xD0, CHR 0xB8,
    CHR 0xD0, CHR 0xBA, CHR 0xD0, CHR 0xB0, CHR 0xD1, CHR 0x86, CHR 0xD0, CHR 0xB8, CHR 0xD1, CHR 0x8F,
    CHR 0x20, CHR 0x28, CHR 0x70, CHR 0x75, CHR 0x73, CHR 0x68, CHR 0x29, CHR 0x3A]"

text \<open>requires manual\<close>

definition manual_mark :: string where
  "manual_mark = [
   CHR 0xD1, CHR 0x82, CHR 0xD1, CHR 0x80, CHR 0xD0, CHR 0xB5, CHR 0xD0, CHR 0xB1, CHR 0xD1, CHR 0x83,
    CHR 0xD0, CHR 0xB5, CHR 0xD1, CHR 0x82, CHR 0x20, CHR 0xD1, CHR 0x80, CHR 0xD1, CHR 0x83, CHR 0xD1,
    CHR 0x87, CHR 0xD0, CHR 0xBD, CHR 0xD0, CHR 0xBE, CHR 0xD0, CHR 0xB3, CHR 0xD0, CHR 0xBE]"

section \<open>Data\<close>

record policy =
  py_denied_paths :: "string list"
  py_allowed_branches :: "string list"
  py_allowed_remotes :: "string list"
  py_push_requires_approval :: bool
  py_required_verification_commands :: "string list"
  py_required_ci_checks :: "string list"

definition no_policy :: policy where
  "no_policy =
    \<lparr>py_denied_paths = [], py_allowed_branches = [], py_allowed_remotes = [], py_push_requires_approval = False,
     py_required_verification_commands = [], py_required_ci_checks = []\<rparr>"

text \<open>A message is its format with the arguments; that of a command also has the error of the decoder.\<close>

datatype policy_error =
  PolicyIo string | PolicyMalformed string "string list" | MalformedCommand string argv_error
| DeniedPath string string | DeniedBranch string | DeniedRemote string | ApprovalRequired

datatype policy_section = NoSection | Denylist | Branches | Push | RequiredChecks | PublishCi

definition section_from_heading :: "string \<Rightarrow> policy_section" where
  "section_from_heading heading =
    (if starts_with heading denylist_heading then Denylist
     else if starts_with heading branches_heading then Branches
     else if starts_with heading ''Push/merge policy'' then Push
     else if starts_with heading checks_heading then RequiredChecks
     else if starts_with heading publish_ci_heading then PublishCi
     else NoSection)"

section \<open>Values\<close>

definition tick :: char where "tick = CHR 0x60"

definition contains_str :: "string \<Rightarrow> string \<Rightarrow> bool" where
  "contains_str s p \<longleftrightarrow> find_sub p s \<noteq> None"

definition strip_suffix :: "string \<Rightarrow> string \<Rightarrow> string option" where
  "strip_suffix p s = map_option rev (strip_prefix (rev p) (rev s))"

text \<open>The texts between the first and the second back-tick, the third and the fourth, and so on.\<close>

function quoted_values :: "string \<Rightarrow> string list" where
  "quoted_values s =
    (case split_once tick s of
       None \<Rightarrow> []
     | Some (_, after) \<Rightarrow>
        (case split_once tick after of None \<Rightarrow> [] | Some (v, rest) \<Rightarrow> v # quoted_values rest))"
  by pat_completeness auto
termination by (relation "measure length") (auto simp: split_once_Some)

declare quoted_values.simps [simp del]

definition ticks :: "string \<Rightarrow> nat" where
  "ticks s = length (filter (\<lambda>c. c = tick) s)"

definition split_active_values :: "string \<Rightarrow> string \<Rightarrow> policy_error + string list" where
  "split_active_values value what =
    (if odd (ticks value) then Inl (PolicyMalformed ''unmatched backtick in {what} list {value:?}'' [what, value])
     else
       (let values = (if ticks value > 0 then map trim (quoted_values value)
                      else filter (\<lambda>v. v \<noteq> []) (map trim (split_chars {CHR '',''} value)))
        in if values = [] \<or> [] \<in> set values
           then Inl (PolicyMalformed ''{what} list has an empty value: {value:?}'' [what, value])
           else Inr values))"

definition validate_relative_glob :: "string \<Rightarrow> string \<Rightarrow> policy_error + string" where
  "validate_relative_glob value what =
    (let v = trim value in
     if v = [] \<or> hd v \<in> {CHR ''/'', bslash} \<or> CHR '':'' \<in> set v \<or> CHR 0x00 \<in> set v
        \<or> ''..'' \<in> set (split_chars {CHR ''/'', bslash} v)
     then Inl (PolicyMalformed ''invalid {what} path glob {value:?}'' [what, v])
     else Inr v)"

definition line_break_or_nul :: "string \<Rightarrow> bool" where
  "line_break_or_nul s \<longleftrightarrow> list_ex (\<lambda>c. c \<in> {CHR 0x00, CHR 0x0A, CHR 0x0D}) s"

definition validate_ref_value :: "string \<Rightarrow> string \<Rightarrow> policy_error + unit" where
  "validate_ref_value value what =
    (if trim value = [] \<or> hd value = CHR ''-'' \<or> line_break_or_nul value
     then Inl (PolicyMalformed ''invalid {what} {value:?}'' [what, value])
     else Inr ())"

definition parse_required_verification_command :: "string \<Rightarrow> policy_error + string" where
  "parse_required_verification_command value =
    (let v = trim value;
         inner = (case strip_prefix [tick] v of
            None \<Rightarrow> v
          | Some c \<Rightarrow> (case strip_suffix [tick] c of None \<Rightarrow> v | Some c \<Rightarrow> c));
         v = trim inner
     in case parse_typed_argv v of Inl e \<Rightarrow> Inl (MalformedCommand v e) | Inr _ \<Rightarrow> Inr v)"

definition validate_required_ci_check :: "string \<Rightarrow> policy_error + string" where
  "validate_required_ci_check value =
    (let v = trim value in
     if v = [] \<or> line_break_or_nul v then Inl (PolicyMalformed ''invalid required CI check name {value:?}'' [v])
     else Inr v)"

text \<open>Collecting the results of a list, up to the first error.\<close>

fun collect :: "('a \<Rightarrow> 'e + 'b) \<Rightarrow> 'a list \<Rightarrow> 'e + 'b list" where
  "collect f [] = Inr []"
| "collect f (x # xs) = bind_res (f x) (\<lambda>y. bind_res (collect f xs) (\<lambda>ys. Inr (y # ys)))"

text \<open>The characters outside parentheses, with their depth; the depth is \<open>None\<close> at an unmatched closing one.\<close>

fun outside_parentheses :: "string \<Rightarrow> nat \<Rightarrow> string \<Rightarrow> (string \<times> nat) option" where
  "outside_parentheses [] depth bare = Some (bare, depth)"
| "outside_parentheses (c # s) depth bare =
    (if c = CHR ''('' then outside_parentheses s (sat_add32 depth 1) bare
     else if c = CHR '')'' \<and> depth = 0 then None
     else if c = CHR '')'' then outside_parentheses s (depth - 1) bare
     else outside_parentheses s depth (if depth = 0 then bare @ [c] else bare))"

definition parse_required_ci_checks :: "string \<Rightarrow> policy_error + string list" where
  "parse_required_ci_checks value =
    (if odd (ticks value) then Inl (PolicyMalformed ''unmatched backtick in required CI check {value:?}'' [value])
     else if ticks value > 0 then collect validate_required_ci_check (quoted_values value)
     else (case outside_parentheses value 0 [] of
       Some (bare, 0) \<Rightarrow>
         bind_res (validate_required_ci_check (trim (trim_matches ['',''] (trim bare)))) (\<lambda>v. Inr [v])
     | _ \<Rightarrow> Inl (PolicyMalformed ''unmatched parenthesis in required CI check {value:?}'' [value])))"

section \<open>The document\<close>

fun push_new :: "string list \<Rightarrow> string list \<Rightarrow> string list" where
  "push_new acc [] = acc"
| "push_new acc (c # cs) = push_new (if c \<in> set acc then acc else acc @ [c]) cs"

definition add_targets ::
    "string \<Rightarrow> string \<Rightarrow> string \<Rightarrow> (string list \<Rightarrow> policy \<Rightarrow> policy) \<Rightarrow> policy \<Rightarrow> policy_error + policy" where
  "add_targets key what value add p =
    (case strip_prefix key value of
       None \<Rightarrow> Inr p
     | Some value \<Rightarrow>
         bind_res (split_active_values value what) (\<lambda>targets.
         bind_res (collect (\<lambda>v. validate_ref_value v what) targets) (\<lambda>_.
         Inr (add targets p))))"

definition add_bullet :: "policy_section \<Rightarrow> string \<Rightarrow> policy \<Rightarrow> policy_error + policy" where
  "add_bullet sect value p =
    (case sect of
       Denylist \<Rightarrow>
         bind_res (split_active_values value ''denylist'') (\<lambda>values.
         bind_res (collect (\<lambda>v. validate_relative_glob v ''denylist'') values) (\<lambda>globs.
         Inr (p\<lparr>py_denied_paths := py_denied_paths p @ globs\<rparr>)))
     | Branches \<Rightarrow>
         bind_res (add_targets branches_key ''publication branch'' value
             (\<lambda>vs p. p\<lparr>py_allowed_branches := py_allowed_branches p @ vs\<rparr>) p) (\<lambda>p.
         add_targets ''Remotes:'' ''remote'' value (\<lambda>vs p. p\<lparr>py_allowed_remotes := py_allowed_remotes p @ vs\<rparr>) p)
     | Push \<Rightarrow>
         Inr (if starts_with value push_key \<and> contains_str value manual_mark
              then p\<lparr>py_push_requires_approval := True\<rparr> else p)
     | RequiredChecks \<Rightarrow>
         bind_res (parse_required_verification_command value) (\<lambda>c.
         Inr (p\<lparr>py_required_verification_commands := py_required_verification_commands p @ [c]\<rparr>))
     | PublishCi \<Rightarrow>
         bind_res (parse_required_ci_checks value) (\<lambda>cs.
         Inr (p\<lparr>py_required_ci_checks := push_new (py_required_ci_checks p) cs\<rparr>))
     | NoSection \<Rightarrow> Inr p)"

text \<open>One line: the section, whether its active block is open, the policy so far.\<close>

definition policy_line :: "policy_section \<Rightarrow> bool \<Rightarrow> policy \<Rightarrow> string \<Rightarrow> policy_error + policy_section \<times> bool \<times> policy" where
  "policy_line sect active p line =
    (let trimmed = trim line in
     case strip_prefix ''## '' trimmed of
       Some title \<Rightarrow> Inr (section_from_heading title, False, p)
     | None \<Rightarrow>
        (if starts_with trimmed active_mark then Inr (sect, True, p)
         else if starts_with trimmed example_mark then Inr (sect, False, p)
         else if \<not> active then Inr (sect, active, p)
         else (case strip_prefix ''- '' trimmed of
           None \<Rightarrow> Inr (sect, active, p)
         | Some v \<Rightarrow>
            (let value = trim v in
             if value = [] \<or> starts_with value empty_mark \<or> contains_str value default_mark then Inr (sect, active, p)
             else map_sum id (\<lambda>p. (sect, active, p)) (add_bullet sect value p)))))"

fun policy_lines :: "string list \<Rightarrow> policy_section \<Rightarrow> bool \<Rightarrow> policy \<Rightarrow> policy_error + policy" where
  "policy_lines [] sect active p = Inr p"
| "policy_lines (l # ls) sect active p =
    (case policy_line sect active p l of
       Inl e \<Rightarrow> Inl e
     | Inr (sect, active, p) \<Rightarrow> policy_lines ls sect active p)"

definition parse_policy :: "string \<Rightarrow> policy_error + policy" where
  "parse_policy text = policy_lines (text_lines text) NoSection False no_policy"

text \<open>What reading the file gave: an error, no file, or its text.\<close>

definition load_policy :: "string + string option \<Rightarrow> policy_error + policy" where
  "load_policy source =
    (case source of
       Inr (Some text) \<Rightarrow> parse_policy text
     | Inr None \<Rightarrow> Inr no_policy
     | Inl err \<Rightarrow> Inl (PolicyIo (''read constraints.md: '' @ err)))"

section \<open>Checks\<close>

definition check_domain :: "policy \<Rightarrow> string \<Rightarrow> policy_error + unit" where
  "check_domain p spec =
    (if trim spec = [] then Inl (PolicyMalformed ''candidate has no usable conflict domain'' [])
     else (case filter (\<lambda>pattern. intersects (domain_parse spec) (domain_parse pattern)) (py_denied_paths p) of
       [] \<Rightarrow> Inr ()
     | pattern # _ \<Rightarrow> Inl (DeniedPath spec pattern)))"

definition forward_slashes :: "string \<Rightarrow> string" where
  "forward_slashes s = map (\<lambda>c. if c = bslash then CHR ''/'' else c) s"

definition normalise_relative_path :: "string \<Rightarrow> policy_error + string" where
  "normalise_relative_path path =
    (if path \<noteq> [] \<and> hd path = CHR ''/''
     then Inl (PolicyMalformed ''changed path must be repository-relative: {}'' [path])
     else validate_relative_glob (forward_slashes path) ''changed'')"

text \<open>
  The matcher on the characters of the pattern and of the path. A star stops at a slash, a double star
  does not, a double star with a slash takes whole directories.
\<close>

function glob_match :: "string list \<Rightarrow> string list \<Rightarrow> bool" where
  "glob_match [] path \<longleftrightarrow> path = []"
| "glob_match (c # pattern) path \<longleftrightarrow>
    (if c = ''*'' then
       (if pattern \<noteq> [] \<and> hd pattern = ''*'' then
          (if length pattern \<ge> 2 \<and> pattern ! 1 = ''/''
           then list_ex (\<lambda>n. (n = 0 \<or> path ! (n - 1) = ''/'') \<and> glob_match (drop 2 pattern) (drop n path))
                  [0..<Suc (length path)]
           else list_ex (\<lambda>n. glob_match (drop 1 pattern) (drop n path)) [0..<Suc (length path)])
        else list_ex (\<lambda>n. glob_match pattern (drop n path)) [0..<Suc (length (takeWhile (\<lambda>c. c \<noteq> ''/'') path))])
     else if c = ''?'' then path \<noteq> [] \<and> hd path \<noteq> ''/'' \<and> glob_match pattern (tl path)
     else path \<noteq> [] \<and> hd path = c \<and> glob_match pattern (tl path))"
  by pat_completeness auto
termination by (relation "measure (length \<circ> fst)") auto

declare glob_match.simps(2) [simp del]

definition glob_matches :: "string \<Rightarrow> string \<Rightarrow> bool" where
  "glob_matches pattern path = glob_match (utf8_chars (forward_slashes pattern)) (utf8_chars (forward_slashes path))"

fun check_paths :: "policy \<Rightarrow> string list \<Rightarrow> policy_error + unit" where
  "check_paths p [] = Inr ()"
| "check_paths p (path # paths) =
    bind_res (normalise_relative_path path) (\<lambda>path.
    (case filter (\<lambda>pattern. glob_matches pattern path) (py_denied_paths p) of
       [] \<Rightarrow> check_paths p paths
     | pattern # _ \<Rightarrow> Inl (DeniedPath path pattern)))"

definition check_publication_branch :: "policy \<Rightarrow> string \<Rightarrow> policy_error + unit" where
  "check_publication_branch p branch =
    bind_res (validate_ref_value branch ''publication branch'') (\<lambda>_.
    if py_allowed_branches p \<noteq> [] \<and> branch \<notin> set (py_allowed_branches p) then Inl (DeniedBranch branch)
    else Inr ())"

definition check_publication :: "policy \<Rightarrow> string \<Rightarrow> string \<Rightarrow> policy_error + unit" where
  "check_publication p branch remote =
    bind_res (check_publication_branch p branch) (\<lambda>_.
    bind_res (validate_ref_value remote ''remote'') (\<lambda>_.
    if py_allowed_remotes p \<noteq> [] \<and> remote \<notin> set (py_allowed_remotes p) then Inl (DeniedRemote remote)
    else if py_push_requires_approval p then Inl ApprovalRequired
    else Inr ()))"

end
