(* ===== verification/PolicyProps.thy ===== *)
theory PolicyProps
  imports Policy ResolverProps
begin

text \<open>
  The properties of the operator's constraints: the decoding of command lines, the language of the path
  globs, what an accepted conflict domain promises, and the invariant of a parsed policy.
\<close>

section \<open>Command lines\<close>

text \<open>
  C29. The command-line decoder loses nothing: every list of arguments, in any characters but NUL, whose
  executable is allowed, has a command line that is decoded to exactly that list: each argument in
  double quotes, with its quotes and backslashes escaped, and single spaces between them.
\<close>

theorem typed_argv_round_trip:
  assumes "list_all whole_text args" "args \<noteq> []" "list_all (\<lambda>a. CHR 0x00 \<notin> set a) args"
    and "validate_direct_program (hd args) = Inr ()"
  shows "parse_typed_argv (join '' '' (map quote_arg args)) = Inr args"
  using assms quoted_args_parse[of args] by (simp add: list_all_iff)

theorem typed_argv_round_trip_witness:
  "parse_typed_argv (join '' '' (map quote_arg [''cargo'', ''test  a|b'', [CHR 0x22, CHR 0x5C]])) =
    Inr [''cargo'', ''test  a|b'', [CHR 0x22, CHR 0x5C]]"
  by (rule typed_argv_round_trip) code_simp+

section \<open>Globs\<close>

datatype glob_token = Literal string | OneChar | Star | DoubleStar | Directories

fun glob_tokens :: "string list \<Rightarrow> glob_token list" where
  "glob_tokens [] = []"
| "glob_tokens (c # p) =
    (if c = ''*'' then
       (case p of
          d # q \<Rightarrow>
            (if d = ''*'' then
               (case q of e # r \<Rightarrow> (if e = ''/'' then Directories # glob_tokens r else DoubleStar # glob_tokens q)
                | [] \<Rightarrow> [DoubleStar])
             else Star # glob_tokens p)
        | [] \<Rightarrow> [Star])
     else if c = ''?'' then OneChar # glob_tokens p
     else Literal c # glob_tokens p)"

definition token_language :: "glob_token \<Rightarrow> string list set" where
  "token_language t =
    (case t of
       Literal c \<Rightarrow> {[c]}
     | OneChar \<Rightarrow> {[c] |c. c \<noteq> ''/''}
     | Star \<Rightarrow> {w. ''/'' \<notin> set w}
     | DoubleStar \<Rightarrow> UNIV
     | Directories \<Rightarrow> {w. w = [] \<or> last w = ''/''})"

text \<open>The paths of a token list: a word of each token, one after the other.\<close>

fun glob_language :: "glob_token list \<Rightarrow> string list set" where
  "glob_language [] = {[]}"
| "glob_language (t # ts) = {u @ v |u v. u \<in> token_language t \<and> v \<in> glob_language ts}"

lemma split_language:
  "path \<in> glob_language (t # ts) \<longleftrightarrow>
    (\<exists>n \<le> length path. take n path \<in> token_language t \<and> drop n path \<in> glob_language ts)"
proof
  assume "path \<in> glob_language (t # ts)"
  then obtain u v where "path = u @ v" "u \<in> token_language t" "v \<in> glob_language ts" by auto
  then show "\<exists>n \<le> length path. take n path \<in> token_language t \<and> drop n path \<in> glob_language ts"
    by (intro exI[of _ "length u"]) simp
next
  assume "\<exists>n \<le> length path. take n path \<in> token_language t \<and> drop n path \<in> glob_language ts"
  then show "path \<in> glob_language (t # ts)" by auto (metis append_take_drop_id)
qed

lemma one_char_language:
  "path \<in> glob_language (OneChar # ts) \<longleftrightarrow> path \<noteq> [] \<and> hd path \<noteq> ''/'' \<and> tl path \<in> glob_language ts"
  "path \<in> glob_language (Literal c # ts) \<longleftrightarrow> path \<noteq> [] \<and> hd path = c \<and> tl path \<in> glob_language ts"
proof -
  have "path \<in> glob_language (t # ts) \<longleftrightarrow> path \<noteq> [] \<and> [hd path] \<in> token_language t \<and> tl path \<in> glob_language ts"
    if one: "\<And>u. u \<in> token_language t \<Longrightarrow> length u = 1" for t
  proof
    assume "path \<in> glob_language (t # ts)"
    then obtain u v where uv: "path = u @ v" "u \<in> token_language t" "v \<in> glob_language ts" by auto
    with one[OF uv(2)] obtain d where "u = [d]" by (auto simp: length_Suc_conv)
    with uv show "path \<noteq> [] \<and> [hd path] \<in> token_language t \<and> tl path \<in> glob_language ts" by simp
  next
    assume "path \<noteq> [] \<and> [hd path] \<in> token_language t \<and> tl path \<in> glob_language ts"
    then show "path \<in> glob_language (t # ts)"
      by (cases path) (simp_all, metis append_Cons append_Nil)
  qed
  note one = this
  show "path \<in> glob_language (OneChar # ts) \<longleftrightarrow> path \<noteq> [] \<and> hd path \<noteq> ''/'' \<and> tl path \<in> glob_language ts"
    by (subst one) (auto simp: token_language_def)
  show "path \<in> glob_language (Literal c # ts) \<longleftrightarrow> path \<noteq> [] \<and> hd path = c \<and> tl path \<in> glob_language ts"
    by (subst one) (auto simp: token_language_def)
qed

lemma star_words: "n \<le> length path \<Longrightarrow> ''/'' \<notin> set (take n path) \<longleftrightarrow> n \<le> length (takeWhile (\<lambda>c. c \<noteq> ''/'') path)"
proof (induction path arbitrary: n)
  case (Cons c path)
  then show ?case by (cases n) auto
qed simp

lemma directory_words:
  "n \<le> length path \<Longrightarrow> (take n path = [] \<or> last (take n path) = ''/'') \<longleftrightarrow> n = 0 \<or> path ! (n - 1) = ''/''"
  by (cases n) (auto simp: take_Suc_conv_app_nth)

lemma list_ex_upto: "list_ex P [0..<Suc n] \<longleftrightarrow> (\<exists>k \<le> n. P k)"
  by (force simp: list_ex_iff less_Suc_eq_le simp del: upt_Suc)

lemma glob_match_language: "glob_match pattern path \<longleftrightarrow> path \<in> glob_language (glob_tokens pattern)"
proof (induction pattern path rule: glob_match.induct)
  case (2 c pattern path)
  show ?case
  proof (cases "c = ''*''")
    case star: True
    show ?thesis
    proof (cases "pattern \<noteq> [] \<and> hd pattern = ''*''")
      case two: True
      then obtain q where q: "pattern = ''*'' # q" using two by (cases pattern) auto
      show ?thesis
      proof (cases "q \<noteq> [] \<and> hd q = ''/''")
        case True
        then obtain r where r: "q = ''/'' # r" by (cases q) auto
        then have "glob_match (c # pattern) path \<longleftrightarrow>
            (\<exists>n \<le> length path. (n = 0 \<or> path ! (n - 1) = ''/'') \<and> glob_match r (drop n path))"
          by (simp add: glob_match.simps(2)[of "''*''"] star q list_ex_upto del: upt_Suc)
        also have "\<dots> \<longleftrightarrow> path \<in> glob_language (Directories # glob_tokens r)"
        proof -
          have "glob_match r (drop n path) \<longleftrightarrow> drop n path \<in> glob_language (glob_tokens r)" if "n \<le> length path" for n
            using 2(1)[OF star, of n] that by (cases "n = length path") (simp_all add: q r)
          moreover have "take n path \<in> token_language Directories \<longleftrightarrow> n = 0 \<or> path ! (n - 1) = ''/''"
            if "n \<le> length path" for n
            using directory_words[OF that] by (simp add: token_language_def)
          ultimately show ?thesis unfolding split_language by blast
        qed
        finally show ?thesis by (simp add: star q r)
      next
        case False
        then have n2: "\<not> (2 \<le> length pattern \<and> pattern ! 1 = ''/'')" by (cases q) (auto simp: q)
        have t: "glob_tokens (c # pattern) = DoubleStar # glob_tokens q" using False by (cases q) (auto simp: star q)
        have "glob_match (c # pattern) path \<longleftrightarrow> (\<exists>n \<le> length path. glob_match q (drop n path))"
          using n2 star by (subst glob_match.simps(2)) (auto simp: list_ex_upto q simp del: upt_Suc)
        also have "\<dots> \<longleftrightarrow> path \<in> glob_language (DoubleStar # glob_tokens q)"
        proof -
          have "glob_match q (drop n path) \<longleftrightarrow> drop n path \<in> glob_language (glob_tokens q)" if "n \<le> length path" for n
            using 2(2)[OF star two n2, of n] that by (cases "n = length path") (simp_all add: q)
          then show ?thesis unfolding split_language by (auto simp: token_language_def)
        qed
        finally show ?thesis by (simp only: t)
      qed
    next
      case False
      then have t: "glob_tokens (c # pattern) = Star # glob_tokens pattern" by (cases pattern) (auto simp: star)
      have "glob_match (c # pattern) path \<longleftrightarrow>
          (\<exists>n \<le> length (takeWhile (\<lambda>c. c \<noteq> ''/'') path). glob_match pattern (drop n path))"
        using False star by (subst glob_match.simps(2)) (auto simp: list_ex_upto simp del: upt_Suc)
      also have "\<dots> \<longleftrightarrow> (\<exists>n \<le> length path. ''/'' \<notin> set (take n path) \<and> glob_match pattern (drop n path))"
        using star_words length_takeWhile_le[of _ path] by (meson order_trans)
      also have "\<dots> \<longleftrightarrow> path \<in> glob_language (Star # glob_tokens pattern)"
      proof -
        have "glob_match pattern (drop n path) \<longleftrightarrow> drop n path \<in> glob_language (glob_tokens pattern)"
          if "n \<le> length path" "''/'' \<notin> set (take n path)" for n
          using 2(3)[OF star False, of n] that star_words[OF that(1)] by (simp add: less_Suc_eq_le del: upt_Suc)
        then show ?thesis unfolding split_language by (auto simp: token_language_def)
      qed
      finally show ?thesis by (simp only: t)
    qed
  next
    case False
    then show ?thesis
      using 2(4,5) by (subst glob_match.simps(2)) (auto simp: one_char_language simp del: glob_language.simps)
  qed
qed simp

text \<open>
  C30. The path matcher decides its language: a path matches a pattern exactly when it is a sequence of
  words, one for each token of the pattern: a character itself, one character but a slash for \<open>?\<close>, a
  word without a slash for \<open>*\<close>, any word for \<open>**\<close>, and whole directories, possibly none, for \<open>**/\<close>.
  Backslashes count as slashes on both sides.
\<close>

theorem glob_decides_language:
  "glob_matches pattern path \<longleftrightarrow>
    utf8_chars (forward_slashes path) \<in> glob_language (glob_tokens (utf8_chars (forward_slashes pattern)))"
  by (simp add: glob_matches_def glob_match_language)

section \<open>Conflict domains and changed paths\<close>

lemma glob_literal_prefix:
  assumes "glob_match ps path"
  shows "\<exists>r. concat path = takeWhile (\<lambda>c. \<not> glob_char c) (concat ps) @ r"
    and "\<not> list_ex glob_char (concat ps) \<Longrightarrow> path = ps"
  using assms
proof (induction ps path rule: glob_match.induct)
  case (2 c ps path)
  have special: "glob_char (CHR ''*'')" "glob_char (CHR ''?'')" by (simp_all add: glob_char_def)
  {
    case 1
    show ?case
    proof (cases "c = ''*'' \<or> c = ''?''")
      case True
      then show ?thesis using special by auto
    next
      case False
      then obtain rest where p: "path = c # rest" "glob_match ps rest"
        using 1 by (cases path) (auto simp: glob_match.simps(2)[of c])
      obtain r where r: "concat rest = takeWhile (\<lambda>c. \<not> glob_char c) (concat ps) @ r"
        using 2(9) False p 1 by auto
      show ?thesis
      proof (cases "list_ex glob_char c")
        case True
        then have "\<exists>r. c = takeWhile (\<lambda>c. \<not> glob_char c) c @ r" by (metis takeWhile_dropWhile_id)
        moreover have "takeWhile (\<lambda>c. \<not> glob_char c) (c @ concat ps) = takeWhile (\<lambda>c. \<not> glob_char c) c"
          using True by (auto simp: list_ex_iff takeWhile_append1)
        ultimately show ?thesis using p(1) by (metis append.assoc concat.simps(2))
      next
        case no: False
        then have "takeWhile (\<lambda>c. \<not> glob_char c) (c @ concat ps) = c @ takeWhile (\<lambda>c. \<not> glob_char c) (concat ps)"
          by (auto simp: list_ex_iff takeWhile_append2)
        then show ?thesis using p(1) r by simp
      qed
    qed
  next
    case 2
    have "c \<noteq> ''*''" "c \<noteq> ''?''" using 2 special by auto
    then obtain rest where p: "path = c # rest" "glob_match ps rest"
      using 2 by (cases path) (auto simp: glob_match.simps(2)[of c])
    then show ?case using 2 \<open>c \<noteq> ''*''\<close> \<open>c \<noteq> ''?''\<close> "2.IH" by simp
  }
qed simp_all

lemma set_trim: "set (trim s) \<subseteq> set s"
proof -
  have "set (trim_with codes x) \<subseteq> set x" for codes x
    by (metis Un_upper2 set_append trim_with_suffix)
  then have "set (trim_end x) \<subseteq> set x" "set (trim_start x) \<subseteq> set x" for x
    unfolding trim_end_def trim_start_def by (metis set_rev)+
  then show ?thesis unfolding trim_def by blast
qed

definition domain_separators :: "char set" where
  "domain_separators = {CHR '','', CHR '' '', CHR 0x09, CHR 0x0A, CHR 0x0D}"

definition plain_glob :: "string \<Rightarrow> bool" where
  "plain_glob g \<longleftrightarrow> g \<noteq> [] \<and> trim g = g \<and> list_all (\<lambda>c. c \<noteq> bslash \<and> c \<notin> domain_separators) g"

lemma split_chars_none: "set s \<inter> cs = {} \<Longrightarrow> split_chars cs s = [s]"
  by (induction s) auto

lemma plain_domain:
  assumes "plain_glob g"
  shows "domain_parse g = \<lparr>d_matchers = [matcher_of g], d_unknown = False\<rparr>"
proof -
  have "split_chars domain_separators g = [g]"
    using assms by (intro split_chars_none) (auto simp: plain_glob_def list_all_iff)
  then show ?thesis
    using assms unfolding domain_separators_def by (simp add: plain_glob_def domain_parse_def domain_tokens_def)
qed

lemma plain_forward: "bslash \<notin> set s \<Longrightarrow> forward_slashes s = s"
  by (induction s) (auto simp: forward_slashes_def)

lemma denied_path_covered:
  assumes "glob_matches g path" "plain_glob g" "bslash \<notin> set path"
  shows "domain_covers (domain_parse g) path"
proof -
  have "bslash \<notin> set g" using assms(2) by (auto simp: plain_glob_def list_all_iff)
  then have m: "glob_match (utf8_chars g) (utf8_chars path)"
    using assms(1,3) by (simp add: glob_matches_def plain_forward)
  have t: "trim g = g" using assms(2) by (simp add: plain_glob_def)
  show ?thesis
  proof (cases "list_ex glob_char g")
    case True
    then have "matcher_of g = Prefix (takeWhile (\<lambda>c. \<not> glob_char c) g)" by (simp add: matcher_of_def t)
    then show ?thesis
      using glob_literal_prefix(1)[OF m] by (auto simp: plain_domain[OF assms(2)] domain_covers_def starts_with_iff)
  next
    case False
    have "path = g" using glob_literal_prefix(2)[OF m] False by (metis concat_utf8_chars)
    then show ?thesis
      using False by (simp add: plain_domain[OF assms(2)] domain_covers_def matcher_of_def t ancestor_iff)
  qed
qed

definition canonical_path :: "string \<Rightarrow> bool" where
  "canonical_path path \<longleftrightarrow> normalise_relative_path path = Inr path"

lemma canonical_no_backslash: "canonical_path path \<Longrightarrow> bslash \<notin> set path"
proof -
  assume "canonical_path path"
  then have "path = trim (forward_slashes path)"
    by (auto simp: canonical_path_def normalise_relative_path_def validate_relative_glob_def Let_def split: if_splits)
  moreover have "bslash \<notin> set (forward_slashes path)" by (auto simp: forward_slashes_def bslash_def)
  ultimately show ?thesis using set_trim by (metis subsetD)
qed

lemma accepted_domain_paths:
  assumes "check_domain p spec = Inr ()" "list_all plain_glob (py_denied_paths p)"
    and "list_all (\<lambda>path. canonical_path path \<and> domain_covers (domain_parse spec) path) paths"
  shows "check_paths p paths = Inr ()"
  using assms(3)
proof (induction paths)
  case (Cons path paths)
  have "\<not> glob_matches g path" if "g \<in> set (py_denied_paths p)" for g
  proof
    assume "glob_matches g path"
    then have "domain_covers (domain_parse g) path"
      using that assms(2) Cons.prems canonical_no_backslash by (auto intro!: denied_path_covered simp: list_all_iff)
    then have "intersects (domain_parse spec) (domain_parse g)"
      using Cons.prems shared_path_intersects by auto
    then have "filter (\<lambda>g. intersects (domain_parse spec) (domain_parse g)) (py_denied_paths p) \<noteq> []"
      using that by (auto simp: filter_empty_conv)
    then show False using assms(1) by (auto simp: check_domain_def split: if_splits list.splits)
  qed
  then have "filter (\<lambda>g. glob_matches g path) (py_denied_paths p) = []" by (auto simp: filter_empty_conv)
  then show ?case using Cons by (simp add: canonical_path_def bind_res_def)
qed simp

text \<open>
  C27. What the planner accepts stays acceptable: when a candidate's conflict domain passes the policy and
  the denied globs are written without separators and backslashes, every set of changed paths that
  the domain covers passes the exact check before commit, merge and publication.
\<close>

theorem accepted_domains_avoid_denied_paths:
  assumes "check_domain p spec = Inr ()" "list_all plain_glob (py_denied_paths p)"
    and "list_all (\<lambda>path. canonical_path path \<and> domain_covers (domain_parse spec) path) paths"
  shows "check_paths p paths = Inr ()"
  using assms by (rule accepted_domain_paths)

theorem accepted_domains_avoid_denied_paths_witness:
  "check_paths (no_policy\<lparr>py_denied_paths := [''infra/**'', ''secrets/*.pem'']\<rparr>) [''src/a/x.rs'', ''docs/b.md''] = Inr ()"
  by (rule accepted_domains_avoid_denied_paths[where spec = "''src/a, docs/*''"]) code_simp+

text \<open>
  The hypotheses matter. A denied glob with a backslash is enforced on changed paths only, and a denied
  directory name is enforced on conflict domains only.
\<close>

lemma backslash_globs_bind_paths_only:
  "check_domain (no_policy\<lparr>py_denied_paths := [''infra'' @ [bslash] @ ''**'']\<rparr>) ''infra/deploy'' = Inr ()
   \<and> check_paths (no_policy\<lparr>py_denied_paths := [''infra'' @ [bslash] @ ''**'']\<rparr>) [''infra/deploy''] =
      Inl (DeniedPath ''infra/deploy'' (''infra'' @ [bslash] @ ''**''))"
  by code_simp

lemma denied_directories_bind_domains_only:
  "check_domain (no_policy\<lparr>py_denied_paths := [''secrets'']\<rparr>) ''secrets/key'' = Inl (DeniedPath ''secrets/key'' ''secrets'')
   \<and> check_paths (no_policy\<lparr>py_denied_paths := [''secrets'']\<rparr>) [''secrets/key''] = Inr ()"
  by code_simp

section \<open>Parsed policies\<close>

definition relative_glob :: "string \<Rightarrow> bool" where
  "relative_glob g \<longleftrightarrow> g \<noteq> [] \<and> trim g = g \<and> hd g \<noteq> CHR ''/'' \<and> hd g \<noteq> bslash \<and> CHR '':'' \<notin> set g \<and> CHR 0x00 \<notin> set g
    \<and> ''..'' \<notin> set (split_chars {CHR ''/'', bslash} g)"

definition safe_ref :: "string \<Rightarrow> bool" where
  "safe_ref r \<longleftrightarrow> trim r \<noteq> [] \<and> hd r \<noteq> CHR ''-'' \<and> \<not> line_break_or_nul r"

definition check_name :: "string \<Rightarrow> bool" where
  "check_name c \<longleftrightarrow> c \<noteq> [] \<and> trim c = c \<and> \<not> line_break_or_nul c"

definition typed_command :: "string \<Rightarrow> bool" where
  "typed_command c \<longleftrightarrow> (case parse_typed_argv c of Inr _ \<Rightarrow> True | Inl _ \<Rightarrow> False)"

definition valid_policy :: "policy \<Rightarrow> bool" where
  "valid_policy p \<longleftrightarrow>
    list_all relative_glob (py_denied_paths p)
    \<and> list_all safe_ref (py_allowed_branches p) \<and> list_all safe_ref (py_allowed_remotes p)
    \<and> list_all typed_command (py_required_verification_commands p)
    \<and> list_all check_name (py_required_ci_checks p) \<and> distinct (py_required_ci_checks p)"

text \<open>
  The lists of a policy that a longer document extends. The denials, commands and checks only add
  restrictions; the lists of allowed targets, once they are not empty, add permissions.
\<close>

definition extends_policy :: "policy \<Rightarrow> policy \<Rightarrow> bool" where
  "extends_policy p q \<longleftrightarrow>
    prefix (py_denied_paths p) (py_denied_paths q)
    \<and> prefix (py_allowed_branches p) (py_allowed_branches q) \<and> prefix (py_allowed_remotes p) (py_allowed_remotes q)
    \<and> (py_push_requires_approval p \<longrightarrow> py_push_requires_approval q)
    \<and> prefix (py_required_verification_commands p) (py_required_verification_commands q)
    \<and> prefix (py_required_ci_checks p) (py_required_ci_checks q)"

lemma policy_extends_refl [simp]: "extends_policy p p" by (simp add: extends_policy_def)

lemma policy_extends_trans: "extends_policy p q \<Longrightarrow> extends_policy q r \<Longrightarrow> extends_policy p r"
  by (auto simp: extends_policy_def intro: prefix_order.trans)

lemma collect_all:
  assumes "collect f xs = Inr ys" "\<And>x y. f x = Inr y \<Longrightarrow> P x y"
  shows "list_all2 P xs ys"
  using assms(1) by (induction xs arbitrary: ys) (auto simp: bind_res_def split: sum.splits intro: assms(2))

lemma glob_ok: "validate_relative_glob v what = Inr g \<Longrightarrow> relative_glob g"
  by (auto simp: validate_relative_glob_def relative_glob_def Let_def split: if_splits)

lemma ref_ok: "validate_ref_value v what = Inr u \<Longrightarrow> safe_ref v"
  by (auto simp: validate_ref_value_def safe_ref_def split: if_splits)

lemma check_ok: "validate_required_ci_check v = Inr c \<Longrightarrow> check_name c"
  by (auto simp: validate_required_ci_check_def check_name_def Let_def split: if_splits)

lemma command_ok: "parse_required_verification_command v = Inr c \<Longrightarrow> typed_command c"
  by (auto simp: parse_required_verification_command_def typed_command_def Let_def split: sum.splits)

lemma checks_ok: "parse_required_ci_checks v = Inr cs \<Longrightarrow> list_all check_name cs"
  using collect_all[of validate_required_ci_check "quoted_values v" cs "\<lambda>_. check_name"] check_ok
  by (auto simp: parse_required_ci_checks_def bind_res_def list_all2_conv_all_nth list_all_length
      split: if_splits option.splits prod.splits nat.splits sum.splits)

lemma push_new_facts:
  "prefix acc (push_new acc cs)" "distinct acc \<Longrightarrow> distinct (push_new acc cs)"
  "set (push_new acc cs) = set acc \<union> set cs"
  by (induction acc cs rule: push_new.induct) (auto dest: append_prefixD)

lemma targets_ok:
  assumes "add_targets key what value add p = Inr q" "valid_policy p"
    and "\<And>vs. list_all safe_ref vs \<Longrightarrow> valid_policy (add vs p) \<and> extends_policy p (add vs p)"
  shows "valid_policy q \<and> extends_policy p q"
proof -
  have "list_all safe_ref vs" if "collect (\<lambda>v. validate_ref_value v what) vs = Inr us" for vs us
    using collect_all[OF that, of "\<lambda>v _. safe_ref v"] ref_ok by (auto simp: list_all2_conv_all_nth list_all_length)
  then show ?thesis
    using assms by (auto simp: add_targets_def bind_res_def split: option.splits sum.splits)
qed

lemma bullet_ok:
  assumes "add_bullet sect value p = Inr q" "valid_policy p"
  shows "valid_policy q \<and> extends_policy p q"
proof (cases sect)
  case Denylist
  have "list_all relative_glob gs" if "collect (\<lambda>v. validate_relative_glob v ''denylist'') vs = Inr gs" for vs gs
    using collect_all[OF that, of "\<lambda>_. relative_glob"] glob_ok by (auto simp: list_all2_conv_all_nth list_all_length)
  then show ?thesis
    using assms by (auto simp: Denylist add_bullet_def bind_res_def valid_policy_def extends_policy_def split: sum.splits)
next
  case Branches
  let ?b = "\<lambda>vs p. p\<lparr>py_allowed_branches := py_allowed_branches p @ vs\<rparr>"
  let ?r = "\<lambda>vs p. p\<lparr>py_allowed_remotes := py_allowed_remotes p @ vs\<rparr>"
  obtain m where m: "add_targets branches_key ''publication branch'' value ?b p = Inr m"
    "add_targets ''Remotes:'' ''remote'' value ?r m = Inr q"
    using assms(1) by (auto simp: Branches add_bullet_def bind_res_def split: sum.splits)
  have 1: "valid_policy m \<and> extends_policy p m"
    by (rule targets_ok[OF m(1) assms(2)]) (use assms(2) in \<open>auto simp: valid_policy_def extends_policy_def\<close>)
  have "valid_policy q \<and> extends_policy m q"
    by (rule targets_ok[OF m(2)]) (use 1 in \<open>auto simp: valid_policy_def extends_policy_def\<close>)
  with 1 show ?thesis using policy_extends_trans by blast
next
  case PublishCi
  then show ?thesis
    using assms checks_ok push_new_facts
    by (auto simp: add_bullet_def bind_res_def valid_policy_def extends_policy_def list_all_iff split: sum.splits)
qed (use assms command_ok in \<open>auto simp: add_bullet_def bind_res_def valid_policy_def extends_policy_def split: sum.splits\<close>)

lemma map_sum_Inr: "map_sum id f x = Inr y \<longleftrightarrow> (\<exists>z. x = Inr z \<and> f z = y)"
  by (cases x) auto

lemma line_bullet:
  "policy_line sect active p l = Inr (sect', active', q) \<Longrightarrow> q = p \<or> (\<exists>v. add_bullet sect v p = Inr q)"
  by (auto simp: policy_line_def Let_def map_sum_Inr split: if_splits option.splits)

lemma line_ok:
  "policy_line sect active p l = Inr (sect', active', q) \<Longrightarrow> valid_policy p \<Longrightarrow> valid_policy q \<and> extends_policy p q"
  using line_bullet bullet_ok by fastforce

lemma lines_ok:
  "policy_lines ls sect active p = Inr q \<Longrightarrow> valid_policy p \<Longrightarrow> valid_policy q \<and> extends_policy p q"
proof (induction ls sect active p rule: policy_lines.induct)
  case (2 l ls sect active p)
  obtain s a r where l: "policy_line sect active p l = Inr (s, a, r)" "policy_lines ls s a r = Inr q"
    using 2(2) by (auto split: sum.splits)
  note r = line_ok[OF l(1) 2(3)]
  have "valid_policy q \<and> extends_policy r q" using 2(1)[OF l(1) refl refl l(2)] r by blast
  then show ?case using r policy_extends_trans by blast
qed simp

lemma lines_taken:
  "policy_lines ls sect active p = Inr q \<Longrightarrow> valid_policy p \<Longrightarrow>
    \<exists>m. policy_lines (take n ls) sect active p = Inr m \<and> extends_policy m q"
proof (induction ls sect active p arbitrary: n rule: policy_lines.induct)
  case (2 l ls sect active p)
  show ?case
  proof (cases n)
    case 0
    then show ?thesis using lines_ok[OF 2(2,3)] by simp
  next
    case (Suc m)
    obtain s a r where l: "policy_line sect active p l = Inr (s, a, r)" "policy_lines ls s a r = Inr q"
      using 2(2) by (auto split: sum.splits)
    then show ?thesis using 2(1)[OF l(1) refl refl l(2), of m] line_ok[OF l(1) 2(3)] Suc by simp
  qed
qed simp

lemma extended_domain:
  assumes "extends_policy q p" "check_domain p d = Inr ()"
  shows "check_domain q d = Inr ()"
proof -
  have "set (py_denied_paths q) \<subseteq> set (py_denied_paths p)"
    using assms(1) by (simp add: extends_policy_def set_mono_prefix)
  then show ?thesis
    using assms(2) by (auto simp: check_domain_def filter_empty_conv subset_iff split: list.splits if_splits)
qed

lemma extended_paths:
  assumes "extends_policy q p" "check_paths p ps = Inr ()"
  shows "check_paths q ps = Inr ()"
proof -
  have "set (py_denied_paths q) \<subseteq> set (py_denied_paths p)"
    using assms(1) by (simp add: extends_policy_def set_mono_prefix)
  then show ?thesis
    using assms(2)
    by (induction ps) (auto simp: bind_res_def filter_empty_conv subset_iff split: list.splits sum.splits)
qed

lemma extended_branch:
  assumes "extends_policy q p" "check_publication_branch p b = Inr ()" "check_publication_branch q b \<noteq> Inr ()"
  shows "b \<in> set (py_allowed_branches p) - set (py_allowed_branches q) \<and> py_allowed_branches q \<noteq> []"
  using assms by (auto simp: extends_policy_def check_publication_branch_def bind_res_def split: sum.splits if_splits)

lemma extended_publication:
  assumes "extends_policy q p" "check_publication p b m = Inr ()" "check_publication q b m \<noteq> Inr ()"
  shows "py_allowed_branches q \<noteq> [] \<and> b \<in> set (py_allowed_branches p) - set (py_allowed_branches q)
    \<or> py_allowed_remotes q \<noteq> [] \<and> m \<in> set (py_allowed_remotes p) - set (py_allowed_remotes q)"
proof (cases "check_publication_branch q b = Inr ()")
  case False
  then show ?thesis using extended_branch[OF assms(1)] assms(2) by (auto simp: check_publication_def bind_res_def split: sum.splits)
next
  case True
  then show ?thesis
    using assms by (auto simp: extends_policy_def check_publication_def bind_res_def split: sum.splits if_splits)
qed

text \<open>
  C28. A parsed policy is usable: every denied path is a relative glob that cannot leave the repository,
  every target is a safe reference, every required command decodes into typed arguments, the required
  CI checks are distinct proper names. And reading on takes no restriction of the first lines back: a
  domain or a set of changed paths that they refuse stays refused, the approval, the commands and the
  CI checks that they require stay required. Only the allow lists may also widen: a publication that the
  first lines refuse and the whole document lets pass goes to a branch or a remote that a later line
  has added to a list that was not empty, and a list that is not empty never becomes empty.
\<close>

theorem parsed_policy_is_valid:
  assumes "parse_policy text = Inr p"
  shows "valid_policy p \<and> (\<exists>q. policy_lines (take n (text_lines text)) NoSection False no_policy = Inr q
    \<and> (\<forall>d. check_domain p d = Inr () \<longrightarrow> check_domain q d = Inr ())
    \<and> (\<forall>ps. check_paths p ps = Inr () \<longrightarrow> check_paths q ps = Inr ())
    \<and> (py_push_requires_approval q \<longrightarrow> py_push_requires_approval p)
    \<and> set (py_required_verification_commands q) \<subseteq> set (py_required_verification_commands p)
    \<and> set (py_required_ci_checks q) \<subseteq> set (py_required_ci_checks p)
    \<and> (\<forall>b m. check_publication p b m = Inr () \<and> check_publication q b m \<noteq> Inr () \<longrightarrow>
        py_allowed_branches q \<noteq> [] \<and> b \<in> set (py_allowed_branches p) - set (py_allowed_branches q)
        \<or> py_allowed_remotes q \<noteq> [] \<and> m \<in> set (py_allowed_remotes p) - set (py_allowed_remotes q))
    \<and> (py_allowed_branches q \<noteq> [] \<longrightarrow> py_allowed_branches p \<noteq> [])
    \<and> (py_allowed_remotes q \<noteq> [] \<longrightarrow> py_allowed_remotes p \<noteq> []))"
proof -
  have "valid_policy no_policy" by (simp add: valid_policy_def no_policy_def)
  then obtain q where q: "valid_policy p" "policy_lines (take n (text_lines text)) NoSection False no_policy = Inr q"
    "extends_policy q p"
    using assms lines_ok lines_taken unfolding parse_policy_def by blast
  have lists: "set (py_required_verification_commands q) \<subseteq> set (py_required_verification_commands p)"
    "set (py_required_ci_checks q) \<subseteq> set (py_required_ci_checks p)"
    "py_push_requires_approval q \<longrightarrow> py_push_requires_approval p"
    "py_allowed_branches q \<noteq> [] \<longrightarrow> py_allowed_branches p \<noteq> []"
    "py_allowed_remotes q \<noteq> [] \<longrightarrow> py_allowed_remotes p \<noteq> []"
    using q(3) by (auto simp: extends_policy_def dest: set_mono_prefix)
  then show ?thesis
    using q(1,2) extended_domain[OF q(3)] extended_paths[OF q(3)] extended_publication[OF q(3)] by blast
qed

definition demo_heading :: string where "demo_heading = ''## '' @ denylist_heading @ '' (denylist)''"
definition demo_bullet :: string where "demo_bullet = ''- `infra/**`, `**/*.pem`''"

theorem parsed_policy_is_valid_witness:
  "valid_policy (no_policy\<lparr>py_denied_paths := [''infra/**'', ''**/*.pem'']\<rparr>)"
proof -
  let ?text = "demo_heading @ [CHR 0x0A] @ active_mark @ [CHR 0x0A] @ demo_bullet"
  have lines: "text_lines ?text = [demo_heading, active_mark, demo_bullet]" by code_simp
  have 1: "policy_line NoSection False no_policy demo_heading = Inr (Denylist, False, no_policy)" by code_simp
  have 2: "policy_line Denylist False no_policy active_mark = Inr (Denylist, True, no_policy)" by code_simp
  have 3: "policy_line Denylist True no_policy demo_bullet =
      Inr (Denylist, True, no_policy\<lparr>py_denied_paths := [''infra/**'', ''**/*.pem'']\<rparr>)" by code_simp
  have "parse_policy ?text = Inr (no_policy\<lparr>py_denied_paths := [''infra/**'', ''**/*.pem'']\<rparr>)"
    unfolding parse_policy_def lines by (simp add: 1 2 3)
  from parsed_policy_is_valid[OF this] show ?thesis by blast
qed

end
