(* ===== verification/ForgeCi.thy ===== *)
theory ForgeCi
  imports Policy ProcessorTypes
begin

text \<open>
  The gate on the CI of a published commit: \<open>src/engine/src/forge_ci.rs\<close>, with the polls of
  \<open>src/engine/src/headless.rs\<close> and the two operations of \<open>src/engine/src/native_port.rs\<close> that ask for it. A
  client stands for the forge command-line tools and the decoding of their JSON answers: a request
  gives a decoded document or an error. \<open>dbg\<close> is the escaping of \<open>{:?}\<close> on texts, \<open>lc\<close> the Unicode
  \<open>to_lowercase\<close> of the signatures. Times are in nanoseconds.
\<close>

section \<open>Forges and snapshots\<close>

datatype forge = GitHub | GitLab | Gitea

definition forge_as_config_value :: "forge \<Rightarrow> string" where
  "forge_as_config_value f = (case f of GitHub \<Rightarrow> ''github'' | GitLab \<Rightarrow> ''gitlab'' | Gitea \<Rightarrow> ''gitea'')"

definition forge_display_name :: "forge \<Rightarrow> string" where
  "forge_display_name f = (case f of GitHub \<Rightarrow> ''GitHub'' | GitLab \<Rightarrow> ''GitLab'' | Gitea \<Rightarrow> ''Gitea'')"

definition forge_parse :: "string \<Rightarrow> forge option" where
  "forge_parse v =
    (if v = ''github'' then Some GitHub else if v = ''gitlab'' then Some GitLab
     else if v = ''gitea'' then Some Gitea else None)"

definition supported_forge_values :: "string list" where
  "supported_forge_values = map forge_as_config_value [GitHub, GitLab, Gitea]"

datatype ci_poll = PollPassing | PollPending string | PollFailing string string

datatype check_verdict = CheckSuccess | CheckFailure | CheckUnsettled

definition gitlab_status_page_size :: nat where "gitlab_status_page_size = 100"
definition gitea_status_page_size :: nat where "gitea_status_page_size = 50"
definition gitea_completeness_probe_page :: nat where "gitea_completeness_probe_page = 2"

definition ascii_hexdigit :: "char \<Rightarrow> bool" where
  "ascii_hexdigit c \<longleftrightarrow> is_digit c \<or> 97 \<le> (of_char c :: nat) \<and> (of_char c :: nat) \<le> 102
    \<or> 65 \<le> (of_char c :: nat) \<and> (of_char c :: nat) \<le> 70"

definition is_full_commit_id :: "string \<Rightarrow> bool" where
  "is_full_commit_id head \<longleftrightarrow> (length head = 40 \<or> length head = 64) \<and> list_all ascii_hexdigit head"

definition github_checks_endpoint :: "string \<Rightarrow> string" where
  "github_checks_endpoint head = ''repos/{owner}/{repo}/commits/'' @ head @ ''/check-runs?per_page=100''"

definition gitlab_statuses_endpoint :: "string \<Rightarrow> string" where
  "gitlab_statuses_endpoint head =
    ''projects/:fullpath/repository/commits/'' @ head @ ''/statuses?per_page='' @ show_nat gitlab_status_page_size
    @ ''&page=1&order_by=id&sort=desc''"

definition gitea_status_endpoint :: "string \<Rightarrow> nat \<Rightarrow> string" where
  "gitea_status_endpoint head page =
    ''/repos/{owner}/{repo}/commits/'' @ head @ ''/status?page='' @ show_nat page @ ''&limit='' @ show_nat gitea_status_page_size"

record gitlab_status =
  gl_id :: nat
  gl_name :: string
  gl_status :: string
  gl_sha :: string
  gl_allow_failure :: bool

record gitea_status =
  gt_id :: nat
  gt_context :: string
  gt_status :: string

record gitea_combined =
  gc_sha :: string
  gc_total_count :: nat
  gc_statuses :: "gitea_status list"

record github_check =
  gh_id :: nat
  gh_name :: string
  gh_status :: string
  gh_conclusion :: "string option"

record github_response =
  gr_total_count :: nat
  gr_check_runs :: "github_check list"

definition gitlab_verdict :: "string \<Rightarrow> check_verdict" where
  "gitlab_verdict s =
    (if s \<in> {''success'', ''skipped''} then CheckSuccess
     else if s \<in> {''failed'', ''canceled'', ''cancelled'', ''canceling'', ''cancelling''} then CheckFailure
     else CheckUnsettled)"

definition gitea_verdict :: "string \<Rightarrow> check_verdict" where
  "gitea_verdict s =
    (if s \<in> {''success'', ''skipped''} then CheckSuccess
     else if s \<in> {''error'', ''failure'', ''warning''} then CheckFailure
     else CheckUnsettled)"

section \<open>Classification\<close>

definition eq_ignore_ascii_case :: "string \<Rightarrow> string \<Rightarrow> bool" where
  "eq_ignore_ascii_case a b \<longleftrightarrow> to_ascii_lowercase a = to_ascii_lowercase b"

text \<open>The latest entry of every required name, or the first name without an entry.\<close>

fun select_required :: "('a \<Rightarrow> string) \<Rightarrow> ('a \<Rightarrow> nat) \<Rightarrow> 'a list \<Rightarrow> string list \<Rightarrow> string + 'a list" where
  "select_required name ident entries [] = Inr []"
| "select_required name ident entries (required # rest) =
    (case max_by (\<lambda>a b. compare_with (ident a) (ident b)) (filter (\<lambda>e. trim (name e) = required) entries) of
       None \<Rightarrow> Inl required
     | Some e \<Rightarrow> bind_res (select_required name ident entries rest) (\<lambda>es. Inr (e # es)))"

definition check_name_shown :: "string \<Rightarrow> string" where
  "check_name_shown raw = (if trim raw = [] then ''<unnamed check>'' else trim raw)"

fun classify_selected ::
    "(string \<Rightarrow> string) \<Rightarrow> (string \<Rightarrow> string) \<Rightarrow> forge \<Rightarrow> string \<Rightarrow> (string \<Rightarrow> check_verdict) \<Rightarrow> (string \<times> string) list \<Rightarrow> ci_poll" where
  "classify_selected lc dbg forge head verdict [] = PollPassing"
| "classify_selected lc dbg forge head verdict ((raw_name, raw_state) # selected) =
    (let name = check_name_shown raw_name; state = to_ascii_lowercase (trim raw_state) in
     case verdict state of
       CheckSuccess \<Rightarrow> classify_selected lc dbg forge head verdict selected
     | CheckFailure \<Rightarrow>
         PollFailing
           (signature_of_finding lc (forge_as_config_value forge @ '' commit check failed'')
              (head @ '':'' @ name @ '':'' @ state))
           (forge_display_name forge @ '' check '' @ dbg name @ '' reported '' @ dbg state)
     | CheckUnsettled \<Rightarrow>
         PollPending (forge_display_name forge @ '' check '' @ dbg name @ '' is '' @ dbg state))"

definition not_reported :: "(string \<Rightarrow> string) \<Rightarrow> forge \<Rightarrow> string \<Rightarrow> ci_poll" where
  "not_reported dbg forge required =
    PollPending (''required '' @ forge_display_name forge @ '' check '' @ dbg required
      @ '' has not reported for the published commit'')"

definition classify_gitlab_statuses ::
    "(string \<Rightarrow> string) \<Rightarrow> (string \<Rightarrow> string) \<Rightarrow> string \<Rightarrow> gitlab_status list \<Rightarrow> string list \<Rightarrow> ci_poll" where
  "classify_gitlab_statuses lc dbg head statuses required =
    (if length statuses \<ge> gitlab_status_page_size then
       PollPending (''GitLab returned a full page of '' @ show_nat (length statuses)
         @ '' commit statuses; refusing a possibly-truncated pass'')
     else (case filter (\<lambda>s. gl_sha s \<noteq> [] \<and> \<not> eq_ignore_ascii_case (gl_sha s) head) statuses of
       foreign # _ \<Rightarrow>
         PollPending (''GitLab reported a status for commit '' @ dbg (gl_sha foreign) @ '' while '' @ head @ '' was published'')
     | [] \<Rightarrow>
        (if statuses = [] then
           PollPending ''GitLab has not reported any commit statuses for the published commit''
         else (case (if required = [] then Inr (filter (\<lambda>s. \<not> gl_allow_failure s) statuses)
                     else select_required gl_name gl_id statuses required) of
           Inl missing \<Rightarrow> not_reported dbg GitLab missing
         | Inr [] \<Rightarrow>
             PollPending ''GitLab reported only non-blocking (allow_failure) statuses for the published commit''
         | Inr selected \<Rightarrow>
             classify_selected lc dbg GitLab head gitlab_verdict (map (\<lambda>s. (gl_name s, gl_status s)) selected)))))"

text \<open>The next page is requested only when the first one would pass.\<close>

definition classify_gitea_statuses ::
    "(string \<Rightarrow> string) \<Rightarrow> (string \<Rightarrow> string) \<Rightarrow> string \<Rightarrow> gitea_combined \<Rightarrow> string list
     \<Rightarrow> ('w \<Rightarrow> ('e + gitea_combined) \<times> 'w) \<Rightarrow> 'w \<Rightarrow> ('e + ci_poll) \<times> 'w" where
  "classify_gitea_statuses lc dbg head combined required next_page w =
    (if gc_total_count combined \<noteq> length (gc_statuses combined) then
       (Inr (PollPending (''Gitea reported '' @ show_nat (gc_total_count combined) @ '' statuses but returned ''
          @ show_nat (length (gc_statuses combined)) @ ''; refusing a partial-page pass'')), w)
     else if gc_sha combined \<noteq> [] \<and> \<not> eq_ignore_ascii_case (gc_sha combined) head then
       (Inr (PollPending (''Gitea reported the combined status of commit '' @ dbg (gc_sha combined) @ '' while '' @ head
          @ '' was published'')), w)
     else if gc_statuses combined = [] then
       (Inr (PollPending ''Gitea has not reported any commit statuses for the published commit''), w)
     else (case (if required = [] then Inr (gc_statuses combined)
                 else select_required gt_context gt_id (gc_statuses combined) required) of
       Inl missing \<Rightarrow> (Inr (not_reported dbg Gitea missing), w)
     | Inr selected \<Rightarrow>
        (let verdict = classify_selected lc dbg Gitea head gitea_verdict (map (\<lambda>s. (gt_context s, gt_status s)) selected) in
         if verdict \<noteq> PollPassing then (Inr verdict, w)
         else (case next_page w of
           (Inl err, w) \<Rightarrow> (Inl err, w)
         | (Inr following, w) \<Rightarrow>
            (if gc_statuses following \<noteq> [] then
               (Inr (PollPending (''Gitea returned '' @ show_nat (length (gc_statuses combined))
                  @ '' commit statuses for the published commit but page '' @ show_nat gitea_completeness_probe_page
                  @ '' is not empty, so this page is not the whole set (an instance whose `[api] MAX_RESPONSE_ITEMS` is below the requested ''
                  @ show_nat gitea_status_page_size @ '' silently clamps it); refusing a truncated-page pass'')), w)
             else (Inr PollPassing, w))))))"

fun classify_github_selected ::
    "(string \<Rightarrow> string) \<Rightarrow> (string \<Rightarrow> string) \<Rightarrow> string \<Rightarrow> github_check list \<Rightarrow> ci_poll" where
  "classify_github_selected lc dbg head [] = PollPassing"
| "classify_github_selected lc dbg head (check # selected) =
    (let name = check_name_shown (gh_name check);
         status = to_ascii_lowercase (trim (gh_status check));
         conclusion = to_ascii_lowercase (trim (case gh_conclusion check of Some c \<Rightarrow> c | None \<Rightarrow> [])) in
     if status \<noteq> ''completed'' then PollPending (''check '' @ dbg name @ '' is '' @ dbg status)
     else if conclusion \<in> {''success'', ''neutral'', ''skipped''} then classify_github_selected lc dbg head selected
     else if conclusion \<in> {''failure'', ''cancelled'', ''timed_out'', ''action_required'', ''startup_failure'', ''stale''} then
       PollFailing
         (signature_of_finding lc ''github commit check failed'' (head @ '':'' @ name @ '':'' @ conclusion))
         (''GitHub check '' @ dbg name @ '' concluded '' @ dbg conclusion)
     else PollPending (''check '' @ dbg name @ '' has unknown conclusion '' @ dbg conclusion))"

definition classify_github_checks ::
    "(string \<Rightarrow> string) \<Rightarrow> (string \<Rightarrow> string) \<Rightarrow> string \<Rightarrow> nat \<Rightarrow> github_check list \<Rightarrow> string list \<Rightarrow> ci_poll" where
  "classify_github_checks lc dbg head total_count checks required =
    (if total_count > length checks then
       PollPending (''GitHub reported '' @ show_nat total_count @ '' checks but only '' @ show_nat (length checks)
         @ '' were returned; refusing a partial-page pass'')
     else if checks = [] then PollPending ''GitHub has not reported any checks for the published commit''
     else (case (if required = [] then Inr checks else select_required gh_name gh_id checks required) of
       Inl missing \<Rightarrow> not_reported dbg GitHub missing
     | Inr selected \<Rightarrow> classify_github_selected lc dbg head selected))"

section \<open>Polls\<close>

record ('w, 'e) forge_client =
  fc_github :: "string \<Rightarrow> 'w \<Rightarrow> ('e + github_response) \<times> 'w"
  fc_gitlab :: "string \<Rightarrow> 'w \<Rightarrow> ('e + gitlab_status list) \<times> 'w"
  fc_gitea :: "string \<Rightarrow> 'w \<Rightarrow> ('e + gitea_combined) \<times> 'w"
  fc_now :: "'w \<Rightarrow> nat \<times> 'w"
  fc_sleep :: "nat \<Rightarrow> 'w \<Rightarrow> 'w"

datatype 'e poll_error = NotACommitId string | RequestFailed 'e

definition request :: "('e + 'a) \<times> 'w \<Rightarrow> ('e poll_error + 'a) \<times> 'w" where
  "request y = (case y of (Inl err, w) \<Rightarrow> (Inl (RequestFailed err), w) | (Inr a, w) \<Rightarrow> (Inr a, w))"

type_synonym ('w, 'e) ci_poller = "'w \<Rightarrow> ('e poll_error + ci_poll) \<times> 'w"

definition github_ci_poll ::
    "(string \<Rightarrow> string) \<Rightarrow> (string \<Rightarrow> string) \<Rightarrow> ('w, 'e) forge_client \<Rightarrow> string \<Rightarrow> string list \<Rightarrow> ('w, 'e) ci_poller" where
  "github_ci_poll lc dbg cl head required w =
    (if \<not> is_full_commit_id head then (Inl (NotACommitId head), w)
     else (case request (fc_github cl (github_checks_endpoint head) w) of
       (Inl err, w) \<Rightarrow> (Inl err, w)
     | (Inr response, w) \<Rightarrow>
         (Inr (classify_github_checks lc dbg head (gr_total_count response) (gr_check_runs response) required), w)))"

definition gitlab_ci_poll ::
    "(string \<Rightarrow> string) \<Rightarrow> (string \<Rightarrow> string) \<Rightarrow> ('w, 'e) forge_client \<Rightarrow> string \<Rightarrow> string list \<Rightarrow> ('w, 'e) ci_poller" where
  "gitlab_ci_poll lc dbg cl head required w =
    (if \<not> is_full_commit_id head then (Inl (NotACommitId head), w)
     else (case request (fc_gitlab cl (gitlab_statuses_endpoint head) w) of
       (Inl err, w) \<Rightarrow> (Inl err, w)
     | (Inr statuses, w) \<Rightarrow> (Inr (classify_gitlab_statuses lc dbg head statuses required), w)))"

definition gitea_status_page :: "('w, 'e) forge_client \<Rightarrow> string \<Rightarrow> nat \<Rightarrow> 'w \<Rightarrow> ('e poll_error + gitea_combined) \<times> 'w" where
  "gitea_status_page cl head page w = request (fc_gitea cl (gitea_status_endpoint head page) w)"

definition gitea_ci_poll ::
    "(string \<Rightarrow> string) \<Rightarrow> (string \<Rightarrow> string) \<Rightarrow> ('w, 'e) forge_client \<Rightarrow> string \<Rightarrow> string list \<Rightarrow> ('w, 'e) ci_poller" where
  "gitea_ci_poll lc dbg cl head required w =
    (if \<not> is_full_commit_id head then (Inl (NotACommitId head), w)
     else (case gitea_status_page cl head 1 w of
       (Inl err, w) \<Rightarrow> (Inl err, w)
     | (Inr combined, w) \<Rightarrow>
         classify_gitea_statuses lc dbg head combined required (gitea_status_page cl head gitea_completeness_probe_page) w))"

definition forge_ci_poll ::
    "(string \<Rightarrow> string) \<Rightarrow> (string \<Rightarrow> string) \<Rightarrow> forge \<Rightarrow> ('w, 'e) forge_client \<Rightarrow> string \<Rightarrow> string list \<Rightarrow> ('w, 'e) ci_poller" where
  "forge_ci_poll lc dbg forge cl head required =
    (case forge of
       GitHub \<Rightarrow> github_ci_poll lc dbg cl head required
     | GitLab \<Rightarrow> gitlab_ci_poll lc dbg cl head required
     | Gitea \<Rightarrow> gitea_ci_poll lc dbg cl head required)"

section \<open>Watching\<close>

definition sleep_until_next_poll :: "('w, 'e) forge_client \<Rightarrow> nat \<Rightarrow> nat \<Rightarrow> nat \<Rightarrow> 'w \<Rightarrow> 'w" where
  "sleep_until_next_poll cl deadline now backoff w = fc_sleep cl (max (min backoff (deadline - now)) 1000000) w"

partial_function (option) watch_required_until ::
    "('w, 'e) forge_client \<Rightarrow> forge \<Rightarrow> string \<Rightarrow> nat \<Rightarrow> nat \<Rightarrow> ('w, 'e) ci_poller \<Rightarrow> 'w \<Rightarrow> (ci_outcome \<times> 'w) option" where
  "watch_required_until cl forge head deadline backoff poll w =
    (case poll w of
       (Inr PollPassing, w) \<Rightarrow> Some (ci_outcome.Passed, w)
     | (Inr (PollFailing signature reason), w) \<Rightarrow> Some (ci_outcome.Failed signature reason, w)
     | (y, w) \<Rightarrow>
        (let pending = (case y of Inr (PollPending reason) \<Rightarrow> reason
               | _ \<Rightarrow> ''the typed '' @ forge_display_name forge @ '' checks endpoint is unavailable'') in
         case fc_now cl w of (now, w) \<Rightarrow>
           (if now \<ge> deadline then
              Some (RequiredUnconfirmed (''required checks for published commit '' @ head
                @ '' were not confirmed before the deadline while '' @ pending), w)
            else watch_required_until cl forge head deadline backoff poll (sleep_until_next_poll cl deadline now backoff w))))"

definition watch_required ::
    "('w, 'e) forge_client \<Rightarrow> forge \<Rightarrow> string \<Rightarrow> nat \<Rightarrow> nat \<Rightarrow> ('w, 'e) ci_poller \<Rightarrow> 'w \<Rightarrow> (ci_outcome \<times> 'w) option" where
  "watch_required cl forge head deadline_after backoff poll w =
    (case fc_now cl w of (now, w) \<Rightarrow> watch_required_until cl forge head (now + deadline_after) backoff poll w)"

definition best_effort :: "string \<Rightarrow> string \<Rightarrow> ci_outcome" where
  "best_effort head how =
    BestEffortDegraded (''best-effort checks for published commit '' @ head @ how @ ''; manual confirmation is recommended'')"

partial_function (option) watch_best_effort_until ::
    "('w, 'e) forge_client \<Rightarrow> string \<Rightarrow> nat \<Rightarrow> nat \<Rightarrow> ('w, 'e) ci_poller \<Rightarrow> 'w \<Rightarrow> (ci_outcome \<times> 'w) option" where
  "watch_best_effort_until cl head deadline backoff poll w =
    (case poll w of
       (Inr PollPassing, w) \<Rightarrow> Some (ci_outcome.Passed, w)
     | (Inr (PollFailing _ _), w) \<Rightarrow> Some (best_effort head '' did not pass'', w)
     | (Inl _, w) \<Rightarrow> Some (best_effort head '' are unavailable'', w)
     | (Inr (PollPending _), w) \<Rightarrow>
        (case fc_now cl w of (now, w) \<Rightarrow>
           (if now \<ge> deadline then Some (best_effort head '' were not confirmed before the deadline'', w)
            else watch_best_effort_until cl head deadline backoff poll (sleep_until_next_poll cl deadline now backoff w))))"

definition watch_best_effort ::
    "('w, 'e) forge_client \<Rightarrow> string \<Rightarrow> nat \<Rightarrow> nat \<Rightarrow> ('w, 'e) ci_poller \<Rightarrow> 'w \<Rightarrow> (ci_outcome \<times> 'w) option" where
  "watch_best_effort cl head deadline_after backoff poll w =
    (case fc_now cl w of (now, w) \<Rightarrow> watch_best_effort_until cl head (now + deadline_after) backoff poll w)"

section \<open>Asking for the CI of a published head\<close>

record ci_config =
  cg_forge :: forge
  cg_ci_watch :: bool
  cg_ci_deadline :: nat
  cg_ci_backoff :: nat

definition verify_ci ::
    "(string \<Rightarrow> string) \<Rightarrow> (string \<Rightarrow> string) \<Rightarrow> ci_config \<Rightarrow> ('w, 'e) forge_client \<Rightarrow> string \<Rightarrow> string list \<Rightarrow> 'w
     \<Rightarrow> (ci_outcome \<times> 'w) option" where
  "verify_ci lc dbg cfg cl head required w =
    (if \<not> cg_ci_watch cfg then Some (Disabled, w)
     else if required = [] then
       watch_best_effort cl head (cg_ci_deadline cfg) (cg_ci_backoff cfg) (forge_ci_poll lc dbg (cg_forge cfg) cl head []) w
     else
       watch_required cl (cg_forge cfg) head (cg_ci_deadline cfg) (cg_ci_backoff cfg)
         (forge_ci_poll lc dbg (cg_forge cfg) cl head required) w)"

datatype ci_port_error = PolicyRefused policy_error | PolicyChanged

text \<open>The port of the engine; the constraints are read anew.\<close>

definition port_verify_ci ::
    "(string \<Rightarrow> string) \<Rightarrow> (string \<Rightarrow> string) \<Rightarrow> bool \<Rightarrow> string + string option \<Rightarrow> ci_config \<Rightarrow> ('w, 'e) forge_client \<Rightarrow> string \<Rightarrow> 'w
     \<Rightarrow> ((ci_port_error + ci_outcome) \<times> 'w) option" where
  "port_verify_ci lc dbg push source cfg cl head w =
    (if \<not> push then Some (Inr LocalOnly, w)
     else (case load_policy source of
       Inl err \<Rightarrow> Some (Inl (PolicyRefused err), w)
     | Inr p \<Rightarrow> map_option (map_prod Inr id) (verify_ci lc dbg cfg cl head (py_required_ci_checks p) w)))"

definition port_reconfirm_ci ::
    "(string \<Rightarrow> string) \<Rightarrow> (string \<Rightarrow> string) \<Rightarrow> string + string option \<Rightarrow> ci_config \<Rightarrow> ('w, 'e) forge_client \<Rightarrow> string \<Rightarrow> string list \<Rightarrow> 'w
     \<Rightarrow> ((ci_port_error + ci_outcome) \<times> 'w) option" where
  "port_reconfirm_ci lc dbg source cfg cl head required w =
    (case load_policy source of
       Inl err \<Rightarrow> Some (Inl (PolicyRefused err), w)
     | Inr p \<Rightarrow>
        (if py_required_ci_checks p \<noteq> required then Some (Inl PolicyChanged, w)
         else map_option (map_prod Inr id) (verify_ci lc dbg cfg cl head required w)))"

end
