(* ===== verification/ForgeProps.thy ===== *)
theory ForgeProps
  imports ForgeCi PolicyProps
begin

text \<open>
  The properties of the CI gate: what a passing poll has seen, what a confirmed outcome of the port
  rests on, and that the watches return.
\<close>

section \<open>Passing polls\<close>

definition latest_check :: "('a \<Rightarrow> string) \<Rightarrow> ('a \<Rightarrow> nat) \<Rightarrow> 'a list \<Rightarrow> string \<Rightarrow> 'a \<Rightarrow> bool" where
  "latest_check name ident entries r e \<longleftrightarrow>
    (\<exists>before after. entries = before @ e # after \<and> trim (name e) = r
      \<and> list_all (\<lambda>x. trim (name x) = r \<longrightarrow> ident x \<le> ident e) before
      \<and> list_all (\<lambda>x. trim (name x) = r \<longrightarrow> ident x < ident e) after)"

text \<open>Either every entry, when nothing is required, or the latest entry of each required name satisfies \<open>ok\<close>.\<close>

definition selected_ok :: "('a \<Rightarrow> string) \<Rightarrow> ('a \<Rightarrow> nat) \<Rightarrow> ('a \<Rightarrow> bool) \<Rightarrow> 'a list \<Rightarrow> 'a list \<Rightarrow> string list \<Rightarrow> bool" where
  "selected_ok name ident ok blocking entries required \<longleftrightarrow>
    (if required = [] then list_all ok blocking
     else list_all (\<lambda>r. \<exists>e. latest_check name ident entries r e \<and> ok e) required)"

definition github_ok :: "github_check \<Rightarrow> bool" where
  "github_ok c \<longleftrightarrow> to_ascii_lowercase (trim (gh_status c)) = ''completed''
    \<and> (\<exists>s. gh_conclusion c = Some s \<and> to_ascii_lowercase (trim s) \<in> {''success'', ''neutral'', ''skipped''})"

definition green_state :: "string \<Rightarrow> bool" where
  "green_state s \<longleftrightarrow> to_ascii_lowercase (trim s) \<in> {''success'', ''skipped''}"

definition github_green :: "github_response \<Rightarrow> string list \<Rightarrow> bool" where
  "github_green doc required \<longleftrightarrow>
    gr_check_runs doc \<noteq> [] \<and> gr_total_count doc \<le> length (gr_check_runs doc)
    \<and> selected_ok gh_name gh_id github_ok (gr_check_runs doc) (gr_check_runs doc) required"

definition gitlab_green :: "string \<Rightarrow> gitlab_status list \<Rightarrow> string list \<Rightarrow> bool" where
  "gitlab_green head statuses required \<longleftrightarrow>
    statuses \<noteq> [] \<and> length statuses < 100
    \<and> list_all (\<lambda>s. gl_sha s = [] \<or> to_ascii_lowercase (gl_sha s) = to_ascii_lowercase head) statuses
    \<and> (required = [] \<longrightarrow> filter (\<lambda>s. \<not> gl_allow_failure s) statuses \<noteq> [])
    \<and> selected_ok gl_name gl_id (\<lambda>s. green_state (gl_status s)) (filter (\<lambda>s. \<not> gl_allow_failure s) statuses) statuses required"

definition gitea_green :: "string \<Rightarrow> gitea_combined \<Rightarrow> string list \<Rightarrow> bool" where
  "gitea_green head doc required \<longleftrightarrow>
    gc_statuses doc \<noteq> [] \<and> gc_total_count doc = length (gc_statuses doc)
    \<and> (gc_sha doc = [] \<or> to_ascii_lowercase (gc_sha doc) = to_ascii_lowercase head)
    \<and> selected_ok gt_context gt_id (\<lambda>s. green_state (gt_status s)) (gc_statuses doc) (gc_statuses doc) required"

text \<open>The requests of one poll, for the exact commit, and a complete green answer.\<close>

definition green_snapshot :: "forge \<Rightarrow> ('w, 'e) forge_client \<Rightarrow> string \<Rightarrow> string list \<Rightarrow> 'w \<Rightarrow> 'w \<Rightarrow> bool" where
  "green_snapshot forge cl head required w w' \<longleftrightarrow>
    (case forge of
       GitHub \<Rightarrow> (\<exists>doc. fc_github cl (github_checks_endpoint head) w = (Inr doc, w') \<and> github_green doc required)
     | GitLab \<Rightarrow> (\<exists>doc. fc_gitlab cl (gitlab_statuses_endpoint head) w = (Inr doc, w') \<and> gitlab_green head doc required)
     | Gitea \<Rightarrow> (\<exists>doc v following. fc_gitea cl (gitea_status_endpoint head 1) w = (Inr doc, v) \<and> gitea_green head doc required
         \<and> fc_gitea cl (gitea_status_endpoint head 2) v = (Inr following, w') \<and> gc_statuses following = []))"

lemma foldl_latest:
  fixes f :: "'a \<Rightarrow> nat"
  shows "\<exists>before after. x # xs = before @ foldl (\<lambda>b y. if compare_with (f b) (f y) = Greater then b else y) x xs # after
    \<and> list_all (\<lambda>y. f y \<le> f (foldl (\<lambda>b y. if compare_with (f b) (f y) = Greater then b else y) x xs)) before
    \<and> list_all (\<lambda>y. f y < f (foldl (\<lambda>b y. if compare_with (f b) (f y) = Greater then b else y) x xs)) after"
proof (induction xs rule: rev_induct)
  case (snoc y xs)
  let ?b = "foldl (\<lambda>b y. if compare_with (f b) (f y) = Greater then b else y) x xs"
  obtain before after where ih: "x # xs = before @ ?b # after"
    "list_all (\<lambda>y. f y \<le> f ?b) before" "list_all (\<lambda>y. f y < f ?b) after"
    using snoc by blast
  show ?case
  proof (cases "f y < f ?b")
    case True
    then show ?thesis
      using ih by (intro exI[of _ before] exI[of _ "after @ [y]"]) (simp add: compare_with_def)
  next
    case False
    then show ?thesis
      using ih by (intro exI[of _ "x # xs"] exI[of _ "[]"]) (fastforce simp: compare_with_def list_all_iff)
  qed
qed (auto intro: exI[of _ "[]"])

lemma filter_split:
  "filter P xs = before @ e # after \<Longrightarrow> \<exists>B A. xs = B @ e # A \<and> filter P B = before \<and> filter P A = after \<and> P e"
proof (induction xs arbitrary: before)
  case (Cons x xs)
  show ?case
  proof (cases "P x \<and> before = []")
    case True
    then show ?thesis using Cons.prems by (intro exI[of _ "[]"] exI[of _ xs]) simp
  next
    case False
    then obtain c where c: "filter P xs = c @ e # after" "before = (if P x then x # c else c)"
      using Cons.prems by (cases before) (auto split: if_splits)
    then obtain B A where "xs = B @ e # A" "filter P B = c" "filter P A = after" "P e" using Cons.IH by blast
    then show ?thesis using c(2) by (intro exI[of _ "x # B"] exI[of _ A]) simp
  qed
qed simp

lemma max_by_latest:
  assumes "max_by (\<lambda>a b. compare_with (ident a) (ident b)) (filter (\<lambda>e. trim (name e) = r) entries) = Some e"
  shows "latest_check name ident entries r e"
proof -
  let ?P = "\<lambda>e. trim (name e) = r"
  obtain x xs where f: "filter ?P entries = x # xs"
    using assms by (cases "filter ?P entries") auto
  then have e: "e = foldl (\<lambda>b y. if compare_with (ident b) (ident y) = Greater then b else y) x xs"
    using assms by simp
  obtain before after where split: "filter ?P entries = before @ e # after"
    "list_all (\<lambda>y. ident y \<le> ident e) before" "list_all (\<lambda>y. ident y < ident e) after"
    using foldl_latest[of x xs ident] unfolding f[symmetric] e[symmetric] by blast
  obtain B A where B: "entries = B @ e # A" "filter ?P B = before" "filter ?P A = after" "?P e"
    using filter_split[OF split(1)] by blast
  have "list_all (\<lambda>x. ?P x \<longrightarrow> ident x \<le> ident e) B" "list_all (\<lambda>x. ?P x \<longrightarrow> ident x < ident e) A"
    using split(2,3) unfolding B(2,3)[symmetric] by (auto simp: list_all_iff)
  then show ?thesis unfolding latest_check_def using B(1,4) by blast
qed

lemma latest_unique:
  assumes "latest_check name ident entries r e" "latest_check name ident entries r d"
  shows "e = d"
proof -
  have once: "e = d" if "entries = B @ e # A" "entries = B @ us @ d # C" "trim (name e) = r" "trim (name d) = r"
    "list_all (\<lambda>x. trim (name x) = r \<longrightarrow> ident x < ident e) A"
    "list_all (\<lambda>x. trim (name x) = r \<longrightarrow> ident x \<le> ident d) (B @ us)" for e d A B C us
    using that by (cases us) auto
  obtain B A C D where h: "entries = B @ e # A" "entries = C @ d # D" "trim (name e) = r" "trim (name d) = r"
    "list_all (\<lambda>x. trim (name x) = r \<longrightarrow> ident x \<le> ident e) B" "list_all (\<lambda>x. trim (name x) = r \<longrightarrow> ident x < ident e) A"
    "list_all (\<lambda>x. trim (name x) = r \<longrightarrow> ident x \<le> ident d) C" "list_all (\<lambda>x. trim (name x) = r \<longrightarrow> ident x < ident d) D"
    using assms unfolding latest_check_def by blast
  from h(1,2) have "B @ e # A = C @ d # D" by simp
  then consider us where "B = C @ us" | us where "C = B @ us" by (auto simp: append_eq_append_conv2)
  then show ?thesis
  proof cases
    case 1
    have "entries = C @ us @ e # A" using h(1) 1 by simp
    then show ?thesis using once[OF h(2) _ h(4,3,8)] h(5) 1 by blast
  next
    case 2
    have "entries = B @ us @ d # D" using h(2) 2 by simp
    then show ?thesis using once[OF h(1) _ h(3,4,6)] h(7) 2 by blast
  qed
qed

lemma select_required_latest:
  "select_required name ident entries required = Inr es \<Longrightarrow>
    list_all2 (latest_check name ident entries) required es"
  by (induction required arbitrary: es) (auto simp: bind_res_def max_by_latest split: option.splits sum.splits)

lemma select_required_found:
  assumes "list_all (\<lambda>r. \<exists>e. latest_check name ident entries r e) required"
  shows "\<exists>es. select_required name ident entries required = Inr es"
  using assms
proof (induction required)
  case (Cons r required)
  obtain e where "latest_check name ident entries r e" using Cons.prems by auto
  then have "filter (\<lambda>e. trim (name e) = r) entries \<noteq> []" by (auto simp: latest_check_def)
  then show ?case using Cons by (cases "filter (\<lambda>e. trim (name e) = r) entries") (auto simp: bind_res_def)
qed simp

lemma all2_right: "list_all2 P xs ys \<Longrightarrow> y \<in> set ys \<Longrightarrow> \<exists>x \<in> set xs. P x y"
  by (induction rule: list_all2_induct) auto

lemma all2_left: "list_all2 P xs ys \<Longrightarrow> x \<in> set xs \<Longrightarrow> \<exists>y \<in> set ys. P x y"
  by (induction rule: list_all2_induct) auto

lemma selection_ok:
  assumes "required \<noteq> []"
  shows "(\<exists>es. select_required name ident entries required = Inr es \<and> list_all ok es)
    \<longleftrightarrow> selected_ok name ident ok blocking entries required"
proof
  assume "\<exists>es. select_required name ident entries required = Inr es \<and> list_all ok es"
  then obtain es where es: "select_required name ident entries required = Inr es" "list_all ok es" by blast
  have "\<exists>e. latest_check name ident entries r e \<and> ok e" if "r \<in> set required" for r
    using all2_left[OF select_required_latest[OF es(1)] that] es(2) by (auto simp: list_all_iff)
  then show "selected_ok name ident ok blocking entries required"
    using assms by (simp add: selected_ok_def list_all_iff)
next
  assume "selected_ok name ident ok blocking entries required"
  then have all: "\<forall>r \<in> set required. \<exists>e. latest_check name ident entries r e \<and> ok e"
    using assms by (simp add: selected_ok_def list_all_iff)
  then obtain es where es: "select_required name ident entries required = Inr es"
    using select_required_found[of name ident entries required] unfolding list_all_iff by blast
  have "ok e" if e: "e \<in> set es" for e
  proof -
    obtain q where "q \<in> set required" "latest_check name ident entries q e"
      using all2_right[OF select_required_latest[OF es] e] by blast
    moreover from this(1) obtain d where "latest_check name ident entries q d" "ok d" using all by blast
    ultimately show ?thesis using latest_unique[of name ident entries q d e] by simp
  qed
  then show "\<exists>es. select_required name ident entries required = Inr es \<and> list_all ok es"
    using es by (auto simp: list_all_iff)
qed

lemma classify_selected_passing:
  "classify_selected lc dbg forge head verdict selected = PollPassing \<longleftrightarrow>
    list_all (\<lambda>(n, s). verdict (to_ascii_lowercase (trim s)) = CheckSuccess) selected"
  by (induction selected) (auto simp: Let_def split: check_verdict.splits)

lemma github_selected_passing: "classify_github_selected lc dbg head checks = PollPassing \<longleftrightarrow> list_all github_ok checks"
proof -
  have "to_ascii_lowercase (trim []) \<notin> {''success'', ''neutral'', ''skipped''}" by (simp add: to_ascii_lowercase_def)
  then show ?thesis by (induction checks) (auto simp: Let_def github_ok_def split: option.splits)
qed

lemma verdicts:
  "gitlab_verdict (to_ascii_lowercase (trim s)) = CheckSuccess \<longleftrightarrow> green_state s"
  "gitea_verdict (to_ascii_lowercase (trim s)) = CheckSuccess \<longleftrightarrow> green_state s"
  by (simp_all add: gitlab_verdict_def gitea_verdict_def green_state_def)

lemma github_classified:
  "classify_github_checks lc dbg head (gr_total_count doc) (gr_check_runs doc) required = PollPassing \<longleftrightarrow> github_green doc required"
proof (cases "required = []")
  case True
  then show ?thesis
    by (auto simp: classify_github_checks_def github_green_def selected_ok_def github_selected_passing)
next
  case False
  show ?thesis
    using selection_ok[OF False, of gh_name gh_id "gr_check_runs doc" github_ok "gr_check_runs doc"] False
    by (auto simp: classify_github_checks_def github_green_def github_selected_passing not_reported_def split: sum.splits)
qed

lemma gitlab_classified:
  "classify_gitlab_statuses lc dbg head doc required = PollPassing \<longleftrightarrow> gitlab_green head doc required"
proof -
  let ?blocking = "filter (\<lambda>s. \<not> gl_allow_failure s) doc"
  let ?foreign = "filter (\<lambda>s. gl_sha s \<noteq> [] \<and> \<not> eq_ignore_ascii_case (gl_sha s) head) doc"
  have own: "?foreign = [] \<longleftrightarrow> list_all (\<lambda>s. gl_sha s = [] \<or> to_ascii_lowercase (gl_sha s) = to_ascii_lowercase head) doc"
    by (auto simp: filter_empty_conv list_all_iff eq_ignore_ascii_case_def)
  have pass: "classify_selected lc dbg GitLab head gitlab_verdict (map (\<lambda>s. (gl_name s, gl_status s)) es) = PollPassing
      \<longleftrightarrow> list_all (\<lambda>s. green_state (gl_status s)) es" for es
    by (simp add: classify_selected_passing verdicts list_all_iff)
  show ?thesis
  proof (cases "length doc < 100 \<and> ?foreign = [] \<and> doc \<noteq> []")
    case guards: True
    then have guarded: "gitlab_green head doc required \<longleftrightarrow> (required = [] \<longrightarrow> ?blocking \<noteq> [])
        \<and> selected_ok gl_name gl_id (\<lambda>s. green_state (gl_status s)) ?blocking doc required"
      unfolding own by (simp add: gitlab_green_def)
    show ?thesis
    proof (cases "required = []")
      case True
      have "classify_gitlab_statuses lc dbg head doc required = (if ?blocking = []
          then PollPending ''GitLab reported only non-blocking (allow_failure) statuses for the published commit''
          else classify_selected lc dbg GitLab head gitlab_verdict (map (\<lambda>s. (gl_name s, gl_status s)) ?blocking))"
        using guards True by (simp add: classify_gitlab_statuses_def gitlab_status_page_size_def split: list.split)
      then show ?thesis unfolding guarded using True by (auto simp: pass selected_ok_def)
    next
      case False
      have passing: "classify_gitlab_statuses lc dbg head doc required = PollPassing \<longleftrightarrow>
          (\<exists>es. select_required gl_name gl_id doc required = Inr es \<and> list_all (\<lambda>s. green_state (gl_status s)) es)"
      proof (cases "select_required gl_name gl_id doc required")
        case (Inl missing)
        then show ?thesis
          using guards False by (simp add: classify_gitlab_statuses_def gitlab_status_page_size_def not_reported_def)
      next
        case (Inr es)
        have "es \<noteq> []" using select_required_latest[OF Inr] False by auto
        then have "classify_gitlab_statuses lc dbg head doc required
            = classify_selected lc dbg GitLab head gitlab_verdict (map (\<lambda>s. (gl_name s, gl_status s)) es)"
          using guards False Inr by (simp add: classify_gitlab_statuses_def gitlab_status_page_size_def split: list.split)
        then show ?thesis using Inr pass by simp
      qed
      show ?thesis
        unfolding passing selection_ok[OF False, of gl_name gl_id doc "\<lambda>s. green_state (gl_status s)" ?blocking] guarded
        using False by simp
    qed
  next
    case False
    then have "classify_gitlab_statuses lc dbg head doc required \<noteq> PollPassing"
      by (auto simp: classify_gitlab_statuses_def gitlab_status_page_size_def split: list.splits)
    moreover have "\<not> gitlab_green head doc required"
      using False unfolding own by (auto simp: gitlab_green_def)
    ultimately show ?thesis by simp
  qed
qed

lemma gitea_classified:
  "classify_gitea_statuses lc dbg head doc required next_page w = (Inr PollPassing, w') \<longleftrightarrow>
    gitea_green head doc required \<and> (\<exists>following. next_page w = (Inr following, w') \<and> gc_statuses following = [])"
proof -
  have pass: "classify_selected lc dbg Gitea head gitea_verdict (map (\<lambda>s. (gt_context s, gt_status s)) es) = PollPassing
      \<longleftrightarrow> list_all (\<lambda>s. green_state (gt_status s)) es" for es
    by (simp add: classify_selected_passing verdicts list_all_iff)
  show ?thesis
  proof (cases "required = []")
    case True
    then show ?thesis
      by (auto simp: classify_gitea_statuses_def gitea_green_def selected_ok_def pass Let_def eq_ignore_ascii_case_def
          split: sum.splits prod.splits if_splits)
  next
    case False
    show ?thesis
      using False selection_ok[OF False, of gt_context gt_id "gc_statuses doc" "\<lambda>s. green_state (gt_status s)" "gc_statuses doc"]
      by (auto simp: classify_gitea_statuses_def gitea_green_def pass Let_def eq_ignore_ascii_case_def not_reported_def
          split: sum.splits prod.splits if_splits)
  qed
qed

lemma request_ok:
  "request y = (Inr a, w) \<longleftrightarrow> y = (Inr a, w)" "request (Inr a, w) = (Inr a, w)" "request (Inl e, w) = (Inl (RequestFailed e), w)"
  by (auto simp: request_def split: prod.splits sum.splits)

text \<open>
  A poll passes exactly on proof: of a full commit id, with one answer for exactly that commit that is
  complete (no larger total, not a full page, or an empty next page) and names no other commit, in which
  the latest entry of every required check is green; without required checks, every blocking entry.
\<close>

lemma poll_passing:
  "forge_ci_poll lc dbg forge cl head required w = (Inr PollPassing, w') \<longleftrightarrow>
    is_full_commit_id head \<and> green_snapshot forge cl head required w w'"
proof (cases forge)
  case GitHub
  then show ?thesis
    by (auto simp: forge_ci_poll_def github_ci_poll_def green_snapshot_def request_ok github_classified
        split: prod.splits sum.splits)
next
  case GitLab
  then show ?thesis
    by (auto simp: forge_ci_poll_def gitlab_ci_poll_def green_snapshot_def request_ok gitlab_classified
        split: prod.splits sum.splits)
next
  case Gitea
  then show ?thesis
    by (auto simp: forge_ci_poll_def gitea_ci_poll_def gitea_status_page_def green_snapshot_def request_ok gitea_classified
        gitea_completeness_probe_page_def split: prod.splits sum.splits)
qed

section \<open>Watches\<close>

definition strict_outcome_of :: "('w, 'e) ci_poller \<Rightarrow> ci_outcome \<Rightarrow> 'w \<Rightarrow> bool" where
  "strict_outcome_of poll out w' \<longleftrightarrow>
    (case out of
       ci_outcome.Passed \<Rightarrow> \<exists>w. poll w = (Inr PollPassing, w')
     | ci_outcome.Failed signature reason \<Rightarrow> \<exists>w. poll w = (Inr (PollFailing signature reason), w')
     | RequiredUnconfirmed _ \<Rightarrow> True
     | _ \<Rightarrow> False)"

definition advisory_outcome_of :: "('w, 'e) ci_poller \<Rightarrow> string \<Rightarrow> ci_outcome \<Rightarrow> 'w \<Rightarrow> bool" where
  "advisory_outcome_of poll head out w' \<longleftrightarrow>
    out = ci_outcome.Passed \<and> (\<exists>w. poll w = (Inr PollPassing, w')) \<or> (\<exists>how. out = best_effort head how)"

lemma required_outcome:
  assumes "watch_required_until cl forge head deadline backoff poll w = Some (out, w')"
  shows "strict_outcome_of poll out w'"
proof -
  have "strict_outcome_of poll (fst y) (snd y)" if run: "watch_required_until cl forge head deadline backoff poll w = Some y" for y
    by (rule watch_required_until.raw_induct[where P = "\<lambda>cl forge head deadline backoff poll w y. strict_outcome_of poll (fst y) (snd y)", OF _ run])
      (auto simp: strict_outcome_of_def Let_def split: prod.splits sum.splits ci_poll.splits if_splits)
  from this[OF assms] show ?thesis by simp
qed
lemma best_effort_outcome:
  assumes "watch_best_effort_until cl head deadline backoff poll w = Some (out, w')"
  shows "advisory_outcome_of poll head out w'"
proof -
  have "advisory_outcome_of poll head (fst y) (snd y)" if run: "watch_best_effort_until cl head deadline backoff poll w = Some y" for y
    by (rule watch_best_effort_until.raw_induct[where P = "\<lambda>cl head deadline backoff poll w y. advisory_outcome_of poll head (fst y) (snd y)", OF _ run])
      (auto simp: advisory_outcome_of_def split: prod.splits sum.splits ci_poll.splits if_splits)
  from this[OF assms] show ?thesis by simp
qed
text \<open>
  What the watches rely on of the operating system: the monotonic clock does not go back, and sleeping
  takes at least the time it is asked for.
\<close>

definition clock_laws :: "('w, 'e) forge_client \<Rightarrow> ('w, 'e) ci_poller \<Rightarrow> ('w \<Rightarrow> nat) \<Rightarrow> bool" where
  "clock_laws cl poll clock \<longleftrightarrow>
    (\<forall>w. fst (fc_now cl w) = clock w \<and> clock w \<le> clock (snd (fc_now cl w)))
    \<and> (\<forall>d w. clock w + d \<le> clock (fc_sleep cl d w)) \<and> (\<forall>w. clock w \<le> clock (snd (poll w)))"

lemma next_poll_later:
  assumes "clock_laws cl poll clock" "fc_now cl v = (now, u)" "poll w = (y, v)" "now < deadline"
  shows "deadline - clock (sleep_until_next_poll cl deadline now backoff u) < deadline - clock w"
proof -
  have "clock w \<le> clock v" "now = clock v" "clock v \<le> clock u"
    using assms(1-3) unfolding clock_laws_def by (metis snd_conv, metis fst_conv, metis snd_conv)
  moreover have "clock u + 1000000 \<le> clock (sleep_until_next_poll cl deadline now backoff u)"
    using assms(1) unfolding clock_laws_def sleep_until_next_poll_def
    by (meson add_left_mono max.cobounded2 order_trans)
  ultimately show ?thesis using assms(4) by linarith
qed

lemma required_returns:
  assumes "clock_laws cl poll clock"
  shows "\<exists>y. watch_required_until cl forge head deadline backoff poll w = Some y"
proof (induction "deadline - clock w" arbitrary: w rule: less_induct)
  case less
  obtain y v where p: "poll w = (y, v)" by fastforce
  obtain now u where n: "fc_now cl v = (now, u)" by fastforce
  have again: "now < deadline \<Longrightarrow> \<exists>z. watch_required_until cl forge head deadline backoff poll
      (sleep_until_next_poll cl deadline now backoff u) = Some z"
    using less next_poll_later[OF assms n p] by blast
  show ?case
    by (subst watch_required_until.simps) (use again in \<open>auto simp: p n Let_def not_le split: sum.splits ci_poll.splits\<close>)
qed

lemma best_effort_returns:
  assumes "clock_laws cl poll clock"
  shows "\<exists>y. watch_best_effort_until cl head deadline backoff poll w = Some y"
proof (induction "deadline - clock w" arbitrary: w rule: less_induct)
  case less
  obtain y v where p: "poll w = (y, v)" by fastforce
  obtain now u where n: "fc_now cl v = (now, u)" by fastforce
  have again: "now < deadline \<Longrightarrow> \<exists>z. watch_best_effort_until cl head deadline backoff poll
      (sleep_until_next_poll cl deadline now backoff u) = Some z"
    using less next_poll_later[OF assms n p] by blast
  show ?case
    by (subst watch_best_effort_until.simps) (use again in \<open>auto simp: p n not_le split: sum.splits ci_poll.splits\<close>)
qed

text \<open>
  C26. Watching the CI always ends: on a clock that does not go back and sleeps that last, both watches
  return, whatever the polls answer. The strict one passes or fails only on a poll that did, and is
  otherwise unconfirmed; the advisory one passes only on a passing poll and never fails.
\<close>

theorem ci_watch_returns:
  assumes "clock_laws cl poll clock"
  shows "(\<exists>out w'. watch_required cl forge head deadline_after backoff poll w = Some (out, w') \<and> strict_outcome_of poll out w')
    \<and> (\<exists>out w'. watch_best_effort cl head deadline_after backoff poll w = Some (out, w') \<and> advisory_outcome_of poll head out w')"
proof -
  obtain now v where n: "fc_now cl w = (now, v)" by fastforce
  obtain a b where "watch_required_until cl forge head (now + deadline_after) backoff poll v = Some (a, b)"
    using required_returns[OF assms] by fastforce
  moreover obtain c d where "watch_best_effort_until cl head (now + deadline_after) backoff poll v = Some (c, d)"
    using best_effort_returns[OF assms] by fastforce
  ultimately show ?thesis
    using required_outcome best_effort_outcome by (auto simp: watch_required_def watch_best_effort_def n)
qed

text \<open>A client whose world is its clock and whose forge knows one green check run.\<close>

definition demo_head :: string where "demo_head = replicate 40 CHR ''a''"

definition demo_response :: github_response where
  "demo_response = \<lparr>gr_total_count = 2, gr_check_runs =
    [\<lparr>gh_id = 4, gh_name = ''lint'', gh_status = ''completed'', gh_conclusion = Some ''failure''\<rparr>,
     \<lparr>gh_id = 7, gh_name = ''lint'', gh_status = ''completed'', gh_conclusion = Some ''success''\<rparr>]\<rparr>"

definition demo_client :: "(nat, string) forge_client" where
  "demo_client =
    \<lparr>fc_github = (\<lambda>_ w. (Inr demo_response, w)), fc_gitlab = (\<lambda>_ w. (Inl ''down'', w)), fc_gitea = (\<lambda>_ w. (Inl ''down'', w)),
     fc_now = (\<lambda>w. (w, w)), fc_sleep = (\<lambda>d w. w + d)\<rparr>"

theorem ci_watch_returns_witness:
  "\<exists>out w'. watch_required demo_client GitLab demo_head 5 2 (forge_ci_poll id id GitLab demo_client demo_head [''lint'']) 0 = Some (out, w')"
proof -
  have "clock_laws demo_client (forge_ci_poll id id GitLab demo_client demo_head [''lint'']) id"
    by (simp add: clock_laws_def demo_client_def forge_ci_poll_def gitlab_ci_poll_def request_def)
  from ci_watch_returns[OF this] show ?thesis by blast
qed

section \<open>The port\<close>

lemma verified_green:
  assumes "verify_ci lc dbg cfg cl head required w = Some (ci_outcome.Passed, w')"
  shows "cg_ci_watch cfg \<and> is_full_commit_id head \<and> (\<exists>v. green_snapshot (cg_forge cfg) cl head required v w')"
proof -
  have watched: "cg_ci_watch cfg" using assms by (auto simp: verify_ci_def split: if_splits)
  have "\<exists>v. forge_ci_poll lc dbg (cg_forge cfg) cl head required v = (Inr PollPassing, w')"
  proof (cases "required = []")
    case True
    then show ?thesis
      using assms watched best_effort_outcome
      by (fastforce simp: verify_ci_def watch_best_effort_def advisory_outcome_of_def best_effort_def split: prod.splits)
  next
    case False
    then show ?thesis
      using assms watched required_outcome
      by (fastforce simp: verify_ci_def watch_required_def strict_outcome_of_def split: prod.splits)
  qed
  then show ?thesis using watched by (auto simp: poll_passing)
qed

text \<open>
  C25. A confirmed CI is a green CI of the published commit: when the port reports the CI as passed, after
  publication or again before archiving, then watching is on, the head is a full commit id, the current
  constraints could be read, and the last answer of the forge was complete, for that commit, and green in
  every check that the constraints require at that moment.
\<close>

theorem confirmed_ci_is_green:
  assumes "port_verify_ci lc dbg push source cfg cl head w = Some (Inr ci_outcome.Passed, w')
    \<or> port_reconfirm_ci lc dbg source cfg cl head required w = Some (Inr ci_outcome.Passed, w')"
  shows "cg_ci_watch cfg \<and> is_full_commit_id head \<and>
    (\<exists>p v. load_policy source = Inr p \<and> green_snapshot (cg_forge cfg) cl head (py_required_ci_checks p) v w')"
proof -
  obtain p where p: "load_policy source = Inr p"
    "verify_ci lc dbg cfg cl head (py_required_ci_checks p) w = Some (ci_outcome.Passed, w')"
    using assms by (auto simp: port_verify_ci_def port_reconfirm_ci_def split: if_splits sum.splits)
  then show ?thesis using verified_green[OF p(2)] by blast
qed

definition ci_heading :: string where "ci_heading = ''## '' @ publish_ci_heading"

definition demo_ci_text :: string where
  "demo_ci_text = ci_heading @ [CHR 0x0A] @ active_mark @ [CHR 0x0A] @ ''- lint''"

lemma demo_ci_policy:
  "load_policy (Inr (Some demo_ci_text)) = Inr (no_policy\<lparr>py_required_ci_checks := [''lint'']\<rparr>)"
proof -
  have lines: "text_lines demo_ci_text = [ci_heading, active_mark, ''- lint'']"
    by code_simp
  have 1: "policy_line NoSection False no_policy ci_heading = Inr (PublishCi, False, no_policy)" by code_simp
  have 2: "policy_line PublishCi False no_policy active_mark = Inr (PublishCi, True, no_policy)" by code_simp
  have 3: "policy_line PublishCi True no_policy ''- lint'' =
      Inr (PublishCi, True, no_policy\<lparr>py_required_ci_checks := [''lint'']\<rparr>)" by code_simp
  show ?thesis unfolding load_policy_def parse_policy_def by (simp only: lines sum.case option.case) (simp add: 1 2 3)
qed

theorem confirmed_ci_is_green_witness:
  "is_full_commit_id demo_head
   \<and> (\<exists>v. green_snapshot GitHub demo_client demo_head [''lint''] v 3)"
proof -
  let ?cfg = "\<lparr>cg_forge = GitHub, cg_ci_watch = True, cg_ci_deadline = 9, cg_ci_backoff = 1\<rparr>"
  have poll: "forge_ci_poll id id GitHub demo_client demo_head [''lint''] 3 = (Inr PollPassing, 3)" by code_simp
  have now: "fc_now demo_client 3 = (3, 3)" by (simp add: demo_client_def)
  have "port_verify_ci id id True (Inr (Some demo_ci_text))
      ?cfg demo_client demo_head 3 = Some (Inr ci_outcome.Passed, 3)"
    unfolding port_verify_ci_def demo_ci_policy
    by (simp add: verify_ci_def watch_required_def now watch_required_until.simps[where w = 3] poll)
  from confirmed_ci_is_green[OF disjI1[OF this]] show ?thesis
    using demo_ci_policy by (simp add: no_policy_def)
qed

end
