(* ===== verification/Config.thy ===== *)
theory Config
  imports ForgeCi Usage
begin

text \<open>
  The operator's configuration, \<open>src/engine/src/config.rs\<close>: the active fields of \<open>config.md\<close>, their typed
  decoding with the environment fallbacks, and the checks an accepted configuration has passed. \<open>json\<close> is
  the decoding of a JSON array of texts (\<open>serde_json\<close>), \<open>env\<close> the process environment.
\<close>

section \<open>Data\<close>

datatype verification_mode = VerificationDisabled | VerificationAuto | VerificationRequired

datatype codex_reasoning = ReasoningAuto | ReasoningLow | ReasoningMedium | ReasoningHigh | ReasoningXHigh

datatype sandbox = SandboxReadOnly | SandboxWorkspaceWrite

definition reasoning_as_str :: "codex_reasoning \<Rightarrow> string" where
  "reasoning_as_str r =
    (case r of ReasoningAuto \<Rightarrow> ''auto'' | ReasoningLow \<Rightarrow> ''low'' | ReasoningMedium \<Rightarrow> ''medium''
     | ReasoningHigh \<Rightarrow> ''high'' | ReasoningXHigh \<Rightarrow> ''xhigh'')"

definition reasoning_parse :: "string \<Rightarrow> codex_reasoning option" where
  "reasoning_parse v =
    (if v = ''auto'' then Some ReasoningAuto else if v = ''low'' then Some ReasoningLow
     else if v = ''medium'' then Some ReasoningMedium else if v = ''high'' then Some ReasoningHigh
     else if v = ''xhigh'' then Some ReasoningXHigh else None)"

record codex_config =
  cx_coder :: codex_coder
  cx_reviewer :: codex_reviewer
  cx_ci_fix :: bool
  cx_reasoning :: codex_reasoning
  cx_sandbox :: sandbox
  cx_network :: bool
  cx_model :: "string option"
  cx_command :: string

record engine_config =
  ec_processor :: processor_config
  ec_events_outbox :: bool
  ec_events_rotation_enabled :: bool
  ec_events_rotation_min_bytes :: nat
  ec_knowledge_base :: bool
  ec_knowledge_ttl_batches :: nat
  ec_knowledge_cap_per_area :: nat
  ec_push :: bool
  ec_ci_watch :: bool
  ec_forge :: forge
  ec_publish_linear_history :: bool
  ec_main_branch :: "string option"
  ec_verification_mode :: verification_mode
  ec_verification_mode_explicit :: bool
  ec_verification_commands :: "string list"
  ec_review_cycle_verification :: bool
  ec_review_cycle_verification_commands :: "string list"
  ec_smoke_cmd :: "string option"
  ec_notify_command :: "string list option"
  ec_call_deadline_secs :: nat
  ec_call_output_max_bytes :: nat
  ec_publish_ci_deadline_secs :: nat
  ec_publish_ci_backoff_secs :: nat
  ec_review_min_passes :: nat
  ec_quarantine_max_attempts :: nat
  ec_approval_deadline_secs :: nat
  ec_reviewer_tiering :: bool
  ec_codex :: codex_config
  ec_model_pricing :: pricing_table

definition default_engine_config :: engine_config where
  "default_engine_config =
    \<lparr>ec_processor = default_config, ec_events_outbox = True, ec_events_rotation_enabled = False,
     ec_events_rotation_min_bytes = 8388608, ec_knowledge_base = True, ec_knowledge_ttl_batches = 8,
     ec_knowledge_cap_per_area = 12, ec_push = True, ec_ci_watch = True, ec_forge = GitHub,
     ec_publish_linear_history = False, ec_main_branch = None, ec_verification_mode = VerificationDisabled,
     ec_verification_mode_explicit = False, ec_verification_commands = [], ec_review_cycle_verification = False,
     ec_review_cycle_verification_commands = [], ec_smoke_cmd = None, ec_notify_command = None,
     ec_call_deadline_secs = 1800, ec_call_output_max_bytes = 1048576, ec_publish_ci_deadline_secs = 1800,
     ec_publish_ci_backoff_secs = 30, ec_review_min_passes = 2, ec_quarantine_max_attempts = 3,
     ec_approval_deadline_secs = 86400, ec_reviewer_tiering = True,
     ec_codex = \<lparr>cx_coder = codex_coder.Off, cx_reviewer = codex_reviewer.Off, cx_ci_fix = False,
       cx_reasoning = ReasoningAuto, cx_sandbox = SandboxWorkspaceWrite, cx_network = True, cx_model = None,
       cx_command = ''codex''\<rparr>,
     ec_model_pricing = default_pricing\<rparr>"

text \<open>The messages of the errors, by their formats and arguments.\<close>

datatype config_error =
  ConfigIo string | ConfigInvalid string "string list" | ConfigCommand string argv_error | ConfigProcessor processor_error

definition mode_with_required_policy_commands :: "verification_mode \<Rightarrow> bool \<Rightarrow> bool \<Rightarrow> verification_mode" where
  "mode_with_required_policy_commands mode explicit has_required =
    (if has_required \<and> \<not> explicit \<and> mode = VerificationDisabled then VerificationAuto else mode)"

section \<open>Active fields\<close>

text \<open>The characters of a value before its comment: the open quote, an escape, white space before.\<close>

fun before_comment :: "quote option \<Rightarrow> bool \<Rightarrow> bool \<Rightarrow> string list \<Rightarrow> string list" where
  "before_comment q escaped prev_ws [] = []"
| "before_comment (Some DoubleQuote) escaped prev_ws (c # cs) =
    c # (if escaped then before_comment (Some DoubleQuote) False (c \<in> set ws_codes) cs
         else if c = bslash_char then before_comment (Some DoubleQuote) True (c \<in> set ws_codes) cs
         else if c = dquote_char then before_comment None False (c \<in> set ws_codes) cs
         else before_comment (Some DoubleQuote) False (c \<in> set ws_codes) cs)"
| "before_comment (Some SingleQuote) escaped prev_ws (c # cs) =
    c # before_comment (if c = squote_char then None else Some SingleQuote) escaped (c \<in> set ws_codes) cs"
| "before_comment None escaped prev_ws (c # cs) =
    (if c = ''#'' \<and> prev_ws then []
     else c # before_comment (if c = dquote_char then Some DoubleQuote else if c = squote_char then Some SingleQuote else None)
       escaped (c \<in> set ws_codes) cs)"

definition strip_inline_comment :: "string \<Rightarrow> string" where
  "strip_inline_comment value = concat (before_comment None False True (utf8_chars value))"

type_synonym config_fields = "(string \<times> string) list"

definition upper_key :: "string \<Rightarrow> bool" where
  "upper_key key \<longleftrightarrow> key \<noteq> []
    \<and> list_all (\<lambda>c. 65 \<le> (of_char c :: nat) \<and> (of_char c :: nat) \<le> 90 \<or> c = CHR ''_'') key"

definition active_field :: "string \<Rightarrow> (string \<times> string) option" where
  "active_field line =
    (if starts_with line ''#'' \<or> strip_any ws_codes line \<noteq> None then None
     else (case split_once (CHR '':'') line of
       None \<Rightarrow> None
     | Some (key, raw) \<Rightarrow> if upper_key key then Some (key, trim (strip_inline_comment raw)) else None))"

fun collect_fields :: "nat \<Rightarrow> string list \<Rightarrow> config_fields \<Rightarrow> config_error + config_fields" where
  "collect_fields n [] flds = Inr flds"
| "collect_fields n (line # rest) flds =
    (case active_field line of
       None \<Rightarrow> collect_fields (n + 1) rest flds
     | Some (key, value) \<Rightarrow>
         if map_of flds key \<noteq> None
         then Inl (ConfigInvalid ''duplicate active config key {key} (line {})'' [key, show_nat n])
         else collect_fields (n + 1) rest (bt_insert key value flds))"

definition active_fields :: "string \<Rightarrow> config_error + config_fields" where
  "active_fields text = collect_fields 1 (text_lines text) []"

section \<open>Values\<close>

definition configured_value :: "config_fields \<Rightarrow> string \<Rightarrow> string option" where
  "configured_value flds key = (case map_of flds key of Some v \<Rightarrow> if v = [] then None else Some v | None \<Rightarrow> None)"

text \<open>\<open>str::parse\<close> of an unsigned integer with this greatest value.\<close>

definition parse_unsigned :: "nat \<Rightarrow> string \<Rightarrow> nat option" where
  "parse_unsigned greatest s =
    (let ds = (case strip_prefix ''+'' s of Some r \<Rightarrow> r | None \<Rightarrow> s) in
     if ds \<noteq> [] \<and> list_all is_digit ds \<and> digits_val ds \<le> greatest then Some (digits_val ds) else None)"

definition optional_number :: "nat \<Rightarrow> config_fields \<Rightarrow> string \<Rightarrow> config_error + nat option" where
  "optional_number greatest flds key =
    (case map_of flds key of
       None \<Rightarrow> Inr None
     | Some v \<Rightarrow>
        (case parse_unsigned greatest v of
           None \<Rightarrow> Inl (ConfigInvalid ''{key} must be an unsigned integer; got {value:?}'' [key, v])
         | Some n \<Rightarrow> Inr (Some n)))"

definition optional_u64 :: "config_fields \<Rightarrow> string \<Rightarrow> config_error + nat option" where "optional_u64 = optional_number u64_max"
definition optional_u32 :: "config_fields \<Rightarrow> string \<Rightarrow> config_error + nat option" where "optional_u32 = optional_number u32_max"
definition optional_usize :: "config_fields \<Rightarrow> string \<Rightarrow> config_error + nat option" where "optional_usize = optional_number u64_max"

definition optional_positive_u64 :: "config_fields \<Rightarrow> string \<Rightarrow> config_error + nat option" where
  "optional_positive_u64 flds key =
    bind_res (optional_u64 flds key) (\<lambda>v.
    if v = Some 0 then Inl (ConfigInvalid ''{key} must be at least 1'' [key]) else Inr v)"

definition optional_choice :: "string \<Rightarrow> string list \<Rightarrow> string list \<Rightarrow> string \<Rightarrow> string option \<Rightarrow> config_error + bool option" where
  "optional_choice message yes no key v =
    (case v of
       None \<Rightarrow> Inr None
     | Some v \<Rightarrow>
         if v \<in> set yes then Inr (Some True) else if v \<in> set no then Inr (Some False)
         else Inl (ConfigInvalid message [key, v]))"

definition optional_bool :: "config_fields \<Rightarrow> string \<Rightarrow> config_error + bool option" where
  "optional_bool flds key =
    optional_choice ''{key} must be true/false or on/off; got {value:?}'' [''true'', ''on''] [''false'', ''off''] key (map_of flds key)"

definition optional_on_off :: "config_fields \<Rightarrow> string \<Rightarrow> config_error + bool option" where
  "optional_on_off flds key =
    optional_choice ''{key} must be on/off; got {value:?}'' [''on''] [''off''] key (configured_value flds key)"

definition optional_true_false :: "config_fields \<Rightarrow> string \<Rightarrow> config_error + bool option" where
  "optional_true_false flds key =
    optional_choice ''{key} must be true/false; got {value:?}'' [''true''] [''false''] key (configured_value flds key)"

definition positive :: "nat option \<Rightarrow> nat option" where
  "positive v = (case v of Some n \<Rightarrow> if n > 0 then Some n else None | None \<Rightarrow> None)"

definition parse_verification_commands ::
    "(string \<Rightarrow> string + string list) \<Rightarrow> string \<Rightarrow> string \<Rightarrow> config_error + string list" where
  "parse_verification_commands json key value =
    (case json value of
       Inl err \<Rightarrow> Inl (ConfigInvalid ''{key} must be a JSON array of command strings: {error}'' [key, err])
     | Inr commands \<Rightarrow>
         if commands = [] then Inl (ConfigInvalid ''{key} must contain at least one non-empty command'' [key])
         else if list_ex (\<lambda>c. trim c = [] \<or> CHR 0x00 \<in> set c) commands
         then Inl (ConfigInvalid ''{key} entries must be non-empty and contain no NUL byte'' [key])
         else Inr commands)"

fun check_commands :: "string \<Rightarrow> string list \<Rightarrow> config_error + unit" where
  "check_commands what [] = Inr ()"
| "check_commands what (c # cs) =
    (case parse_typed_argv c of Inl err \<Rightarrow> Inl (ConfigCommand what err) | Inr _ \<Rightarrow> check_commands what cs)"

definition validate_typed_verification_profile :: "string list \<Rightarrow> string option \<Rightarrow> config_error + unit" where
  "validate_typed_verification_profile commands smoke =
    bind_res (check_commands ''VERIFICATION_COMMANDS entries'' commands) (\<lambda>_.
    (case (commands, smoke) of ([], Some s) \<Rightarrow> check_commands ''SMOKE_CMD'' [s] | _ \<Rightarrow> Inr ()))"

definition resolve_codex_coder :: "(string \<Rightarrow> string option) \<Rightarrow> config_fields \<Rightarrow> config_error + codex_coder" where
  "resolve_codex_coder env flds =
    (case configured_value flds ''CODEX_CODER'' of
       Some v \<Rightarrow>
        (case codex_coder_parse v of
           Some c \<Rightarrow> Inr c
         | None \<Rightarrow> Inl (ConfigInvalid ''CODEX_CODER must be off, fast, or fast+std; got {value:?}'' [v]))
     | None \<Rightarrow> Inr (or_default codex_coder.Off (Option.bind (env ''CODEX_CODER'') codex_coder_parse)))"

definition resolve_codex_reviewer :: "(string \<Rightarrow> string option) \<Rightarrow> config_fields \<Rightarrow> config_error + codex_reviewer" where
  "resolve_codex_reviewer env flds =
    (case configured_value flds ''CODEX_REVIEWER'' of
       Some v \<Rightarrow>
        (case codex_reviewer_parse v of
           Some c \<Rightarrow> Inr c
         | None \<Rightarrow> Inl (ConfigInvalid ''CODEX_REVIEWER must be off, fast, fast+std, or deep; got {value:?}'' [v]))
     | None \<Rightarrow> Inr (or_default codex_reviewer.Off (Option.bind (env ''CODEX_REVIEWER'') codex_reviewer_parse)))"

definition resolve_knowledge_base :: "(string \<Rightarrow> string option) \<Rightarrow> config_fields \<Rightarrow> config_error + bool" where
  "resolve_knowledge_base env flds =
    (case configured_value flds ''KB'' of
       Some v \<Rightarrow>
         if v = ''on'' then Inr True else if v = ''off'' then Inr False
         else Inl (ConfigInvalid ''KB must be on/off; got {value:?}'' [v])
     | None \<Rightarrow>
         Inr (or_default True (Option.bind (env ''KB'')
           (\<lambda>v. if v = ''on'' then Some True else if v = ''off'' then Some False else None))))"

section \<open>Prices\<close>

definition valid_pricing_model :: "string \<Rightarrow> bool" where
  "valid_pricing_model model \<longleftrightarrow> model \<noteq> [] \<and> length model \<le> 160
    \<and> list_all (\<lambda>c. ascii_alnum c \<or> c \<in> {CHR ''.'', CHR ''_'', CHR ''-'', CHR '':''}) model"

definition valid_pricing_date :: "string \<Rightarrow> bool" where
  "valid_pricing_date v \<longleftrightarrow> length v = 10 \<and> v ! 4 = CHR ''-'' \<and> v ! 7 = CHR ''-''
    \<and> list_all (\<lambda>(i, c). i = 4 \<or> i = 7 \<or> is_digit c) (List.enumerate 0 v)"

text \<open>A rate in millionths of a dollar.\<close>

definition parse_usd_per_million :: "string \<Rightarrow> config_error + nat" where
  "parse_usd_per_million value =
    (if value = [] \<or> hd value = CHR ''-'' \<or> hd value = CHR ''+''
     then Inl (ConfigInvalid ''{key} rates must be non-negative decimal USD values; got {value:?}'' [value])
     else
      (let (whole, fraction) = (case split_once (CHR ''.'') value of Some p \<Rightarrow> p | None \<Rightarrow> (value, [])) in
       if whole = [] \<or> \<not> list_all is_digit whole \<or> \<not> list_all is_digit fraction \<or> length fraction > 6
       then Inl (ConfigInvalid ''{key} rates must have at most 6 decimal places; got {value:?}'' [value])
       else if digits_val whole > u64_max then Inl (ConfigInvalid ''{key} rate is too large: {value:?}'' [value])
       else
        (let micro = digits_val whole * 1000000 + digits_val fraction * 10 ^ (6 - length fraction) in
         if micro > u64_max then Inl (ConfigInvalid ''{key} rate is too large: {value:?}'' [value]) else Inr micro)))"

definition pricing_entry :: "string \<Rightarrow> string \<Rightarrow> string set \<Rightarrow> config_error + model_pricing" where
  "pricing_entry date raw seen =
    (let entry = trim raw in
     if entry = [] then Inl (ConfigInvalid ''{PRICES_KEY} contains an empty entry'' [])
     else (case split_once (CHR ''='') entry of
       None \<Rightarrow> Inl (ConfigInvalid ''{PRICES_KEY} entries must be model=input,output[,cached[,cache-creation]]; got {entry:?}'' [entry])
     | Some (m, raw_rates) \<Rightarrow>
        (let model = trim m; rates = map trim (split_chars {CHR '',''} raw_rates) in
         if \<not> valid_pricing_model model then Inl (ConfigInvalid ''{PRICES_KEY} contains invalid model name {model:?}'' [model])
         else if model \<in> seen then Inl (ConfigInvalid ''{PRICES_KEY} contains duplicate model {model:?}'' [model])
         else if length rates < 2 \<or> length rates > 4 then Inl (ConfigInvalid ''{PRICES_KEY} entry {model:?} needs 2 to 4 rates'' [model])
         else
           bind_res (parse_usd_per_million (rates ! 0)) (\<lambda>input.
           bind_res (parse_usd_per_million (rates ! 1)) (\<lambda>output.
           bind_res (if length rates > 2 then parse_usd_per_million (rates ! 2) else Inr input) (\<lambda>cached.
           bind_res (if length rates > 3 then parse_usd_per_million (rates ! 3) else Inr input) (\<lambda>creation.
           Inr \<lparr>mp_model = model, mp_input = input, mp_cached_input = cached, mp_cache_creation_input = creation,
                mp_output = output, mp_effective_date = date\<rparr>)))))))"

fun pricing_entries :: "string \<Rightarrow> string list \<Rightarrow> string set \<Rightarrow> pricing_table \<Rightarrow> config_error + pricing_table" where
  "pricing_entries date [] seen table = Inr table"
| "pricing_entries date (raw # rest) seen table =
    bind_res (pricing_entry date raw seen) (\<lambda>p.
    pricing_entries date rest (insert (mp_model p) seen) (pricing_insert p table))"

definition apply_model_pricing_overrides :: "config_fields \<Rightarrow> pricing_table \<Rightarrow> config_error + pricing_table" where
  "apply_model_pricing_overrides flds table =
    (let date = or_default ''2026-07-30'' (configured_value flds ''MODEL_PRICES_EFFECTIVE_DATE'') in
     if \<not> valid_pricing_date date
     then Inl (ConfigInvalid ''MODEL_PRICES_EFFECTIVE_DATE must be YYYY-MM-DD; got {effective_date:?}'' [date])
     else (case configured_value flds ''MODEL_PRICES_USD_PER_MILLION'' of
       None \<Rightarrow> Inr table
     | Some v \<Rightarrow> pricing_entries date (split_chars {CHR '';''} v) {} table))"

section \<open>The parser\<close>

text \<open>
  \<open>parse_with_environment\<close> in the order of its statements, cut into stages that each bind a group of keys. The
  numbers are read below \<open>2^64\<close>, so the conversions of \<open>MAX_PARALLEL\<close> and \<open>KB_CAP\<close> to \<open>usize\<close> succeed.
\<close>

definition parse_processor :: "config_fields \<Rightarrow> processor_config \<Rightarrow> config_error + processor_config" where
  "parse_processor flds p =
    bind_res (optional_u64 flds ''MAX_PARALLEL'') (\<lambda>v.
    let max_parallel = or_default (cf_max_parallel p) v in
    bind_res (optional_u64 flds ''COHORT_SIZE'') (\<lambda>v.
    let cohort_size = or_default (min u64_max (max_parallel * 3)) v in
    bind_res (if cohort_size > u32_max then Inl (ConfigInvalid ''COHORT_SIZE is too large'' []) else Inr ()) (\<lambda>_.
    bind_res (optional_u64 flds ''COHORT_MAX_AGE'') (\<lambda>age.
    bind_res (optional_u32 flds ''REVIEW_LOOP_MAX'') (\<lambda>review.
    bind_res (optional_u32 flds ''INTEGRATION_LOOP_MAX'') (\<lambda>integration.
    bind_res (optional_u32 flds ''CI_FIX_MAX'') (\<lambda>ci.
    bind_res (optional_u32 flds ''STAGNATION_LIMIT'') (\<lambda>stagnation.
    bind_res (optional_u32 flds ''CALL_MAX_ATTEMPTS'') (\<lambda>attempts.
    bind_res (optional_u64 flds ''COHORT_BUDGET_SEC'') (\<lambda>secs.
    bind_res (optional_u64 flds ''COHORT_TOKEN_BUDGET'') (\<lambda>tokens.
    bind_res (optional_true_false flds ''COHORT_TOKEN_BUDGET_STRICT'') (\<lambda>strict.
    Inr (p\<lparr>cf_max_parallel := max_parallel, cf_cohort_size := cohort_size,
      cf_cohort_max_age_minutes := or_default (cf_cohort_max_age_minutes p) age,
      cf_review_loop_max := or_default (cf_review_loop_max p) review,
      cf_integration_loop_max := or_default (cf_integration_loop_max p) integration,
      cf_ci_fix_max := or_default (cf_ci_fix_max p) ci,
      cf_stagnation_limit := or_default (cf_stagnation_limit p) stagnation,
      cf_leaf_max_attempts := or_default (cf_leaf_max_attempts p) attempts,
      cf_cohort_budget_secs := positive secs, cf_cohort_token_budget := positive tokens,
      cf_cohort_token_budget_strict := or_default (cf_cohort_token_budget_strict p) strict\<rparr>)))))))))))))"

definition parse_events_knowledge :: "(string \<Rightarrow> string option) \<Rightarrow> config_fields \<Rightarrow> engine_config \<Rightarrow> config_error + engine_config" where
  "parse_events_knowledge env flds c =
    bind_res (optional_bool flds ''EVENTS_OUTBOX'') (\<lambda>outbox.
    bind_res (optional_bool flds ''EVENTS_ROTATION_ENABLED'') (\<lambda>rotation.
    bind_res (optional_positive_u64 flds ''EVENTS_ROTATION_MIN_BYTES'') (\<lambda>bytes.
    bind_res (resolve_knowledge_base env flds) (\<lambda>kb.
    bind_res (optional_positive_u64 flds ''KB_TTL'') (\<lambda>ttl.
    bind_res (optional_positive_u64 flds ''KB_CAP'') (\<lambda>cap.
    let enabled = or_default (ec_events_outbox c) outbox in
    Inr (c\<lparr>ec_events_outbox := enabled,
      ec_events_rotation_enabled := or_default (ec_events_rotation_enabled c) rotation,
      ec_events_rotation_min_bytes := or_default (ec_events_rotation_min_bytes c) bytes,
      ec_processor := (ec_processor c)\<lparr>cf_events_outbox_enabled := enabled\<rparr>,
      ec_knowledge_base := kb, ec_knowledge_ttl_batches := or_default (ec_knowledge_ttl_batches c) ttl,
      ec_knowledge_cap_per_area := or_default (ec_knowledge_cap_per_area c) cap\<rparr>)))))))"

definition parse_forge_key :: "config_fields \<Rightarrow> forge \<Rightarrow> config_error + forge" where
  "parse_forge_key flds d =
    (case configured_value flds ''FORGE'' of
       None \<Rightarrow> Inr d
     | Some v \<Rightarrow> ok_or (ConfigInvalid ''FORGE must be one of {}; got {value:?}'' (supported_forge_values @ [v])) (forge_parse v))"

definition parse_publication :: "config_fields \<Rightarrow> engine_config \<Rightarrow> config_error + engine_config" where
  "parse_publication flds c =
    bind_res (optional_bool flds ''PUSH'') (\<lambda>push.
    bind_res (optional_bool flds ''CI_WATCH'') (\<lambda>watch.
    bind_res (parse_forge_key flds (ec_forge c)) (\<lambda>forge.
    bind_res (optional_bool flds ''PUBLISH_LINEAR_HISTORY'') (\<lambda>linear.
    bind_res (optional_u64 flds ''CALL_DEADLINE_SEC'') (\<lambda>call_deadline.
    bind_res (optional_usize flds ''CALL_OUTPUT_MAX_BYTES'') (\<lambda>output_max.
    bind_res (optional_u64 flds ''PUBLISH_CI_DEADLINE_SEC'') (\<lambda>ci_deadline.
    bind_res (optional_u64 flds ''PUBLISH_CI_BACKOFF_SEC'') (\<lambda>ci_backoff.
    bind_res (optional_u32 flds ''REVIEW_MIN_PASSES'') (\<lambda>passes.
    bind_res (optional_u32 flds ''QUARANTINE_MAX_ATTEMPTS'') (\<lambda>quarantine.
    bind_res (optional_u64 flds ''APPROVAL_DEADLINE_SEC'') (\<lambda>approval.
    bind_res (optional_bool flds ''REVIEWER_TIERING'') (\<lambda>tiering.
    Inr (c\<lparr>ec_push := or_default (ec_push c) push, ec_ci_watch := or_default (ec_ci_watch c) watch, ec_forge := forge,
      ec_publish_linear_history := or_default (ec_publish_linear_history c) linear,
      ec_call_deadline_secs := or_default (ec_call_deadline_secs c) call_deadline,
      ec_call_output_max_bytes := or_default (ec_call_output_max_bytes c) output_max,
      ec_publish_ci_deadline_secs := or_default (ec_publish_ci_deadline_secs c) ci_deadline,
      ec_publish_ci_backoff_secs := or_default (ec_publish_ci_backoff_secs c) ci_backoff,
      ec_review_min_passes := or_default (ec_review_min_passes c) passes,
      ec_quarantine_max_attempts := or_default (ec_quarantine_max_attempts c) quarantine,
      ec_approval_deadline_secs := or_default (ec_approval_deadline_secs c) approval,
      ec_reviewer_tiering := or_default (ec_reviewer_tiering c) tiering,
      ec_main_branch := configured_value flds ''MAIN_BRANCH''\<rparr>)))))))))))))"

definition command_list :: "(string \<Rightarrow> string + string list) \<Rightarrow> config_fields \<Rightarrow> string \<Rightarrow> config_error + string list" where
  "command_list json flds key =
    (case map_of flds key of None \<Rightarrow> Inr [] | Some v \<Rightarrow> parse_verification_commands json key v)"

definition parse_notify :: "config_fields \<Rightarrow> config_error + string list option" where
  "parse_notify flds =
    (case configured_value flds ''NOTIFY_CMD'' of
       None \<Rightarrow> Inr None
     | Some v \<Rightarrow> (case parse_typed_argv v of Inl err \<Rightarrow> Inl (ConfigCommand ''NOTIFY_CMD'' err) | Inr argv \<Rightarrow> Inr (Some argv)))"

text \<open>A mode that is not written is \<open>auto\<close> when the operator gave something to run.\<close>

definition resolve_verification_mode :: "string option \<Rightarrow> string list \<Rightarrow> string option \<Rightarrow> config_error + verification_mode" where
  "resolve_verification_mode mode commands smoke =
    (case mode of
       None \<Rightarrow> Inr (if commands \<noteq> [] \<or> smoke \<noteq> None then VerificationAuto else VerificationDisabled)
     | Some v \<Rightarrow>
         if v = ''disabled'' then Inr VerificationDisabled else if v = ''auto'' then Inr VerificationAuto
         else if v = ''required'' then Inr VerificationRequired
         else Inl (ConfigInvalid ''VERIFICATION_MODE must be auto, required, or disabled; got {value:?}'' [v]))"

definition parse_verification ::
    "(string \<Rightarrow> string + string list) \<Rightarrow> config_fields \<Rightarrow> engine_config \<Rightarrow> config_error + engine_config" where
  "parse_verification json flds c =
    (let written = map_of flds ''VERIFICATION_MODE'' in
     bind_res (command_list json flds ''VERIFICATION_COMMANDS'') (\<lambda>commands.
     bind_res (optional_bool flds ''REVIEW_CYCLE_VERIFICATION'') (\<lambda>cycle.
     bind_res (command_list json flds ''REVIEW_CYCLE_VERIFICATION_COMMANDS'') (\<lambda>cycle_commands.
     let smoke = (case map_option trim (configured_value flds ''SMOKE_CMD'') of
                    Some s \<Rightarrow> if s = [] then None else Some s | None \<Rightarrow> None) in
     bind_res (parse_notify flds) (\<lambda>notify.
     bind_res (resolve_verification_mode written commands smoke) (\<lambda>mode.
     bind_res (if mode \<noteq> VerificationDisabled then validate_typed_verification_profile commands smoke else Inr ()) (\<lambda>_.
     bind_res (check_commands ''REVIEW_CYCLE_VERIFICATION_COMMANDS entries'' cycle_commands) (\<lambda>_.
     let enabled = or_default (ec_review_cycle_verification c) cycle in
     bind_res
       (if enabled
        then if cycle_commands = [] \<and> commands = [] \<and> smoke = None
             then Inl (ConfigInvalid ''REVIEW_CYCLE_VERIFICATION requires REVIEW_CYCLE_VERIFICATION_COMMANDS, VERIFICATION_COMMANDS, or SMOKE_CMD'' [])
             else validate_typed_verification_profile commands smoke
        else Inr ()) (\<lambda>_.
     Inr (c\<lparr>ec_verification_mode := mode, ec_verification_mode_explicit := written \<noteq> None,
       ec_verification_commands := commands, ec_review_cycle_verification := enabled,
       ec_review_cycle_verification_commands := cycle_commands, ec_smoke_cmd := smoke,
       ec_notify_command := notify\<rparr>))))))))))"

definition parse_sandbox :: "config_fields \<Rightarrow> sandbox \<Rightarrow> config_error + sandbox" where
  "parse_sandbox flds d =
    (case configured_value flds ''CODEX_SANDBOX'' of
       None \<Rightarrow> Inr d
     | Some v \<Rightarrow>
         if v = ''read-only'' then Inr SandboxReadOnly else if v = ''workspace-write'' then Inr SandboxWorkspaceWrite
         else Inl (ConfigInvalid ''CODEX_SANDBOX must be read-only or workspace-write; got {value:?}'' [v]))"

definition parse_reasoning :: "config_fields \<Rightarrow> codex_reasoning \<Rightarrow> config_error + codex_reasoning" where
  "parse_reasoning flds d =
    (case configured_value flds ''CODEX_REASONING'' of
       None \<Rightarrow> Inr d
     | Some v \<Rightarrow> ok_or (ConfigInvalid ''CODEX_REASONING must be auto, low, medium, high, or xhigh; got {value:?}'' [v]) (reasoning_parse v))"

definition parse_codex_command :: "config_fields \<Rightarrow> string \<Rightarrow> config_error + string" where
  "parse_codex_command flds d =
    (case configured_value flds ''CODEX_CMD'' of
       None \<Rightarrow> Inr d
     | Some v \<Rightarrow> (case validate_direct_program v of Inl err \<Rightarrow> Inl (ConfigCommand ''CODEX_CMD'' err) | Inr _ \<Rightarrow> Inr v))"

definition parse_codex :: "(string \<Rightarrow> string option) \<Rightarrow> config_fields \<Rightarrow> codex_config \<Rightarrow> config_error + codex_config" where
  "parse_codex env flds x =
    bind_res (resolve_codex_coder env flds) (\<lambda>coder.
    bind_res (resolve_codex_reviewer env flds) (\<lambda>reviewer.
    bind_res (optional_on_off flds ''CODEX_CIFIX'') (\<lambda>ci_fix.
    bind_res (parse_reasoning flds (cx_reasoning x)) (\<lambda>reasoning.
    bind_res (parse_sandbox flds (cx_sandbox x)) (\<lambda>sandbox.
    bind_res (optional_on_off flds ''CODEX_NETWORK'') (\<lambda>network.
    bind_res (parse_codex_command flds (cx_command x)) (\<lambda>command.
    Inr \<lparr>cx_coder = coder, cx_reviewer = reviewer, cx_ci_fix = or_default (cx_ci_fix x) ci_fix,
      cx_reasoning = reasoning, cx_sandbox = sandbox, cx_network = or_default (cx_network x) network,
      cx_model = configured_value flds ''CODEX_MODEL'', cx_command = command\<rparr>)))))))"

definition branch_refused :: "string option \<Rightarrow> bool" where
  "branch_refused b =
    (case b of None \<Rightarrow> False | Some b \<Rightarrow> starts_with b ''-'' \<or> list_ex (\<lambda>c. c \<in> {CHR 0x00, CHR 0x0A, CHR 0x0D}) b)"

text \<open>The checks at the end of the parser.\<close>

definition validate_engine_config :: "engine_config \<Rightarrow> config_error + unit" where
  "validate_engine_config c =
    (case validate_config (ec_processor c) of
       Inl err \<Rightarrow> Inl (ConfigProcessor err)
     | Inr _ \<Rightarrow>
         if ec_call_deadline_secs c = 0 then Inl (ConfigInvalid ''CALL_DEADLINE_SEC must be at least 1'' [])
         else if ec_call_output_max_bytes c = 0 then Inl (ConfigInvalid ''CALL_OUTPUT_MAX_BYTES must be at least 1'' [])
         else if ec_publish_ci_deadline_secs c = 0 \<or> ec_publish_ci_backoff_secs c = 0
         then Inl (ConfigInvalid ''PUBLISH_CI_DEADLINE_SEC and PUBLISH_CI_BACKOFF_SEC must be at least 1'' [])
         else if ec_review_min_passes c = 0 \<or> ec_quarantine_max_attempts c = 0 \<or> ec_approval_deadline_secs c = 0
         then Inl (ConfigInvalid ''REVIEW_MIN_PASSES, QUARANTINE_MAX_ATTEMPTS, and APPROVAL_DEADLINE_SEC must be at least 1'' [])
         else if branch_refused (ec_main_branch c)
         then Inl (ConfigInvalid ''invalid MAIN_BRANCH {branch:?}'' (case ec_main_branch c of Some b \<Rightarrow> [b] | None \<Rightarrow> []))
         else Inr ())"

definition parse_with_environment ::
    "(string \<Rightarrow> string + string list) \<Rightarrow> (string \<Rightarrow> string option) \<Rightarrow> string \<Rightarrow> config_error + engine_config" where
  "parse_with_environment json env text =
    bind_res (active_fields text) (\<lambda>flds.
    let c0 = default_engine_config in
    bind_res (parse_processor flds (ec_processor c0)) (\<lambda>p.
    bind_res (parse_events_knowledge env flds (c0\<lparr>ec_processor := p\<rparr>)) (\<lambda>c1.
    bind_res (parse_publication flds c1) (\<lambda>c2.
    bind_res (parse_verification json flds c2) (\<lambda>c3.
    bind_res (parse_codex env flds (ec_codex c3)) (\<lambda>codex.
    bind_res (apply_model_pricing_overrides flds (ec_model_pricing c3)) (\<lambda>prices.
    let c = c3\<lparr>ec_codex := codex, ec_model_pricing := prices\<rparr> in
    bind_res (validate_engine_config c) (\<lambda>_. Inr c))))))))"

definition parse_config_text :: "(string \<Rightarrow> string + string list) \<Rightarrow> string \<Rightarrow> config_error + engine_config" where
  "parse_config_text json text = parse_with_environment json (\<lambda>_. None) text"

text \<open>
  \<open>load\<close> reads the file. \<open>work\<close> is the look at the state directory (absent, there, or failing), \<open>read\<close> the
  guarded read of \<open>config.md\<close> in it.
\<close>

definition load_with_environment ::
    "(string \<Rightarrow> string + string list) \<Rightarrow> string + bool \<Rightarrow> string + string option \<Rightarrow> (string \<Rightarrow> string option)
      \<Rightarrow> config_error + engine_config" where
  "load_with_environment json work read env =
    (case work of
       Inl err \<Rightarrow> Inl (ConfigIo err)
     | Inr found \<Rightarrow>
         if \<not> found then parse_with_environment json env []
         else (case read of
             Inl err \<Rightarrow> Inl (ConfigIo err)
           | Inr (Some text) \<Rightarrow> parse_with_environment json env text
           | Inr None \<Rightarrow> parse_with_environment json env []))"

end
