(* ===== verification/ConfigProps.thy ===== *)
theory ConfigProps
  imports Config "HOL-Library.Multiset"
begin

text \<open>
  What an accepted configuration guarantees, and that the order of its lines does not matter.
\<close>

section \<open>Accepted values\<close>

definition argv_command :: "string \<Rightarrow> bool" where
  "argv_command c \<longleftrightarrow> (case parse_typed_argv c of Inl _ \<Rightarrow> False | Inr _ \<Rightarrow> True)"

lemma check_commands_Inr: "check_commands what cs = Inr u \<longleftrightarrow> list_all argv_command cs"
  by (induction cs) (auto simp: argv_command_def split: sum.splits)

lemma profile_Inr:
  "validate_typed_verification_profile commands smoke = Inr u \<longleftrightarrow>
    list_all argv_command commands \<and> (commands = [] \<longrightarrow> (\<forall>s. smoke = Some s \<longrightarrow> argv_command s))"
proof (cases commands)
  case Nil
  then show ?thesis
    using check_commands_Inr[of "''SMOKE_CMD''" "[the smoke]" u]
    by (cases smoke) (auto simp: validate_typed_verification_profile_def simp del: check_commands.simps(2))
next
  case (Cons c cs)
  then show ?thesis
    by (cases smoke) (auto simp: validate_typed_verification_profile_def check_commands_Inr simp del: check_commands.simps)
qed

lemma positive_not_zero: "positive v \<noteq> Some 0"
  by (auto simp: positive_def split: option.splits)

lemma optional_positive_u64_Inr: "optional_positive_u64 flds key = Inr v \<Longrightarrow> v \<noteq> Some 0"
  by (auto simp: optional_positive_u64_def split: if_splits)

lemma or_default_pos: "0 < (d :: nat) \<Longrightarrow> v \<noteq> Some 0 \<Longrightarrow> 0 < or_default d v"
  by (cases v) (simp_all add: or_default_def)

lemma parse_processor_budgets:
  "parse_processor flds p = Inr q \<Longrightarrow> cf_cohort_budget_secs q \<noteq> Some 0 \<and> cf_cohort_token_budget q \<noteq> Some 0"
  by (auto simp: parse_processor_def Let_def positive_not_zero)

lemma parse_events_knowledge_Inr:
  assumes "parse_events_knowledge env flds c = Inr d"
    and "0 < ec_events_rotation_min_bytes c" "0 < ec_knowledge_ttl_batches c" "0 < ec_knowledge_cap_per_area c"
  shows "0 < ec_events_rotation_min_bytes d \<and> 0 < ec_knowledge_ttl_batches d \<and> 0 < ec_knowledge_cap_per_area d
    \<and> ec_processor d = (ec_processor c)\<lparr>cf_events_outbox_enabled := ec_events_outbox d\<rparr> \<and> ec_codex d = ec_codex c"
  using assms
  by (auto simp: parse_events_knowledge_def Let_def intro!: or_default_pos dest!: optional_positive_u64_Inr)

lemma parse_publication_keeps:
  "parse_publication flds c = Inr d \<Longrightarrow>
    ec_processor d = ec_processor c \<and> ec_events_outbox d = ec_events_outbox c \<and> ec_codex d = ec_codex c
    \<and> ec_events_rotation_min_bytes d = ec_events_rotation_min_bytes c
    \<and> ec_knowledge_ttl_batches d = ec_knowledge_ttl_batches c
    \<and> ec_knowledge_cap_per_area d = ec_knowledge_cap_per_area c"
  by (auto simp: parse_publication_def)

lemma parse_verification_keeps:
  "parse_verification json flds c = Inr d \<Longrightarrow>
    ec_processor d = ec_processor c \<and> ec_events_outbox d = ec_events_outbox c \<and> ec_codex d = ec_codex c
    \<and> ec_events_rotation_min_bytes d = ec_events_rotation_min_bytes c
    \<and> ec_knowledge_ttl_batches d = ec_knowledge_ttl_batches c
    \<and> ec_knowledge_cap_per_area d = ec_knowledge_cap_per_area c"
  by (auto simp: parse_verification_def Let_def)

definition verification_sound :: "engine_config \<Rightarrow> bool" where
  "verification_sound c \<longleftrightarrow>
    (ec_verification_mode c \<noteq> VerificationDisabled \<or> ec_review_cycle_verification c \<longrightarrow>
       list_all argv_command (ec_verification_commands c)
       \<and> (ec_verification_commands c = [] \<longrightarrow> (\<forall>s. ec_smoke_cmd c = Some s \<longrightarrow> argv_command s)))
    \<and> list_all argv_command (ec_review_cycle_verification_commands c)
    \<and> (ec_review_cycle_verification c \<longrightarrow>
       ec_review_cycle_verification_commands c \<noteq> [] \<or> ec_verification_commands c \<noteq> [] \<or> ec_smoke_cmd c \<noteq> None)
    \<and> (ec_verification_mode c = VerificationDisabled \<and> \<not> ec_verification_mode_explicit c \<longrightarrow>
       ec_verification_commands c = [] \<and> ec_smoke_cmd c = None)"

lemma resolve_verification_mode_implicit:
  "resolve_verification_mode None commands smoke = Inr VerificationDisabled \<Longrightarrow> commands = [] \<and> smoke = None"
  by (auto simp: resolve_verification_mode_def split: if_splits)

lemma parse_verification_Inr:
  assumes "parse_verification json flds c = Inr d"
  shows "resolve_verification_mode (if ec_verification_mode_explicit d then map_of flds ''VERIFICATION_MODE'' else None)
      (ec_verification_commands d) (ec_smoke_cmd d) = Inr (ec_verification_mode d)"
    and "ec_verification_mode d \<noteq> VerificationDisabled \<or> ec_review_cycle_verification d \<Longrightarrow>
      validate_typed_verification_profile (ec_verification_commands d) (ec_smoke_cmd d) = Inr ()"
    and "check_commands ''REVIEW_CYCLE_VERIFICATION_COMMANDS entries'' (ec_review_cycle_verification_commands d) = Inr ()"
    and "ec_review_cycle_verification d \<Longrightarrow>
      ec_review_cycle_verification_commands d \<noteq> [] \<or> ec_verification_commands d \<noteq> [] \<or> ec_smoke_cmd d \<noteq> None"
proof -
  note bits = assms[unfolded parse_verification_def Let_def bind_res_Inr]
  show "resolve_verification_mode (if ec_verification_mode_explicit d then map_of flds ''VERIFICATION_MODE'' else None)
      (ec_verification_commands d) (ec_smoke_cmd d) = Inr (ec_verification_mode d)"
    using bits by (elim exE conjE) (cases "map_of flds ''VERIFICATION_MODE''"; clarsimp simp del: bind_res_Inr)
  show "validate_typed_verification_profile (ec_verification_commands d) (ec_smoke_cmd d) = Inr ()"
    if "ec_verification_mode d \<noteq> VerificationDisabled \<or> ec_review_cycle_verification d"
    using bits that by (elim exE conjE) (clarsimp split: if_split_asm)
  show "check_commands ''REVIEW_CYCLE_VERIFICATION_COMMANDS entries'' (ec_review_cycle_verification_commands d) = Inr ()"
    using bits by (elim exE conjE) clarsimp
  show "ec_review_cycle_verification_commands d \<noteq> [] \<or> ec_verification_commands d \<noteq> [] \<or> ec_smoke_cmd d \<noteq> None"
    if "ec_review_cycle_verification d"
    using bits that by (elim exE conjE) (clarsimp split: if_split_asm)
qed

lemma parse_verification_sound:
  assumes "parse_verification json flds c = Inr d"
  shows "verification_sound d"
  using parse_verification_Inr[OF assms] resolve_verification_mode_implicit[of "ec_verification_commands d" "ec_smoke_cmd d"]
  unfolding verification_sound_def by (auto simp: profile_Inr check_commands_Inr)

lemma verification_sound_codex:
  "verification_sound (c\<lparr>ec_codex := x, ec_model_pricing := t\<rparr>) = verification_sound c"
  by (simp add: verification_sound_def)

lemma parse_codex_command_Inr:
  "parse_codex_command flds d = Inr v \<Longrightarrow> validate_direct_program d = Inr () \<Longrightarrow> validate_direct_program v = Inr ()"
  by (auto simp: parse_codex_command_def split: option.splits sum.splits)

lemma parse_codex_direct:
  "parse_codex env flds x = Inr y \<Longrightarrow> validate_direct_program (cx_command x) = Inr () \<Longrightarrow>
    validate_direct_program (cx_command y) = Inr ()"
  by (auto simp: parse_codex_def dest: parse_codex_command_Inr)

lemma validate_engine_config_Inr:
  "validate_engine_config c = Inr u \<longleftrightarrow>
    validate_config (ec_processor c) = Inr () \<and> 0 < ec_call_deadline_secs c \<and> 0 < ec_call_output_max_bytes c
    \<and> 0 < ec_publish_ci_deadline_secs c \<and> 0 < ec_publish_ci_backoff_secs c \<and> 0 < ec_review_min_passes c
    \<and> 0 < ec_quarantine_max_attempts c \<and> 0 < ec_approval_deadline_secs c \<and> \<not> branch_refused (ec_main_branch c)"
  by (auto simp: validate_engine_config_def split: sum.splits)

lemma default_command_direct: "validate_direct_program ''codex'' = Inr ()"
  by code_simp


lemma parse_with_environment_Inr:
  assumes "parse_with_environment json env text = Inr c"
  obtains flds p c1 c2 c3 codex prices where
    "active_fields text = Inr flds"
    "parse_processor flds default_config = Inr p"
    "parse_events_knowledge env flds (default_engine_config\<lparr>ec_processor := p\<rparr>) = Inr c1"
    "parse_publication flds c1 = Inr c2"
    "parse_verification json flds c2 = Inr c3"
    "parse_codex env flds (ec_codex c3) = Inr codex"
    "apply_model_pricing_overrides flds (ec_model_pricing c3) = Inr prices"
    "c = c3\<lparr>ec_codex := codex, ec_model_pricing := prices\<rparr>"
    "validate_engine_config c = Inr ()"
proof -
  have dp: "ec_processor default_engine_config = default_config" by (simp add: default_engine_config_def)
  show thesis
    using assms[unfolded parse_with_environment_def Let_def bind_res_Inr dp]
    by (elim exE conjE) (rule that, assumption+, simp_all)
qed

lemma accepted_config_is_valid:
  assumes "parse_with_environment json env text = Inr c"
  shows "processor_new (ec_processor c)
      = Inr \<lparr>pr_config = ec_processor c, pr_state = processor_state_default, pr_recovery_target = None\<rparr>
    \<and> cf_events_outbox_enabled (ec_processor c) = ec_events_outbox c
    \<and> cf_cohort_budget_secs (ec_processor c) \<noteq> Some 0 \<and> cf_cohort_token_budget (ec_processor c) \<noteq> Some 0
    \<and> 0 < ec_events_rotation_min_bytes c \<and> 0 < ec_knowledge_ttl_batches c \<and> 0 < ec_knowledge_cap_per_area c
    \<and> 0 < ec_call_deadline_secs c \<and> 0 < ec_call_output_max_bytes c
    \<and> 0 < ec_publish_ci_deadline_secs c \<and> 0 < ec_publish_ci_backoff_secs c
    \<and> 0 < ec_review_min_passes c \<and> 0 < ec_quarantine_max_attempts c \<and> 0 < ec_approval_deadline_secs c
    \<and> \<not> branch_refused (ec_main_branch c) \<and> verification_sound c
    \<and> validate_direct_program (cx_command (ec_codex c)) = Inr ()"
proof -
  from assms show ?thesis
  proof (rule parse_with_environment_Inr)
    fix flds p c1 c2 c3 codex prices
    assume s: "parse_processor flds default_config = Inr p"
      "parse_events_knowledge env flds (default_engine_config\<lparr>ec_processor := p\<rparr>) = Inr c1"
      "parse_publication flds c1 = Inr c2" "parse_verification json flds c2 = Inr c3"
      "parse_codex env flds (ec_codex c3) = Inr codex"
      and c: "c = c3\<lparr>ec_codex := codex, ec_model_pricing := prices\<rparr>" and v: "validate_engine_config c = Inr ()"
    have e: "0 < ec_events_rotation_min_bytes c1 \<and> 0 < ec_knowledge_ttl_batches c1 \<and> 0 < ec_knowledge_cap_per_area c1
        \<and> ec_processor c1 = p\<lparr>cf_events_outbox_enabled := ec_events_outbox c1\<rparr> \<and> ec_codex c1 = ec_codex default_engine_config"
      using parse_events_knowledge_Inr[OF s(2)] by (simp add: default_engine_config_def)
    note k = parse_publication_keeps[OF s(3)] parse_verification_keeps[OF s(4)]
    have "validate_direct_program (cx_command codex) = Inr ()"
      using parse_codex_direct[OF s(5)] k e default_command_direct by (simp add: default_engine_config_def)
    then show ?thesis
      using v e k parse_processor_budgets[OF s(1)] parse_verification_sound[OF s(4)]
      unfolding c validate_engine_config_Inr
      by (simp add: verification_sound_codex processor_new_def)
  qed
qed

section \<open>The order of the lines\<close>

lemma collect_fields_None:
  "\<forall>line \<in> set lines. active_field line = None \<Longrightarrow> collect_fields n lines flds = Inr flds"
  by (induction lines arbitrary: n) auto

lemma collect_fields_Inr:
  assumes "collect_fields n lines flds = Inr gs" and "bt_invar flds"
  shows "bt_invar gs \<and> distinct (map fst (List.map_filter active_field lines))
    \<and> (\<forall>kv \<in> set (List.map_filter active_field lines). map_of flds (fst kv) = None)
    \<and> map_of gs = map_of flds ++ map_of (List.map_filter active_field lines)"
  using assms
proof (induction n lines flds rule: collect_fields.induct)
  case (1 n flds)
  then show ?case by (simp add: List.map_filter_simps)
next
  case (2 n line rest flds)
  show ?case
  proof (cases "active_field line")
    case None
    then show ?thesis using 2 by (simp add: List.map_filter_simps)
  next
    case (Some kv)
    then obtain k v where kv: "active_field line = Some (k, v)" by (cases kv) auto
    with 2(3) have new: "map_of flds k = None" and go: "collect_fields (n + 1) rest (bt_insert k v flds) = Inr gs"
      by (auto split: if_splits)
    have ih: "bt_invar gs \<and> distinct (map fst (List.map_filter active_field rest))
      \<and> (\<forall>kv \<in> set (List.map_filter active_field rest). map_of (bt_insert k v flds) (fst kv) = None)
      \<and> map_of gs = map_of (bt_insert k v flds) ++ map_of (List.map_filter active_field rest)"
      using 2(2)[OF kv refl] new go bt_insert_invar[OF 2(4)] by simp
    have m: "map_of (bt_insert k v flds) = (map_of flds)(k \<mapsto> v)" by (rule bt_insert_look[OF 2(4)])
    have k: "k \<notin> fst ` set (List.map_filter active_field rest)" using ih unfolding m by force
    then have "map_of (List.map_filter active_field rest) k = None" by (simp add: map_of_eq_None_iff)
    then have "(map_of flds)(k \<mapsto> v) ++ map_of (List.map_filter active_field rest)
        = map_of flds ++ (map_of (List.map_filter active_field rest))(k \<mapsto> v)"
      by (auto simp: map_add_def fun_eq_iff split: option.splits)
    moreover have "map_of (List.map_filter active_field (line # rest)) = (map_of (List.map_filter active_field rest))(k \<mapsto> v)"
      by (simp add: List.map_filter_simps kv)
    ultimately have fin: "map_of gs = map_of flds ++ map_of (List.map_filter active_field (line # rest))"
      using ih unfolding m by metis
    have "\<forall>kv \<in> set (List.map_filter active_field rest). map_of flds (fst kv) = None"
      using ih k unfolding m by (metis fun_upd_other image_eqI)
    then have "distinct (map fst (List.map_filter active_field (line # rest)))
      \<and> (\<forall>kv \<in> set (List.map_filter active_field (line # rest)). map_of flds (fst kv) = None)"
      using ih k new by (simp add: List.map_filter_simps kv)
    with ih fin show ?thesis by blast
  qed
qed

lemma collect_fields_total:
  assumes "distinct (map fst (List.map_filter active_field lines))"
    and "\<forall>kv \<in> set (List.map_filter active_field lines). map_of flds (fst kv) = None" and "bt_invar flds"
  shows "\<exists>gs. collect_fields n lines flds = Inr gs"
  using assms
proof (induction n lines flds rule: collect_fields.induct)
  case (2 n line rest flds)
  show ?case
  proof (cases "active_field line")
    case None
    then show ?thesis using 2 by (simp add: List.map_filter_simps)
  next
    case (Some kv)
    then obtain k v where kv: "active_field line = Some (k, v)" by (cases kv) auto
    have p: "distinct (map fst (List.map_filter active_field rest))" "k \<notin> fst ` set (List.map_filter active_field rest)"
      "map_of flds k = None" "\<forall>kv \<in> set (List.map_filter active_field rest). map_of flds (fst kv) = None"
      using 2(3,4) by (simp_all add: List.map_filter_simps kv)
    have "\<forall>kv \<in> set (List.map_filter active_field rest). map_of (bt_insert k v flds) (fst kv) = None"
      unfolding bt_insert_look[OF 2(5)] using p by auto
    then show ?thesis using 2(2)[OF kv refl _ p(1) _ bt_insert_invar[OF 2(5)]] p(3) by (simp add: kv)
  qed
qed simp

lemma active_fields_Inr:
  "active_fields text = Inr flds \<Longrightarrow>
    bt_invar flds \<and> distinct (map fst (List.map_filter active_field (text_lines text)))
    \<and> map_of flds = map_of (List.map_filter active_field (text_lines text))"
  using collect_fields_Inr[of 1 "text_lines text" "[]" flds] by (simp add: active_fields_def bt_invar_def)

lemma bt_ext:
  assumes "bt_invar (m :: (string, 'v) btmap)" "bt_invar m'" "map_of m = map_of m'"
  shows "m = m'"
proof -
  have d: "distinct (map fst m)" "distinct (map fst m')" using assms by (simp_all add: bt_invar_def)
  have e: "set m = set m'"
    using map_of_eq_Some_iff[OF d(1)] map_of_eq_Some_iff[OF d(2)] assms(3) by auto
  have "inj_on fst (set m \<union> set m')" using d(1) unfolding e[symmetric] by (simp add: distinct_map)
  then show ?thesis
    using assms(1,2) e map_sorted_distinct_set_unique[of fst m m'] by (simp add: bt_invar_def)
qed

lemma mset_map_filter_cong:
  "mset xs = mset ys \<Longrightarrow> mset (List.map_filter f xs) = mset (List.map_filter f ys)"
  by (simp add: List.map_filter_def mset_filter)

lemma active_fields_perm:
  assumes "active_fields text = Inr flds" and p: "mset (text_lines text') = mset (text_lines text)"
  shows "active_fields text' = Inr flds"
proof -
  let ?a = "List.map_filter active_field (text_lines text)" and ?b = "List.map_filter active_field (text_lines text')"
  have f: "bt_invar flds" "distinct (map fst ?a)" "map_of flds = map_of ?a" using active_fields_Inr[OF assms(1)] by auto
  have ab: "mset ?b = mset ?a" using p by (rule mset_map_filter_cong)
  then have "mset (map fst ?b) = mset (map fst ?a)" by (metis mset_map)
  with f(2) have d: "distinct (map fst ?b)" by (metis mset_eq_imp_distinct_iff)
  then obtain gs where g: "active_fields text' = Inr gs"
    using collect_fields_total[of "text_lines text'" "[]" 1] by (auto simp: active_fields_def bt_invar_def)
  have "map_of ?b = map_of ?a"
    using map_of_eq_Some_iff[OF d] map_of_eq_Some_iff[OF f(2)] mset_eq_setD[OF ab]
    by (metis (no_types, lifting) ext not_None_eq)
  then have "gs = flds" using bt_ext[of gs flds] active_fields_Inr[OF g] f by simp
  then show ?thesis using g by simp
qed

lemma active_fields_lookup:
  "active_fields text = Inr flds \<Longrightarrow>
    map_of flds k = Some v \<longleftrightarrow> (\<exists>line \<in> set (text_lines text). active_field line = Some (k, v))"
  using active_fields_Inr[of "text" flds] by (auto simp: List.map_filter_def image_iff)

lemma field_order_is_irrelevant:
  assumes "active_fields text = Inr flds" and "mset (text_lines text') = mset (text_lines text)"
  shows "parse_with_environment json env text' = parse_with_environment json env text
    \<and> (map_of flds k = Some v \<longleftrightarrow> (\<exists>line \<in> set (text_lines text). active_field line = Some (k, v)))"
  using active_fields_perm[OF assms] active_fields_lookup[OF assms(1)] assms(1)
  by (simp add: parse_with_environment_def)

end
