(* ===== verification/Spec2Isabelle.thy ===== *)
theory Spec2Isabelle
  imports ReducerProps ResolverProps EngineProps ReaderProps AdapterProps UsageProps LoopProps LoopFaults PolicyProps ForgeProps ConfigProps
begin

text \<open>
  A verification development for the deterministic core of Orchestrail (\<open>src/engine/src\<close>), an engine
  that takes a queue of tasks through cohorts: it admits tasks with disjoint conflict domains, has
  them implemented and reviewed by model processes, merges them, verifies and publishes the
  integration, waits for CI and archives.

  The program. \<open>processor.rs\<close> is a reducer: it owns the state of the one open cohort and turns each
  \<open>ProcessorCommand\<close> (the observed result of an effect) into a list of \<open>Effect\<close>s to execute. It asks
  pure resolvers (\<open>resolvers/\<close>) for admission, routing, review cycles and vocabulary. \<open>runtime.rs\<close>
  puts a ledger of pending effects and a durable checkpoint around it and appends the projected
  events to the event file before the new state is saved. \<open>execution.rs\<close> drives the emitted effects
  through an executor and feeds the answers back; \<open>native.rs\<close> is the executor, which calls one
  operation of a port per effect and turns what it returns into a command; \<open>native_loop.rs\<close> schedules
  turns, recovery, successive cohorts and watching. The reports of model processes become outcomes by
  \<open>contract.rs\<close> and \<open>outcome_adapter.rs\<close>; the token budget is observed in the event file by the tail
  reader of \<open>events/reader.rs\<close> and the counters of \<open>telemetry.rs\<close>.

  The theories, in the order of their dependencies.
  \<open>Prelude\<close>: saturating counters, strings as byte lists with trimming and decimal printing, ordered
  maps (\<open>BTreeMap\<close>, with a locale of map laws interpreted on them) and ordered sets, the outcome type
  of fallible state changes.
  \<open>TimeIso\<close>: \<open>time.rs\<close>. \<open>Vocab\<close>: \<open>resolvers/vocab.rs\<close>, \<open>resolvers/tiering.rs\<close>, \<open>task_id.rs\<close>.
  \<open>Routing\<close>: \<open>resolvers/coder.rs\<close>, \<open>resolvers/reviewer.rs\<close>. \<open>Cycles\<close>: \<open>resolvers/cycles.rs\<close>.
  \<open>Admission\<close>: \<open>resolvers/admission.rs\<close>, \<open>resolvers/budget.rs\<close>. \<open>ResolverProps\<close>: their properties.
  \<open>ProcessorTypes\<close>, \<open>ProcessorBase\<close>, \<open>ProcessorRolling\<close>, \<open>ProcessorJoin\<close>, \<open>ProcessorClean\<close> and
  \<open>Processor\<close>: \<open>processor.rs\<close>, one definition per handler, in the order of the file; \<open>accept\<close> is the
  step the runtime takes: apply on a copy that is adopted only on success.
  \<open>ProcessorKeeps\<close>: what every handler keeps of the state and what it may emit. \<open>ProcessorInv\<close>: the
  invariant of the reducer, its preservation by every command, session note and acknowledgement, and
  the reachability relation \<open>reducer_run\<close>. \<open>Scenario\<close>: a cohort of two tasks from opening to idle,
  evaluated step by step, for the witnesses. \<open>ReducerProps\<close>: the properties of the reducer.
  \<open>Events\<close>: \<open>events/model.rs\<close> and \<open>events/parse.rs\<close>. \<open>Projector\<close>: \<open>events/projector.rs\<close>.
  \<open>Operations\<close>: the completed operations of \<open>runtime.rs\<close>. \<open>Outbox\<close>, \<open>OutboxProps\<close>:
  \<open>events/outbox.rs\<close>, with the bytes of the file, its torn tail and the cached index.
  \<open>Runtime\<close>: \<open>runtime.rs\<close>, with the keys of effects and answers, the ledger, restarts and recovery
  requirements; where the disk can fail, a fault argument says so. \<open>Answers\<close> relates keys and
  commands; \<open>RuntimeInv\<close> holds the invariant of the ledger, the abstract ledger that the runtime
  implements, and the reachability relation \<open>engine_run\<close>; \<open>EngineScenario\<close> and \<open>EngineProps\<close> the
  concrete run and the properties.
  \<open>Reader\<close>, \<open>ReaderInv\<close>, \<open>ReaderProps\<close>: \<open>events/reader.rs\<close>. \<open>Contract\<close>: \<open>contract.rs\<close> and
  \<open>resolvers/gate.rs\<close>. \<open>OutcomeAdapter\<close>, \<open>AdapterProps\<close>: \<open>outcome_adapter.rs\<close>. \<open>Telemetry\<close>, \<open>Usage\<close>,
  \<open>UsageProps\<close>: the counting and pricing parts of \<open>telemetry.rs\<close> and the token observation of
  \<open>native_port.rs\<close>.
  \<open>CommandLine\<close>: \<open>command_line.rs\<close>. \<open>Policy\<close>: \<open>policy.rs\<close>. \<open>ForgeCi\<close>: \<open>forge_ci.rs\<close> with the polls of
  \<open>headless.rs\<close> and the CI operations of \<open>native_port.rs\<close>. \<open>PolicyProps\<close>, \<open>ForgeProps\<close>: their properties.
  \<open>Config\<close>: \<open>config.rs\<close>. \<open>ConfigProps\<close>: what an accepted configuration guarantees (the reducer accepts it,
  no limit is zero, a written profile is never silently skipped, every command is typed) and that the
  order of its lines does not matter.
  \<open>Native\<close>: \<open>native.rs\<close>; the trait \<open>ProcessorPort\<close> is a record of functions over an arbitrary world.
  \<open>Drive\<close>: \<open>execution.rs\<close>. \<open>NativeLoop\<close>: \<open>native_loop.rs\<close>. \<open>LoopInv\<close>: case and induction rules of the
  loops and the locale \<open>runtime_closed\<close>, whose lemmas carry any property that the operations of the
  runtime keep through the driver and the scheduler; it is interpreted on \<open>engine_run\<close> here and on
  the growth of the event file in \<open>LoopProps\<close>. \<open>LoopScenario\<close>: a port without I/O and runs of the
  scheduler on it. \<open>LoopProps\<close>: the properties of adapter, driver and scheduler. \<open>LoopFaults\<close>: two runs
  that cannot go on.

  Correspondence. A struct is a record with the fields of the source under a two- or three-letter
  prefix, an enum a datatype with the source's variants (renamed where two enums share a name).
  A handler takes the configuration it reads and the state and returns \<open>Inl\<close> error or \<open>Inr\<close> effects with the
  state it leaves behind, as \<open>&mut self\<close> does, errors included. The driver and the scheduler pass the
  runtime and the world explicitly and return both in every case. Strings are UTF-8 byte lists; error
  messages keep the format string and its arguments. \<open>u32\<close> counters are natural numbers with the
  saturation of the source written out; the hash of signatures is a 64-bit word. \<open>to_lowercase\<close> on
  Unicode text, the escaping of \<open>{:?}\<close>, the text of JSON (\<open>serde_json\<close>), the name-based UUID of an event,
  the forge clients, the clocks and the faults of the disk are parameters.

  What is shown. Reducer: publication, merging and destruction happen only in the states that permit
  them; concurrency and review are bounded; tasks at work have disjoint conflict domains and move only
  along their lifecycle; recovery fails closed when an active task has no workspace and none is to be
  made; every model call that the code recognises waits for its budget check. Runtime:
  nothing is visible before it is durable, events precede the state, answers fit a pending effect, the
  ledger follows its specification, restarts resume it and no model call is repeated. Event file:
  replays are idempotent, projected events parse, the reader returns exactly the appended events and
  resumes from its cursor. Reports: a task is ready only on a proved review and the adapter answers every
  report that reaches the review gate as the gate decides, and escalates the others. Budget: a released model call is covered by the tokens that the file reports.
  Policy and CI: a parsed policy is valid and takes no denial or requirement back (its allow lists may
  widen), path globs decide their language, an
  accepted conflict domain covers no denied path, command lines lose no argument, a confirmed CI is a
  complete green answer for the published commit, and watching the CI ends.
  Scheduler: whatever the port, the disk and the clocks do, the runtime stays reachable and the
  history only grows; the adapter's answers fit the checks of the driver, but for one answer to re-anchoring and for
  a reconciling command that the driver itself checks; a lost lease fences the
  port; failed effects stay outstanding; interrupted effects that are not safe to repeat wait for an
  operator, with no call of the port but the looks at lease and pause. Some theorems record behaviour that keeps a cohort from completing or a file from being
  read: a quarantined cohort before a restart, an exhausted wall-clock budget, a second budget halt in one round, a
  crash during a budget check, a re-anchoring that finds its work published, a line of the limit
  length, a heading that panics, and denied paths that one of the two policy checks does not see.

  Bounds. No definition uses fuel. The loops over text recurse on the remaining length; the driver
  terminates by its own step limit and the turns of a cohort by their own turn limit. The loops that
  others can keep alive (cohort after cohort, polling, waves of the watch) are partial functions with
  an option result; what is said of them holds whenever they return, and the bounded scheduler below
  them always returns. The watches of the CI are proved to return, on a clock that does not go back. Timestamps are those of the years up to 9999, and a theorem says that
  later ones do not round-trip.

  Not modelled: the port itself (\<open>native_port.rs\<close> and \<open>headless.rs\<close>: files, version control, agents and
  the forge), of which only the token observation, the CI polls and the reconciliation answer are here; archive segments of the event file and its
  rotation, which the default policy never does; the execution metrics in floating point; the parsers
  of the Markdown state files; approval files and the discovery of the configuration, ownership records and leases;
  the registries of other projects; notifications, the command line and the terminal interface. They
  are I/O, or parsers whose results reach the modelled code as the arguments of commands and as the
  answers of the port, over which the theorems quantify.
\<close>

end
